(* ===== verification/Plaid_Prelude.thy ===== *)
theory Plaid_Prelude
  imports Main "HOL-Library.Word" "HOL-Library.AList" "HOL-Library.Sublist"
begin

text \<open>
  The vocabulary every theory of the development shares: the machine integers of the Rust
  sources, strings and byte vectors, \<^verbatim>\<open>std::collections::HashMap\<close> as an association list
  with distinct keys, \<^verbatim>\<open>std::sync::RwLock\<close> with its poison flag, the byte size of a
  namespace, and the lemmas on them that the component proofs use by simplification.

  Conventions. A \<^verbatim>\<open>String\<close> or \<^verbatim>\<open>&str\<close> is a \<open>string\<close> whose characters are the bytes of its
  UTF-8 encoding, so \<open>length\<close> is \<^verbatim>\<open>as_bytes().len()\<close>. A \<^verbatim>\<open>Vec<u8>\<close> is a list of 8-bit words.
  Unsigned integers are words of their width and their arithmetic wraps around, as it does in
  the release build (\<^verbatim>\<open>runtime/Cargo.toml\<close> does not enable overflow checks); an \<^verbatim>\<open>i32\<close> result
  of a host function is an \<open>int\<close>, with the narrowing cast written out.
\<close>

subsection \<open>Machine integers, strings and bytes\<close>

type_synonym u8 = "8 word"
type_synonym u16 = "16 word"
type_synonym u32 = "32 word"
type_synonym u64 = "64 word"
type_synonym i32 = int
type_synonym bytes = "u8 list"

named_theorems host_defs \<open>definitions of host functions, for unfolding in a call\<close>
named_theorems byte_size \<open>how the byte size of a namespace changes\<close>

definition as_bytes :: "string \<Rightarrow> bytes" where
  "as_bytes s = map of_char s"

lemma length_as_bytes [simp]: "length (as_bytes s) = length s"
  by (simp add: as_bytes_def)

text \<open>The cast \<^verbatim>\<open>n as i32\<close> of a \<^verbatim>\<open>usize\<close>: the low 32 bits, read as two's complement.\<close>

definition as_i32 :: "nat \<Rightarrow> i32" where
  "as_i32 n = sint (word_of_nat n :: 32 word)"

lemma as_i32_small [simp]: "n < 2 ^ 31 \<Longrightarrow> as_i32 n = int n"
  by (simp add: as_i32_def signed_of_nat signed_take_bit_int_eq_self)

lemma as_i32_0 [simp]: "as_i32 0 = 0"
  by (simp add: as_i32_def)

lemma unat_bound: "unat (x :: 'a::len word) < 2 ^ LENGTH('a)"
  by (rule unsigned_less)

lemma unat_u8_bound: "unat (x :: u8) < 256"
  using unat_bound [of x] by simp

lemma of_char_char_of_u8 [simp]: "of_char (char_of (unat x)) = (x :: u8)"
proof -
  have "(of_char (char_of (unat x)) :: nat) = unat x" using unat_u8_bound [of x] by simp
  then have "(of_nat (of_char (char_of (unat x))) :: u8) = word_of_nat (unat x)" by (rule arg_cong)
  then show ?thesis by (simp only: of_nat_of_char) simp
qed

lemma unat_u32_bound: "unat (x :: u32) < 2 ^ 32"
  using unat_bound [of x] by simp

lemma unat_u64_bound: "unat (x :: u64) < 2 ^ 64"
  using unat_bound [of x] by simp

lemma unat_ucast_u32_u64 [simp]: "unat (ucast (x :: u32) :: u64) = unat x"
  using unat_u32_bound [of x] by (simp add: unsigned_ucast_eq take_bit_nat_eq_self)

lemma unat_word_of_nat_u32: "n < 2 ^ 32 \<Longrightarrow> unat (word_of_nat n :: u32) = n"
  by (simp add: unat_of_nat)

lemma unat_word_of_nat_u64: "n < 2 ^ 64 \<Longrightarrow> unat (word_of_nat n :: u64) = n"
  by (simp add: unat_of_nat)

definition saturating_mul_u32 :: "u32 \<Rightarrow> u32 \<Rightarrow> u32" where
  "saturating_mul_u32 a b = (if unat a * unat b < 2 ^ 32 then a * b else - 1)"

lemma unat_saturating_mul_u32:
  "unat (saturating_mul_u32 a b) = min (unat a * unat b) (2 ^ 32 - 1)"
proof (cases "unat a * unat b < 2 ^ 32")
  case True
  then have "unat (a * b) = unat a * unat b"
    by (simp add: unat_word_ariths)
  with True show ?thesis by (simp add: saturating_mul_u32_def)
next
  case False
  moreover have "unat (- 1 :: u32) = 2 ^ 32 - 1"
    by (simp add: unsigned_minus_1_eq_mask mask_eq_exp_minus_1)
  ultimately show ?thesis by (simp add: saturating_mul_u32_def)
qed

subsection \<open>Hash maps and locks of the standard library\<close>

text \<open>
  A \<^verbatim>\<open>HashMap\<close> is an association list with distinct keys, in the (unspecified) order its
  iterators happen to use. No theorem depends on that order.
\<close>

type_synonym ('k, 'v) hashmap = "('k \<times> 'v) list"

definition hm_wf :: "('k, 'v) hashmap \<Rightarrow> bool" where
  "hm_wf m \<longleftrightarrow> distinct (map fst m)"

definition hm_get :: "('k, 'v) hashmap \<Rightarrow> 'k \<Rightarrow> 'v option" where
  "hm_get m k = map_of m k"

definition hm_insert :: "'k \<Rightarrow> 'v \<Rightarrow> ('k, 'v) hashmap \<Rightarrow> ('k, 'v) hashmap" where
  "hm_insert k v m = AList.update k v m"

definition hm_remove :: "'k \<Rightarrow> ('k, 'v) hashmap \<Rightarrow> ('k, 'v) hashmap" where
  "hm_remove k m = AList.delete k m"

lemmas hm_defs = hm_wf_def hm_get_def hm_insert_def hm_remove_def

lemma hm_wf_Nil [simp]: "hm_wf []"
  by (simp add: hm_wf_def)

lemma hm_get_Nil [simp]: "hm_get [] k = None"
  by (simp add: hm_get_def)

lemma hm_get_Nil_fun: "hm_get [] = Map.empty"
  by (rule ext) simp

lemma hm_get_hm_insert_fun: "hm_get (hm_insert k v m) = (hm_get m)(k \<mapsto> v)"
  by (simp add: fun_eq_iff hm_get_def hm_insert_def update_conv')

lemma hm_get_hm_remove_fun: "hm_get (hm_remove k m) = (hm_get m)(k := None)"
  by (simp add: fun_eq_iff hm_get_def hm_remove_def delete_conv')

lemma hm_wf_insert [simp]: "hm_wf m \<Longrightarrow> hm_wf (hm_insert k v m)"
  by (simp add: hm_defs distinct_update)

lemma hm_wf_remove [simp]: "hm_wf m \<Longrightarrow> hm_wf (hm_remove k m)"
  by (simp add: hm_defs distinct_delete)

lemma hm_get_insert [simp]: "hm_get (hm_insert k v m) k' = (if k' = k then Some v else hm_get m k')"
  by (simp add: hm_defs update_conv')

lemma hm_get_remove [simp]: "hm_get (hm_remove k m) k' = (if k' = k then None else hm_get m k')"
  by (simp add: hm_defs delete_conv')

lemma hm_insert_same [simp]: "hm_get m k = Some v \<Longrightarrow> hm_insert k v m = m"
  by (induction m) (auto simp: hm_defs split: if_splits)

lemma hm_get_Some_in_set: "hm_get m k = Some v \<Longrightarrow> (k, v) \<in> set m"
  by (simp add: hm_get_def map_of_SomeD)

lemma hm_get_iff_in_set: "hm_wf m \<Longrightarrow> hm_get m k = Some v \<longleftrightarrow> (k, v) \<in> set m"
  by (simp add: hm_defs)

lemma dom_hm_get: "dom (hm_get m) = fst ` set m"
  by (simp add: hm_get_def [abs_def] dom_map_of_conv_image_fst)

lemma finite_dom_hm_get [simp]: "finite (dom (hm_get m))"
  by (simp add: hm_get_def [abs_def] finite_dom_map_of)

text \<open>
  A \<^verbatim>\<open>std::sync::RwLock\<close> hands its value out unless a thread panicked while it held the lock
  for writing, which poisons it.
\<close>

record 'a rwlock =
  poisoned :: bool
  lock_val :: 'a

definition rwlock_new :: "'a \<Rightarrow> 'a rwlock" where
  "rwlock_new v = \<lparr>poisoned = False, lock_val = v\<rparr>"

lemma rwlock_new_simps [simp]: "\<not> poisoned (rwlock_new v)" "lock_val (rwlock_new v) = v"
  by (simp_all add: rwlock_new_def)

subsection \<open>The byte size of a namespace\<close>

text \<open>
  The bytes a namespace occupies: for each stored pair, the length of its key and of its value.
\<close>

type_synonym ns_map = "string \<rightharpoonup> bytes"

definition map_bytes :: "ns_map \<Rightarrow> nat" where
  "map_bytes m = (\<Sum>k \<in> dom m. length k + length (the (m k)))"

definition entry_bytes :: "ns_map \<Rightarrow> string \<Rightarrow> nat" where
  "entry_bytes m k = (case m k of None \<Rightarrow> 0 | Some v \<Rightarrow> length k + length v)"

lemma map_bytes_empty [simp]: "map_bytes Map.empty = 0"
  by (simp add: map_bytes_def)

lemma map_bytes_split:
  assumes "finite (dom m)" and "m k = Some v"
  shows "map_bytes m = length k + length v + map_bytes (m(k := None))"
proof -
  let ?f = "\<lambda>m k. length k + length (the (m k))"
  have 1: "map_bytes m = ?f m k + sum (?f m) (dom m - {k})"
    unfolding map_bytes_def using assms by (intro sum.remove) auto
  have 2: "sum (?f m) (dom m - {k}) = map_bytes (m(k := None))"
    unfolding map_bytes_def by (rule sum.cong) auto
  from 1 2 assms(2) show ?thesis by simp
qed

lemma map_bytes_delete [byte_size]:
  assumes "finite (dom m)"
  shows "map_bytes (m(k := None)) + entry_bytes m k = map_bytes m"
proof (cases "m k")
  case None
  then have "m(k := None) = m" by auto
  then show ?thesis by (simp add: None entry_bytes_def)
next
  case (Some v)
  from map_bytes_split [OF assms Some] show ?thesis by (simp add: Some entry_bytes_def)
qed

lemma map_bytes_update [byte_size]:
  assumes "finite (dom m)"
  shows "map_bytes (m(k \<mapsto> v)) + entry_bytes m k = map_bytes m + (length k + length v)"
proof -
  have "map_bytes (m(k \<mapsto> v)) = length k + length v + map_bytes (m(k := None))"
    using assms map_bytes_split [of "m(k \<mapsto> v)" k v] by simp
  with map_bytes_delete [OF assms, of k] show ?thesis by linarith
qed

lemma map_bytes_delete_le: "finite (dom m) \<Longrightarrow> map_bytes (m(k := None)) \<le> map_bytes m"
  using map_bytes_delete [of m k] by simp

lemma map_bytes_update_le:
  "finite (dom m) \<Longrightarrow> map_bytes (m(k \<mapsto> v)) \<le> map_bytes m + (length k + length v)"
  using map_bytes_update [of m k v] by simp

lemma entry_bytes_le: "finite (dom m) \<Longrightarrow> entry_bytes m k \<le> map_bytes m"
  using map_bytes_delete [of m k] by simp

text \<open>Counted along a listing of its entries.\<close>

lemma map_bytes_hm_get:
  "hm_wf m \<Longrightarrow> map_bytes (hm_get m) = (\<Sum>(k, v) \<leftarrow> m. length k + length v)"
proof (induction m)
  case Nil
  then show ?case by (simp add: map_bytes_def hm_get_def [abs_def])
next
  case (Cons kv m)
  obtain k v where kv: "kv = (k, v)" by force
  have get: "hm_get ((k, v) # m) = (hm_get m)(k \<mapsto> v)"
    by (auto simp: hm_get_def)
  have none: "hm_get m k = None" and wf: "hm_wf m"
    using Cons.prems by (auto simp: hm_defs kv map_of_eq_None_iff)
  have "map_bytes (hm_get ((k, v) # m)) = map_bytes (hm_get m) + (length k + length v)"
    unfolding get using map_bytes_update [of "hm_get m" k v] none by (simp add: entry_bytes_def)
  then show ?case
    using Cons.IH [OF wf] by (simp add: kv)
qed

end
