(* ===== verification/Plaid_Memory.thy ===== *)
theory Plaid_Memory
  imports Plaid_Prelude
begin

text \<open>
  The boundary between the host and a guest module: the error codes of
  \<^verbatim>\<open>runtime/plaid/src/functions/mod.rs\<close> and the memory access functions of
  \<^verbatim>\<open>functions/memory.rs\<close>. The WebAssembly memory itself belongs to the \<^verbatim>\<open>wasmer\<close> crate: the record
  \<open>wasm_ops\<close> holds the four operations the host calls, as parameters of every definition, and
  \<open>wasm_mem_ok\<close> states what their documentation promises. \<open>flat_ops\<close> is an instance of them on a
  flat byte array, at which the witnesses are evaluated.
\<close>

datatype function_errors =
    ApiNotConfigured
  | ReturnBufferTooSmall
  | ErrorCouldNotSerialize
  | InternalApiError
  | ParametersNotUtf8
  | InvalidPointer
  | CacheDisabled
  | CouldNotGetAdequateMemory
  | FailedToWriteGuestMemory
  | StorageLimitReached
  | TestMode
  | OperationNotAllowed
  | SharedDbFnError
  | TimeoutElapsed
  | FailedToLogBack
  | LogbackBudgetExhausted

fun error_code :: "function_errors \<Rightarrow> i32" where
  "error_code ApiNotConfigured = -1"
| "error_code ReturnBufferTooSmall = -2"
| "error_code ErrorCouldNotSerialize = -3"
| "error_code InternalApiError = -4"
| "error_code ParametersNotUtf8 = -5"
| "error_code InvalidPointer = -6"
| "error_code CacheDisabled = -7"
| "error_code CouldNotGetAdequateMemory = -8"
| "error_code FailedToWriteGuestMemory = -9"
| "error_code StorageLimitReached = -10"
| "error_code TestMode = -11"
| "error_code OperationNotAllowed = -12"
| "error_code SharedDbFnError = -13"
| "error_code TimeoutElapsed = -14"
| "error_code FailedToLogBack = -15"
| "error_code LogbackBudgetExhausted = -16"

lemma error_code_neg: "error_code e < 0"
  by (cases e) simp_all

lemma error_code_ge: "- 16 \<le> error_code e"
  by (cases e) simp_all

text \<open>A host function that ends in \<^verbatim>\<open>Ok(x) => x, Err(e) => e as i32\<close>.\<close>

definition result_code :: "function_errors + i32 \<Rightarrow> i32" where
  "result_code r = (case r of Inl e \<Rightarrow> error_code e | Inr x \<Rightarrow> x)"

lemma result_code_simps [simp]: "result_code (Inl e) = error_code e" "result_code (Inr x) = x"
  by (simp_all add: result_code_def)

subsection \<open>Guest memory\<close>

record 'm wasm_ops =
  view_read :: "'m \<Rightarrow> u64 \<Rightarrow> nat \<Rightarrow> bytes option"
  read_utf8_string :: "'m \<Rightarrow> u32 \<Rightarrow> u32 \<Rightarrow> string option"
  ptr_slice :: "'m \<Rightarrow> u32 \<Rightarrow> u32 \<Rightarrow> bool"
  write_slice :: "'m \<Rightarrow> u32 \<Rightarrow> bytes \<Rightarrow> 'm option"

definition wasm_mem_ok :: "'m wasm_ops \<Rightarrow> bool" where
  "wasm_mem_ok W \<longleftrightarrow>
     (\<forall>m p d m'. write_slice W m p d = Some m' \<longrightarrow> view_read W m' (ucast p) (length d) = Some d)
   \<and> (\<forall>m p d. length d < 2 ^ 32 \<longrightarrow> ptr_slice W m p (word_of_nat (length d)) \<longrightarrow> write_slice W m p d \<noteq> None)
   \<and> (\<forall>m p n b. view_read W m p n = Some b \<longrightarrow> length b = n)
   \<and> (\<forall>m p n s. read_utf8_string W m p n = Some s \<longrightarrow>
        view_read W m (ucast p) (unat n) = Some (as_bytes s))"

definition WASM_PAGE_SIZE :: u32 where
  "WASM_PAGE_SIZE = 65536"

definition calculate_max_buffer_size :: "u32 \<Rightarrow> u32" where
  "calculate_max_buffer_size page_limit = saturating_mul_u32 page_limit WASM_PAGE_SIZE"

definition get_memory :: "'m option \<Rightarrow> function_errors + 'm" where
  "get_memory env_memory = (case env_memory of Some m \<Rightarrow> Inr m | None \<Rightarrow> Inl InternalApiError)"

definition safely_get_string :: "'m wasm_ops \<Rightarrow> 'm \<Rightarrow> u32 \<Rightarrow> u32 \<Rightarrow> function_errors + string" where
  "safely_get_string W m data_buffer buffer_size =
     (case read_utf8_string W m data_buffer buffer_size of
        Some s \<Rightarrow> Inr s
      | None \<Rightarrow> Inl ParametersNotUtf8)"

definition safely_get_memory ::
  "'m wasm_ops \<Rightarrow> 'm \<Rightarrow> u32 \<Rightarrow> u32 \<Rightarrow> u32 \<Rightarrow> function_errors + bytes" where
  "safely_get_memory W m data_buffer buffer_size max_buffer_size =
     (if buffer_size > max_buffer_size then Inl CouldNotGetAdequateMemory
      else case view_read W m (ucast data_buffer) (unat buffer_size) of
             Some buffer \<Rightarrow> Inr buffer
           | None \<Rightarrow> Inl CouldNotGetAdequateMemory)"

definition safely_write_data_back ::
  "'m wasm_ops \<Rightarrow> 'm \<Rightarrow> bytes \<Rightarrow> u32 \<Rightarrow> u32 \<Rightarrow> (function_errors + i32) \<times> 'm" where
  "safely_write_data_back W m data data_buffer buffer_size =
     (if buffer_size = 0 then (Inr (as_i32 (length data)), m)
      else if length data > unat buffer_size then (Inl ReturnBufferTooSmall, m)
      else if \<not> ptr_slice W m data_buffer (word_of_nat (length data))
      then (Inl CouldNotGetAdequateMemory, m)
      else case write_slice W m data_buffer data of
             None \<Rightarrow> (Inl FailedToWriteGuestMemory, m)
           | Some m' \<Rightarrow> (Inr (as_i32 (length data)), m'))"

subsection \<open>A flat memory\<close>

definition flat_read :: "bytes \<Rightarrow> u64 \<Rightarrow> nat \<Rightarrow> bytes option" where
  "flat_read m off n = (if unat off + n \<le> length m then Some (take n (drop (unat off) m)) else None)"

definition flat_write :: "bytes \<Rightarrow> u32 \<Rightarrow> bytes \<Rightarrow> bytes option" where
  "flat_write m p d =
     (if unat p + length d \<le> length m
      then Some (take (unat p) m @ d @ drop (unat p + length d) m) else None)"

definition flat_read_string :: "bytes \<Rightarrow> u32 \<Rightarrow> u32 \<Rightarrow> string option" where
  "flat_read_string m p n =
     (case flat_read m (ucast p) (unat n) of
        Some b \<Rightarrow> if list_all (\<lambda>x. x < 128) b then Some (map (\<lambda>x. char_of (unat x)) b) else None
      | None \<Rightarrow> None)"

definition flat_ops :: "bytes wasm_ops" where
  "flat_ops = \<lparr>view_read = flat_read, read_utf8_string = flat_read_string,
     ptr_slice = (\<lambda>m p n. unat p + unat n \<le> length m), write_slice = flat_write\<rparr>"

lemma flat_ops_sel [simp]:
  "view_read flat_ops = flat_read" "read_utf8_string flat_ops = flat_read_string"
  "ptr_slice flat_ops = (\<lambda>m p n. unat p + unat n \<le> length m)" "write_slice flat_ops = flat_write"
  by (simp_all add: flat_ops_def)

lemma flat_read_string_bytes:
  assumes "flat_read_string m p n = Some s"
  shows "flat_read m (ucast p) (unat n) = Some (as_bytes s)"
proof -
  obtain b where b: "flat_read m (ucast p) (unat n) = Some b" "s = map (\<lambda>x. char_of (unat x)) b"
    using assms by (auto simp: flat_read_string_def split: option.splits if_splits)
  show ?thesis using b by (simp add: as_bytes_def o_def)
qed

lemma wasm_mem_ok_flat: "wasm_mem_ok flat_ops"
  unfolding wasm_mem_ok_def
proof (intro conjI allI impI)
  fix m p d m' assume "write_slice flat_ops m p d = Some m'"
  then show "view_read flat_ops m' (ucast p) (length d) = Some d"
    by (auto simp: flat_write_def flat_read_def split: if_splits)
next
  fix m p and d :: bytes
  assume "length d < 2 ^ 32" and "ptr_slice flat_ops m p (word_of_nat (length d))"
  then show "write_slice flat_ops m p d \<noteq> None"
    by (simp add: flat_write_def unat_of_nat)
next
  fix m p n b assume "view_read flat_ops m p n = Some b"
  then show "length b = n" by (auto simp: flat_read_def split: if_splits)
qed (simp add: flat_read_string_bytes)

subsection \<open>Lemmas the host functions use\<close>

lemma write_back_unchanged:
  "safely_write_data_back W m data p n = (Inl e, m') \<Longrightarrow> m' = m"
  by (auto simp: safely_write_data_back_def split: if_splits option.splits)

lemma write_back_probe: "safely_write_data_back W m data p 0 = (Inr (as_i32 (length data)), m)"
  by (simp add: safely_write_data_back_def)

lemma write_back_Ok:
  assumes "safely_write_data_back W m data p n = (Inr x, m')" and "n \<noteq> 0"
  shows "x = as_i32 (length data)" and "length data \<le> unat n" and "write_slice W m p data = Some m'"
  using assms by (auto simp: safely_write_data_back_def split: if_splits option.splits)

lemma write_back_fits:
  assumes "wasm_mem_ok W" and "length data \<le> unat n" and "n \<noteq> 0" and "ptr_slice W m p (word_of_nat (length data))"
  obtains m' where "safely_write_data_back W m data p n = (Inr (as_i32 (length data)), m')"
    and "view_read W m' (ucast p) (length data) = Some data"
proof -
  have "length data < 2 ^ 32" using assms(2) unat_u32_bound [of n] by simp
  then obtain m' where "write_slice W m p data = Some m'" "view_read W m' (ucast p) (length data) = Some data"
    using assms(1,4) unfolding wasm_mem_ok_def by blast
  then show thesis using that assms(2-4) by (simp add: safely_write_data_back_def)
qed

subsection \<open>Properties\<close>

text \<open>
  Every outcome of handing data back to a guest. With an empty buffer the call is a size
  probe and writes nothing. Otherwise data that does not fit is refused with
  \<open>ReturnBufferTooSmall\<close>, a buffer outside the memory with \<open>CouldNotGetAdequateMemory\<close>, both leaving
  the memory untouched; and data that fits is in the guest's memory afterwards, byte for byte.
\<close>

theorem write_back_outcomes:
  assumes "wasm_mem_ok W"
  shows "safely_write_data_back W m data p 0 = (Inr (as_i32 (length data)), m)
    \<and> (n \<noteq> 0 \<longrightarrow> length data > unat n \<longrightarrow>
         safely_write_data_back W m data p n = (Inl ReturnBufferTooSmall, m))
    \<and> (n \<noteq> 0 \<longrightarrow> length data \<le> unat n \<longrightarrow> \<not> ptr_slice W m p (word_of_nat (length data)) \<longrightarrow>
         safely_write_data_back W m data p n = (Inl CouldNotGetAdequateMemory, m))
    \<and> (n \<noteq> 0 \<longrightarrow> length data \<le> unat n \<longrightarrow> ptr_slice W m p (word_of_nat (length data)) \<longrightarrow>
         (\<exists>m'. safely_write_data_back W m data p n = (Inr (as_i32 (length data)), m')
             \<and> view_read W m' (ucast p) (length data) = Some data))"
proof -
  have lt: "length data < 2 ^ 32" if "length data \<le> unat n"
    using that unat_u32_bound [of n] by simp
  have "\<exists>m'. write_slice W m p data = Some m' \<and> view_read W m' (ucast p) (length data) = Some data"
    if "length data \<le> unat n" "ptr_slice W m p (word_of_nat (length data))"
    using assms lt that unfolding wasm_mem_ok_def by blast
  then show ?thesis
    by (auto simp: safely_write_data_back_def)
qed

theorem write_back_outcomes_witness:
  "wasm_mem_ok flat_ops
   \<and> safely_write_data_back flat_ops [0, 0, 0, 0] [7, 8] 1 3 = (Inr 2, [0, 7, 8, 0])
   \<and> safely_write_data_back flat_ops [0, 0, 0, 0] [7, 8] 1 1 = (Inl ReturnBufferTooSmall, [0, 0, 0, 0])
   \<and> (\<exists>m'. safely_write_data_back flat_ops [0, 0, 0, 0] [7, 8] 1 3 = (Inr (as_i32 (length [7, 8 :: u8])), m')
          \<and> view_read flat_ops m' 1 (length [7, 8 :: u8]) = Some [7, 8])"
proof -
  have "\<exists>m'. safely_write_data_back flat_ops [0, 0, 0, 0] [7, 8] 1 3 = (Inr (as_i32 (length [7, 8 :: u8])), m')
          \<and> view_read flat_ops m' 1 (length [7, 8 :: u8]) = Some [7, 8]"
    using write_back_outcomes [OF wasm_mem_ok_flat, of "[0, 0, 0, 0]" "[7, 8]" 1 3]
    by simp
  then show ?thesis
    by (simp add: wasm_mem_ok_flat safely_write_data_back_def flat_write_def)
qed

text \<open>
  Round trip through the guest: what the host wrote into a buffer is what it reads back from
  there, as long as the module's own size limit admits a read of that length.
\<close>

theorem write_back_read_roundtrip:
  assumes "wasm_mem_ok W" and "safely_write_data_back W m data p n = (Inr x, m')" and "n \<noteq> 0"
    and "word_of_nat (length data) \<le> max_buffer_size"
  shows "safely_get_memory W m' p (word_of_nat (length data)) max_buffer_size = Inr data"
proof -
  note ok = write_back_Ok [OF assms(2,3)]
  have "unat (word_of_nat (length data) :: u32) = length data"
    using ok(2) unat_u32_bound [of n] by (simp add: unat_of_nat)
  moreover have "view_read W m' (ucast p) (length data) = Some data"
    using assms(1) ok(3) unfolding wasm_mem_ok_def by blast
  ultimately show ?thesis
    using assms(4) by (simp add: safely_get_memory_def not_less)
qed

theorem write_back_read_roundtrip_witness:
  "safely_get_memory flat_ops [0, 7, 8, 0] 1 2 (calculate_max_buffer_size 1) = Inr [7, 8]"
proof -
  have "safely_write_data_back flat_ops [0, 0, 0, 0] [7, 8] 1 3 = (Inr 2, [0, 7, 8, 0])"
    by (simp add: safely_write_data_back_def flat_write_def)
  from write_back_read_roundtrip [OF wasm_mem_ok_flat this, of "calculate_max_buffer_size 1"]
  show ?thesis
    by (simp add: calculate_max_buffer_size_def saturating_mul_u32_def WASM_PAGE_SIZE_def)
qed

text \<open>
  The largest buffer a module may hand to the host is its page limit in bytes, saturated at
  the largest 32-bit value; a larger request is refused before any memory is read, and a granted
  one never exceeds the module's pages.
\<close>

theorem guest_read_bounded:
  assumes "wasm_mem_ok W"
    and "safely_get_memory W m p n (calculate_max_buffer_size page_limit) = Inr buffer"
  shows "length buffer = unat n \<and> length buffer \<le> unat page_limit * 65536 \<and> length buffer < 2 ^ 32"
proof -
  have "n \<le> calculate_max_buffer_size page_limit" and read: "view_read W m (ucast p) (unat n) = Some buffer"
    using assms(2) by (auto simp: safely_get_memory_def split: if_splits option.splits)
  then have "unat n \<le> min (unat page_limit * 65536) (2 ^ 32 - 1)"
    using unat_saturating_mul_u32 [of page_limit WASM_PAGE_SIZE]
    by (simp add: calculate_max_buffer_size_def word_le_nat_alt WASM_PAGE_SIZE_def)
  moreover have "length buffer = unat n"
    using assms(1) read unfolding wasm_mem_ok_def by blast
  ultimately show ?thesis by simp
qed

theorem guest_read_bounded_witness:
  "safely_get_memory flat_ops [1, 2, 3] 1 2 (calculate_max_buffer_size 1) = Inr [2, 3]
   \<and> length [2, 3 :: u8] \<le> unat (1 :: u32) * 65536"
proof -
  have "safely_get_memory flat_ops [1, 2, 3] 1 2 (calculate_max_buffer_size 1) = Inr [2, 3]"
    by (simp add: safely_get_memory_def calculate_max_buffer_size_def saturating_mul_u32_def
        WASM_PAGE_SIZE_def flat_read_def)
  with guest_read_bounded [OF wasm_mem_ok_flat this] show ?thesis by simp
qed

end
