(* ===== verification/Plaid_Storage.thy ===== *)
theory Plaid_Storage
  imports Plaid_Prelude
begin

text \<open>
  The storage layer, \<^verbatim>\<open>runtime/plaid/src/storage/mod.rs\<close> and the in-memory backend
  \<^verbatim>\<open>storage/in_memory/mod.rs\<close>. A trait object \<^verbatim>\<open>Box<dyn StorageProvider>\<close> is a record of the
  trait's methods (its vtable) next to the backend's state. The locale \<open>storage_contract\<close> is
  what the trait's documentation promises of every backend; the default methods, the
  initialisation of shared databases and, in later theories, the host functions are proved
  correct against it, and it is interpreted on the in-memory backend.
\<close>

subsection \<open>Data\<close>

datatype limit_value = Unlimited | Limited u64

record shared_db_config =
  size_limit :: limit_value
  sdb_r :: "string list"
  sdb_rw :: "string list"

record shared_db =
  sdb_config :: shared_db_config
  used_storage :: "u64 rwlock"

datatype ('s, 'y) database_config = Sled 's | DynamoDb 'y | InMemory

record ('s, 'y) storage_config =
  cfg_db :: "('s, 'y) database_config option"
  cfg_shared_dbs :: "(string, shared_db_config) hashmap option"

datatype storage_error =
    StorageInitError string
  | NoStorageConfigured
  | CouldNotAccessStorage string
  | Access string
  | SharedDbError string

fun storage_error_fmt :: "storage_error \<Rightarrow> string" where
  "storage_error_fmt (StorageInitError e) = ''Error while initializing storage: '' @ e"
| "storage_error_fmt NoStorageConfigured = ''No storage system configuration could be found''"
| "storage_error_fmt (CouldNotAccessStorage e) =
     ''Access to the storage datastore was not possible: '' @ e"
| "storage_error_fmt (Access e) = ''There was a failure accessing a key: '' @ e"
| "storage_error_fmt (SharedDbError e) =
     ''Error while attempting an operation on a shared DB: '' @ e"

text \<open>The trait \<^verbatim>\<open>StorageProvider\<close>: the methods every backend implements.\<close>

record 'd storage_provider =
  sp_is_persistent :: bool
  sp_insert :: "'d \<Rightarrow> string \<Rightarrow> string \<Rightarrow> bytes \<Rightarrow> (storage_error + bytes option) \<times> 'd"
  sp_get :: "'d \<Rightarrow> string \<Rightarrow> string \<Rightarrow> storage_error + bytes option"
  sp_delete :: "'d \<Rightarrow> string \<Rightarrow> string \<Rightarrow> (storage_error + bytes option) \<times> 'd"
  sp_list_keys :: "'d \<Rightarrow> string \<Rightarrow> string option \<Rightarrow> storage_error + string list"
  sp_fetch_all :: "'d \<Rightarrow> string \<Rightarrow> string option \<Rightarrow> storage_error + (string \<times> bytes option) list"

record 'd storage =
  vtable :: "'d storage_provider"
  database :: 'd
  shared_dbs :: "(string, shared_db) hashmap option"

subsection \<open>The default methods of the trait\<close>

definition get_namespace_byte_size :: "'d storage_provider \<Rightarrow> 'd \<Rightarrow> string \<Rightarrow> storage_error + u64" where
  "get_namespace_byte_size P d namespace =
     (case sp_fetch_all P d namespace None of
        Inl e \<Rightarrow> Inl e
      | Inr entries \<Rightarrow>
          Inr (\<Sum>(key, value) \<leftarrow> entries.
             let key_size = word_of_nat (length key);
                 value_size = (case value of None \<Rightarrow> 0 | Some v \<Rightarrow> word_of_nat (length v))
             in key_size + value_size))"

fun apply_migration_loop ::
  "'d storage_provider \<Rightarrow> string \<Rightarrow> (string \<Rightarrow> bytes \<Rightarrow> string \<times> bytes)
     \<Rightarrow> (string \<times> bytes option) list \<Rightarrow> 'd \<Rightarrow> (storage_error + unit) \<times> 'd" where
  "apply_migration_loop P namespace f [] d = (Inr (), d)"
| "apply_migration_loop P namespace f ((key, None) # entries) d =
     apply_migration_loop P namespace f entries d"
| "apply_migration_loop P namespace f ((key, Some value) # entries) d =
     (let (new_key, new_value) = f key value
      in case sp_delete P d namespace key of
           (Inl e, d1) \<Rightarrow> (Inl e, d1)
         | (Inr _, d1) \<Rightarrow>
             (case sp_insert P d1 namespace new_key new_value of
                (Inl e, d2) \<Rightarrow> (Inl e, d2)
              | (Inr _, d2) \<Rightarrow> apply_migration_loop P namespace f entries d2))"

definition apply_migration ::
  "'d storage_provider \<Rightarrow> 'd \<Rightarrow> string \<Rightarrow> (string \<Rightarrow> bytes \<Rightarrow> string \<times> bytes)
     \<Rightarrow> (storage_error + unit) \<times> 'd" where
  "apply_migration P d namespace f =
     (case sp_fetch_all P d namespace None of
        Inl e \<Rightarrow> (Inl e, d)
      | Inr entries \<Rightarrow> apply_migration_loop P namespace f entries d)"

subsection \<open>The storage object\<close>

definition storage_insert ::
  "'d storage \<Rightarrow> string \<Rightarrow> string \<Rightarrow> bytes \<Rightarrow> (storage_error + bytes option) \<times> 'd storage" where
  "storage_insert st namespace key val =
     (let (r, d) = sp_insert (vtable st) (database st) namespace key val
      in (r, st\<lparr>database := d\<rparr>))"

definition storage_get :: "'d storage \<Rightarrow> string \<Rightarrow> string \<Rightarrow> storage_error + bytes option" where
  "storage_get st namespace key = sp_get (vtable st) (database st) namespace key"

definition storage_delete ::
  "'d storage \<Rightarrow> string \<Rightarrow> string \<Rightarrow> (storage_error + bytes option) \<times> 'd storage" where
  "storage_delete st namespace key =
     (let (r, d) = sp_delete (vtable st) (database st) namespace key in (r, st\<lparr>database := d\<rparr>))"

definition storage_list_keys ::
  "'d storage \<Rightarrow> string \<Rightarrow> string option \<Rightarrow> storage_error + string list" where
  "storage_list_keys st namespace p = sp_list_keys (vtable st) (database st) namespace p"

definition storage_fetch_all ::
  "'d storage \<Rightarrow> string \<Rightarrow> string option \<Rightarrow> storage_error + (string \<times> bytes option) list" where
  "storage_fetch_all st namespace p = sp_fetch_all (vtable st) (database st) namespace p"

definition storage_get_namespace_byte_size :: "'d storage \<Rightarrow> string \<Rightarrow> storage_error + u64" where
  "storage_get_namespace_byte_size st namespace =
     get_namespace_byte_size (vtable st) (database st) namespace"

definition init_shared_db ::
  "string \<Rightarrow> shared_db_config \<Rightarrow> 'd storage_provider \<Rightarrow> 'd \<Rightarrow> storage_error + (string \<times> shared_db)" where
  "init_shared_db db_name db_config P d =
     (if suffix ''.wasm'' db_name
      then Inl (SharedDbError ''The name of a shared DB must not end with .wasm'')
      else case get_namespace_byte_size P d db_name of
        Inl e \<Rightarrow> Inl (SharedDbError (''Could not count used storage in shared DB: '' @ storage_error_fmt e))
      | Inr used \<Rightarrow> Inr (db_name, \<lparr>sdb_config = db_config, used_storage = rwlock_new used\<rparr>))"

text \<open>\<^verbatim>\<open>collect::<Result<_, _>>\<close>: all the successes, or the first error.\<close>

fun collect_results :: "('e + 'a) list \<Rightarrow> 'e + 'a list" where
  "collect_results [] = Inr []"
| "collect_results (Inl e # rs) = Inl e"
| "collect_results (Inr x # rs) =
     (case collect_results rs of Inl e \<Rightarrow> Inl e | Inr xs \<Rightarrow> Inr (x # xs))"

text \<open>
  \<^verbatim>\<open>Storage::new\<close>. The constructors of the Sled and DynamoDB backends open an external
  database and are parameters; all backends are boxed, so they share one type.
\<close>

definition storage_new ::
  "('s \<Rightarrow> storage_error + ('d storage_provider \<times> 'd)) \<Rightarrow> ('y \<Rightarrow> string + ('d storage_provider \<times> 'd))
     \<Rightarrow> ('d storage_provider \<times> 'd) \<Rightarrow> ('s, 'y) storage_config \<Rightarrow> storage_error + 'd storage" where
  "storage_new sled_new dynamodb_new in_memory_new config =
     (case (case cfg_db config of
              Some (Sled c) \<Rightarrow> sled_new c
            | Some (DynamoDb c) \<Rightarrow>
                (case dynamodb_new c of Inl e \<Rightarrow> Inl (StorageInitError e) | Inr b \<Rightarrow> Inr b)
            | Some InMemory \<Rightarrow> Inr in_memory_new
            | None \<Rightarrow> Inl NoStorageConfigured) of
        Inl e \<Rightarrow> Inl e
      | Inr (P, d) \<Rightarrow>
          (case cfg_shared_dbs config of
             None \<Rightarrow> Inr \<lparr>vtable = P, database = d, shared_dbs = None\<rparr>
           | Some dbs \<Rightarrow>
               (case collect_results (map (\<lambda>(n, c). init_shared_db n c P d) dbs) of
                  Inl e \<Rightarrow> Inl e
                | Inr m \<Rightarrow> Inr \<lparr>vtable = P, database = d, shared_dbs = Some m\<rparr>)))"

subsection \<open>The in-memory backend\<close>

type_synonym in_memory_db = "(string, (string, bytes) hashmap) hashmap"

definition prefix_filter :: "string option \<Rightarrow> string \<Rightarrow> bool" where
  "prefix_filter p k = (case p of None \<Rightarrow> True | Some p \<Rightarrow> prefix p k)"

definition in_memory_new :: in_memory_db where
  "in_memory_new = []"

definition in_memory_insert ::
  "in_memory_db \<Rightarrow> string \<Rightarrow> string \<Rightarrow> bytes \<Rightarrow> (storage_error + bytes option) \<times> in_memory_db" where
  "in_memory_insert db namespace key val =
     (let ns = (case hm_get db namespace of None \<Rightarrow> [] | Some ns \<Rightarrow> ns)
      in (Inr (hm_get ns key), hm_insert namespace (hm_insert key val ns) db))"

definition in_memory_get :: "in_memory_db \<Rightarrow> string \<Rightarrow> string \<Rightarrow> storage_error + bytes option" where
  "in_memory_get db namespace key =
     Inr (case hm_get db namespace of None \<Rightarrow> None | Some ns \<Rightarrow> hm_get ns key)"

definition in_memory_delete ::
  "in_memory_db \<Rightarrow> string \<Rightarrow> string \<Rightarrow> (storage_error + bytes option) \<times> in_memory_db" where
  "in_memory_delete db namespace key =
     (case hm_get db namespace of
        Some ns \<Rightarrow> (Inr (hm_get ns key), hm_insert namespace (hm_remove key ns) db)
      | None \<Rightarrow> (Inr None, db))"

definition in_memory_list_keys ::
  "in_memory_db \<Rightarrow> string \<Rightarrow> string option \<Rightarrow> storage_error + string list" where
  "in_memory_list_keys db namespace p =
     Inr (case hm_get db namespace of
            None \<Rightarrow> []
          | Some ns \<Rightarrow> filter (prefix_filter p) (map fst ns))"

definition in_memory_fetch_all ::
  "in_memory_db \<Rightarrow> string \<Rightarrow> string option \<Rightarrow> storage_error + (string \<times> bytes option) list" where
  "in_memory_fetch_all db namespace p =
     Inr (case hm_get db namespace of
            None \<Rightarrow> []
          | Some ns \<Rightarrow> map (\<lambda>(k, v). (k, Some v)) (filter (\<lambda>(k, _). prefix_filter p k) ns))"

definition in_memory_provider :: "in_memory_db storage_provider" where
  "in_memory_provider =
     \<lparr>sp_is_persistent = False, sp_insert = in_memory_insert, sp_get = in_memory_get,
      sp_delete = in_memory_delete, sp_list_keys = in_memory_list_keys,
      sp_fetch_all = in_memory_fetch_all\<rparr>"

definition storage_new_in_memory :: "in_memory_db storage" where
  "storage_new_in_memory = \<lparr>vtable = in_memory_provider, database = in_memory_new, shared_dbs = None\<rparr>"

lemma in_memory_provider_sel [simp]:
  "sp_insert in_memory_provider = in_memory_insert"
  "sp_get in_memory_provider = in_memory_get"
  "sp_delete in_memory_provider = in_memory_delete"
  "sp_list_keys in_memory_provider = in_memory_list_keys"
  "sp_fetch_all in_memory_provider = in_memory_fetch_all"
  by (simp_all add: in_memory_provider_def)

lemmas storage_ops = storage_insert_def storage_get_def storage_delete_def
  storage_list_keys_def storage_fetch_all_def storage_get_namespace_byte_size_def

subsection \<open>Migrating a map of entries\<close>

text \<open>
  \<open>migrate_map f m C\<close> runs the migration over the entries \<open>m\<close> on a plain map \<open>C\<close>. It computes the
  image of the entries as long as no new key collides with another entry's new or old key.
\<close>

fun migrate_map :: "(string \<Rightarrow> bytes \<Rightarrow> string \<times> bytes) \<Rightarrow> (string, bytes) hashmap \<Rightarrow> ns_map \<Rightarrow> ns_map" where
  "migrate_map f [] C = C"
| "migrate_map f ((k, v) # m) C =
     migrate_map f m (C(k := None, fst (f k v) \<mapsto> snd (f k v)))"

definition migration_safe :: "(string \<Rightarrow> bytes \<Rightarrow> string \<times> bytes) \<Rightarrow> ns_map \<Rightarrow> bool" where
  "migration_safe f C \<longleftrightarrow> (\<forall>k v k' v'. C k = Some v \<longrightarrow> C k' = Some v' \<longrightarrow> k \<noteq> k' \<longrightarrow>
     fst (f k v) \<noteq> fst (f k' v') \<and> fst (f k v) \<noteq> k')"

lemma migration_safe_tl:
  assumes "hm_wf ((k, v) # m)" and "migration_safe f (hm_get ((k, v) # m))"
  shows "migration_safe f (hm_get m)" and "hm_wf m" and "k \<notin> fst ` set m"
    and "\<And>k' v'. (k', v') \<in> set m \<Longrightarrow>
      fst (f k v) \<noteq> fst (f k' v') \<and> fst (f k v) \<noteq> k' \<and> fst (f k' v') \<noteq> k"
proof -
  show wf: "hm_wf m" and k: "k \<notin> fst ` set m"
    using assms(1) by (auto simp: hm_wf_def)
  have get: "hm_get ((k, v) # m) x = (if x = k then Some v else hm_get m x)" for x
    by (simp add: hm_get_def)
  have none: "hm_get m k = None"
    using k by (simp add: hm_get_def map_of_eq_None_iff)
  show "migration_safe f (hm_get m)"
    unfolding migration_safe_def
  proof (intro allI impI)
    fix a v' b w assume "hm_get m a = Some v'" "hm_get m b = Some w" "a \<noteq> b"
    moreover from this none have "a \<noteq> k" "b \<noteq> k" by auto
    ultimately show "fst (f a v') \<noteq> fst (f b w) \<and> fst (f a v') \<noteq> b"
      using assms(2) by (simp add: migration_safe_def get)
  qed
  fix k' v' assume "(k', v') \<in> set m"
  then have "hm_get m k' = Some v'" "k' \<noteq> k"
    using wf k by (auto simp: hm_get_iff_in_set rev_image_eqI)
  then show "fst (f k v) \<noteq> fst (f k' v') \<and> fst (f k v) \<noteq> k' \<and> fst (f k' v') \<noteq> k"
    using assms(2) unfolding migration_safe_def get by (metis (full_types))
qed

lemma migrate_map_frame:
  "x \<notin> fst ` set m \<Longrightarrow> \<forall>(k, v) \<in> set m. fst (f k v) \<noteq> x \<Longrightarrow> migrate_map f m C x = C x"
  by (induction m arbitrary: C) auto

lemma migrate_map_old:
  assumes "hm_wf m" "migration_safe f (hm_get m)" "(k, v) \<in> set m" "\<forall>(k', v') \<in> set m. fst (f k' v') \<noteq> k"
  shows "migrate_map f m C k = None"
  using assms
proof (induction m arbitrary: C)
  case (Cons e m)
  obtain a b where e: "e = (a, b)" by force
  note tl = migration_safe_tl [OF Cons.prems(1,2) [unfolded e]]
  show ?case
  proof (cases "k = a")
    case True
    let ?C = "C(a := None, fst (f a b) \<mapsto> snd (f a b))"
    have "migrate_map f m ?C k = ?C k"
      using True tl(3) Cons.prems(4) by (intro migrate_map_frame) auto
    moreover have "?C k = None" using True Cons.prems(4) by (auto simp: e)
    ultimately show ?thesis by (simp add: e)
  next
    case False
    then have "(k, v) \<in> set m" using Cons.prems(3) by (simp add: e)
    then show ?thesis using Cons.IH tl(1,2) Cons.prems(4) by (simp add: e)
  qed
qed simp

lemma migrate_map_new:
  assumes "hm_wf m" "migration_safe f (hm_get m)" "(k, v) \<in> set m"
  shows "migrate_map f m C (fst (f k v)) = Some (snd (f k v))"
  using assms
proof (induction m arbitrary: C)
  case (Cons e m)
  obtain a b where e: "e = (a, b)" by force
  note tl = migration_safe_tl [OF Cons.prems(1,2) [unfolded e]]
  show ?case
  proof (cases "(k, v) = e")
    case True
    then have ab: "a = k" "b = v" by (simp_all add: e)
    have "migrate_map f m (C(k := None, fst (f k v) \<mapsto> snd (f k v))) (fst (f k v)) =
        (C(k := None, fst (f k v) \<mapsto> snd (f k v))) (fst (f k v))"
      using tl(4) by (intro migrate_map_frame) (force simp: ab)+
    then show ?thesis by (simp add: e ab)
  next
    case False
    then have "(k, v) \<in> set m" using Cons.prems(3) by simp
    then show ?thesis using Cons.IH tl(1,2) by (simp add: e)
  qed
qed simp

lemma migrate_map_dom:
  assumes "hm_wf m" "migration_safe f (hm_get m)" "migrate_map f m (hm_get m) k' \<noteq> None"
  shows "\<exists>k v. (k, v) \<in> set m \<and> k' = fst (f k v)"
proof (rule ccontr)
  assume "\<not> ?thesis"
  then have fresh: "\<forall>(k, v) \<in> set m. fst (f k v) \<noteq> k'" by fast
  show False
  proof (cases "k' \<in> fst ` set m")
    case True
    then show False using migrate_map_old [OF assms(1,2) _ fresh] assms(3) by force
  next
    case False
    then have "hm_get m k' = None" by (simp add: hm_get_def map_of_eq_None_iff)
    then show False using migrate_map_frame [OF False fresh] assms(3) by simp
  qed
qed

subsection \<open>The contract of a storage provider\<close>

text \<open>
  \<open>contents d ns\<close> is what a backend in state \<open>d\<close> holds in a namespace. Each method reads or
  changes exactly that; an operation that fails leaves the contents alone.
\<close>

locale storage_contract =
  fixes P :: "'d storage_provider"
    and contents :: "'d \<Rightarrow> string \<Rightarrow> ns_map"
    and inv :: "'d \<Rightarrow> bool"
  assumes get_contents: "inv d \<Longrightarrow> sp_get P d ns k = Inr r \<Longrightarrow> r = contents d ns k"
    and insert_old: "inv d \<Longrightarrow> sp_insert P d ns k v = (Inr old, d') \<Longrightarrow> old = contents d ns k"
    and insert_contents: "inv d \<Longrightarrow> sp_insert P d ns k v = (Inr old, d') \<Longrightarrow>
      contents d' = (contents d)(ns := (contents d ns)(k \<mapsto> v))"
    and insert_fail: "inv d \<Longrightarrow> sp_insert P d ns k v = (Inl e, d') \<Longrightarrow> contents d' = contents d"
    and insert_inv: "inv d \<Longrightarrow> sp_insert P d ns k v = (res, d') \<Longrightarrow> inv d'"
    and delete_old: "inv d \<Longrightarrow> sp_delete P d ns k = (Inr old, d') \<Longrightarrow> old = contents d ns k"
    and delete_contents: "inv d \<Longrightarrow> sp_delete P d ns k = (Inr old, d') \<Longrightarrow>
      contents d' = (contents d)(ns := (contents d ns)(k := None))"
    and delete_fail: "inv d \<Longrightarrow> sp_delete P d ns k = (Inl e, d') \<Longrightarrow> contents d' = contents d"
    and delete_inv: "inv d \<Longrightarrow> sp_delete P d ns k = (res, d') \<Longrightarrow> inv d'"
    and fetch_all_distinct: "inv d \<Longrightarrow> sp_fetch_all P d ns p = Inr all \<Longrightarrow> distinct (map fst all)"
    and fetch_all_contents: "inv d \<Longrightarrow> sp_fetch_all P d ns p = Inr all \<Longrightarrow>
      set all = {(k, Some v) | k v. contents d ns k = Some v \<and> prefix_filter p k}"
    and list_keys_distinct: "inv d \<Longrightarrow> sp_list_keys P d ns p = Inr keys \<Longrightarrow> distinct keys"
    and list_keys_contents: "inv d \<Longrightarrow> sp_list_keys P d ns p = Inr keys \<Longrightarrow>
      set keys = {k \<in> dom (contents d ns). prefix_filter p k}"
    and finite_contents: "inv d \<Longrightarrow> finite (dom (contents d ns))"
begin

lemma fetch_all_shape:
  assumes "inv d" and "sp_fetch_all P d ns None = Inr entries"
  obtains m where "entries = map (\<lambda>(k, v). (k, Some v)) m" and "hm_wf m" and "hm_get m = contents d ns"
proof -
  define m where "m = map (\<lambda>(k, v). (k, the v)) entries"
  have set: "set entries = {(k, Some v) | k v. contents d ns k = Some v}"
    using fetch_all_contents [OF assms] by (simp add: prefix_filter_def)
  have shape: "entries = map (\<lambda>(k, v). (k, Some v)) m"
    unfolding m_def map_map by (rule map_idI [symmetric]) (auto simp: set)
  have wf: "hm_wf m"
    using fetch_all_distinct [OF assms] unfolding hm_wf_def m_def
    by (simp add: o_def case_prod_beta')
  have "hm_get m k = contents d ns k" for k
  proof (cases "contents d ns k")
    case None
    then have "k \<notin> fst ` set m" using set by (force simp: m_def)
    then show ?thesis using None by (simp add: hm_get_def map_of_eq_None_iff)
  next
    case (Some v)
    then have "(k, Some v) \<in> set entries" using set by auto
    then have "(k, v) \<in> set m" by (force simp: m_def)
    then show ?thesis using Some wf by (simp add: hm_get_iff_in_set)
  qed
  then have get: "hm_get m = contents d ns" by (rule ext)
  show thesis by (rule that [OF shape wf get])
qed

lemma word_sum_entries:
  "(\<Sum>(k, v) \<leftarrow> m. word_of_nat (length k) + word_of_nat (length v) :: u64) =
     word_of_nat (\<Sum>(k, v) \<leftarrow> m. length k + length v)"
  by (induction m) auto

text \<open>The default \<^verbatim>\<open>get_namespace_byte_size\<close> counts every stored byte, modulo \<open>2 ^ 64\<close>.\<close>

lemma byte_size_correct:
  assumes "inv d" and "get_namespace_byte_size P d ns = Inr used"
  shows "used = word_of_nat (map_bytes (contents d ns))"
proof -
  obtain entries where entries: "sp_fetch_all P d ns None = Inr entries"
    using assms(2) by (auto simp: get_namespace_byte_size_def split: sum.splits)
  obtain m where m: "entries = map (\<lambda>(k, v). (k, Some v)) m" "hm_wf m" "hm_get m = contents d ns"
    using assms(1) entries by (rule fetch_all_shape)
  have "used = (\<Sum>(k, v) \<leftarrow> m. word_of_nat (length k) + word_of_nat (length v))"
    using assms(2) by (simp add: get_namespace_byte_size_def entries m(1) o_def case_prod_beta')
  then show ?thesis
    using map_bytes_hm_get [OF m(2)] by (simp add: word_sum_entries m(3))
qed

text \<open>
  What the migration loop does to a namespace: each entry in turn is removed under its old key
  and stored under its new one.
\<close>

lemma apply_migration_loop_contents:
  assumes "inv d" and "apply_migration_loop P ns f (map (\<lambda>(k, v). (k, Some v)) m) d = (Inr (), d')"
  shows "inv d' \<and> contents d' = (contents d)(ns := migrate_map f m (contents d ns))"
  using assms
proof (induction m arbitrary: d)
  case Nil
  then show ?case by simp
next
  case (Cons kv m)
  obtain k v where kv: "kv = (k, v)" by force
  obtain nk nv where f: "f k v = (nk, nv)" by force
  obtain old d1 where del: "sp_delete P d ns k = (Inr old, d1)"
    using Cons.prems(2) by (auto simp: kv f split: prod.splits sum.splits)
  obtain old2 d2 where ins: "sp_insert P d1 ns nk nv = (Inr old2, d2)"
    using Cons.prems(2) by (auto simp: kv f del split: prod.splits sum.splits)
  have loop: "apply_migration_loop P ns f (map (\<lambda>(k, v). (k, Some v)) m) d2 = (Inr (), d')"
    using Cons.prems(2) by (simp add: kv f del ins)
  have inv: "inv d1" "inv d2"
    using delete_inv [OF Cons.prems(1) del] insert_inv [OF _ ins] by auto
  note c1 = delete_contents [OF Cons.prems(1) del] and c2 = insert_contents [OF inv(1) ins]
  have "contents d2 ns = (contents d ns)(k := None, nk \<mapsto> nv)"
    by (simp add: c1 c2)
  moreover have "(contents d2)(ns := X) = (contents d)(ns := X)" for X
    by (simp add: c1 c2 fun_eq_iff)
  ultimately show ?case
    using Cons.IH [OF inv(2) loop] by (simp only: kv f migrate_map.simps fst_conv snd_conv)
qed

lemma init_shared_db_correct:
  assumes "inv d" and "init_shared_db n c P d = Inr (n', db)"
  shows "n' = n" and "\<not> suffix ''.wasm'' n" and "sdb_config db = c"
    and "\<not> poisoned (used_storage db)"
    and "lock_val (used_storage db) = word_of_nat (map_bytes (contents d n))"
  using assms byte_size_correct [OF assms(1)]
  by (auto simp: init_shared_db_def split: if_splits sum.splits)

end

definition im_contents :: "in_memory_db \<Rightarrow> string \<Rightarrow> ns_map" where
  "im_contents d ns = (case hm_get d ns of None \<Rightarrow> Map.empty | Some m \<Rightarrow> hm_get m)"

definition im_inv :: "in_memory_db \<Rightarrow> bool" where
  "im_inv d \<longleftrightarrow> hm_wf d \<and> list_all (\<lambda>(ns, m). hm_wf m) d"

lemma im_inv_get: "im_inv d \<Longrightarrow> hm_get d ns = Some m \<Longrightarrow> hm_wf m"
  by (auto simp: im_inv_def list_all_iff dest: hm_get_Some_in_set)

lemma im_inv_iff: "im_inv d \<longleftrightarrow> hm_wf d \<and> (\<forall>ns m. hm_get d ns = Some m \<longrightarrow> hm_wf m)"
  by (auto simp: im_inv_def list_all_iff hm_get_iff_in_set)

lemma im_inv_insert: "im_inv d \<Longrightarrow> hm_wf m \<Longrightarrow> im_inv (hm_insert ns m d)"
  by (auto simp: im_inv_iff)

lemma im_contents_None: "hm_get d ns = None \<Longrightarrow> im_contents d ns = Map.empty"
  and im_contents_Some: "hm_get d ns = Some m \<Longrightarrow> im_contents d ns = hm_get m"
  by (simp_all add: im_contents_def)

lemma im_contents_hm_insert: "im_contents (hm_insert ns m d) = (im_contents d)(ns := hm_get m)"
  by (simp add: im_contents_def fun_eq_iff)

lemmas im_defs = in_memory_insert_def in_memory_get_def in_memory_delete_def
  in_memory_list_keys_def in_memory_fetch_all_def

interpretation im: storage_contract in_memory_provider im_contents im_inv
proof
  fix d ns k v r p and old :: "bytes option" and d' and res :: "storage_error + bytes option"
    and e :: storage_error
  fix all :: "(string \<times> bytes option) list" and keys :: "string list"
  assume inv: "im_inv d"
  show "sp_get in_memory_provider d ns k = Inr r \<Longrightarrow> r = im_contents d ns k"
    by (auto simp: im_defs im_contents_def split: option.splits)
  show "sp_insert in_memory_provider d ns k v = (Inr old, d') \<Longrightarrow> old = im_contents d ns k"
    by (auto simp: im_defs im_contents_def split: option.splits)
  show "sp_insert in_memory_provider d ns k v = (Inr old, d') \<Longrightarrow>
      im_contents d' = (im_contents d)(ns := (im_contents d ns)(k \<mapsto> v))"
    by (auto simp: im_defs im_contents_hm_insert hm_get_hm_insert_fun im_contents_None
        im_contents_Some hm_get_Nil_fun split: option.splits)
  show "sp_insert in_memory_provider d ns k v = (Inl e, d') \<Longrightarrow> im_contents d' = im_contents d"
    by (simp add: im_defs Let_def)
  show "sp_insert in_memory_provider d ns k v = (res, d') \<Longrightarrow> im_inv d'"
    using inv by (auto simp: im_defs split: option.splits intro!: im_inv_insert dest: im_inv_get)
  show "sp_delete in_memory_provider d ns k = (Inr old, d') \<Longrightarrow> old = im_contents d ns k"
    by (auto simp: im_defs im_contents_def split: option.splits)
  show "sp_delete in_memory_provider d ns k = (Inr old, d') \<Longrightarrow>
      im_contents d' = (im_contents d)(ns := (im_contents d ns)(k := None))"
    by (auto simp: im_defs im_contents_hm_insert hm_get_hm_remove_fun im_contents_None
        im_contents_Some split: option.splits)
  show "sp_delete in_memory_provider d ns k = (Inl e, d') \<Longrightarrow> im_contents d' = im_contents d"
    by (auto simp: im_defs split: option.splits)
  show "sp_delete in_memory_provider d ns k = (res, d') \<Longrightarrow> im_inv d'"
    using inv by (auto simp: im_defs split: option.splits intro!: im_inv_insert dest: im_inv_get)
  show "sp_fetch_all in_memory_provider d ns p = Inr all \<Longrightarrow> distinct (map fst all)"
    using im_inv_get [OF inv, of ns]
    by (auto simp: im_defs hm_wf_def o_def case_prod_beta' intro: distinct_map_filter
        split: option.splits)
  show "sp_fetch_all in_memory_provider d ns p = Inr all \<Longrightarrow>
      set all = {(k, Some v) | k v. im_contents d ns k = Some v \<and> prefix_filter p k}"
    using im_inv_get [OF inv, of ns]
    by (auto simp: im_defs im_contents_def hm_get_iff_in_set image_iff split: option.splits)
  show "sp_list_keys in_memory_provider d ns p = Inr keys \<Longrightarrow> distinct keys"
    using inv by (auto simp: im_defs im_inv_iff hm_wf_def split: option.splits)
  show "sp_list_keys in_memory_provider d ns p = Inr keys \<Longrightarrow>
      set keys = {k \<in> dom (im_contents d ns). prefix_filter p k}"
    by (auto simp: im_defs im_contents_def dom_hm_get rev_image_eqI split: option.splits)
  show "finite (dom (im_contents d ns))"
    by (auto simp: im_contents_def split: option.splits)
qed

subsection \<open>Properties\<close>

text \<open>The requests a client makes of the storage layer, and their abstract meaning on maps.\<close>

datatype storage_op = OpInsert string string bytes | OpGet string string | OpDelete string string

fun provider_run ::
  "'d storage_provider \<Rightarrow> storage_op list \<Rightarrow> 'd \<Rightarrow> (storage_error + bytes option) list \<times> 'd" where
  "provider_run P [] d = ([], d)"
| "provider_run P (OpInsert ns k v # ops) d =
     (let (r, d1) = sp_insert P d ns k v; (rs, d2) = provider_run P ops d1 in (r # rs, d2))"
| "provider_run P (OpGet ns k # ops) d =
     (let (rs, d1) = provider_run P ops d in (sp_get P d ns k # rs, d1))"
| "provider_run P (OpDelete ns k # ops) d =
     (let (r, d1) = sp_delete P d ns k; (rs, d2) = provider_run P ops d1 in (r # rs, d2))"

fun spec_run :: "storage_op list \<Rightarrow> (string \<Rightarrow> ns_map) \<Rightarrow> bytes option list \<times> (string \<Rightarrow> ns_map)" where
  "spec_run [] C = ([], C)"
| "spec_run (OpInsert ns k v # ops) C =
     (let (rs, C') = spec_run ops (C(ns := (C ns)(k \<mapsto> v))) in (C ns k # rs, C'))"
| "spec_run (OpGet ns k # ops) C = (let (rs, C') = spec_run ops C in (C ns k # rs, C'))"
| "spec_run (OpDelete ns k # ops) C =
     (let (rs, C') = spec_run ops (C(ns := (C ns)(k := None))) in (C ns k # rs, C'))"

lemma in_memory_get_eq: "in_memory_get d ns k = Inr (im_contents d ns k)"
  by (simp add: im_defs im_contents_def split: option.splits)

lemma in_memory_insert_step:
  assumes "im_inv d"
  obtains d' where "in_memory_insert d ns k v = (Inr (im_contents d ns k), d')"
    and "im_contents d' = (im_contents d)(ns := (im_contents d ns)(k \<mapsto> v))" and "im_inv d'"
proof -
  obtain r d' where step: "in_memory_insert d ns k v = (r, d')" by force
  then obtain old where r: "r = Inr old" by (auto simp: im_defs Let_def)
  show thesis
    using im.insert_old [OF assms, of ns k v old d'] im.insert_contents [OF assms, of ns k v old d']
      im.insert_inv [OF assms, of ns k v r d'] step r that by simp
qed

lemma in_memory_delete_step:
  assumes "im_inv d"
  obtains d' where "in_memory_delete d ns k = (Inr (im_contents d ns k), d')"
    and "im_contents d' = (im_contents d)(ns := (im_contents d ns)(k := None))" and "im_inv d'"
proof -
  obtain r d' where step: "in_memory_delete d ns k = (r, d')" by force
  then obtain old where r: "r = Inr old" by (auto simp: im_defs split: option.splits)
  show thesis
    using im.delete_old [OF assms, of ns k old d'] im.delete_contents [OF assms, of ns k old d']
      im.delete_inv [OF assms, of ns k r d'] step r that by simp
qed

lemma provider_run_refines:
  assumes "im_inv d" and "spec_run ops (im_contents d) = (rs, C)"
  shows "\<exists>d'. provider_run in_memory_provider ops d = (map Inr rs, d') \<and> im_contents d' = C \<and> im_inv d'"
  using assms
proof (induction ops arbitrary: d rs)
  case Nil
  then show ?case by simp
next
  case (Cons op ops)
  show ?case
  proof (cases op)
    case (OpInsert ns k v)
    obtain d1 where d1: "in_memory_insert d ns k v = (Inr (im_contents d ns k), d1)"
      "im_contents d1 = (im_contents d)(ns := (im_contents d ns)(k \<mapsto> v))" "im_inv d1"
      using Cons.prems(1) by (rule in_memory_insert_step)
    obtain rs' where "spec_run ops (im_contents d1) = (rs', C)" "rs = im_contents d ns k # rs'"
      using Cons.prems(2) by (auto simp: OpInsert d1(2) split: prod.splits)
    then show ?thesis using Cons.IH [OF d1(3)] by (auto simp: OpInsert d1(1))
  next
    case (OpGet ns k)
    obtain rs' where "spec_run ops (im_contents d) = (rs', C)" "rs = im_contents d ns k # rs'"
      using Cons.prems(2) by (auto simp: OpGet split: prod.splits)
    then show ?thesis using Cons.IH [OF Cons.prems(1)] by (auto simp: OpGet in_memory_get_eq)
  next
    case (OpDelete ns k)
    obtain d1 where d1: "in_memory_delete d ns k = (Inr (im_contents d ns k), d1)"
      "im_contents d1 = (im_contents d)(ns := (im_contents d ns)(k := None))" "im_inv d1"
      using Cons.prems(1) by (rule in_memory_delete_step)
    obtain rs' where "spec_run ops (im_contents d1) = (rs', C)" "rs = im_contents d ns k # rs'"
      using Cons.prems(2) by (auto simp: OpDelete d1(2) split: prod.splits)
    then show ?thesis using Cons.IH [OF d1(3)] by (auto simp: OpDelete d1(1))
  qed
qed

lemma in_memory_loop_total:
  "im_inv d \<Longrightarrow> \<exists>d'. apply_migration_loop in_memory_provider ns f entries d = (Inr (), d')"
proof (induction entries arbitrary: d)
  case (Cons e entries)
  show ?case
  proof (cases "snd e")
    case None
    then show ?thesis using Cons by (cases e) simp
  next
    case (Some v)
    then obtain k where e: "e = (k, Some v)" by (cases e) simp
    obtain nk nv where f: "f k v = (nk, nv)" by force
    obtain d1 where d1: "in_memory_delete d ns k = (Inr (im_contents d ns k), d1)" "im_inv d1"
      using Cons.prems by (rule in_memory_delete_step)
    obtain d2 where d2: "in_memory_insert d1 ns nk nv = (Inr (im_contents d1 ns nk), d2)" "im_inv d2"
      using d1(2) by (rule in_memory_insert_step)
    show ?thesis using Cons.IH [OF d2(2)] by (simp add: e f d1(1) d2(1))
  qed
qed simp

lemma im_new: "im_inv in_memory_new" "im_contents in_memory_new = (\<lambda>_. Map.empty)"
  by (simp_all add: in_memory_new_def im_inv_def im_contents_def fun_eq_iff)

text \<open>
  Functional refinement: any sequence of insertions, reads and deletions, from a fresh
  in-memory database, returns exactly the answers of a family of maps, one per namespace, and
  leaves exactly its contents; the in-memory backend never reports an error.
\<close>

theorem in_memory_refines_maps:
  "fst (provider_run in_memory_provider ops in_memory_new) =
     map Inr (fst (spec_run ops (\<lambda>_. Map.empty)))
   \<and> im_contents (snd (provider_run in_memory_provider ops in_memory_new)) =
     snd (spec_run ops (\<lambda>_. Map.empty))"
proof -
  obtain rs C where spec: "spec_run ops (\<lambda>_. Map.empty) = (rs, C)" by force
  then show ?thesis
    using provider_run_refines [of in_memory_new ops rs C] by (auto simp: im_new)
qed

text \<open>
  The default \<^verbatim>\<open>get_namespace_byte_size\<close> returns the number of bytes of all keys and values of
  the namespace (as a 64-bit counter), for every state the in-memory backend can be in.
\<close>

theorem namespace_byte_size_counts:
  assumes "im_inv d"
  shows "get_namespace_byte_size in_memory_provider d ns = Inr (word_of_nat (map_bytes (im_contents d ns)))"
proof -
  obtain used where "get_namespace_byte_size in_memory_provider d ns = Inr used"
    by (simp add: get_namespace_byte_size_def im_defs)
  then show ?thesis using im.byte_size_correct [OF assms] by simp
qed

definition example_db :: in_memory_db where
  "example_db = snd (in_memory_insert (snd (in_memory_insert in_memory_new ''n.wasm'' ''a'' [1, 2]))
     ''n.wasm'' ''b'' [3])"

lemma example_db_simps:
  "example_db = [(''n.wasm'', [(''a'', [1, 2]), (''b'', [3])])]"
  by (simp add: example_db_def in_memory_insert_def in_memory_new_def hm_defs)

lemma example_db_inv: "im_inv example_db"
  by (simp add: example_db_simps im_inv_def hm_wf_def)

theorem namespace_byte_size_counts_witness:
  "get_namespace_byte_size in_memory_provider example_db ''n.wasm'' = Inr 5
   \<and> word_of_nat (map_bytes (im_contents example_db ''n.wasm'')) = (5 :: u64)"
proof -
  have "get_namespace_byte_size in_memory_provider example_db ''n.wasm'' = Inr 5"
    by (simp add: get_namespace_byte_size_def im_defs example_db_simps hm_defs prefix_filter_def)
  then show ?thesis using namespace_byte_size_counts [OF example_db_inv, of "''n.wasm''"] by simp
qed

text \<open>
  A migration whose new keys collide neither with each other nor with the key of another
  entry succeeds and leaves exactly the images of the entries: every entry is found under its new
  key, no other key remains, and the other namespaces are untouched.
\<close>

theorem apply_migration_correct:
  assumes "im_inv d" and "migration_safe f (im_contents d ns)"
  shows "\<exists>d'. apply_migration in_memory_provider d ns f = (Inr (), d') \<and> im_inv d'
    \<and> (\<forall>k v. im_contents d ns k = Some v \<longrightarrow> im_contents d' ns (fst (f k v)) = Some (snd (f k v)))
    \<and> (\<forall>k'. im_contents d' ns k' \<noteq> None \<longrightarrow> (\<exists>k v. im_contents d ns k = Some v \<and> k' = fst (f k v)))
    \<and> (\<forall>ns'. ns' \<noteq> ns \<longrightarrow> im_contents d' ns' = im_contents d ns')"
proof -
  obtain entries where fetch: "sp_fetch_all in_memory_provider d ns None = Inr entries"
    by (simp add: im_defs)
  obtain m where m: "entries = map (\<lambda>(k, v). (k, Some v)) m" "hm_wf m" "hm_get m = im_contents d ns"
    using assms(1) fetch by (rule im.fetch_all_shape)
  obtain d' where loop: "apply_migration_loop in_memory_provider ns f entries d = (Inr (), d')"
    using in_memory_loop_total [OF assms(1)] by blast
  then have d': "im_inv d'" "im_contents d' = (im_contents d)(ns := migrate_map f m (im_contents d ns))"
    using im.apply_migration_loop_contents [OF assms(1), of ns f m d'] by (auto simp: m(1))
  have safe: "migration_safe f (hm_get m)" using assms(2) by (simp add: m(3))
  have new: "im_contents d' ns (fst (f k v)) = Some (snd (f k v))" if "im_contents d ns k = Some v" for k v
    using that migrate_map_new [OF m(2) safe, of k v] m(2,3)
    by (simp add: d'(2) hm_get_iff_in_set [symmetric])
  have only: "\<exists>k v. im_contents d ns k = Some v \<and> k' = fst (f k v)" if "im_contents d' ns k' \<noteq> None" for k'
  proof -
    have "migrate_map f m (hm_get m) k' \<noteq> None" using that by (simp add: d'(2) m(3))
    then obtain k v where "(k, v) \<in> set m" "k' = fst (f k v)"
      using migrate_map_dom [OF m(2) safe] by blast
    then show ?thesis using m(2,3) hm_get_iff_in_set by metis
  qed
  show ?thesis
    using fetch loop d' new only by (auto simp: apply_migration_def)
qed

theorem apply_migration_correct_witness:
  "\<exists>d'. apply_migration in_memory_provider example_db ''n.wasm'' (\<lambda>k v. (''x'' @ k, v)) = (Inr (), d')
     \<and> im_contents d' ''n.wasm'' ''xa'' = Some [1, 2] \<and> im_contents d' ''n.wasm'' ''xb'' = Some [3]"
proof -
  have safe: "migration_safe (\<lambda>k v. (''x'' @ k, v)) (im_contents example_db ''n.wasm'')"
    by (auto simp: migration_safe_def im_contents_def example_db_simps hm_get_def split: if_splits)
  show ?thesis
    using apply_migration_correct [OF example_db_inv safe]
    by (auto simp: im_contents_def example_db_simps hm_get_def)
qed

definition swap_keys :: "string \<Rightarrow> bytes \<Rightarrow> string \<times> bytes" where
  "swap_keys k v = (if k = ''a'' then ''b'' else if k = ''b'' then ''a'' else k, v)"

text \<open>
  Injectivity of the migration on keys is not enough. The migration that exchanges the keys
  \<open>a\<close> and \<open>b\<close> is injective, yet it loses an entry: the new entry stored under \<open>b\<close> is deleted again
  when the old \<open>b\<close> is processed.
\<close>

theorem apply_migration_swap_loses_entry:
  "inj (\<lambda>k. fst (swap_keys k []))
   \<and> im_contents example_db ''n.wasm'' ''a'' = Some [1, 2]
   \<and> (\<exists>d'. apply_migration in_memory_provider example_db ''n.wasm'' swap_keys = (Inr (), d')
        \<and> im_contents d' ''n.wasm'' ''a'' = Some [3] \<and> im_contents d' ''n.wasm'' ''b'' = None)"
proof -
  have "inj (\<lambda>k. fst (swap_keys k []))"
    by (auto simp: inj_def swap_keys_def split: if_splits)
  moreover have "\<exists>d'. apply_migration in_memory_provider example_db ''n.wasm'' swap_keys = (Inr (), d')
        \<and> im_contents d' ''n.wasm'' ''a'' = Some [3] \<and> im_contents d' ''n.wasm'' ''b'' = None"
    by (simp add: apply_migration_def im_defs example_db_simps swap_keys_def im_contents_def hm_defs
        prefix_filter_def)
  ultimately show ?thesis
    by (simp add: im_contents_def example_db_simps hm_get_def)
qed

end
