(* ===== verification/Plaid_Env.thy ===== *)
theory Plaid_Env
  imports Plaid_Memory Plaid_Storage
begin

text \<open>
  The data that flows through the runtime: log sources and logback budgets
  (\<^verbatim>\<open>runtime/plaid-stl/src/messages.rs\<close>), messages and the environment of a running module
  (\<^verbatim>\<open>runtime/plaid/src/executor/mod.rs\<close>), and loaded modules
  (\<^verbatim>\<open>runtime/plaid/src/loader/mod.rs\<close>). The environment is polymorphic in the guest memory, the
  state of the storage backend, the cache and the channels to the executor, whose operations are
  passed to the host functions.
\<close>

datatype generator =
    Github
  | Okta
  | Interval string
  | SQS string
  | WebSocketExternal string

fun generator_fmt :: "generator \<Rightarrow> string" where
  "generator_fmt Github = ''github''"
| "generator_fmt Okta = ''okta''"
| "generator_fmt (Interval job) = ''interval/'' @ job"
| "generator_fmt (SQS n) = ''sqs/'' @ n"
| "generator_fmt (WebSocketExternal ws) = ''websocket/'' @ ws"

datatype log_source =
    Generator generator
  | WebhookPost string
  | WebhookGet string
  | Logback string

fun log_source_fmt :: "log_source \<Rightarrow> string" where
  "log_source_fmt (Generator g) = ''generator/'' @ generator_fmt g"
| "log_source_fmt (WebhookPost w) = ''webhookpost/'' @ w"
| "log_source_fmt (WebhookGet w) = ''webhookget/'' @ w"
| "log_source_fmt (Logback m) = ''logback/'' @ m"

text \<open>The constructors \<^verbatim>\<open>Unlimited\<close> and \<^verbatim>\<open>Limited\<close> of the source carry a prefix here, because
  the storage limit has constructors of the same names.\<close>

datatype logbacks_allowed = LogbacksUnlimited | LogbacksLimited u32

definition logbacks_allowed_default :: logbacks_allowed where
  "logbacks_allowed_default = LogbacksLimited 0"

subsection \<open>Loaded modules\<close>

record persistent_response =
  max_size :: nat
  pr_data :: "string option rwlock"

definition persistent_response_new :: "nat \<Rightarrow> persistent_response" where
  "persistent_response_new n = \<lparr>max_size = n, pr_data = rwlock_new None\<rparr>"

definition persistent_response_get_data :: "persistent_response \<Rightarrow> unit + string option" where
  "persistent_response_get_data pr =
     (if poisoned (pr_data pr) then Inl () else Inr (lock_val (pr_data pr)))"

text \<open>
  \<open>mod_imports\<close> are the names of the functions the compiled WebAssembly module imports; the compiled
  code itself and its engine belong to \<^verbatim>\<open>wasmer\<close>.
\<close>

record plaid_module =
  mod_name :: string
  logtype :: string
  mod_imports :: "string list"
  computation_limit :: u64
  page_limit :: u32
  storage_current :: "u64 rwlock"
  storage_limit :: limit_value
  accessory_data :: "(string, bytes) hashmap option"
  secrets :: "(string, bytes) hashmap option"
  persistent_response :: "persistent_response option"
  test_mode :: bool

definition get_persistent_response_data :: "plaid_module \<Rightarrow> string option" where
  "get_persistent_response_data pm =
     (case persistent_response pm of
        None \<Rightarrow> None
      | Some x \<Rightarrow> (case persistent_response_get_data x of Inl _ \<Rightarrow> None | Inr d \<Rightarrow> d))"

subsection \<open>Messages\<close>

text \<open>A response sender is one end of a oneshot channel, named by a number.\<close>

record message =
  msg_id :: string
  msg_type :: string
  msg_data :: bytes
  headers :: "(string, bytes) hashmap"
  query_params :: "(string, bytes) hashmap"
  source :: log_source
  logbacks_allowed :: logbacks_allowed
  response_sender :: "nat option"
  msg_module :: "plaid_module option"

text \<open>The fresh identifier comes from the \<^verbatim>\<open>uuid\<close> crate and is an argument.\<close>

definition message_new :: "string \<Rightarrow> string \<Rightarrow> bytes \<Rightarrow> log_source \<Rightarrow> logbacks_allowed \<Rightarrow> message" where
  "message_new uuid t d src lb =
     \<lparr>msg_id = uuid, msg_type = t, msg_data = d, headers = [], query_params = [], source = src,
      logbacks_allowed = lb, response_sender = None, msg_module = None\<rparr>"

definition message_new_detailed ::
  "string \<Rightarrow> string \<Rightarrow> bytes \<Rightarrow> log_source \<Rightarrow> logbacks_allowed \<Rightarrow> (string, bytes) hashmap
     \<Rightarrow> nat option \<Rightarrow> plaid_module option \<Rightarrow> message" where
  "message_new_detailed uuid t d src lb qp rs pm =
     \<lparr>msg_id = uuid, msg_type = t, msg_data = d, headers = [], query_params = qp, source = src,
      logbacks_allowed = lb, response_sender = rs, msg_module = pm\<rparr>"

definition create_duplicate :: "message \<Rightarrow> message" where
  "create_duplicate msg =
     \<lparr>msg_id = msg_id msg, msg_type = msg_type msg, msg_data = msg_data msg, headers = headers msg,
      query_params = query_params msg, source = source msg,
      logbacks_allowed = logbacks_allowed msg, response_sender = None, msg_module = None\<rparr>"

lemma create_duplicate_idem [simp]: "create_duplicate (create_duplicate msg) = create_duplicate msg"
  by (simp add: create_duplicate_def)

lemma create_duplicate_sel [simp]:
  "msg_type (create_duplicate msg) = msg_type msg" "msg_data (create_duplicate msg) = msg_data msg"
  "logbacks_allowed (create_duplicate msg) = logbacks_allowed msg"
  "response_sender (create_duplicate msg) = None" "msg_module (create_duplicate msg) = None"
  "source (create_duplicate msg) = source msg" "msg_id (create_duplicate msg) = msg_id msg"
  by (simp_all add: create_duplicate_def)

text \<open>The outcome of \<^verbatim>\<open>try_send\<close> on a bounded channel of \<^verbatim>\<open>crossbeam_channel\<close>.\<close>

datatype 'q try_send_result = Sent 'q | Full | Disconnected

subsection \<open>The environment of a running module\<close>

record ('m, 'd, 'c, 'q) env =
  env_module :: plaid_module
  env_message :: message
  env_storage :: "'d storage option"
  env_cache :: "'c option"
  env_memory :: "'m option"
  response :: "string option"
  execution_error_context :: "string option"
  immediate_sender :: bool
  cancelled :: bool
  channels :: 'q

subsection \<open>Concrete values, for evaluating the model\<close>

definition sample_module :: "string \<Rightarrow> limit_value \<Rightarrow> u64 \<Rightarrow> plaid_module" where
  "sample_module name limit used =
     \<lparr>mod_name = name, logtype = ''test'', mod_imports = [], computation_limit = 1000, page_limit = 1,
      storage_current = rwlock_new used, storage_limit = limit, accessory_data = None, secrets = None,
      persistent_response = None, test_mode = False\<rparr>"

definition sample_message :: message where
  "sample_message = message_new ''id'' ''test'' [1] (Generator Okta) (LogbacksLimited 1)"

definition sample_env :: "(bytes, 'd, 'c, unit) env" where
  "sample_env =
     \<lparr>env_module = sample_module ''m.wasm'' Unlimited 0, env_message = sample_message,
      env_storage = None, env_cache = None, env_memory = None, response = None,
      execution_error_context = None, immediate_sender = True, cancelled = False, channels = ()\<rparr>"

end
