(* ===== verification/Plaid_Storage_Fns.thy ===== *)
theory Plaid_Storage_Fns
  imports Plaid_Env
begin

text \<open>
  The storage functions a guest can call, \<^verbatim>\<open>runtime/plaid/src/functions/storage.rs\<close>: insertion,
  lookup, deletion and listing, in the module's own namespace and in shared databases, with the
  accounting of used storage against a limit. Each host function takes the environment and the
  guest's pointers and lengths and returns its \<^verbatim>\<open>i32\<close> code and the environment afterwards.
  Messages to the logging systems, which the code sends and whose failures it ignores, are left
  out.

  The accounting lemmas are proved once, for every backend that satisfies \<open>storage_contract\<close>.
\<close>

subsection \<open>Reading parameters: the macros of the file\<close>

definition safely_get_guest_string ::
  "'m wasm_ops \<Rightarrow> 'm \<Rightarrow> u32 \<Rightarrow> u32 \<Rightarrow> 'e \<Rightarrow> (string \<Rightarrow> i32 \<times> 'e) \<Rightarrow> i32 \<times> 'e" where
  "safely_get_guest_string W memory_view buf buf_len env k =
     (case safely_get_string W memory_view buf buf_len of
        Inr s \<Rightarrow> k s
      | Inl _ \<Rightarrow> (error_code ParametersNotUtf8, env))"

definition safely_get_guest_memory ::
  "'m wasm_ops \<Rightarrow> 'm \<Rightarrow> u32 \<Rightarrow> u32 \<Rightarrow> ('m, 'd, 'c, 'q) env
     \<Rightarrow> (bytes \<Rightarrow> i32 \<times> ('m, 'd, 'c, 'q) env) \<Rightarrow> i32 \<times> ('m, 'd, 'c, 'q) env" where
  "safely_get_guest_memory W memory_view buf buf_len env k =
     (let max_buffer_size = calculate_max_buffer_size (page_limit (env_module env))
      in case safely_get_memory W memory_view buf buf_len max_buffer_size of
           Inr d \<Rightarrow> k d
         | Inl _ \<Rightarrow> (error_code ParametersNotUtf8, env))"

subsection \<open>Code common to the own and the shared namespaces\<close>

text \<open>
  The size of the storage after an insertion: the counter plus the new pair, less the pair that
  would be overwritten, in 64-bit arithmetic.
\<close>

definition would_be_used_storage :: "u64 \<Rightarrow> string \<Rightarrow> bytes \<Rightarrow> bytes option \<Rightarrow> u64" where
  "would_be_used_storage used key val existing =
     (let key_len = length key;
          existing_data_size =
            (case existing of None \<Rightarrow> 0 | Some d \<Rightarrow> word_of_nat (length d) + word_of_nat key_len)
      in used + word_of_nat key_len + word_of_nat (length val) - existing_data_size)"

text \<open>Hand the outcome of a storage operation to the guest.\<close>

definition return_to_guest ::
  "'m wasm_ops \<Rightarrow> 'm \<Rightarrow> u32 \<Rightarrow> u32 \<Rightarrow> storage_error + bytes option \<Rightarrow> i32 \<times> 'm" where
  "return_to_guest W memory_view data_buffer data_buffer_len result =
     (case result of
        Inr (Some data) \<Rightarrow>
          (let (r, m) = safely_write_data_back W memory_view data data_buffer data_buffer_len
           in (result_code r, m))
      | Inr None \<Rightarrow> (0, memory_view)
      | Inl _ \<Rightarrow> (error_code InternalApiError, memory_view))"

text \<open>The insertion itself: an early return with an error, or the result of the backend.\<close>

definition insertion_result ::
  "'d storage \<Rightarrow> string \<Rightarrow> string \<Rightarrow> bytes \<Rightarrow> limit_value \<Rightarrow> u64 rwlock
     \<Rightarrow> function_errors + (storage_error + bytes option) \<times> 'd storage \<times> u64 rwlock" where
  "insertion_result st namespace key val limit storage_counter =
     (case limit of
        Unlimited \<Rightarrow>
          (let (r, st') = storage_insert st namespace key val in Inr (r, st', storage_counter))
      | Limited lim \<Rightarrow>
          if poisoned storage_counter then Inl InternalApiError
          else (case storage_get st namespace key of
                  Inl _ \<Rightarrow> Inl InternalApiError
                | Inr existing \<Rightarrow>
                    (let would_be = would_be_used_storage (lock_val storage_counter) key val existing
                     in if would_be > lim then Inl StorageLimitReached
                        else let (r, st') = storage_insert st namespace key val
                             in Inr (r, st', case r of
                                  Inr _ \<Rightarrow> storage_counter\<lparr>lock_val := would_be\<rparr>
                                | Inl _ \<Rightarrow> storage_counter))))"

definition insert_common ::
  "'m wasm_ops \<Rightarrow> 'd storage \<Rightarrow> string \<Rightarrow> string \<Rightarrow> bytes \<Rightarrow> 'm \<Rightarrow> u32 \<Rightarrow> u32 \<Rightarrow> limit_value
     \<Rightarrow> u64 rwlock \<Rightarrow> i32 \<times> 'm \<times> 'd storage \<times> u64 rwlock" where
  "insert_common W st namespace key val memory_view data_buffer data_buffer_len limit storage_counter =
     (case insertion_result st namespace key val limit storage_counter of
        Inl e \<Rightarrow> (error_code e, memory_view, st, storage_counter)
      | Inr (r, st', counter') \<Rightarrow>
          (let (code, m) = return_to_guest W memory_view data_buffer data_buffer_len r
           in (code, m, st', counter')))"

definition get_common ::
  "'m wasm_ops \<Rightarrow> 'd storage \<Rightarrow> string \<Rightarrow> string \<Rightarrow> 'm \<Rightarrow> u32 \<Rightarrow> u32 \<Rightarrow> i32 \<times> 'm" where
  "get_common W st namespace key memory_view data_buffer data_buffer_len =
     return_to_guest W memory_view data_buffer data_buffer_len (storage_get st namespace key)"

definition deletion_result ::
  "'d storage \<Rightarrow> string \<Rightarrow> string \<Rightarrow> u32 \<Rightarrow> limit_value \<Rightarrow> u64 rwlock
     \<Rightarrow> function_errors + (storage_error + bytes option) \<times> 'd storage \<times> u64 rwlock" where
  "deletion_result st namespace key data_buffer_len limit storage_counter =
     (if data_buffer_len = 0 then Inr (storage_get st namespace key, st, storage_counter)
      else case limit of
        Unlimited \<Rightarrow>
          (let (r, st') = storage_delete st namespace key in Inr (r, st', storage_counter))
      | Limited _ \<Rightarrow>
          if poisoned storage_counter then Inl InternalApiError
          else let (r, st') = storage_delete st namespace key
               in Inr (r, st', case r of
                    Inr (Some data) \<Rightarrow>
                      storage_counter\<lparr>lock_val := lock_val storage_counter
                        - word_of_nat (length key) - word_of_nat (length data)\<rparr>
                  | _ \<Rightarrow> storage_counter))"

definition delete_common ::
  "'m wasm_ops \<Rightarrow> 'd storage \<Rightarrow> string \<Rightarrow> string \<Rightarrow> 'm \<Rightarrow> u32 \<Rightarrow> u32 \<Rightarrow> limit_value
     \<Rightarrow> u64 rwlock \<Rightarrow> i32 \<times> 'm \<times> 'd storage \<times> u64 rwlock" where
  "delete_common W st namespace key memory_view data_buffer data_buffer_len limit storage_counter =
     (case deletion_result st namespace key data_buffer_len limit storage_counter of
        Inl e \<Rightarrow> (error_code e, memory_view, st, storage_counter)
      | Inr (r, st', counter') \<Rightarrow>
          (let (code, m) = return_to_guest W memory_view data_buffer data_buffer_len r
           in (code, m, st', counter')))"

text \<open>The JSON encoder of the list of keys belongs to \<^verbatim>\<open>serde_json\<close> and is a parameter.\<close>

definition list_keys_common ::
  "'m wasm_ops \<Rightarrow> (string list \<Rightarrow> string option) \<Rightarrow> 'd storage \<Rightarrow> string \<Rightarrow> string \<Rightarrow> 'm \<Rightarrow> u32 \<Rightarrow> u32
     \<Rightarrow> i32 \<times> 'm" where
  "list_keys_common W to_json st namespace pfx memory_view data_buffer data_buffer_len =
     (case storage_list_keys st namespace (Some pfx) of
        Inr keys \<Rightarrow>
          (case to_json keys of
             None \<Rightarrow> (error_code ErrorCouldNotSerialize, memory_view)
           | Some serialized_keys \<Rightarrow>
               (let (r, m) = safely_write_data_back W memory_view (as_bytes serialized_keys)
                               data_buffer data_buffer_len
                in (result_code r, m)))
      | Inl _ \<Rightarrow> (error_code InternalApiError, memory_view))"

subsection \<open>The module's own namespace\<close>

definition fn_insert ::
  "'m wasm_ops \<Rightarrow> ('m, 'd, 'c, 'q) env \<Rightarrow> u32 \<Rightarrow> u32 \<Rightarrow> u32 \<Rightarrow> u32 \<Rightarrow> u32 \<Rightarrow> u32
     \<Rightarrow> i32 \<times> ('m, 'd, 'c, 'q) env" where
  "fn_insert W env key_buf key_buf_len value_buf value_buf_len data_buffer data_buffer_len =
     (case env_storage env of
        None \<Rightarrow> (error_code ApiNotConfigured, env)
      | Some st \<Rightarrow>
          (case get_memory (env_memory env) of
             Inl _ \<Rightarrow> (error_code CouldNotGetAdequateMemory, env)
           | Inr memory_view \<Rightarrow>
               safely_get_guest_string W memory_view key_buf key_buf_len env (\<lambda>key.
               safely_get_guest_memory W memory_view value_buf value_buf_len env (\<lambda>val.
                 let pm = env_module env;
                     (code, m, st', counter') =
                       insert_common W st (mod_name pm) key val memory_view data_buffer
                         data_buffer_len (storage_limit pm) (storage_current pm)
                 in (code, env\<lparr>env_memory := Some m, env_storage := Some st',
                           env_module := pm\<lparr>storage_current := counter'\<rparr>\<rparr>)))))"

definition fn_get ::
  "'m wasm_ops \<Rightarrow> ('m, 'd, 'c, 'q) env \<Rightarrow> u32 \<Rightarrow> u32 \<Rightarrow> u32 \<Rightarrow> u32 \<Rightarrow> i32 \<times> ('m, 'd, 'c, 'q) env" where
  "fn_get W env key_buf key_buf_len data_buffer data_buffer_len =
     (case env_storage env of
        None \<Rightarrow> (error_code ApiNotConfigured, env)
      | Some st \<Rightarrow>
          (case get_memory (env_memory env) of
             Inl _ \<Rightarrow> (error_code CouldNotGetAdequateMemory, env)
           | Inr memory_view \<Rightarrow>
               safely_get_guest_string W memory_view key_buf key_buf_len env (\<lambda>key.
                 let (code, m) = get_common W st (mod_name (env_module env)) key memory_view
                                   data_buffer data_buffer_len
                 in (code, env\<lparr>env_memory := Some m\<rparr>))))"

definition fn_list_keys ::
  "'m wasm_ops \<Rightarrow> (string list \<Rightarrow> string option) \<Rightarrow> ('m, 'd, 'c, 'q) env \<Rightarrow> u32 \<Rightarrow> u32 \<Rightarrow> u32 \<Rightarrow> u32
     \<Rightarrow> i32 \<times> ('m, 'd, 'c, 'q) env" where
  "fn_list_keys W to_json env prefix_buf prefix_buf_len data_buffer data_buffer_len =
     (case env_storage env of
        None \<Rightarrow> (error_code ApiNotConfigured, env)
      | Some st \<Rightarrow>
          (case get_memory (env_memory env) of
             Inl _ \<Rightarrow> (error_code CouldNotGetAdequateMemory, env)
           | Inr memory_view \<Rightarrow>
               safely_get_guest_string W memory_view prefix_buf prefix_buf_len env (\<lambda>pfx.
                 let (code, m) = list_keys_common W to_json st (mod_name (env_module env)) pfx
                                   memory_view data_buffer data_buffer_len
                 in (code, env\<lparr>env_memory := Some m\<rparr>))))"

definition fn_delete ::
  "'m wasm_ops \<Rightarrow> ('m, 'd, 'c, 'q) env \<Rightarrow> u32 \<Rightarrow> u32 \<Rightarrow> u32 \<Rightarrow> u32 \<Rightarrow> i32 \<times> ('m, 'd, 'c, 'q) env" where
  "fn_delete W env key_buf key_buf_len data_buffer data_buffer_len =
     (case env_storage env of
        None \<Rightarrow> (error_code ApiNotConfigured, env)
      | Some st \<Rightarrow>
          (case get_memory (env_memory env) of
             Inl _ \<Rightarrow> (error_code CouldNotGetAdequateMemory, env)
           | Inr memory_view \<Rightarrow>
               safely_get_guest_string W memory_view key_buf key_buf_len env (\<lambda>key.
                 let pm = env_module env;
                     (code, m, st', counter') =
                       delete_common W st (mod_name pm) key memory_view data_buffer
                         data_buffer_len (storage_limit pm) (storage_current pm)
                 in (code, env\<lparr>env_memory := Some m, env_storage := Some st',
                           env_module := pm\<lparr>storage_current := counter'\<rparr>\<rparr>))))"

subsection \<open>Shared databases\<close>

definition can_write :: "(string, shared_db) hashmap \<Rightarrow> string \<Rightarrow> string \<Rightarrow> bool" where
  "can_write dbs namespace name =
     (case hm_get dbs namespace of
        None \<Rightarrow> False
      | Some db \<Rightarrow> name \<in> set (sdb_rw (sdb_config db)))"

definition can_read :: "(string, shared_db) hashmap \<Rightarrow> string \<Rightarrow> string \<Rightarrow> bool" where
  "can_read dbs namespace name =
     (case hm_get dbs namespace of
        None \<Rightarrow> False
      | Some db \<Rightarrow> name \<in> set (sdb_r (sdb_config db)) \<or> name \<in> set (sdb_rw (sdb_config db)))"

text \<open>The counter of a shared database is a cell inside the storage object.\<close>

definition set_used_storage :: "'d storage \<Rightarrow> string \<Rightarrow> u64 rwlock \<Rightarrow> 'd storage" where
  "set_used_storage st namespace counter =
     (case shared_dbs st of
        None \<Rightarrow> st
      | Some dbs \<Rightarrow>
          (case hm_get dbs namespace of
             None \<Rightarrow> st
           | Some db \<Rightarrow>
               st\<lparr>shared_dbs := Some (hm_insert namespace (db\<lparr>used_storage := counter\<rparr>) dbs)\<rparr>))"

definition fn_insert_shared ::
  "'m wasm_ops \<Rightarrow> ('m, 'd, 'c, 'q) env \<Rightarrow> u32 \<Rightarrow> u32 \<Rightarrow> u32 \<Rightarrow> u32 \<Rightarrow> u32 \<Rightarrow> u32 \<Rightarrow> u32 \<Rightarrow> u32
     \<Rightarrow> i32 \<times> ('m, 'd, 'c, 'q) env" where
  "fn_insert_shared W env namespace_buf namespace_buf_len key_buf key_buf_len value_buf value_buf_len
       data_buffer data_buffer_len =
     (case env_storage env of
        None \<Rightarrow> (error_code ApiNotConfigured, env)
      | Some st \<Rightarrow>
     (case shared_dbs st of
        None \<Rightarrow> (error_code OperationNotAllowed, env)
      | Some dbs \<Rightarrow>
     (case get_memory (env_memory env) of
        Inl _ \<Rightarrow> (error_code CouldNotGetAdequateMemory, env)
      | Inr memory_view \<Rightarrow>
          safely_get_guest_string W memory_view namespace_buf namespace_buf_len env (\<lambda>namespace.
          if \<not> can_write dbs namespace (mod_name (env_module env))
          then (error_code OperationNotAllowed, env)
          else
          safely_get_guest_string W memory_view key_buf key_buf_len env (\<lambda>key.
          safely_get_guest_memory W memory_view value_buf value_buf_len env (\<lambda>val.
            case hm_get dbs namespace of
              None \<Rightarrow> (error_code SharedDbFnError, env)
            | Some db \<Rightarrow>
                let (code, m, st', counter') =
                      insert_common W st namespace key val memory_view data_buffer data_buffer_len
                        (size_limit (sdb_config db)) (used_storage db)
                in (code, env\<lparr>env_memory := Some m,
                          env_storage := Some (set_used_storage st' namespace counter')\<rparr>)))))))"

definition fn_get_shared ::
  "'m wasm_ops \<Rightarrow> ('m, 'd, 'c, 'q) env \<Rightarrow> u32 \<Rightarrow> u32 \<Rightarrow> u32 \<Rightarrow> u32 \<Rightarrow> u32 \<Rightarrow> u32
     \<Rightarrow> i32 \<times> ('m, 'd, 'c, 'q) env" where
  "fn_get_shared W env namespace_buf namespace_buf_len key_buf key_buf_len data_buffer data_buffer_len =
     (case env_storage env of
        None \<Rightarrow> (error_code ApiNotConfigured, env)
      | Some st \<Rightarrow>
     (case shared_dbs st of
        None \<Rightarrow> (error_code OperationNotAllowed, env)
      | Some dbs \<Rightarrow>
     (case get_memory (env_memory env) of
        Inl _ \<Rightarrow> (error_code CouldNotGetAdequateMemory, env)
      | Inr memory_view \<Rightarrow>
          safely_get_guest_string W memory_view namespace_buf namespace_buf_len env (\<lambda>namespace.
          if \<not> can_read dbs namespace (mod_name (env_module env))
          then (error_code OperationNotAllowed, env)
          else
          safely_get_guest_string W memory_view key_buf key_buf_len env (\<lambda>key.
            let (code, m) = get_common W st namespace key memory_view data_buffer data_buffer_len
            in (code, env\<lparr>env_memory := Some m\<rparr>))))))"

definition fn_list_keys_shared ::
  "'m wasm_ops \<Rightarrow> (string list \<Rightarrow> string option) \<Rightarrow> ('m, 'd, 'c, 'q) env \<Rightarrow> u32 \<Rightarrow> u32 \<Rightarrow> u32 \<Rightarrow> u32
     \<Rightarrow> u32 \<Rightarrow> u32 \<Rightarrow> i32 \<times> ('m, 'd, 'c, 'q) env" where
  "fn_list_keys_shared W to_json env namespace_buf namespace_buf_len prefix_buf prefix_buf_len
       data_buffer data_buffer_len =
     (case env_storage env of
        None \<Rightarrow> (error_code ApiNotConfigured, env)
      | Some st \<Rightarrow>
     (case shared_dbs st of
        None \<Rightarrow> (error_code OperationNotAllowed, env)
      | Some dbs \<Rightarrow>
     (case get_memory (env_memory env) of
        Inl _ \<Rightarrow> (error_code CouldNotGetAdequateMemory, env)
      | Inr memory_view \<Rightarrow>
          safely_get_guest_string W memory_view namespace_buf namespace_buf_len env (\<lambda>namespace.
          if \<not> can_read dbs namespace (mod_name (env_module env))
          then (error_code OperationNotAllowed, env)
          else
          safely_get_guest_string W memory_view prefix_buf prefix_buf_len env (\<lambda>pfx.
            let (code, m) = list_keys_common W to_json st namespace pfx memory_view data_buffer
                              data_buffer_len
            in (code, env\<lparr>env_memory := Some m\<rparr>))))))"

definition fn_delete_shared ::
  "'m wasm_ops \<Rightarrow> ('m, 'd, 'c, 'q) env \<Rightarrow> u32 \<Rightarrow> u32 \<Rightarrow> u32 \<Rightarrow> u32 \<Rightarrow> u32 \<Rightarrow> u32
     \<Rightarrow> i32 \<times> ('m, 'd, 'c, 'q) env" where
  "fn_delete_shared W env namespace_buf namespace_buf_len key_buf key_buf_len data_buffer data_buffer_len =
     (case env_storage env of
        None \<Rightarrow> (error_code ApiNotConfigured, env)
      | Some st \<Rightarrow>
     (case shared_dbs st of
        None \<Rightarrow> (error_code OperationNotAllowed, env)
      | Some dbs \<Rightarrow>
     (case get_memory (env_memory env) of
        Inl _ \<Rightarrow> (error_code CouldNotGetAdequateMemory, env)
      | Inr memory_view \<Rightarrow>
          safely_get_guest_string W memory_view namespace_buf namespace_buf_len env (\<lambda>namespace.
          safely_get_guest_string W memory_view key_buf key_buf_len env (\<lambda>key.
          if \<not> can_write dbs namespace (mod_name (env_module env))
          then (error_code OperationNotAllowed, env)
          else case hm_get dbs namespace of
              None \<Rightarrow> (error_code ApiNotConfigured, env)
            | Some db \<Rightarrow>
                let (code, m, st', counter') =
                      delete_common W st namespace key memory_view data_buffer data_buffer_len
                        (size_limit (sdb_config db)) (used_storage db)
                in (code, env\<lparr>env_memory := Some m,
                          env_storage := Some (set_used_storage st' namespace counter')\<rparr>))))))"

subsection \<open>Accounting, for every backend\<close>

text \<open>
  The counter of a limited namespace holds its byte size. Because counter and size are related
  modulo \<open>2 ^ 64\<close>, no assumption about overflow is needed to keep the relation.
\<close>

definition accounted :: "ns_map \<Rightarrow> limit_value \<Rightarrow> u64 rwlock \<Rightarrow> bool" where
  "accounted m limit counter \<longleftrightarrow>
     (case limit of Unlimited \<Rightarrow> True | Limited _ \<Rightarrow> lock_val counter = word_of_nat (map_bytes m))"

definition within_quota :: "ns_map \<Rightarrow> limit_value \<Rightarrow> bool" where
  "within_quota m limit \<longleftrightarrow>
     (case limit of Unlimited \<Rightarrow> True | Limited lim \<Rightarrow> map_bytes m \<le> unat lim)"

text \<open>
  A limit so close to \<open>2 ^ 64\<close> that one more pair could wrap the counter around is not a limit: a
  key and a value are at most \<open>2 ^ 32\<close> bytes each.
\<close>

definition limit_sane :: "limit_value \<Rightarrow> bool" where
  "limit_sane limit \<longleftrightarrow> (case limit of Unlimited \<Rightarrow> True | Limited lim \<Rightarrow> unat lim + 2 ^ 33 \<le> 2 ^ 64)"

definition store_effect ::
  "'d storage_provider \<Rightarrow> ('d \<Rightarrow> string \<Rightarrow> ns_map) \<Rightarrow> ('d \<Rightarrow> bool) \<Rightarrow> string \<Rightarrow> limit_value
     \<Rightarrow> 'd storage \<Rightarrow> u64 rwlock \<Rightarrow> 'd storage \<Rightarrow> u64 rwlock \<Rightarrow> bool" where
  "store_effect P contents ok ns limit st counter st' counter' \<longleftrightarrow>
     vtable st' = P \<and> ok (database st') \<and> shared_dbs st' = shared_dbs st
   \<and> (\<forall>ns'. ns' \<noteq> ns \<longrightarrow> contents (database st') ns' = contents (database st) ns')
   \<and> (accounted (contents (database st) ns) limit counter \<longrightarrow>
        accounted (contents (database st') ns) limit counter')
   \<and> (accounted (contents (database st) ns) limit counter \<longrightarrow> limit_sane limit \<longrightarrow>
        within_quota (contents (database st) ns) limit \<longrightarrow>
        within_quota (contents (database st') ns) limit)"

lemma would_be_used_storage_eq:
  assumes "finite (dom m)" and "used = word_of_nat (map_bytes m)"
  shows "would_be_used_storage used key val (m key) = word_of_nat (map_bytes (m(key \<mapsto> val)))"
proof -
  have "(word_of_nat (map_bytes (m(key \<mapsto> val))) :: u64) + word_of_nat (entry_bytes m key) =
      word_of_nat (map_bytes m) + (word_of_nat (length key) + word_of_nat (length val))"
    using map_bytes_update [OF assms(1), of key val] by (metis of_nat_add)
  then show ?thesis
    by (cases "m key") (simp_all add: would_be_used_storage_def assms(2) entry_bytes_def
        eq_diff_eq algebra_simps)
qed

lemma counter_after_delete:
  assumes "finite (dom m)" and "used = word_of_nat (map_bytes m)" and "m key = Some d"
  shows "used - word_of_nat (length key) - word_of_nat (length d) = (word_of_nat (map_bytes (m(key := None))) :: u64)"
proof -
  have "map_bytes m = map_bytes (m(key := None)) + (length key + length d)"
    using map_bytes_delete [OF assms(1), of key] assms(3) by (simp add: entry_bytes_def)
  then show ?thesis by (simp add: assms(2))
qed

lemma return_to_guest_memory:
  "return_to_guest W m p n (Inr None) = (0, m)"
  "return_to_guest W m p n (Inl e) = (error_code InternalApiError, m)"
  by (simp_all add: return_to_guest_def)

context storage_contract
begin

text \<open>
  The effect of \<^verbatim>\<open>insert_common\<close> on the database: nothing, or the one insertion that was asked for.
\<close>

lemma insertion_result_effect:
  assumes "vtable st = P" and "inv (database st)"
    and "insertion_result st ns key val limit counter = Inr (r, st', counter')"
  shows "vtable st' = P" and "inv (database st')" and "shared_dbs st' = shared_dbs st"
    and "contents (database st') = (case r of Inl _ \<Rightarrow> contents (database st)
          | Inr _ \<Rightarrow> (contents (database st))(ns := (contents (database st) ns)(key \<mapsto> val)))"
    and "\<And>lim. limit = Limited lim \<Longrightarrow> counter' = (case r of Inl _ \<Rightarrow> counter
          | Inr _ \<Rightarrow> counter\<lparr>lock_val := would_be_used_storage (lock_val counter) key val (contents (database st) ns key)\<rparr>)"
    and "\<And>lim. limit = Limited lim \<Longrightarrow>
          would_be_used_storage (lock_val counter) key val (contents (database st) ns key) \<le> lim"
proof -
  obtain d' where ins: "sp_insert P (database st) ns key val = (r, d')" and st': "st' = st\<lparr>database := d'\<rparr>"
    using assms(1,3) by (auto simp: insertion_result_def storage_ops Let_def
        split: limit_value.splits if_splits sum.splits prod.splits)
  show "vtable st' = P" "inv (database st')" "shared_dbs st' = shared_dbs st"
    using assms(1) insert_inv [OF assms(2) ins] by (simp_all add: st')
  show "contents (database st') = (case r of Inl _ \<Rightarrow> contents (database st)
          | Inr _ \<Rightarrow> (contents (database st))(ns := (contents (database st) ns)(key \<mapsto> val)))"
    using insert_contents [OF assms(2)] insert_fail [OF assms(2)] ins by (cases r) (simp_all add: st')
  fix lim assume lim: "limit = Limited lim"
  obtain old where old: "storage_get st ns key = Inr old"
    using assms(3) lim by (auto simp: insertion_result_def split: if_splits sum.splits)
  then have "old = contents (database st) ns key"
    using get_contents [OF assms(2)] assms(1) by (simp add: storage_get_def)
  then show "counter' = (case r of Inl _ \<Rightarrow> counter
          | Inr _ \<Rightarrow> counter\<lparr>lock_val := would_be_used_storage (lock_val counter) key val (contents (database st) ns key)\<rparr>)"
    and "would_be_used_storage (lock_val counter) key val (contents (database st) ns key) \<le> lim"
    using assms(3) lim old by (auto simp: insertion_result_def Let_def split: if_splits prod.splits)
qed

lemma insertion_result_accounted:
  assumes "vtable st = P" and "inv (database st)"
    and "insertion_result st ns key val limit counter = Inr (r, st', counter')"
    and "accounted (contents (database st) ns) limit counter"
  shows "accounted (contents (database st') ns) limit counter'"
proof (cases limit)
  case (Limited lim)
  note eff = insertion_result_effect [OF assms(1-3)]
  have used: "lock_val counter = word_of_nat (map_bytes (contents (database st) ns))"
    using assms(4) Limited by (simp add: accounted_def)
  show ?thesis
    using eff(4) eff(5) [OF Limited]
      would_be_used_storage_eq [OF finite_contents [OF assms(2)] used, of key val] used
    by (cases r) (simp_all add: accounted_def Limited)
qed (simp add: accounted_def)

lemma deletion_result_effect:
  assumes "vtable st = P" and "inv (database st)"
    and "deletion_result st ns key n limit counter = Inr (r, st', counter')"
  shows "vtable st' = P" and "inv (database st')" and "shared_dbs st' = shared_dbs st"
    and "contents (database st') = contents (database st)
       \<or> n \<noteq> 0 \<and> contents (database st') = (contents (database st))(ns := (contents (database st) ns)(key := None))"
proof -
  let ?C = "contents (database st)"
  have "st' = st \<or> n \<noteq> 0 \<and> (\<exists>d'. sp_delete P (database st) ns key = (r, d') \<and> st' = st\<lparr>database := d'\<rparr>)"
    using assms(1,3) by (auto simp: deletion_result_def storage_ops Let_def
        split: limit_value.splits if_splits sum.splits prod.splits)
  then have "vtable st' = P \<and> inv (database st') \<and> shared_dbs st' = shared_dbs st
    \<and> (contents (database st') = ?C \<or> n \<noteq> 0 \<and> contents (database st') = ?C(ns := (?C ns)(key := None)))"
  proof (elim disjE conjE exE)
    fix d' assume del: "n \<noteq> 0" "sp_delete P (database st) ns key = (r, d')" "st' = st\<lparr>database := d'\<rparr>"
    then have "contents d' = ?C \<or> contents d' = ?C(ns := (?C ns)(key := None))"
      using delete_contents [OF assms(2)] delete_fail [OF assms(2)] by (cases r) blast+
    then show ?thesis using del assms(1) delete_inv [OF assms(2) del(2)] by simp
  qed (use assms in simp)
  then show "vtable st' = P" "inv (database st')" "shared_dbs st' = shared_dbs st"
    "contents (database st') = ?C \<or> n \<noteq> 0 \<and> contents (database st') = ?C(ns := (?C ns)(key := None))"
    by blast+
qed

lemma deletion_result_accounted:
  assumes "vtable st = P" and "inv (database st)"
    and "deletion_result st ns key n limit counter = Inr (r, st', counter')"
    and "accounted (contents (database st) ns) limit counter"
  shows "accounted (contents (database st') ns) limit counter'"
proof (cases "limit = Unlimited \<or> n = 0")
  case True
  then show ?thesis using assms(3,4)
    by (cases limit) (auto simp: accounted_def deletion_result_def)
next
  case False
  then obtain lim where lim: "limit = Limited lim" by (cases limit) auto
  obtain d' where del: "sp_delete P (database st) ns key = (r, d')" and st': "st' = st\<lparr>database := d'\<rparr>"
    and c': "counter' = (case r of Inr (Some data) \<Rightarrow> counter\<lparr>lock_val := lock_val counter
                        - word_of_nat (length key) - word_of_nat (length data)\<rparr> | _ \<Rightarrow> counter)"
    using assms(1,3) lim False by (auto simp: deletion_result_def storage_ops Let_def
        split: if_splits prod.splits)
  let ?m = "contents (database st) ns"
  have used: "lock_val counter = word_of_nat (map_bytes ?m)"
    using assms(4) by (simp add: accounted_def lim)
  show ?thesis
  proof (cases r)
    case (Inl e)
    then show ?thesis using delete_fail [OF assms(2)] del used by (simp add: accounted_def lim c' st')
  next
    case (Inr old)
    then have old: "old = ?m key" and d': "contents d' = (contents (database st))(ns := ?m(key := None))"
      using delete_old [OF assms(2)] delete_contents [OF assms(2)] del by simp_all
    show ?thesis
    proof (cases "?m key")
      case None
      then have "?m(key := None) = ?m" by (simp add: fun_eq_iff)
      then show ?thesis using Inr old None used by (simp add: accounted_def lim c' st' d')
    next
      case (Some data)
      then show ?thesis using Inr old counter_after_delete [OF finite_contents [OF assms(2)] used Some]
        by (simp add: accounted_def lim c' st' d')
    qed
  qed
qed

text \<open>
  The effect of one insertion or deletion on everything the storage functions share: only the
  namespace at hand changes, and its accounting and quota are kept.
\<close>

lemma insertion_result_quota:
  assumes "vtable st = P" and "inv (database st)"
    and "insertion_result st ns key val limit counter = Inr (r, st', counter')"
    and "accounted (contents (database st) ns) limit counter" and "limit_sane limit"
    and "within_quota (contents (database st) ns) limit" and "length key < 2 ^ 32" and "length val < 2 ^ 32"
  shows "within_quota (contents (database st') ns) limit"
proof (cases limit)
  case (Limited lim)
  let ?m = "contents (database st) ns"
  note eff = insertion_result_effect [OF assms(1-3)]
  note fin = finite_contents [OF assms(2), of ns]
  have used: "lock_val counter = word_of_nat (map_bytes ?m)"
    using assms(4) Limited by (simp add: accounted_def)
  have "map_bytes (?m(key \<mapsto> val)) < 2 ^ 64"
    using map_bytes_update_le [OF fin, of key val] assms(5-8)
    by (simp add: Limited limit_sane_def within_quota_def)
  moreover have "word_of_nat (map_bytes (?m(key \<mapsto> val))) \<le> lim"
    using eff(6) [OF Limited] would_be_used_storage_eq [OF fin used, of key val] by simp
  ultimately have "map_bytes (?m(key \<mapsto> val)) \<le> unat lim"
    by (simp add: word_le_nat_alt unat_word_of_nat_u64)
  then show ?thesis
    using eff(4) assms(6) by (cases r) (simp_all add: within_quota_def Limited)
qed (simp add: within_quota_def)

lemma insert_common_effect:
  assumes "vtable st = P" and "inv (database st)"
    and "insert_common W st ns key val m p n limit counter = (code, m', st', counter')"
    and "length key < 2 ^ 32" and "length val < 2 ^ 32"
  shows "store_effect P contents inv ns limit st counter st' counter'"
proof (cases "insertion_result st ns key val limit counter")
  case (Inl e)
  then show ?thesis using assms(1-3) by (simp add: insert_common_def store_effect_def)
next
  case (Inr a)
  then have res: "insertion_result st ns key val limit counter = Inr (fst a, st', counter')"
    using assms(3) by (cases a) (simp add: insert_common_def split: prod.splits)
  note eff = insertion_result_effect [OF assms(1,2) res]
  have "contents (database st') ns' = contents (database st) ns'" if "ns' \<noteq> ns" for ns'
    using eff(4) that by (simp split: sum.splits)
  then show ?thesis
    using eff(1-3) insertion_result_accounted [OF assms(1,2) res]
      insertion_result_quota [OF assms(1,2) res] assms(4,5)
    by (simp add: store_effect_def)
qed

lemma delete_common_effect:
  assumes "vtable st = P" and "inv (database st)"
    and "delete_common W st ns key m p n limit counter = (code, m', st', counter')"
  shows "store_effect P contents inv ns limit st counter st' counter'"
proof (cases "deletion_result st ns key n limit counter")
  case (Inl e)
  then show ?thesis using assms(1-3) by (simp add: delete_common_def store_effect_def)
next
  case (Inr a)
  then have res: "deletion_result st ns key n limit counter = Inr (fst a, st', counter')"
    using assms(3) by (cases a) (simp add: delete_common_def split: prod.splits)
  note eff = deletion_result_effect [OF assms(1,2) res]
  have "contents (database st') ns' = contents (database st) ns'" if "ns' \<noteq> ns" for ns'
    using eff(4) that by auto
  moreover have "map_bytes (contents (database st') ns) \<le> map_bytes (contents (database st) ns)"
    using eff(4) map_bytes_delete_le [OF finite_contents [OF assms(2)], of ns key] by auto
  ultimately show ?thesis
    using eff(1-3) deletion_result_accounted [OF assms(1,2) res]
    by (auto simp: store_effect_def within_quota_def split: limit_value.splits)
qed

end

end
