(* ===== verification/Plaid_Storage_Runs.thy ===== *)
theory Plaid_Storage_Runs
  imports Plaid_Storage_Fns
begin

text \<open>
  What running modules can do to the storage. A guest calls any storage function, with any pointers
  and with whatever it has put into its memory before; several modules take turns on one storage
  object. The relation \<open>call_effect\<close> summarises a call by its effect on the storage, and the
  theorems follow from it: the counters always hold the bytes stored, quotas are kept, and a module
  touches only its own namespace and the shared databases it may write.
\<close>

subsection \<open>Calls and runs\<close>

datatype storage_fn =
    CInsert u32 u32 u32 u32 u32 u32
  | CGet u32 u32 u32 u32
  | CListKeys u32 u32 u32 u32
  | CDelete u32 u32 u32 u32
  | CInsertShared u32 u32 u32 u32 u32 u32 u32 u32
  | CGetShared u32 u32 u32 u32 u32 u32
  | CListKeysShared u32 u32 u32 u32 u32 u32
  | CDeleteShared u32 u32 u32 u32 u32 u32

fun storage_call ::
  "'m wasm_ops \<Rightarrow> (string list \<Rightarrow> string option) \<Rightarrow> storage_fn \<Rightarrow> ('m, 'd, 'c, 'q) env
     \<Rightarrow> i32 \<times> ('m, 'd, 'c, 'q) env" where
  "storage_call W J (CInsert a b c d e f) env = fn_insert W env a b c d e f"
| "storage_call W J (CGet a b c d) env = fn_get W env a b c d"
| "storage_call W J (CListKeys a b c d) env = fn_list_keys W J env a b c d"
| "storage_call W J (CDelete a b c d) env = fn_delete W env a b c d"
| "storage_call W J (CInsertShared a b c d e f g h) env = fn_insert_shared W env a b c d e f g h"
| "storage_call W J (CGetShared a b c d e f) env = fn_get_shared W env a b c d e f"
| "storage_call W J (CListKeysShared a b c d e f) env = fn_list_keys_shared W J env a b c d e f"
| "storage_call W J (CDeleteShared a b c d e f) env = fn_delete_shared W env a b c d e f"

inductive call_effect ::
  "'d storage_provider \<Rightarrow> ('d \<Rightarrow> string \<Rightarrow> ns_map) \<Rightarrow> ('d \<Rightarrow> bool)
     \<Rightarrow> ('m, 'd, 'c, 'q) env \<Rightarrow> ('m, 'd, 'c, 'q) env \<Rightarrow> bool"
  for P contents ok where
  effect_memory: "call_effect P contents ok env (env\<lparr>env_memory := mem\<rparr>)"
| effect_own:
    "env_storage env = Some st \<Longrightarrow>
     store_effect P contents ok (mod_name (env_module env)) (storage_limit (env_module env))
       st (storage_current (env_module env)) st' counter' \<Longrightarrow>
     call_effect P contents ok env
       (env\<lparr>env_memory := mem, env_storage := Some st',
            env_module := (env_module env)\<lparr>storage_current := counter'\<rparr>\<rparr>)"
| effect_shared:
    "env_storage env = Some st \<Longrightarrow> shared_dbs st = Some dbs \<Longrightarrow>
     can_write dbs ns (mod_name (env_module env)) \<Longrightarrow> hm_get dbs ns = Some db \<Longrightarrow>
     store_effect P contents ok ns (size_limit (sdb_config db)) st (used_storage db) st' counter' \<Longrightarrow>
     call_effect P contents ok env
       (env\<lparr>env_memory := mem, env_storage := Some (set_used_storage st' ns counter')\<rparr>)"

lemma effect_same: "call_effect P contents ok env env"
  using effect_memory [of P contents ok env "env_memory env"] by simp

lemma get_string_length:
  assumes "wasm_mem_ok W" and "safely_get_string W m p n = Inr s"
  shows "length s < 2 ^ 32"
proof -
  have "view_read W m (ucast p) (unat n) = Some (as_bytes s)"
    using assms unfolding wasm_mem_ok_def by (auto simp: safely_get_string_def split: option.splits)
  then have "length (as_bytes s) = unat n" using assms(1) unfolding wasm_mem_ok_def by blast
  then show ?thesis using unat_u32_bound [of n] by simp
qed

lemma get_memory_length:
  assumes "wasm_mem_ok W" and "safely_get_memory W m p n lim = Inr b"
  shows "length b < 2 ^ 32"
proof -
  have "view_read W m (ucast p) (unat n) = Some b"
    using assms(2) by (auto simp: safely_get_memory_def split: if_splits option.splits)
  then have "length b = unat n" using assms(1) unfolding wasm_mem_ok_def by blast
  then show ?thesis using unat_u32_bound [of n] by simp
qed

lemma guest_string_effect:
  assumes "wasm_mem_ok W"
    and "safely_get_guest_string W mv p n env k = (code, env')"
    and "\<And>s. length s < 2 ^ 32 \<Longrightarrow> k s = (code, env') \<Longrightarrow> call_effect P contents ok env env'"
  shows "call_effect P contents ok env env'"
  using assms get_string_length [OF assms(1), of mv p n]
  by (auto simp: safely_get_guest_string_def effect_same split: sum.splits)

lemma guest_memory_effect:
  assumes "wasm_mem_ok W"
    and "safely_get_guest_memory W mv p n env k = (code, env')"
    and "\<And>s. length s < 2 ^ 32 \<Longrightarrow> k s = (code, env') \<Longrightarrow> call_effect P contents ok env env'"
  shows "call_effect P contents ok env env'"
  using assms get_memory_length [OF assms(1), of mv p n]
  by (auto simp: safely_get_guest_memory_def Let_def effect_same split: sum.splits)

lemma guest_prologue_effect:
  assumes "(case env_storage env of None \<Rightarrow> (c1, env) | Some st \<Rightarrow>
       (case get_memory (env_memory env) of Inl _ \<Rightarrow> (c2, env) | Inr mv \<Rightarrow> k st mv)) = (code, env')"
    and "\<And>st mv. env_storage env = Some st \<Longrightarrow> k st mv = (code, env') \<Longrightarrow> call_effect P contents ok env env'"
  shows "call_effect P contents ok env env'"
  using assms by (auto simp: effect_same split: option.splits sum.splits)

lemma shared_prologue_effect:
  assumes "(case env_storage env of None \<Rightarrow> (c1, env) | Some st \<Rightarrow>
       (case shared_dbs st of None \<Rightarrow> (c2, env) | Some dbs \<Rightarrow>
       (case get_memory (env_memory env) of Inl _ \<Rightarrow> (c3, env) | Inr mv \<Rightarrow> k st dbs mv))) = (code, env')"
    and "\<And>st dbs mv. env_storage env = Some st \<Longrightarrow> shared_dbs st = Some dbs \<Longrightarrow>
       k st dbs mv = (code, env') \<Longrightarrow> call_effect P contents ok env env'"
  shows "call_effect P contents ok env env'"
  using assms by (auto simp: effect_same split: option.splits sum.splits)

subsection \<open>Several modules on one storage object\<close>

text \<open>
  The loaded modules share one storage object; each has its own counter. One turn runs a storage
  function for one module, in an environment that carries the shared storage, the module and a
  memory the guest prepared; the rest of the environment is arbitrary.
\<close>

record 'd sys =
  sys_storage :: "'d storage"
  sys_modules :: "(string, plaid_module) hashmap"

definition sys_call ::
  "'m wasm_ops \<Rightarrow> (string list \<Rightarrow> string option) \<Rightarrow> ('m, 'd, 'c, 'q) env \<Rightarrow> string \<times> 'm \<times> storage_fn
     \<Rightarrow> 'd sys \<Rightarrow> 'd sys" where
  "sys_call W J env0 turn s =
     (let (name, mem, call) = turn
      in case hm_get (sys_modules s) name of
           None \<Rightarrow> s
         | Some pm \<Rightarrow>
             (let env = env0\<lparr>env_module := pm, env_storage := Some (sys_storage s), env_memory := Some mem\<rparr>;
                  (code, env') = storage_call W J call env
              in case env_storage env' of
                   None \<Rightarrow> s
                 | Some st \<Rightarrow> \<lparr>sys_storage = st, sys_modules = hm_insert name (env_module env') (sys_modules s)\<rparr>))"

fun sys_run ::
  "'m wasm_ops \<Rightarrow> (string list \<Rightarrow> string option) \<Rightarrow> ('m, 'd, 'c, 'q) env \<Rightarrow> (string \<times> 'm \<times> storage_fn) list
     \<Rightarrow> 'd sys \<Rightarrow> 'd sys" where
  "sys_run W J env0 [] s = s"
| "sys_run W J env0 (t # ts) s = sys_run W J env0 ts (sys_call W J env0 t s)"

definition sys_dbs :: "'d sys \<Rightarrow> (string, shared_db) hashmap" where
  "sys_dbs s = (case shared_dbs (sys_storage s) of None \<Rightarrow> [] | Some dbs \<Rightarrow> dbs)"

abbreviation sys_contents :: "('d \<Rightarrow> string \<Rightarrow> ns_map) \<Rightarrow> 'd sys \<Rightarrow> string \<Rightarrow> ns_map" where
  "sys_contents contents s \<equiv> contents (database (sys_storage s))"

definition sys_inv ::
  "'d storage_provider \<Rightarrow> ('d \<Rightarrow> string \<Rightarrow> ns_map) \<Rightarrow> ('d \<Rightarrow> bool) \<Rightarrow> 'd sys \<Rightarrow> bool" where
  "sys_inv P contents ok s \<longleftrightarrow>
     vtable (sys_storage s) = P \<and> ok (database (sys_storage s))
   \<and> (\<forall>name pm. hm_get (sys_modules s) name = Some pm \<longrightarrow> mod_name pm = name \<and> hm_get (sys_dbs s) name = None)
   \<and> (\<forall>name pm. hm_get (sys_modules s) name = Some pm \<longrightarrow>
        accounted (sys_contents contents s name) (storage_limit pm) (storage_current pm))
   \<and> (\<forall>ns db. hm_get (sys_dbs s) ns = Some db \<longrightarrow>
        accounted (sys_contents contents s ns) (size_limit (sdb_config db)) (used_storage db))"

text \<open>The limit of a namespace: a module's for its own, the configured one for a shared database.\<close>

definition sys_limit :: "'d sys \<Rightarrow> string \<Rightarrow> limit_value" where
  "sys_limit s ns =
     (case hm_get (sys_modules s) ns of
        Some pm \<Rightarrow> storage_limit pm
      | None \<Rightarrow> (case hm_get (sys_dbs s) ns of Some db \<Rightarrow> size_limit (sdb_config db) | None \<Rightarrow> Unlimited))"

definition sys_counter :: "'d sys \<Rightarrow> string \<Rightarrow> u64 rwlock" where
  "sys_counter s ns =
     (case hm_get (sys_modules s) ns of
        Some pm \<Rightarrow> storage_current pm
      | None \<Rightarrow> (case hm_get (sys_dbs s) ns of Some db \<Rightarrow> used_storage db | None \<Rightarrow> rwlock_new 0))"

text \<open>The namespaces a module may change: its own, and the shared databases that list it as a writer.\<close>

definition may_write :: "'d sys \<Rightarrow> string \<Rightarrow> string \<Rightarrow> bool" where
  "may_write s name ns \<longleftrightarrow> ns = name \<or> can_write (sys_dbs s) ns name"

text \<open>
  What one turn may do: change one namespace that its module may write, keeping the accounting and
  the quota of that namespace; limits, names and permissions stay as they are.
\<close>

definition turn_effect ::
  "'d storage_provider \<Rightarrow> ('d \<Rightarrow> string \<Rightarrow> ns_map) \<Rightarrow> ('d \<Rightarrow> bool) \<Rightarrow> string \<Rightarrow> 'd sys \<Rightarrow> 'd sys \<Rightarrow> bool" where
  "turn_effect P contents ok name s s' \<longleftrightarrow>
     sys_inv P contents ok s' \<and> sys_limit s' = sys_limit s
   \<and> can_write (sys_dbs s') = can_write (sys_dbs s)
   \<and> (\<forall>ns. \<not> may_write s name ns \<longrightarrow> sys_contents contents s' ns = sys_contents contents s ns)
   \<and> (\<forall>ns. limit_sane (sys_limit s ns) \<longrightarrow> within_quota (sys_contents contents s ns) (sys_limit s ns) \<longrightarrow>
        within_quota (sys_contents contents s' ns) (sys_limit s ns))"

lemma sys_inv_accounted:
  "sys_inv P contents ok s \<Longrightarrow> accounted (sys_contents contents s ns) (sys_limit s ns) (sys_counter s ns)"
  by (auto simp: sys_inv_def sys_limit_def sys_counter_def accounted_def split: option.splits)

lemma turn_effect_refl: "sys_inv P contents ok s \<Longrightarrow> turn_effect P contents ok name s s"
  by (simp add: turn_effect_def)

lemma sys_eta: "\<lparr>sys_storage = sys_storage s, sys_modules = sys_modules s\<rparr> = s"
  by simp

lemma sys_dbs_set_used:
  "sys_dbs \<lparr>sys_storage = set_used_storage st ns c, sys_modules = ms\<rparr> =
     (case shared_dbs st of None \<Rightarrow> [] | Some dbs \<Rightarrow>
        (case hm_get dbs ns of None \<Rightarrow> dbs | Some db \<Rightarrow> hm_insert ns (db\<lparr>used_storage := c\<rparr>) dbs))"
  by (simp add: sys_dbs_def set_used_storage_def split: option.splits)

lemma database_set_used [simp]: "database (set_used_storage st ns c) = database st"
  and vtable_set_used [simp]: "vtable (set_used_storage st ns c) = vtable st"
  by (simp_all add: set_used_storage_def split: option.splits)

lemma own_turn_effect:
  assumes "sys_inv P contents ok s" and "hm_get (sys_modules s) name = Some pm"
    and "store_effect P contents ok name (storage_limit pm) (sys_storage s) (storage_current pm) st' c'"
  shows "turn_effect P contents ok name s
     \<lparr>sys_storage = st', sys_modules = hm_insert name (pm\<lparr>storage_current := c'\<rparr>) (sys_modules s)\<rparr>"
proof -
  let ?s' = "\<lparr>sys_storage = st', sys_modules = hm_insert name (pm\<lparr>storage_current := c'\<rparr>) (sys_modules s)\<rparr>"
  have dbs: "sys_dbs ?s' = sys_dbs s" using assms(3) by (simp add: sys_dbs_def store_effect_def)
  have other: "contents (database st') ns = sys_contents contents s ns" if "ns \<noteq> name" for ns
    using assms(3) that by (simp add: store_effect_def)
  have lim: "sys_limit ?s' = sys_limit s"
    unfolding sys_limit_def dbs using assms(2) by (auto simp: fun_eq_iff split: option.split)
  have own: "hm_get (sys_dbs s) name = None" "mod_name pm = name"
    "accounted (sys_contents contents s name) (storage_limit pm) (storage_current pm)"
    using assms(1,2) by (simp_all add: sys_inv_def)
  have db_other: "ns \<noteq> name" if "hm_get (sys_dbs s) ns = Some db" for ns db
    using own(1) that by auto
  have "sys_inv P contents ok ?s'"
    using assms(1,3) own other db_other unfolding sys_inv_def dbs
    by (simp add: store_effect_def)
  moreover have "within_quota (contents (database st') ns) (sys_limit s ns)"
    if "limit_sane (sys_limit s ns)" "within_quota (sys_contents contents s ns) (sys_limit s ns)" for ns
    using that assms(2,3) own(3) other by (cases "ns = name") (auto simp: store_effect_def sys_limit_def)
  ultimately show ?thesis
    using lim dbs other by (auto simp: turn_effect_def may_write_def)
qed

lemma shared_turn_effect:
  assumes "sys_inv P contents ok s" and "hm_get (sys_modules s) name = Some pm"
    and "shared_dbs (sys_storage s) = Some dbs" and "can_write dbs ns name" and "hm_get dbs ns = Some db"
    and "store_effect P contents ok ns (size_limit (sdb_config db)) (sys_storage s) (used_storage db) st' c'"
  shows "turn_effect P contents ok name s
     \<lparr>sys_storage = set_used_storage st' ns c', sys_modules = hm_insert name pm (sys_modules s)\<rparr>"
proof -
  let ?s' = "\<lparr>sys_storage = set_used_storage st' ns c', sys_modules = hm_insert name pm (sys_modules s)\<rparr>"
  have dbs0: "sys_dbs s = dbs" using assms(3) by (simp add: sys_dbs_def)
  have dbs: "sys_dbs ?s' = hm_insert ns (db\<lparr>used_storage := c'\<rparr>) dbs"
    using assms(3,5,6) by (simp add: sys_dbs_set_used store_effect_def)
  have other: "contents (database st') ns' = sys_contents contents s ns'" if "ns' \<noteq> ns" for ns'
    using assms(6) that by (simp add: store_effect_def)
  have mods: "hm_get (sys_modules ?s') = hm_get (sys_modules s)"
    using assms(2) by (auto simp: fun_eq_iff)
  have nomod: "hm_get (sys_modules s) ns = None"
    using assms(1,5) dbs0 by (cases "hm_get (sys_modules s) ns") (auto simp: sys_inv_def)
  have lim: "sys_limit ?s' = sys_limit s"
    unfolding sys_limit_def mods dbs dbs0 using assms(5) nomod by (auto simp: fun_eq_iff split: option.split)
  have acc: "accounted (sys_contents contents s ns) (size_limit (sdb_config db)) (used_storage db)"
    using assms(1,5) dbs0 by (simp add: sys_inv_def)
  have mod_other: "name' \<noteq> ns" if "hm_get (sys_modules s) name' = Some pm'" for name' pm'
    using nomod that by auto
  have "sys_inv P contents ok ?s'"
    using assms(1,6) acc other mod_other unfolding sys_inv_def mods dbs dbs0
    by (simp add: store_effect_def)
  moreover have "can_write (sys_dbs ?s') = can_write dbs"
    unfolding dbs using assms(5) by (auto simp: can_write_def fun_eq_iff)
  moreover have "within_quota (contents (database st') ns') (sys_limit s ns')"
    if "limit_sane (sys_limit s ns')" "within_quota (sys_contents contents s ns') (sys_limit s ns')" for ns'
    using that assms(5,6) acc other nomod dbs0
    by (cases "ns' = ns") (auto simp: store_effect_def sys_limit_def)
  moreover have "contents (database st') ns' = sys_contents contents s ns'" if "\<not> can_write dbs ns' name" for ns'
    using other that assms(4) by metis
  ultimately show ?thesis
    using lim by (simp add: turn_effect_def may_write_def dbs0)
qed

context storage_contract
begin

lemma storage_call_effect:
  assumes "wasm_mem_ok W" and "\<And>st. env_storage env = Some st \<Longrightarrow> vtable st = P \<and> inv (database st)"
    and "storage_call W J call env = (code, env')"
  shows "call_effect P contents inv env env'"
proof (cases call)
  case (CInsert a b c d e f)
  show ?thesis
    using assms(3) unfolding CInsert storage_call.simps fn_insert_def
    apply (rule guest_prologue_effect)
    apply (erule guest_string_effect [OF assms(1)])
    apply (erule guest_memory_effect [OF assms(1)])
    subgoal for st mv key val
      using assms(2) insert_common_effect [of st W "mod_name (env_module env)" key val mv e f]
      by (auto simp: Let_def split: prod.splits intro!: effect_own)
    done
next
  case (CGet a b c d)
  show ?thesis
    using assms(3) unfolding CGet storage_call.simps fn_get_def
    apply (rule guest_prologue_effect)
    apply (erule guest_string_effect [OF assms(1)])
    by (auto simp: Let_def split: prod.splits intro: effect_memory)
next
  case (CListKeys a b c d)
  show ?thesis
    using assms(3) unfolding CListKeys storage_call.simps fn_list_keys_def
    apply (rule guest_prologue_effect)
    apply (erule guest_string_effect [OF assms(1)])
    by (auto simp: Let_def split: prod.splits intro: effect_memory)
next
  case (CDelete a b c d)
  show ?thesis
    using assms(3) unfolding CDelete storage_call.simps fn_delete_def
    apply (rule guest_prologue_effect)
    apply (erule guest_string_effect [OF assms(1)])
    subgoal for st mv key
      using assms(2) delete_common_effect [of st W "mod_name (env_module env)" key mv c d]
      by (auto simp: Let_def split: prod.splits intro!: effect_own)
    done
next
  case (CInsertShared a b c d e f g h)
  show ?thesis
    using assms(3) unfolding CInsertShared storage_call.simps fn_insert_shared_def
    apply (rule shared_prologue_effect)
    apply (erule guest_string_effect [OF assms(1)])
    apply (simp add: effect_same split: if_splits)
    apply (erule guest_string_effect [OF assms(1)])
    apply (erule guest_memory_effect [OF assms(1)])
    subgoal for st dbs mv ns key val
      using assms(2) insert_common_effect [of st W ns key val mv g h]
      by (auto simp: Let_def effect_same split: prod.splits option.splits intro!: effect_shared)
    done
next
  case (CGetShared a b c d e f)
  show ?thesis
    using assms(3) unfolding CGetShared storage_call.simps fn_get_shared_def
    apply (rule shared_prologue_effect)
    apply (erule guest_string_effect [OF assms(1)])
    apply (simp add: effect_same split: if_splits)
    apply (erule guest_string_effect [OF assms(1)])
    by (auto simp: Let_def split: prod.splits intro: effect_memory)
next
  case (CListKeysShared a b c d e f)
  show ?thesis
    using assms(3) unfolding CListKeysShared storage_call.simps fn_list_keys_shared_def
    apply (rule shared_prologue_effect)
    apply (erule guest_string_effect [OF assms(1)])
    apply (simp add: effect_same split: if_splits)
    apply (erule guest_string_effect [OF assms(1)])
    by (auto simp: Let_def split: prod.splits intro: effect_memory)
next
  case (CDeleteShared a b c d e f)
  show ?thesis
    using assms(3) unfolding CDeleteShared storage_call.simps fn_delete_shared_def
    apply (rule shared_prologue_effect)
    apply (erule guest_string_effect [OF assms(1)])
    apply (erule guest_string_effect [OF assms(1)])
    apply (simp add: effect_same split: if_splits)
    subgoal for st dbs mv ns key
      using assms(2) delete_common_effect [of st W ns key mv e f]
      by (auto simp: Let_def effect_same split: prod.splits option.splits intro!: effect_shared)
    done
qed


lemma sys_call_effect:
  assumes "wasm_mem_ok W" and "sys_inv P contents inv s"
  shows "turn_effect P contents inv (fst turn) s (sys_call W J env0 turn s)"
proof -
  obtain name mem call where turn: "turn = (name, mem, call)" by (cases turn) auto
  show ?thesis
  proof (cases "hm_get (sys_modules s) name")
    case None
    then show ?thesis using turn_effect_refl [OF assms(2)] by (simp add: sys_call_def turn)
  next
    case (Some pm)
    let ?env = "env0\<lparr>env_module := pm, env_storage := Some (sys_storage s), env_memory := Some mem\<rparr>"
    obtain code env' where call: "storage_call W J call ?env = (code, env')" by force
    have out: "sys_call W J env0 (name, mem, call) s = (case env_storage env' of None \<Rightarrow> s | Some st \<Rightarrow>
        \<lparr>sys_storage = st, sys_modules = hm_insert name (env_module env') (sys_modules s)\<rparr>)"
      by (simp add: sys_call_def Some call)
    have own: "mod_name pm = name" using assms(2) Some by (simp add: sys_inv_def)
    have "call_effect P contents inv ?env env'"
      using assms by (intro storage_call_effect [OF _ _ call]) (simp_all add: sys_inv_def)
    then show ?thesis
    proof cases
      case (effect_memory m)
      then show ?thesis
        using turn_effect_refl [OF assms(2)] Some by (simp add: turn out sys_eta)
    next
      case (effect_own st st' c' m)
      then show ?thesis
        using own_turn_effect [OF assms(2) Some] by (simp add: turn out own)
    next
      case (effect_shared st dbs ns db st' c' m)
      then show ?thesis
        using shared_turn_effect [OF assms(2) Some] by (simp add: turn out own)
    qed
  qed
qed


definition run_effect :: "'d sys \<Rightarrow> string set \<Rightarrow> 'd sys \<Rightarrow> bool" where
  "run_effect s names s' \<longleftrightarrow>
     sys_inv P contents inv s' \<and> sys_limit s' = sys_limit s
   \<and> can_write (sys_dbs s') = can_write (sys_dbs s)
   \<and> (\<forall>ns. (\<forall>name \<in> names. \<not> may_write s name ns) \<longrightarrow>
        sys_contents contents s' ns = sys_contents contents s ns)
   \<and> (\<forall>ns. limit_sane (sys_limit s ns) \<longrightarrow> within_quota (sys_contents contents s ns) (sys_limit s ns) \<longrightarrow>
        within_quota (sys_contents contents s' ns) (sys_limit s ns))"

lemma run_effect_step:
  assumes "turn_effect P contents inv name s s1" and "run_effect s1 names s'"
  shows "run_effect s (insert name names) s'"
  using assms by (auto simp: turn_effect_def run_effect_def may_write_def)

lemma sys_run_effect:
  "wasm_mem_ok W \<Longrightarrow> sys_inv P contents inv s \<Longrightarrow> run_effect s (fst ` set ts) (sys_run W J env0 ts s)"
proof (induction ts arbitrary: s)
  case Nil
  then show ?case by (simp add: run_effect_def)
next
  case (Cons t ts)
  have turn: "turn_effect P contents inv (fst t) s (sys_call W J env0 t s)"
    using Cons.prems by (rule sys_call_effect)
  then have "sys_inv P contents inv (sys_call W J env0 t s)" by (simp add: turn_effect_def)
  then show ?case using run_effect_step [OF turn Cons.IH] Cons.prems(1) by simp
qed

lemma sys_run_limit:
  assumes "wasm_mem_ok W" and "sys_inv P contents inv s"
  shows "sys_limit (sys_run W J env0 ts s) = sys_limit s"
  using sys_run_effect [OF assms, of ts J env0] by (simp add: run_effect_def)

lemma sys_run_accounted:
  assumes "wasm_mem_ok W" and "sys_inv P contents inv s"
  shows "accounted (sys_contents contents (sys_run W J env0 ts s) ns)
     (sys_limit (sys_run W J env0 ts s) ns) (sys_counter (sys_run W J env0 ts s) ns)"
  using sys_run_effect [OF assms, of ts J env0]
  by (intro sys_inv_accounted [of P contents inv]) (simp add: run_effect_def)

lemma sys_run_quota:
  assumes "wasm_mem_ok W" and "sys_inv P contents inv s" and "limit_sane (sys_limit s ns)"
    and "within_quota (sys_contents contents s ns) (sys_limit s ns)"
  shows "within_quota (sys_contents contents (sys_run W J env0 ts s) ns) (sys_limit s ns)"
  using sys_run_effect [OF assms(1,2), of ts J env0] assms(3,4) by (simp add: run_effect_def)

lemma sys_run_isolated:
  assumes "wasm_mem_ok W" and "sys_inv P contents inv s" and "\<forall>t \<in> set ts. \<not> may_write s (fst t) ns"
  shows "sys_contents contents (sys_run W J env0 ts s) ns = sys_contents contents s ns"
  using sys_run_effect [OF assms(1,2), of ts J env0] assms(3) by (simp add: run_effect_def)

end

subsection \<open>A concrete system\<close>

text \<open>
  Two modules, each with a limited namespace, and a shared database that only the first may write.
  The first module inserts a pair of its own (twice, the second time over the limit), then one into
  the shared database.
\<close>

definition sample_sys :: "in_memory_db sys" where
  "sample_sys =
     \<lparr>sys_storage = \<lparr>vtable = in_memory_provider, database = in_memory_new,
        shared_dbs = Some [(''db'', \<lparr>sdb_config = \<lparr>size_limit = Limited 8, sdb_r = [], sdb_rw = [''a.wasm'']\<rparr>,
                                   used_storage = rwlock_new 0\<rparr>)]\<rparr>,
      sys_modules = [(''a.wasm'', sample_module ''a.wasm'' (Limited 4) 0),
                     (''b.wasm'', sample_module ''b.wasm'' (Limited 4) 0)]\<rparr>"

definition sample_memory :: bytes where
  "sample_memory = [107, 7, 8, 9, 9, 100, 98, 0]"

definition sample_turns :: "(string \<times> bytes \<times> storage_fn) list" where
  "sample_turns =
     [(''a.wasm'', sample_memory, CInsert 0 1 1 2 0 0),
      (''a.wasm'', sample_memory, CInsert 0 1 1 4 0 0),
      (''a.wasm'', sample_memory, CInsertShared 5 2 0 1 1 3 0 0)]"

definition sample_end :: "in_memory_db sys" where
  "sample_end =
     \<lparr>sys_storage = \<lparr>vtable = in_memory_provider,
        database = [(''a.wasm'', [(''k'', [7, 8])]), (''db'', [(''k'', [7, 8, 9])])],
        shared_dbs = Some [(''db'', \<lparr>sdb_config = \<lparr>size_limit = Limited 8, sdb_r = [], sdb_rw = [''a.wasm'']\<rparr>,
                                   used_storage = rwlock_new 4\<rparr>)]\<rparr>,
      sys_modules = [(''a.wasm'', sample_module ''a.wasm'' (Limited 4) 3),
                     (''b.wasm'', sample_module ''b.wasm'' (Limited 4) 0)]\<rparr>"

lemma sample_module_sel [simp]:
  "mod_name (sample_module n l u) = n" "storage_limit (sample_module n l u) = l"
  "storage_current (sample_module n l u) = rwlock_new u" "page_limit (sample_module n l u) = 1"
  "(sample_module n l u)\<lparr>storage_current := rwlock_new u'\<rparr> = sample_module n l u'"
  by (simp_all add: sample_module_def)

lemma rwlock_new_update [simp]: "(rwlock_new u)\<lparr>lock_val := u'\<rparr> = rwlock_new u'"
  by (simp add: rwlock_new_def)

lemma sample_sys_inv: "sys_inv in_memory_provider im_contents im_inv sample_sys"
  by (simp add: sys_inv_def sample_sys_def im_new sys_dbs_def hm_get_def accounted_def)

lemma max_buffer_one_page: "calculate_max_buffer_size 1 = 65536"
  by (simp add: calculate_max_buffer_size_def saturating_mul_u32_def WASM_PAGE_SIZE_def)

lemmas sample_eval = sys_call_def fn_insert_def fn_insert_shared_def get_memory_def
  safely_get_guest_string_def safely_get_guest_memory_def safely_get_string_def safely_get_memory_def
  flat_read_string_def flat_read_def insert_common_def insertion_result_def storage_get_def
  storage_insert_def im_defs would_be_used_storage_def return_to_guest_def hm_defs
  can_write_def set_used_storage_def max_buffer_one_page

lemma sample_chars: "char_of (107 :: nat) = CHR ''k''" "char_of (100 :: nat) = CHR ''d''" "char_of (98 :: nat) = CHR ''b''"
  by (simp_all add: char_of_def bit_0)

lemma sample_run: "sys_run flat_ops J sample_env sample_turns sample_sys = sample_end"
  by (simp add: sample_turns_def sample_sys_def sample_end_def)
    (simp add: sample_eval sample_memory_def in_memory_new_def sample_env_def sample_chars)

lemma sample_end_sel:
  "sys_limit sample_sys ''a.wasm'' = Limited 4" "sys_limit sample_end ''a.wasm'' = Limited 4"
  "sys_counter sample_end ''a.wasm'' = rwlock_new 3"
  "sys_contents im_contents sample_end ''a.wasm'' = [''k'' \<mapsto> [7, 8]]"
  "sys_contents im_contents sample_sys ns = Map.empty"
  by (simp_all add: sample_sys_def sample_end_def sys_limit_def sys_counter_def im_contents_def hm_get_def
      in_memory_new_def fun_eq_iff)

subsection \<open>Properties\<close>

text \<open>
  C1. Accounting. Whatever calls the modules make, in whatever order and with whatever arguments and
  guest memory, the counter of every limited namespace (a module's own or a shared database) holds
  exactly the number of bytes of its keys and values, as a 64-bit counter.
\<close>

theorem storage_accounting_exact:
  assumes "wasm_mem_ok W" and "sys_inv in_memory_provider im_contents im_inv s"
    and "s' = sys_run W J env0 turns s" and "sys_limit s' ns = Limited lim"
  shows "lock_val (sys_counter s' ns) = word_of_nat (map_bytes (sys_contents im_contents s' ns))"
  using im.sys_run_accounted [OF assms(1,2), of J env0 turns ns] assms(3,4)
  by (simp add: accounted_def)

theorem storage_accounting_exact_witness:
  "lock_val (sys_counter sample_end ''a.wasm'') = 3
   \<and> map_bytes (sys_contents im_contents sample_end ''a.wasm'') = 3
   \<and> lock_val (sys_counter sample_end ''a.wasm'') =
       word_of_nat (map_bytes (sys_contents im_contents sample_end ''a.wasm''))"
  using storage_accounting_exact [OF wasm_mem_ok_flat sample_sys_inv sample_run [symmetric] sample_end_sel(2)]
  by (simp add: sample_end_sel map_bytes_def)

text \<open>
  C2. Quota. If a namespace is within its limit, no sequence of calls takes it over the limit. The
  limit must leave room for one pair below \<open>2 ^ 64\<close>, since the counter wraps around there.
\<close>

theorem storage_quota_never_exceeded:
  assumes "wasm_mem_ok W" and "sys_inv in_memory_provider im_contents im_inv s"
    and "sys_limit s ns = Limited lim" and "unat lim + 2 ^ 33 \<le> 2 ^ 64"
    and "map_bytes (sys_contents im_contents s ns) \<le> unat lim"
  shows "map_bytes (sys_contents im_contents (sys_run W J env0 turns s) ns) \<le> unat lim"
  using im.sys_run_quota [OF assms(1,2), of ns J env0 turns] assms(3-5)
  by (simp add: limit_sane_def within_quota_def)

theorem storage_quota_never_exceeded_witness:
  "map_bytes (sys_contents im_contents (sys_run flat_ops (\<lambda>_. None) sample_env sample_turns sample_sys) ''a.wasm'')
     \<le> unat (4 :: u64)"
  by (rule storage_quota_never_exceeded [OF wasm_mem_ok_flat sample_sys_inv sample_end_sel(1)])
    (simp_all add: sample_end_sel)

text \<open>
  C3. Isolation. A namespace is changed only by the module it belongs to, or, for a shared database,
  by a module listed as a writer: a sequence of calls by other modules leaves its contents alone.
\<close>

theorem storage_isolation:
  assumes "wasm_mem_ok W" and "sys_inv in_memory_provider im_contents im_inv s"
    and "\<forall>t \<in> set turns. fst t \<noteq> ns \<and> \<not> can_write (sys_dbs s) ns (fst t)"
  shows "sys_contents im_contents (sys_run W J env0 turns s) ns = sys_contents im_contents s ns"
  using im.sys_run_isolated [OF assms(1,2), of turns ns] assms(3) by (auto simp: may_write_def)

theorem storage_isolation_witness:
  "sys_contents im_contents (sys_run flat_ops (\<lambda>_. None) sample_env
     [(''b.wasm'', sample_memory, CInsertShared 5 2 0 1 1 3 0 0)] sample_sys) ''db'' =
   sys_contents im_contents sample_sys ''db''"
  by (rule storage_isolation [OF wasm_mem_ok_flat sample_sys_inv])
    (simp add: sample_sys_def sys_dbs_def can_write_def hm_get_def)

subsection \<open>The outcome of each call\<close>

text \<open>A guest's request is well formed when its strings and buffers can be read from its memory.\<close>

definition guest_ready :: "('m, in_memory_db, 'c, 'q) env \<Rightarrow> in_memory_db storage \<Rightarrow> 'm \<Rightarrow> bool" where
  "guest_ready env st mv \<longleftrightarrow> env_storage env = Some st \<and> env_memory env = Some mv
     \<and> vtable st = in_memory_provider \<and> im_inv (database st)"

definition reads_value :: "'m wasm_ops \<Rightarrow> ('m, 'd, 'c, 'q) env \<Rightarrow> 'm \<Rightarrow> u32 \<Rightarrow> u32 \<Rightarrow> bytes \<Rightarrow> bool" where
  "reads_value W env mv p n v \<longleftrightarrow>
     safely_get_memory W mv p n (calculate_max_buffer_size (page_limit (env_module env))) = Inr v"

abbreviation own_contents :: "('m, in_memory_db, 'c, 'q) env \<Rightarrow> ns_map" where
  "own_contents env \<equiv> im_contents (database (the (env_storage env))) (mod_name (env_module env))"

definition over_limit :: "ns_map \<Rightarrow> limit_value \<Rightarrow> string \<Rightarrow> bytes \<Rightarrow> bool" where
  "over_limit m limit key val \<longleftrightarrow>
     (case limit of Unlimited \<Rightarrow> False | Limited lim \<Rightarrow> word_of_nat (map_bytes (m(key \<mapsto> val))) > lim)"

lemma im_insertion_refused:
  assumes "vtable st = in_memory_provider" and "im_inv (database st)" and "\<not> poisoned c"
    and "accounted (im_contents (database st) ns) limit c"
    and "over_limit (im_contents (database st) ns) limit key val"
  shows "insertion_result st ns key val limit c = Inl StorageLimitReached"
  using assms would_be_used_storage_eq [OF im.finite_contents [OF assms(2), of ns], of "lock_val c" key val]
  by (cases limit)
    (simp_all add: insertion_result_def storage_ops in_memory_get_eq accounted_def over_limit_def)

lemma im_insertion_done:
  assumes "vtable st = in_memory_provider" and "im_inv (database st)" and "\<not> poisoned c"
    and "accounted (im_contents (database st) ns) limit c"
    and "\<not> over_limit (im_contents (database st) ns) limit key val"
  obtains st' c' where "insertion_result st ns key val limit c = Inr (Inr (im_contents (database st) ns key), st', c')"
    and "im_contents (database st') = (im_contents (database st))(ns := (im_contents (database st) ns)(key \<mapsto> val))"
    and "vtable st' = in_memory_provider" and "im_inv (database st')"
proof -
  obtain d' where d': "in_memory_insert (database st) ns key val = (Inr (im_contents (database st) ns key), d')"
    and c: "im_contents d' = (im_contents (database st))(ns := (im_contents (database st) ns)(key \<mapsto> val))"
    and i: "im_inv d'"
    using assms(2) by (rule in_memory_insert_step)
  have "\<exists>c'. insertion_result st ns key val limit c =
      Inr (Inr (im_contents (database st) ns key), st\<lparr>database := d'\<rparr>, c')"
    using assms would_be_used_storage_eq [OF im.finite_contents [OF assms(2), of ns], of "lock_val c" key val]
    by (cases limit)
      (simp_all add: insertion_result_def storage_ops in_memory_get_eq d' accounted_def over_limit_def)
  then show thesis using that [of "st\<lparr>database := d'\<rparr>"] c i assms(1) by auto
qed

lemma fn_insert_ready:
  assumes "guest_ready env st mv" and "safely_get_string W mv kp kn = Inr key"
    and "reads_value W env mv vp vn val"
  shows "fn_insert W env kp kn vp vn p n =
    (let pm = env_module env;
         (code, m, st', c') = insert_common W st (mod_name pm) key val mv p n (storage_limit pm) (storage_current pm)
     in (code, env\<lparr>env_memory := Some m, env_storage := Some st', env_module := pm\<lparr>storage_current := c'\<rparr>\<rparr>))"
  using assms by (simp add: guest_ready_def reads_value_def fn_insert_def get_memory_def
      safely_get_guest_string_def safely_get_guest_memory_def Let_def)

lemma fn_get_ready:
  assumes "guest_ready env st mv" and "safely_get_string W mv kp kn = Inr key"
  shows "fn_get W env kp kn p n =
    (case own_contents env key of
       None \<Rightarrow> (0, env)
     | Some v \<Rightarrow> (let (r, m) = safely_write_data_back W mv v p n
                  in (result_code r, env\<lparr>env_memory := Some m\<rparr>)))"
  using assms by (auto simp: guest_ready_def fn_get_def get_memory_def safely_get_guest_string_def
      get_common_def storage_ops in_memory_get_eq return_to_guest_def Let_def split: option.splits prod.splits)

lemma fn_delete_ready:
  assumes "guest_ready env st mv" and "safely_get_string W mv kp kn = Inr key"
  shows "fn_delete W env kp kn p n =
    (let pm = env_module env;
         (code, m, st', c') = delete_common W st (mod_name pm) key mv p n (storage_limit pm) (storage_current pm)
     in (code, env\<lparr>env_memory := Some m, env_storage := Some st', env_module := pm\<lparr>storage_current := c'\<rparr>\<rparr>))"
  using assms by (simp add: guest_ready_def fn_delete_def get_memory_def safely_get_guest_string_def Let_def)

lemma im_deletion_done:
  assumes "vtable st = in_memory_provider" and "im_inv (database st)" and "\<not> poisoned c" and "n \<noteq> 0"
  obtains st' c' where "deletion_result st ns key n limit c = Inr (Inr (im_contents (database st) ns key), st', c')"
    and "im_contents (database st') = (im_contents (database st))(ns := (im_contents (database st) ns)(key := None))"
proof -
  obtain d' where d': "in_memory_delete (database st) ns key = (Inr (im_contents (database st) ns key), d')"
    and c: "im_contents d' = (im_contents (database st))(ns := (im_contents (database st) ns)(key := None))"
    using assms(2) by (rule in_memory_delete_step)
  have "\<exists>c'. deletion_result st ns key n limit c =
      Inr (Inr (im_contents (database st) ns key), st\<lparr>database := d'\<rparr>, c')"
    using assms by (cases limit) (simp_all add: deletion_result_def storage_ops d')
  then show thesis using that [of "st\<lparr>database := d'\<rparr>"] c by auto
qed

text \<open>The concrete environment the witnesses of these properties use.\<close>

definition sample_guest :: "(bytes, in_memory_db, unit, unit) env" where
  "sample_guest = sample_env\<lparr>env_module := sample_module ''a.wasm'' (Limited 4) 0,
     env_storage := Some (sys_storage sample_sys), env_memory := Some sample_memory\<rparr>"

lemma sample_guest_sel [simp]:
  "env_module sample_guest = sample_module ''a.wasm'' (Limited 4) 0"
  "env_storage sample_guest = Some (sys_storage sample_sys)"
  "im_contents (database (sys_storage sample_sys)) ns = Map.empty"
  by (simp_all add: sample_guest_def sample_sys_def im_new)

lemma sample_guest_facts:
  "guest_ready sample_guest (sys_storage sample_sys) sample_memory"
  "safely_get_string flat_ops sample_memory 0 1 = Inr ''k''"
  "safely_get_string flat_ops sample_memory 5 2 = Inr ''db''"
  "reads_value flat_ops sample_guest sample_memory 1 2 [7, 8]"
  "\<not> poisoned (storage_current (env_module sample_guest))"
  "accounted (own_contents sample_guest) (storage_limit (env_module sample_guest))
     (storage_current (env_module sample_guest))"
  "\<not> over_limit (own_contents sample_guest) (storage_limit (env_module sample_guest)) ''k'' [7, 8]"
  using sample_sys_inv
  by (simp_all add: guest_ready_def sys_inv_def sample_guest_def [symmetric] sample_memory_def
      safely_get_string_def flat_read_string_def flat_read_def sample_chars reads_value_def
      safely_get_memory_def max_buffer_one_page accounted_def over_limit_def map_bytes_def)
    (simp add: sample_guest_def sample_memory_def)

text \<open>
  C4. Insertion, on every branch. A pair that would take the module's namespace over its limit is
  refused with \<open>StorageLimitReached\<close> and nothing changes. Any other pair is stored, whatever the
  guest's return buffer: the code the guest gets only tells whether the value it replaced could be
  handed back (0 when there was none).
\<close>

theorem fn_insert_outcome:
  assumes "guest_ready env st mv"
    and "safely_get_string W mv kp kn = Inr key" and "reads_value W env mv vp vn val"
    and "\<not> poisoned (storage_current (env_module env))"
    and "accounted (own_contents env) (storage_limit (env_module env)) (storage_current (env_module env))"
    and "fn_insert W env kp kn vp vn p n = (code, env')"
  shows "if over_limit (own_contents env) (storage_limit (env_module env)) key val
         then code = error_code StorageLimitReached \<and> env' = env
         else own_contents env' = (own_contents env)(key \<mapsto> val)
            \<and> code = (case own_contents env key of None \<Rightarrow> 0
                     | Some old \<Rightarrow> result_code (fst (safely_write_data_back W mv old p n)))"
proof -
  let ?pm = "env_module env" and ?m = "im_contents (database st) (mod_name (env_module env))"
  have env: "env_storage env = Some st" "env_memory env = Some mv" "vtable st = in_memory_provider"
    "im_inv (database st)" using assms(1) by (simp_all add: guest_ready_def)
  have acc: "accounted ?m (storage_limit ?pm) (storage_current ?pm)"
    using assms(5) by (simp add: env)
  note call = fn_insert_ready [OF assms(1-3), of p n]
  show ?thesis
  proof (cases "over_limit ?m (storage_limit ?pm) key val")
    case True
    from im_insertion_refused [OF env(3,4) assms(4) acc this]
    have "env' = env \<and> code = error_code StorageLimitReached"
      using assms(6) env(1,2) unfolding call by (auto simp: insert_common_def)
    then show ?thesis using True by (simp add: env)
  next
    case False
    obtain st' c' where ins: "insertion_result st (mod_name ?pm) key val (storage_limit ?pm) (storage_current ?pm)
        = Inr (Inr (?m key), st', c')"
      and "im_contents (database st') = (im_contents (database st))(mod_name ?pm := ?m(key \<mapsto> val))"
      using env(3,4) assms(4) acc False by (rule im_insertion_done)
    then have "own_contents env' = ?m(key \<mapsto> val)
            \<and> code = (case ?m key of None \<Rightarrow> 0
                     | Some old \<Rightarrow> result_code (fst (safely_write_data_back W mv old p n)))"
      using assms(6) unfolding call
      by (auto simp: insert_common_def return_to_guest_def split: option.splits prod.splits)
    then show ?thesis using False by (simp add: env)
  qed
qed

theorem fn_insert_outcome_witness:
  "fst (fn_insert flat_ops sample_guest 0 1 1 2 0 0) = 0
   \<and> own_contents (snd (fn_insert flat_ops sample_guest 0 1 1 2 0 0)) = [''k'' \<mapsto> [7, 8]]"
  using fn_insert_outcome [OF sample_guest_facts(1,2,4-6), of 0 0] sample_guest_facts(7)
  by (cases "fn_insert flat_ops sample_guest 0 1 1 2 0 0") simp

text \<open>
  Round trip: a value a module has inserted is what it gets back, from any memory in which the
  same key can be read, when the return buffer is inside the memory and large enough.
\<close>

theorem insert_get_roundtrip:
  assumes "wasm_mem_ok W" and "guest_ready env st mv"
    and "safely_get_string W mv kp kn = Inr key" and "reads_value W env mv vp vn val"
    and "\<not> poisoned (storage_current (env_module env))"
    and "accounted (own_contents env) (storage_limit (env_module env)) (storage_current (env_module env))"
    and "\<not> over_limit (own_contents env) (storage_limit (env_module env)) key val"
    and "safely_get_string W mv2 kp2 kn2 = Inr key" and "ptr_slice W mv2 p2 (word_of_nat (length val))"
    and "length val \<le> unat n2" and "n2 \<noteq> 0"
  shows "\<exists>mv3. fn_get W ((snd (fn_insert W env kp kn vp vn p n))\<lparr>env_memory := Some mv2\<rparr>) kp2 kn2 p2 n2 =
      (as_i32 (length val), (snd (fn_insert W env kp kn vp vn p n))\<lparr>env_memory := Some mv3\<rparr>)
    \<and> view_read W mv3 (ucast p2) (length val) = Some val"
proof -
  let ?pm = "env_module env" and ?m = "im_contents (database st) (mod_name (env_module env))"
  let ?env' = "snd (fn_insert W env kp kn vp vn p n)"
  have env: "env_storage env = Some st" "env_memory env = Some mv" "vtable st = in_memory_provider"
    "im_inv (database st)" using assms(2) by (simp_all add: guest_ready_def)
  obtain st' c' where ins: "insertion_result st (mod_name ?pm) key val (storage_limit ?pm) (storage_current ?pm)
        = Inr (Inr (?m key), st', c')"
      and st': "im_contents (database st') = (im_contents (database st))(mod_name ?pm := ?m(key \<mapsto> val))"
        "vtable st' = in_memory_provider" "im_inv (database st')"
    using env(3,4) assms(5-7) [unfolded env(1) option.sel] by (rule im_insertion_done)
  have "env_storage ?env' = Some st'" "mod_name (env_module ?env') = mod_name ?pm"
    unfolding fn_insert_ready [OF assms(2-4)] by (simp_all add: insert_common_def ins Let_def split: prod.splits)
  then have "guest_ready (?env'\<lparr>env_memory := Some mv2\<rparr>) st' mv2" "own_contents (?env'\<lparr>env_memory := Some mv2\<rparr>) key = Some val"
    using st' by (simp_all add: guest_ready_def)
  note get = fn_get_ready [OF this(1) assms(8), of p2 n2, unfolded this(2)]
  have lt: "length val < 2 ^ 32" using assms(10) unat_u32_bound [of n2] by simp
  obtain m' where "write_slice W mv2 p2 val = Some m'" "view_read W m' (ucast p2) (length val) = Some val"
    using assms(1,9) lt unfolding wasm_mem_ok_def by blast
  then show ?thesis
    unfolding get using assms(9-11) by (auto simp: safely_write_data_back_def)
qed

theorem insert_get_roundtrip_witness:
  "\<exists>mv3. fn_get flat_ops ((snd (fn_insert flat_ops sample_guest 0 1 1 2 0 0))\<lparr>env_memory := Some sample_memory\<rparr>) 0 1 3 4 =
      (2, (snd (fn_insert flat_ops sample_guest 0 1 1 2 0 0))\<lparr>env_memory := Some mv3\<rparr>)
    \<and> view_read flat_ops mv3 3 (length [7, 8 :: u8]) = Some [7, 8]"
  using insert_get_roundtrip [OF wasm_mem_ok_flat sample_guest_facts(1,2,4-7) sample_guest_facts(2), of 3 4 0 0]
  by (simp add: sample_memory_def)

text \<open>
  Deletion. A call with an empty return buffer is a probe: it reports the size of the value and
  deletes nothing. Any other call removes the key, and returns the value it removed, if the buffer
  can hold it (when it cannot, the value is gone all the same).
\<close>

theorem fn_delete_outcome:
  assumes "guest_ready env st mv" and "safely_get_string W mv kp kn = Inr key"
    and "\<not> poisoned (storage_current (env_module env))"
    and "fn_delete W env kp kn p n = (code, env')"
  shows "code = (case own_contents env key of None \<Rightarrow> 0
                 | Some old \<Rightarrow> result_code (fst (safely_write_data_back W mv old p n)))
    \<and> (if n = 0 then env' = env else own_contents env' = (own_contents env)(key := None))"
proof -
  let ?pm = "env_module env" and ?m = "im_contents (database st) (mod_name (env_module env))"
  have env: "env_storage env = Some st" "env_memory env = Some mv" "vtable st = in_memory_provider"
    "im_inv (database st)" using assms(1) by (simp_all add: guest_ready_def)
  note call = fn_delete_ready [OF assms(1,2), of p n]
  show ?thesis
  proof (cases "n = 0")
    case True
    then show ?thesis
      using assms(4) unfolding call
      by (auto simp: delete_common_def deletion_result_def storage_ops in_memory_get_eq env return_to_guest_def
          write_back_probe split: option.splits)
  next
    case False
    obtain st' c' where "deletion_result st (mod_name ?pm) key n (storage_limit ?pm) (storage_current ?pm)
        = Inr (Inr (?m key), st', c')"
      and "im_contents (database st') = (im_contents (database st))(mod_name ?pm := ?m(key := None))"
      using env(3,4) assms(3) False by (rule im_deletion_done)
    then show ?thesis
      using assms(4) False unfolding call
      by (auto simp: delete_common_def return_to_guest_def env split: option.splits prod.splits)
  qed
qed

theorem fn_delete_outcome_witness:
  "fn_delete flat_ops sample_guest 0 1 0 0 = (0, sample_guest)"
  using fn_delete_outcome [OF sample_guest_facts(1,2,5), of 0 0]
  by (cases "fn_delete flat_ops sample_guest 0 1 0 0") simp

text \<open>
  Permissions. A module that is not listed as a writer of a shared database cannot insert into it
  or delete from it, and one that is not listed at all cannot read it either: the call is refused
  with \<open>OperationNotAllowed\<close> and has no effect, not even on the guest's memory. A namespace that is
  not a shared database (another module's, say) is never reachable this way.
\<close>

theorem shared_access_denied:
  assumes "guest_ready env st mv" and "shared_dbs st = Some dbs"
    and "safely_get_string W mv np nn = Inr ns" and "safely_get_string W mv kp kn = Inr key"
    and "case hm_get dbs ns of None \<Rightarrow> True | Some db \<Rightarrow> mod_name (env_module env) \<notin> set (sdb_rw (sdb_config db))"
  shows "fn_insert_shared W env np nn kp kn vp vn p n = (-12, env)
    \<and> fn_delete_shared W env np nn kp kn p n = (-12, env)
    \<and> ((case hm_get dbs ns of None \<Rightarrow> True | Some db \<Rightarrow> mod_name (env_module env) \<notin> set (sdb_r (sdb_config db))) \<longrightarrow>
         fn_get_shared W env np nn kp kn p n = (-12, env)
       \<and> fn_list_keys_shared W J env np nn kp kn p n = (-12, env))"
  using assms
  by (simp add: guest_ready_def get_memory_def safely_get_guest_string_def fn_insert_shared_def
      fn_delete_shared_def fn_get_shared_def fn_list_keys_shared_def can_write_def can_read_def
      split: option.splits)

theorem shared_access_denied_witness:
  "fn_insert_shared flat_ops (sample_guest\<lparr>env_module := sample_module ''b.wasm'' Unlimited 0\<rparr>) 5 2 0 1 1 2 0 0 =
     (-12, sample_guest\<lparr>env_module := sample_module ''b.wasm'' Unlimited 0\<rparr>)"
proof -
  let ?env = "sample_guest\<lparr>env_module := sample_module ''b.wasm'' Unlimited 0\<rparr>"
  have "guest_ready ?env (sys_storage sample_sys) sample_memory"
    using sample_guest_facts(1) by (simp add: guest_ready_def)
  then show ?thesis
    using shared_access_denied [OF _ _ sample_guest_facts(3,2), of ?env "sys_storage sample_sys"]
    by (simp add: sample_sys_def hm_get_def)
qed

end
