(* ===== verification/Plaid_Storage_Conc.thy ===== *)
theory Plaid_Storage_Conc
  imports Plaid_Storage_Fns
begin

text \<open>
  Insertions and deletions in one limited namespace by several threads at once: the steps of
  \<^verbatim>\<open>insert_common\<close> and \<^verbatim>\<open>delete_common\<close> of \<^verbatim>\<open>runtime/plaid/src/functions/storage.rs\<close>, interleaved. The
  lock on the counter is taken before the first access to the database and released when its guard
  goes out of scope; a call to the database is one step, which may fail. The theorem that the
  counter is exact at every moment the lock is free, and the quota kept at every moment, is what the
  comments of the source claim of the lock.
\<close>

subsection \<open>Threads\<close>

datatype thread_pc =
    Idle
  | WantInsert string bytes
  | InsertLocked string bytes
  | InsertChecked string bytes u64
  | InsertDone u64
  | WantDelete string
  | DeleteLocked string
  | DeleteDone string "bytes option"

record conc_state =
  c_map :: ns_map
  c_counter :: u64
  c_lock :: "nat option"
  c_pc :: "nat \<Rightarrow> thread_pc"

definition goto :: "nat \<Rightarrow> thread_pc \<Rightarrow> conc_state \<Rightarrow> conc_state" where
  "goto t pc s = s\<lparr>c_pc := (c_pc s)(t := pc)\<rparr>"

definition release :: "nat \<Rightarrow> conc_state \<Rightarrow> conc_state" where
  "release t s = (goto t Idle s)\<lparr>c_lock := None\<rparr>"

inductive insert_step :: "u64 \<Rightarrow> conc_state \<Rightarrow> conc_state \<Rightarrow> bool" for lim where
  call_insert: "c_pc s t = Idle \<Longrightarrow> length key < 2 ^ 32 \<Longrightarrow> length val < 2 ^ 32 \<Longrightarrow>
     insert_step lim s (goto t (WantInsert key val) s)"
| lock_insert: "c_pc s t = WantInsert key val \<Longrightarrow> c_lock s = None \<Longrightarrow>
     insert_step lim s ((goto t (InsertLocked key val) s)\<lparr>c_lock := Some t\<rparr>)"
| get_failed: "c_pc s t = InsertLocked key val \<Longrightarrow> insert_step lim s (release t s)"
| over_limit: "c_pc s t = InsertLocked key val \<Longrightarrow>
     would_be_used_storage (c_counter s) key val (c_map s key) > lim \<Longrightarrow> insert_step lim s (release t s)"
| get_existing: "c_pc s t = InsertLocked key val \<Longrightarrow>
     would_be = would_be_used_storage (c_counter s) key val (c_map s key) \<Longrightarrow> \<not> would_be > lim \<Longrightarrow>
     insert_step lim s (goto t (InsertChecked key val would_be) s)"
| insert_failed: "c_pc s t = InsertChecked key val would_be \<Longrightarrow> insert_step lim s (release t s)"
| insert_pair: "c_pc s t = InsertChecked key val would_be \<Longrightarrow>
     insert_step lim s ((goto t (InsertDone would_be) s)\<lparr>c_map := (c_map s)(key \<mapsto> val)\<rparr>)"
| insert_count: "c_pc s t = InsertDone would_be \<Longrightarrow>
     insert_step lim s ((release t s)\<lparr>c_counter := would_be\<rparr>)"

inductive delete_step :: "conc_state \<Rightarrow> conc_state \<Rightarrow> bool" where
  call_delete: "c_pc s t = Idle \<Longrightarrow> delete_step s (goto t (WantDelete key) s)"
| lock_delete: "c_pc s t = WantDelete key \<Longrightarrow> c_lock s = None \<Longrightarrow>
     delete_step s ((goto t (DeleteLocked key) s)\<lparr>c_lock := Some t\<rparr>)"
| delete_failed: "c_pc s t = DeleteLocked key \<Longrightarrow> delete_step s (release t s)"
| delete_key: "c_pc s t = DeleteLocked key \<Longrightarrow>
     delete_step s ((goto t (DeleteDone key (c_map s key)) s)\<lparr>c_map := (c_map s)(key := None)\<rparr>)"
| delete_count: "c_pc s t = DeleteDone key old \<Longrightarrow>
     delete_step s ((release t s)\<lparr>c_counter := (case old of
        Some data \<Rightarrow> c_counter s - word_of_nat (length key) - word_of_nat (length data)
      | None \<Rightarrow> c_counter s)\<rparr>)"

definition conc_step :: "u64 \<Rightarrow> conc_state \<Rightarrow> conc_state \<Rightarrow> bool" where
  "conc_step lim s s' \<longleftrightarrow> insert_step lim s s' \<or> delete_step s s'"

lemma conc_stepI: "insert_step lim s s' \<Longrightarrow> conc_step lim s s'" "delete_step s s' \<Longrightarrow> conc_step lim s s'"
  by (simp_all add: conc_step_def)

definition conc_init :: "ns_map \<Rightarrow> u64 \<Rightarrow> conc_state" where
  "conc_init m used = \<lparr>c_map = m, c_counter = used, c_lock = None, c_pc = (\<lambda>_. Idle)\<rparr>"

subsection \<open>The invariant\<close>

text \<open>A thread inside the critical section, and the counter it will have written when it leaves.\<close>

fun in_section :: "thread_pc \<Rightarrow> bool" where
  "in_section Idle = False"
| "in_section (WantInsert _ _) = False"
| "in_section (WantDelete _) = False"
| "in_section _ = True"

fun pending_counter :: "thread_pc \<Rightarrow> u64 \<Rightarrow> u64" where
  "pending_counter (InsertDone would_be) c = would_be"
| "pending_counter (DeleteDone key (Some data)) c = c - word_of_nat (length key) - word_of_nat (length data)"
| "pending_counter _ c = c"

fun pc_ok :: "u64 \<Rightarrow> ns_map \<Rightarrow> thread_pc \<Rightarrow> bool" where
  "pc_ok lim m (WantInsert key val) \<longleftrightarrow> length key < 2 ^ 32 \<and> length val < 2 ^ 32"
| "pc_ok lim m (InsertLocked key val) \<longleftrightarrow> length key < 2 ^ 32 \<and> length val < 2 ^ 32"
| "pc_ok lim m (InsertChecked key val would_be) \<longleftrightarrow> length key < 2 ^ 32 \<and> length val < 2 ^ 32
     \<and> would_be = word_of_nat (map_bytes (m(key \<mapsto> val))) \<and> would_be \<le> lim"
| "pc_ok lim m _ \<longleftrightarrow> True"

definition pending :: "conc_state \<Rightarrow> u64" where
  "pending s = (case c_lock s of None \<Rightarrow> c_counter s | Some t \<Rightarrow> pending_counter (c_pc s t) (c_counter s))"

definition conc_inv :: "u64 \<Rightarrow> conc_state \<Rightarrow> bool" where
  "conc_inv lim s \<longleftrightarrow>
     finite (dom (c_map s))
   \<and> (\<forall>t. in_section (c_pc s t) \<longleftrightarrow> c_lock s = Some t)
   \<and> pending s = word_of_nat (map_bytes (c_map s))
   \<and> (\<forall>t. pc_ok lim (c_map s) (c_pc s t))
   \<and> map_bytes (c_map s) \<le> unat lim"

lemma pc_ok_other: "\<not> in_section pc \<Longrightarrow> pc_ok lim m pc \<Longrightarrow> pc_ok lim m' pc"
  by (cases pc) simp_all

lemma holder: "conc_inv lim s \<Longrightarrow> in_section (c_pc s t) \<Longrightarrow>
   c_lock s = Some t \<and> pending_counter (c_pc s t) (c_counter s) = word_of_nat (map_bytes (c_map s))
   \<and> (\<forall>t'. t' \<noteq> t \<longrightarrow> \<not> in_section (c_pc s t') \<and> pc_ok lim m (c_pc s t'))"
  by (auto simp: conc_inv_def pending_def intro: pc_ok_other)

lemma inv_outside:
  assumes "conc_inv lim s" and "\<not> in_section (c_pc s t)" and "\<not> in_section pc" and "pc_ok lim (c_map s) pc"
  shows "conc_inv lim (goto t pc s)"
  using assms by (auto simp: conc_inv_def goto_def pending_def split: option.splits)

lemma inv_lock:
  assumes "conc_inv lim s" and "c_lock s = None" and "in_section pc" and "pc_ok lim (c_map s) pc"
    and "pending_counter pc (c_counter s) = c_counter s"
  shows "conc_inv lim ((goto t pc s)\<lparr>c_lock := Some t\<rparr>)"
  using assms by (auto simp: conc_inv_def goto_def pending_def)

lemma inv_inside:
  assumes "conc_inv lim s" and "in_section (c_pc s t)" and "in_section pc" and "pc_ok lim m pc"
    and "pending_counter pc (c_counter s) = word_of_nat (map_bytes m)" and "finite (dom m)" and "map_bytes m \<le> unat lim"
  shows "conc_inv lim ((goto t pc s)\<lparr>c_map := m\<rparr>)"
  using holder [OF assms(1,2), of m] assms
  by (auto simp: conc_inv_def goto_def pending_def)

lemma inv_release:
  assumes "conc_inv lim s" and "in_section (c_pc s t)"
    and "c = pending_counter (c_pc s t) (c_counter s)"
  shows "conc_inv lim ((release t s)\<lparr>c_counter := c\<rparr>)"
  using holder [OF assms(1,2), of "c_map s"] assms
  by (auto simp: conc_inv_def release_def goto_def pending_def)

text \<open>
  What the check of an insertion establishes: the size it computes is the size of the namespace after
  the insertion, and it is within the limit.
\<close>

lemma inv_checked:
  assumes "conc_inv lim s" and "c_pc s t = InsertLocked key val"
    and "\<not> would_be_used_storage (c_counter s) key val (c_map s key) > lim"
  shows "pc_ok lim (c_map s) (InsertChecked key val (would_be_used_storage (c_counter s) key val (c_map s key)))"
proof -
  have "c_counter s = word_of_nat (map_bytes (c_map s))"
    using holder [OF assms(1), of t] assms(2) by simp
  moreover have "finite (dom (c_map s))" "pc_ok lim (c_map s) (c_pc s t)"
    using assms(1) by (simp_all add: conc_inv_def)
  ultimately show ?thesis
    using assms(2,3) would_be_used_storage_eq [of "c_map s" "c_counter s" key val] by simp
qed

lemma inv_insert_pair:
  assumes "conc_inv lim s" and "c_pc s t = InsertChecked key val would_be" and "limit_sane (Limited lim)"
  shows "conc_inv lim ((goto t (InsertDone would_be) s)\<lparr>c_map := (c_map s)(key \<mapsto> val)\<rparr>)"
proof -
  let ?m = "(c_map s)(key \<mapsto> val)"
  have fin: "finite (dom (c_map s))" and quota: "map_bytes (c_map s) \<le> unat lim"
    and ok: "pc_ok lim (c_map s) (c_pc s t)"
    using assms(1) by (simp_all add: conc_inv_def)
  have "map_bytes ?m < 2 ^ 64"
    using map_bytes_update_le [OF fin, of key val] quota ok assms(2,3) by (simp add: limit_sane_def)
  then have "unat would_be = map_bytes ?m" "would_be \<le> lim"
    using ok unfolding assms(2) by (auto simp: unat_word_of_nat_u64)
  then have "map_bytes ?m \<le> unat lim" by (metis word_le_nat_alt)
  then show ?thesis
    using inv_inside [OF assms(1), of t "InsertDone would_be" ?m] ok assms(2) fin by simp
qed

lemma inv_delete_key:
  assumes "conc_inv lim s" and "c_pc s t = DeleteLocked key"
  shows "conc_inv lim ((goto t (DeleteDone key (c_map s key)) s)\<lparr>c_map := (c_map s)(key := None)\<rparr>)"
proof -
  let ?m = "(c_map s)(key := None)"
  have fin: "finite (dom (c_map s))" and quota: "map_bytes (c_map s) \<le> unat lim"
    using assms(1) by (simp_all add: conc_inv_def)
  have used: "c_counter s = word_of_nat (map_bytes (c_map s))"
    using holder [OF assms(1), of t] assms(2) by simp
  have "pending_counter (DeleteDone key (c_map s key)) (c_counter s) = word_of_nat (map_bytes ?m)"
  proof (cases "c_map s key")
    case None
    then have "?m = c_map s" by (simp add: fun_eq_iff)
    then show ?thesis using None used by simp
  next
    case (Some d)
    then show ?thesis using counter_after_delete [OF fin used Some] by simp
  qed
  then show ?thesis
    using inv_inside [OF assms(1), of t "DeleteDone key (c_map s key)" ?m] assms(2) fin
      map_bytes_delete_le [OF fin, of key] quota by simp
qed

lemma inv_release_same:
  assumes "conc_inv lim s" and "in_section (c_pc s t)"
    and "pending_counter (c_pc s t) (c_counter s) = c_counter s"
  shows "conc_inv lim (release t s)"
  using inv_release [OF assms(1,2), of "c_counter s"] assms(3) by (simp add: release_def goto_def)

lemma insert_step_inv:
  assumes "insert_step lim s s'" and "conc_inv lim s" and "limit_sane (Limited lim)"
  shows "conc_inv lim s'"
  using assms
proof (induction rule: insert_step.induct)
  case (lock_insert s t key val)
  then have "pc_ok lim (c_map s) (c_pc s t)" unfolding conc_inv_def by blast
  then show ?case using lock_insert by (intro inv_lock) simp_all
next
  case (get_existing s t key val would_be)
  then have "pc_ok lim (c_map s) (InsertChecked key val would_be)" using inv_checked by blast
  moreover have "finite (dom (c_map s))" "map_bytes (c_map s) \<le> unat lim"
    using get_existing by (simp_all add: conc_inv_def)
  ultimately show ?case
    using get_existing inv_inside [of lim s t "InsertChecked key val would_be" "c_map s"] holder [of lim s t]
    by (simp add: goto_def)
qed (simp_all add: inv_outside inv_release inv_release_same inv_insert_pair)

lemma delete_step_inv:
  assumes "delete_step s s'" and "conc_inv lim s"
  shows "conc_inv lim s'"
  using assms
proof (induction rule: delete_step.induct)
  case (delete_count s t key old)
  then show ?case by (cases old) (simp_all add: inv_release)
qed (simp_all add: inv_outside inv_lock inv_release inv_release_same inv_delete_key)

lemma conc_step_inv:
  "conc_step lim s s' \<Longrightarrow> conc_inv lim s \<Longrightarrow> limit_sane (Limited lim) \<Longrightarrow> conc_inv lim s'"
  using insert_step_inv delete_step_inv unfolding conc_step_def by blast

lemma conc_init_inv:
  assumes "finite (dom m)" and "map_bytes m \<le> unat lim"
  shows "conc_inv lim (conc_init m (word_of_nat (map_bytes m)))"
  using assms by (simp add: conc_init_def conc_inv_def pending_def)

lemma conc_reachable_inv:
  assumes "(conc_step lim)\<^sup>*\<^sup>* (conc_init m (word_of_nat (map_bytes m))) s"
    and "finite (dom m)" and "map_bytes m \<le> unat lim" and "limit_sane (Limited lim)"
  shows "conc_inv lim s"
  using assms by (induction rule: rtranclp_induct) (auto intro: conc_init_inv conc_step_inv)

subsection \<open>The calls as schedules\<close>

text \<open>
  The state of one namespace as the threads see it, with the lock free; and a call of the sequential
  model as one thread running through the section without interruption.
\<close>

definition conc_of :: "ns_map \<Rightarrow> u64 rwlock \<Rightarrow> (nat \<Rightarrow> thread_pc) \<Rightarrow> conc_state" where
  "conc_of m counter pcs = \<lparr>c_map = m, c_counter = lock_val counter, c_lock = None, c_pc = pcs\<rparr>"

text \<open>A finite schedule, listed state by state.\<close>

fun path :: "('s \<Rightarrow> 's \<Rightarrow> bool) \<Rightarrow> 's list \<Rightarrow> bool" where
  "path R (x # y # zs) \<longleftrightarrow> R x y \<and> path R (y # zs)"
| "path R _ \<longleftrightarrow> True"

lemma path_rtranclp: "path R xs \<Longrightarrow> xs \<noteq> [] \<Longrightarrow> R\<^sup>*\<^sup>* (hd xs) (last xs)"
  by (induction R xs rule: path.induct) (auto intro: converse_rtranclp_into_rtranclp)

lemma goto_goto [simp]: "goto t b (goto t a s) = goto t b s"
  by (simp add: goto_def)

lemma insert_schedule:
  assumes "would_be_used_storage (lock_val counter) key val (m key) \<le> lim" and "pcs t = WantInsert key val"
  shows "(conc_step lim)\<^sup>*\<^sup>* (conc_of m counter pcs)
     (conc_of (m(key \<mapsto> val))
        (counter\<lparr>lock_val := would_be_used_storage (lock_val counter) key val (m key)\<rparr>) (pcs(t := Idle)))"
proof -
  define w where "w = would_be_used_storage (lock_val counter) key val (m key)"
  define s0 where "s0 = conc_of m counter pcs"
  define s1 where "s1 = (goto t (InsertLocked key val) s0)\<lparr>c_lock := Some t\<rparr>"
  define s2 where "s2 = goto t (InsertChecked key val w) s1"
  define s3 where "s3 = (goto t (InsertDone w) s2)\<lparr>c_map := (c_map s2)(key \<mapsto> val)\<rparr>"
  define s4 where "s4 = (release t s3)\<lparr>c_counter := w\<rparr>"
  have "conc_step lim s0 s1"
    unfolding s1_def by (rule conc_stepI(1) [OF lock_insert]) (simp_all add: s0_def conc_of_def assms(2))
  moreover have "conc_step lim s1 s2"
    unfolding s2_def by (rule conc_stepI(1) [OF get_existing])
      (use assms(1) in \<open>simp_all add: s1_def s0_def w_def conc_of_def goto_def not_less\<close>)
  moreover have "conc_step lim s2 s3" unfolding s3_def by (rule conc_stepI(1) [OF insert_pair]) (simp add: s2_def goto_def)
  moreover have "conc_step lim s3 s4" unfolding s4_def by (rule conc_stepI(1) [OF insert_count]) (simp add: s3_def goto_def)
  ultimately have "path (conc_step lim) [s0, s1, s2, s3, s4]" by simp
  moreover have "s4 = conc_of (m(key \<mapsto> val)) (counter\<lparr>lock_val := w\<rparr>) (pcs(t := Idle))"
    by (simp add: s4_def s3_def s2_def s1_def s0_def release_def goto_def conc_of_def)
  ultimately show ?thesis using path_rtranclp by (fastforce simp: s0_def w_def)
qed

lemma delete_schedule:
  assumes "pcs t = WantDelete key"
  shows "(conc_step lim)\<^sup>*\<^sup>* (conc_of m counter pcs) (conc_of (m(key := None)) (case m key of
      Some data \<Rightarrow> counter\<lparr>lock_val := lock_val counter - word_of_nat (length key) - word_of_nat (length data)\<rparr>
    | None \<Rightarrow> counter) (pcs(t := Idle)))" (is "_ (conc_of _ ?counter' _)")
proof -
  define s0 where "s0 = conc_of m counter pcs"
  define s1 where "s1 = (goto t (DeleteLocked key) s0)\<lparr>c_lock := Some t\<rparr>"
  define s2 where "s2 = (goto t (DeleteDone key (c_map s1 key)) s1)\<lparr>c_map := (c_map s1)(key := None)\<rparr>"
  define s3 where "s3 = (release t s2)\<lparr>c_counter := (case m key of
      Some data \<Rightarrow> c_counter s2 - word_of_nat (length key) - word_of_nat (length data) | None \<Rightarrow> c_counter s2)\<rparr>"
  have "conc_step lim s0 s1" unfolding s1_def by (rule conc_stepI(2) [OF lock_delete]) (simp_all add: s0_def conc_of_def assms)
  moreover have "conc_step lim s1 s2" unfolding s2_def by (rule conc_stepI(2) [OF delete_key]) (simp add: s1_def goto_def)
  moreover have "conc_step lim s2 s3"
    unfolding s3_def by (rule conc_stepI(2) [OF delete_count]) (simp add: s2_def s1_def s0_def goto_def conc_of_def)
  ultimately have "path (conc_step lim) [s0, s1, s2, s3]" by simp
  moreover have "s3 = conc_of (m(key := None)) ?counter' (pcs(t := Idle))"
    by (simp add: s3_def s2_def s1_def s0_def release_def goto_def conc_of_def split: option.splits)
  ultimately show ?thesis using path_rtranclp by (fastforce simp: s0_def)
qed

lemma failed_schedule:
  assumes "pcs t = WantInsert key val \<or> pcs t = WantDelete key"
  shows "(conc_step lim)\<^sup>*\<^sup>* (conc_of m counter pcs) (conc_of m counter (pcs(t := Idle)))"
proof -
  define pc where "pc = (if pcs t = WantDelete key then DeleteLocked key else InsertLocked key val)"
  define s0 where "s0 = conc_of m counter pcs"
  define s1 where "s1 = (goto t pc s0)\<lparr>c_lock := Some t\<rparr>"
  have "conc_step lim s0 s1"
    using assms conc_stepI(1) [OF lock_insert [of s0 t key val]] conc_stepI(2) [OF lock_delete [of s0 t key]]
    by (auto simp: s1_def s0_def pc_def conc_of_def)
  moreover have "conc_step lim s1 (release t s1)"
    using conc_stepI(1) [OF get_failed [of s1 t key val]] conc_stepI(2) [OF delete_failed [of s1 t key]] by (auto simp: s1_def pc_def goto_def)
  ultimately have "path (conc_step lim) [s0, s1, release t s1]" by simp
  moreover have "release t s1 = conc_of m counter (pcs(t := Idle))"
    by (simp add: s1_def s0_def release_def goto_def conc_of_def)
  ultimately show ?thesis using path_rtranclp by (fastforce simp: s0_def)
qed

context storage_contract
begin

lemma insertion_is_schedule:
  assumes "vtable st = P" and "inv (database st)" and "pcs t = WantInsert key val"
    and "insertion_result st ns key val (Limited lim) counter = Inr (r, st', counter')"
  shows "(conc_step lim)\<^sup>*\<^sup>* (conc_of (contents (database st) ns) counter pcs)
     (conc_of (contents (database st') ns) counter' (pcs(t := Idle)))"
proof -
  note eff = insertion_result_effect [OF assms(1,2,4)]
  show ?thesis
  proof (cases r)
    case (Inl e)
    then show ?thesis using eff(4) eff(5) failed_schedule [of pcs t key val] assms(3) by simp
  next
    case (Inr old)
    then show ?thesis
      using eff(4) eff(5) eff(6) assms(3)
        insert_schedule [of counter key val "contents (database st) ns" lim pcs t] by simp
  qed
qed

lemma deletion_is_schedule:
  assumes "vtable st = P" and "inv (database st)" and "pcs t = WantDelete key" and "n \<noteq> 0"
    and "deletion_result st ns key n (Limited lim) counter = Inr (r, st', counter')"
  shows "(conc_step lim)\<^sup>*\<^sup>* (conc_of (contents (database st) ns) counter pcs)
     (conc_of (contents (database st') ns) counter' (pcs(t := Idle)))"
proof -
  obtain d' where del: "sp_delete P (database st) ns key = (r, d')" and st': "st' = st\<lparr>database := d'\<rparr>"
    and c': "counter' = (case r of Inr (Some data) \<Rightarrow> counter\<lparr>lock_val := lock_val counter
                        - word_of_nat (length key) - word_of_nat (length data)\<rparr> | _ \<Rightarrow> counter)"
    using assms(1,4,5) by (auto simp: deletion_result_def storage_ops Let_def
        split: if_splits prod.splits)
  show ?thesis
  proof (cases r)
    case (Inl e)
    then show ?thesis
      using delete_fail [OF assms(2)] del failed_schedule [of pcs t key] assms(3) by (simp add: st' c')
  next
    case (Inr old)
    then show ?thesis
      using delete_old [OF assms(2), of ns key old d'] delete_contents [OF assms(2), of ns key old d'] del
        delete_schedule [of pcs t key lim "contents (database st) ns" counter, OF assms(3)]
      by (simp add: st' c')
  qed
qed

end

subsection \<open>Properties\<close>

text \<open>
  C5. However many threads insert into and delete from one limited namespace, in whatever order their
  steps interleave and whichever calls to the database fail: the namespace never holds more bytes than
  its limit, at most one thread is between taking the lock and releasing it, and whenever no thread
  is there the counter is exactly the number of bytes stored.
\<close>

theorem concurrent_storage_exact:
  assumes "(conc_step lim)\<^sup>*\<^sup>* (conc_init m (word_of_nat (map_bytes m))) s"
    and "finite (dom m)" and "map_bytes m \<le> unat lim" and "limit_sane (Limited lim)"
  shows "map_bytes (c_map s) \<le> unat lim
    \<and> (\<forall>t t'. in_section (c_pc s t) \<longrightarrow> in_section (c_pc s t') \<longrightarrow> t = t')
    \<and> ((\<forall>t. \<not> in_section (c_pc s t)) \<longrightarrow> unat (c_counter s) = map_bytes (c_map s))"
proof (intro conjI impI)
  have inv: "conc_inv lim s" using conc_reachable_inv [OF assms] .
  then show quota: "map_bytes (c_map s) \<le> unat lim"
    and "\<forall>t t'. in_section (c_pc s t) \<longrightarrow> in_section (c_pc s t') \<longrightarrow> t = t'"
    by (simp_all add: conc_inv_def)
  assume "\<forall>t. \<not> in_section (c_pc s t)"
  then have "c_counter s = word_of_nat (map_bytes (c_map s))"
    using inv by (cases "c_lock s") (simp_all add: conc_inv_def pending_def)
  moreover have "map_bytes (c_map s) < 2 ^ 64"
    using quota unsigned_less [of lim, where ?'a = nat] by simp
  ultimately show "unat (c_counter s) = map_bytes (c_map s)" by (simp add: unat_word_of_nat_u64)
qed

text \<open>
  A schedule to apply it to: two threads, one inserting while the other waits for the lock, on an
  empty namespace of 10 bytes.
\<close>

definition two_threads :: "conc_state list" where
  "two_threads =
    (let s0 = conc_init Map.empty 0;
         s1 = goto 0 (WantInsert ''k'' [1, 2, 3]) s0;
         s2 = goto 1 (WantInsert ''l'' [4]) s1;
         s3 = (goto 0 (InsertLocked ''k'' [1, 2, 3]) s2)\<lparr>c_lock := Some 0\<rparr>;
         s4 = goto 0 (InsertChecked ''k'' [1, 2, 3] 4) s3;
         s5 = (goto 0 (InsertDone 4) s4)\<lparr>c_map := (c_map s4)(''k'' \<mapsto> [1, 2, 3])\<rparr>
     in [s0, s1, s2, s3, s4, s5, (release 0 s5)\<lparr>c_counter := 4\<rparr>])"

lemma two_threads_path: "path (conc_step 10) two_threads"
proof -
  have wb: "would_be_used_storage (0 :: u64) ''k'' [1, 2, 3] None = 4" by (simp add: would_be_used_storage_def)
  show ?thesis
    unfolding two_threads_def Let_def path.simps
    by (intro conjI TrueI conc_stepI(1) call_insert lock_insert get_existing insert_pair insert_count)
      (simp_all add: goto_def conc_init_def wb)
qed

theorem concurrent_storage_exact_witness:
  "unat (c_counter (last two_threads)) = map_bytes (c_map (last two_threads))
    \<and> c_pc (last two_threads) 1 = WantInsert ''l'' [4] \<and> c_counter (last two_threads) = 4"
proof -
  have start: "hd two_threads = conc_init Map.empty 0" and "two_threads \<noteq> []"
    by (simp_all add: two_threads_def Let_def)
  then have "(conc_step 10)\<^sup>*\<^sup>* (conc_init Map.empty (word_of_nat (map_bytes Map.empty))) (last two_threads)"
    using path_rtranclp [OF two_threads_path]
    by (simp add: map_bytes_def)
  moreover have "limit_sane (Limited 10)" by (simp add: limit_sane_def)
  moreover have "\<forall>t. \<not> in_section (c_pc (last two_threads) t)"
    by (simp add: two_threads_def Let_def goto_def release_def conc_init_def)
  ultimately have "unat (c_counter (last two_threads)) = map_bytes (c_map (last two_threads))"
    using concurrent_storage_exact [of 10 Map.empty "last two_threads"] by (simp add: map_bytes_def)
  then show ?thesis by (simp add: two_threads_def Let_def goto_def release_def conc_init_def)
qed

text \<open>
  C6. The threads do what the storage functions do: an insertion or a deletion of the sequential
  model, on the in-memory backend, is what a thread reaches that runs alone from the moment it finds
  the lock free, with the same contents and the same counter at the end.
\<close>

theorem storage_calls_are_schedules:
  assumes "vtable st = in_memory_provider" and "im_inv (database st)"
    and "pcs t = WantInsert key val \<and> insertion_result st ns key val (Limited lim) counter = Inr (r, st', counter')
       \<or> pcs t = WantDelete key \<and> n \<noteq> 0 \<and> deletion_result st ns key n (Limited lim) counter = Inr (r, st', counter')"
  shows "(conc_step lim)\<^sup>*\<^sup>* (conc_of (im_contents (database st) ns) counter pcs)
     (conc_of (im_contents (database st') ns) counter' (pcs(t := Idle)))"
  using assms(3)
proof (elim disjE conjE)
  assume "pcs t = WantInsert key val" "insertion_result st ns key val (Limited lim) counter = Inr (r, st', counter')"
  then show ?thesis by (rule im.insertion_is_schedule [OF assms(1,2)])
next
  assume "pcs t = WantDelete key" "n \<noteq> 0" "deletion_result st ns key n (Limited lim) counter = Inr (r, st', counter')"
  then show ?thesis by (rule im.deletion_is_schedule [OF assms(1,2)])
qed

theorem storage_calls_are_schedules_witness:
  "(conc_step 10)\<^sup>*\<^sup>* (conc_of Map.empty (rwlock_new 0) ((\<lambda>_. Idle)(0 := WantInsert ''k'' [1, 2])))
     (conc_of [''k'' \<mapsto> [1, 2]] (rwlock_new 3) ((\<lambda>_. Idle)(0 := Idle)))"
proof -
  let ?st = "\<lparr>vtable = in_memory_provider, database = [], shared_dbs = None\<rparr>"
  have "insertion_result ?st ''m'' ''k'' [1, 2] (Limited 10) (rwlock_new 0) =
      Inr (Inr None, ?st\<lparr>database := [(''m'', [(''k'', [1, 2])])]\<rparr>, rwlock_new 3)"
    by (simp add: insertion_result_def rwlock_new_def storage_ops im_defs would_be_used_storage_def
        hm_get_def hm_insert_def)
  moreover have "im_inv []" by (simp add: im_inv_def hm_wf_def)
  moreover have "im_contents [(''m'', [(''k'', [1, 2])])] ''m'' = [''k'' \<mapsto> [1, 2]]" "im_contents [] ''m'' = Map.empty"
    by (simp_all add: im_contents_def hm_get_def fun_eq_iff)
  ultimately show ?thesis
    using storage_calls_are_schedules [of ?st "(\<lambda>_. Idle)(0 := WantInsert ''k'' [1, 2])" 0 "''k''" "[1, 2]" "''m''" 10
        "rwlock_new 0"] by simp
qed

end
