(* ===== verification/Plaid_Logback.thy ===== *)
theory Plaid_Logback
  imports Plaid_Env "HOL-Library.Multiset"
begin

text \<open>
  Logbacks, \<^verbatim>\<open>runtime/plaid/src/functions/internal.rs\<close> and \<^verbatim>\<open>runtime/plaid/src/data/internal/mod.rs\<close>:
  a module sends a message back into the system, at once or after a delay, and pays for it out of
  the budget of the message it is processing. Delayed messages are kept in the storage and put on
  the executor's queue when their time has come.

  The channels belong to \<^verbatim>\<open>crossbeam\<close>: sending is an operation of the record \<open>channel_ops\<close>. Clock
  readings, fresh message identifiers and the JSON codec of \<^verbatim>\<open>serde_json\<close> are arguments.
\<close>

subsection \<open>Channels\<close>

record delayed_message =
  delay :: u64
  dm_message :: message

record 'q channel_ops =
  try_send_now :: "'q \<Rightarrow> message \<Rightarrow> 'q try_send_result"
  try_send_delayed :: "'q \<Rightarrow> delayed_message \<Rightarrow> 'q try_send_result"

text \<open>What a channel documents: a message that was accepted is the last one queued.\<close>

definition channels_ok :: "'q channel_ops \<Rightarrow> ('q \<Rightarrow> message list) \<Rightarrow> bool" where
  "channels_ok C sent \<longleftrightarrow>
     (\<forall>q m q'. try_send_now C q m = Sent q' \<longrightarrow> sent q' = sent q @ [m])
   \<and> (\<forall>q d q'. try_send_delayed C q d = Sent q' \<longrightarrow> sent q' = sent q @ [dm_message d])"

text \<open>A bounded queue, as an instance: it is full at a given number of messages.\<close>

definition bounded_ops :: "nat \<Rightarrow> message list channel_ops" where
  "bounded_ops cap =
     \<lparr>try_send_now = (\<lambda>q m. if length q < cap then Sent (q @ [m]) else Full),
      try_send_delayed = (\<lambda>q d. if length q < cap then Sent (q @ [dm_message d]) else Full)\<rparr>"

lemma channels_ok_bounded: "channels_ok (bounded_ops cap) (\<lambda>q. q)"
  by (simp add: channels_ok_def bounded_ops_def)

subsection \<open>Host functions\<close>

definition print_debug_string :: "'m wasm_ops \<Rightarrow> ('m, 'd, 'c, 'q) env \<Rightarrow> u32 \<Rightarrow> u32 \<Rightarrow> string option" where
  "print_debug_string W env log_buffer log_buffer_size =
     (case get_memory (env_memory env) of
        Inl _ \<Rightarrow> None
      | Inr memory_view \<Rightarrow>
          (case safely_get_string W memory_view log_buffer log_buffer_size of
             Inl _ \<Rightarrow> None
           | Inr s \<Rightarrow> Some (''Message from ['' @ mod_name (env_module env) @ '']: '' @ s)))"

definition set_error_context ::
  "'m wasm_ops \<Rightarrow> ('m, 'd, 'c, 'q) env \<Rightarrow> u32 \<Rightarrow> u32 \<Rightarrow> ('m, 'd, 'c, 'q) env" where
  "set_error_context W env context_buffer context_buffer_size =
     (case get_memory (env_memory env) of
        Inl _ \<Rightarrow> env
      | Inr memory_view \<Rightarrow>
          (case safely_get_string W memory_view context_buffer context_buffer_size of
             Inl _ \<Rightarrow> env
           | Inr s \<Rightarrow> env\<lparr>execution_error_context := Some s\<rparr>))"

definition guest_get_time :: "u64 \<Rightarrow> u32" where
  "guest_get_time now = ucast now"

text \<open>The budget a logback is given, and what remains for the message that asked for it.\<close>

definition assign_budget ::
  "logbacks_allowed \<Rightarrow> logbacks_allowed \<Rightarrow> function_errors + (logbacks_allowed \<times> logbacks_allowed)" where
  "assign_budget available requested =
     (case available of
        LogbacksUnlimited \<Rightarrow> Inr (requested, LogbacksUnlimited)
      | LogbacksLimited x \<Rightarrow>
          if x = 0 then Inl LogbackBudgetExhausted
          else (case requested of
                  LogbacksLimited asked \<Rightarrow>
                    if asked > x - 1 then Inl LogbackBudgetExhausted
                    else Inr (requested, LogbacksLimited (x - asked - 1))
                | LogbacksUnlimited \<Rightarrow> Inl LogbackBudgetExhausted))"

definition dispatch_logback ::
  "'q channel_ops \<Rightarrow> ('m, 'd, 'c, 'q) env \<Rightarrow> u32 \<Rightarrow> message \<Rightarrow> (function_errors + unit) \<times> ('m, 'd, 'c, 'q) env" where
  "dispatch_logback C env dly msg =
     (if \<not> cancelled env \<and> dly = 0 \<and> immediate_sender env
      then (case try_send_now C (channels env) msg of
              Sent q \<Rightarrow> (Inr (), env\<lparr>channels := q\<rparr>)
            | _ \<Rightarrow> (Inl FailedToLogBack, env))
      else let actual_delay = max (ucast dly) 1
           in (case try_send_delayed C (channels env) \<lparr>delay = actual_delay, dm_message = msg\<rparr> of
                 Sent q \<Rightarrow> (Inr (), env\<lparr>channels := q\<rparr>)
               | _ \<Rightarrow> (Inl FailedToLogBack, env)))"

definition log_back_detailed ::
  "'m wasm_ops \<Rightarrow> 'q channel_ops \<Rightarrow> string \<Rightarrow> ('m, 'd, 'c, 'q) env \<Rightarrow> u32 \<Rightarrow> u32 \<Rightarrow> u32 \<Rightarrow> u32 \<Rightarrow> u32
     \<Rightarrow> logbacks_allowed \<Rightarrow> i32 \<times> ('m, 'd, 'c, 'q) env" where
  "log_back_detailed W C uuid env type_buf type_buf_len log_buf log_buf_len dly logbacks_requested =
     (case assign_budget (logbacks_allowed (env_message env)) logbacks_requested of
        Inl e \<Rightarrow> (error_code e, env)
      | Inr (assigned_budget, remaining) \<Rightarrow>
          (let env = env\<lparr>env_message := (env_message env)\<lparr>logbacks_allowed := remaining\<rparr>\<rparr>;
               max_buffer_size = calculate_max_buffer_size (page_limit (env_module env))
           in case get_memory (env_memory env) of
                Inl _ \<Rightarrow> (error_code InternalApiError, env)
              | Inr memory_view \<Rightarrow>
                  (case safely_get_string W memory_view type_buf type_buf_len of
                     Inl _ \<Rightarrow> (error_code InternalApiError, env)
                   | Inr type_ \<Rightarrow>
                       (case safely_get_memory W memory_view log_buf log_buf_len max_buffer_size of
                          Inl _ \<Rightarrow> (error_code InternalApiError, env)
                        | Inr log \<Rightarrow>
                            (let msg = message_new uuid type_ log (Logback (mod_name (env_module env))) assigned_budget
                             in case dispatch_logback C env dly msg of
                                  (Inr _, env) \<Rightarrow> (0, env)
                                | (Inl e, env) \<Rightarrow> (error_code e, env))))))"

definition log_back ::
  "'m wasm_ops \<Rightarrow> 'q channel_ops \<Rightarrow> string \<Rightarrow> ('m, 'd, 'c, 'q) env \<Rightarrow> u32 \<Rightarrow> u32 \<Rightarrow> u32 \<Rightarrow> u32 \<Rightarrow> u32
     \<Rightarrow> u32 \<Rightarrow> i32 \<times> ('m, 'd, 'c, 'q) env" where
  "log_back W C uuid env type_buf type_buf_len log_buf log_buf_len dly logbacks_requested =
     log_back_detailed W C uuid env type_buf type_buf_len log_buf log_buf_len dly
       (LogbacksLimited logbacks_requested)"

definition log_back_unlimited ::
  "'m wasm_ops \<Rightarrow> 'q channel_ops \<Rightarrow> string \<Rightarrow> ('m, 'd, 'c, 'q) env \<Rightarrow> u32 \<Rightarrow> u32 \<Rightarrow> u32 \<Rightarrow> u32 \<Rightarrow> u32
     \<Rightarrow> i32 \<times> ('m, 'd, 'c, 'q) env" where
  "log_back_unlimited W C uuid env type_buf type_buf_len log_buf log_buf_len dly =
     log_back_detailed W C uuid env type_buf type_buf_len log_buf log_buf_len dly LogbacksUnlimited"

text \<open>The random bytes come from the general API, when it is configured.\<close>

definition fetch_random_bytes ::
  "'m wasm_ops \<Rightarrow> (u16 \<Rightarrow> bytes option) option \<Rightarrow> ('m, 'd, 'c, 'q) env \<Rightarrow> u32 \<Rightarrow> u16 \<Rightarrow> i32 \<times> ('m, 'd, 'c, 'q) env" where
  "fetch_random_bytes W general env data_buffer data_buffer_len =
     (case general of
        None \<Rightarrow> (error_code ApiNotConfigured, env)
      | Some api \<Rightarrow>
          (case api data_buffer_len of
             None \<Rightarrow> (error_code InternalApiError, env)
           | Some b \<Rightarrow>
               (case get_memory (env_memory env) of
                  Inl _ \<Rightarrow> (error_code CouldNotGetAdequateMemory, env)
                | Inr memory_view \<Rightarrow>
                    (let (r, m) = safely_write_data_back W memory_view b data_buffer (ucast data_buffer_len)
                     in (result_code r, env\<lparr>env_memory := Some m\<rparr>)))))"

subsection \<open>Delayed messages\<close>

definition LOGBACK_NS :: string where
  "LOGBACK_NS = ''logback_internal''"

definition MAX_BYTES :: nat where
  "MAX_BYTES = 5 * 1024 * 1024"

definition MAX_ENTRIES :: nat where
  "MAX_ENTRIES = 20"

definition MAX_KEY_LEN :: nat where
  "MAX_KEY_LEN = 100"

text \<open>\<^verbatim>\<open>chars().count()\<close>: the bytes of a UTF-8 string that do not continue a character.\<close>

definition chars_count :: "string \<Rightarrow> nat" where
  "chars_count s = length (filter (\<lambda>c. \<not> (128 \<le> (of_char c :: nat) \<and> (of_char c :: nat) < 192)) s)"

definition vec_max :: "bytes \<Rightarrow> bool" where
  "vec_max v \<longleftrightarrow> \<not> length v > MAX_BYTES"

definition map_with_limits :: "(string, bytes) hashmap \<Rightarrow> bool" where
  "map_with_limits m \<longleftrightarrow>
     list_all (\<lambda>(k, v). vec_max v) m \<and> \<not> length m > MAX_ENTRIES
   \<and> list_all (\<lambda>(k, v). \<not> chars_count k > MAX_KEY_LEN) m"

text \<open>
  Decoding a stored message: the derived decoder, a parameter, and the limits the source adds to
  it. Encoding skips the response sender and the module.
\<close>

definition delayed_from_slice :: "(bytes \<Rightarrow> delayed_message option) \<Rightarrow> bytes \<Rightarrow> delayed_message option" where
  "delayed_from_slice parse b =
     (case parse b of
        None \<Rightarrow> None
      | Some d \<Rightarrow>
          if vec_max (msg_data (dm_message d)) \<and> map_with_limits (headers (dm_message d))
             \<and> map_with_limits (query_params (dm_message d))
          then Some d else None)"

definition persist_delayed_log ::
  "(delayed_message \<Rightarrow> bytes option) \<Rightarrow> u64 \<Rightarrow> 'd storage \<Rightarrow> delayed_message \<Rightarrow> 'd storage" where
  "persist_delayed_log to_vec current_time st log =
     (let log = log\<lparr>delay := delay log + current_time\<rparr>
      in case to_vec log of
           None \<Rightarrow> st
         | Some db_item \<Rightarrow> snd (storage_insert st LOGBACK_NS (msg_id (dm_message log)) db_item))"

fun listen_for_incoming_logs ::
  "(delayed_message \<Rightarrow> bytes option) \<Rightarrow> (delayed_message \<times> u64) list \<Rightarrow> 'd storage \<Rightarrow> 'd storage" where
  "listen_for_incoming_logs to_vec [] st = st"
| "listen_for_incoming_logs to_vec ((log, now) # logs) st =
     listen_for_incoming_logs to_vec logs (persist_delayed_log to_vec now st log)"

text \<open>
  \<^verbatim>\<open>BinaryHeap<Reverse<DelayedMessage>>\<close>: the next message to leave is one with the smallest delay.
  The heap is kept as a list sorted by delay.
\<close>

definition heap_push :: "delayed_message \<Rightarrow> delayed_message list \<Rightarrow> delayed_message list" where
  "heap_push d h = insort_key delay d h"

fun fill_heap ::
  "(bytes \<Rightarrow> delayed_message option) \<Rightarrow> (string \<times> bytes option) list \<Rightarrow> delayed_message list \<Rightarrow> delayed_message list" where
  "fill_heap parse [] h = h"
| "fill_heap parse ((key, None) # logs) h = fill_heap parse logs h"
| "fill_heap parse ((key, Some value) # logs) h =
     (case delayed_from_slice parse value of
        None \<Rightarrow> fill_heap parse logs h
      | Some d \<Rightarrow> fill_heap parse logs (heap_push d h))"

definition fill_heap_from_db ::
  "(bytes \<Rightarrow> delayed_message option) \<Rightarrow> 'd storage \<Rightarrow> storage_error + delayed_message list" where
  "fill_heap_from_db parse st =
     (case storage_fetch_all st LOGBACK_NS None of
        Inl e \<Rightarrow> Inl e
      | Inr previous_logs \<Rightarrow> Inr (fill_heap parse previous_logs []))"

fun fetch_internal_loop ::
  "('q \<Rightarrow> message \<Rightarrow> 'q try_send_result) \<Rightarrow> u64 \<Rightarrow> delayed_message list \<Rightarrow> 'q \<Rightarrow> 'd storage \<Rightarrow> 'q \<times> 'd storage" where
  "fetch_internal_loop send current_time [] q st = (q, st)"
| "fetch_internal_loop send current_time (heap_top # log_heap) q st =
     (if current_time < delay heap_top then (q, st)
      else case send q (dm_message heap_top) of
             Sent q' \<Rightarrow>
               fetch_internal_loop send current_time log_heap q'
                 (snd (storage_delete st LOGBACK_NS (msg_id (dm_message heap_top))))
           | Full \<Rightarrow> (q, st)
           | Disconnected \<Rightarrow> (q, st))"

definition fetch_internal_logs ::
  "(bytes \<Rightarrow> delayed_message option) \<Rightarrow> ('q \<Rightarrow> message \<Rightarrow> 'q try_send_result) \<Rightarrow> u64 \<Rightarrow> 'q \<Rightarrow> 'd storage
     \<Rightarrow> (storage_error + unit) \<times> 'q \<times> 'd storage" where
  "fetch_internal_logs parse send current_time q st =
     (case fill_heap_from_db parse st of
        Inl e \<Rightarrow> (Inl e, q, st)
      | Inr log_heap \<Rightarrow> (Inr (), fetch_internal_loop send current_time log_heap q st))"

subsection \<open>Budgets\<close>

text \<open>
  A guest handling a message makes any number of logback calls, each with its own arguments and with
  its memory prepared at will.
\<close>

datatype 'm logback_call =
  LogbackCall (lc_memory: 'm) (lc_uuid: string) (lc_args: "u32 \<times> u32 \<times> u32 \<times> u32 \<times> u32")
    (lc_requested: logbacks_allowed)

fun run_logbacks ::
  "'m wasm_ops \<Rightarrow> 'q channel_ops \<Rightarrow> 'm logback_call list \<Rightarrow> ('m, 'd, 'c, 'q) env \<Rightarrow> ('m, 'd, 'c, 'q) env" where
  "run_logbacks W C [] env = env"
| "run_logbacks W C (LogbackCall mem uuid (tp, tn, lp, ln, dly) req # calls) env =
     run_logbacks W C calls
       (snd (log_back_detailed W C uuid (env\<lparr>env_memory := Some mem\<rparr>) tp tn lp ln dly req))"

definition budget :: "message \<Rightarrow> nat" where
  "budget m = (case logbacks_allowed m of LogbacksLimited x \<Rightarrow> unat x | LogbacksUnlimited \<Rightarrow> 0)"

definition limited :: "message \<Rightarrow> bool" where
  "limited m \<longleftrightarrow> logbacks_allowed m \<noteq> LogbacksUnlimited"

text \<open>The logbacks a list of messages stands for: each costs one, besides the budget it carries.\<close>

definition total_cost :: "message list \<Rightarrow> nat" where
  "total_cost ms = (\<Sum>m \<leftarrow> ms. 1 + budget m)"

lemma total_cost_simps [simp]: "total_cost [] = 0" "total_cost (m # ms) = 1 + budget m + total_cost ms"
  "total_cost (ms @ ms') = total_cost ms + total_cost ms'"
  by (simp_all add: total_cost_def)

lemma limited_message_new [simp]: "limited (message_new u t d s (LogbacksLimited x))"
  and budget_message_new [simp]: "budget (message_new u t d s (LogbacksLimited x)) = unat x"
  by (simp_all add: limited_def budget_def message_new_def)

lemma assign_budget_Limited:
  assumes "assign_budget (LogbacksLimited x) req = Inr (assigned, remaining)"
  obtains asked x' where "req = LogbacksLimited asked" and "assigned = req" and "remaining = LogbacksLimited x'"
    and "unat x = unat x' + (1 + unat asked)"
proof -
  obtain asked where req: "req = LogbacksLimited asked" "x \<noteq> 0" "asked \<le> x - 1"
    and out: "assigned = req" "remaining = LogbacksLimited (x - asked - 1)"
    using assms by (auto simp: assign_budget_def split: if_splits logbacks_allowed.splits)
  have x1: "unat (x - 1) = unat x - 1" "0 < unat x"
    using req(2) by (simp_all add: unat_minus_one unat_gt_0)
  have "unat asked \<le> unat (x - 1)" using req(3) by (simp add: word_le_nat_alt)
  moreover have "unat (x - 1 - asked) = unat (x - 1) - unat asked" using req(3) by (simp add: unat_sub)
  moreover have "unat (x - asked - 1) = unat (x - 1 - asked)" by (rule arg_cong [where f = unat]) simp
  ultimately have "unat x = unat (x - asked - 1) + (1 + unat asked)" using x1 by linarith
  then show thesis using that [of asked "x - asked - 1"] req(1) out by simp
qed

lemma dispatch_logback_cases:
  assumes "channels_ok C sent" and "dispatch_logback C env dly msg = (r, env')"
  shows "(\<exists>q. env' = env\<lparr>channels := q\<rparr>)
    \<and> sent (channels env') = sent (channels env) @ (case r of Inr _ \<Rightarrow> [msg] | Inl _ \<Rightarrow> [])"
proof -
  have "(\<exists>q. env' = env\<lparr>channels := q\<rparr> \<and> sent q = sent (channels env) @ [msg]) \<and> r = Inr ()
      \<or> env' = env \<and> r = Inl FailedToLogBack"
  proof (cases "\<not> cancelled env \<and> dly = 0 \<and> immediate_sender env")
    case True
    then show ?thesis using assms
      by (cases "try_send_now C (channels env) msg") (auto simp: dispatch_logback_def channels_ok_def)
  next
    case False
    then show ?thesis using assms unfolding dispatch_logback_def
      by (cases "try_send_delayed C (channels env) \<lparr>delay = max (ucast dly) 1, dm_message = msg\<rparr>")
        (auto simp: channels_ok_def)
  qed
  moreover have "\<exists>q. env = env\<lparr>channels := q\<rparr>" by (rule exI [of _ "channels env"]) simp
  ultimately show ?thesis by auto
qed

lemma log_back_detailed_paths:
  assumes "assign_budget (logbacks_allowed (env_message env)) req = Inr (assigned, remaining)"
    and "log_back_detailed W C uuid env tp tn lp ln dly req = (code, env')"
  shows "code < 0 \<and> env' = env\<lparr>env_message := (env_message env)\<lparr>logbacks_allowed := remaining\<rparr>\<rparr> \<or>
    (\<exists>t l r. dispatch_logback C (env\<lparr>env_message := (env_message env)\<lparr>logbacks_allowed := remaining\<rparr>\<rparr>) dly
         (message_new uuid t l (Logback (mod_name (env_module env))) assigned) = (r, env')
       \<and> code = (case r of Inr _ \<Rightarrow> 0 | Inl e \<Rightarrow> error_code e))"
proof (cases "get_memory (env_memory env)")
  case (Inl e)
  then show ?thesis using assms by (auto simp: log_back_detailed_def)
next
  case mem: (Inr mv)
  let ?log = "safely_get_memory W mv lp ln (calculate_max_buffer_size (page_limit (env_module env)))"
  show ?thesis
  proof (cases "safely_get_string W mv tp tn")
    case (Inl e)
    then show ?thesis using assms mem by (auto simp: log_back_detailed_def)
  next
    case t: (Inr t)
    show ?thesis
    proof (cases ?log)
      case (Inl e)
      then show ?thesis using assms mem t by (auto simp: log_back_detailed_def)
    next
      case (Inr l)
      obtain r env2 where d: "dispatch_logback C (env\<lparr>env_message := (env_message env)\<lparr>logbacks_allowed := remaining\<rparr>\<rparr>) dly
              (message_new uuid t l (Logback (mod_name (env_module env))) assigned) = (r, env2)" by force
      have "log_back_detailed W C uuid env tp tn lp ln dly req = (case r of Inr _ \<Rightarrow> 0 | Inl e \<Rightarrow> error_code e, env2)"
        using assms(1) mem t Inr d
        by (cases r) (simp_all add: log_back_detailed_def)
      then have "env' = env2" "code = (case r of Inr _ \<Rightarrow> 0 | Inl e \<Rightarrow> error_code e)"
        using assms(2) by auto
      then show ?thesis using d by blast
    qed
  qed
qed

lemma log_back_detailed_effect:
  assumes "channels_ok C sent" and "logbacks_allowed (env_message env) = LogbacksLimited x"
    and "log_back_detailed W C uuid env tp tn lp ln dly req = (code, env')"
  shows "\<exists>new x'. sent (channels env') = sent (channels env) @ new \<and> list_all limited new
    \<and> (code = 0 \<longleftrightarrow> new \<noteq> []) \<and> length new \<le> 1 \<and> (\<forall>m \<in> set new. logbacks_allowed m = req)
    \<and> logbacks_allowed (env_message env') = LogbacksLimited x' \<and> total_cost new + unat x' \<le> unat x
    \<and> (code = 0 \<longrightarrow> total_cost new + unat x' = unat x)"
proof (cases "assign_budget (LogbacksLimited x) req")
  case (Inl e)
  then have "code = error_code e" "env' = env"
    using assms(2,3) by (auto simp: log_back_detailed_def)
  then show ?thesis using assms(2) error_code_neg [of e] by simp
next
  case (Inr a)
  obtain assigned remaining where a: "a = (assigned, remaining)" by force
  obtain asked x' where req: "req = LogbacksLimited asked" "assigned = req" "remaining = LogbacksLimited x'"
    and cost: "unat x = unat x' + (1 + unat asked)"
    using Inr unfolding a by (rule assign_budget_Limited)
  let ?env = "env\<lparr>env_message := (env_message env)\<lparr>logbacks_allowed := LogbacksLimited x'\<rparr>\<rparr>"
  have "code < 0 \<and> env' = ?env \<or>
    (\<exists>t l r. dispatch_logback C ?env dly (message_new uuid t l (Logback (mod_name (env_module env))) req) = (r, env')
       \<and> code = (case r of Inr _ \<Rightarrow> 0 | Inl e \<Rightarrow> error_code e))"
    using log_back_detailed_paths [OF Inr [unfolded a req(2,3), folded assms(2)] assms(3)] by simp
  then show ?thesis
  proof (elim disjE exE conjE)
    assume "code < 0" "env' = ?env"
    then show ?thesis using cost by (intro exI [of _ "[]"]) simp
  next
    fix t l r
    let ?m = "message_new uuid t l (Logback (mod_name (env_module env))) req"
    assume d: "dispatch_logback C ?env dly ?m = (r, env')"
      and code: "code = (case r of Inr _ \<Rightarrow> 0 | Inl e \<Rightarrow> error_code e)"
    note eff = dispatch_logback_cases [OF assms(1) d]
    then have x': "logbacks_allowed (env_message env') = LogbacksLimited x'" by auto
    show ?thesis
    proof (cases r)
      case (Inl e)
      then show ?thesis using eff x' code cost error_code_neg [of e] by (intro exI [of _ "[]"]) simp
    next
      case (Inr u)
      then show ?thesis using eff x' code cost req(1) by (intro exI [of _ "[?m]"]) (simp add: message_new_def limited_def budget_def)
    qed
  qed
qed

lemma run_logbacks_effect:
  assumes "channels_ok C sent" and "logbacks_allowed (env_message env) = LogbacksLimited x"
  shows "\<exists>new. sent (channels (run_logbacks W C calls env)) = sent (channels env) @ new \<and> list_all limited new
    \<and> total_cost new + budget (env_message (run_logbacks W C calls env)) \<le> unat x
    \<and> limited (env_message (run_logbacks W C calls env))"
  using assms(2)
proof (induction calls arbitrary: env x)
  case Nil
  then show ?case by (simp add: budget_def limited_def)
next
  case (Cons c calls)
  obtain mem uuid tp tn lp ln dly req where c: "c = LogbackCall mem uuid (tp, tn, lp, ln, dly) req"
    by (cases c) auto
  obtain code env1 where step: "log_back_detailed W C uuid (env\<lparr>env_memory := Some mem\<rparr>) tp tn lp ln dly req = (code, env1)"
    by force
  from log_back_detailed_effect [OF assms(1) _ this] Cons.prems
  obtain new x1 where n1: "sent (channels env1) = sent (channels env) @ new" "list_all limited new"
    "total_cost new + unat x1 \<le> unat x" and x1: "logbacks_allowed (env_message env1) = LogbacksLimited x1"
    by fastforce
  from Cons.IH [OF x1] obtain new2 where
    "sent (channels (run_logbacks W C calls env1)) = sent (channels env1) @ new2" "list_all limited new2"
    "total_cost new2 + budget (env_message (run_logbacks W C calls env1)) \<le> unat x1"
    "limited (env_message (run_logbacks W C calls env1))" by blast
  then show ?case using n1 by (intro exI [of _ "new @ new2"]) (simp add: c step)
qed

subsection \<open>Cascades\<close>

text \<open>
  Messages waiting anywhere in the system (on a queue or in the storage) are a multiset, since the
  order in which they are taken is not determined. A step takes one message and lets at most \<open>k\<close>
  modules process a copy of it, each making any logback calls; what they sent is waiting afterwards.
\<close>

definition produced ::
  "'m wasm_ops \<Rightarrow> 'q channel_ops \<Rightarrow> ('q \<Rightarrow> message list) \<Rightarrow> ('m, 'd, 'c, 'q) env \<times> 'm logback_call list
     \<Rightarrow> message list" where
  "produced W C sent run =
     (let (env, calls) = run
      in drop (length (sent (channels env))) (sent (channels (run_logbacks W C calls env))))"

inductive cascade_step ::
  "'m wasm_ops \<Rightarrow> 'q channel_ops \<Rightarrow> ('q \<Rightarrow> message list) \<Rightarrow> nat \<Rightarrow> message multiset \<Rightarrow> message multiset \<Rightarrow> bool"
  for W C sent k where
  process:
    "msg \<in># pending \<Longrightarrow> length runs \<le> k \<Longrightarrow>
     list_all (\<lambda>(env :: ('m, unit, unit, 'q) env, calls). env_message env = create_duplicate msg) runs \<Longrightarrow>
     cascade_step W C sent k pending (pending - {#msg#} + mset (concat (map (produced W C sent) runs)))"

definition weight :: "nat \<Rightarrow> message \<Rightarrow> nat" where
  "weight k m = (k + 1) ^ budget m"

definition cascade_bound :: "nat \<Rightarrow> message multiset \<Rightarrow> nat" where
  "cascade_bound k pending = (\<Sum>m \<in># pending. weight k m)"

lemma weight_pos [simp]: "0 < weight k m"
  by (simp add: weight_def)

lemma power_split_le: "k * (k + 1) ^ c + (k + 1) ^ r \<le> (k + 1) ^ (c + 1 + r)" for k c r :: nat
proof -
  define a b where "a = (k + 1) ^ c" and "b = (k + 1) ^ r"
  have pos: "1 \<le> a" "1 \<le> b" by (simp_all add: a_def b_def)
  have "k * a \<le> k * (a * b)" and "b \<le> a * b" using pos by simp_all
  then have "k * a + b \<le> k * (a * b) + a * b" by linarith
  also have "\<dots> = (k + 1) ^ (c + 1 + r)"
    by (simp add: a_def b_def power_add algebra_simps)
  finally show ?thesis by (simp add: a_def b_def)
qed

lemma weights_of_affordable:
  "total_cost ms \<le> n \<Longrightarrow> k * (\<Sum>m \<leftarrow> ms. weight k m) + 1 \<le> (k + 1) ^ n"
proof (induction ms arbitrary: n)
  case (Cons m ms)
  define r where "r = n - (1 + budget m)"
  have n: "n = budget m + 1 + r" and "total_cost ms \<le> r" using Cons.prems by (simp_all add: r_def)
  then have "k * (\<Sum>m \<leftarrow> ms. weight k m) + 1 \<le> (k + 1) ^ r" by (intro Cons.IH)
  moreover have "k * weight k m + (k + 1) ^ r \<le> (k + 1) ^ n"
    using power_split_le [of k "budget m" r] by (simp only: weight_def n)
  ultimately show ?case by (simp add: algebra_simps)
qed simp

lemma produced_affordable:
  assumes "channels_ok C sent" and "limited (env_message env)"
  shows "total_cost (produced W C sent (env, calls)) \<le> budget (env_message env)
    \<and> list_all limited (produced W C sent (env, calls))"
proof -
  obtain x where x: "logbacks_allowed (env_message env) = LogbacksLimited x"
    using assms(2) by (cases "logbacks_allowed (env_message env)") (auto simp: limited_def)
  show ?thesis
    using run_logbacks_effect [OF assms(1) x, of W calls] by (auto simp: produced_def budget_def x)
qed

lemma runs_weight:
  assumes "channels_ok C sent" and "limited msg"
    and "list_all (\<lambda>(env :: ('m, 'd, 'c, 'q) env, calls). env_message env = create_duplicate msg) runs"
    and "length runs \<le> j" and "j \<le> k"
  shows "k * (\<Sum>m \<leftarrow> concat (map (produced W C sent) runs). weight k m) + j \<le> j * (k + 1) ^ budget msg
    \<and> list_all limited (concat (map (produced W C sent) runs))"
  using assms(3-5)
proof (induction runs arbitrary: j)
  case Nil
  have "j * 1 \<le> j * (k + 1) ^ budget msg" by (intro mult_left_mono) simp_all
  then show ?case by simp
next
  case (Cons run runs)
  obtain env calls where run: "run = (env, calls)" by force
  obtain i where j: "j = Suc i" using Cons.prems(2) by (cases j) simp_all
  have msg: "budget (env_message env) = budget msg" "limited (env_message env)"
    using Cons.prems(1) assms(2) by (simp_all add: run budget_def limited_def)
  note aff = produced_affordable [OF assms(1) msg(2), of W calls, unfolded msg(1)]
  have "k * (\<Sum>m \<leftarrow> produced W C sent run. weight k m) + 1 \<le> (k + 1) ^ budget msg"
    using aff by (intro weights_of_affordable) (simp add: run)
  moreover have "k * (\<Sum>m \<leftarrow> concat (map (produced W C sent) runs). weight k m) + i \<le> i * (k + 1) ^ budget msg
    \<and> list_all limited (concat (map (produced W C sent) runs))"
    using Cons.prems by (intro Cons.IH) (simp_all add: j)
  ultimately show ?case using aff by (simp add: run j algebra_simps)
qed

lemma cascade_step_decreases:
  assumes "channels_ok C sent" and "cascade_step W C sent k pending pending'"
    and "\<forall>m \<in># pending. limited m"
  shows "cascade_bound k pending' < cascade_bound k pending \<and> (\<forall>m \<in># pending'. limited m)"
  using assms(2)
proof cases
  case (process msg runs)
  let ?new = "concat (map (produced W C sent) runs)"
  have lim: "limited msg" using assms(3) process(2) by simp
  note rw = runs_weight [OF assms(1) lim process(4,3) order_refl, of W]
  have "k * sum_list (map (weight k) ?new) + k \<le> k * weight k msg"
    using conjunct1 [OF rw] by (simp only: weight_def [of k msg])
  then have "k * (sum_list (map (weight k) ?new) + 1) \<le> k * weight k msg"
    by (simp only: distrib_left mult_1_right)
  then have less: "sum_list (map (weight k) ?new) < weight k msg"
    using process(3) by (cases "k = 0") (simp_all only: mult_le_cancel1 Suc_eq_plus1 [symmetric] Suc_le_eq, simp_all)
  have "cascade_bound k pending = weight k msg + cascade_bound k (pending - {#msg#})"
    using process(2) unfolding cascade_bound_def
    by (metis insert_DiffM image_mset_add_mset sum_mset.add_mset)
  moreover have "cascade_bound k pending' = cascade_bound k (pending - {#msg#}) + sum_list (map (weight k) ?new)"
    by (simp add: process(1) cascade_bound_def sum_mset_sum_list [symmetric])
  moreover have "\<forall>m \<in># pending'. limited m"
    using assms(3) rw by (auto simp: process(1) list_all_iff dest: in_diffD)
  ultimately show ?thesis using less by simp
qed


lemma cascade_terminates_bound:
  assumes "channels_ok C sent" and "(cascade_step W C sent k ^^ n) pending pending'"
    and "\<forall>m \<in># pending. limited m"
  shows "n + cascade_bound k pending' \<le> cascade_bound k pending"
  using assms(2,3)
proof (induction n arbitrary: pending)
  case (Suc n)
  from Suc.prems(1) obtain p where p: "cascade_step W C sent k pending p" "(cascade_step W C sent k ^^ n) p pending'"
    using relpowp_Suc_D2 by metis
  note dec = cascade_step_decreases [OF assms(1) p(1) Suc.prems(2)]
  show ?case using dec Suc.IH [OF p(2)] by force
qed simp

subsection \<open>Delivery of delayed messages\<close>

text \<open>The heap holds what could be decoded, in the order of delays.\<close>

definition stored_logs :: "(bytes \<Rightarrow> delayed_message option) \<Rightarrow> ns_map \<Rightarrow> delayed_message set" where
  "stored_logs parse m = {d. \<exists>k v. m k = Some v \<and> delayed_from_slice parse v = Some d}"

lemma fill_heap_sorted: "sorted (map delay h) \<Longrightarrow> sorted (map delay (fill_heap parse logs h))"
  by (induction parse logs h rule: fill_heap.induct)
    (auto simp: heap_push_def sorted_insort_key split: option.splits)

lemma fill_heap_set:
  "set (fill_heap parse logs h) =
     set h \<union> {d. \<exists>k v. (k, Some v) \<in> set logs \<and> delayed_from_slice parse v = Some d}"
  by (induction parse logs h rule: fill_heap.induct)
    (auto simp: heap_push_def set_insort_key split: option.splits)

lemma fetch_internal_loop_effect:
  assumes "fetch_internal_loop send now h q st = (q', st')"
    and "\<forall>q m q'. send q m = Sent q' \<longrightarrow> sent q' = sent q @ [m]"
  shows "\<exists>n. sent q' = sent q @ map dm_message (take n h) \<and> (\<forall>d \<in> set (take n h). delay d \<le> now)
    \<and> st' = foldl (\<lambda>st d. snd (storage_delete st LOGBACK_NS (msg_id (dm_message d)))) st (take n h)
    \<and> ((\<forall>q m. \<exists>q'. send q m = Sent q') \<longrightarrow> take n h = takeWhile (\<lambda>d. delay d \<le> now) h)"
  using assms(1)
proof (induction h arbitrary: q st)
  case Nil
  then show ?case by simp
next
  case (Cons d h)
  show ?case
  proof (cases "\<not> now < delay d \<and> (\<exists>q1. send q (dm_message d) = Sent q1)")
    case False
    then have "q' = q \<and> st' = st"
      using Cons.prems by (auto split: if_splits try_send_result.splits)
    moreover have "takeWhile (\<lambda>d. delay d \<le> now) (d # h) = []" if "\<forall>q m. \<exists>q'. send q m = Sent q'"
      using that False by auto
    ultimately show ?thesis by (intro exI [of _ 0]) auto
  next
    case True
    then obtain q1 where due: "delay d \<le> now" and q1: "send q (dm_message d) = Sent q1" by auto
    have "fetch_internal_loop send now h q1 (snd (storage_delete st LOGBACK_NS (msg_id (dm_message d)))) = (q', st')"
      using Cons.prems True q1 by simp
    from Cons.IH [OF this] obtain n where n: "sent q' = sent q1 @ map dm_message (take n h)"
      "\<forall>d \<in> set (take n h). delay d \<le> now"
      "st' = foldl (\<lambda>st d. snd (storage_delete st LOGBACK_NS (msg_id (dm_message d))))
         (snd (storage_delete st LOGBACK_NS (msg_id (dm_message d)))) (take n h)"
      "(\<forall>q m. \<exists>q'. send q m = Sent q') \<longrightarrow> take n h = takeWhile (\<lambda>d. delay d \<le> now) h" by blast
    moreover have "sent q1 = sent q @ [dm_message d]" using assms(2) q1 by blast
    ultimately show ?thesis using due by (intro exI [of _ "Suc n"]) simp
  qed
qed

lemma takeWhile_sorted_filter:
  "sorted (map f xs) \<Longrightarrow> set (takeWhile (\<lambda>x. f x \<le> b) xs) = {x \<in> set xs. f x \<le> b}" for f :: "'a \<Rightarrow> u64"
  by (induction xs) (fastforce intro: order_trans)+

context storage_contract
begin

lemma delete_ids_contents:
  assumes "vtable st = P" and "inv (database st)" and "\<And>d ns k. \<exists>r d'. sp_delete P d ns k = (Inr r, d')"
    and "st' = foldl (\<lambda>st d. snd (storage_delete st ns (f d))) st ds"
  shows "vtable st' = P \<and> inv (database st')
    \<and> contents (database st') = (contents (database st))(ns := (\<lambda>k. if k \<in> f ` set ds then None else contents (database st) ns k))"
  using assms(1,2,4)
proof (induction ds arbitrary: st)
  case Nil
  then show ?case by (simp add: fun_eq_iff)
next
  case (Cons d ds)
  obtain r d1 where del: "sp_delete P (database st) ns (f d) = (Inr r, d1)" using assms(3) by blast
  have st1: "snd (storage_delete st ns (f d)) = st\<lparr>database := d1\<rparr>"
    using Cons.prems(1) by (simp add: storage_delete_def del)
  have "st' = foldl (\<lambda>st d. snd (storage_delete st ns (f d))) (st\<lparr>database := d1\<rparr>) ds"
    using Cons.prems(3) by (simp add: st1)
  from Cons.IH [OF _ _ this] Cons.prems(1) delete_inv [OF Cons.prems(2) del]
  show ?case using delete_contents [OF Cons.prems(2) del] by (auto simp: fun_eq_iff)
qed

lemma fill_heap_from_db_set:
  assumes "vtable st = P" and "inv (database st)" and "fill_heap_from_db parse st = Inr h"
  shows "set h = stored_logs parse (contents (database st) LOGBACK_NS)" and "sorted (map delay h)"
proof -
  obtain all where all: "sp_fetch_all P (database st) LOGBACK_NS None = Inr all" and h: "h = fill_heap parse all []"
    using assms(1,3) by (auto simp: fill_heap_from_db_def storage_fetch_all_def split: sum.splits)
  show "set h = stored_logs parse (contents (database st) LOGBACK_NS)"
    using fetch_all_contents [OF assms(2) all] by (auto simp: h fill_heap_set stored_logs_def prefix_filter_def)
  show "sorted (map delay h)" by (simp add: h fill_heap_sorted)
qed

end

text \<open>
  What \<^verbatim>\<open>serde_json\<close> documents of the derived codec: decoding an encoded value gives it back, less the
  two fields that are skipped.
\<close>

definition codec_ok :: "(delayed_message \<Rightarrow> bytes option) \<Rightarrow> (bytes \<Rightarrow> delayed_message option) \<Rightarrow> bool" where
  "codec_ok to_vec parse \<longleftrightarrow>
     (\<forall>d b. to_vec d = Some b \<longrightarrow> parse b = Some (d\<lparr>dm_message := create_duplicate (dm_message d)\<rparr>))"

definition message_within_limits :: "message \<Rightarrow> bool" where
  "message_within_limits m \<longleftrightarrow> vec_max (msg_data m) \<and> map_with_limits (headers m) \<and> map_with_limits (query_params m)"

text \<open>Every stored log is stored under its own identifier, as \<^verbatim>\<open>persist_delayed_log\<close> does.\<close>

definition logback_ns_ok :: "(bytes \<Rightarrow> delayed_message option) \<Rightarrow> ns_map \<Rightarrow> bool" where
  "logback_ns_ok parse m \<longleftrightarrow>
     (\<forall>k v d. m k = Some v \<longrightarrow> delayed_from_slice parse v = Some d \<longrightarrow> msg_id (dm_message d) = k)"

abbreviation delayed_id :: "delayed_message \<Rightarrow> string" where
  "delayed_id d \<equiv> msg_id (dm_message d)"

lemma fill_heap_distinct:
  assumes "distinct (map fst logs)" and "distinct (map delayed_id h)" and "\<forall>d \<in> set h. delayed_id d \<notin> fst ` set logs"
    and "\<forall>k v d. (k, Some v) \<in> set logs \<longrightarrow> delayed_from_slice parse v = Some d \<longrightarrow> delayed_id d = k"
  shows "distinct (map delayed_id (fill_heap parse logs h))"
  using assms
proof (induction parse logs h rule: fill_heap.induct)
  case (3 parse key v logs h)
  show ?case
  proof (cases "delayed_from_slice parse v")
    case (Some d)
    then have "delayed_id d = key" using 3(6) by auto
    then have "distinct (map delayed_id (d # h))" "\<forall>e \<in> set (d # h). delayed_id e \<notin> fst ` set logs"
      using 3(3-5) by auto
    moreover have "mset (d # h) = mset (heap_push d h)" by (simp add: heap_push_def)
    ultimately have "distinct (map delayed_id (heap_push d h))" "\<forall>e \<in> set (heap_push d h). delayed_id e \<notin> fst ` set logs"
      by (metis mset_eq_imp_distinct_iff mset_map, metis set_mset_mset)
    then show ?thesis using 3(2) [OF Some] 3(3,6) by (simp add: Some)
  qed (use 3 in simp)
qed simp_all

context storage_contract
begin

lemma fill_heap_from_db_distinct:
  assumes "vtable st = P" and "inv (database st)" and "fill_heap_from_db parse st = Inr h"
    and "logback_ns_ok parse (contents (database st) LOGBACK_NS)"
  shows "distinct (map delayed_id h)"
proof -
  obtain all where all: "sp_fetch_all P (database st) LOGBACK_NS None = Inr all" and h: "h = fill_heap parse all []"
    using assms(1,3) by (auto simp: fill_heap_from_db_def storage_fetch_all_def split: sum.splits)
  show ?thesis unfolding h
    using fetch_all_distinct [OF assms(2) all] fetch_all_contents [OF assms(2) all] assms(4)
    by (intro fill_heap_distinct) (auto simp: logback_ns_ok_def)
qed

end

lemma in_memory_delete_total: "\<exists>r d'. in_memory_delete d ns k = (Inr r, d')"
  by (simp add: in_memory_delete_def split: option.splits)

lemma fetch_internal_logs_in_memory:
  assumes "vtable st = in_memory_provider" and "im_inv (database st)"
    and "\<forall>q m q'. send q m = Sent q' \<longrightarrow> sent q' = sent q @ [m]"
  obtains delivered q' st' where "fetch_internal_logs parse send now q st = (Inr (), q', st')"
    and "sent q' = sent q @ map dm_message delivered" and "sorted (map delay delivered)"
    and "set delivered \<subseteq> {d \<in> stored_logs parse (im_contents (database st) LOGBACK_NS). delay d \<le> now}"
    and "im_contents (database st') = (im_contents (database st))(LOGBACK_NS :=
           (\<lambda>k. if k \<in> (\<lambda>d. msg_id (dm_message d)) ` set delivered then None
                else im_contents (database st) LOGBACK_NS k))"
    and "(\<forall>q m. \<exists>q'. send q m = Sent q') \<Longrightarrow>
           set delivered = {d \<in> stored_logs parse (im_contents (database st) LOGBACK_NS). delay d \<le> now}"
    and "vtable st' = in_memory_provider" and "im_inv (database st')"
    and "logback_ns_ok parse (im_contents (database st) LOGBACK_NS) \<Longrightarrow> distinct (map delayed_id delivered)"
proof -
  obtain h where h: "fill_heap_from_db parse st = Inr h"
    using assms(1) by (simp add: fill_heap_from_db_def storage_fetch_all_def im_defs)
  note heap = im.fill_heap_from_db_set [OF assms(1,2) h]
  obtain q' st' where loop: "fetch_internal_loop send now h q st = (q', st')" by force
  from fetch_internal_loop_effect [OF this assms(3)] obtain n where
    n: "sent q' = sent q @ map dm_message (take n h)" "\<forall>d \<in> set (take n h). delay d \<le> now"
    "st' = foldl (\<lambda>st d. snd (storage_delete st LOGBACK_NS (msg_id (dm_message d)))) st (take n h)"
    "(\<forall>q m. \<exists>q'. send q m = Sent q') \<longrightarrow> take n h = takeWhile (\<lambda>d. delay d \<le> now) h" by blast
  show thesis
  proof (rule that [of q' st' "take n h"])
    show "fetch_internal_logs parse send now q st = (Inr (), q', st')"
      by (simp add: fetch_internal_logs_def h loop)
    show "sorted (map delay (take n h))"
      using sorted_wrt_take [OF heap(2), of n] by (simp add: take_map)
    show "set (take n h) \<subseteq> {d \<in> stored_logs parse (im_contents (database st) LOGBACK_NS). delay d \<le> now}"
      using n(2) heap(1) set_take_subset by fast
    show "im_contents (database st') = (im_contents (database st))(LOGBACK_NS :=
           (\<lambda>k. if k \<in> (\<lambda>d. msg_id (dm_message d)) ` set (take n h) then None
                else im_contents (database st) LOGBACK_NS k))"
      using im.delete_ids_contents [OF assms(1,2) _ n(3)] in_memory_delete_total by simp
    show "set (take n h) = {d \<in> stored_logs parse (im_contents (database st) LOGBACK_NS). delay d \<le> now}"
      if "\<forall>q m. \<exists>q'. send q m = Sent q'"
      using n(4) that takeWhile_sorted_filter [OF heap(2)] heap(1) by simp
    show "vtable st' = in_memory_provider" "im_inv (database st')"
      using im.delete_ids_contents [OF assms(1,2) _ n(3)] in_memory_delete_total by simp_all
    show "distinct (map delayed_id (take n h))" if ok: "logback_ns_ok parse (im_contents (database st) LOGBACK_NS)"
      using im.fill_heap_from_db_distinct [OF assms(1,2) h ok] by (metis distinct_take take_map)
  qed (rule n(1))
qed

lemma persist_delayed_log_contents:
  assumes "vtable st = in_memory_provider" and "im_inv (database st)"
    and "to_vec (log\<lparr>delay := delay log + t\<rparr>) = Some b"
  shows "vtable (persist_delayed_log to_vec t st log) = in_memory_provider"
    and "im_inv (database (persist_delayed_log to_vec t st log))"
    and "im_contents (database (persist_delayed_log to_vec t st log)) =
      (im_contents (database st))(LOGBACK_NS := (im_contents (database st) LOGBACK_NS)(msg_id (dm_message log) \<mapsto> b))"
proof -
  obtain d' where "in_memory_insert (database st) LOGBACK_NS (msg_id (dm_message log)) b =
      (Inr (im_contents (database st) LOGBACK_NS (msg_id (dm_message log))), d')"
    and "im_contents d' = (im_contents (database st))
       (LOGBACK_NS := (im_contents (database st) LOGBACK_NS)(msg_id (dm_message log) \<mapsto> b))" and "im_inv d'"
    using assms(2) by (rule in_memory_insert_step)
  then show "vtable (persist_delayed_log to_vec t st log) = in_memory_provider"
    and "im_inv (database (persist_delayed_log to_vec t st log))"
    and "im_contents (database (persist_delayed_log to_vec t st log)) =
      (im_contents (database st))(LOGBACK_NS := (im_contents (database st) LOGBACK_NS)(msg_id (dm_message log) \<mapsto> b))"
    using assms(1,3) by (simp_all add: persist_delayed_log_def storage_insert_def)
qed

subsection \<open>Properties\<close>

text \<open>
  A module with a budget of 2 for the witnesses: it sends one logback with budget 0, then asks for
  more than is left.
\<close>

definition sample_logger :: "(bytes, unit, unit, message list) env" where
  "sample_logger =
     \<lparr>env_module = sample_module ''m.wasm'' Unlimited 0,
      env_message = message_new ''id'' ''test'' [1] (Generator Okta) (LogbacksLimited 2),
      env_storage = None, env_cache = None, env_memory = Some [107, 1, 2], response = None,
      execution_error_context = None, immediate_sender = True, cancelled = False, channels = []\<rparr>"

definition sample_logbacks :: "bytes logback_call list" where
  "sample_logbacks =
     [LogbackCall [107, 1, 2] ''u1'' (0, 1, 1, 2, 0) (LogbacksLimited 0),
      LogbackCall [107, 1, 2] ''u2'' (0, 1, 1, 2, 0) (LogbacksLimited 1)]"

lemma sample_budget: "logbacks_allowed (env_message sample_logger) = LogbacksLimited 2"
  by (simp add: sample_logger_def message_new_def)

lemma sample_logback_done:
  "log_back_detailed flat_ops (bounded_ops 8) ''u1'' sample_logger 0 1 1 2 0 (LogbacksLimited 0) =
     (0, sample_logger\<lparr>env_message := (env_message sample_logger)\<lparr>logbacks_allowed := LogbacksLimited 1\<rparr>,
          channels := [message_new ''u1'' ''k'' [1, 2] (Logback ''m.wasm'') (LogbacksLimited 0)]\<rparr>)"
  by (simp add: log_back_detailed_def assign_budget_def sample_logger_def message_new_def sample_module_def
      get_memory_def safely_get_string_def flat_read_string_def flat_read_def char_of_def bit_0
      safely_get_memory_def calculate_max_buffer_size_def saturating_mul_u32_def WASM_PAGE_SIZE_def
      dispatch_logback_def bounded_ops_def Let_def)

text \<open>
  C8. A module handling a message with a limited budget can never give away more than that budget:
  whatever logback calls it makes, the messages it manages to send all carry limited budgets, and
  their number plus the budgets they carry plus what remains is at most what it had. In particular it
  cannot escalate to an unlimited budget.
\<close>

theorem logback_budget_conserved:
  assumes "channels_ok C sent" and "logbacks_allowed (env_message env) = LogbacksLimited x"
    and "env' = run_logbacks W C calls env"
  shows "\<exists>new. sent (channels env') = sent (channels env) @ new
    \<and> (\<forall>m \<in> set new. logbacks_allowed m \<noteq> LogbacksUnlimited)
    \<and> length new + (\<Sum>m \<leftarrow> new. budget m) + budget (env_message env') \<le> unat x"
proof -
  obtain new where new: "sent (channels env') = sent (channels env) @ new" "list_all limited new"
    "total_cost new + budget (env_message env') \<le> unat x"
    using run_logbacks_effect [OF assms(1,2), of W calls] assms(3) by blast
  have "total_cost new = length new + (\<Sum>m \<leftarrow> new. budget m)"
    by (induction new) simp_all
  then show ?thesis using new by (auto simp: list_all_iff limited_def)
qed

theorem logback_budget_conserved_witness:
  "\<exists>new. channels (run_logbacks flat_ops (bounded_ops 8) sample_logbacks sample_logger) = new
    \<and> length new + (\<Sum>m \<leftarrow> new. budget m)
      + budget (env_message (run_logbacks flat_ops (bounded_ops 8) sample_logbacks sample_logger)) \<le> unat (2 :: u32)"
  using logback_budget_conserved [OF channels_ok_bounded sample_budget refl, of flat_ops 8 sample_logbacks]
  by (auto simp: sample_logger_def)

text \<open>
  The outcome of one logback call under a limited budget \<open>x\<close>. Asking for more than \<open>x - 1\<close>, or for
  an unlimited budget, is refused and changes nothing. Otherwise the call costs one plus what was
  asked for, and the budget is charged even if the message is then not sent, because the guest's
  buffers cannot be read or the queue does not take it. Success means one message, with exactly the
  budget that was asked for, on the queue.
\<close>

theorem log_back_outcome:
  assumes "channels_ok C sent" and "logbacks_allowed (env_message env) = LogbacksLimited x"
    and "log_back_detailed W C uuid env tp tn lp ln dly req = (code, env')"
  shows "case req of
      LogbacksUnlimited \<Rightarrow> code = -16 \<and> env' = env
    | LogbacksLimited asked \<Rightarrow>
        if unat asked + 1 > unat x then code = -16 \<and> env' = env
        else logbacks_allowed (env_message env') = LogbacksLimited (x - asked - 1)
          \<and> unat x = unat (x - asked - 1) + (unat asked + 1)
          \<and> (if code = 0 then \<exists>m. sent (channels env') = sent (channels env) @ [m] \<and> logbacks_allowed m = req
             else sent (channels env') = sent (channels env))"
proof (cases "assign_budget (LogbacksLimited x) req")
  case (Inl e)
  have "code = -16 \<and> env' = env"
    using Inl assms(2,3) by (auto simp: log_back_detailed_def assign_budget_def split: if_splits logbacks_allowed.splits)
  moreover have "unat asked + 1 > unat x" if "req = LogbacksLimited asked" for asked
  proof -
    have "x = 0 \<or> x \<noteq> 0 \<and> x - 1 < asked" using Inl that by (auto simp: assign_budget_def split: if_splits)
    then show ?thesis by (auto simp: word_less_nat_alt unat_minus_one)
  qed
  ultimately show ?thesis by (simp split: logbacks_allowed.splits)
next
  case (Inr a)
  obtain assigned remaining where a: "a = (assigned, remaining)" by force
  obtain asked x' where req: "req = LogbacksLimited asked" "remaining = LogbacksLimited x'"
    and cost: "unat x = unat x' + (1 + unat asked)"
    using Inr unfolding a by (rule assign_budget_Limited) blast
  have x': "x' = x - asked - 1"
    using Inr a req by (auto simp: assign_budget_def split: if_splits)
  have rem: "logbacks_allowed (env_message env') = LogbacksLimited x'"
    using log_back_detailed_paths [OF Inr [unfolded a req(2), folded assms(2)] assms(3)]
      dispatch_logback_cases [OF assms(1)] by fastforce
  obtain new where new: "sent (channels env') = sent (channels env) @ new" "code = 0 \<longleftrightarrow> new \<noteq> []"
    "length new \<le> 1" "\<forall>m \<in> set new. logbacks_allowed m = req"
    using log_back_detailed_effect [OF assms] by blast
  then have "if code = 0 then \<exists>m. sent (channels env') = sent (channels env) @ [m] \<and> logbacks_allowed m = req
             else sent (channels env') = sent (channels env)"
    by (cases new) auto
  then show ?thesis using cost rem by (simp add: req(1) x')
qed

theorem log_back_outcome_witness:
  "\<exists>m. channels (snd (log_back_detailed flat_ops (bounded_ops 8) ''u1'' sample_logger 0 1 1 2 0 (LogbacksLimited 0))) =
     channels sample_logger @ [m] \<and> logbacks_allowed m = LogbacksLimited 0"
  using log_back_outcome [OF channels_ok_bounded sample_budget sample_logback_done]
  by (simp add: sample_logback_done)

text \<open>
  C9. Cascades end. If at most \<open>k\<close> modules process each message and every waiting message has a
  limited budget, then only boundedly many messages are ever processed, whatever the modules do: a
  message with budget \<open>n\<close> accounts for at most \<open>(k + 1) ^ n\<close> of them. (The factor is needed: each
  module that receives a copy of a message may spend the whole budget.)
\<close>

theorem logback_cascade_bounded:
  assumes "channels_ok C sent" and "(cascade_step W C sent k ^^ n) pending pending'"
    and "\<forall>m \<in># pending. logbacks_allowed m \<noteq> LogbacksUnlimited"
  shows "n \<le> (\<Sum>m \<in># pending. (k + 1) ^ budget m)"
  using cascade_terminates_bound [OF assms(1,2)] assms(3)
  by (simp add: cascade_bound_def weight_def limited_def)

theorem logback_cascade_bounded_witness:
  "cascade_step flat_ops (bounded_ops 8) (\<lambda>q. q) 1 {#env_message sample_logger#}
     {#message_new ''u1'' ''k'' [1, 2] (Logback ''m.wasm'') (LogbacksLimited 0)#}
   \<and> (1 :: nat) \<le> (\<Sum>m \<in># {#env_message sample_logger#}. (1 + 1) ^ budget m)"
proof -
  let ?run = "(sample_logger, [LogbackCall [107, 1, 2] ''u1'' (0, 1, 1, 2, 0) (LogbacksLimited 0)])"
  let ?m = "message_new ''u1'' ''k'' [1, 2] (Logback ''m.wasm'') (LogbacksLimited 0)"
  have mem: "sample_logger\<lparr>env_memory := Some [107, 1, 2]\<rparr> = sample_logger"
    by (simp add: sample_logger_def)
  have dup: "create_duplicate (env_message sample_logger) = env_message sample_logger"
    by (simp add: sample_logger_def message_new_def create_duplicate_def)
  have "produced flat_ops (bounded_ops 8) (\<lambda>q. q) ?run = [?m]"
    by (simp add: produced_def mem sample_logback_done) (simp add: sample_logger_def)
  then have step: "cascade_step flat_ops (bounded_ops 8) (\<lambda>q. q) 1 {#env_message sample_logger#} {#?m#}"
    using process [of "env_message sample_logger" "{#env_message sample_logger#}" "[?run]" 1 flat_ops "bounded_ops 8" "\<lambda>q. q"]
    by (simp add: dup)
  then have "(cascade_step flat_ops (bounded_ops 8) (\<lambda>q. q) 1 ^^ 1) {#env_message sample_logger#} {#?m#}"
    by (simp add: eq_OO)
  from step logback_cascade_bounded [OF channels_ok_bounded this] show ?thesis by (simp add: sample_budget)
qed

text \<open>
  For the witnesses: a codec that knows one message, and an empty storage. The message is persisted
  at time 100 with a delay of 5.
\<close>

definition sample_delayed :: "nat \<Rightarrow> delayed_message" where
  "sample_delayed n = \<lparr>delay = 5, dm_message = message_new ''u1'' ''k'' (replicate n 0) (Logback ''m.wasm'') (LogbacksLimited 0)\<rparr>"

definition one_to_vec :: "nat \<Rightarrow> delayed_message \<Rightarrow> bytes option" where
  "one_to_vec n d = (if d = (sample_delayed n)\<lparr>delay := 105\<rparr> then Some [1] else None)"

definition one_parse :: "nat \<Rightarrow> bytes \<Rightarrow> delayed_message option" where
  "one_parse n b = (if b = [1] then Some ((sample_delayed n)\<lparr>delay := 105\<rparr>) else None)"

lemma sample_delayed_facts:
  "codec_ok (one_to_vec n) (one_parse n)"
  "one_to_vec n ((sample_delayed n)\<lparr>delay := delay (sample_delayed n) + 100\<rparr>) = Some [1]"
  "msg_id (dm_message (sample_delayed n)) = ''u1''" "length (msg_data (dm_message (sample_delayed n))) = n"
  "create_duplicate (dm_message (sample_delayed n)) = dm_message (sample_delayed n)"
  "n \<le> MAX_BYTES \<Longrightarrow> message_within_limits (dm_message (sample_delayed n))"
  by (simp_all add: codec_ok_def one_to_vec_def one_parse_def sample_delayed_def message_new_def create_duplicate_def
      message_within_limits_def vec_max_def map_with_limits_def)

lemma empty_storage_facts:
  "vtable storage_new_in_memory = in_memory_provider" "im_inv (database storage_new_in_memory)"
  "logback_ns_ok parse (im_contents (database storage_new_in_memory) LOGBACK_NS)"
  by (simp_all add: storage_new_in_memory_def im_new logback_ns_ok_def)

text \<open>
  One poll of the delayed messages. Only messages whose time has come are put on the queue, in
  the order of their times; a message leaves the storage only when it was put on the queue, so a
  queue that refuses a message loses nothing; and a queue that accepts everything receives every
  stored message that is due.
\<close>

theorem delayed_delivery:
  assumes "vtable st = in_memory_provider" and "im_inv (database st)"
    and "\<forall>q m q'. send q m = Sent q' \<longrightarrow> sent q' = sent q @ [m]"
  shows "\<exists>delivered q' st'. fetch_internal_logs parse send now q st = (Inr (), q', st')
    \<and> sent q' = sent q @ map dm_message delivered \<and> sorted (map delay delivered)
    \<and> set delivered \<subseteq> {d \<in> stored_logs parse (im_contents (database st) LOGBACK_NS). delay d \<le> now}
    \<and> (\<forall>k. im_contents (database st) LOGBACK_NS k \<noteq> None \<longrightarrow> im_contents (database st') LOGBACK_NS k = None \<longrightarrow>
         (\<exists>d \<in> set delivered. k = msg_id (dm_message d)))
    \<and> (\<forall>ns. ns \<noteq> LOGBACK_NS \<longrightarrow> im_contents (database st') ns = im_contents (database st) ns)
    \<and> ((\<forall>q m. \<exists>q'. send q m = Sent q') \<longrightarrow>
         set delivered = {d \<in> stored_logs parse (im_contents (database st) LOGBACK_NS). delay d \<le> now})"
proof -
  obtain delivered q' st' where out: "fetch_internal_logs parse send now q st = (Inr (), q', st')"
    "sent q' = sent q @ map dm_message delivered" "sorted (map delay delivered)"
    "set delivered \<subseteq> {d \<in> stored_logs parse (im_contents (database st) LOGBACK_NS). delay d \<le> now}"
    "im_contents (database st') = (im_contents (database st))(LOGBACK_NS :=
           (\<lambda>k. if k \<in> (\<lambda>d. msg_id (dm_message d)) ` set delivered then None
                else im_contents (database st) LOGBACK_NS k))"
    "(\<forall>q m. \<exists>q'. send q m = Sent q') \<Longrightarrow>
           set delivered = {d \<in> stored_logs parse (im_contents (database st) LOGBACK_NS). delay d \<le> now}"
    using assms by (rule fetch_internal_logs_in_memory [of st send sent parse now q]) blast
  have "\<exists>d \<in> set delivered. k = msg_id (dm_message d)"
    if "im_contents (database st) LOGBACK_NS k \<noteq> None" "im_contents (database st') LOGBACK_NS k = None" for k
    using that out(5) by (auto split: if_splits)
  then show ?thesis using out by (intro exI conjI) (auto simp: out(5))
qed

theorem delayed_delivery_witness:
  "\<exists>(delivered :: delayed_message list) q' st'. fetch_internal_logs (one_parse 0) (\<lambda>q m. Sent (q @ [m])) 200 []
       (persist_delayed_log (one_to_vec 0) 100 storage_new_in_memory (sample_delayed 0)) = (Inr (), q', st')
     \<and> q' = [] @ map dm_message delivered \<and> sorted (map delay delivered)"
proof -
  let ?st = "persist_delayed_log (one_to_vec 0) 100 storage_new_in_memory (sample_delayed 0)"
  note p = persist_delayed_log_contents [OF empty_storage_facts(1,2), of "one_to_vec 0" "sample_delayed 0" 100 "[1]",
      OF sample_delayed_facts(2)]
  have "\<forall>q m q'. Sent (q @ [m]) = Sent q' \<longrightarrow> q' = q @ [m]" by simp
  from delayed_delivery [of ?st "\<lambda>q m. Sent (q @ [m])" "\<lambda>q. q", OF p(1,2) this, of "one_parse 0" 200 "[]"]
  show ?thesis by (elim exE conjE) (intro exI conjI, assumption+)
qed

text \<open>
  The task of delayed logbacks over time: logs are persisted and the storage is polled, in any order.
\<close>

datatype delayed_event = PersistLog delayed_message u64 | PollLogs u64

fun delayed_run ::
  "(delayed_message \<Rightarrow> bytes option) \<Rightarrow> (bytes \<Rightarrow> delayed_message option) \<Rightarrow> ('q \<Rightarrow> message \<Rightarrow> 'q try_send_result)
     \<Rightarrow> delayed_event list \<Rightarrow> 'q \<times> 'd storage \<Rightarrow> 'q \<times> 'd storage" where
  "delayed_run to_vec parse send [] s = s"
| "delayed_run to_vec parse send (PersistLog log t # es) (q, st) =
     delayed_run to_vec parse send es (q, persist_delayed_log to_vec t st log)"
| "delayed_run to_vec parse send (PollLogs now # es) (q, st) =
     delayed_run to_vec parse send es (snd (fetch_internal_logs parse send now q st))"

abbreviation delayed_ok :: "(bytes \<Rightarrow> delayed_message option) \<Rightarrow> in_memory_db storage \<Rightarrow> bool" where
  "delayed_ok parse st \<equiv> vtable st = in_memory_provider \<and> im_inv (database st) \<and> logback_ns_ok parse (im_contents (database st) LOGBACK_NS)"

abbreviation stored_log :: "in_memory_db storage \<Rightarrow> string \<Rightarrow> bytes option" where
  "stored_log st i \<equiv> im_contents (database st) LOGBACK_NS i"

lemma filter_unique: "distinct (map f xs) \<Longrightarrow> x \<in> set xs \<Longrightarrow> filter (\<lambda>y. f y = f x) xs = [x]"
  by (induction xs) (auto simp: filter_empty_conv image_iff)

lemma poll_step:
  assumes "delayed_ok parse st" and "\<forall>q m q'. send q m = Sent q' \<longrightarrow> sent q' = sent q @ [m]"
    and "snd (fetch_internal_logs parse send now q st) = (q', st')"
  shows "delayed_ok parse st'" and "\<exists>new. sent q' = sent q @ new
    \<and> (stored_log st i = None \<longrightarrow> filter (\<lambda>m. msg_id m = i) new = [] \<and> stored_log st' i = None)
    \<and> (\<forall>b d. stored_log st i = Some b \<longrightarrow> delayed_from_slice parse b = Some d \<longrightarrow>
         filter (\<lambda>m. msg_id m = i) new = [] \<and> stored_log st' i = Some b \<and> \<not> (delay d \<le> now \<and> (\<forall>q m. \<exists>q'. send q m = Sent q'))
       \<or> filter (\<lambda>m. msg_id m = i) new = [dm_message d] \<and> stored_log st' i = None \<and> delay d \<le> now)"
proof -
  have in_memory: "vtable st = in_memory_provider" "im_inv (database st)" and ok: "logback_ns_ok parse (im_contents (database st) LOGBACK_NS)"
    using assms(1) by simp_all
  obtain delivered q2 st2 where out: "fetch_internal_logs parse send now q st = (Inr (), q2, st2)" "sent q2 = sent q @ map dm_message delivered"
      "sorted (map delay delivered)" "set delivered \<subseteq> {d \<in> stored_logs parse (im_contents (database st) LOGBACK_NS). delay d \<le> now}"
      "im_contents (database st2) = (im_contents (database st))(LOGBACK_NS := (\<lambda>k. if k \<in> delayed_id ` set delivered then None else stored_log st k))"
      "(\<forall>q m. \<exists>q'. send q m = Sent q') \<Longrightarrow> set delivered = {d \<in> stored_logs parse (im_contents (database st) LOGBACK_NS). delay d \<le> now}"
      "vtable st2 = in_memory_provider" "im_inv (database st2)"
      "logback_ns_ok parse (im_contents (database st) LOGBACK_NS) \<Longrightarrow> distinct (map delayed_id delivered)"
    using in_memory assms(2) by (rule fetch_internal_logs_in_memory [of st send sent parse now q]) blast
  note dist = out(9) [OF ok]
  have same: "q' = q2" "st' = st2" using assms(3) out(1) by simp_all
  show "delayed_ok parse st'" using ok by (auto simp: same out(5,7,8) logback_ns_ok_def)
  have mine: "filter (\<lambda>m. msg_id m = i) (map dm_message delivered) = map dm_message (filter (\<lambda>d. delayed_id d = i) delivered)"
    by (simp add: filter_map comp_def)
  have from_store: "stored_log st (delayed_id d) \<noteq> None" if "d \<in> set delivered" for d
    using that out(4) ok by (force simp: stored_logs_def logback_ns_ok_def)
  have none: "filter (\<lambda>d. delayed_id d = i) delivered = [] \<and> stored_log st' i = stored_log st i" if "i \<notin> delayed_id ` set delivered"
    using that by (auto simp: same out(5) filter_empty_conv)
  have "filter (\<lambda>m. msg_id m = i) (map dm_message delivered) = [] \<and> stored_log st' i = Some b \<and> \<not> (delay d \<le> now \<and> (\<forall>q m. \<exists>q'. send q m = Sent q'))
      \<or> filter (\<lambda>m. msg_id m = i) (map dm_message delivered) = [dm_message d] \<and> stored_log st' i = None \<and> delay d \<le> now"
    if b: "stored_log st i = Some b" "delayed_from_slice parse b = Some d" for b d
  proof (cases "i \<in> delayed_id ` set delivered")
    case True
    then obtain e where e: "e \<in> set delivered" "delayed_id e = i" by auto
    then have "e = d" "delay d \<le> now" using out(4) b ok by (fastforce simp: stored_logs_def logback_ns_ok_def)+
    then show ?thesis using filter_unique [OF dist e(1)] e True by (auto simp: mine same out(5))
  next
    case False
    moreover have "\<not> (delay d \<le> now \<and> (\<forall>q m. \<exists>q'. send q m = Sent q'))"
    proof
      assume "delay d \<le> now \<and> (\<forall>q m. \<exists>q'. send q m = Sent q')"
      then have "d \<in> set delivered" using out(6) b by (auto simp: stored_logs_def)
      then show False using False ok b by (force simp: logback_ns_ok_def)
    qed
    ultimately show ?thesis using none b(1) by (simp add: mine)
  qed
  moreover have "i \<notin> delayed_id ` set delivered" if "stored_log st i = None" using from_store that by fastforce
  ultimately show "\<exists>new. sent q' = sent q @ new
    \<and> (stored_log st i = None \<longrightarrow> filter (\<lambda>m. msg_id m = i) new = [] \<and> stored_log st' i = None)
    \<and> (\<forall>b d. stored_log st i = Some b \<longrightarrow> delayed_from_slice parse b = Some d \<longrightarrow>
         filter (\<lambda>m. msg_id m = i) new = [] \<and> stored_log st' i = Some b \<and> \<not> (delay d \<le> now \<and> (\<forall>q m. \<exists>q'. send q m = Sent q'))
       \<or> filter (\<lambda>m. msg_id m = i) new = [dm_message d] \<and> stored_log st' i = None \<and> delay d \<le> now)"
    using none by (intro exI [of _ "map dm_message delivered"]) (simp add: mine same(1) out(2))
qed

lemma persist_step:
  assumes "delayed_ok parse st" and "codec_ok to_vec parse"
  shows "delayed_ok parse (persist_delayed_log to_vec t st log)"
    and "i \<noteq> delayed_id log \<Longrightarrow> stored_log (persist_delayed_log to_vec t st log) i = stored_log st i"
proof -
  have "delayed_ok parse (persist_delayed_log to_vec t st log)
      \<and> (i \<noteq> delayed_id log \<longrightarrow> stored_log (persist_delayed_log to_vec t st log) i = stored_log st i)"
  proof (cases "to_vec (log\<lparr>delay := delay log + t\<rparr>)")
    case None
    then show ?thesis using assms(1) by (simp add: persist_delayed_log_def)
  next
    case (Some b)
    have "delayed_id d = delayed_id log" if "delayed_from_slice parse b = Some d" for d
      using that assms(2) Some by (auto simp: delayed_from_slice_def codec_ok_def create_duplicate_def split: option.splits if_splits)
    moreover note persist_delayed_log_contents [of st to_vec log t b, OF _ _ Some]
    ultimately show ?thesis using assms(1) by (auto simp: logback_ns_ok_def)
  qed
  then show "delayed_ok parse (persist_delayed_log to_vec t st log)"
    and "i \<noteq> delayed_id log \<Longrightarrow> stored_log (persist_delayed_log to_vec t st log) i = stored_log st i" by simp_all
qed

lemma delayed_run_done:
  assumes "codec_ok to_vec parse" and "\<forall>q m q'. send q m = Sent q' \<longrightarrow> sent q' = sent q @ [m]"
  shows "delayed_ok parse st \<Longrightarrow> stored_log st i = None \<Longrightarrow> \<forall>log t. PersistLog log t \<in> set es \<longrightarrow> delayed_id log \<noteq> i \<Longrightarrow>
    delayed_run to_vec parse send es (q, st) = (q', st') \<Longrightarrow>
    \<exists>new. sent q' = sent q @ new \<and> filter (\<lambda>m. msg_id m = i) new = [] \<and> stored_log st' i = None"
proof (induction es arbitrary: q st)
  case (Cons e es)
  show ?case
  proof (cases e)
    case (PersistLog log t)
    have "i \<noteq> delayed_id log" using Cons.prems(3) PersistLog by auto
    then show ?thesis
      using persist_step(1) [OF Cons.prems(1) assms(1), of t log] persist_step(2) [OF Cons.prems(1) assms(1), of i log t] Cons.IH [of "persist_delayed_log to_vec t st log" q] Cons.prems PersistLog by auto
  next
    case (PollLogs now)
    obtain q1 st1 where poll: "snd (fetch_internal_logs parse send now q st) = (q1, st1)" by force
    obtain new where "sent q1 = sent q @ new" "filter (\<lambda>m. msg_id m = i) new = []" "stored_log st1 i = None"
      using poll_step(2) [OF Cons.prems(1) assms(2) poll, of i] Cons.prems(2) by blast
    moreover have "\<exists>new. sent q' = sent q1 @ new \<and> filter (\<lambda>m. msg_id m = i) new = [] \<and> stored_log st' i = None"
      using Cons.IH [OF poll_step(1) [OF Cons.prems(1) assms(2) poll], of q1] calculation(3) Cons.prems(3,4) PollLogs poll by simp
    ultimately show ?thesis by auto
  qed
qed simp

lemma delayed_run_pending:
  assumes "codec_ok to_vec parse" and "\<forall>q m q'. send q m = Sent q' \<longrightarrow> sent q' = sent q @ [m]" and "delayed_from_slice parse b = Some d"
  shows "delayed_ok parse st \<Longrightarrow> stored_log st i = Some b \<Longrightarrow> \<forall>log t. PersistLog log t \<in> set es \<longrightarrow> delayed_id log \<noteq> i \<Longrightarrow>
    delayed_run to_vec parse send es (q, st) = (q', st') \<Longrightarrow>
    \<exists>new. sent q' = sent q @ new
      \<and> (if filter (\<lambda>m. msg_id m = i) new = []
         then stored_log st' i = Some b \<and> \<not> ((\<forall>q m. \<exists>q'. send q m = Sent q') \<and> (\<exists>now. PollLogs now \<in> set es \<and> delay d \<le> now))
         else filter (\<lambda>m. msg_id m = i) new = [dm_message d] \<and> stored_log st' i = None \<and> (\<exists>now. PollLogs now \<in> set es \<and> delay d \<le> now))"
proof (induction es arbitrary: q st)
  case (Cons e es)
  have others: "\<forall>log t. PersistLog log t \<in> set es \<longrightarrow> delayed_id log \<noteq> i" using Cons.prems(3) by simp
  show ?case
  proof (cases e)
    case (PersistLog log t)
    have "i \<noteq> delayed_id log" using Cons.prems(3) PersistLog by auto
    then show ?thesis
      using persist_step(1) [OF Cons.prems(1) assms(1), of t log] persist_step(2) [OF Cons.prems(1) assms(1), of i log t] Cons.IH [OF _ _ others, of "persist_delayed_log to_vec t st log" q] Cons.prems PersistLog
      by auto
  next
    case (PollLogs now)
    obtain q1 st1 where poll: "snd (fetch_internal_logs parse send now q st) = (q1, st1)" by force
    note ok = poll_step(1) [OF Cons.prems(1) assms(2) poll]
    have run: "delayed_run to_vec parse send es (q1, st1) = (q', st')" using Cons.prems(4) PollLogs poll by simp
    obtain new where new: "sent q1 = sent q @ new"
        "filter (\<lambda>m. msg_id m = i) new = [] \<and> stored_log st1 i = Some b \<and> \<not> (delay d \<le> now \<and> (\<forall>q m. \<exists>q'. send q m = Sent q'))
         \<or> filter (\<lambda>m. msg_id m = i) new = [dm_message d] \<and> stored_log st1 i = None \<and> delay d \<le> now"
      using poll_step(2) [OF Cons.prems(1) assms(2) poll, of i] Cons.prems(2) assms(3) by blast
    from new(2) show ?thesis
    proof (elim disjE conjE)
      assume pending: "filter (\<lambda>m. msg_id m = i) new = []" "stored_log st1 i = Some b" "\<not> (delay d \<le> now \<and> (\<forall>q m. \<exists>q'. send q m = Sent q'))"
      from Cons.IH [OF ok pending(2) others run] obtain new' where "sent q' = sent q1 @ new'"
          "if filter (\<lambda>m. msg_id m = i) new' = []
           then stored_log st' i = Some b \<and> \<not> ((\<forall>q m. \<exists>q'. send q m = Sent q') \<and> (\<exists>now. PollLogs now \<in> set es \<and> delay d \<le> now))
           else filter (\<lambda>m. msg_id m = i) new' = [dm_message d] \<and> stored_log st' i = None \<and> (\<exists>now. PollLogs now \<in> set es \<and> delay d \<le> now)" by blast
      then show ?thesis using new(1) pending PollLogs by (intro exI [of _ "new @ new'"]) (auto split: if_splits)
    next
      assume sent_now: "filter (\<lambda>m. msg_id m = i) new = [dm_message d]" "stored_log st1 i = None" "delay d \<le> now"
      from delayed_run_done [OF assms(1,2) ok sent_now(2) others run] obtain new' where "sent q' = sent q1 @ new'"
          "filter (\<lambda>m. msg_id m = i) new' = []" "stored_log st' i = None" by blast
      then show ?thesis using new(1) sent_now PollLogs by (intro exI [of _ "new @ new'"]) auto
    qed
  qed
qed simp

text \<open>
  C10. Delayed logbacks, on the in-memory backend, for a message within the limits on its data, headers and query parameters.
  Whatever happens after the message was persisted at time \<open>t\<close> (polls at any times, with a queue that may be full or closed,
  and other messages, with other identifiers, being persisted), it has either been sent exactly once, with its type, data,
  source and budget, at some poll at or after \<open>t\<close> plus its delay (a 64-bit sum), and is then removed; or it has not been sent
  and is still stored as it was. It has been sent if there was such a poll and the queue refuses nothing.
\<close>

theorem delayed_logback_roundtrip:
  assumes "vtable st = in_memory_provider" and "im_inv (database st)" and "logback_ns_ok parse (im_contents (database st) LOGBACK_NS)"
    and "\<forall>q m q'. send q m = Sent q' \<longrightarrow> sent q' = sent q @ [m]" and "codec_ok to_vec parse"
    and "to_vec (log\<lparr>delay := delay log + t\<rparr>) = Some b" and "message_within_limits (dm_message log)"
    and "\<forall>log' t'. PersistLog log' t' \<in> set es \<longrightarrow> msg_id (dm_message log') \<noteq> msg_id (dm_message log)"
    and "delayed_run to_vec parse send es (q, persist_delayed_log to_vec t st log) = (q', st')"
  shows "\<exists>new. sent q' = sent q @ new
    \<and> (if filter (\<lambda>m. msg_id m = msg_id (dm_message log)) new = []
       then im_contents (database st') LOGBACK_NS (msg_id (dm_message log)) = Some b
         \<and> \<not> ((\<forall>q m. \<exists>q'. send q m = Sent q') \<and> (\<exists>now. PollLogs now \<in> set es \<and> delay log + t \<le> now))
       else filter (\<lambda>m. msg_id m = msg_id (dm_message log)) new = [create_duplicate (dm_message log)]
         \<and> im_contents (database st') LOGBACK_NS (msg_id (dm_message log)) = None
         \<and> (\<exists>now. PollLogs now \<in> set es \<and> delay log + t \<le> now))"
proof -
  let ?d = "\<lparr>delay = delay log + t, dm_message = create_duplicate (dm_message log)\<rparr>"
  have dec: "delayed_from_slice parse b = Some ?d"
    using assms(5-7) by (simp add: codec_ok_def delayed_from_slice_def message_within_limits_def create_duplicate_def)
  have stored: "stored_log (persist_delayed_log to_vec t st log) (delayed_id log) = Some b"
    by (simp add: persist_delayed_log_contents [of st to_vec log t b, OF assms(1,2,6)])
  have ok: "delayed_ok parse (persist_delayed_log to_vec t st log)" using assms(1-3) by (intro persist_step(1) [OF _ assms(5)]) simp
  show ?thesis using delayed_run_pending [OF assms(5,4) dec ok stored assms(8,9)] unfolding delayed_message.select_convs .
qed

theorem delayed_logback_roundtrip_witness:
  "let q' = fst (delayed_run (one_to_vec 3) (one_parse 3) (\<lambda>q m. Sent (q @ [m])) [PollLogs 104, PollLogs 105, PollLogs 106]
       ([], persist_delayed_log (one_to_vec 3) 100 storage_new_in_memory (sample_delayed 3)))
   in filter (\<lambda>m. msg_id m = ''u1'') q' = [dm_message (sample_delayed 3)]"
proof -
  let ?es = "[PollLogs 104, PollLogs 105, PollLogs 106]" and ?send = "\<lambda>q m. Sent (q @ [m])"
  let ?run = "delayed_run (one_to_vec 3) (one_parse 3) ?send ?es
       ([], persist_delayed_log (one_to_vec 3) 100 storage_new_in_memory (sample_delayed 3))"
  obtain q' st' where run: "?run = (q', st')" by force
  have lim: "message_within_limits (dm_message (sample_delayed 3))"
    by (rule sample_delayed_facts(6)) (simp add: MAX_BYTES_def)
  have snd: "\<forall>q m q'. ?send q m = Sent q' \<longrightarrow> q' = q @ [m]" by simp
  have "delay (sample_delayed 3) + 100 \<le> 105" by (simp add: sample_delayed_def)
  moreover have "PollLogs 105 \<in> set ?es" by simp
  ultimately have due: "\<exists>now. PollLogs now \<in> set ?es \<and> delay (sample_delayed 3) + 100 \<le> now" by blast
  note roundtrip = delayed_logback_roundtrip [where sent = "\<lambda>q. q", OF empty_storage_facts snd sample_delayed_facts(1,2) lim _ run,
      unfolded sample_delayed_facts(3,5)]
  have "filter (\<lambda>m. msg_id m = ''u1'') q' = [dm_message (sample_delayed 3)]"
    using roundtrip due by (auto split: if_splits)
  then show ?thesis by (simp only: run fst_conv Let_def)
qed

text \<open>
  The limits on a message (5 MiB of data, 20 headers) are enforced when a delayed logback is
  read back, not when it is persisted: one whose data is too large is stored, and no poll, at any
  time, ever delivers or removes it.
\<close>

theorem oversized_delayed_logback_stuck:
  assumes "vtable st = in_memory_provider" and "im_inv (database st)"
    and "\<forall>q m. send q m = Sent (q @ [m])" and "codec_ok to_vec parse"
    and "logback_ns_ok parse (im_contents (database st) LOGBACK_NS)"
    and "to_vec (log\<lparr>delay := delay log + t\<rparr>) = Some b" and "length (msg_data (dm_message log)) > MAX_BYTES"
    and "fetch_internal_logs parse send now q (persist_delayed_log to_vec t st log) = (r, q', st')"
  shows "\<exists>new. q' = q @ new \<and> (\<forall>m \<in> set new. msg_id m \<noteq> msg_id (dm_message log))
    \<and> im_contents (database st') LOGBACK_NS (msg_id (dm_message log)) = Some b"
proof -
  let ?st = "persist_delayed_log to_vec t st log" and ?id = "msg_id (dm_message log)"
  note p = persist_delayed_log_contents [OF assms(1,2), of to_vec log t b, OF assms(6)]
  have dec: "delayed_from_slice parse b = None"
    using assms(4,6,7) by (simp add: codec_ok_def delayed_from_slice_def vec_max_def create_duplicate_def)
  have none: "msg_id (dm_message d) \<noteq> ?id" if "d \<in> stored_logs parse (im_contents (database ?st) LOGBACK_NS)" for d
    using that assms(5) dec by (fastforce simp: stored_logs_def p(3) logback_ns_ok_def split: if_splits)
  have snd: "\<forall>q m q'. send q m = Sent q' \<longrightarrow> q' = q @ [m]" using assms(3) by simp
  obtain delivered q2 st2 where out: "fetch_internal_logs parse send now q ?st = (Inr (), q2, st2)"
    "q2 = q @ map dm_message delivered" "sorted (map delay delivered)"
    "set delivered \<subseteq> {d \<in> stored_logs parse (im_contents (database ?st) LOGBACK_NS). delay d \<le> now}"
    "im_contents (database st2) = (im_contents (database ?st))(LOGBACK_NS :=
           (\<lambda>k. if k \<in> (\<lambda>d. msg_id (dm_message d)) ` set delivered then None
                else im_contents (database ?st) LOGBACK_NS k))"
    "(\<forall>q m. \<exists>q'. send q m = Sent q') \<Longrightarrow>
           set delivered = {d \<in> stored_logs parse (im_contents (database ?st) LOGBACK_NS). delay d \<le> now}"
    using p(1,2) snd by (rule fetch_internal_logs_in_memory [of ?st send "\<lambda>q. q" parse now q]) blast
  have "q' = q2" "st' = st2" using out(1) assms(8) by simp_all
  note d = out(2) [folded this(1)] out(5) [folded this(2)] out(4)
  have "\<forall>d \<in> set delivered. msg_id (dm_message d) \<noteq> ?id" using none d(3) by blast
  moreover from this have "?id \<notin> (\<lambda>d. msg_id (dm_message d)) ` set delivered" by auto
  ultimately show ?thesis using d(1) by (simp add: d(2) p(3))
qed

theorem oversized_delayed_logback_stuck_witness:
  "\<exists>st'. snd (snd (fetch_internal_logs (one_parse (MAX_BYTES + 1)) (\<lambda>q m. Sent (q @ [m])) 1000 []
       (persist_delayed_log (one_to_vec (MAX_BYTES + 1)) 100 storage_new_in_memory (sample_delayed (MAX_BYTES + 1))))) = st'
     \<and> im_contents (database st') LOGBACK_NS ''u1'' = Some [1]"
proof -
  let ?n = "MAX_BYTES + 1"
  let ?f = "fetch_internal_logs (one_parse ?n) (\<lambda>q m. Sent (q @ [m])) 1000 []
       (persist_delayed_log (one_to_vec ?n) 100 storage_new_in_memory (sample_delayed ?n))"
  obtain r q' st' where f: "?f = (r, q', st')" by (cases ?f) auto
  have big: "length (msg_data (dm_message (sample_delayed ?n))) > MAX_BYTES"
    by (simp only: sample_delayed_facts(4) less_add_one)
  from oversized_delayed_logback_stuck [OF empty_storage_facts(1,2) _ sample_delayed_facts(1) empty_storage_facts(3)
      sample_delayed_facts(2) big f]
  have "im_contents (database st') LOGBACK_NS ''u1'' = Some [1]" by (auto simp only: sample_delayed_facts(3))
  then show ?thesis by (simp only: f snd_conv) blast
qed

end
