(* ===== verification/Plaid_Text.thy ===== *)
theory Plaid_Text
  imports Plaid_Prelude
begin

text \<open>
  What the program uses of Rust's standard library on text: UTF-8 validation
  (\<^verbatim>\<open>String::from_utf8\<close>), decimal notation (\<^verbatim>\<open>to_string\<close>, \<^verbatim>\<open>str::parse\<close>), and splitting, trimming and
  searching strings. As everywhere, a string is the list of its bytes.
\<close>

subsection \<open>UTF-8\<close>

definition utf8_cont :: "u8 \<Rightarrow> bool" where
  "utf8_cont b \<longleftrightarrow> 0x80 \<le> b \<and> b \<le> 0xBF"

text \<open>
  A sequence of up to four bytes starts with a byte that tells its length; the second byte of some
  sequences is restricted, which rules out overlong forms, surrogates, and code points above U+10FFFF.
\<close>

fun utf8_valid :: "bytes \<Rightarrow> bool" where
  "utf8_valid [] = True"
| "utf8_valid (b # bs) =
     (if b < 0x80 then utf8_valid bs
      else if 0xC2 \<le> b \<and> b \<le> 0xDF then
        (case bs of c1 # r \<Rightarrow> utf8_cont c1 \<and> utf8_valid r | _ \<Rightarrow> False)
      else if 0xE0 \<le> b \<and> b \<le> 0xEF then
        (case bs of
           c1 # c2 # r \<Rightarrow> utf8_cont c1 \<and> (b = 0xE0 \<longrightarrow> 0xA0 \<le> c1) \<and> (b = 0xED \<longrightarrow> c1 \<le> 0x9F)
             \<and> utf8_cont c2 \<and> utf8_valid r
         | _ \<Rightarrow> False)
      else if 0xF0 \<le> b \<and> b \<le> 0xF4 then
        (case bs of
           c1 # c2 # c3 # r \<Rightarrow> utf8_cont c1 \<and> (b = 0xF0 \<longrightarrow> 0x90 \<le> c1) \<and> (b = 0xF4 \<longrightarrow> c1 \<le> 0x8F)
             \<and> utf8_cont c2 \<and> utf8_cont c3 \<and> utf8_valid r
         | _ \<Rightarrow> False)
      else False)"

definition from_utf8 :: "bytes \<Rightarrow> string option" where
  "from_utf8 b = (if utf8_valid b then Some (map (\<lambda>x. char_of (unat x)) b) else None)"

lemma char_of_as_bytes: "map (\<lambda>x. char_of (unat x)) (as_bytes s) = s"
proof -
  have "char_of (unat (of_char c :: u8)) = c" for c
  proof -
    have "(of_char c :: u8) = word_of_nat (of_char c)" by (simp only: of_nat_of_char)
    moreover have "(of_char c :: nat) < 256" by simp
    ultimately have "unat (of_char c :: u8) = of_char c" by (simp add: unat_of_nat)
    then show ?thesis by simp
  qed
  then show ?thesis by (induction s) (simp_all add: as_bytes_def)
qed

lemma from_utf8_as_bytes: "utf8_valid (as_bytes s) \<Longrightarrow> from_utf8 (as_bytes s) = Some s"
  by (simp add: from_utf8_def char_of_as_bytes)

lemma utf8_valid_ascii: "list_all (\<lambda>b. b < 0x80) bs \<Longrightarrow> utf8_valid bs"
  by (induction bs) simp_all

subsection \<open>Decimal numbers\<close>

definition digit_char :: "nat \<Rightarrow> char" where
  "digit_char d = char_of (48 + d)"

fun decimal :: "nat \<Rightarrow> string" where
  "decimal n = (if n < 10 then [digit_char n] else decimal (n div 10) @ [digit_char (n mod 10)])"

declare decimal.simps [simp del]

definition is_digit :: "char \<Rightarrow> bool" where
  "is_digit c \<longleftrightarrow> 48 \<le> (of_char c :: nat) \<and> (of_char c :: nat) \<le> 57"

definition digit_val :: "char \<Rightarrow> nat" where
  "digit_val c = of_char c - 48"

definition parse_nat :: "string \<Rightarrow> nat option" where
  "parse_nat s = (if s \<noteq> [] \<and> list_all is_digit s then Some (foldl (\<lambda>a c. 10 * a + digit_val c) 0 s) else None)"

definition show_int :: "int \<Rightarrow> string" where
  "show_int i = (if i < 0 then CHR ''-'' # decimal (nat (- i)) else decimal (nat i))"

text \<open>\<^verbatim>\<open>parse::<i128>()\<close>: an optional sign and digits, in range.\<close>

definition parse_i128 :: "string \<Rightarrow> int option" where
  "parse_i128 s =
     (case (case s of
              [] \<Rightarrow> None
            | c # r \<Rightarrow>
                if c = CHR ''-'' then map_option (\<lambda>n. - int n) (parse_nat r)
                else if c = CHR ''+'' then map_option int (parse_nat r)
                else map_option int (parse_nat s)) of
        None \<Rightarrow> None
      | Some i \<Rightarrow> if - (2 ^ 127) \<le> i \<and> i < 2 ^ 127 then Some i else None)"

lemma digit_char: "d < 10 \<Longrightarrow> is_digit (digit_char d) \<and> digit_val (digit_char d) = d"
  by (simp add: is_digit_def digit_val_def digit_char_def)

lemma decimal_digits: "list_all is_digit (decimal n) \<and> decimal n \<noteq> []"
proof (induction n rule: decimal.induct)
  case (1 n)
  then show ?case by (subst (1 2) decimal.simps) (simp add: digit_char)
qed

lemma decimal_value: "foldl (\<lambda>a c. 10 * a + digit_val c) 0 (decimal n) = n"
  by (induction n rule: decimal.induct) (subst decimal.simps, auto simp: digit_char)

lemma parse_decimal [simp]: "parse_nat (decimal n) = Some n"
  by (simp add: parse_nat_def decimal_digits decimal_value)

lemma digit_not_sign: "is_digit c \<Longrightarrow> c \<noteq> CHR ''-'' \<and> c \<noteq> CHR ''+''"
  by (auto simp: is_digit_def)

lemma parse_show_int:
  assumes "- (2 ^ 127) \<le> i" and "i < 2 ^ 127"
  shows "parse_i128 (show_int i) = Some i"
proof (cases "i < 0")
  case True
  then show ?thesis using assms by (simp add: parse_i128_def show_int_def)
next
  case False
  obtain c r where cr: "decimal (nat i) = c # r" using decimal_digits [of "nat i"] by (cases "decimal (nat i)") auto
  then have "c \<noteq> CHR ''-''" "c \<noteq> CHR ''+''" using decimal_digits [of "nat i"] digit_not_sign [of c] by auto
  moreover have "parse_nat (c # r) = Some (nat i)" by (simp flip: cr)
  ultimately show ?thesis using False assms by (simp add: parse_i128_def show_int_def cr)
qed

lemma show_int_ascii: "list_all (\<lambda>b. b < 0x80) (as_bytes (show_int i))"
proof -
  have "(of_char c :: u8) < 0x80" if "is_digit c \<or> c = CHR ''-''" for c
  proof -
    have "(of_char c :: nat) < 128" using that by (auto simp: is_digit_def)
    then have "(word_of_nat (of_char c) :: u8) < 0x80"
      by (simp add: word_less_nat_alt unat_of_nat)
    then show ?thesis by (simp only: of_nat_of_char)
  qed
  moreover have "list_all (\<lambda>c. is_digit c \<or> c = CHR ''-'') (show_int i)"
    using decimal_digits by (auto simp: show_int_def list_all_iff)
  ultimately show ?thesis by (auto simp: as_bytes_def list_all_iff)
qed

lemma from_utf8_show_int [simp]: "from_utf8 (as_bytes (show_int i)) = Some (show_int i)"
  by (intro from_utf8_as_bytes utf8_valid_ascii show_int_ascii)

subsection \<open>Splitting, trimming, searching\<close>

definition is_space :: "char \<Rightarrow> bool" where
  "is_space c \<longleftrightarrow> c = CHR '' '' \<or> c = CHR 0x09 \<or> c = CHR 0x0A \<or> c = CHR 0x0B \<or> c = CHR 0x0C \<or> c = CHR 0x0D"

definition trim :: "string \<Rightarrow> string" where
  "trim s = rev (dropWhile is_space (rev (dropWhile is_space s)))"

fun split_on :: "char \<Rightarrow> string \<Rightarrow> string list" where
  "split_on c [] = [[]]"
| "split_on c (x # xs) =
     (if x = c then [] # split_on c xs
      else case split_on c xs of p # ps \<Rightarrow> (x # p) # ps | [] \<Rightarrow> [[x]])"

fun find_char :: "char \<Rightarrow> string \<Rightarrow> nat option" where
  "find_char c [] = None"
| "find_char c (x # xs) = (if x = c then Some 0 else map_option Suc (find_char c xs))"

lemma find_char_append: "c \<notin> set xs \<Longrightarrow> find_char c (xs @ c # ys) = Some (length xs)"
  by (induction xs) auto

lemma split_on_no_sep: "c \<notin> set xs \<Longrightarrow> split_on c xs = [xs]"
  by (induction xs) auto

lemma split_on_append: "c \<notin> set xs \<Longrightarrow> split_on c (xs @ c # ys) = xs # split_on c ys"
  by (induction xs) auto

lemma trim_id: "s \<noteq> [] \<Longrightarrow> \<not> is_space (hd s) \<Longrightarrow> \<not> is_space (last s) \<Longrightarrow> trim s = s"
proof -
  have drop: "dropWhile is_space xs = xs" if "xs \<noteq> []" "\<not> is_space (hd xs)" for xs
    using that by (cases xs) simp_all
  assume s: "s \<noteq> []" "\<not> is_space (hd s)" "\<not> is_space (last s)"
  then have "dropWhile is_space (rev s) = rev s" by (intro drop) (simp_all add: hd_rev)
  then show "trim s = s" using drop [OF s(1,2)] by (simp add: trim_def)
qed

end
