(* ===== verification/Plaid_Api_Base.thy ===== *)
theory Plaid_Api_Base
  imports Plaid_Text
begin

text \<open>
  What the services behind the host functions share (\<^verbatim>\<open>runtime/plaid/src/apis\<close>): the errors of
  \<^verbatim>\<open>apis/mod.rs\<close> and of every service, JSON values, calls that act on an outside world and may fail, a
  small Hoare logic for what such calls may do to that world, templates of request addresses, and what
  is used of the crate \<^verbatim>\<open>regex\<close>. Errors of third-party crates are strings.
\<close>

named_theorems does_intros and fills_intros

subsection \<open>JSON values\<close>

text \<open>A floating-point number is the bits of an \<^verbatim>\<open>f64\<close>.\<close>

datatype json =
    JNull
  | JBool bool
  | JInt int
  | JFloat u64
  | JString string
  | JArray "json list"
  | JObject "(string \<times> json) list"

definition j_opt :: "('a \<Rightarrow> json) \<Rightarrow> 'a option \<Rightarrow> json" where
  "j_opt f x = (case x of None \<Rightarrow> JNull | Some y \<Rightarrow> f y)"

definition j_strings :: "string list \<Rightarrow> json" where
  "j_strings xs = JArray (map JString xs)"

text \<open>\<^verbatim>\<open>value["key"] = x\<close> on an object, and \<^verbatim>\<open>value.get("key")\<close>.\<close>

definition json_set :: "string \<Rightarrow> json \<Rightarrow> json \<Rightarrow> json" where
  "json_set k x v = (case v of JObject m \<Rightarrow> JObject (hm_insert k x m) | _ \<Rightarrow> v)"

definition json_get :: "string \<Rightarrow> json \<Rightarrow> json option" where
  "json_get k v = (case v of JObject m \<Rightarrow> hm_get m k | _ \<Rightarrow> None)"

definition json_as_str :: "json \<Rightarrow> string option" where
  "json_as_str v = (case v of JString s \<Rightarrow> Some s | _ \<Rightarrow> None)"

definition json_as_u64 :: "json \<Rightarrow> u64 option" where
  "json_as_u64 v = (case v of JInt i \<Rightarrow> if 0 \<le> i \<and> i < 2 ^ 64 then Some (word_of_int i) else None | _ \<Rightarrow> None)"

subsection \<open>Errors\<close>

datatype github_error =
    GraphQLUnserializable
  | GraphQLQueryUnknown string
  | GraphQLInvalidCharacters string
  | GhUnexpectedStatusCode u16
  | GraphQLRequestError string
  | GhClientError string
  | GhInvalidInput string
  | GhBadResponse

datatype okta_error =
    OktaBadData
  | OktaUnexpectedStatusCode u16
  | AuthenticationFailure string
  | JwtSignatureFailure
  | BadJsonResponse

datatype pagerduty_error =
    PdNetworkError string
  | PdUnexpectedStatusCode u16
  | PdUnexpectedPayload

datatype rustica_error =
    UnserializableCertificate string
  | UnknownEnvironment string

datatype slack_error =
    UnknownHook string
  | UnknownBot string
  | SlackUnexpectedStatusCode u16
  | SlackUnexpectedPayload string

datatype splunk_error =
    UnknownHec string
  | SplunkUnexpectedStatusCode u16

datatype yubikey_error =
    RandError
  | YkNetworkError
  | NoStatus
  | NoData
  | YkBadData
  | NoSignature
  | BadSignature
  | NoSuchClient
  | YkOperationNotAllowed
  | YkMissingParameter
  | NotEnoughAnswers
  | MissingNonce
  | NonceMismatch
  | SignatureMismatch
  | YkOther string

datatype web_error =
    ModuleUnauthorizedToUseKey string
  | FailedToEncodeJwt string
  | UnsupportedHeaderField string
  | WebBadRequest string
  | UnsupportedField string
  | UnsupportedKeyType string
  | FailedToParsePrivateKey string
  | EnforcedClaimsConflict string

datatype blockchain_error =
    ChainSerdeError
  | ChainNetworkError string
  | CallFailed u16 string
  | NoNodes string
  | AllNodesFailed
  | ChainSpecificError string

datatype jira_error =
    JiraUnexpectedStatusCode u16
  | JiraNetworkError string
  | InvalidResponse
  | JiraInvalidInput string

datatype s3_error =
    TooManyTagsProvided
  | BuildError string
  | TagObjectError string
  | PutObjectError string
  | GetObjectError string
  | ListObjectsError string
  | DeleteObjectError string
  | ListObjectVersionsError string
  | GetObjectAttributesError string
  | BytesStreamError string
  | PresignError string
  | NoContentLengthReturned
  | ObjectTooLarge

datatype kms_error =
    KmsSignError string
  | KmsGetPublicKeyError string
  | GenerateMacError string
  | VerifyMacError string
  | NoMacReturned
  | GetKeyPolicyError string
  | MissingPolicy

datatype google_docs_error =
    DocsReqwest string
  | MissingField string
  | OAuth string
  | GoogleApi string
  | DocsBadRequest

datatype bigquery_error =
    BqAuth string
  | BqClient string
  | BqQueryError string
  | BqIterError string
  | BqRowError string
  | BqResponseTooLarge
  | InvalidIdentifier string
  | NoColumnsProvided
  | InvalidColumnCombination string
  | InvalidFilter string
  | ModuleNotPermitted

datatype npm_error =
    NpmInvalidInput string
  | RegistryUploadError
  | FailedToGenerateArchive
  | PermissionChangeError
  | NpmGenericError
  | LoginFlowError
  | WrongClientStatus
  | TokenGenerationError string
  | TokenDeletionError
  | WrongConfig string
  | FailedToListGranularTokens
  | FailedToDeletePackage
  | FailedToAddUserToTeam
  | FailedToRemoveUserFromTeam
  | FailedToRemoveUserFromOrg
  | FailedToInviteUserToOrg
  | FailedToRetrieveUserList
  | FailedToRetrieveUsersWithout2FA
  | FailedToConvertToNpmUser
  | FailedToGetCsrfTokenFromCookies
  | FailedToRetrievePaginatedData
  | FailedToRetrievePackages
  | FailedToGetTokenDetails
  | NpmUnexpectedStatusCode u16
  | ThrottlingError "u32 option"
  | NpmUnknownError

datatype api_error =
    CryptographyError string
  | BadRequest
  | ImpossibleError
  | ConfigurationError string
  | MissingParameter string
  | GitHubError github_error
  | SerdeError string
  | DynamoDbPutItemError string
  | DynamoDbDeleteItemError string
  | DynamoDbQueryError string
  | ApiKmsSignError string
  | ApiKmsGetPublicKeyError string
  | S3Error s3_error
  | GoogleDocsError google_docs_error
  | BigQueryError bigquery_error
  | KmsError kms_error
  | NetworkError string
  | NpmError npm_error
  | OktaError okta_error
  | PagerDutyError pagerduty_error
  | RusticaError rustica_error
  | SlackError slack_error
  | SplunkError splunk_error
  | YubikeyError yubikey_error
  | WebError web_error
  | BlockchainError blockchain_error
  | ApiTestMode
  | JiraError jira_error
  | NetworkResponseTooLarge
  | TlsError string
  | BloomFilterError string
  | CouldNotInstatiateRuntime string

subsection \<open>Calls\<close>

text \<open>
  A call returns an error or a value and changes the outside world. \<open>and_then\<close> is the operator \<^verbatim>\<open>?\<close>: it goes on
  with the value and returns an error at once. \<open>lift\<close> is a computation that does not touch the world.
\<close>

type_synonym ('w, 'a) api_call = "'w \<Rightarrow> (api_error + 'a) \<times> 'w"

definition lift :: "api_error + 'a \<Rightarrow> ('w, 'a) api_call" where
  "lift r w = (r, w)"

definition ok :: "'a \<Rightarrow> ('w, 'a) api_call" where
  "ok x = lift (Inr x)"

definition err :: "api_error \<Rightarrow> ('w, 'a) api_call" where
  "err e = lift (Inl e)"

definition and_then :: "('w, 'a) api_call \<Rightarrow> ('a \<Rightarrow> ('w, 'b) api_call) \<Rightarrow> ('w, 'b) api_call" where
  "and_then m f w = (case m w of (Inl e, w') \<Rightarrow> (Inl e, w') | (Inr x, w') \<Rightarrow> f x w')"

definition ok_or :: "api_error \<Rightarrow> 'a option \<Rightarrow> ('w, 'a) api_call" where
  "ok_or e x = (case x of None \<Rightarrow> err e | Some y \<Rightarrow> ok y)"

fun check_all :: "('a \<Rightarrow> ('w, 'b) api_call) \<Rightarrow> 'a list \<Rightarrow> ('w, unit) api_call" where
  "check_all f [] = ok ()"
| "check_all f (x # xs) = and_then (f x) (\<lambda>_. check_all f xs)"

lemmas call_defs = lift_def ok_def err_def and_then_def ok_or_def

subsection \<open>What a call may do\<close>

text \<open>
  \<open>does R m Q\<close>: whatever the world, the call changes it only by steps in \<open>R\<close>, and a value it returns satisfies
  \<open>Q\<close>. The rules below are collected in \<open>does_intros\<close>, one for each form of a call.
\<close>

definition does :: "('w \<Rightarrow> 'w \<Rightarrow> bool) \<Rightarrow> ('w, 'a) api_call \<Rightarrow> ('a \<Rightarrow> bool) \<Rightarrow> bool" where
  "does R m Q \<longleftrightarrow> (\<forall>w. R\<^sup>*\<^sup>* w (snd (m w)) \<and> (\<forall>x. fst (m w) = Inr x \<longrightarrow> Q x))"

lemma does_lift [does_intros]: "(\<And>x. r = Inr x \<Longrightarrow> Q x) \<Longrightarrow> does R (lift r) Q"
  by (simp add: does_def lift_def)

lemma does_ok [does_intros]: "Q x \<Longrightarrow> does R (ok x) Q"
  unfolding ok_def by (rule does_lift) simp

lemma does_err [does_intros]: "does R (err e) Q"
  unfolding err_def by (rule does_lift) simp

lemma does_ok_or [does_intros]: "(\<And>y. x = Some y \<Longrightarrow> Q y) \<Longrightarrow> does R (ok_or e x) Q"
  by (simp add: ok_or_def does_ok does_err split: option.split)

lemma does_and_then:
  assumes "does R m P" and "\<And>x. P x \<Longrightarrow> does R (f x) Q"
  shows "does R (and_then m f) Q"
  unfolding does_def
proof
  fix w
  obtain r w' where mw: "m w = (r, w')" by (cases "m w")
  have m: "R\<^sup>*\<^sup>* w w'" "\<And>x. r = Inr x \<Longrightarrow> P x"
    using assms(1) mw by (auto simp: does_def dest: spec [of _ w])
  show "R\<^sup>*\<^sup>* w (snd (and_then m f w)) \<and> (\<forall>x. fst (and_then m f w) = Inr x \<longrightarrow> Q x)"
  proof (cases r)
    case (Inl e)
    then show ?thesis using m(1) by (simp add: and_then_def mw)
  next
    case (Inr x)
    then have "R\<^sup>*\<^sup>* w' (snd (f x w')) \<and> (\<forall>y. fst (f x w') = Inr y \<longrightarrow> Q y)"
      using assms(2) [OF m(2)] by (simp add: does_def)
    then show ?thesis using m(1) Inr by (auto simp: and_then_def mw)
  qed
qed

lemma does_then_lift [does_intros]: "(\<And>x. r = Inr x \<Longrightarrow> does R (f x) Q) \<Longrightarrow> does R (and_then (lift r) f) Q"
  by (rule does_and_then [OF does_lift]) simp_all

lemma does_then_ok_or [does_intros]: "(\<And>y. x = Some y \<Longrightarrow> does R (f y) Q) \<Longrightarrow> does R (and_then (ok_or e x) f) Q"
  by (rule does_and_then [OF does_ok_or]) simp_all

lemma does_if [does_intros]: "(b \<Longrightarrow> does R m Q) \<Longrightarrow> (\<not> b \<Longrightarrow> does R m' Q) \<Longrightarrow> does R (if b then m else m') Q"
  by simp

lemma does_option [does_intros]:
  "(x = None \<Longrightarrow> does R m Q) \<Longrightarrow> (\<And>y. x = Some y \<Longrightarrow> does R (f y) Q) \<Longrightarrow>
    does R (case x of None \<Rightarrow> m | Some y \<Rightarrow> f y) Q"
  by (cases x) simp_all

lemma does_sum [does_intros]:
  "(\<And>e. x = Inl e \<Longrightarrow> does R (g e) Q) \<Longrightarrow> (\<And>y. x = Inr y \<Longrightarrow> does R (f y) Q) \<Longrightarrow>
    does R (case x of Inl e \<Rightarrow> g e | Inr y \<Rightarrow> f y) Q"
  by (cases x) simp_all

lemma does_then_any: "does R m (\<lambda>_. True) \<Longrightarrow> (\<And>x. does R (f x) Q) \<Longrightarrow> does R (and_then m f) Q"
  by (rule does_and_then)

lemma and_then_assoc: "and_then (and_then m g) f = and_then m (\<lambda>x. and_then (g x) f)"
  by (auto simp: and_then_def fun_eq_iff split: prod.split sum.split)

lemma does_then_then [does_intros]:
  "does R (and_then m (\<lambda>x. and_then (g x) f)) Q \<Longrightarrow> does R (and_then (and_then m g) f) Q"
  by (simp add: and_then_assoc)

lemma does_then_ok [does_intros]: "does R (f x) Q \<Longrightarrow> does R (and_then (ok x) f) Q"
  unfolding ok_def by (rule does_then_lift) simp

lemma does_then_err [does_intros]: "does R (and_then (err e) f) Q"
  unfolding err_def by (rule does_then_lift) simp

lemma does_then_if [does_intros]:
  "(b \<Longrightarrow> does R (and_then m f) Q) \<Longrightarrow> (\<not> b \<Longrightarrow> does R (and_then m' f) Q) \<Longrightarrow>
    does R (and_then (if b then m else m') f) Q"
  by simp

lemma does_then_option [does_intros]:
  "(x = None \<Longrightarrow> does R (and_then m f) Q) \<Longrightarrow> (\<And>y. x = Some y \<Longrightarrow> does R (and_then (g y) f) Q) \<Longrightarrow>
    does R (and_then (case x of None \<Rightarrow> m | Some y \<Rightarrow> g y) f) Q"
  by (cases x) simp_all

lemma does_Let [does_intros]: "(\<And>x. x = v \<Longrightarrow> does R (f x) Q) \<Longrightarrow> does R (let x = v in f x) Q"
  by simp

lemma does_pair [does_intros]: "(\<And>a b. p = (a, b) \<Longrightarrow> does R (f a b) Q) \<Longrightarrow> does R (case p of (a, b) \<Rightarrow> f a b) Q"
  by (cases p) simp

lemma does_weaken: "does R m Q \<Longrightarrow> (\<And>w w'. R w w' \<Longrightarrow> R' w w') \<Longrightarrow> (\<And>x. Q x \<Longrightarrow> Q' x) \<Longrightarrow> does R' m Q'"
  unfolding does_def by (metis mono_rtranclp)

lemma does_check_all:
  "(\<And>x. x \<in> set xs \<Longrightarrow> does R (f x) (\<lambda>_. P x)) \<Longrightarrow> does R (check_all f xs) (\<lambda>_. \<forall>x \<in> set xs. P x)"
proof (induction xs)
  case Nil
  show ?case by (simp add: does_ok)
next
  case (Cons x xs)
  show ?case
    unfolding check_all.simps
    by (rule does_and_then [where P = "\<lambda>_. P x"]) (use Cons in \<open>auto intro: does_weaken\<close>)
qed

lemma does_result: "does R m Q \<Longrightarrow> fst (m w) = Inr x \<Longrightarrow> Q x"
  by (simp add: does_def)

lemma does_world: "does R m Q \<Longrightarrow> R\<^sup>*\<^sup>* w (snd (m w))"
  by (simp add: does_def)

text \<open>An operation of a client, whose answer is then read.\<close>

definition op_call :: "('w \<Rightarrow> 'a \<times> 'w) \<Rightarrow> ('a \<Rightarrow> api_error + 'b) \<Rightarrow> ('w, 'b) api_call" where
  "op_call op answer w = (case op w of (a, w') \<Rightarrow> (answer a, w'))"

lemma does_op_call: "(\<And>w. R w (snd (op w))) \<Longrightarrow> does R (op_call op answer) (\<lambda>_. True)"
  unfolding does_def op_call_def by (auto split: prod.split dest: sym intro: r_into_rtranclp) (metis r_into_rtranclp snd_conv)

lemma does_then_op_call:
  "(\<And>w. R w (snd (op w))) \<Longrightarrow> (\<And>x. does R (f x) Q) \<Longrightarrow> does R (and_then (op_call op answer) f) Q"
  by (rule does_then_any [OF does_op_call])

text \<open>When a call returns a value, and when it is not still running.\<close>

lemma and_then_Inr:
  "fst (and_then m f w) = Inr y \<longleftrightarrow> (\<exists>x w'. m w = (Inr x, w') \<and> fst (f x w') = Inr y)"
  by (auto simp: and_then_def split: prod.split sum.split)

lemma ok_or_Inr: "ok_or e x w = (Inr y, w') \<longleftrightarrow> x = Some y \<and> w' = w"
  by (auto simp: call_defs split: option.split)

lemma fst_ok_or_Inr: "fst (ok_or e x w) = Inr y \<longleftrightarrow> x = Some y"
  by (auto simp: call_defs split: option.split)

lemma and_then_pair: "and_then m f w = (Inr y, w2) \<longleftrightarrow> (\<exists>x w'. m w = (Inr x, w') \<and> f x w' = (Inr y, w2))"
  by (auto simp: and_then_def split: prod.split sum.split)

lemma op_call_Inr:
  "op_call op answer w = (Inr y, w') \<longleftrightarrow> (\<exists>r. op w = (r, w') \<and> answer r = Inr y)"
  "fst (op_call op answer w) = Inr y \<longleftrightarrow> (\<exists>r. fst (op w) = r \<and> answer r = Inr y)"
  by (auto simp: op_call_def split: prod.split)

lemma ok_Inr: "ok x w = (Inr y, w') \<longleftrightarrow> y = x \<and> w' = w"
  by (auto simp: call_defs)

lemmas call_results = and_then_Inr and_then_pair ok_or_Inr fst_ok_or_Inr op_call_Inr ok_Inr

lemma and_then_not_None:
  "(\<And>x w'. m w = (Inr x, w') \<Longrightarrow> fst (f x w') \<noteq> Inr None) \<Longrightarrow> fst (and_then m f w) \<noteq> Inr None"
  by (auto simp: and_then_def split: prod.split sum.split)

text \<open>Sending a request: the step \<open>sends send P\<close> is one request that satisfies \<open>P\<close>.\<close>

definition sends :: "('r \<Rightarrow> 'w \<Rightarrow> 'a \<times> 'w) \<Rightarrow> ('r \<Rightarrow> bool) \<Rightarrow> 'w \<Rightarrow> 'w \<Rightarrow> bool" where
  "sends send P w w' \<longleftrightarrow> (\<exists>r. P r \<and> w' = snd (send r w))"

lemma sends_mono: "(\<And>r. P r \<Longrightarrow> P' r) \<Longrightarrow> sends send P \<le> sends send P'"
  unfolding sends_def le_fun_def le_bool_def by blast

definition send_call :: "('r \<Rightarrow> 'w \<Rightarrow> 'a \<times> 'w) \<Rightarrow> ('a \<Rightarrow> api_error + 'b) \<Rightarrow> 'r \<Rightarrow> ('w, 'b) api_call" where
  "send_call send answer r w = (case send r w of (a, w') \<Rightarrow> (answer a, w'))"

lemma does_send_call [does_intros]:
  "P r \<Longrightarrow> (\<And>a x. answer a = Inr x \<Longrightarrow> Q x) \<Longrightarrow> does (sends send P) (send_call send answer r) Q"
  unfolding does_def send_call_def sends_def
  by (auto split: prod.split intro!: r_into_rtranclp exI [of _ r])

subsection \<open>Templates of addresses\<close>

datatype piece = Lit string | Hole "char \<Rightarrow> bool" | Opt "char \<Rightarrow> bool"

fun fills :: "piece list \<Rightarrow> string \<Rightarrow> bool" where
  "fills [] s = (s = [])"
| "fills (Lit l # ps) s = (\<exists>r. s = l @ r \<and> fills ps r)"
| "fills (Hole c # ps) s = (\<exists>h r. s = h @ r \<and> h \<noteq> [] \<and> list_all c h \<and> fills ps r)"
| "fills (Opt c # ps) s = (\<exists>h r. s = h @ r \<and> list_all c h \<and> fills ps r)"

lemma fills_Lit [fills_intros]: "fills ps r \<Longrightarrow> fills (Lit l # ps) (l @ r)"
  by auto

lemma fills_Hole [fills_intros]: "h \<noteq> [] \<and> list_all c h \<Longrightarrow> fills ps r \<Longrightarrow> fills (Hole c # ps) (h @ r)"
  by auto

lemma fills_last_Lit [fills_intros]: "fills [Lit l] l"
  by simp

lemma fills_last_Hole [fills_intros]: "h \<noteq> [] \<and> list_all c h \<Longrightarrow> fills [Hole c] h"
  by simp

lemma fills_Opt [fills_intros]: "list_all c h \<Longrightarrow> fills ps r \<Longrightarrow> fills (Opt c # ps) (h @ r)"
  by auto

lemma fills_last_Opt [fills_intros]: "list_all c h \<Longrightarrow> fills [Opt c] h"
  by simp

lemma fills_Nil [fills_intros]: "fills [] []"
  by simp

text \<open>A hole is filled with at least one character of its class, an optional one with any number. A filled template contains no character that neither a literal nor a hole allows.\<close>

fun allowed_in :: "piece list \<Rightarrow> char \<Rightarrow> bool" where
  "allowed_in [] c = False"
| "allowed_in (Lit l # ps) c = (c \<in> set l \<or> allowed_in ps c)"
| "allowed_in (Hole p # ps) c = (p c \<or> allowed_in ps c)"
| "allowed_in (Opt p # ps) c = (p c \<or> allowed_in ps c)"

lemma fills_allowed: "fills ps s \<Longrightarrow> c \<in> set s \<Longrightarrow> allowed_in ps c"
  by (induction ps s rule: fills.induct) (auto simp: list_all_iff, blast+)

subsection \<open>Characters\<close>

text \<open>
  The class \<^verbatim>\<open>\w\<close> of the crate \<^verbatim>\<open>regex\<close> is the letters, digits and connectors of Unicode: the ASCII ones and
  some others, whose bytes are all 128 or more; likewise \<^verbatim>\<open>\d\<close>.
\<close>

definition non_ascii :: "char \<Rightarrow> bool" where
  "non_ascii c \<longleftrightarrow> (of_char c :: nat) \<ge> 128"

definition between :: "char \<Rightarrow> char \<Rightarrow> char \<Rightarrow> bool" where
  "between a b c \<longleftrightarrow> (of_char a :: nat) \<le> of_char c \<and> (of_char c :: nat) \<le> of_char b"

definition is_alpha :: "char \<Rightarrow> bool" where
  "is_alpha c \<longleftrightarrow> between CHR ''a'' CHR ''z'' c \<or> between CHR ''A'' CHR ''Z'' c"

definition is_alnum :: "char \<Rightarrow> bool" where
  "is_alnum c \<longleftrightarrow> is_alpha c \<or> between CHR ''0'' CHR ''9'' c"

definition ascii_word :: "char \<Rightarrow> bool" where
  "ascii_word c \<longleftrightarrow> is_alnum c \<or> c = CHR ''_''"

definition word_char :: "char \<Rightarrow> bool" where
  "word_char c \<longleftrightarrow> ascii_word c \<or> non_ascii c"

definition digit_class :: "char \<Rightarrow> bool" where
  "digit_class c \<longleftrightarrow> between CHR ''0'' CHR ''9'' c \<or> non_ascii c"

lemmas char_class_defs = non_ascii_def between_def is_alpha_def is_alnum_def ascii_word_def word_char_def digit_class_def

lemma decimal_class: "decimal n \<noteq> [] \<and> list_all (between CHR ''0'' CHR ''9'') (decimal n)"
proof -
  have "is_digit c \<Longrightarrow> between CHR ''0'' CHR ''9'' c" for c
    by (simp add: is_digit_def between_def)
  then show ?thesis using decimal_digits [of n] by (simp add: list_all_iff)
qed

definition nonempty_of :: "(char \<Rightarrow> bool) \<Rightarrow> string \<Rightarrow> bool" where
  "nonempty_of p s \<longleftrightarrow> s \<noteq> [] \<and> list_all p s"

lemma nonempty_ofD: "nonempty_of p s \<Longrightarrow> s \<noteq> [] \<and> list_all p s"
  by (simp add: nonempty_of_def)

subsection \<open>HTTP\<close>

datatype http_method = DELETE | GET | PATCH | POST | PUT | HEAD

text \<open>
  A request as it is built with the crate \<^verbatim>\<open>reqwest\<close>, and what sending it returns: an error, or a status and the text
  of the answer, which may fail to arrive. A part of a multipart body has a name, a media type and a text.
\<close>

datatype http_body = NoBody | TextBody string | JsonBody json | FormBody "(string \<times> string) list"
  | MultipartBody "(string \<times> string \<times> string) list"

record http_request =
  hq_method :: http_method
  hq_url :: string
  hq_query :: "(string \<times> string) list"
  hq_headers :: "(string \<times> string) list"
  hq_body :: http_body

type_synonym http_response = "string + u16 \<times> (string + string)"

definition http :: "http_method \<Rightarrow> string \<Rightarrow> http_request" where
  "http m url = \<lparr>hq_method = m, hq_url = url, hq_query = [], hq_headers = [], hq_body = NoBody\<rparr>"

lemma http_sel [simp]:
  "hq_method (http m url) = m" "hq_url (http m url) = url" "hq_query (http m url) = []"
  "hq_headers (http m url) = []" "hq_body (http m url) = NoBody"
  by (simp_all add: http_def)

definition text_or_default :: "string + string \<Rightarrow> string" where
  "text_or_default t = (case t of Inl _ \<Rightarrow> [] | Inr s \<Rightarrow> s)"

text \<open>The characters of a string are those of its UTF-8 bytes; the classes are those of Unicode.\<close>

record unicode_ops =
  chars_of :: "string \<Rightarrow> nat list"
  is_alphanumeric :: "nat \<Rightarrow> bool"
  is_whitespace :: "nat \<Rightarrow> bool"

text \<open>\<^verbatim>\<open>join\<close> on a list of strings.\<close>

fun join :: "string \<Rightarrow> string list \<Rightarrow> string" where
  "join sep [] = []"
| "join sep [x] = x"
| "join sep (x # xs) = x @ sep @ join sep xs"

text \<open>The formats \<^verbatim>\<open>{:x}\<close> of a number and \<^verbatim>\<open>{:02x}\<close> of a byte.\<close>

definition hex_digit_char :: "nat \<Rightarrow> char" where
  "hex_digit_char d = char_of (if d < 10 then 48 + d else 87 + d)"

fun lower_hex :: "nat \<Rightarrow> string" where
  "lower_hex n = (if n < 16 then [hex_digit_char n] else lower_hex (n div 16) @ [hex_digit_char (n mod 16)])"

declare lower_hex.simps [simp del]

definition byte_hex :: "u8 \<Rightarrow> string" where
  "byte_hex b = [hex_digit_char (unat b div 16), hex_digit_char (unat b mod 16)]"

end
