(* ===== verification/Plaid_Api.thy ===== *)
theory Plaid_Api
  imports Plaid_Env Plaid_Api_Base
begin

text \<open>
  The host functions that call out to external services, \<^verbatim>\<open>runtime/plaid/src/functions/api.rs\<close>, and
  how the functions a module imports are linked, \<^verbatim>\<open>functions/mod.rs\<close>. The macros that generate the
  functions are definitions with the macro's arguments; each expansion is an entry of a list of
  declarations, and the table from names to functions is a list, in the order of the source, with all
  features enabled. The services themselves (\<^verbatim>\<open>runtime/plaid/src/apis\<close>) act on an unspecified world and
  are parameters.
\<close>

subsection \<open>The macros\<close>

record api_decl =
  decl_api :: string
  decl_sub_module :: "string option"
  decl_function :: string
  decl_error_buffer :: bool
  allow_in_test_mode :: bool

definition ALLOW_IN_TEST_MODE :: bool where
  "ALLOW_IN_TEST_MODE = True"

definition DISALLOW_IN_TEST_MODE :: bool where
  "DISALLOW_IN_TEST_MODE = False"

text \<open>The name the macro pastes together.\<close>

definition api_decl_name :: "api_decl \<Rightarrow> string" where
  "api_decl_name d =
     decl_api d @ ''_'' @ (case decl_sub_module d of None \<Rightarrow> [] | Some s \<Rightarrow> s @ ''_'') @ decl_function d"

record 'w api_ops =
  log_function_call :: "string \<Rightarrow> string \<Rightarrow> bool \<Rightarrow> bool"
  api_configured :: "string \<Rightarrow> bool"
  sub_module_configured :: "string \<Rightarrow> string \<Rightarrow> bool"
  invoke_int :: "api_decl \<Rightarrow> string \<Rightarrow> plaid_module \<Rightarrow> 'w \<Rightarrow> (api_error + u32) \<times> 'w"
  invoke_string :: "api_decl \<Rightarrow> string \<Rightarrow> plaid_module \<Rightarrow> 'w \<Rightarrow> (api_error + string) \<times> 'w"

text \<open>
  What the four macros have in common: logging the call, the test mode, reading the parameters and
  looking up the service. The two macros for submodules look up one level deeper. The name handed to
  the log lacks the submodule in \<^verbatim>\<open>impl_new_sub_module_function\<close>.
\<close>

definition logged_name :: "api_decl \<Rightarrow> string" where
  "logged_name d =
     (if decl_error_buffer d then api_decl_name d else decl_api d @ ''_'' @ decl_function d)"

definition api_prologue ::
  "'m wasm_ops \<Rightarrow> 'w api_ops \<Rightarrow> api_decl \<Rightarrow> ('m, 'd, 'c, 'q) env \<Rightarrow> u32 \<Rightarrow> u32 \<Rightarrow> function_errors + ('m \<times> string)" where
  "api_prologue W A d env params_buffer params_buffer_len =
     (let pm = env_module env in
      if \<not> log_function_call A (mod_name pm) (logged_name d) (test_mode pm) then Inl InternalApiError
      else if \<not> allow_in_test_mode d \<and> test_mode pm then Inl TestMode
      else case get_memory (env_memory env) of
             Inl _ \<Rightarrow> Inl InternalApiError
           | Inr memory_view \<Rightarrow>
               (case safely_get_string W memory_view params_buffer params_buffer_len of
                  Inl e \<Rightarrow> Inl e
                | Inr params \<Rightarrow>
                    if \<not> api_configured A (decl_api d) then Inl ApiNotConfigured
                    else case decl_sub_module d of
                           None \<Rightarrow> Inr (memory_view, params)
                         | Some s \<Rightarrow>
                             if \<not> sub_module_configured A (decl_api d) s then Inl ApiNotConfigured
                             else Inr (memory_view, params)))"

definition api_function_int ::
  "'m wasm_ops \<Rightarrow> 'w api_ops \<Rightarrow> api_decl \<Rightarrow> ('m, 'd, 'c, 'q) env \<Rightarrow> u32 \<Rightarrow> u32 \<Rightarrow> 'w
     \<Rightarrow> i32 \<times> ('m, 'd, 'c, 'q) env \<times> 'w" where
  "api_function_int W A d env params_buffer params_buffer_len w =
     (case api_prologue W A d env params_buffer params_buffer_len of
        Inl e \<Rightarrow> (error_code e, env, w)
      | Inr (memory_view, params) \<Rightarrow>
          (case invoke_int A d params (env_module env) w of
             (Inr return_data, w') \<Rightarrow> (sint return_data, env, w')
           | (Inl ApiTestMode, w') \<Rightarrow> (error_code TestMode, env, w')
           | (Inl _, w') \<Rightarrow> (error_code InternalApiError, env, w')))"

definition api_function_buffer ::
  "'m wasm_ops \<Rightarrow> 'w api_ops \<Rightarrow> api_decl \<Rightarrow> ('m, 'd, 'c, 'q) env \<Rightarrow> u32 \<Rightarrow> u32 \<Rightarrow> u32 \<Rightarrow> u32 \<Rightarrow> 'w
     \<Rightarrow> i32 \<times> ('m, 'd, 'c, 'q) env \<times> 'w" where
  "api_function_buffer W A d env params_buffer params_buffer_len ret_buffer ret_buffer_len w =
     (case api_prologue W A d env params_buffer params_buffer_len of
        Inl e \<Rightarrow> (error_code e, env, w)
      | Inr (memory_view, params) \<Rightarrow>
          (case invoke_string A d params (env_module env) w of
             (Inr return_data, w') \<Rightarrow>
               if length return_data > unat ret_buffer_len then (error_code ReturnBufferTooSmall, env, w')
               else (case safely_write_data_back W memory_view (as_bytes return_data) ret_buffer ret_buffer_len of
                       (Inl e, _) \<Rightarrow> (error_code e, env, w')
                     | (Inr _, m) \<Rightarrow> (as_i32 (length return_data), env\<lparr>env_memory := Some m\<rparr>, w'))
           | (Inl ApiTestMode, w') \<Rightarrow> (error_code TestMode, env, w')
           | (Inl _, w') \<Rightarrow> (error_code InternalApiError, env, w')))"

subsection \<open>The declared functions\<close>

definition api_fn :: "string \<Rightarrow> string \<Rightarrow> bool \<Rightarrow> bool \<Rightarrow> api_decl" where
  "api_fn api f buf al =
     \<lparr>decl_api = api, decl_sub_module = None, decl_function = f, decl_error_buffer = buf, allow_in_test_mode = al\<rparr>"

definition sub_fn :: "string \<Rightarrow> string \<Rightarrow> string \<Rightarrow> bool \<Rightarrow> bool \<Rightarrow> api_decl" where
  "sub_fn api s f buf al =
     \<lparr>decl_api = api, decl_sub_module = Some s, decl_function = f, decl_error_buffer = buf, allow_in_test_mode = al\<rparr>"

definition general_functions :: "api_decl list" where
  "general_functions =
     [api_fn ''general'' ''simple_json_post_request'' False DISALLOW_IN_TEST_MODE,
      api_fn ''general'' ''make_named_request'' True ALLOW_IN_TEST_MODE,
      api_fn ''general'' ''retrieve_tls_certificate_with_sni'' True ALLOW_IN_TEST_MODE]"

definition github_functions :: "api_decl list" where
  "github_functions =
     [api_fn ''github'' ''add_user_to_repo'' False DISALLOW_IN_TEST_MODE,
      api_fn ''github'' ''remove_user_from_repo'' False DISALLOW_IN_TEST_MODE,
      api_fn ''github'' ''add_user_to_team'' False DISALLOW_IN_TEST_MODE,
      api_fn ''github'' ''remove_user_from_team'' False DISALLOW_IN_TEST_MODE,
      api_fn ''github'' ''update_branch_protection_rule'' False DISALLOW_IN_TEST_MODE,
      api_fn ''github'' ''create_environment_for_repo'' False DISALLOW_IN_TEST_MODE,
      api_fn ''github'' ''configure_secret'' False DISALLOW_IN_TEST_MODE,
      api_fn ''github'' ''create_deployment_branch_protection_rule'' False DISALLOW_IN_TEST_MODE,
      api_fn ''github'' ''trigger_repo_dispatch'' False DISALLOW_IN_TEST_MODE,
      api_fn ''github'' ''check_org_membership_of_user'' False ALLOW_IN_TEST_MODE,
      api_fn ''github'' ''remove_outside_collaborator_from_org'' False DISALLOW_IN_TEST_MODE,
      api_fn ''github'' ''delete_deploy_key'' False DISALLOW_IN_TEST_MODE,
      api_fn ''github'' ''create_deploy_key'' True DISALLOW_IN_TEST_MODE,
      api_fn ''github'' ''require_signed_commits'' False DISALLOW_IN_TEST_MODE,
      api_fn ''github'' ''add_repo_to_team'' False DISALLOW_IN_TEST_MODE,
      api_fn ''github'' ''remove_repo_from_team'' False DISALLOW_IN_TEST_MODE,
      api_fn ''github'' ''get_repo_teams'' True ALLOW_IN_TEST_MODE,
      api_fn ''github'' ''make_graphql_query'' True ALLOW_IN_TEST_MODE,
      api_fn ''github'' ''make_advanced_graphql_query'' True ALLOW_IN_TEST_MODE,
      api_fn ''github'' ''fetch_commit'' True ALLOW_IN_TEST_MODE,
      api_fn ''github'' ''list_files'' True ALLOW_IN_TEST_MODE,
      api_fn ''github'' ''fetch_file_with_custom_media_type'' True ALLOW_IN_TEST_MODE,
      api_fn ''github'' ''get_branch_protection_rules'' True ALLOW_IN_TEST_MODE,
      api_fn ''github'' ''get_branch_protection_ruleset'' True ALLOW_IN_TEST_MODE,
      api_fn ''github'' ''get_repository_collaborators'' True ALLOW_IN_TEST_MODE,
      api_fn ''github'' ''search_code'' True ALLOW_IN_TEST_MODE,
      api_fn ''github'' ''list_seats_in_org_copilot'' True ALLOW_IN_TEST_MODE,
      api_fn ''github'' ''add_users_to_org_copilot'' True DISALLOW_IN_TEST_MODE,
      api_fn ''github'' ''remove_users_from_org_copilot'' True DISALLOW_IN_TEST_MODE,
      api_fn ''github'' ''get_custom_properties_values'' True ALLOW_IN_TEST_MODE,
      api_fn ''github'' ''check_codeowners_file'' True ALLOW_IN_TEST_MODE,
      api_fn ''github'' ''get_repo_sbom'' True ALLOW_IN_TEST_MODE,
      api_fn ''github'' ''comment_on_pull_request'' False DISALLOW_IN_TEST_MODE,
      api_fn ''github'' ''pull_request_request_reviewers'' False DISALLOW_IN_TEST_MODE,
      api_fn ''github'' ''submit_pull_request_review'' False DISALLOW_IN_TEST_MODE,
      api_fn ''github'' ''get_weekly_commit_count'' True ALLOW_IN_TEST_MODE,
      api_fn ''github'' ''get_reference'' True ALLOW_IN_TEST_MODE,
      api_fn ''github'' ''create_reference'' False DISALLOW_IN_TEST_MODE,
      api_fn ''github'' ''get_pull_requests'' True ALLOW_IN_TEST_MODE,
      api_fn ''github'' ''create_pull_request'' True DISALLOW_IN_TEST_MODE,
      api_fn ''github'' ''create_file'' True DISALLOW_IN_TEST_MODE,
      api_fn ''github'' ''add_labels'' False DISALLOW_IN_TEST_MODE,
      api_fn ''github'' ''get_user_id_from_username'' True ALLOW_IN_TEST_MODE,
      api_fn ''github'' ''get_username_from_user_id'' True ALLOW_IN_TEST_MODE,
      api_fn ''github'' ''get_repo_id_from_repo_name'' True ALLOW_IN_TEST_MODE,
      api_fn ''github'' ''get_repo_name_from_repo_id'' True ALLOW_IN_TEST_MODE,
      api_fn ''github'' ''add_repo_to_org_secret'' False DISALLOW_IN_TEST_MODE,
      api_fn ''github'' ''remove_repo_from_org_secret'' False DISALLOW_IN_TEST_MODE,
      api_fn ''github'' ''list_org_secrets_for_repo'' True ALLOW_IN_TEST_MODE,
      api_fn ''github'' ''grant_repo_access_to_org_installation'' False DISALLOW_IN_TEST_MODE,
      api_fn ''github'' ''remove_repo_access_from_org_installation'' False DISALLOW_IN_TEST_MODE,
      api_fn ''github'' ''get_enterprise_license_status'' True ALLOW_IN_TEST_MODE,
      api_fn ''github'' ''review_fpat_requests_for_org'' False DISALLOW_IN_TEST_MODE,
      api_fn ''github'' ''list_fpat_requests_for_org'' True ALLOW_IN_TEST_MODE,
      api_fn ''github'' ''get_repos_for_fpat'' True ALLOW_IN_TEST_MODE]"

definition cryptography_functions :: "api_decl list" where
  "cryptography_functions =
     [api_fn ''cryptography'' ''aes_128_cbc_encrypt'' True ALLOW_IN_TEST_MODE,
      api_fn ''cryptography'' ''aes_128_cbc_decrypt'' True ALLOW_IN_TEST_MODE]"

definition jira_functions :: "api_decl list" where
  "jira_functions =
     [api_fn ''jira'' ''create_issue'' True DISALLOW_IN_TEST_MODE,
      api_fn ''jira'' ''get_issue'' True ALLOW_IN_TEST_MODE,
      api_fn ''jira'' ''update_issue'' False DISALLOW_IN_TEST_MODE,
      api_fn ''jira'' ''get_user'' True ALLOW_IN_TEST_MODE,
      api_fn ''jira'' ''post_comment'' False DISALLOW_IN_TEST_MODE,
      api_fn ''jira'' ''search_issues'' True ALLOW_IN_TEST_MODE]"

definition aws_functions :: "api_decl list" where
  "aws_functions =
     [sub_fn ''aws'' ''kms'' ''generate_mac'' True DISALLOW_IN_TEST_MODE,
      sub_fn ''aws'' ''kms'' ''verify_mac'' False DISALLOW_IN_TEST_MODE,
      sub_fn ''aws'' ''kms'' ''sign_arbitrary_message'' True DISALLOW_IN_TEST_MODE,
      sub_fn ''aws'' ''kms'' ''get_public_key'' True ALLOW_IN_TEST_MODE,
      sub_fn ''aws'' ''dynamodb'' ''put_item'' True DISALLOW_IN_TEST_MODE,
      sub_fn ''aws'' ''dynamodb'' ''delete_item'' True DISALLOW_IN_TEST_MODE,
      sub_fn ''aws'' ''dynamodb'' ''query'' True ALLOW_IN_TEST_MODE,
      sub_fn ''aws'' ''s3'' ''delete_object'' False DISALLOW_IN_TEST_MODE,
      sub_fn ''aws'' ''s3'' ''get_object_attributes'' True ALLOW_IN_TEST_MODE,
      sub_fn ''aws'' ''s3'' ''get_object'' True ALLOW_IN_TEST_MODE,
      sub_fn ''aws'' ''s3'' ''list_objects'' True ALLOW_IN_TEST_MODE,
      sub_fn ''aws'' ''s3'' ''list_object_versions'' True ALLOW_IN_TEST_MODE,
      sub_fn ''aws'' ''s3'' ''put_object'' False DISALLOW_IN_TEST_MODE,
      sub_fn ''aws'' ''s3'' ''put_object_tags'' True DISALLOW_IN_TEST_MODE]"

definition gcp_functions :: "api_decl list" where
  "gcp_functions =
     [sub_fn ''gcp'' ''google_docs'' ''upload_file'' True DISALLOW_IN_TEST_MODE,
      sub_fn ''gcp'' ''google_docs'' ''copy_file'' True DISALLOW_IN_TEST_MODE,
      sub_fn ''gcp'' ''google_docs'' ''create_folder'' True DISALLOW_IN_TEST_MODE,
      sub_fn ''gcp'' ''google_docs'' ''create_doc_from_markdown'' True DISALLOW_IN_TEST_MODE,
      sub_fn ''gcp'' ''google_docs'' ''create_sheet_from_csv'' True DISALLOW_IN_TEST_MODE,
      sub_fn ''gcp'' ''bigquery'' ''query_table'' True ALLOW_IN_TEST_MODE]"

definition npm_functions :: "api_decl list" where
  "npm_functions =
     [api_fn ''npm'' ''publish_empty_stub'' True DISALLOW_IN_TEST_MODE,
      api_fn ''npm'' ''set_team_permission_on_package'' True DISALLOW_IN_TEST_MODE,
      api_fn ''npm'' ''create_granular_token_for_packages'' True DISALLOW_IN_TEST_MODE,
      api_fn ''npm'' ''delete_granular_token'' True DISALLOW_IN_TEST_MODE,
      api_fn ''npm'' ''list_granular_tokens'' True ALLOW_IN_TEST_MODE,
      api_fn ''npm'' ''delete_package'' True DISALLOW_IN_TEST_MODE,
      api_fn ''npm'' ''add_user_to_team'' True DISALLOW_IN_TEST_MODE,
      api_fn ''npm'' ''remove_user_from_team'' True DISALLOW_IN_TEST_MODE,
      api_fn ''npm'' ''remove_user_from_organization'' True DISALLOW_IN_TEST_MODE,
      api_fn ''npm'' ''invite_user_to_organization'' True DISALLOW_IN_TEST_MODE,
      api_fn ''npm'' ''get_org_user_list'' True ALLOW_IN_TEST_MODE,
      api_fn ''npm'' ''get_org_users_without_2fa'' True ALLOW_IN_TEST_MODE,
      api_fn ''npm'' ''list_packages_with_team_permission'' True ALLOW_IN_TEST_MODE,
      api_fn ''npm'' ''get_token_details'' True ALLOW_IN_TEST_MODE]"

definition okta_functions :: "api_decl list" where
  "okta_functions =
     [api_fn ''okta'' ''remove_user_from_group'' False DISALLOW_IN_TEST_MODE,
      api_fn ''okta'' ''get_user_data'' True ALLOW_IN_TEST_MODE]"

definition pagerduty_functions :: "api_decl list" where
  "pagerduty_functions =
     [api_fn ''pagerduty'' ''trigger_incident'' False DISALLOW_IN_TEST_MODE,
      api_fn ''pagerduty'' ''get_incident_alerts'' True ALLOW_IN_TEST_MODE]"

definition rustica_functions :: "api_decl list" where
  "rustica_functions =
     [api_fn ''rustica'' ''new_mtls_cert'' True DISALLOW_IN_TEST_MODE]"

definition slack_functions :: "api_decl list" where
  "slack_functions =
     [api_fn ''slack'' ''views_open'' False ALLOW_IN_TEST_MODE,
      api_fn ''slack'' ''post_message'' True ALLOW_IN_TEST_MODE,
      api_fn ''slack'' ''update_message'' True ALLOW_IN_TEST_MODE,
      api_fn ''slack'' ''schedule_message'' True ALLOW_IN_TEST_MODE,
      api_fn ''slack'' ''delete_scheduled_message'' True ALLOW_IN_TEST_MODE,
      api_fn ''slack'' ''conversations_history'' True ALLOW_IN_TEST_MODE,
      api_fn ''slack'' ''get_id_from_email'' True ALLOW_IN_TEST_MODE,
      api_fn ''slack'' ''post_to_arbitrary_webhook'' False ALLOW_IN_TEST_MODE,
      api_fn ''slack'' ''post_to_named_webhook'' False ALLOW_IN_TEST_MODE,
      api_fn ''slack'' ''get_presence'' True ALLOW_IN_TEST_MODE,
      api_fn ''slack'' ''get_dnd'' True ALLOW_IN_TEST_MODE,
      api_fn ''slack'' ''user_info'' True ALLOW_IN_TEST_MODE,
      api_fn ''slack'' ''create_channel'' True DISALLOW_IN_TEST_MODE,
      api_fn ''slack'' ''invite_to_channel'' False DISALLOW_IN_TEST_MODE,
      api_fn ''slack'' ''remove_from_channel'' False DISALLOW_IN_TEST_MODE]"

definition splunk_functions :: "api_decl list" where
  "splunk_functions =
     [api_fn ''splunk'' ''post_hec'' False ALLOW_IN_TEST_MODE]"

definition yubikey_functions :: "api_decl list" where
  "yubikey_functions =
     [api_fn ''yubikey'' ''verify_otp'' True ALLOW_IN_TEST_MODE]"

definition web_functions :: "api_decl list" where
  "web_functions =
     [api_fn ''web'' ''issue_jwt'' True DISALLOW_IN_TEST_MODE]"

definition blockchain_evm_functions :: "api_decl list" where
  "blockchain_evm_functions =
     [sub_fn ''blockchain'' ''evm'' ''get_transaction_by_hash'' True ALLOW_IN_TEST_MODE,
      sub_fn ''blockchain'' ''evm'' ''get_transaction_receipt'' True ALLOW_IN_TEST_MODE,
      sub_fn ''blockchain'' ''evm'' ''send_raw_transaction'' True DISALLOW_IN_TEST_MODE,
      sub_fn ''blockchain'' ''evm'' ''get_transaction_count'' True ALLOW_IN_TEST_MODE,
      sub_fn ''blockchain'' ''evm'' ''get_balance'' True ALLOW_IN_TEST_MODE,
      sub_fn ''blockchain'' ''evm'' ''estimate_gas'' True ALLOW_IN_TEST_MODE,
      sub_fn ''blockchain'' ''evm'' ''eth_call'' True ALLOW_IN_TEST_MODE,
      sub_fn ''blockchain'' ''evm'' ''gas_price'' True ALLOW_IN_TEST_MODE,
      sub_fn ''blockchain'' ''evm'' ''get_logs'' True ALLOW_IN_TEST_MODE,
      sub_fn ''blockchain'' ''evm'' ''get_block'' True ALLOW_IN_TEST_MODE,
      sub_fn ''blockchain'' ''evm'' ''get_fee_history'' True ALLOW_IN_TEST_MODE]"

definition blockchain_solana_functions :: "api_decl list" where
  "blockchain_solana_functions =
     [sub_fn ''blockchain'' ''solana'' ''send_signed_transaction'' True DISALLOW_IN_TEST_MODE,
      sub_fn ''blockchain'' ''solana'' ''get_balance'' True ALLOW_IN_TEST_MODE,
      sub_fn ''blockchain'' ''solana'' ''get_account_info'' True ALLOW_IN_TEST_MODE,
      sub_fn ''blockchain'' ''solana'' ''get_slot'' True ALLOW_IN_TEST_MODE,
      sub_fn ''blockchain'' ''solana'' ''get_latest_blockhash'' True ALLOW_IN_TEST_MODE,
      sub_fn ''blockchain'' ''solana'' ''get_transaction_count'' True ALLOW_IN_TEST_MODE,
      sub_fn ''blockchain'' ''solana'' ''get_transaction'' True ALLOW_IN_TEST_MODE,
      sub_fn ''blockchain'' ''solana'' ''get_signature_statuses'' True ALLOW_IN_TEST_MODE,
      sub_fn ''blockchain'' ''solana'' ''get_block'' True ALLOW_IN_TEST_MODE,
      sub_fn ''blockchain'' ''solana'' ''get_multiple_accounts'' True ALLOW_IN_TEST_MODE,
      sub_fn ''blockchain'' ''solana'' ''get_program_accounts'' True ALLOW_IN_TEST_MODE,
      sub_fn ''blockchain'' ''solana'' ''get_token_accounts_by_owner'' True ALLOW_IN_TEST_MODE,
      sub_fn ''blockchain'' ''solana'' ''get_token_account_balance'' True ALLOW_IN_TEST_MODE,
      sub_fn ''blockchain'' ''solana'' ''get_token_supply'' True ALLOW_IN_TEST_MODE,
      sub_fn ''blockchain'' ''solana'' ''get_minimum_balance_for_rent_exemption'' True ALLOW_IN_TEST_MODE,
      sub_fn ''blockchain'' ''solana'' ''get_fee_for_message'' True ALLOW_IN_TEST_MODE,
      sub_fn ''blockchain'' ''solana'' ''get_recent_prioritization_fees'' True ALLOW_IN_TEST_MODE,
      sub_fn ''blockchain'' ''solana'' ''simulate_transaction'' True ALLOW_IN_TEST_MODE,
      sub_fn ''blockchain'' ''solana'' ''get_signatures_for_address'' True ALLOW_IN_TEST_MODE]"

definition bloom_filter_functions :: "api_decl list" where
  "bloom_filter_functions =
     [api_fn ''bloom_filter'' ''build_with_items'' True ALLOW_IN_TEST_MODE]"

definition api_declarations :: "api_decl list" where
  "api_declarations = general_functions @ github_functions @ cryptography_functions @ jira_functions @ aws_functions @ gcp_functions @ npm_functions @ okta_functions @ pagerduty_functions
     @ rustica_functions @ slack_functions @ splunk_functions @ yubikey_functions @ web_functions @ blockchain_evm_functions @ blockchain_solana_functions @ bloom_filter_functions"

subsection \<open>The table\<close>

text \<open>A name stands for one of the runtime's own functions or for a declared one.\<close>

datatype host_target = HostFn string | ApiFn string

definition plaid_entries :: "(string \<times> host_target) list" where
  "plaid_entries =
     [(''fetch_data'', HostFn ''message::fetch_data''),
      (''fetch_source'', HostFn ''message::fetch_source''),
      (''fetch_data_and_source'', HostFn ''message::fetch_data_and_source''),
      (''get_accessory_data'', HostFn ''runtime_data::get_accessory_data''),
      (''get_secrets'', HostFn ''runtime_data::get_secrets''),
      (''get_headers'', HostFn ''message::get_headers''),
      (''get_query_params'', HostFn ''message::get_query_params''),
      (''fetch_random_bytes'', HostFn ''internal::fetch_random_bytes''),
      (''get_response'', HostFn ''response::get_response''),
      (''set_response'', HostFn ''response::set_response''),
      (''set_error_context'', HostFn ''internal::set_error_context''),
      (''print_debug_string'', HostFn ''internal::print_debug_string''),
      (''storage_insert'', HostFn ''storage::insert''),
      (''storage_insert_shared'', HostFn ''storage::insert_shared''),
      (''storage_get'', HostFn ''storage::get''),
      (''storage_get_shared'', HostFn ''storage::get_shared''),
      (''storage_delete'', HostFn ''storage::delete''),
      (''storage_delete_shared'', HostFn ''storage::delete_shared''),
      (''storage_list_keys'', HostFn ''storage::list_keys''),
      (''storage_list_keys_shared'', HostFn ''storage::list_keys_shared''),
      (''cache_insert'', HostFn ''cache::insert''),
      (''cache_get'', HostFn ''cache::get''),
      (''log_back'', HostFn ''internal::log_back''),
      (''log_back_unlimited'', HostFn ''internal::log_back_unlimited'')]"

definition npm_entries :: "(string \<times> host_target) list" where
  "npm_entries =
     [(''npm_publish_empty_stub'', ApiFn ''npm_publish_empty_stub''),
      (''npm_set_team_permission_on_package'', ApiFn ''npm_set_team_permission_on_package''),
      (''npm_create_granular_token_for_packages'', ApiFn ''npm_create_granular_token_for_packages''),
      (''npm_delete_granular_token'', ApiFn ''npm_delete_granular_token''),
      (''npm_list_granular_tokens'', ApiFn ''npm_list_granular_tokens''),
      (''npm_delete_package'', ApiFn ''npm_delete_package''),
      (''npm_add_user_to_team'', ApiFn ''npm_add_user_to_team''),
      (''npm_remove_user_from_team'', ApiFn ''npm_remove_user_from_team''),
      (''npm_remove_user_from_organization'', ApiFn ''npm_remove_user_from_organization''),
      (''npm_invite_user_to_organization'', ApiFn ''npm_invite_user_to_organization''),
      (''npm_get_org_user_list'', ApiFn ''npm_get_org_user_list''),
      (''npm_get_org_users_without_2fa'', ApiFn ''npm_get_org_users_without_2fa''),
      (''npm_list_packages_with_team_permission'', ApiFn ''npm_list_packages_with_team_permission''),
      (''npm_get_token_details'', ApiFn ''npm_get_token_details'')]"

definition okta_entries :: "(string \<times> host_target) list" where
  "okta_entries =
     [(''okta_remove_user_from_group'', ApiFn ''okta_remove_user_from_group''),
      (''okta_get_user_data'', ApiFn ''okta_get_user_data'')]"

definition cryptography_entries :: "(string \<times> host_target) list" where
  "cryptography_entries =
     [(''cryptography_aes_128_cbc_encrypt'', ApiFn ''cryptography_aes_128_cbc_encrypt''),
      (''cryptography_aes_128_cbc_decrypt'', ApiFn ''cryptography_aes_128_cbc_decrypt'')]"

definition github_entries :: "(string \<times> host_target) list" where
  "github_entries =
     [(''github_add_user_to_repo'', ApiFn ''github_add_user_to_repo''),
      (''github_remove_user_from_repo'', ApiFn ''github_remove_user_from_repo''),
      (''github_add_user_to_team'', ApiFn ''github_add_user_to_team''),
      (''github_remove_user_from_team'', ApiFn ''github_remove_user_from_team''),
      (''github_make_graphql_query'', ApiFn ''github_make_graphql_query''),
      (''github_make_advanced_graphql_query'', ApiFn ''github_make_advanced_graphql_query''),
      (''github_fetch_commit'', ApiFn ''github_fetch_commit''),
      (''github_list_files'', ApiFn ''github_list_files''),
      (''github_fetch_file_with_custom_media_type'', ApiFn ''github_fetch_file_with_custom_media_type''),
      (''github_list_fpat_requests_for_org'', ApiFn ''github_list_fpat_requests_for_org''),
      (''github_review_fpat_requests_for_org'', ApiFn ''github_review_fpat_requests_for_org''),
      (''github_get_repos_for_fpat'', ApiFn ''github_get_repos_for_fpat''),
      (''github_get_branch_protection_rules'', ApiFn ''github_get_branch_protection_rules''),
      (''github_get_branch_protection_ruleset'', ApiFn ''github_get_branch_protection_ruleset''),
      (''github_get_repository_collaborators'', ApiFn ''github_get_repository_collaborators''),
      (''github_get_custom_properties_values'', ApiFn ''github_get_custom_properties_values''),
      (''github_check_codeowners_file'', ApiFn ''github_check_codeowners_file''),
      (''github_update_branch_protection_rule'', ApiFn ''github_update_branch_protection_rule''),
      (''github_create_environment_for_repo'', ApiFn ''github_create_environment_for_repo''),
      (''github_configure_secret'', ApiFn ''github_configure_secret''),
      (''github_create_deployment_branch_protection_rule'', ApiFn ''github_create_deployment_branch_protection_rule''),
      (''github_search_code'', ApiFn ''github_search_code''),
      (''github_add_users_to_org_copilot'', ApiFn ''github_add_users_to_org_copilot''),
      (''github_remove_users_from_org_copilot'', ApiFn ''github_remove_users_from_org_copilot''),
      (''github_list_seats_in_org_copilot'', ApiFn ''github_list_seats_in_org_copilot''),
      (''github_trigger_repo_dispatch'', ApiFn ''github_trigger_repo_dispatch''),
      (''github_check_org_membership_of_user'', ApiFn ''github_check_org_membership_of_user''),
      (''github_comment_on_pull_request'', ApiFn ''github_comment_on_pull_request''),
      (''github_delete_deploy_key'', ApiFn ''github_delete_deploy_key''),
      (''github_create_deploy_key'', ApiFn ''github_create_deploy_key''),
      (''github_pull_request_request_reviewers'', ApiFn ''github_pull_request_request_reviewers''),
      (''github_submit_pull_request_review'', ApiFn ''github_submit_pull_request_review''),
      (''github_require_signed_commits'', ApiFn ''github_require_signed_commits''),
      (''github_get_weekly_commit_count'', ApiFn ''github_get_weekly_commit_count''),
      (''github_add_repo_to_team'', ApiFn ''github_add_repo_to_team''),
      (''github_remove_repo_from_team'', ApiFn ''github_remove_repo_from_team''),
      (''github_get_reference'', ApiFn ''github_get_reference''),
      (''github_create_reference'', ApiFn ''github_create_reference''),
      (''github_get_pull_requests'', ApiFn ''github_get_pull_requests''),
      (''github_create_pull_request'', ApiFn ''github_create_pull_request''),
      (''github_create_file'', ApiFn ''github_create_file''),
      (''github_get_repo_sbom'', ApiFn ''github_get_repo_sbom''),
      (''github_add_labels'', ApiFn ''github_add_labels''),
      (''github_get_user_id_from_username'', ApiFn ''github_get_user_id_from_username''),
      (''github_get_username_from_user_id'', ApiFn ''github_get_username_from_user_id''),
      (''github_get_repo_id_from_repo_name'', ApiFn ''github_get_repo_id_from_repo_name''),
      (''github_get_repo_name_from_repo_id'', ApiFn ''github_get_repo_name_from_repo_id''),
      (''github_get_repo_teams'', ApiFn ''github_get_repo_teams''),
      (''github_remove_outside_collaborator_from_org'', ApiFn ''github_remove_outside_collaborator_from_org''),
      (''github_add_repo_to_org_secret'', ApiFn ''github_add_repo_to_org_secret''),
      (''github_remove_repo_from_org_secret'', ApiFn ''github_remove_repo_from_org_secret''),
      (''github_list_org_secrets_for_repo'', ApiFn ''github_list_org_secrets_for_repo''),
      (''github_grant_repo_access_to_org_installation'', ApiFn ''github_grant_repo_access_to_org_installation''),
      (''github_remove_repo_access_from_org_installation'', ApiFn ''github_remove_repo_access_from_org_installation''),
      (''github_get_enterprise_license_status'', ApiFn ''github_get_enterprise_license_status'')]"

definition slack_entries :: "(string \<times> host_target) list" where
  "slack_entries =
     [(''slack_post_to_named_webhook'', ApiFn ''slack_post_to_named_webhook''),
      (''slack_post_to_arbitrary_webhook'', ApiFn ''slack_post_to_arbitrary_webhook''),
      (''slack_post_message'', ApiFn ''slack_post_message''),
      (''slack_views_open'', ApiFn ''slack_views_open''),
      (''slack_get_id_from_email'', ApiFn ''slack_get_id_from_email''),
      (''slack_get_presence'', ApiFn ''slack_get_presence''),
      (''slack_get_dnd'', ApiFn ''slack_get_dnd''),
      (''slack_user_info'', ApiFn ''slack_user_info''),
      (''slack_create_channel'', ApiFn ''slack_create_channel''),
      (''slack_invite_to_channel'', ApiFn ''slack_invite_to_channel''),
      (''slack_update_message'', ApiFn ''slack_update_message''),
      (''slack_remove_from_channel'', ApiFn ''slack_remove_from_channel''),
      (''slack_schedule_message'', ApiFn ''slack_schedule_message''),
      (''slack_delete_scheduled_message'', ApiFn ''slack_delete_scheduled_message''),
      (''slack_conversations_history'', ApiFn ''slack_conversations_history'')]"

definition general_entries :: "(string \<times> host_target) list" where
  "general_entries =
     [(''general_simple_json_post_request'', ApiFn ''general_simple_json_post_request''),
      (''general_make_named_request'', ApiFn ''general_make_named_request''),
      (''general_retrieve_tls_certificate_with_sni'', ApiFn ''general_retrieve_tls_certificate_with_sni'')]"

definition jira_entries :: "(string \<times> host_target) list" where
  "jira_entries =
     [(''jira_create_issue'', ApiFn ''jira_create_issue''),
      (''jira_get_issue'', ApiFn ''jira_get_issue''),
      (''jira_update_issue'', ApiFn ''jira_update_issue''),
      (''jira_get_user'', ApiFn ''jira_get_user''),
      (''jira_post_comment'', ApiFn ''jira_post_comment''),
      (''jira_search_issues'', ApiFn ''jira_search_issues'')]"

definition aws_entries :: "(string \<times> host_target) list" where
  "aws_entries =
     [(''aws_kms_generate_mac'', ApiFn ''aws_kms_generate_mac''),
      (''aws_kms_verify_mac'', ApiFn ''aws_kms_verify_mac''),
      (''aws_kms_sign_arbitrary_message'', ApiFn ''aws_kms_sign_arbitrary_message''),
      (''aws_kms_get_public_key'', ApiFn ''aws_kms_get_public_key''),
      (''aws_dynamodb_put_item'', ApiFn ''aws_dynamodb_put_item''),
      (''aws_dynamodb_delete_item'', ApiFn ''aws_dynamodb_delete_item''),
      (''aws_dynamodb_query'', ApiFn ''aws_dynamodb_query''),
      (''aws_s3_delete_object'', ApiFn ''aws_s3_delete_object''),
      (''aws_s3_get_object'', ApiFn ''aws_s3_get_object''),
      (''aws_s3_get_object_attributes'', ApiFn ''aws_s3_get_object_attributes''),
      (''aws_s3_list_objects'', ApiFn ''aws_s3_list_objects''),
      (''aws_s3_list_object_versions'', ApiFn ''aws_s3_list_object_versions''),
      (''aws_s3_put_object'', ApiFn ''aws_s3_put_object''),
      (''aws_s3_put_object_tags'', ApiFn ''aws_s3_put_object_tags'')]"

definition gcp_entries :: "(string \<times> host_target) list" where
  "gcp_entries =
     [(''gcp_google_docs_upload_file'', ApiFn ''gcp_google_docs_upload_file''),
      (''gcp_google_docs_copy_file'', ApiFn ''gcp_google_docs_copy_file''),
      (''gcp_google_docs_create_folder'', ApiFn ''gcp_google_docs_create_folder''),
      (''gcp_google_docs_create_doc_from_markdown'', ApiFn ''gcp_google_docs_create_doc_from_markdown''),
      (''gcp_google_docs_create_sheet_from_csv'', ApiFn ''gcp_google_docs_create_sheet_from_csv''),
      (''gcp_bigquery_query_table'', ApiFn ''gcp_bigquery_query_table'')]"

definition pagerduty_entries :: "(string \<times> host_target) list" where
  "pagerduty_entries =
     [(''pagerduty_trigger_incident'', ApiFn ''pagerduty_trigger_incident''),
      (''pagerduty_get_incident_alerts'', ApiFn ''pagerduty_get_incident_alerts'')]"

definition rustica_entries :: "(string \<times> host_target) list" where
  "rustica_entries =
     [(''rustica_new_mtls_cert'', ApiFn ''rustica_new_mtls_cert'')]"

definition yubikey_entries :: "(string \<times> host_target) list" where
  "yubikey_entries =
     [(''yubikey_verify_otp'', ApiFn ''yubikey_verify_otp'')]"

definition splunk_entries :: "(string \<times> host_target) list" where
  "splunk_entries =
     [(''splunk_post_hec'', ApiFn ''splunk_post_hec'')]"

definition web_entries :: "(string \<times> host_target) list" where
  "web_entries =
     [(''web_issue_jwt'', ApiFn ''web_issue_jwt'')]"

definition blockchain_evm_entries :: "(string \<times> host_target) list" where
  "blockchain_evm_entries =
     [(''blockchain_evm_get_transaction_by_hash'', ApiFn ''blockchain_evm_get_transaction_by_hash''),
      (''blockchain_evm_get_transaction_receipt'', ApiFn ''blockchain_evm_get_transaction_receipt''),
      (''blockchain_evm_send_raw_transaction'', ApiFn ''blockchain_evm_send_raw_transaction''),
      (''blockchain_evm_get_transaction_count'', ApiFn ''blockchain_evm_get_transaction_count''),
      (''blockchain_evm_get_balance'', ApiFn ''blockchain_evm_get_balance''),
      (''blockchain_evm_estimate_gas'', ApiFn ''blockchain_evm_estimate_gas''),
      (''blockchain_evm_eth_call'', ApiFn ''blockchain_evm_eth_call''),
      (''blockchain_evm_gas_price'', ApiFn ''blockchain_evm_gas_price''),
      (''blockchain_evm_get_logs'', ApiFn ''blockchain_evm_get_logs''),
      (''blockchain_evm_get_block'', ApiFn ''blockchain_evm_get_block''),
      (''blockchain_evm_get_fee_history'', ApiFn ''blockchain_evm_get_fee_history'')]"

definition blockchain_solana_entries :: "(string \<times> host_target) list" where
  "blockchain_solana_entries =
     [(''blockchain_solana_send_signed_transaction'', ApiFn ''blockchain_solana_send_signed_transaction''),
      (''blockchain_solana_get_balance'', ApiFn ''blockchain_solana_get_balance''),
      (''blockchain_solana_get_account_info'', ApiFn ''blockchain_solana_get_account_info''),
      (''blockchain_solana_get_slot'', ApiFn ''blockchain_solana_get_slot''),
      (''blockchain_solana_get_latest_blockhash'', ApiFn ''blockchain_solana_get_latest_blockhash''),
      (''blockchain_solana_get_transaction_count'', ApiFn ''blockchain_solana_get_transaction_count''),
      (''blockchain_solana_get_transaction'', ApiFn ''blockchain_solana_get_transaction''),
      (''blockchain_solana_get_signature_statuses'', ApiFn ''blockchain_solana_get_signature_statuses''),
      (''blockchain_solana_get_block'', ApiFn ''blockchain_solana_get_block''),
      (''blockchain_solana_get_multiple_accounts'', ApiFn ''blockchain_solana_get_multiple_accounts''),
      (''blockchain_solana_get_program_accounts'', ApiFn ''blockchain_solana_get_program_accounts''),
      (''blockchain_solana_get_token_accounts_by_owner'', ApiFn ''blockchain_solana_get_token_accounts_by_owner''),
      (''blockchain_solana_get_token_account_balance'', ApiFn ''blockchain_solana_get_token_account_balance''),
      (''blockchain_solana_get_token_supply'', ApiFn ''blockchain_solana_get_token_supply''),
      (''blockchain_solana_get_minimum_balance_for_rent_exemption'', ApiFn ''blockchain_solana_get_minimum_balance_for_rent_exemption''),
      (''blockchain_solana_get_fee_for_message'', ApiFn ''blockchain_solana_get_fee_for_message''),
      (''blockchain_solana_get_recent_prioritization_fees'', ApiFn ''blockchain_solana_get_recent_prioritization_fees''),
      (''blockchain_solana_simulate_transaction'', ApiFn ''blockchain_solana_simulate_transaction''),
      (''blockchain_solana_get_signatures_for_address'', ApiFn ''blockchain_solana_get_signatures_for_address'')]"

definition bloom_filter_entries :: "(string \<times> host_target) list" where
  "bloom_filter_entries =
     [(''bloom_filter_build_with_items'', ApiFn ''bloom_filter_build_with_items'')]"

definition with_env_functions :: "(string \<times> host_target) list" where
  "with_env_functions = plaid_entries @ npm_entries @ okta_entries @ cryptography_entries @ github_entries @ slack_entries @ general_entries @ jira_entries @ aws_entries
     @ gcp_entries @ pagerduty_entries @ rustica_entries @ yubikey_entries @ splunk_entries @ web_entries @ blockchain_evm_entries @ blockchain_solana_entries @ bloom_filter_entries"

definition without_env_functions :: "(string \<times> host_target) list" where
  "without_env_functions = [(''get_time'', HostFn ''internal::get_time'')]"

definition to_api_function :: "string \<Rightarrow> host_target option" where
  "to_api_function name = map_of (with_env_functions @ without_env_functions) name"

definition is_known_api_function :: "string \<Rightarrow> bool" where
  "is_known_api_function name \<longleftrightarrow>
     list_ex (\<lambda>(n, t). n = name) with_env_functions \<or> list_ex (\<lambda>(n, t). n = name) without_env_functions"

subsection \<open>Linking\<close>

datatype link_error = NoSuchFunction string

definition is_bindgen_import :: "string \<Rightarrow> bool" where
  "is_bindgen_import name \<longleftrightarrow>
     prefix ''__wbindgen'' name \<or> prefix ''__wbg_wbindgen'' name \<or> prefix ''__wbg___wbindgen'' name"

fun link_functions ::
  "string list \<Rightarrow> (string, host_target) hashmap \<Rightarrow> link_error + (string, host_target) hashmap" where
  "link_functions [] exports = Inr exports"
| "link_functions (function_name # fnames) exports =
     (if is_bindgen_import function_name then link_functions fnames exports
      else case to_api_function function_name of
             Some func \<Rightarrow> link_functions fnames (hm_insert function_name func exports)
           | None \<Rightarrow> Inl (NoSuchFunction function_name))"

definition link_functions_to_module :: "string list \<Rightarrow> link_error + (string, host_target) hashmap" where
  "link_functions_to_module fnames = link_functions fnames []"

text \<open>The placeholder exports for \<^verbatim>\<open>wasm-bindgen\<close>.\<close>

definition create_bindgen_placeholder :: "string list \<Rightarrow> (string, host_target) hashmap" where
  "create_bindgen_placeholder fnames =
     fold (\<lambda>name exports.
        if prefix ''__wbg_wbindgenthrow_'' name \<or> prefix ''__wbg___wbindgen_throw_'' name
        then hm_insert name (HostFn ''fake_wbindgen_throw'') exports else exports)
       fnames
       (hm_insert ''__wbindgen_throw'' (HostFn ''fake_wbindgen_throw'')
          (hm_insert ''__wbindgen_describe'' (HostFn ''fake_wbindgen_describe'') []))"

definition create_bindgen_externref_xform :: "(string, host_target) hashmap" where
  "create_bindgen_externref_xform =
     hm_insert ''__wbindgen_externref_table_set_null'' (HostFn ''fake_wbindgen_externref_table_set_null'')
       (hm_insert ''__wbindgen_externref_table_grow'' (HostFn ''fake_wbindgen_externref_table_grow'') [])"

lemmas api_decl_lists = general_functions_def github_functions_def cryptography_functions_def jira_functions_def aws_functions_def gcp_functions_def npm_functions_def okta_functions_def pagerduty_functions_def rustica_functions_def slack_functions_def splunk_functions_def yubikey_functions_def web_functions_def blockchain_evm_functions_def blockchain_solana_functions_def bloom_filter_functions_def
lemmas api_entry_lists = plaid_entries_def npm_entries_def okta_entries_def cryptography_entries_def github_entries_def slack_entries_def general_entries_def jira_entries_def aws_entries_def gcp_entries_def pagerduty_entries_def rustica_entries_def yubikey_entries_def splunk_entries_def web_entries_def blockchain_evm_entries_def blockchain_solana_entries_def bloom_filter_entries_def

subsection \<open>The table against the declarations\<close>

definition decl_entry :: "api_decl \<Rightarrow> string \<times> host_target" where
  "decl_entry d = (api_decl_name d, ApiFn (api_decl_name d))"

definition registers :: "api_decl list \<Rightarrow> (string \<times> host_target) list \<Rightarrow> bool" where
  "registers ds es \<longleftrightarrow> set (map decl_entry ds) = set es"

lemma all_registered:
  "registers general_functions general_entries"
  "registers github_functions github_entries"
  "registers cryptography_functions cryptography_entries"
  "registers jira_functions jira_entries"
  "registers aws_functions aws_entries"
  "registers gcp_functions gcp_entries"
  "registers npm_functions npm_entries"
  "registers okta_functions okta_entries"
  "registers pagerduty_functions pagerduty_entries"
  "registers rustica_functions rustica_entries"
  "registers slack_functions slack_entries"
  "registers splunk_functions splunk_entries"
  "registers yubikey_functions yubikey_entries"
  "registers web_functions web_entries"
  "registers blockchain_evm_functions blockchain_evm_entries"
  "registers blockchain_solana_functions blockchain_solana_entries"
  "registers bloom_filter_functions bloom_filter_entries"
  unfolding registers_def
  by (force simp: decl_entry_def api_decl_lists api_entry_lists api_decl_name_def api_fn_def sub_fn_def)+

lemma plaid_entries_host: "list_all (\<lambda>e. \<exists>f. snd e = HostFn f) (plaid_entries @ without_env_functions)"
  by (simp add: plaid_entries_def without_env_functions_def)

definition names_avoid :: "(string \<times> host_target) list \<Rightarrow> bool" where
  "names_avoid es \<longleftrightarrow> list_all (\<lambda>(n, t). list_all (\<lambda>(m, t'). n \<noteq> m) (plaid_entries @ without_env_functions)) es"

lemma all_avoid:
  "names_avoid general_entries"
  "names_avoid github_entries"
  "names_avoid cryptography_entries"
  "names_avoid jira_entries"
  "names_avoid aws_entries"
  "names_avoid gcp_entries"
  "names_avoid npm_entries"
  "names_avoid okta_entries"
  "names_avoid pagerduty_entries"
  "names_avoid rustica_entries"
  "names_avoid slack_entries"
  "names_avoid splunk_entries"
  "names_avoid yubikey_entries"
  "names_avoid web_entries"
  "names_avoid blockchain_evm_entries"
  "names_avoid blockchain_solana_entries"
  "names_avoid bloom_filter_entries"
  by (simp_all add: names_avoid_def api_entry_lists without_env_functions_def)

lemma registers_append: "registers ds es \<Longrightarrow> registers ds' es' \<Longrightarrow> registers (ds @ ds') (es @ es')"
  by (auto simp: registers_def image_Un)

lemma registers_set: "registers ds es \<Longrightarrow> set es = decl_entry ` set ds"
  by (simp add: registers_def)

lemma names_avoid_append: "names_avoid es \<Longrightarrow> names_avoid es' \<Longrightarrow> names_avoid (es @ es')"
  by (simp add: names_avoid_def)

definition api_entries :: "(string \<times> host_target) list" where
  "api_entries = general_entries @ github_entries @ cryptography_entries @ jira_entries @ aws_entries @ gcp_entries @ npm_entries @ okta_entries @ pagerduty_entries
     @ rustica_entries @ slack_entries @ splunk_entries @ yubikey_entries @ web_entries @ blockchain_evm_entries @ blockchain_solana_entries @ bloom_filter_entries"

lemma api_entries_registered: "registers api_declarations api_entries"
  unfolding api_declarations_def api_entries_def by (intro registers_append all_registered)

lemma api_entries_avoid: "names_avoid api_entries"
  unfolding api_entries_def by (intro names_avoid_append all_avoid)

lemma with_env_functions_set: "set with_env_functions = set plaid_entries \<union> decl_entry ` set api_declarations"
proof -
  have "set with_env_functions = set plaid_entries \<union> set api_entries"
    unfolding with_env_functions_def api_entries_def set_append by blast
  then show ?thesis by (simp add: registers_set [OF api_entries_registered])
qed

lemma host_name_not_declared:
  assumes "(m, t) \<in> set plaid_entries \<or> (m, t) \<in> set without_env_functions"
  shows "m \<notin> api_decl_name ` set api_declarations"
proof
  assume "m \<in> api_decl_name ` set api_declarations"
  then obtain d where "decl_entry d \<in> set api_entries" "m = api_decl_name d"
    using registers_set [OF api_entries_registered] by auto
  then show False
    using api_entries_avoid assms by (fastforce simp: names_avoid_def list_all_iff decl_entry_def)
qed

lemma host_entry_HostFn:
  "(m, t) \<in> set plaid_entries \<or> (m, t) \<in> set without_env_functions \<Longrightarrow> \<exists>f. t = HostFn f"
  using plaid_entries_host by (auto simp: list_all_iff dest: bspec)

lemma is_known_iff: "is_known_api_function name \<longleftrightarrow> to_api_function name \<noteq> None"
proof -
  have "map_of xs name \<noteq> None \<longleftrightarrow> list_ex (\<lambda>(n, t). n = name) xs" for xs :: "(string \<times> host_target) list"
    by (induction xs) auto
  from this [of "with_env_functions @ without_env_functions"] show ?thesis
    by (simp add: is_known_api_function_def to_api_function_def)
qed

lemma to_api_function_ApiFn:
  "to_api_function n = Some (ApiFn f) \<longleftrightarrow> f = n \<and> n \<in> api_decl_name ` set api_declarations"
proof
  assume "to_api_function n = Some (ApiFn f)"
  then have "(n, ApiFn f) \<in> set (with_env_functions @ without_env_functions)"
    unfolding to_api_function_def by (rule map_of_SomeD)
  then show "f = n \<and> n \<in> api_decl_name ` set api_declarations"
    using host_entry_HostFn [of n "ApiFn f"] by (auto simp: with_env_functions_set decl_entry_def)
next
  assume n: "f = n \<and> n \<in> api_decl_name ` set api_declarations"
  then have "is_known_api_function n"
    by (auto simp: is_known_api_function_def list_ex_iff with_env_functions_set decl_entry_def)
  then obtain t where t: "to_api_function n = Some t" by (auto simp: is_known_iff)
  then have "(n, t) \<in> set (with_env_functions @ without_env_functions)"
    unfolding to_api_function_def by (rule map_of_SomeD)
  then have "t = ApiFn n"
    using n host_name_not_declared [of n t] by (auto simp: with_env_functions_set decl_entry_def)
  then show "to_api_function n = Some (ApiFn f)" using n t by simp
qed

lemma link_functions_eq:
  "link_functions fnames exports =
     (case List.find (\<lambda>f. \<not> is_bindgen_import f \<and> \<not> is_known_api_function f) fnames of
        Some f \<Rightarrow> Inl (NoSuchFunction f)
      | None \<Rightarrow> Inr (fold (\<lambda>f. hm_insert f (the (to_api_function f)))
                  (filter (\<lambda>f. \<not> is_bindgen_import f) fnames) exports))"
  by (induction fnames arbitrary: exports) (auto simp: is_known_iff split: option.splits)

lemma fold_hm_insert_get:
  "hm_get (fold (\<lambda>f. hm_insert f (g f)) fs exports) f =
     (if f \<in> set fs then Some (g f) else hm_get exports f)"
  by (induction fs arbitrary: exports) auto

lemma api_prologue_blocked:
  assumes "test_mode (env_module env)" and "\<not> allow_in_test_mode d"
  shows "\<exists>e. api_prologue W A d env p n = Inl e \<and> e \<in> {InternalApiError, TestMode}"
  using assms by (simp add: api_prologue_def Let_def)

subsection \<open>Services\<close>

text \<open>
  How a modelled service is put behind the host functions: \<open>host_call\<close> is the host function of a declaration,
  \<open>with_service\<close> makes the functions of one service, listed by name, answer the calls to it.
\<close>

definition host_call ::
  "'m wasm_ops \<Rightarrow> 'w api_ops \<Rightarrow> api_decl \<Rightarrow> ('m, 'd, 'c, 'q) env \<Rightarrow> u32 \<Rightarrow> u32 \<Rightarrow> u32 \<Rightarrow> u32 \<Rightarrow> 'w
     \<Rightarrow> i32 \<times> ('m, 'd, 'c, 'q) env \<times> 'w" where
  "host_call W A d env p n rp rn w =
     (if decl_error_buffer d then api_function_buffer W A d env p n rp rn w else api_function_int W A d env p n w)"

text \<open>The scopes of access and the lists of rules several services use.\<close>

datatype access_scope = Read | Write

definition listed :: "(string, string list) hashmap \<Rightarrow> string \<Rightarrow> plaid_module \<Rightarrow> bool" where
  "listed m k pm = (case hm_get m k of Some rules \<Rightarrow> mod_name pm \<in> set rules | None \<Rightarrow> False)"

definition with_service ::
  "string \<Rightarrow> string option \<Rightarrow> (string \<Rightarrow> plaid_module \<Rightarrow> (string \<times> ('w, u32) api_call) list)
     \<Rightarrow> (string \<Rightarrow> plaid_module \<Rightarrow> (string \<times> ('w, string) api_call) list) \<Rightarrow> 'w api_ops \<Rightarrow> 'w api_ops" where
  "with_service api sub ints strings A = A\<lparr>
     invoke_int := (\<lambda>d params pm w.
       case (if decl_api d = api \<and> decl_sub_module d = sub then map_of (ints params pm) (decl_function d) else None) of
         Some call \<Rightarrow> call w | None \<Rightarrow> invoke_int A d params pm w),
     invoke_string := (\<lambda>d params pm w.
       case (if decl_api d = api \<and> decl_sub_module d = sub then map_of (strings params pm) (decl_function d) else None) of
         Some call \<Rightarrow> call w | None \<Rightarrow> invoke_string A d params pm w)\<rparr>"

lemma api_function_world:
  assumes "host_call W A d env p n rp rn w = (code, env', w')"
  shows "w' = w \<or> (\<exists>params. (test_mode (env_module env) \<longrightarrow> allow_in_test_mode d)
    \<and> w' = (if decl_error_buffer d then snd (invoke_string A d params (env_module env) w)
            else snd (invoke_int A d params (env_module env) w)))"
proof (cases "api_prologue W A d env p n")
  case (Inl e)
  then show ?thesis using assms by (simp add: host_call_def api_function_int_def api_function_buffer_def split: if_splits)
next
  case (Inr x)
  obtain mv params where x: "x = (mv, params)" by force
  have allowed: "test_mode (env_module env) \<longrightarrow> allow_in_test_mode d"
    using api_prologue_blocked [of env d W A p n] Inr by auto
  have "w' = (if decl_error_buffer d then snd (invoke_string A d params (env_module env) w)
      else snd (invoke_int A d params (env_module env) w))"
    using assms Inr
    by (auto simp: host_call_def x api_function_int_def api_function_buffer_def
        split: if_splits prod.splits sum.splits api_error.splits)
  with allowed show ?thesis by blast
qed

text \<open>
  A service whose functions each keep to the steps \<open>R name\<close> keeps to them when called by a rule.
\<close>

lemma host_call_service:
  assumes "decl_api d = api \<and> decl_sub_module d = sub" and "host_call W (with_service api sub ints strings A) d env p n rp rn w = (code, env', w')"
    and "\<forall>params. \<not> decl_error_buffer d \<longrightarrow> (\<exists>call. map_of (ints params (env_module env)) (decl_function d) = Some call \<and> R\<^sup>*\<^sup>* w (snd (call w)))"
    and "\<forall>params. decl_error_buffer d \<longrightarrow> (\<exists>call. map_of (strings params (env_module env)) (decl_function d) = Some call \<and> R\<^sup>*\<^sup>* w (snd (call w)))"
  shows "R\<^sup>*\<^sup>* w w' \<and> (test_mode (env_module env) \<longrightarrow> w' = w \<or> allow_in_test_mode d)"
proof (cases "w' = w")
  case True
  then show ?thesis by simp
next
  case False
  then obtain params where ok: "test_mode (env_module env) \<longrightarrow> allow_in_test_mode d"
    and w': "w' = (if decl_error_buffer d then snd (invoke_string (with_service api sub ints strings A) d params (env_module env) w)
            else snd (invoke_int (with_service api sub ints strings A) d params (env_module env) w))"
    using api_function_world [OF assms(2)] by blast
  have "R\<^sup>*\<^sup>* w w'"
    using assms(1) assms(3,4) [THEN spec, of params] w' by (auto simp: with_service_def)
  with ok show ?thesis by blast
qed

text \<open>
  The interface of a service: the functions that answer a list of declarations, and the steps \<open>R d pm\<close> which the
  function of \<open>d\<close> takes for a rule \<open>pm\<close>. Put behind the host functions, the service keeps to those steps, and in
  test mode it acts only through the functions allowed there.
\<close>

locale service =
  fixes api :: string and sub :: "string option"
    and ints :: "string \<Rightarrow> plaid_module \<Rightarrow> (string \<times> ('w, u32) api_call) list"
    and strings :: "string \<Rightarrow> plaid_module \<Rightarrow> (string \<times> ('w, string) api_call) list"
    and decls :: "api_decl list"
    and R :: "api_decl \<Rightarrow> plaid_module \<Rightarrow> 'w \<Rightarrow> 'w \<Rightarrow> bool"
  assumes declared: "d \<in> set decls \<Longrightarrow> decl_api d = api \<and> decl_sub_module d = sub"
    and ints_keep: "d \<in> set decls \<Longrightarrow> \<not> decl_error_buffer d \<Longrightarrow>
      \<exists>call. map_of (ints params pm) (decl_function d) = Some call \<and> does (R d pm) call (\<lambda>_. True)"
    and strings_keep: "d \<in> set decls \<Longrightarrow> decl_error_buffer d \<Longrightarrow>
      \<exists>call. map_of (strings params pm) (decl_function d) = Some call \<and> does (R d pm) call (\<lambda>_. True)"
begin

lemma host_call_keeps:
  assumes "d \<in> set decls"
  shows "(R d (env_module env))\<^sup>*\<^sup>* w (snd (snd (host_call W (with_service api sub ints strings A) d env p n rp rn w)))
    \<and> (test_mode (env_module env) \<longrightarrow>
         snd (snd (host_call W (with_service api sub ints strings A) d env p n rp rn w)) = w \<or> allow_in_test_mode d)"
proof -
  obtain code env' w' where call: "host_call W (with_service api sub ints strings A) d env p n rp rn w = (code, env', w')"
    by (rule prod_cases3)
  have "(R d (env_module env))\<^sup>*\<^sup>* w w' \<and> (test_mode (env_module env) \<longrightarrow> w' = w \<or> allow_in_test_mode d)"
  proof (rule host_call_service [OF declared [OF assms] call])
    show "\<forall>params. \<not> decl_error_buffer d \<longrightarrow>
        (\<exists>call. map_of (ints params (env_module env)) (decl_function d) = Some call \<and> (R d (env_module env))\<^sup>*\<^sup>* w (snd (call w)))"
      using ints_keep [OF assms] does_world by metis
    show "\<forall>params. decl_error_buffer d \<longrightarrow>
        (\<exists>call. map_of (strings params (env_module env)) (decl_function d) = Some call \<and> (R d (env_module env))\<^sup>*\<^sup>* w (snd (call w)))"
      using strings_keep [OF assms] does_world by metis
  qed
  then show ?thesis by (simp add: call)
qed

end

text \<open>
  A service whose functions that are allowed in test mode only read: \<open>S True\<close> are its steps that read, \<open>S False\<close> all its
  steps. Then a rule in test mode makes only steps that read.
\<close>

locale read_only_service = service api sub ints strings decls "\<lambda>d. S (allow_in_test_mode d)"
  for api sub ints strings decls and S :: "bool \<Rightarrow> plaid_module \<Rightarrow> 'w \<Rightarrow> 'w \<Rightarrow> bool" +
  assumes reads: "S True pm w w' \<Longrightarrow> S False pm w w'"
begin

lemma host_call_steps:
  assumes "d \<in> set decls"
  shows "(S (test_mode (env_module env)) (env_module env))\<^sup>*\<^sup>* w
    (snd (snd (host_call W (with_service api sub ints strings A) d env p n rp rn w)))"
proof -
  define w' where "w' = snd (snd (host_call W (with_service api sub ints strings A) d env p n rp rn w))"
  have keeps: "(S (allow_in_test_mode d) (env_module env))\<^sup>*\<^sup>* w w'" "test_mode (env_module env) \<longrightarrow> w' = w \<or> allow_in_test_mode d"
    using host_call_keeps [OF assms, of env w W A p n rp rn] unfolding w'_def by blast+
  have "(S (test_mode (env_module env)) (env_module env))\<^sup>*\<^sup>* w w'"
  proof (cases "test_mode (env_module env) \<longrightarrow> allow_in_test_mode d")
    case True
    then have "S (allow_in_test_mode d) (env_module env) \<le> S (test_mode (env_module env)) (env_module env)"
      using reads by (cases "allow_in_test_mode d"; cases "test_mode (env_module env)") auto
    then show ?thesis using keeps(1) rtranclp_mono by blast
  next
    case False
    then show ?thesis using keeps(2) by simp
  qed
  then show ?thesis by (simp add: w'_def)
qed

end

lemma host_call_other_service:
  assumes "\<not> (decl_api d = api \<and> decl_sub_module d = sub)"
  shows "host_call W (with_service api sub ints strings A) d env p n rp rn w = host_call W A d env p n rp rn w"
proof -
  have "invoke_int (with_service api sub ints strings A) d = invoke_int A d"
      "invoke_string (with_service api sub ints strings A) d = invoke_string A d"
    by (simp_all add: with_service_def fun_eq_iff assms)
  moreover have "api_prologue W (with_service api sub ints strings A) d env p n = api_prologue W A d env p n"
  proof -
    have "log_function_call (with_service api sub ints strings A) = log_function_call A"
        "api_configured (with_service api sub ints strings A) = api_configured A"
        "sub_module_configured (with_service api sub ints strings A) = sub_module_configured A"
      by (simp_all add: with_service_def)
    then show ?thesis by (simp only: api_prologue_def)
  qed
  ultimately show ?thesis by (simp only: host_call_def api_function_int_def api_function_buffer_def)
qed

subsection \<open>Properties\<close>

text \<open>
  C11. The table of host functions and the declarations agree: a name is linked to an API function
  exactly when it is the generated name of a declared function, and then to that very function. No
  declaration is missing from the table, misspelt in it, or shadowed by one of the runtime's own
  functions.
\<close>

theorem api_table_matches_declarations:
  "to_api_function n = Some (ApiFn f) \<longleftrightarrow> f = n \<and> n \<in> set (map api_decl_name api_declarations)"
  by (simp add: to_api_function_ApiFn)

text \<open>
  C12. Test mode. A module in test mode that calls a function which is not allowed there gets an
  error, and the outside world, the environment and the guest's memory are as before: the service is
  never invoked.
\<close>

theorem test_mode_blocks_effects:
  assumes "test_mode (env_module env)" and "\<not> allow_in_test_mode d"
  shows "\<exists>code \<in> {-4, -11}. api_function_int W A d env p n w = (code, env, w)
      \<and> api_function_buffer W A d env p n rp rn w = (code, env, w)"
  using api_prologue_blocked [OF assms, of W A p n]
  by (auto simp: api_function_int_def api_function_buffer_def)

definition sample_apis :: "nat api_ops" where
  "sample_apis =
     \<lparr>log_function_call = (\<lambda>_ _ _. True), api_configured = (\<lambda>_. True), sub_module_configured = (\<lambda>_ _. True),
      invoke_int = (\<lambda>_ _ _ w. (Inr 0, w + 1)), invoke_string = (\<lambda>_ _ _ w. (Inr [], w + 1))\<rparr>"

definition idle_services :: "'w api_ops" where
  "idle_services =
     \<lparr>log_function_call = (\<lambda>_ _ _. True), api_configured = (\<lambda>_. True), sub_module_configured = (\<lambda>_ _. True),
      invoke_int = (\<lambda>_ _ _ w. (Inr 0, w)), invoke_string = (\<lambda>_ _ _ w. (Inr [], w))\<rparr>"

definition sample_caller :: "(bytes, unit, unit, unit) env" where
  "sample_caller = sample_env\<lparr>env_memory := Some [1, 1, 1, 1]\<rparr>"

theorem test_mode_blocks_effects_witness:
  "\<exists>code \<in> {-4, -11}. api_function_int flat_ops sample_apis (api_fn ''github'' ''add_user_to_repo'' False DISALLOW_IN_TEST_MODE)
      (sample_env\<lparr>env_module := (sample_module ''m.wasm'' Unlimited 0)\<lparr>test_mode := True\<rparr>\<rparr>) 0 0 (7 :: nat) =
    (code, sample_env\<lparr>env_module := (sample_module ''m.wasm'' Unlimited 0)\<lparr>test_mode := True\<rparr>\<rparr>, 7)"
  using test_mode_blocks_effects [of "sample_env\<lparr>env_module := (sample_module ''m.wasm'' Unlimited 0)\<lparr>test_mode := True\<rparr>\<rparr>"
      "api_fn ''github'' ''add_user_to_repo'' False DISALLOW_IN_TEST_MODE" flat_ops sample_apis 0 0 7 0 0]
  by (auto simp: api_fn_def DISALLOW_IN_TEST_MODE_def)

lemma error_code_range: "-16 \<le> error_code e \<and> error_code e < 0"
  by (cases e) simp_all

lemma api_error_code:
  "(case e of ApiTestMode \<Rightarrow> (error_code TestMode, env, w) | _ \<Rightarrow> (error_code InternalApiError, env, w)) =
     (error_code (if e = ApiTestMode then TestMode else InternalApiError), env, w)"
  by (cases e) simp_all

lemma api_function_int_cases:
  assumes "api_function_int W A d env p n w = (code, env', w')"
  shows "env' = env \<and> ((\<exists>x :: u32. code = sint x) \<or> (\<exists>e. code = error_code e))"
  using assms unfolding api_function_int_def api_error_code
  by (auto simp del: error_code.simps split: sum.splits prod.splits)

lemma api_function_buffer_cases:
  assumes "api_function_buffer W A d env p n rp rn w = (code, env', w')"
  obtains (refused) e where "code = error_code e" "env' = env"
  | (answered) mem params answer r m where "api_prologue W A d env p n = Inr (mem, params)"
      "invoke_string A d params (env_module env) w = (Inr answer, w')" "length answer \<le> unat rn"
      "safely_write_data_back W mem (as_bytes answer) rp rn = (Inr r, m)" "code = as_i32 (length answer)" "env' = env\<lparr>env_memory := Some m\<rparr>"
proof (cases "api_prologue W A d env p n")
  case (Inl e)
  then show ?thesis using assms by (intro refused [of e]) (simp_all add: api_function_buffer_def)
next
  case (Inr x)
  obtain mem params where x: "x = (mem, params)" by force
  obtain a v where a: "invoke_string A d params (env_module env) w = (a, v)" by force
  show ?thesis
  proof (cases a)
    case (Inl e)
    then show ?thesis using assms Inr \<open>api_prologue W A d env p n = Inr x\<close>
      by (intro refused [of "if e = ApiTestMode then TestMode else InternalApiError"])
        (simp_all add: api_function_buffer_def x a api_error_code del: error_code.simps)
  next
    case (Inr answer)
    then show ?thesis using assms \<open>api_prologue W A d env p n = Inr x\<close> refused answered [of mem params answer]
      by (simp add: api_function_buffer_def x a del: error_code.simps split: if_splits prod.splits sum.splits; metis)
  qed
qed



text \<open>
  Linking succeeds exactly when every import is a \<^verbatim>\<open>wasm-bindgen\<close> placeholder or a known host
  function; then the exports are exactly the imports that are not placeholders, each bound to its
  function in the table. Otherwise the first unknown import is reported.
\<close>

theorem link_functions_correct:
  "link_functions_to_module fnames =
     (case List.find (\<lambda>f. \<not> is_bindgen_import f \<and> \<not> is_known_api_function f) fnames of
        Some f \<Rightarrow> Inl (NoSuchFunction f)
      | None \<Rightarrow> Inr (fold (\<lambda>f. hm_insert f (the (to_api_function f)))
                  (filter (\<lambda>f. \<not> is_bindgen_import f) fnames) []))
   \<and> hm_get (fold (\<lambda>f. hm_insert f (the (to_api_function f)))
        (filter (\<lambda>f. \<not> is_bindgen_import f) fnames) []) f =
      (if f \<in> set fnames \<and> \<not> is_bindgen_import f then Some (the (to_api_function f)) else None)"
  by (simp add: link_functions_to_module_def link_functions_eq fold_hm_insert_get)

end
