(* ===== verification/Plaid_Limits.thy ===== *)
theory Plaid_Limits
  imports Plaid_Env
begin

text \<open>
  What bounds a module and who may install one: limits and their overrides
  (\<^verbatim>\<open>runtime/plaid/src/loader/utils.rs\<close> and \<^verbatim>\<open>loader/mod.rs\<close>), the memory tunables (\<^verbatim>\<open>loader/limits.rs\<close>)
  and signature checks (\<^verbatim>\<open>loader/signing.rs\<close>). The file system, and the cryptography of \<^verbatim>\<open>ring\<close> and
  \<^verbatim>\<open>sshcerts\<close>, are parameters.
\<close>

subsection \<open>Limits\<close>

record limited_amount =
  la_default :: u64
  la_log_type :: "(string, u64) hashmap"
  la_module_overrides :: "(string, u64) hashmap"

record limitable_amount =
  li_default :: limit_value
  li_log_type :: "(string, limit_value) hashmap"
  li_module_overrides :: "(string, limit_value) hashmap"

definition deserialize_limited_amount :: "limited_amount \<Rightarrow> string + limited_amount" where
  "deserialize_limited_amount raw =
     (if la_default raw = 0 then Inl ''`default` cannot be zero''
      else case List.find (\<lambda>(_, v). v = 0) (la_log_type raw) of
        Some (k, _) \<Rightarrow> Inl (''`log_type.'' @ k @ ''` cannot be zero'')
      | None \<Rightarrow>
          (case List.find (\<lambda>(_, v). v = 0) (la_module_overrides raw) of
             Some (k, _) \<Rightarrow> Inl (''`module_overrides.'' @ k @ ''` cannot be zero'')
           | None \<Rightarrow>
               Inr \<lparr>la_default = la_default raw, la_log_type = la_log_type raw,
                    la_module_overrides = la_module_overrides raw\<rparr>))"

definition get_limit_with_overrides :: "limited_amount \<Rightarrow> string \<Rightarrow> string \<Rightarrow> u64" where
  "get_limit_with_overrides limit_amount filename log_type =
     (case hm_get (la_module_overrides limit_amount) filename of
        Some amount \<Rightarrow> amount
      | None \<Rightarrow>
          (case hm_get (la_log_type limit_amount) log_type of
             Some amount \<Rightarrow> amount
           | None \<Rightarrow> la_default limit_amount))"

definition get_module_computation_limit :: "limited_amount \<Rightarrow> string \<Rightarrow> string \<Rightarrow> u64" where
  "get_module_computation_limit limit_amount filename log_type =
     get_limit_with_overrides limit_amount filename log_type"

definition get_module_persistent_storage_limit :: "limitable_amount \<Rightarrow> string \<Rightarrow> string \<Rightarrow> limit_value" where
  "get_module_persistent_storage_limit limit_amount filename log_type =
     (case hm_get (li_module_overrides limit_amount) filename of
        Some amount \<Rightarrow> amount
      | None \<Rightarrow>
          (case hm_get (li_log_type limit_amount) log_type of
             Some amount \<Rightarrow> amount
           | None \<Rightarrow> li_default limit_amount))"

definition u32_max :: u32 where
  "u32_max = - 1"

definition get_module_page_count :: "limited_amount \<Rightarrow> string \<Rightarrow> string \<Rightarrow> u32" where
  "get_module_page_count limit_amount filename log_type =
     (let page_count = get_limit_with_overrides limit_amount filename log_type
      in if page_count > ucast u32_max then u32_max else ucast page_count)"

text \<open>Operators of WebAssembly, as far as their cost differs.\<close>

datatype wasm_operator = Call | CallIndirect | ReturnCall | ReturnCallIndirect | OtherOperator string

definition CALL_COST :: u64 where
  "CALL_COST = 10"

fun cost_function :: "wasm_operator \<Rightarrow> u64" where
  "cost_function Call = CALL_COST"
| "cost_function CallIndirect = CALL_COST"
| "cost_function ReturnCall = CALL_COST"
| "cost_function ReturnCallIndirect = CALL_COST"
| "cost_function (OtherOperator _) = 1"

subsection \<open>Memory tunables\<close>

record memory_type =
  mt_minimum :: u32
  mt_maximum :: "u32 option"

definition adjust_memory :: "u32 \<Rightarrow> memory_type \<Rightarrow> memory_type" where
  "adjust_memory limit requested =
     (if mt_maximum requested = None then requested\<lparr>mt_maximum := Some limit\<rparr> else requested)"

definition validate_memory :: "u32 \<Rightarrow> memory_type \<Rightarrow> string + unit" where
  "validate_memory limit ty =
     (if mt_minimum ty > limit then Inl ''Minimum exceeds the allowed memory limit''
      else case mt_maximum ty of
        Some m \<Rightarrow> if m > limit then Inl ''Maximum exceeds the allowed memory limit'' else Inr ()
      | None \<Rightarrow> Inl ''Maximum unset'')"

text \<open>Memories of the host and of the VM are created alike, by the base tunables.\<close>

definition create_memory :: "(memory_type \<Rightarrow> string + 'v) \<Rightarrow> u32 \<Rightarrow> memory_type \<Rightarrow> string + 'v" where
  "create_memory base limit ty =
     (let adjusted = adjust_memory limit ty
      in case validate_memory limit adjusted of Inl e \<Rightarrow> Inl e | Inr _ \<Rightarrow> base adjusted)"

subsection \<open>Errors\<close>

datatype load_error =
    InvalidFileType string string
  | CompileError string
  | SigningError string
  | NotEnoughValidSignatures nat nat
  | FileError string
  | MissingFunction string
  | LoadStorageError storage_error

subsection \<open>Signatures\<close>

record 'k module_signing_configuration =
  authorized_signers :: "'k list"
  signatures_dir :: string
  signature_namespace :: string
  signatures_required :: nat
  panic_on_invalid_signature :: bool

text \<open>
  A directory entry has a name and contents, which may be unreadable. \<open>crypto_ops\<close> are the functions
  of \<^verbatim>\<open>ring\<close> and \<^verbatim>\<open>sshcerts\<close> that the check calls: the hash in hexadecimal, parsing an armored
  signature, verifying it against a message and a namespace (giving the key that signed), and the
  fingerprint of a key.
\<close>

record dir_entry =
  de_file_name :: string
  de_contents :: "string + string"

record ('k, 's) crypto_ops =
  sha256_hex :: "bytes \<Rightarrow> string"
  from_armored_string :: "string \<Rightarrow> string + 's"
  verify_ssh_signature :: "bytes \<Rightarrow> 's \<Rightarrow> string \<Rightarrow> string + 'k"
  fingerprint :: "'k \<Rightarrow> string"

definition read_in_signature :: "dir_entry \<Rightarrow> load_error + string" where
  "read_in_signature signature_path =
     (if \<not> suffix ''.sig'' (de_file_name signature_path)
      then Inl (InvalidFileType ''.sig'' (de_file_name signature_path))
      else case de_contents signature_path of Inl e \<Rightarrow> Inl (FileError e) | Inr s \<Rightarrow> Inr s)"

definition verify_signature_file ::
  "('k, 's) crypto_ops \<Rightarrow> dir_entry \<Rightarrow> bytes \<Rightarrow> string \<Rightarrow> load_error + 'k" where
  "verify_signature_file K signature_path module_hash namespace =
     (case read_in_signature signature_path of
        Inl e \<Rightarrow> Inl e
      | Inr signature \<Rightarrow>
          (case from_armored_string K signature of
             Inl e \<Rightarrow> Inl (SigningError e)
           | Inr ssh_signature \<Rightarrow>
               (case verify_ssh_signature K module_hash ssh_signature namespace of
                  Inl e \<Rightarrow> Inl (SigningError e)
                | Inr pubkey \<Rightarrow> Inr pubkey)))"

fun check_signatures_loop ::
  "('k, 's) crypto_ops \<Rightarrow> 'k module_signing_configuration \<Rightarrow> bytes \<Rightarrow> dir_entry list \<Rightarrow> string list
     \<Rightarrow> load_error + unit" where
  "check_signatures_loop K signing module_hash [] valid_signatures =
     Inl (NotEnoughValidSignatures (length valid_signatures) (signatures_required signing))"
| "check_signatures_loop K signing module_hash (signature # module_signatures) valid_signatures =
     (case verify_signature_file K signature module_hash (signature_namespace signing) of
        Inl _ \<Rightarrow> check_signatures_loop K signing module_hash module_signatures valid_signatures
      | Inr pubkey \<Rightarrow>
          if \<not> list_ex (\<lambda>signer. fingerprint K signer = fingerprint K pubkey) (authorized_signers signing)
          then check_signatures_loop K signing module_hash module_signatures valid_signatures
          else let valid_signatures = List.insert (fingerprint K pubkey) valid_signatures
               in if length valid_signatures \<ge> signatures_required signing then Inr ()
                  else check_signatures_loop K signing module_hash module_signatures valid_signatures)"

text \<open>
  \<open>read_dir\<close> lists a directory; a bad entry is \<open>None\<close>. The set of fingerprints is a list without
  duplicates.
\<close>

definition check_module_signatures ::
  "('k, 's) crypto_ops \<Rightarrow> (string \<Rightarrow> string + dir_entry option list) \<Rightarrow> 'k module_signing_configuration
     \<Rightarrow> string \<Rightarrow> bytes \<Rightarrow> load_error + unit" where
  "check_module_signatures K read_dir signing filename module_bytes =
     (case read_dir (signatures_dir signing @ ''/'' @ filename) of
        Inl e \<Rightarrow> Inl (FileError e)
      | Inr entries \<Rightarrow>
          (let module_signatures = List.map_filter (\<lambda>e. e) entries
           in if length module_signatures < signatures_required signing
              then Inl (NotEnoughValidSignatures 0 (signatures_required signing))
              else check_signatures_loop K signing (as_bytes (sha256_hex K module_bytes)) module_signatures []))"

subsection \<open>Lemmas\<close>

lemma find_None_all: "List.find P xs = None \<longleftrightarrow> (\<forall>x \<in> set xs. \<not> P x)"
  by (induction xs) auto

lemma deserialize_limited_amount_nonzero:
  assumes "deserialize_limited_amount raw = Inr la"
  shows "get_limit_with_overrides la filename log_type \<noteq> 0"
proof -
  have la: "la = raw" "la_default raw \<noteq> 0" "\<forall>(k, v) \<in> set (la_log_type raw). v \<noteq> 0"
    "\<forall>(k, v) \<in> set (la_module_overrides raw). v \<noteq> 0"
    using assms by (auto simp: deserialize_limited_amount_def find_None_all split: if_splits option.splits prod.splits)
  then show ?thesis
    by (auto simp: get_limit_with_overrides_def split: option.splits dest!: hm_get_Some_in_set)
qed

lemma unat_ucast_u64_u32: "unat (ucast (x :: u64) :: u32) = unat x mod 2 ^ 32"
  by (simp add: unsigned_ucast_eq take_bit_eq_mod)

lemma unat_u32_max: "unat u32_max = 2 ^ 32 - 1"
  by (simp add: u32_max_def unsigned_minus_1_eq_mask mask_eq_exp_minus_1)

lemma get_module_page_count_unat:
  "unat (get_module_page_count la filename log_type) =
     min (unat (get_limit_with_overrides la filename log_type)) (2 ^ 32 - 1)"
proof -
  define p where "p = get_limit_with_overrides la filename log_type"
  have "p > ucast u32_max \<longleftrightarrow> unat p > 2 ^ 32 - 1"
    by (simp add: word_less_nat_alt unat_u32_max)
  then show ?thesis
    by (auto simp: get_module_page_count_def p_def [symmetric] unat_u32_max unat_ucast_u64_u32 min_def)
qed

text \<open>The fingerprints of authorised signers with a valid signature among some files.\<close>

definition valid_fingerprints ::
  "('k, 's) crypto_ops \<Rightarrow> 'k module_signing_configuration \<Rightarrow> bytes \<Rightarrow> dir_entry list \<Rightarrow> string set" where
  "valid_fingerprints K signing h files =
     {fingerprint K pk | pk f. f \<in> set files \<and> verify_signature_file K f h (signature_namespace signing) = Inr pk
        \<and> fingerprint K pk \<in> fingerprint K ` set (authorized_signers signing)}"

lemma finite_valid_fingerprints [simp]: "finite (valid_fingerprints K signing h files)"
proof (rule finite_subset)
  show "valid_fingerprints K signing h files \<subseteq>
      (\<lambda>f. case verify_signature_file K f h (signature_namespace signing) of Inr pk \<Rightarrow> fingerprint K pk | Inl _ \<Rightarrow> []) ` set files"
    by (force simp: valid_fingerprints_def)
qed simp

lemma card_valid_fingerprints_le: "card (valid_fingerprints K signing h files) \<le> length files"
proof -
  have "card (valid_fingerprints K signing h files) \<le>
      card ((\<lambda>f. case verify_signature_file K f h (signature_namespace signing) of Inr pk \<Rightarrow> fingerprint K pk | Inl _ \<Rightarrow> []) ` set files)"
    by (rule card_mono) (force simp: valid_fingerprints_def)+
  also have "\<dots> \<le> card (set files)" by (rule card_image_le) simp
  also have "\<dots> \<le> length files" by (rule card_length)
  finally show ?thesis .
qed

lemma valid_fingerprints_Nil [simp]: "valid_fingerprints K signing h [] = {}"
  by (simp add: valid_fingerprints_def)

lemma valid_fingerprints_Cons:
  "valid_fingerprints K signing h (f # files) =
     (case verify_signature_file K f h (signature_namespace signing) of
        Inl _ \<Rightarrow> {}
      | Inr pk \<Rightarrow> if fingerprint K pk \<in> fingerprint K ` set (authorized_signers signing) then {fingerprint K pk} else {})
     \<union> valid_fingerprints K signing h files"
  by (auto simp: valid_fingerprints_def split: sum.splits)

text \<open>
  The loop accepts when the fingerprints found so far, and those still to come, reach the threshold;
  at least one new signature has to be looked at, even for a threshold of zero.
\<close>

lemma check_signatures_loop_iff:
  assumes "distinct vs" and "length vs < max 1 (signatures_required signing)"
    and "signatures_required signing = 0 \<Longrightarrow> vs = []"
  shows "check_signatures_loop K signing h files vs = Inr () \<longleftrightarrow>
    max 1 (signatures_required signing) \<le> card (set vs \<union> valid_fingerprints K signing h files)"
  using assms
proof (induction files arbitrary: vs)
  case Nil
  then show ?case by (simp add: distinct_card max_def split: if_splits)
next
  case (Cons f files)
  let ?auth = "fingerprint K ` set (authorized_signers signing)"
  show ?case
  proof (cases "verify_signature_file K f h (signature_namespace signing)")
    case (Inl e)
    then show ?thesis using Cons by (simp add: valid_fingerprints_Cons)
  next
    case (Inr pk)
    let ?fp = "fingerprint K pk" and ?vs = "List.insert (fingerprint K pk) vs"
    have auth: "list_ex (\<lambda>signer. fingerprint K signer = ?fp) (authorized_signers signing) \<longleftrightarrow> ?fp \<in> ?auth"
      by (auto simp: list_ex_iff image_iff intro: sym)
    show ?thesis
    proof (cases "?fp \<in> ?auth")
      case False
      then show ?thesis using Cons Inr auth by (simp add: valid_fingerprints_Cons)
    next
      case True
      have set: "set vs \<union> valid_fingerprints K signing h (f # files) = set ?vs \<union> valid_fingerprints K signing h files"
        using Inr True by (auto simp: valid_fingerprints_Cons)
      have card: "card (set ?vs) = length ?vs" using Cons.prems(1) by (intro distinct_card) simp
      have le: "card (set ?vs) \<le> card (set ?vs \<union> valid_fingerprints K signing h files)"
        by (intro card_mono) auto
      show ?thesis
      proof (cases "length ?vs \<ge> signatures_required signing")
        case enough: True
        have "1 \<le> length ?vs" by (auto simp: Suc_le_eq List.insert_def)
        then have "max 1 (signatures_required signing) \<le> card (set ?vs \<union> valid_fingerprints K signing h files)"
          using enough card le by linarith
        then show ?thesis using Inr True auth enough by (simp add: set Let_def)
      next
        case False
        then show ?thesis using Inr True auth Cons.IH [of ?vs] Cons.prems(1) by (simp add: set Let_def)
      qed
    qed
  qed
qed

subsection \<open>Properties\<close>

text \<open>
  C13. A module passes the signature check exactly when the readable entries of its signature
  directory hold valid signatures, over the module's hash and in the configured namespace, by at
  least the required number of different authorised keys. Several signatures by one key count once,
  and so do signatures by keys that are not authorised count for nothing. At least one valid
  signature is needed even when the configuration requires none.
\<close>

theorem check_module_signatures_iff:
  assumes "read_dir (signatures_dir signing @ ''/'' @ filename) = Inr entries"
  shows "check_module_signatures K read_dir signing filename module_bytes = Inr () \<longleftrightarrow>
    max 1 (signatures_required signing) \<le>
      card (valid_fingerprints K signing (as_bytes (sha256_hex K module_bytes)) (List.map_filter (\<lambda>e. e) entries))"
proof -
  let ?files = "List.map_filter (\<lambda>e. e) entries"
  let ?V = "valid_fingerprints K signing (as_bytes (sha256_hex K module_bytes)) ?files"
  have "card ?V \<le> length ?files" by (rule card_valid_fingerprints_le)
  then show ?thesis
    using check_signatures_loop_iff [of "[]" signing K "as_bytes (sha256_hex K module_bytes)" ?files] assms
    by (simp add: check_module_signatures_def Let_def)
qed

text \<open>For the witness: two files signed by the same authorised key, whose fingerprint is its name.\<close>

definition sample_crypto :: "(string, string) crypto_ops" where
  "sample_crypto =
     \<lparr>sha256_hex = (\<lambda>b. ''00''), from_armored_string = Inr, verify_ssh_signature = (\<lambda>h s n. Inr s), fingerprint = (\<lambda>k. k)\<rparr>"

definition sample_signing :: "nat \<Rightarrow> string module_signing_configuration" where
  "sample_signing n =
     \<lparr>authorized_signers = [''alice'', ''bob''], signatures_dir = ''sigs'', signature_namespace = ''PlaidRule'',
      signatures_required = n, panic_on_invalid_signature = True\<rparr>"

definition sample_sig_dir :: "string \<Rightarrow> string + dir_entry option list" where
  "sample_sig_dir p = Inr [Some \<lparr>de_file_name = ''a.sig'', de_contents = Inr ''alice''\<rparr>,
     Some \<lparr>de_file_name = ''b.sig'', de_contents = Inr ''alice''\<rparr>]"

theorem check_module_signatures_iff_witness:
  "check_module_signatures sample_crypto sample_sig_dir (sample_signing 1) ''m.wasm'' [] = Inr ()
   \<and> check_module_signatures sample_crypto sample_sig_dir (sample_signing 2) ''m.wasm'' [] \<noteq> Inr ()"
proof -
  let ?files = "[\<lparr>de_file_name = ''a.sig'', de_contents = Inr ''alice''\<rparr>,
     \<lparr>de_file_name = ''b.sig'', de_contents = Inr ''alice''\<rparr>]"
  have "valid_fingerprints sample_crypto (sample_signing n) h ?files = {''alice''}" for n h
    by (simp add: valid_fingerprints_Cons verify_signature_file_def read_in_signature_def sample_crypto_def
        sample_signing_def suffix_def)
  then show ?thesis
    using check_module_signatures_iff [of sample_sig_dir "sample_signing 1" "''m.wasm''" _ sample_crypto "[]"]
      check_module_signatures_iff [of sample_sig_dir "sample_signing 2" "''m.wasm''" _ sample_crypto "[]"]
    by (simp add: sample_sig_dir_def) (simp add: sample_signing_def)
qed

text \<open>
  A limit that was accepted from the configuration never leaves a module without computation or
  memory: whatever overrides apply, the limit is positive, and the page count is the configured amount
  capped at the largest 32-bit value.
\<close>

theorem accepted_limits_positive:
  assumes "deserialize_limited_amount raw = Inr la"
  shows "get_module_computation_limit la filename log_type \<noteq> 0
    \<and> unat (get_module_page_count la filename log_type) =
        min (unat (get_limit_with_overrides la filename log_type)) (2 ^ 32 - 1)
    \<and> get_module_page_count la filename log_type \<noteq> 0"
proof -
  let ?p = "get_limit_with_overrides la filename log_type"
  have nz: "?p \<noteq> 0" by (rule deserialize_limited_amount_nonzero [OF assms])
  then have "0 < unat ?p" by (simp add: unat_gt_0)
  then have "0 < unat (get_module_page_count la filename log_type)"
    by (simp add: get_module_page_count_unat)
  then show ?thesis
    using nz get_module_page_count_unat [of la filename log_type]
    by (auto simp: get_module_computation_limit_def)
qed

theorem accepted_limits_positive_witness:
  "deserialize_limited_amount \<lparr>la_default = 2 ^ 40, la_log_type = [(''okta'', 3)], la_module_overrides = []\<rparr> =
     Inr \<lparr>la_default = 2 ^ 40, la_log_type = [(''okta'', 3)], la_module_overrides = []\<rparr>
   \<and> get_module_page_count \<lparr>la_default = 2 ^ 40, la_log_type = [(''okta'', 3)], la_module_overrides = []\<rparr> ''m.wasm'' ''x'' \<noteq> 0"
proof -
  let ?la = "\<lparr>la_default = 2 ^ 40, la_log_type = [(''okta'', 3)], la_module_overrides = []\<rparr>"
  have "deserialize_limited_amount ?la = Inr ?la" by (simp add: deserialize_limited_amount_def)
  with accepted_limits_positive [OF this, of "''m.wasm''" "''x''"] show ?thesis by blast
qed

text \<open>
  Memory limits. A memory is created only with a minimum and a maximum within the page limit: a
  module that states no maximum is given the limit, one that asks for more is refused, and any other
  request is passed on unchanged.
\<close>

theorem memory_within_limit:
  "create_memory base limit ty =
     (let maximum = (case mt_maximum ty of None \<Rightarrow> limit | Some m \<Rightarrow> m)
      in if mt_minimum ty > limit then Inl ''Minimum exceeds the allowed memory limit''
         else if maximum > limit then Inl ''Maximum exceeds the allowed memory limit''
         else base (ty\<lparr>mt_maximum := Some maximum\<rparr>))"
proof -
  obtain mn mx where "ty = \<lparr>mt_minimum = mn, mt_maximum = mx\<rparr>" by (cases ty)
  then show ?thesis
    by (cases mx) (simp_all add: create_memory_def adjust_memory_def validate_memory_def Let_def)
qed

end
