(* ===== verification/Plaid_Loader.thy ===== *)
theory Plaid_Loader
  imports Plaid_Api Plaid_Limits "HOL-Library.Multiset"
begin

text \<open>
  Loading modules, \<^verbatim>\<open>runtime/plaid/src/loader/mod.rs\<close>: from a directory of WebAssembly files and a
  configuration to the modules the executor runs. The compiler of \<^verbatim>\<open>wasmer\<close> is a parameter that gives
  the imports of a module, or an error. A panic is a value of type \<open>load_panic\<close>.
\<close>

subsection \<open>Configuration\<close>

record 'k loader_config =
  log_type_overrides :: "(string, string) hashmap"
  computation_amount :: limited_amount
  memory_page_count :: limited_amount
  storage_size :: limitable_amount
  cfg_secrets :: "(string, (string, string) hashmap) hashmap"
  universal_accessory_data :: "(string, string) hashmap option"
  accessory_data_log_type_overrides :: "(string, (string, string) hashmap) hashmap"
  accessory_data_file_overrides :: "(string, (string, string) hashmap) hashmap"
  persistent_response_size :: "(string, nat) hashmap"
  cfg_test_mode :: bool
  test_mode_exemptions :: "string list"
  module_signing :: "'k module_signing_configuration option"
  panic_on_module_load_failure :: bool

text \<open>A file of the module directory, with its bytes or the error of reading it.\<close>

record module_file =
  mf_name :: string
  mf_bytes :: "string + bytes"

datatype load_panic = LoadPanic string load_error

subsection \<open>Reading and compiling one module\<close>

definition read_and_parse_modules :: "module_file \<Rightarrow> load_error + (string \<times> bytes)" where
  "read_and_parse_modules path =
     (if \<not> suffix ''.wasm'' (mf_name path) then Inl (InvalidFileType ''.wasm'' (mf_name path))
      else case mf_bytes path of Inl e \<Rightarrow> Inl (FileError e) | Inr b \<Rightarrow> Inr (mf_name path, b))"

definition string_map_bytes :: "(string, string) hashmap \<Rightarrow> (string, bytes) hashmap" where
  "string_map_bytes m = map (\<lambda>(k, v). (k, as_bytes v)) m"

definition read_and_configure_secrets ::
  "(string, (string, string) hashmap) hashmap \<Rightarrow> (string, (string, bytes) hashmap) hashmap" where
  "read_and_configure_secrets secrets_configuration =
     map (\<lambda>(key, value). (key, string_map_bytes value)) secrets_configuration"

definition insert_all :: "(string, string) hashmap \<Rightarrow> (string, bytes) hashmap \<Rightarrow> (string, bytes) hashmap" where
  "insert_all overrides m = fold (\<lambda>(key, value). hm_insert key (as_bytes value)) overrides m"

definition module_accessory_data ::
  "'k loader_config \<Rightarrow> string \<Rightarrow> string \<Rightarrow> (string, bytes) hashmap option" where
  "module_accessory_data config filename lt =
     (let accessory_data =
            (case universal_accessory_data config of
               Some uad \<Rightarrow> Some (string_map_bytes uad)
             | None \<Rightarrow> None);
          accessory_data =
            (case hm_get (accessory_data_log_type_overrides config) lt of
               Some logltypeoverrides \<Rightarrow>
                 Some (insert_all logltypeoverrides (case accessory_data of Some m \<Rightarrow> m | None \<Rightarrow> []))
             | None \<Rightarrow> accessory_data);
          accessory_data =
            (case hm_get (accessory_data_file_overrides config) filename of
               Some file_overrides \<Rightarrow>
                 Some (insert_all file_overrides (case accessory_data of Some m \<Rightarrow> m | None \<Rightarrow> []))
             | None \<Rightarrow> accessory_data)
      in accessory_data)"

text \<open>The first import, in order, that is neither a placeholder nor a known function is an error.\<close>

definition compile ::
  "(bytes \<Rightarrow> string + string list) \<Rightarrow> string \<Rightarrow> limited_amount \<Rightarrow> limited_amount \<Rightarrow> limitable_amount
     \<Rightarrow> bytes \<Rightarrow> string \<Rightarrow> bool \<Rightarrow> load_error + plaid_module" where
  "compile module_new filename comp_amount page_amount storage_amount module_bytes log_type tm =
     (let comp_limit = get_module_computation_limit comp_amount filename log_type;
          pages = get_module_page_count page_amount filename log_type;
          st_limit = get_module_persistent_storage_limit storage_amount filename log_type
      in case module_new module_bytes of
           Inl e \<Rightarrow> Inl (CompileError e)
         | Inr fnames \<Rightarrow>
             (case List.find (\<lambda>f. \<not> is_bindgen_import f \<and> \<not> is_known_api_function f) fnames of
                Some f \<Rightarrow> Inl (MissingFunction f)
              | None \<Rightarrow>
                  Inr \<lparr>mod_name = filename, logtype = log_type, mod_imports = fnames,
                       computation_limit = comp_limit, page_limit = pages,
                       storage_current = rwlock_new 0, storage_limit = st_limit,
                       accessory_data = None, secrets = None, persistent_response = None,
                       test_mode = tm\<rparr>))"

text \<open>The log type of a module: an override, or the part of its file name before the first underscore.\<close>

definition module_log_type :: "'k loader_config \<Rightarrow> string \<Rightarrow> string" where
  "module_log_type config filename =
     (case hm_get (log_type_overrides config) filename of
        Some t \<Rightarrow> t
      | None \<Rightarrow> takeWhile (\<lambda>c. c \<noteq> CHR ''_'') filename)"

text \<open>One file: nothing if the module is skipped, or a panic if the configuration asks for one.\<close>

definition load_module ::
  "('k, 's) crypto_ops \<Rightarrow> (string \<Rightarrow> string + dir_entry option list) \<Rightarrow> (bytes \<Rightarrow> string + string list)
     \<Rightarrow> 'k loader_config \<Rightarrow> module_file option \<Rightarrow> load_panic + plaid_module option" where
  "load_module K read_dir module_new config path =
     (case path of
        None \<Rightarrow> Inr None
      | Some path \<Rightarrow>
     (case read_and_parse_modules path of
        Inl e \<Rightarrow> if panic_on_module_load_failure config then Inl (LoadPanic (mf_name path) e) else Inr None
      | Inr (filename, module_bytes) \<Rightarrow>
     (case (case module_signing config of
              Some signing \<Rightarrow>
                (case check_module_signatures K read_dir signing filename module_bytes of
                   Inl e \<Rightarrow> Some (e, panic_on_invalid_signature signing)
                 | Inr _ \<Rightarrow> None)
            | None \<Rightarrow> None) of
        Some (e, panic) \<Rightarrow> if panic then Inl (LoadPanic filename e) else Inr None
      | None \<Rightarrow>
          (let ltype = module_log_type config filename;
               tm = (cfg_test_mode config \<and> filename \<notin> set (test_mode_exemptions config))
           in case compile module_new filename (computation_amount config) (memory_page_count config)
                     (storage_size config) module_bytes ltype tm of
                Inl e \<Rightarrow> if panic_on_module_load_failure config then Inl (LoadPanic filename e) else Inr None
              | Inr pm \<Rightarrow>
                  Inr (Some (pm\<lparr>persistent_response :=
                                  map_option persistent_response_new (hm_get (persistent_response_size config) filename),
                                secrets := hm_get (read_and_configure_secrets (cfg_secrets config)) ltype,
                                accessory_data := module_accessory_data config (mod_name pm) ltype\<rparr>))))))"

subsection \<open>All modules\<close>

definition populate_storage_size ::
  "bool \<Rightarrow> 'd storage \<Rightarrow> plaid_module \<Rightarrow> load_panic + plaid_module option" where
  "populate_storage_size panic st pm =
     (case storage_get_namespace_byte_size st (mod_name pm) of
        Inr b \<Rightarrow> Inr (Some (pm\<lparr>storage_current := (storage_current pm)\<lparr>lock_val := b\<rparr>\<rparr>))
      | Inl e \<Rightarrow> if panic then Inl (LoadPanic (mod_name pm) (LoadStorageError e)) else Inr None)"

text \<open>
  \<^verbatim>\<open>filter_map\<close> over fallible steps. The lookups of storage sizes complete in an arbitrary order, which
  is the argument \<open>completed\<close> of \<open>populate_storage_sizes\<close>.
\<close>

definition filter_map_results :: "('a \<Rightarrow> 'e + 'b option) \<Rightarrow> 'a list \<Rightarrow> 'e + 'b list" where
  "filter_map_results f xs =
     (case collect_results (map f xs) of Inl e \<Rightarrow> Inl e | Inr ys \<Rightarrow> Inr (List.map_filter (\<lambda>y. y) ys))"

definition populate_storage_sizes ::
  "(plaid_module list \<Rightarrow> plaid_module list) \<Rightarrow> plaid_module list \<Rightarrow> 'd storage \<Rightarrow> 'k loader_config
     \<Rightarrow> load_panic + plaid_module list" where
  "populate_storage_sizes completed modules st config =
     filter_map_results (populate_storage_size (panic_on_module_load_failure config) st) (completed modules)"

record plaid_modules =
  pms_channels :: "(string, plaid_module list) hashmap"
  pms_modules :: "(string, plaid_module) hashmap"

definition add_module :: "plaid_module \<Rightarrow> plaid_modules \<Rightarrow> plaid_modules" where
  "add_module pm ms =
     ms\<lparr>pms_channels :=
          (case hm_get (pms_channels ms) (logtype pm) of
             Some mods \<Rightarrow> hm_insert (logtype pm) (mods @ [pm]) (pms_channels ms)
           | None \<Rightarrow> hm_insert (logtype pm) [pm] (pms_channels ms)),
        pms_modules := hm_insert (mod_name pm) pm (pms_modules ms)\<rparr>"

definition load ::
  "('k, 's) crypto_ops \<Rightarrow> (string \<Rightarrow> string + dir_entry option list) \<Rightarrow> (bytes \<Rightarrow> string + string list)
     \<Rightarrow> (plaid_module list \<Rightarrow> plaid_module list) \<Rightarrow> module_file option list
     \<Rightarrow> 'k loader_config \<Rightarrow> 'd storage option \<Rightarrow> load_panic + plaid_modules" where
  "load K read_dir module_new completed module_paths config st =
     (case filter_map_results (load_module K read_dir module_new config) module_paths of
        Inl p \<Rightarrow> Inl p
      | Inr loaded_modules \<Rightarrow>
          (case (case st of
                   Some st \<Rightarrow> populate_storage_sizes completed loaded_modules st config
                 | None \<Rightarrow> Inr loaded_modules) of
             Inl p \<Rightarrow> Inl p
           | Inr loaded_modules \<Rightarrow> Inr (fold add_module loaded_modules \<lparr>pms_channels = [], pms_modules = []\<rparr>)))"

definition get_module :: "plaid_modules \<Rightarrow> string \<Rightarrow> plaid_module option" where
  "get_module ms name = hm_get (pms_modules ms) name"

definition get_module_logtypes :: "plaid_modules \<Rightarrow> (string, string) hashmap" where
  "get_module_logtypes ms = map (\<lambda>(name, pm). (name, logtype pm)) (pms_modules ms)"

subsection \<open>What is loaded\<close>

lemma collect_results_map_Inr [simp]: "collect_results (map Inr xs) = Inr xs"
  by (induction xs) simp_all

lemma collect_results_Inr: "collect_results rs = Inr xs \<longleftrightarrow> rs = map Inr xs"
proof
  show "rs = map Inr xs" if "collect_results rs = Inr xs"
    using that
  proof (induction rs arbitrary: xs)
    case (Cons r rs)
    then show ?case by (cases r) (auto split: sum.splits)
  qed simp
qed simp

lemma filter_map_results_Inr:
  assumes "filter_map_results f xs = Inr ys"
  shows "set ys = {y. \<exists>x \<in> set xs. f x = Inr (Some y)}"
    and "ys = List.map_filter (\<lambda>x. case f x of Inr y \<Rightarrow> y | Inl _ \<Rightarrow> None) xs"
proof -
  obtain zs where zs: "map f xs = map Inr zs" "ys = List.map_filter (\<lambda>y. y) zs"
    using assms by (auto simp: filter_map_results_def collect_results_Inr split: sum.splits)
  then show ys: "ys = List.map_filter (\<lambda>x. case f x of Inr y \<Rightarrow> y | Inl _ \<Rightarrow> None) xs"
  proof (induction xs arbitrary: ys zs)
    case (Cons x xs)
    then obtain z zs' where "zs = z # zs'" by (cases zs) auto
    then show ?case using Cons by (auto simp: List.map_filter_simps split: option.splits)
  qed (simp add: List.map_filter_simps)
  have ok: "\<exists>y. f x = Inr y" if "x \<in> set xs" for x
  proof -
    have "f x \<in> set (map Inr zs)" using that zs(1) by (metis imageI set_map)
    then show ?thesis by auto
  qed
  show "set ys = {y. \<exists>x \<in> set xs. f x = Inr (Some y)}"
    using ok by (force simp: ys List.map_filter_def split: sum.splits)
qed

lemma distinct_map_filter:
  assumes "distinct (map g xs)" and "\<And>x y. x \<in> set xs \<Longrightarrow> f x = Some y \<Longrightarrow> h y = g x"
  shows "distinct (map h (List.map_filter f xs))"
  using assms
proof (induction xs)
  case (Cons x xs)
  have "g x \<notin> h ` set (List.map_filter f xs)"
    using Cons.prems by (fastforce simp: List.map_filter_def)
  moreover have "h y = g x" if "f x = Some y" for y using Cons.prems(2) that by simp
  moreover have "distinct (map h (List.map_filter f xs))" using Cons by simp
  ultimately show ?case by (cases "f x") (simp_all add: List.map_filter_simps)
qed (simp add: List.map_filter_simps)

lemma add_module_channels:
  "hm_get (pms_channels (fold add_module pms acc)) t =
     (let new = filter (\<lambda>pm. logtype pm = t) pms
      in case hm_get (pms_channels acc) t of
           None \<Rightarrow> if new = [] then None else Some new
         | Some old \<Rightarrow> Some (old @ new))"
  by (induction pms arbitrary: acc) (auto simp: add_module_def Let_def split: option.splits)

lemma add_module_modules:
  assumes "distinct (map mod_name pms)"
  shows "hm_get (pms_modules (fold add_module pms acc)) name =
     (case List.find (\<lambda>pm. mod_name pm = name) pms of Some pm \<Rightarrow> Some pm | None \<Rightarrow> hm_get (pms_modules acc) name)"
  using assms
proof (induction pms arbitrary: acc)
  case (Cons pm pms)
  have "List.find (\<lambda>pm'. mod_name pm' = mod_name pm) pms = None"
    using Cons.prems by (auto simp: find_None_all) (metis image_eqI)
  then show ?case using Cons by (auto simp: add_module_def split: option.splits)
qed simp

lemma load_module_facts:
  assumes "load_module K read_dir module_new config path = Inr (Some pm)"
  obtains f b where "path = Some f" and "mod_name pm = mf_name f" and "suffix ''.wasm'' (mod_name pm)"
    and "mf_bytes f = Inr b" and "\<not> poisoned (storage_current pm)"
    and "\<And>signing. module_signing config = Some signing \<Longrightarrow>
      check_module_signatures K read_dir signing (mod_name pm) b = Inr ()"
    and "List.find (\<lambda>f. \<not> is_bindgen_import f \<and> \<not> is_known_api_function f) (mod_imports pm) = None"
    and "logtype pm = module_log_type config (mod_name pm)"
    and "storage_limit pm = get_module_persistent_storage_limit (storage_size config) (mod_name pm) (logtype pm)"
    and "test_mode pm = (cfg_test_mode config \<and> mod_name pm \<notin> set (test_mode_exemptions config))"
proof -
  obtain f where f: "path = Some f" using assms by (cases path) (simp_all add: load_module_def)
  obtain fn b where rd: "read_and_parse_modules f = Inr (fn, b)"
    using assms by (auto simp: load_module_def f split: sum.splits if_splits)
  then have fn: "fn = mf_name f" "suffix ''.wasm'' fn" "mf_bytes f = Inr b"
    by (auto simp: read_and_parse_modules_def split: if_splits sum.splits)
  have sig: "check_module_signatures K read_dir signing fn b = Inr ()" if "module_signing config = Some signing" for signing
    using assms that by (auto simp: load_module_def f rd split: sum.splits if_splits)
  obtain pm0 where pm0: "compile module_new fn (computation_amount config) (memory_page_count config)
      (storage_size config) b (module_log_type config fn)
      (cfg_test_mode config \<and> fn \<notin> set (test_mode_exemptions config)) = Inr pm0"
    and upd: "mod_name pm = mod_name pm0" "storage_current pm = storage_current pm0" "mod_imports pm = mod_imports pm0"
      "logtype pm = logtype pm0" "storage_limit pm = storage_limit pm0" "test_mode pm = test_mode pm0"
    using assms by (auto simp: load_module_def f rd Let_def split: sum.splits if_splits option.splits)
  have "mod_name pm0 = fn" "\<not> poisoned (storage_current pm0)" "logtype pm0 = module_log_type config fn"
    "List.find (\<lambda>f. \<not> is_bindgen_import f \<and> \<not> is_known_api_function f) (mod_imports pm0) = None"
    "storage_limit pm0 = get_module_persistent_storage_limit (storage_size config) fn (module_log_type config fn)"
    "test_mode pm0 = (cfg_test_mode config \<and> fn \<notin> set (test_mode_exemptions config))"
    using pm0 by (auto simp: compile_def Let_def split: sum.splits option.splits)
  then show thesis using that [of f b] f fn sig upd by simp
qed

text \<open>The names of the readable entries of the module directory.\<close>

definition path_names :: "module_file option list \<Rightarrow> string list" where
  "path_names paths = List.map_filter (map_option mf_name) paths"

text \<open>What loading establishes of each module, whatever the storage.\<close>

definition module_ok ::
  "('k, 's) crypto_ops \<Rightarrow> (string \<Rightarrow> string + dir_entry option list) \<Rightarrow> 'k loader_config
     \<Rightarrow> module_file option list \<Rightarrow> plaid_module \<Rightarrow> bool" where
  "module_ok K read_dir config paths pm \<longleftrightarrow>
     suffix ''.wasm'' (mod_name pm)
   \<and> (\<exists>f b. Some f \<in> set paths \<and> mf_name f = mod_name pm \<and> mf_bytes f = Inr b
        \<and> (\<forall>signing. module_signing config = Some signing \<longrightarrow>
             check_module_signatures K read_dir signing (mod_name pm) b = Inr ()))
   \<and> (\<exists>exports. link_functions_to_module (mod_imports pm) = Inr exports)
   \<and> logtype pm = module_log_type config (mod_name pm)
   \<and> (test_mode pm \<longleftrightarrow> cfg_test_mode config \<and> mod_name pm \<notin> set (test_mode_exemptions config))
   \<and> \<not> poisoned (storage_current pm)"

lemma load_module_ok:
  assumes "load_module K read_dir module_new config path = Inr (Some pm)" and "path \<in> set paths"
  shows "module_ok K read_dir config paths pm"
  using assms(1)
proof (rule load_module_facts)
  fix f b assume "path = Some f" "mod_name pm = mf_name f" "suffix ''.wasm'' (mod_name pm)"
    "mf_bytes f = Inr b" "\<not> poisoned (storage_current pm)"
    "List.find (\<lambda>f. \<not> is_bindgen_import f \<and> \<not> is_known_api_function f) (mod_imports pm) = None"
    "logtype pm = module_log_type config (mod_name pm)"
    "test_mode pm = (cfg_test_mode config \<and> mod_name pm \<notin> set (test_mode_exemptions config))"
    and "\<And>signing. module_signing config = Some signing \<Longrightarrow>
      check_module_signatures K read_dir signing (mod_name pm) b = Inr ()"
  then show ?thesis using assms(2)
    by (auto simp: module_ok_def link_functions_to_module_def link_functions_eq)
qed

lemma loaded_names_distinct:
  assumes "filter_map_results (load_module K read_dir module_new config) paths = Inr pms"
    and "distinct (path_names paths)"
  shows "distinct (map mod_name pms)"
proof -
  let ?f = "\<lambda>x. case load_module K read_dir module_new config x of Inr y \<Rightarrow> y | Inl _ \<Rightarrow> None"
  have name: "\<exists>f. x = Some f \<and> mf_name f = mod_name y" if "?f x = Some y" for x y
  proof -
    have "load_module K read_dir module_new config x = Inr (Some y)" using that by (auto split: sum.splits)
    then show ?thesis by (rule load_module_facts) simp
  qed
  have "distinct (map mod_name (List.map_filter ?f paths))"
    using assms(2) unfolding path_names_def
  proof (induction paths)
    case (Cons x paths)
    have "set (map mod_name (List.map_filter ?f paths)) \<subseteq> set (List.map_filter (map_option mf_name) paths)"
      using name by (force simp: List.map_filter_def)
    then show ?case using Cons name [of x]
      by (cases "?f x"; cases x) (auto simp: List.map_filter_simps)
  qed (simp add: List.map_filter_simps)
  then show ?thesis using filter_map_results_Inr(2) [OF assms(1)] by simp
qed

lemma populate_storage_size_name:
  "populate_storage_size panic st pm = Inr (Some pm') \<Longrightarrow> \<exists>b. storage_get_namespace_byte_size st (mod_name pm) = Inr b
     \<and> pm' = pm\<lparr>storage_current := (storage_current pm)\<lparr>lock_val := b\<rparr>\<rparr>"
  by (auto simp: populate_storage_size_def split: sum.splits if_splits)

lemma module_ok_storage_current:
  "module_ok K read_dir config paths pm \<Longrightarrow>
     module_ok K read_dir config paths (pm\<lparr>storage_current := (storage_current pm)\<lparr>lock_val := b\<rparr>\<rparr>)"
  by (simp add: module_ok_def)

text \<open>The list of modules that \<^verbatim>\<open>load\<close> finally registers.\<close>

lemma load_modules_list:
  assumes "load K read_dir module_new completed paths config (Some st) = Inr ms"
    and "distinct (path_names paths)" and "\<And>pms. mset (completed pms) = mset pms"
  obtains pms where "ms = fold add_module pms \<lparr>pms_channels = [], pms_modules = []\<rparr>"
    and "distinct (map mod_name pms)" and "\<forall>pm \<in> set pms. module_ok K read_dir config paths pm"
    and "\<forall>pm \<in> set pms. storage_get_namespace_byte_size st (mod_name pm) = Inr (lock_val (storage_current pm))"
proof -
  let ?pop = "populate_storage_size (panic_on_module_load_failure config) st"
  obtain pms0 pms where l0: "filter_map_results (load_module K read_dir module_new config) paths = Inr pms0"
    and l1: "filter_map_results ?pop (completed pms0) = Inr pms"
    and ms: "ms = fold add_module pms \<lparr>pms_channels = [], pms_modules = []\<rparr>"
    using assms(1) by (auto simp: load_def populate_storage_sizes_def split: sum.splits)
  have set: "set (completed pms0) = set pms0" using assms(3) by (metis set_mset_mset)
  have "distinct (map mod_name pms0)" by (rule loaded_names_distinct [OF l0 assms(2)])
  then have "distinct (map mod_name (completed pms0))"
    using assms(3) by (metis mset_eq_imp_distinct_iff mset_map)
  then have dist: "distinct (map mod_name pms)"
    unfolding filter_map_results_Inr(2) [OF l1]
    by (rule distinct_map_filter) (auto split: sum.splits dest: populate_storage_size_name)
  have ok: "module_ok K read_dir config paths pm
      \<and> storage_get_namespace_byte_size st (mod_name pm) = Inr (lock_val (storage_current pm))" if pm: "pm \<in> set pms" for pm
  proof -
    obtain pm0 where pm0: "pm0 \<in> set pms0" "?pop pm0 = Inr (Some pm)"
      using pm unfolding filter_map_results_Inr(1) [OF l1] set by blast
    obtain path where "path \<in> set paths" "load_module K read_dir module_new config path = Inr (Some pm0)"
      using pm0(1) unfolding filter_map_results_Inr(1) [OF l0] by blast
    then have "module_ok K read_dir config paths pm0" by (intro load_module_ok)
    then show ?thesis
      using populate_storage_size_name [OF pm0(2)] by (auto intro: module_ok_storage_current)
  qed
  show thesis by (rule that [OF ms dist]) (use ok in blast)+
qed

lemma load_modules_get:
  assumes "distinct (map mod_name pms)"
  shows "hm_get (pms_modules (fold add_module pms \<lparr>pms_channels = [], pms_modules = []\<rparr>)) name = Some pm \<longleftrightarrow>
    pm \<in> set pms \<and> mod_name pm = name"
proof -
  have "List.find (\<lambda>pm. mod_name pm = name) pms = Some pm \<longleftrightarrow> pm \<in> set pms \<and> mod_name pm = name"
    using assms by (induction pms) (auto simp: find_None_all image_iff)
  then show ?thesis
    by (cases "List.find (\<lambda>pm. mod_name pm = name) pms") (auto simp: add_module_modules [OF assms])
qed

lemma insert_all_get:
  "hm_wf overrides \<Longrightarrow> hm_get (insert_all overrides m) k =
     (case hm_get overrides k of Some v \<Rightarrow> Some (as_bytes v) | None \<Rightarrow> hm_get m k)"
proof (induction overrides arbitrary: m)
  case (Cons kv overrides)
  obtain a b where kv: "kv = (a, b)" by force
  have "hm_get overrides a = None" "hm_wf overrides"
    using Cons.prems by (auto simp: kv hm_defs map_of_eq_None_iff)
  then show ?case using Cons.IH [of "hm_insert a (as_bytes b) m"]
    by (auto simp: kv insert_all_def hm_get_def [of "(a, b) # overrides"] hm_get_def [of overrides] split: option.splits)
qed (simp add: insert_all_def)

lemma string_map_bytes_get: "hm_get (string_map_bytes m) k = map_option as_bytes (hm_get m k)"
  by (induction m) (auto simp: string_map_bytes_def hm_get_def)

subsection \<open>Properties\<close>

text \<open>
  C14. Loading is sound, on every storage backend that satisfies \<open>storage_contract\<close>. Every module that \<^verbatim>\<open>load\<close> registers comes
  from a \<^verbatim>\<open>.wasm\<close> file of the directory and can be linked when it is executed; when module signing is configured, it passed
  the signature check, and otherwise nothing is checked; its storage counter holds the bytes its namespace already has; and the
  channel of a log type consists of exactly the registered modules of that type.
\<close>

theorem load_sound:
  assumes "storage_contract P contents valid" and "vtable st = P" and "valid (database st)"
    and "load K read_dir module_new completed paths config (Some st) = Inr ms"
    and "distinct (path_names paths)" and "\<forall>pms. mset (completed pms) = mset pms"
  shows "(\<forall>name pm. get_module ms name = Some pm \<longrightarrow>
       mod_name pm = name \<and> module_ok K read_dir config paths pm
     \<and> lock_val (storage_current pm) = word_of_nat (map_bytes (contents (database st) name)))
   \<and> (\<forall>pm t. (\<exists>l. hm_get (pms_channels ms) t = Some l \<and> pm \<in> set l) \<longleftrightarrow>
       logtype pm = t \<and> get_module ms (mod_name pm) = Some pm)"
proof -
  have perm: "\<And>pms. mset (completed pms) = mset pms" using assms(6) by simp
  obtain pms where pms: "ms = fold add_module pms \<lparr>pms_channels = [], pms_modules = []\<rparr>"
    "distinct (map mod_name pms)" "\<forall>pm \<in> set pms. module_ok K read_dir config paths pm"
    "\<forall>pm \<in> set pms. storage_get_namespace_byte_size st (mod_name pm) = Inr (lock_val (storage_current pm))"
    using assms(4,5) perm by (rule load_modules_list)
  have get: "get_module ms name = Some pm \<longleftrightarrow> pm \<in> set pms \<and> mod_name pm = name" for name pm
    unfolding get_module_def pms(1) by (rule load_modules_get [OF pms(2)])
  have chan: "(\<exists>l. hm_get (pms_channels ms) t = Some l \<and> pm \<in> set l) \<longleftrightarrow> logtype pm = t \<and> pm \<in> set pms" for pm t
    unfolding pms(1) by (auto simp: add_module_channels Let_def filter_empty_conv)
  have "lock_val (storage_current pm) = word_of_nat (map_bytes (contents (database st) (mod_name pm)))"
    if "pm \<in> set pms" for pm
    using pms(4) that storage_contract.byte_size_correct [OF assms(1,3)] assms(2)
    by (simp add: storage_get_namespace_byte_size_def)
  then show ?thesis using pms(3) by (auto simp: get chan)
qed


definition sample_config :: "string loader_config" where
  "sample_config =
     \<lparr>log_type_overrides = [], computation_amount = \<lparr>la_default = 1000, la_log_type = [], la_module_overrides = []\<rparr>,
      memory_page_count = \<lparr>la_default = 10, la_log_type = [], la_module_overrides = []\<rparr>,
      storage_size = \<lparr>li_default = Limited 100, li_log_type = [], li_module_overrides = []\<rparr>,
      cfg_secrets = [], universal_accessory_data = Some [(''k'', ''u''), (''j'', ''u'')],
      accessory_data_log_type_overrides = [(''okta'', [(''k'', ''t'')])], accessory_data_file_overrides = [],
      persistent_response_size = [], cfg_test_mode = False, test_mode_exemptions = [],
      module_signing = Some (sample_signing 1), panic_on_module_load_failure = True\<rparr>"

definition sample_paths :: "module_file option list" where
  "sample_paths = [Some \<lparr>mf_name = ''okta_a.wasm'', mf_bytes = Inr [1]\<rparr>, None]"

lemma sample_load:
  assumes "storage_get_namespace_byte_size st ''okta_a.wasm'' = Inr n"
  shows "\<exists>ms. load sample_crypto sample_sig_dir (\<lambda>b. Inr [''storage_get'', ''__wbindgen_throw'']) (\<lambda>ms. ms) sample_paths
     sample_config (Some st) = Inr ms
   \<and> (\<exists>pm. get_module ms ''okta_a.wasm'' = Some pm \<and> logtype pm = ''okta'' \<and> storage_limit pm = Limited 100)"
proof -
  have sig: "check_module_signatures sample_crypto sample_sig_dir (sample_signing 1) f b = Inr ()" for f b
    by (simp add: check_module_signatures_def sample_sig_dir_def sample_crypto_def sample_signing_def
        List.map_filter_simps verify_signature_file_def read_in_signature_def suffix_def Let_def)
  have known: "is_known_api_function ''storage_get''"
    by (simp add: is_known_api_function_def with_env_functions_def plaid_entries_def)
  have bindgen: "is_bindgen_import ''__wbindgen_throw''" "\<not> is_bindgen_import ''storage_get''"
    by (simp_all add: is_bindgen_import_def)
  have suf: "suffix ''.wasm'' ''okta_a.wasm''" by (simp add: suffix_def)
  show ?thesis
    by (simp add: load_def sample_paths_def filter_map_results_def load_module_def read_and_parse_modules_def suf
        sample_config_def sig [unfolded One_nat_def] compile_def known bindgen module_log_type_def hm_get_Nil Let_def
        List.map_filter_simps populate_storage_sizes_def populate_storage_size_def assms
        get_module_persistent_storage_limit_def add_module_def get_module_def)
qed

text \<open>A storage with an in-memory backend that already holds four bytes for the module.\<close>

definition sample_stored :: "in_memory_db storage" where
  "sample_stored = \<lparr>vtable = in_memory_provider, database = [(''okta_a.wasm'', [(''a'', [1, 2, 3])])], shared_dbs = None\<rparr>"

lemma sample_stored:
  "vtable sample_stored = in_memory_provider" "im_inv (database sample_stored)"
  "map_bytes (im_contents (database sample_stored) ''okta_a.wasm'') = 4"
  "storage_get_namespace_byte_size sample_stored ''okta_a.wasm'' = Inr 4"
proof -
  show v: "vtable sample_stored = in_memory_provider" "im_inv (database sample_stored)"
    by (simp_all add: sample_stored_def im_inv_def hm_wf_def)
  show bytes: "map_bytes (im_contents (database sample_stored) ''okta_a.wasm'') = 4"
    by (simp add: sample_stored_def im_contents_def hm_get_def [abs_def] map_bytes_def)
  show "storage_get_namespace_byte_size sample_stored ''okta_a.wasm'' = Inr 4"
    by (simp add: storage_get_namespace_byte_size_def sample_stored_def get_namespace_byte_size_def im_defs hm_get_def prefix_filter_def)
qed

theorem load_sound_witness:
  "\<exists>ms pm. load sample_crypto sample_sig_dir (\<lambda>b. Inr [''storage_get'', ''__wbindgen_throw'']) (\<lambda>ms. ms) sample_paths
     sample_config (Some sample_stored) = Inr ms
   \<and> get_module ms ''okta_a.wasm'' = Some pm \<and> module_ok sample_crypto sample_sig_dir sample_config sample_paths pm
   \<and> lock_val (storage_current pm) = 4"
proof -
  obtain ms pm where ms: "load sample_crypto sample_sig_dir (\<lambda>b. Inr [''storage_get'', ''__wbindgen_throw'']) (\<lambda>ms. ms)
     sample_paths sample_config (Some sample_stored) = Inr ms" "get_module ms ''okta_a.wasm'' = Some pm"
    using sample_load [OF sample_stored(4)] by blast
  have "distinct (path_names sample_paths)" by (simp add: path_names_def sample_paths_def List.map_filter_simps)
  then show ?thesis
    using load_sound [OF im.storage_contract_axioms sample_stored(1,2) ms(1)] ms sample_stored(3) by auto
qed

text \<open>
  Accessory data. What a module finds under a key is the value of its own overrides, or else of
  its log type's overrides, or else of the universal data.
\<close>

theorem accessory_data_precedence:
  assumes "\<forall>t m. hm_get (accessory_data_log_type_overrides config) t = Some m \<longrightarrow> hm_wf m"
    and "\<forall>f m. hm_get (accessory_data_file_overrides config) f = Some m \<longrightarrow> hm_wf m"
  shows "(case module_accessory_data config filename lt of None \<Rightarrow> None | Some m \<Rightarrow> hm_get m k) =
    (let lookup = (\<lambda>d. case d of None \<Rightarrow> None | Some m \<Rightarrow> map_option as_bytes (hm_get m k))
     in case lookup (hm_get (accessory_data_file_overrides config) filename) of
          Some v \<Rightarrow> Some v
        | None \<Rightarrow>
            (case lookup (hm_get (accessory_data_log_type_overrides config) lt) of
               Some v \<Rightarrow> Some v
             | None \<Rightarrow> lookup (universal_accessory_data config)))"
  using assms
  by (auto simp: module_accessory_data_def insert_all_get string_map_bytes_get Let_def split: option.splits)

theorem accessory_data_precedence_witness:
  "(case module_accessory_data sample_config ''okta_a.wasm'' ''okta'' of None \<Rightarrow> None | Some m \<Rightarrow> hm_get m ''k'') =
     Some (as_bytes ''t'')"
proof -
  have wf: "\<forall>t m. hm_get (accessory_data_log_type_overrides sample_config) t = Some m \<longrightarrow> hm_wf m"
    "\<forall>f m. hm_get (accessory_data_file_overrides sample_config) f = Some m \<longrightarrow> hm_wf m"
    by (auto simp: sample_config_def hm_get_def hm_wf_def split: if_splits)
  show ?thesis unfolding accessory_data_precedence [OF wf] by (simp add: sample_config_def hm_get_def)
qed

end
