(* ===== verification/Plaid_Messages.thy ===== *)
theory Plaid_Messages
  imports Plaid_Env
begin

text \<open>
  The host functions a guest uses to learn about the message it handles and about its own
  configuration, and to leave a response: \<^verbatim>\<open>runtime/plaid/src/functions/message.rs\<close>,
  \<^verbatim>\<open>functions/runtime_data.rs\<close> and \<^verbatim>\<open>functions/response.rs\<close>; and the guest's side of the exchange, the
  entry point generated by \<^verbatim>\<open>entrypoint_with_source\<close> in \<^verbatim>\<open>runtime/plaid-stl/src/lib.rs\<close>. The JSON
  codec of log sources is a parameter.
\<close>

subsection \<open>Handing data to the guest\<close>

definition write_back ::
  "'m wasm_ops \<Rightarrow> ('m, 'd, 'c, 'q) env \<Rightarrow> 'm \<Rightarrow> bytes \<Rightarrow> u32 \<Rightarrow> u32 \<Rightarrow> i32 \<times> ('m, 'd, 'c, 'q) env" where
  "write_back W env memory_view data data_buffer buffer_size =
     (let (r, m) = safely_write_data_back W memory_view data data_buffer buffer_size
      in (result_code r, env\<lparr>env_memory := Some m\<rparr>))"

text \<open>\<^verbatim>\<open>u32::to_le_bytes\<close> and \<^verbatim>\<open>u32::from_le_bytes\<close>.\<close>

definition to_le_bytes :: "u32 \<Rightarrow> bytes" where
  "to_le_bytes w = [ucast w, ucast (drop_bit 8 w), ucast (drop_bit 16 w), ucast (drop_bit 24 w)]"

unbundle bit_operations_syntax

definition from_le_bytes :: "bytes \<Rightarrow> u32" where
  "from_le_bytes b =
     ucast (b ! 0) OR push_bit 8 (ucast (b ! 1)) OR push_bit 16 (ucast (b ! 2)) OR push_bit 24 (ucast (b ! 3))"

definition fetch_data_and_source ::
  "'m wasm_ops \<Rightarrow> (log_source \<Rightarrow> bytes option) \<Rightarrow> ('m, 'd, 'c, 'q) env \<Rightarrow> u32 \<Rightarrow> u32
     \<Rightarrow> i32 \<times> ('m, 'd, 'c, 'q) env" where
  "fetch_data_and_source W to_json env data_buffer buffer_size =
     (case get_memory (env_memory env) of
        Inl e \<Rightarrow> (error_code e, env)
      | Inr memory_view \<Rightarrow>
          (let log_data = msg_data (env_message env)
           in case to_json (source (env_message env)) of
                None \<Rightarrow> (-4, env)
              | Some src \<Rightarrow>
                  (let log_length = to_le_bytes (word_of_nat (length log_data));
                       rule_data = log_length @ log_data @ src
                   in write_back W env memory_view rule_data data_buffer buffer_size)))"

definition fetch_data ::
  "'m wasm_ops \<Rightarrow> ('m, 'd, 'c, 'q) env \<Rightarrow> u32 \<Rightarrow> u32 \<Rightarrow> i32 \<times> ('m, 'd, 'c, 'q) env" where
  "fetch_data W env data_buffer buffer_size =
     (case get_memory (env_memory env) of
        Inl e \<Rightarrow> (error_code e, env)
      | Inr memory_view \<Rightarrow> write_back W env memory_view (msg_data (env_message env)) data_buffer buffer_size)"

definition fetch_source ::
  "'m wasm_ops \<Rightarrow> (log_source \<Rightarrow> bytes option) \<Rightarrow> ('m, 'd, 'c, 'q) env \<Rightarrow> u32 \<Rightarrow> u32
     \<Rightarrow> i32 \<times> ('m, 'd, 'c, 'q) env" where
  "fetch_source W to_json env data_buffer buffer_size =
     (case get_memory (env_memory env) of
        Inl e \<Rightarrow> (error_code e, env)
      | Inr memory_view \<Rightarrow>
          (case to_json (source (env_message env)) of
             None \<Rightarrow> (-4, env)
           | Some src \<Rightarrow> write_back W env memory_view src data_buffer buffer_size))"

text \<open>The body of the two macros for string getters, after the memory is known.\<close>

definition get_named ::
  "'m wasm_ops \<Rightarrow> ('m, 'd, 'c, 'q) env \<Rightarrow> (string, bytes) hashmap \<Rightarrow> u32 \<Rightarrow> u32 \<Rightarrow> u32 \<Rightarrow> u32
     \<Rightarrow> i32 \<times> ('m, 'd, 'c, 'q) env" where
  "get_named W env what name_buf name_len data_buffer buffer_size =
     (case get_memory (env_memory env) of
        Inl e \<Rightarrow> (error_code e, env)
      | Inr memory_view \<Rightarrow>
          (case safely_get_string W memory_view name_buf name_len of
             Inl e \<Rightarrow> (error_code e, env)
           | Inr name \<Rightarrow>
               (case hm_get what name of
                  Some data \<Rightarrow> write_back W env memory_view data data_buffer buffer_size
                | None \<Rightarrow> (0, env))))"

definition get_headers ::
  "'m wasm_ops \<Rightarrow> ('m, 'd, 'c, 'q) env \<Rightarrow> u32 \<Rightarrow> u32 \<Rightarrow> u32 \<Rightarrow> u32 \<Rightarrow> i32 \<times> ('m, 'd, 'c, 'q) env" where
  "get_headers W env name_buf name_len data_buffer buffer_size =
     get_named W env (headers (env_message env)) name_buf name_len data_buffer buffer_size"

definition get_query_params ::
  "'m wasm_ops \<Rightarrow> ('m, 'd, 'c, 'q) env \<Rightarrow> u32 \<Rightarrow> u32 \<Rightarrow> u32 \<Rightarrow> u32 \<Rightarrow> i32 \<times> ('m, 'd, 'c, 'q) env" where
  "get_query_params W env name_buf name_len data_buffer buffer_size =
     get_named W env (query_params (env_message env)) name_buf name_len data_buffer buffer_size"

definition get_secrets ::
  "'m wasm_ops \<Rightarrow> ('m, 'd, 'c, 'q) env \<Rightarrow> u32 \<Rightarrow> u32 \<Rightarrow> u32 \<Rightarrow> u32 \<Rightarrow> i32 \<times> ('m, 'd, 'c, 'q) env" where
  "get_secrets W env name_buf name_len data_buffer buffer_size =
     (case secrets (env_module env) of
        None \<Rightarrow> (0, env)
      | Some what \<Rightarrow> get_named W env what name_buf name_len data_buffer buffer_size)"

definition get_accessory_data ::
  "'m wasm_ops \<Rightarrow> ('m, 'd, 'c, 'q) env \<Rightarrow> u32 \<Rightarrow> u32 \<Rightarrow> u32 \<Rightarrow> u32 \<Rightarrow> i32 \<times> ('m, 'd, 'c, 'q) env" where
  "get_accessory_data W env name_buf name_len data_buffer buffer_size =
     (case accessory_data (env_module env) of
        None \<Rightarrow> (0, env)
      | Some what \<Rightarrow> get_named W env what name_buf name_len data_buffer buffer_size)"

definition get_response ::
  "'m wasm_ops \<Rightarrow> ('m, 'd, 'c, 'q) env \<Rightarrow> u32 \<Rightarrow> u32 \<Rightarrow> i32 \<times> ('m, 'd, 'c, 'q) env" where
  "get_response W env response_buffer response_buffer_size =
     (case get_memory (env_memory env) of
        Inl _ \<Rightarrow> (error_code CouldNotGetAdequateMemory, env)
      | Inr memory_view \<Rightarrow>
          (case response env of
             None \<Rightarrow> (0, env)
           | Some r \<Rightarrow> write_back W env memory_view (as_bytes r) response_buffer response_buffer_size))"

definition set_response ::
  "'m wasm_ops \<Rightarrow> ('m, 'd, 'c, 'q) env \<Rightarrow> u32 \<Rightarrow> u32 \<Rightarrow> ('m, 'd, 'c, 'q) env" where
  "set_response W env response_buffer response_buffer_size =
     (case get_memory (env_memory env) of
        Inl _ \<Rightarrow> env
      | Inr memory_view \<Rightarrow>
          (case safely_get_string W memory_view response_buffer response_buffer_size of
             Inl _ \<Rightarrow> env
           | Inr s \<Rightarrow> env\<lparr>response := Some s\<rparr>))"

subsection \<open>The guest's entry point\<close>

text \<open>
  What \<^verbatim>\<open>entrypoint_with_source\<close> makes of the two calls to \<^verbatim>\<open>fetch_data_and_source\<close>: the codes they
  returned and the buffer of the second. It stops with a code, or calls the rule's \<^verbatim>\<open>main\<close> with the
  log and its source. Slicing beyond the buffer is a panic of the guest, \<open>None\<close> here.
\<close>

definition entrypoint_with_source ::
  "(bytes \<Rightarrow> string option) \<Rightarrow> (bytes \<Rightarrow> log_source option) \<Rightarrow> i32 \<Rightarrow> i32 \<Rightarrow> bytes
     \<Rightarrow> (i32 + (string \<times> log_source)) option" where
  "entrypoint_with_source from_utf8 from_json buffer_size copied_size data_buffer =
     (if buffer_size < 4 then Some (Inl (-3))
      else if copied_size < 4 then Some (Inl (-4))
      else if copied_size \<noteq> buffer_size then Some (Inl (-1))
      else let log_length = unat (from_le_bytes (take 4 data_buffer))
           in if 4 + log_length > length data_buffer then None
              else case from_utf8 (take log_length (drop 4 data_buffer)) of
                     None \<Rightarrow> Some (Inl (-2))
                   | Some log \<Rightarrow>
                       (case from_json (drop (4 + log_length) data_buffer) of
                          None \<Rightarrow> Some (Inl (-2))
                        | Some src \<Rightarrow> Some (Inr (log, src))))"

subsection \<open>Lemmas\<close>

lemma length_to_le_bytes [simp]: "length (to_le_bytes w) = 4"
  by (simp add: to_le_bytes_def)

lemma from_to_le_bytes [simp]: "from_le_bytes (to_le_bytes w) = w"
proof (rule bit_word_eqI)
  fix n assume n: "n < LENGTH(32)"
  have "n < 8 \<or> 8 \<le> n \<and> n < 16 \<or> 16 \<le> n \<and> n < 24 \<or> 24 \<le> n \<and> n < 32" using n by auto
  then show "bit (from_le_bytes (to_le_bytes w)) n \<longleftrightarrow> bit w n"
    by (elim disjE conjE) (auto simp: from_le_bytes_def to_le_bytes_def bit_simps)
qed

text \<open>The buffer the host builds: length, log, source.\<close>

definition data_and_source :: "bytes \<Rightarrow> bytes \<Rightarrow> bytes" where
  "data_and_source log src = to_le_bytes (word_of_nat (length log)) @ log @ src"

lemma length_data_and_source [simp]: "length (data_and_source log src) = 4 + length log + length src"
  by (simp add: data_and_source_def)

lemma entrypoint_data_and_source:
  assumes "length log < 2 ^ 32" and "from_utf8 log = Some s" and "from_json src = Some ls"
  shows "entrypoint_with_source from_utf8 from_json n n (data_and_source log src) =
    (if n < 4 then Some (Inl (-3)) else Some (Inr (s, ls)))"
proof -
  have "unat (word_of_nat (length log) :: u32) = length log"
    using assms(1) by (rule unat_word_of_nat_u32)
  then show ?thesis
    using assms(2,3) by (simp add: entrypoint_with_source_def data_and_source_def)
qed

lemma write_back_whole:
  assumes "wasm_mem_ok W" and "length data < 2 ^ 31" and "data \<noteq> []"
    and "ptr_slice W mv p (word_of_nat (length data))"
  obtains mv' where "write_back W env mv data p (word_of_nat (length data)) = (int (length data), env\<lparr>env_memory := Some mv'\<rparr>)"
    and "view_read W mv' (ucast p) (length data) = Some data"
proof -
  have u: "unat (word_of_nat (length data) :: u32) = length data"
    using assms(2) by (intro unat_word_of_nat_u32) simp
  then have "(word_of_nat (length data) :: u32) \<noteq> 0"
    using assms(3) by (metis length_0_conv unat_0)
  from write_back_fits [OF assms(1) _ this assms(4)] u obtain mv' where
    "safely_write_data_back W mv data p (word_of_nat (length data)) = (Inr (as_i32 (length data)), mv')"
    "view_read W mv' (ucast p) (length data) = Some data" by auto
  then show thesis using that assms(2) by (simp add: write_back_def)
qed

subsection \<open>Properties\<close>

text \<open>
  A rule receives the log and the source of the message it was started for: the size the host
  reports on the first call is the size it fills on the second, and the entry point decodes the buffer
  into exactly the message's data and source.
\<close>

theorem data_and_source_roundtrip:
  assumes "wasm_mem_ok W" and "env_memory env = Some mv"
    and "to_json (source (env_message env)) = Some src" and "from_json src = Some (source (env_message env))"
    and "from_utf8 (msg_data (env_message env)) = Some log"
    and "size_all = 4 + length (msg_data (env_message env)) + length src" and "size_all < 2 ^ 31"
    and "ptr_slice W mv p (word_of_nat size_all)"
  shows "fetch_data_and_source W to_json env p0 0 = (int size_all, env)
    \<and> (\<exists>mv' buf. fetch_data_and_source W to_json env p (word_of_nat size_all) = (int size_all, env\<lparr>env_memory := Some mv'\<rparr>)
        \<and> view_read W mv' (ucast p) size_all = Some buf
        \<and> entrypoint_with_source from_utf8 from_json (int size_all) (int size_all) buf =
            Some (Inr (log, source (env_message env))))"
proof -
  let ?data = "data_and_source (msg_data (env_message env)) src"
  have len: "length ?data = size_all" using assms(6) by simp
  have call: "fetch_data_and_source W to_json env q n = write_back W env mv ?data q n" for q n
    using assms(2,3) by (simp add: fetch_data_and_source_def get_memory_def data_and_source_def Let_def)
  have ne: "?data \<noteq> []" using len assms(6) by (metis add_is_0 list.size(3) zero_neq_numeral)
  obtain mv' where w: "write_back W env mv ?data p (word_of_nat (length ?data)) = (int (length ?data), env\<lparr>env_memory := Some mv'\<rparr>)"
    "view_read W mv' (ucast p) (length ?data) = Some ?data"
    using assms(1,7,8) len ne by (metis write_back_whole)
  have "entrypoint_with_source from_utf8 from_json (int size_all) (int size_all) ?data =
      Some (Inr (log, source (env_message env)))"
    using entrypoint_data_and_source [of "msg_data (env_message env)" from_utf8 log from_json src _ "int size_all"] assms(4-7) by simp
  moreover have "env\<lparr>env_memory := Some mv\<rparr> = env" using assms(2) by (cases env) simp
  then have "write_back W env mv ?data p0 0 = (int size_all, env)"
    using assms(7) len by (simp add: write_back_def write_back_probe)
  ultimately show ?thesis using w unfolding call len by blast
qed

theorem data_and_source_roundtrip_witness:
  "\<exists>mv' buf. fetch_data_and_source flat_ops (\<lambda>_. Some [9])
       ((sample_env :: (bytes, unit, unit, unit) env)\<lparr>env_memory := Some [0, 0, 0, 0, 0, 0, 0]\<rparr>) 1 (word_of_nat 6) =
       (int 6, (sample_env :: (bytes, unit, unit, unit) env)\<lparr>env_memory := Some mv'\<rparr>)
     \<and> entrypoint_with_source (\<lambda>b. Some ''x'') (\<lambda>_. Some (Generator Okta)) (int 6) (int 6) buf =
         Some (Inr (''x'', Generator Okta))"
proof -
  let ?env = "(sample_env :: (bytes, unit, unit, unit) env)\<lparr>env_memory := Some [0, 0, 0, 0, 0, 0, 0]\<rparr>"
  have msg: "source (env_message ?env) = Generator Okta" "msg_data (env_message ?env) = [1]"
    by (simp_all add: sample_env_def sample_message_def message_new_def)
  have fit: "ptr_slice flat_ops [0, 0, 0, 0, 0, 0, 0] 1 (word_of_nat 6)" by simp
  have len: "6 = 4 + length (msg_data (env_message ?env)) + length [9 :: u8]" unfolding msg(2) by simp
  have "\<exists>mv' buf. fetch_data_and_source flat_ops (\<lambda>_. Some [9]) ?env 1 (word_of_nat 6) = (int 6, ?env\<lparr>env_memory := Some mv'\<rparr>)
        \<and> view_read flat_ops mv' (ucast (1 :: u32)) 6 = Some buf
        \<and> entrypoint_with_source (\<lambda>b. Some ''x'') (\<lambda>_. Some (Generator Okta)) (int 6) (int 6) buf =
            Some (Inr (''x'', source (env_message ?env)))"
    by (rule conjunct2 [OF data_and_source_roundtrip [OF wasm_mem_ok_flat, of ?env "[0, 0, 0, 0, 0, 0, 0]", OF _ _ _ _ len _ fit]])
      (simp_all only: msg, simp_all)
  then show ?thesis unfolding msg(1) by auto
qed

end
