(* ===== verification/Plaid_Executor.thy ===== *)
theory Plaid_Executor
  imports Plaid_Api
begin

text \<open>
  Running messages through modules, \<^verbatim>\<open>runtime/plaid/src/executor/mod.rs\<close> and
  \<^verbatim>\<open>executor/thread_pools.rs\<close>. The engine that instantiates and runs a module is \<^verbatim>\<open>wasmer\<close>: a record of
  its operations, where calling the entry point takes the environment to its state afterwards, and
  ends with a code, a trap, or a panic of a host function that the module called, which aborts the
  process (\<^verbatim>\<open>panic = "abort"\<close> in the release profile of \<^verbatim>\<open>runtime/Cargo.toml\<close>). What threads share (the storage, the cache, the channels, the state of
  the modules) is the state \<open>exec_state\<close>; responses to waiting GET requests are recorded in it. The
  external logger, when it fails, fails for good. Metrics are left out.
\<close>

subsection \<open>Errors\<close>

datatype module_execution_error =
    ComputationExhausted u64
  | ModuleError string
  | PersistentResponseNotAllowed
  | PersistentResponseTooLarge nat nat
  | LockingError
  | UnknownExecutionError string

datatype executor_error =
    ExternalLoggingError
  | ExecLinkError link_error
  | InstantiationError string
  | ExecMemoryError string
  | NoEntrypoint
  | InvalidEntrypoint
  | ModuleExecutionError module_execution_error

record response_message =
  rm_code :: u16
  rm_body :: string

subsection \<open>The engine\<close>

text \<open>What ends a worker thread early: an error of the runtime, or the end of the whole process.\<close>

datatype worker_stop = Stopped executor_error | ProcessAborted

datatype call_result = Returned i32 | Trapped string bool

datatype entrypoint_kind = MissingEntrypoint | IllTypedEntrypoint | GoodEntrypoint

text \<open>\<open>None\<close> is the result of a call in which a host function panicked.\<close>

record ('i, 'm, 'd, 'c, 'q) engine_ops =
  instance_new :: "plaid_module \<Rightarrow> (string, host_target) hashmap \<Rightarrow> string + 'i"
  instance_memory :: "'i \<Rightarrow> string + 'm"
  instance_entrypoint :: "'i \<Rightarrow> entrypoint_kind"
  call_entrypoint :: "'i \<Rightarrow> ('m, 'd, 'c, 'q) env \<Rightarrow> call_result option \<times> ('m, 'd, 'c, 'q) env"

text \<open>
  The modules are shared and have parts that change (the storage counter and the persistent
  response), so the state maps their names to them. \<open>es_els_ok\<close> tells whether the external logger
  works.
\<close>

record ('d, 'c, 'q) exec_state =
  es_storage :: "'d storage option"
  es_cache :: "'c option"
  es_channels :: 'q
  es_modules :: "(string, plaid_module) hashmap"
  es_els_ok :: bool
  es_responses :: "(nat \<times> response_message option) list"

subsection \<open>Preparing\<close>

text \<open>Every failure before the entry point is known is first reported to the logger, which may fail.\<close>

definition log_module_error :: "bool \<Rightarrow> executor_error \<Rightarrow> executor_error" where
  "log_module_error els_ok e = (if els_ok then e else ExternalLoggingError)"

definition prepare_for_execution ::
  "('i, 'm, 'd, 'c, 'q) engine_ops \<Rightarrow> message \<Rightarrow> plaid_module \<Rightarrow> ('d, 'c, 'q) exec_state \<Rightarrow> string option
     \<Rightarrow> bool \<Rightarrow> bool \<Rightarrow> executor_error + ('i \<times> ('m, 'd, 'c, 'q) env)" where
  "prepare_for_execution E msg pm es resp imm_sender canc =
     (let env = \<lparr>env_module = pm, env_message = create_duplicate msg, env_storage = es_storage es,
                 env_cache = es_cache es, env_memory = None, response = resp,
                 execution_error_context = None, immediate_sender = imm_sender, cancelled = canc,
                 channels = es_channels es\<rparr>
      in case link_functions_to_module (mod_imports pm) of
           Inl e \<Rightarrow> Inl (log_module_error (es_els_ok es) (ExecLinkError e))
         | Inr exports \<Rightarrow>
             (let registered = exports @ create_bindgen_placeholder (mod_imports pm) @ create_bindgen_externref_xform
              in case instance_new E pm registered of
                   Inl e \<Rightarrow> Inl (log_module_error (es_els_ok es) (InstantiationError e))
                 | Inr inst \<Rightarrow>
                     (case instance_memory E inst of
                        Inl e \<Rightarrow> Inl (log_module_error (es_els_ok es) (ExecMemoryError e))
                      | Inr mem \<Rightarrow>
                          (case instance_entrypoint E inst of
                             MissingEntrypoint \<Rightarrow> Inl NoEntrypoint
                           | IllTypedEntrypoint \<Rightarrow> Inl InvalidEntrypoint
                           | GoodEntrypoint \<Rightarrow> Inr (inst, env\<lparr>env_memory := Some mem\<rparr>)))))"

subsection \<open>After the run\<close>

definition send_response ::
  "nat option \<Rightarrow> response_message option \<Rightarrow> (nat \<times> response_message option) list" where
  "send_response sender r = (case sender of Some s \<Rightarrow> [(s, r)] | None \<Rightarrow> [])"

definition update_persistent_response ::
  "plaid_module \<Rightarrow> string option \<Rightarrow> nat option
     \<Rightarrow> (executor_error + unit) \<times> plaid_module \<times> (nat \<times> response_message option) list" where
  "update_persistent_response pm resp sender =
     (case (resp, persistent_response pm) of
        (None, _) \<Rightarrow> (Inr (), pm, send_response sender None)
      | (Some _, None) \<Rightarrow> (Inr (), pm, [])
      | (Some r, Some pr) \<Rightarrow>
          if length r \<le> max_size pr then
            (if poisoned (pr_data pr) then (Inl (ModuleExecutionError LockingError), pm, [])
             else (Inr (), pm\<lparr>persistent_response := Some (pr\<lparr>pr_data := (pr_data pr)\<lparr>lock_val := Some r\<rparr>\<rparr>)\<rparr>,
                   send_response sender (Some \<lparr>rm_code = 200, rm_body = r\<rparr>)))
          else (Inl (ModuleExecutionError (PersistentResponseTooLarge (max_size pr) (length r))), pm, []))"

definition determine_error :: "string \<Rightarrow> bool \<Rightarrow> u64 \<Rightarrow> string option \<Rightarrow> module_execution_error" where
  "determine_error e exhausted limit ctx =
     (if exhausted then ComputationExhausted limit
      else UnknownExecutionError
        (e @ ''. Additional context: '' @ (case ctx of Some c \<Rightarrow> c | None \<Rightarrow> ''This is probably an OOM error'')))"

text \<open>The state after a run: what the environment shares with it, and the module's own state.\<close>

definition merge_env :: "('m, 'd, 'c, 'q) env \<Rightarrow> ('d, 'c, 'q) exec_state \<Rightarrow> ('d, 'c, 'q) exec_state" where
  "merge_env env es =
     es\<lparr>es_storage := env_storage env, es_cache := env_cache env, es_channels := channels env,
        es_modules := hm_insert (mod_name (env_module env)) (env_module env) (es_modules es)\<rparr>"

definition run_error :: "call_result \<Rightarrow> plaid_module \<Rightarrow> ('m, 'd, 'c, 'q) env \<Rightarrow> module_execution_error option" where
  "run_error res pm env =
     (case res of
        Returned n \<Rightarrow>
          if n \<noteq> 0 then Some (ModuleError (case execution_error_context env of Some c \<Rightarrow> c | None \<Rightarrow> ''None''))
          else None
      | Trapped e exhausted \<Rightarrow>
          Some (determine_error e exhausted (computation_limit pm) (execution_error_context env)))"

definition process_message_with_module ::
  "('i, 'm, 'd, 'c, 'q) engine_ops \<Rightarrow> bool \<Rightarrow> bool \<Rightarrow> message \<Rightarrow> plaid_module \<Rightarrow> ('d, 'c, 'q) exec_state
     \<Rightarrow> (worker_stop + unit) \<times> ('d, 'c, 'q) exec_state" where
  "process_message_with_module E imm_sender canc msg pm es =
     (case prepare_for_execution E (create_duplicate msg) pm es (get_persistent_response_data pm) imm_sender canc of
        Inl _ \<Rightarrow> (if es_els_ok es then Inr () else Inl (Stopped ExternalLoggingError), es)
      | Inr (inst, env) \<Rightarrow>
          (case call_entrypoint E inst env of
             (None, env') \<Rightarrow> (Inl ProcessAborted, merge_env env' es)
           | (Some res, env') \<Rightarrow>
               (let es' = merge_env env' es
                in case run_error res pm env' of
                     Some _ \<Rightarrow> (if es_els_ok es' then Inr () else Inl (Stopped ExternalLoggingError), es')
                   | None \<Rightarrow>
                       (let (r, pm', sent) = update_persistent_response (env_module env') (response env') (response_sender msg)
                        in (Inr (), es'\<lparr>es_modules := hm_insert (mod_name pm') pm' (es_modules es'),
                                        es_responses := es_responses es' @ sent\<rparr>)))))"

subsection \<open>The loop of a worker thread\<close>

text \<open>
  Which modules a message is run through: the one it names, or the channel of its type. The code
  names modules by shared pointers, and the only messages that carry one are those of GET requests, which
  point to a loaded module; here modules are named, and \<open>es_modules\<close> holds every loaded module, so that
  the name of a message's module is found.
\<close>

definition message_targets :: "(string, string list) hashmap \<Rightarrow> message \<Rightarrow> string list option" where
  "message_targets chans msg =
     (case msg_module msg of
        Some pm \<Rightarrow> Some [mod_name pm]
      | None \<Rightarrow> hm_get chans (msg_type msg))"

fun process_targets ::
  "('i, 'm, 'd, 'c, 'q) engine_ops \<Rightarrow> bool \<Rightarrow> bool \<Rightarrow> message \<Rightarrow> string list \<Rightarrow> ('d, 'c, 'q) exec_state
     \<Rightarrow> (worker_stop + unit) \<times> ('d, 'c, 'q) exec_state" where
  "process_targets E imm_sender canc msg [] es = (Inr (), es)"
| "process_targets E imm_sender canc msg (name # names) es =
     (case hm_get (es_modules es) name of
        None \<Rightarrow> process_targets E imm_sender canc msg names es
      | Some pm \<Rightarrow>
          (case process_message_with_module E imm_sender canc msg pm es of
             (Inl e, es') \<Rightarrow> (Inl e, es')
           | (Inr _, es') \<Rightarrow> process_targets E imm_sender canc msg names es'))"

text \<open>
  The messages received, each with whether shutdown had begun and whether the sender to the executor
  was still alive; when the channel is closed, the loop ends.
\<close>

fun execution_loop ::
  "('i, 'm, 'd, 'c, 'q) engine_ops \<Rightarrow> (string, string list) hashmap \<Rightarrow> (message \<times> bool \<times> bool) list
     \<Rightarrow> ('d, 'c, 'q) exec_state \<Rightarrow> (worker_stop + unit) \<times> ('d, 'c, 'q) exec_state" where
  "execution_loop E chans [] es = (Inr (), es)"
| "execution_loop E chans ((msg, canc, alive) # msgs) es =
     (case message_targets chans msg of
        None \<Rightarrow> execution_loop E chans msgs es
      | Some names \<Rightarrow>
          (let msg' = (if msg_module msg = None then create_duplicate msg else msg)
           in case process_targets E (\<not> canc \<and> alive) canc msg' names es of
                (Inl e, es') \<Rightarrow> (Inl e, es')
              | (Inr _, es') \<Rightarrow> execution_loop E chans msgs es'))"

subsection \<open>Thread pools\<close>

record 'q thread_pool =
  num_threads :: u8
  pool_queue :: 'q

record 'q execution_thread_pools =
  general_pool :: "'q thread_pool"
  dedicated_pools :: "(string, 'q thread_pool) hashmap"

definition thread_pool_new :: "(nat \<Rightarrow> 'q) \<Rightarrow> u8 \<Rightarrow> nat \<Rightarrow> 'q thread_pool" where
  "thread_pool_new bounded n queue_size = \<lparr>num_threads = n, pool_queue = bounded queue_size\<rparr>"

record thread_config =
  tc_num_threads :: u8
  tc_log_queue_size :: nat

record executor_config =
  execution_threads :: u8
  exec_log_queue_size :: nat
  dedicated_threads :: "(string, thread_config) hashmap"

definition execution_thread_pools_new :: "(nat \<Rightarrow> 'q) \<Rightarrow> executor_config \<Rightarrow> 'q execution_thread_pools" where
  "execution_thread_pools_new bounded cfg =
     \<lparr>general_pool = thread_pool_new bounded (execution_threads cfg) (exec_log_queue_size cfg),
      dedicated_pools = map (\<lambda>(t, c). (t, thread_pool_new bounded (tc_num_threads c) (tc_log_queue_size c)))
        (dedicated_threads cfg)\<rparr>"

definition execute_webhook_message ::
  "('q \<Rightarrow> message \<Rightarrow> 'q try_send_result) \<Rightarrow> 'q execution_thread_pools \<Rightarrow> message
     \<Rightarrow> 'q execution_thread_pools try_send_result" where
  "execute_webhook_message try_send pools msg =
     (case hm_get (dedicated_pools pools) (msg_type msg) of
        Some tp \<Rightarrow>
          map_try_send_result (\<lambda>q. pools\<lparr>dedicated_pools := hm_insert (msg_type msg) (tp\<lparr>pool_queue := q\<rparr>) (dedicated_pools pools)\<rparr>)
            (try_send (pool_queue tp) msg)
      | None \<Rightarrow>
          map_try_send_result (\<lambda>q. pools\<lparr>general_pool := (general_pool pools)\<lparr>pool_queue := q\<rparr>\<rparr>)
            (try_send (pool_queue (general_pool pools)) msg))"

subsection \<open>Lemmas\<close>

lemma merge_env_sel [simp]:
  "es_els_ok (merge_env env es) = es_els_ok es" "es_responses (merge_env env es) = es_responses es"
  "es_modules (merge_env env es) = hm_insert (mod_name (env_module env)) (env_module env) (es_modules es)"
  by (simp_all add: merge_env_def)

text \<open>With a logger that works, a worker is stopped by a panic only.\<close>

definition no_host_panics :: "('i, 'm, 'd, 'c, 'q) engine_ops \<Rightarrow> bool" where
  "no_host_panics E \<longleftrightarrow> (\<forall>inst env. fst (call_entrypoint E inst env) \<noteq> None)"

definition survives :: "bool \<Rightarrow> worker_stop + unit \<Rightarrow> bool" where
  "survives no_panics r \<longleftrightarrow> r = Inr () \<or> \<not> no_panics \<and> r = Inl ProcessAborted"

lemma process_message_els:
  "process_message_with_module E imm canc msg pm es = (r, es') \<Longrightarrow>
     es_els_ok es' = es_els_ok es \<and> (es_els_ok es \<longrightarrow> survives (no_host_panics E) r)"
  unfolding no_host_panics_def survives_def
  by (auto simp: process_message_with_module_def Let_def split: sum.splits prod.splits option.splits if_splits)
    (metis fst_conv option.distinct(1))

lemma process_targets_els:
  "process_targets E imm canc msg names es = (r, es') \<Longrightarrow> es_els_ok es \<Longrightarrow> es_els_ok es' \<and> survives (no_host_panics E) r"
proof (induction names arbitrary: es)
  case (Cons name names)
  show ?case
  proof (cases "hm_get (es_modules es) name")
    case None
    then show ?thesis using Cons by simp
  next
    case (Some pm)
    obtain r1 es1 where step: "process_message_with_module E imm canc msg pm es = (r1, es1)" by force
    then have "es_els_ok es1 \<and> survives (no_host_panics E) r1" using process_message_els Cons.prems(2) by metis
    then show ?thesis using Cons Some step by (cases r1) auto
  qed
qed (simp add: survives_def)

text \<open>
  What a guest can reach through the host functions leaves the name of its module and its stored
  response alone: it is only the storage counter that a host function changes.
\<close>

definition guest_confined :: "('i, 'm, 'd, 'c, 'q) engine_ops \<Rightarrow> bool" where
  "guest_confined E \<longleftrightarrow> (\<forall>inst env res env'. call_entrypoint E inst env = (res, env') \<longrightarrow>
     mod_name (env_module env') = mod_name (env_module env)
   \<and> persistent_response (env_module env') = persistent_response (env_module env))"

definition response_bounded :: "plaid_module \<Rightarrow> bool" where
  "response_bounded pm \<longleftrightarrow>
     (case persistent_response pm of
        None \<Rightarrow> True
      | Some pr \<Rightarrow> (case lock_val (pr_data pr) of None \<Rightarrow> True | Some d \<Rightarrow> length d \<le> max_size pr))"

definition responses_bounded :: "('d, 'c, 'q) exec_state \<Rightarrow> bool" where
  "responses_bounded es \<longleftrightarrow> (\<forall>name pm. hm_get (es_modules es) name = Some pm \<longrightarrow> response_bounded pm)"

lemma update_persistent_response_bounded:
  "update_persistent_response pm resp sender = (r, pm', sent) \<Longrightarrow> response_bounded pm \<Longrightarrow> response_bounded pm'"
  by (auto simp: update_persistent_response_def response_bounded_def split: option.splits if_splits)

lemma prepare_env_module:
  "prepare_for_execution E msg pm es resp imm canc = Inr (inst, env) \<Longrightarrow> env_module env = pm"
  by (auto simp: prepare_for_execution_def Let_def split: sum.splits entrypoint_kind.splits)

lemma process_message_bounded:
  assumes "guest_confined E" and "responses_bounded es" and "response_bounded pm"
    and "process_message_with_module E imm canc msg pm es = (r, es')"
  shows "responses_bounded es'"
proof (cases "prepare_for_execution E (create_duplicate msg) pm es (get_persistent_response_data pm) imm canc")
  case (Inl e)
  then show ?thesis using assms(2,4) by (simp add: process_message_with_module_def)
next
  case (Inr a)
  obtain inst env where a: "a = (inst, env)" by force
  obtain res env1 where call: "call_entrypoint E inst env = (res, env1)" by force
  have "persistent_response (env_module env1) = persistent_response pm"
    using assms(1) call prepare_env_module [OF Inr [unfolded a]] unfolding guest_confined_def by metis
  then have b1: "response_bounded (env_module env1)" using assms(3) by (simp add: response_bounded_def)
  obtain r2 pm2 sent where up: "update_persistent_response (env_module env1) (response env1) (response_sender msg) = (r2, pm2, sent)"
    by (cases "update_persistent_response (env_module env1) (response env1) (response_sender msg)") auto
  note b2 = update_persistent_response_bounded [OF up b1]
  show ?thesis
    using assms(2,4) Inr a call up b1 b2
    by (auto simp: process_message_with_module_def responses_bounded_def Let_def split: option.splits if_splits)
qed

lemma process_targets_bounded:
  "guest_confined E \<Longrightarrow> responses_bounded es \<Longrightarrow> process_targets E imm canc msg names es = (r, es') \<Longrightarrow>
     responses_bounded es'"
proof (induction names arbitrary: es)
  case (Cons name names)
  show ?case
  proof (cases "hm_get (es_modules es) name")
    case None
    then show ?thesis using Cons by simp
  next
    case (Some pm)
    obtain r1 es1 where step: "process_message_with_module E imm canc msg pm es = (r1, es1)" by force
    have "response_bounded pm" using Some Cons.prems(2) by (simp add: responses_bounded_def)
    then have "responses_bounded es1" using process_message_bounded [OF Cons.prems(1,2) _ step] by blast
    then show ?thesis using Cons Some step by (cases r1) auto
  qed
qed simp

subsection \<open>Properties\<close>

text \<open>
  For the witnesses: an engine whose modules always return 0 and set a fixed response, and a state with
  one module that may keep a response of 8 bytes.
\<close>

definition sample_engine :: "string \<Rightarrow> (unit, bytes, 'd, 'c, 'q) engine_ops" where
  "sample_engine r =
     \<lparr>instance_new = (\<lambda>_ _. Inr ()), instance_memory = (\<lambda>_. Inr [0]), instance_entrypoint = (\<lambda>_. GoodEntrypoint),
      call_entrypoint = (\<lambda>_ env. (Some (Returned 0), env\<lparr>response := Some r\<rparr>))\<rparr>"

definition responder :: plaid_module where
  "responder = (sample_module ''m.wasm'' Unlimited 0)\<lparr>persistent_response := Some (persistent_response_new 8)\<rparr>"

definition sample_exec :: "(unit, unit, unit) exec_state" where
  "sample_exec =
     \<lparr>es_storage = None, es_cache = None, es_channels = (), es_modules = [(''m.wasm'', responder)], es_els_ok = True,
      es_responses = []\<rparr>"

definition sample_get :: message where
  "sample_get = message_new_detailed ''id'' ''test'' [] (WebhookGet ''w'') (LogbacksLimited 0) [] (Some 7) (Some responder)"

lemma sample_engine_confined: "guest_confined (sample_engine r)"
  by (simp add: guest_confined_def sample_engine_def)

lemma sample_exec_bounded: "responses_bounded sample_exec"
  by (auto simp: responses_bounded_def sample_exec_def hm_get_def responder_def response_bounded_def
      persistent_response_new_def split: if_splits)

text \<open>
  C15. What modules can do to a worker thread. As long as the external logger works, the loop ends without an error after it
  has processed every message it received, whatever the modules do (fail to link or to instantiate, lack an entry point,
  return an error, trap, exhaust their computation, set a response that is not allowed), if no host function panics; a host
  function that panics on behalf of a module is the only thing that stops it, and aborts the process.
\<close>

theorem execution_loop_survives_modules:
  assumes "es_els_ok es"
  shows "es_els_ok (snd (execution_loop E chans msgs es)) \<and>
    (fst (execution_loop E chans msgs es) = Inr ()
      \<or> (\<exists>inst env. fst (call_entrypoint E inst env) = None) \<and> fst (execution_loop E chans msgs es) = Inl ProcessAborted)"
proof -
  have "es_els_ok (snd (execution_loop E chans msgs es)) \<and> survives (no_host_panics E) (fst (execution_loop E chans msgs es))"
    using assms
  proof (induction msgs arbitrary: es)
    case (Cons m msgs)
    obtain msg canc alive where m: "m = (msg, canc, alive)" by (cases m) auto
    show ?case
    proof (cases "message_targets chans msg")
      case None
      then show ?thesis using Cons by (simp add: m)
    next
      case (Some names)
      let ?msg = "if msg_module msg = None then create_duplicate msg else msg"
      obtain r1 es1 where step: "process_targets E (\<not> canc \<and> alive) canc ?msg names es = (r1, es1)" by force
      then have "es_els_ok es1 \<and> survives (no_host_panics E) r1" using process_targets_els Cons.prems by metis
      then show ?thesis using Cons.IH [of es1] Some step by (cases r1) (simp_all add: m Let_def)
    qed
  qed (simp add: survives_def)
  then show ?thesis by (auto simp: survives_def no_host_panics_def)
qed

theorem execution_loop_survives_modules_witness:
  "fst (execution_loop (sample_engine ''too large for it'') [] [(sample_get, False, True)] sample_exec) = Inr ()"
  using execution_loop_survives_modules [of sample_exec "sample_engine ''too large for it''" "[]" "[(sample_get, False, True)]"]
  by (simp add: sample_exec_def sample_engine_def)

text \<open>
  C16. Persistent responses are bounded. If every stored response is within its module's limit, it
  stays so, whatever messages are processed.
\<close>

theorem persistent_responses_bounded:
  assumes "guest_confined E" and "responses_bounded es"
  shows "responses_bounded (snd (execution_loop E chans msgs es))"
  using assms(2)
proof (induction msgs arbitrary: es)
  case (Cons m msgs)
  obtain msg canc alive where m: "m = (msg, canc, alive)" by (cases m) auto
  show ?case
  proof (cases "message_targets chans msg")
    case None
    then show ?thesis using Cons by (simp add: m)
  next
    case (Some names)
    let ?msg = "if msg_module msg = None then create_duplicate msg else msg"
    obtain r1 es1 where step: "process_targets E (\<not> canc \<and> alive) canc ?msg names es = (r1, es1)" by force
    have "responses_bounded es1" by (rule process_targets_bounded [OF assms(1) Cons.prems step])
    then show ?thesis using Cons.IH [of es1] Some step by (cases r1) (simp_all add: m Let_def)
  qed
qed simp

theorem persistent_responses_bounded_witness:
  "responses_bounded (snd (execution_loop (sample_engine ''ok'') [] [(sample_get, False, True)] sample_exec))"
  by (rule persistent_responses_bounded [OF sample_engine_confined sample_exec_bounded])

text \<open>
  What a waiting GET request gets when its module ran without an error, on every branch. A module
  without a response wakes the request up with nothing; a response within the module's limit is
  stored and returned with status 200; a response that is longer than the limit, or of a module that
  may not keep one, is neither stored nor returned: nothing is sent, and the waiting handler only
  sees its sender dropped.
\<close>

theorem get_request_outcome:
  assumes "prepare_for_execution E (create_duplicate msg) pm es (get_persistent_response_data pm) imm canc = Inr (inst, env)"
    and "call_entrypoint E inst env = (Some (Returned 0), env')" and "response_sender msg = Some s"
    and "process_message_with_module E imm canc msg pm es = (r, es')"
  shows "es_responses es' = es_responses es @
    (case (response env', persistent_response (env_module env')) of
       (None, _) \<Rightarrow> [(s, None)]
     | (Some b, None) \<Rightarrow> []
     | (Some b, Some pr) \<Rightarrow>
         if length b \<le> max_size pr \<and> \<not> poisoned (pr_data pr) then [(s, Some \<lparr>rm_code = 200, rm_body = b\<rparr>)] else [])
   \<and> (\<forall>b pr. response env' = Some b \<longrightarrow> persistent_response (env_module env') = Some pr \<longrightarrow>
        length b \<le> max_size pr \<longrightarrow> \<not> poisoned (pr_data pr) \<longrightarrow>
        (\<exists>pm'. hm_get (es_modules es') (mod_name (env_module env')) = Some pm' \<and> get_persistent_response_data pm' = Some b))"
proof -
  obtain r2 pm2 sent where up: "update_persistent_response (env_module env') (response env') (Some s) = (r2, pm2, sent)"
    by (cases "update_persistent_response (env_module env') (response env') (Some s)") auto
  have es': "es_responses es' = es_responses es @ sent" "hm_get (es_modules es') (mod_name pm2) = Some pm2"
    using assms up by (auto simp: process_message_with_module_def run_error_def Let_def)
  note up_def = up [unfolded update_persistent_response_def send_response_def]
  show ?thesis
  proof (cases "response env'")
    case None
    then show ?thesis using up_def es'(1) by auto
  next
    case b: (Some b)
    show ?thesis
    proof (cases "persistent_response (env_module env')")
      case None
      then show ?thesis using up_def es'(1) b by auto
    next
      case pr: (Some pr)
      show ?thesis
      proof (cases "length b \<le> max_size pr \<and> \<not> poisoned (pr_data pr)")
        case True
        then have "sent = [(s, Some \<lparr>rm_code = 200, rm_body = b\<rparr>)]"
          and "pm2 = (env_module env')\<lparr>persistent_response := Some (pr\<lparr>pr_data := (pr_data pr)\<lparr>lock_val := Some b\<rparr>\<rparr>)\<rparr>"
          using up_def b pr by auto
        then show ?thesis using es' b pr True
          by (simp add: get_persistent_response_data_def persistent_response_get_data_def)
      next
        case False
        then have "sent = []" using up_def b pr by (auto split: if_splits)
        then show ?thesis using es'(1) b pr False by simp
      qed
    qed
  qed
qed

lemma sample_get_prepared:
  "\<exists>env. prepare_for_execution (sample_engine r) (create_duplicate sample_get) responder sample_exec
       (get_persistent_response_data responder) True False = Inr ((), env) \<and> env_module env = responder"
  by (simp add: prepare_for_execution_def sample_engine_def link_functions_to_module_def responder_def sample_module_def Let_def)

theorem get_request_outcome_witness:
  "es_responses (snd (process_message_with_module (sample_engine ''ok'') True False sample_get responder sample_exec)) =
     [(7, Some \<lparr>rm_code = 200, rm_body = ''ok''\<rparr>)]
   \<and> es_responses (snd (process_message_with_module (sample_engine ''too large for it'') True False sample_get responder sample_exec)) = []"
proof -
  have "es_responses (snd (process_message_with_module (sample_engine r) True False sample_get responder sample_exec)) =
      (if length r \<le> 8 then [(7, Some \<lparr>rm_code = 200, rm_body = r\<rparr>)] else [])" for r
  proof -
    obtain env where env: "prepare_for_execution (sample_engine r) (create_duplicate sample_get) responder sample_exec
       (get_persistent_response_data responder) True False = Inr ((), env)" "env_module env = responder"
      using sample_get_prepared by blast
    obtain q es' where p: "process_message_with_module (sample_engine r) True False sample_get responder sample_exec = (q, es')"
      by force
    have call: "call_entrypoint (sample_engine r) () env = (Some (Returned 0), env\<lparr>response := Some r\<rparr>)"
      by (simp add: sample_engine_def)
    have snd: "response_sender sample_get = Some 7" by (simp add: sample_get_def message_new_detailed_def)
    from get_request_outcome [OF env(1) call snd p] show ?thesis
      by (simp add: p env(2)) (simp add: sample_exec_def responder_def persistent_response_new_def)
  qed
  then show ?thesis by simp
qed

end
