(* ===== verification/Plaid_Lru.thy ===== *)
theory Plaid_Lru
  imports Plaid_Prelude
begin

text \<open>
  The \<^verbatim>\<open>LruCache\<close> of the crate \<^verbatim>\<open>lru\<close>, on which the in-memory cache and the deduplication of the data
  generators rest. The crate is not part of the program: the record \<open>lru_ops\<close> holds the operations
  the program calls, as a parameter of every definition that uses them, and the locale \<open>lru_crate\<close>
  states what its documentation promises, in terms of the entries listed from the most to the least
  recently used. The clients' lemmas about bounds and membership are proved in the locale.
  \<open>lru_list\<close> is a reference implementation that satisfies the promises.
\<close>

record ('k, 'v, 'l) lru_ops =
  lru_new :: "nat \<Rightarrow> 'l"
  lru_put :: "'l \<Rightarrow> 'k \<Rightarrow> 'v \<Rightarrow> 'v option \<times> 'l"
  lru_get :: "'l \<Rightarrow> 'k \<Rightarrow> 'v option \<times> 'l"
  lru_contains :: "'l \<Rightarrow> 'k \<Rightarrow> bool"
  lru_iter :: "'l \<Rightarrow> ('k \<times> 'v) list"
  lru_cap :: "'l \<Rightarrow> nat"

text \<open>Entries without those of a key, and an entry moved to the front.\<close>

definition drop_key :: "'k \<Rightarrow> ('k \<times> 'v) list \<Rightarrow> ('k \<times> 'v) list" where
  "drop_key k xs = filter (\<lambda>e. fst e \<noteq> k) xs"

definition touch :: "'k \<Rightarrow> ('k \<times> 'v) list \<Rightarrow> ('k \<times> 'v) list" where
  "touch k xs = (case map_of xs k of None \<Rightarrow> xs | Some v \<Rightarrow> (k, v) # drop_key k xs)"

lemma map_of_drop_key: "map_of (drop_key k xs) = (map_of xs)(k := None)"
  by (induction xs) (auto simp: drop_key_def fun_eq_iff)

lemma map_of_touch: "map_of (touch k xs) = map_of xs"
  by (auto simp: touch_def map_of_drop_key fun_eq_iff split: option.split)

lemma distinct_drop_key: "distinct (map fst xs) \<Longrightarrow> distinct (map fst (drop_key k xs)) \<and> k \<notin> fst ` set (drop_key k xs)"
  by (induction xs) (auto simp: drop_key_def)

lemma length_drop_key: "distinct (map fst xs) \<Longrightarrow> k \<in> fst ` set xs \<Longrightarrow> Suc (length (drop_key k xs)) = length xs"
proof (induction xs)
  case (Cons x xs)
  have "drop_key k xs = xs" if "k \<notin> fst ` set xs" using that by (auto simp: drop_key_def filter_id_conv)
  then show ?case using Cons by (auto simp: drop_key_def)
qed simp

lemma length_drop_key_le: "length (drop_key k xs) \<le> length xs"
  by (simp add: drop_key_def)

lemma touch_wf:
  assumes "distinct (map fst xs)"
  shows "distinct (map fst (touch k xs)) \<and> length (touch k xs) = length xs"
proof (cases "map_of xs k")
  case None
  then show ?thesis using assms by (simp add: touch_def)
next
  case (Some v)
  then have "k \<in> fst ` set xs" by (force dest: map_of_SomeD)
  then show ?thesis using assms Some distinct_drop_key [OF assms] length_drop_key [OF assms] by (simp add: touch_def)
qed

locale lru_crate =
  fixes L :: "('k, 'v, 'l) lru_ops"
  assumes new_iter: "lru_iter L (lru_new L n) = []"
    and new_cap: "lru_cap L (lru_new L n) = n"
    and put_old: "lru_put L l k v = (old, l') \<Longrightarrow> old = map_of (lru_iter L l) k"
    and put_iter: "lru_put L l k v = (old, l') \<Longrightarrow> 0 < lru_cap L l \<Longrightarrow>
      lru_iter L l' = take (lru_cap L l) ((k, v) # drop_key k (lru_iter L l))"
    and put_cap: "lru_put L l k v = (old, l') \<Longrightarrow> lru_cap L l' = lru_cap L l"
    and get_old: "lru_get L l k = (r, l') \<Longrightarrow> r = map_of (lru_iter L l) k"
    and get_iter: "lru_get L l k = (r, l') \<Longrightarrow> lru_iter L l' = touch k (lru_iter L l)"
    and get_cap: "lru_get L l k = (r, l') \<Longrightarrow> lru_cap L l' = lru_cap L l"
    and contains_iter: "lru_contains L l k \<longleftrightarrow> k \<in> fst ` set (lru_iter L l)"
begin

definition wf :: "'l \<Rightarrow> bool" where
  "wf l \<longleftrightarrow> distinct (map fst (lru_iter L l)) \<and> length (lru_iter L l) \<le> lru_cap L l \<and> 0 < lru_cap L l"

definition view :: "'l \<Rightarrow> 'k \<rightharpoonup> 'v" where
  "view l = map_of (lru_iter L l)"

lemma wf_new: "0 < n \<Longrightarrow> wf (lru_new L n)"
  by (simp add: wf_def new_iter new_cap)

lemma view_new: "view (lru_new L n) = Map.empty"
  by (simp add: view_def new_iter)

lemma wf_put:
  assumes "wf l" and "lru_put L l k v = (old, l')"
  shows "wf l'"
proof -
  have "distinct (map fst ((k, v) # drop_key k (lru_iter L l)))"
    using assms(1) distinct_drop_key unfolding wf_def by fastforce
  then show ?thesis
    using assms put_iter [OF assms(2)] put_cap [OF assms(2)]
    by (auto simp: wf_def take_map [symmetric] distinct_take simp del: list.map)
qed

lemma wf_get: "wf l \<Longrightarrow> lru_get L l k = (r, l') \<Longrightarrow> wf l'"
  using touch_wf [of "lru_iter L l" k] by (auto simp: wf_def get_iter get_cap)

lemma view_get: "lru_get L l k = (r, l') \<Longrightarrow> view l' = view l"
  by (simp add: view_def get_iter map_of_touch)

text \<open>An insertion stores its pair, and forgets at most others.\<close>

lemma view_put:
  assumes "wf l" and "lru_put L l k v = (old, l')"
  shows "view l' k = Some v" and "k' \<noteq> k \<Longrightarrow> view l' k' = view l k' \<or> view l' k' = None"
proof -
  let ?rest = "drop_key k (lru_iter L l)"
  have cap: "0 < lru_cap L l" using assms(1) by (simp add: wf_def)
  have it: "lru_iter L l' = (k, v) # take (lru_cap L l - 1) ?rest"
    using put_iter [OF assms(2) cap] cap by (simp add: take_Cons')
  then show "view l' k = Some v" by (simp add: view_def)
  assume ne: "k' \<noteq> k"
  have "map_of (take n xs) k' = map_of xs k' \<or> map_of (take n xs) k' = None" for n and xs :: "('k \<times> 'v) list"
    by (induction xs arbitrary: n) (auto simp: take_Cons' split: if_splits)
  from this [of "lru_cap L l - 1" ?rest] show "view l' k' = view l k' \<or> view l' k' = None"
    using ne by (simp add: view_def it map_of_drop_key)
qed

text \<open>Nothing is forgotten while there is room.\<close>

lemma put_room:
  assumes "wf l" and "lru_put L l k v = (old, l')" and "length (lru_iter L l) < lru_cap L l"
  shows "view l' = (view l)(k \<mapsto> v)" and "length (lru_iter L l') \<le> Suc (length (lru_iter L l))"
proof -
  have "length ((k, v) # drop_key k (lru_iter L l)) \<le> lru_cap L l"
    using assms(3) length_drop_key_le [of k "lru_iter L l"] by simp
  then have it: "lru_iter L l' = (k, v) # drop_key k (lru_iter L l)"
    using put_iter [OF assms(2)] assms(1) by (simp add: wf_def)
  show "view l' = (view l)(k \<mapsto> v)" by (simp add: view_def it map_of_drop_key)
  show "length (lru_iter L l') \<le> Suc (length (lru_iter L l))"
    using length_drop_key_le [of k "lru_iter L l"] by (simp add: it)
qed

text \<open>Filling up with new keys, while there is room, lists them in reverse.\<close>

lemma put_all_new:
  assumes "0 < lru_cap L l" and "distinct xs" and "set xs \<inter> fst ` set (lru_iter L l) = {}"
    and "length (lru_iter L l) + length xs \<le> lru_cap L l"
  shows "lru_iter L (fold (\<lambda>k l. snd (lru_put L l k v)) xs l) = rev (map (\<lambda>k. (k, v)) xs) @ lru_iter L l"
  using assms
proof (induction xs arbitrary: l)
  case (Cons x xs)
  obtain old l' where put: "lru_put L l x v = (old, l')" by force
  have "drop_key x (lru_iter L l) = lru_iter L l"
    using Cons.prems(3) by (auto simp: drop_key_def filter_id_conv)
  then have "lru_iter L l' = (x, v) # lru_iter L l"
    using put_iter [OF put Cons.prems(1)] Cons.prems(4) by simp
  then show ?case using Cons.IH [of l'] Cons.prems put_cap [OF put] put by simp
qed simp

lemma contains_view: "lru_contains L l k \<longleftrightarrow> view l k \<noteq> None"
  by (simp add: contains_iter view_def map_of_eq_None_iff)

lemma view_card: "card (dom (view l)) \<le> length (lru_iter L l)"
  unfolding view_def dom_map_of_conv_image_fst
  by (metis card_length length_map list.set_map)

end

subsection \<open>A reference implementation\<close>

definition lru_list :: "('k, 'v, nat \<times> ('k \<times> 'v) list) lru_ops" where
  "lru_list =
     \<lparr>lru_new = (\<lambda>n. (n, [])),
      lru_put = (\<lambda>(n, xs) k v. (map_of xs k, n, take n ((k, v) # drop_key k xs))),
      lru_get = (\<lambda>(n, xs) k. (map_of xs k, n, touch k xs)),
      lru_contains = (\<lambda>(n, xs) k. k \<in> fst ` set xs),
      lru_iter = snd, lru_cap = fst\<rparr>"

interpretation lru: lru_crate lru_list
  by unfold_locales (auto simp: lru_list_def)

end
