(* ===== verification/Plaid_Cache.thy ===== *)
theory Plaid_Cache
  imports Plaid_Lru Plaid_Text Plaid_Limits
begin

text \<open>
  The cache: \<^verbatim>\<open>runtime/plaid/src/cache/mod.rs\<close>, its backends \<^verbatim>\<open>cache/in_memory/mod.rs\<close> and
  \<^verbatim>\<open>cache/redis/mod.rs\<close> (with the script \<^verbatim>\<open>eviction.redis\<close>), and the host functions of
  \<^verbatim>\<open>functions/cache.rs\<close>. The two backends behind the trait object are a sum type. The LRU of a module
  is that of the crate \<^verbatim>\<open>lru\<close>; the Redis server is a parameter \<open>redis_ops\<close> with the laws of its hash
  commands in the locale \<open>redis_server\<close>. Whether a call takes more than the five seconds it may take,
  and whether it had an effect when it did, is an argument.
\<close>

subsection \<open>Configuration and errors\<close>

datatype eviction_policy = NoEviction | RandomEviction

definition eviction_policy_default :: eviction_policy where
  "eviction_policy_default = NoEviction"

record redis_config =
  rd_hostname :: string
  rd_port :: "u16 option"
  rd_username :: "string option"
  rd_password :: "string option"
  cfg_eviction_policy :: "eviction_policy option"

datatype cache_backend = InMemoryBackend | RedisBackend redis_config

record cache_config =
  cache_entries :: limited_amount
  backend :: "cache_backend option"

datatype cache_error =
    CacheInitError string
  | NoCacheConfigured
  | CacheAccessError string
  | PutError string
  | GetError string

subsection \<open>The in-memory backend\<close>

text \<open>A module whose cache would have no room makes \<^verbatim>\<open>NonZeroUsize::new\<close> fail, and the program panic: \<open>None\<close>.\<close>

definition module_capacity :: "limited_amount \<Rightarrow> string \<Rightarrow> string \<Rightarrow> u64" where
  "module_capacity entries module lt =
     (let capacity = la_default entries;
          capacity = (case hm_get (la_log_type entries) lt of Some v \<Rightarrow> v | None \<Rightarrow> capacity);
          capacity = (case hm_get (la_module_overrides entries) module of Some v \<Rightarrow> v | None \<Rightarrow> capacity)
      in capacity)"

definition in_memory_cache_new ::
  "(string, string, 'l) lru_ops \<Rightarrow> (string, string) hashmap \<Rightarrow> cache_config \<Rightarrow> (string, 'l) hashmap option" where
  "in_memory_cache_new L modules_and_logtypes config =
     (if list_all (\<lambda>(module, lt). module_capacity (cache_entries config) module lt \<noteq> 0) modules_and_logtypes
      then Some (map (\<lambda>(module, lt).
             (module, lru_new L (unat (module_capacity (cache_entries config) module lt)))) modules_and_logtypes)
      else None)"

definition in_memory_cache_put ::
  "(string, string, 'l) lru_ops \<Rightarrow> (string, 'l) hashmap \<Rightarrow> string \<Rightarrow> string \<Rightarrow> string
     \<Rightarrow> (cache_error + string option) \<times> (string, 'l) hashmap" where
  "in_memory_cache_put L caches namespace key val =
     (case hm_get caches namespace of
        None \<Rightarrow> (Inl (CacheAccessError (''Cache not found for module '' @ namespace)), caches)
      | Some module_cache \<Rightarrow>
          (let (old, module_cache') = lru_put L module_cache key val
           in (Inr old, hm_insert namespace module_cache' caches)))"

definition in_memory_cache_get ::
  "(string, string, 'l) lru_ops \<Rightarrow> (string, 'l) hashmap \<Rightarrow> string \<Rightarrow> string
     \<Rightarrow> (cache_error + string option) \<times> (string, 'l) hashmap" where
  "in_memory_cache_get L caches namespace key =
     (case hm_get caches namespace of
        None \<Rightarrow> (Inl (CacheAccessError (''Cache not found for module '' @ namespace)), caches)
      | Some module_cache \<Rightarrow>
          (let (v, module_cache') = lru_get L module_cache key
           in (Inr v, hm_insert namespace module_cache' caches)))"

subsection \<open>The Redis backend\<close>

text \<open>
  The commands of the server on hashes, and a failure of the connection, which may come with any
  change of the server's state.
\<close>

record 'r redis_ops =
  redis_connect :: "string \<Rightarrow> cache_error + 'r"
  r_fail :: "'r \<Rightarrow> (string \<times> 'r) option"
  r_hget :: "'r \<Rightarrow> string \<Rightarrow> string \<Rightarrow> string option"
  r_hset :: "'r \<Rightarrow> string \<Rightarrow> string \<Rightarrow> string \<Rightarrow> 'r"
  r_hlen :: "'r \<Rightarrow> string \<Rightarrow> nat"
  r_hrandfield :: "'r \<Rightarrow> string \<Rightarrow> string option"
  r_hdel :: "'r \<Rightarrow> string \<Rightarrow> string \<Rightarrow> 'r"

record 'r redis_cache =
  connection :: 'r
  rc_eviction_policy :: eviction_policy
  max_capacity :: limited_amount

definition strip_prefix_or_all :: "string \<Rightarrow> string \<Rightarrow> string" where
  "strip_prefix_or_all p s = (if prefix p s then drop (length p) s else s)"

definition build_connection_string :: "redis_config \<Rightarrow> string" where
  "build_connection_string c =
     (let hostname = strip_prefix_or_all ''redis://'' (rd_hostname c);
          port = (case rd_port c of Some p \<Rightarrow> '':'' @ decimal (unat p) | None \<Rightarrow> []);
          username = (case rd_username c of Some u \<Rightarrow> u | None \<Rightarrow> []);
          password = (case rd_password c of Some p \<Rightarrow> '':'' @ p | None \<Rightarrow> []);
          at = (if username = [] \<and> password = [] then [] else ''@'')
      in ''redis://'' @ username @ password @ at @ hostname @ port)"

definition redis_cache_new ::
  "'r redis_ops \<Rightarrow> redis_config \<Rightarrow> limited_amount \<Rightarrow> cache_error + 'r redis_cache" where
  "redis_cache_new R config capacity =
     (case redis_connect R (build_connection_string config) of
        Inl e \<Rightarrow> Inl e
      | Inr r \<Rightarrow> Inr \<lparr>connection = r,
                    rc_eviction_policy = (case cfg_eviction_policy config of Some p \<Rightarrow> p | None \<Rightarrow> eviction_policy_default),
                    max_capacity = capacity\<rparr>)"

text \<open>The script \<^verbatim>\<open>eviction.redis\<close>, which the server runs atomically.\<close>

definition eviction_script ::
  "'r redis_ops \<Rightarrow> 'r \<Rightarrow> string \<Rightarrow> string \<Rightarrow> string \<Rightarrow> nat \<Rightarrow> (string option \<times> bool) \<times> 'r" where
  "eviction_script R r ns fld val m =
     (let old = r_hget R r ns fld;
          (evicted, r) =
            (if old = None \<and> m > 0 then
               (let count = r_hlen R r ns
                in if count \<ge> m then
                     (case r_hrandfield R r ns of
                        Some evict \<Rightarrow> (True, r_hdel R r ns evict)
                      | None \<Rightarrow> (False, r))
                   else (False, r))
             else (False, r))
      in ((old, evicted), r_hset R r ns fld val))"

definition redis_cache_put ::
  "'r redis_ops \<Rightarrow> 'r redis_cache \<Rightarrow> string \<Rightarrow> string \<Rightarrow> string \<Rightarrow> (cache_error + string option) \<times> 'r redis_cache" where
  "redis_cache_put R c namespace key val =
     (case r_fail R (connection c) of
        Some (e, r) \<Rightarrow> (Inl (PutError e), c\<lparr>connection := r\<rparr>)
      | None \<Rightarrow>
          (case rc_eviction_policy c of
             NoEviction \<Rightarrow>
               (Inr (r_hget R (connection c) namespace key),
                c\<lparr>connection := r_hset R (connection c) namespace key val\<rparr>)
           | RandomEviction \<Rightarrow>
               (let max_entries =
                      (case hm_get (la_module_overrides (max_capacity c)) namespace of
                         Some v \<Rightarrow> v
                       | None \<Rightarrow> la_default (max_capacity c));
                    ((old, evicted), r) = eviction_script R (connection c) namespace key val (unat max_entries)
                in (Inr old, c\<lparr>connection := r\<rparr>))))"

definition redis_cache_get ::
  "'r redis_ops \<Rightarrow> 'r redis_cache \<Rightarrow> string \<Rightarrow> string \<Rightarrow> (cache_error + string option) \<times> 'r redis_cache" where
  "redis_cache_get R c namespace key =
     (case r_fail R (connection c) of
        Some (e, r) \<Rightarrow> (Inl (GetError e), c\<lparr>connection := r\<rparr>)
      | None \<Rightarrow> (Inr (r_hget R (connection c) namespace key), c))"

subsection \<open>The cache\<close>

datatype ('l, 'r) cache = InMemoryCache "(string, 'l) hashmap" | RedisCache "'r redis_cache"

text \<open>\<open>None\<close> is a panic: of the in-memory backend, or of the \<^verbatim>\<open>unwrap\<close> after connecting to Redis.\<close>

definition cache_new ::
  "(string, string, 'l) lru_ops \<Rightarrow> 'r redis_ops \<Rightarrow> (string, string) hashmap \<Rightarrow> cache_config
     \<Rightarrow> (cache_error + ('l, 'r) cache) option" where
  "cache_new L R modules_and_logtypes config =
     (case backend config of
        Some InMemoryBackend \<Rightarrow>
          map_option (\<lambda>c. Inr (InMemoryCache c)) (in_memory_cache_new L modules_and_logtypes config)
      | Some (RedisBackend redis_cfg) \<Rightarrow>
          (case redis_cache_new R redis_cfg (cache_entries config) of
             Inl _ \<Rightarrow> None
           | Inr c \<Rightarrow> Some (Inr (RedisCache c)))
      | None \<Rightarrow> Some (Inl NoCacheConfigured))"

fun cache_put ::
  "(string, string, 'l) lru_ops \<Rightarrow> 'r redis_ops \<Rightarrow> ('l, 'r) cache \<Rightarrow> string \<Rightarrow> string \<Rightarrow> string
     \<Rightarrow> (cache_error + string option) \<times> ('l, 'r) cache" where
  "cache_put L R (InMemoryCache c) namespace key val = apsnd InMemoryCache (in_memory_cache_put L c namespace key val)"
| "cache_put L R (RedisCache c) namespace key val = apsnd RedisCache (redis_cache_put R c namespace key val)"

fun cache_get ::
  "(string, string, 'l) lru_ops \<Rightarrow> 'r redis_ops \<Rightarrow> ('l, 'r) cache \<Rightarrow> string \<Rightarrow> string
     \<Rightarrow> (cache_error + string option) \<times> ('l, 'r) cache" where
  "cache_get L R (InMemoryCache c) namespace key = apsnd InMemoryCache (in_memory_cache_get L c namespace key)"
| "cache_get L R (RedisCache c) namespace key = apsnd RedisCache (redis_cache_get R c namespace key)"

subsection \<open>Host functions\<close>

datatype timing = InTime | Elapsed bool

definition cache_reply ::
  "'m wasm_ops \<Rightarrow> 'm \<Rightarrow> cache_error + string option \<Rightarrow> u32 \<Rightarrow> u32 \<Rightarrow> i32 \<times> 'm" where
  "cache_reply W memory_view result data_buffer data_buffer_len =
     (case result of
        Inr (Some previous_value) \<Rightarrow>
          (let (r, m) = safely_write_data_back W memory_view (as_bytes previous_value) data_buffer data_buffer_len
           in (result_code r, m))
      | Inr None \<Rightarrow> (0, memory_view)
      | Inl _ \<Rightarrow> (error_code CacheDisabled, memory_view))"

definition finish_cache_call ::
  "'m wasm_ops \<Rightarrow> timing \<Rightarrow> ('m, 'd, ('l, 'r) cache, 'q) env \<Rightarrow> 'm
     \<Rightarrow> (cache_error + string option) \<times> ('l, 'r) cache \<Rightarrow> u32 \<Rightarrow> u32
     \<Rightarrow> i32 \<times> ('m, 'd, ('l, 'r) cache, 'q) env" where
  "finish_cache_call W tm env memory_view outcome data_buffer data_buffer_len =
     (let (result, cache') = outcome
      in case tm of
           Elapsed done_ \<Rightarrow> (error_code TimeoutElapsed, if done_ then env\<lparr>env_cache := Some cache'\<rparr> else env)
         | InTime \<Rightarrow>
             (let (code, m) = cache_reply W memory_view result data_buffer data_buffer_len
              in (code, env\<lparr>env_cache := Some cache', env_memory := Some m\<rparr>)))"

definition fn_cache_insert ::
  "'m wasm_ops \<Rightarrow> (string, string, 'l) lru_ops \<Rightarrow> 'r redis_ops \<Rightarrow> timing \<Rightarrow> ('m, 'd, ('l, 'r) cache, 'q) env
     \<Rightarrow> u32 \<Rightarrow> u32 \<Rightarrow> u32 \<Rightarrow> u32 \<Rightarrow> u32 \<Rightarrow> u32 \<Rightarrow> i32 \<times> ('m, 'd, ('l, 'r) cache, 'q) env" where
  "fn_cache_insert W L R tm env key_buf key_buf_len value_buf value_buf_len data_buffer data_buffer_len =
     (case env_cache env of
        None \<Rightarrow> (error_code CacheDisabled, env)
      | Some cache \<Rightarrow>
     (case get_memory (env_memory env) of
        Inl _ \<Rightarrow> (error_code CouldNotGetAdequateMemory, env)
      | Inr memory_view \<Rightarrow>
     (case safely_get_string W memory_view key_buf key_buf_len of
        Inl _ \<Rightarrow> (error_code ParametersNotUtf8, env)
      | Inr key \<Rightarrow>
     (case safely_get_string W memory_view value_buf value_buf_len of
        Inl _ \<Rightarrow> (error_code CouldNotGetAdequateMemory, env)
      | Inr val \<Rightarrow>
          finish_cache_call W tm env memory_view (cache_put L R cache (mod_name (env_module env)) key val)
            data_buffer data_buffer_len))))"

definition fn_cache_get ::
  "'m wasm_ops \<Rightarrow> (string, string, 'l) lru_ops \<Rightarrow> 'r redis_ops \<Rightarrow> timing \<Rightarrow> ('m, 'd, ('l, 'r) cache, 'q) env
     \<Rightarrow> u32 \<Rightarrow> u32 \<Rightarrow> u32 \<Rightarrow> u32 \<Rightarrow> i32 \<times> ('m, 'd, ('l, 'r) cache, 'q) env" where
  "fn_cache_get W L R tm env key_buf key_buf_len data_buffer data_buffer_len =
     (case env_cache env of
        None \<Rightarrow> (error_code CacheDisabled, env)
      | Some cache \<Rightarrow>
     (case get_memory (env_memory env) of
        Inl _ \<Rightarrow> (error_code CouldNotGetAdequateMemory, env)
      | Inr memory_view \<Rightarrow>
     (case safely_get_string W memory_view key_buf key_buf_len of
        Inl _ \<Rightarrow> (error_code ParametersNotUtf8, env)
      | Inr key \<Rightarrow>
          finish_cache_call W tm env memory_view (cache_get L R cache (mod_name (env_module env)) key)
            data_buffer data_buffer_len)))"

subsection \<open>Runs\<close>

text \<open>Any module calls any cache function, with any memory and any timing; the cache is shared.\<close>

datatype cache_fn =
    CCacheInsert u32 u32 u32 u32 u32 u32
  | CCacheGet u32 u32 u32 u32

fun cache_call ::
  "'m wasm_ops \<Rightarrow> (string, string, 'l) lru_ops \<Rightarrow> 'r redis_ops \<Rightarrow> timing \<Rightarrow> cache_fn
     \<Rightarrow> ('m, 'd, ('l, 'r) cache, 'q) env \<Rightarrow> i32 \<times> ('m, 'd, ('l, 'r) cache, 'q) env" where
  "cache_call W L R tm (CCacheInsert a b c d e f) env = fn_cache_insert W L R tm env a b c d e f"
| "cache_call W L R tm (CCacheGet a b c d) env = fn_cache_get W L R tm env a b c d"

definition cache_turn ::
  "'m wasm_ops \<Rightarrow> (string, string, 'l) lru_ops \<Rightarrow> 'r redis_ops \<Rightarrow> ('m, 'd, ('l, 'r) cache, 'q) env
     \<Rightarrow> plaid_module \<times> 'm \<times> cache_fn \<times> timing \<Rightarrow> ('l, 'r) cache \<Rightarrow> ('l, 'r) cache" where
  "cache_turn W L R env0 turn cache =
     (let (pm, mem, call, tm) = turn;
          env = env0\<lparr>env_module := pm, env_cache := Some cache, env_memory := Some mem\<rparr>
      in case env_cache (snd (cache_call W L R tm call env)) of Some cache' \<Rightarrow> cache' | None \<Rightarrow> cache)"

definition cache_run ::
  "'m wasm_ops \<Rightarrow> (string, string, 'l) lru_ops \<Rightarrow> 'r redis_ops \<Rightarrow> ('m, 'd, ('l, 'r) cache, 'q) env
     \<Rightarrow> (plaid_module \<times> 'm \<times> cache_fn \<times> timing) list \<Rightarrow> ('l, 'r) cache \<Rightarrow> ('l, 'r) cache" where
  "cache_run W L R env0 turns cache = fold (cache_turn W L R env0) turns cache"

text \<open>
  What a call does to a cache: nothing, or one \<^verbatim>\<open>put\<close> or \<^verbatim>\<open>get\<close> in the namespace of its module. This holds
  of any backend.
\<close>

lemma finish_cache_call_cache:
  "env_cache env = Some cache \<Longrightarrow>
     env_cache (snd (finish_cache_call W tm env mv outcome p n)) \<in> {Some cache, Some (snd outcome)}"
  by (cases outcome) (auto simp: finish_cache_call_def Let_def split: timing.splits prod.splits)

lemma cache_turn_effect:
  "cache_turn W L R env0 (pm, mem, call, tm) cache = cache
   \<or> (\<exists>k v. cache_turn W L R env0 (pm, mem, call, tm) cache = snd (cache_put L R cache (mod_name pm) k v))
   \<or> (\<exists>k. cache_turn W L R env0 (pm, mem, call, tm) cache = snd (cache_get L R cache (mod_name pm) k))"
proof -
  let ?env = "env0\<lparr>env_module := pm, env_cache := Some cache, env_memory := Some mem\<rparr>"
  have fin: "(case env_cache (snd (finish_cache_call W tm ?env mv outcome p n)) of Some c \<Rightarrow> c | None \<Rightarrow> cache)
      \<in> {cache, snd outcome}" for mv outcome p n
    using finish_cache_call_cache [of ?env cache W tm mv outcome p n] by auto
  show ?thesis
  proof (cases call)
    case (CCacheInsert a b c d e f)
    note turn = cache_turn_def CCacheInsert fn_cache_insert_def get_memory_def Let_def
    show ?thesis
    proof (cases "\<exists>k v. safely_get_string W mem a b = Inr k \<and> safely_get_string W mem c d = Inr v")
      case True
      then obtain k v where "safely_get_string W mem a b = Inr k" "safely_get_string W mem c d = Inr v" by blast
      then have "cache_turn W L R env0 (pm, mem, call, tm) cache \<in> {cache, snd (cache_put L R cache (mod_name pm) k v)}"
        using fin [of mem "cache_put L R cache (mod_name pm) k v" e f] by (simp add: turn)
      then show ?thesis by blast
    next
      case False
      then show ?thesis by (auto simp: turn split: sum.splits)
    qed
  next
    case (CCacheGet a b c d)
    note turn = cache_turn_def CCacheGet fn_cache_get_def get_memory_def Let_def
    show ?thesis
    proof (cases "safely_get_string W mem a b")
      case (Inr k)
      then have "cache_turn W L R env0 (pm, mem, call, tm) cache \<in> {cache, snd (cache_get L R cache (mod_name pm) k)}"
        using fin [of mem "cache_get L R cache (mod_name pm) k" c d] by (simp add: turn)
      then show ?thesis by blast
    qed (simp add: turn)
  qed
qed

subsection \<open>The in-memory backend keeps to its capacity\<close>

lemma module_capacity_eq: "module_capacity entries m lt = get_limit_with_overrides entries m lt"
  by (simp add: module_capacity_def get_limit_with_overrides_def Let_def split: option.splits)

locale cache_lru = lru_crate L for L :: "(string, string, 'l) lru_ops"
begin

definition slot_ok :: "limited_amount \<Rightarrow> string \<Rightarrow> string option \<Rightarrow> 'l option \<Rightarrow> bool" where
  "slot_ok entries m lt c \<longleftrightarrow>
     (case lt of
        None \<Rightarrow> c = None
      | Some lt \<Rightarrow> (\<exists>l. c = Some l \<and> wf l \<and> lru_cap L l = unat (get_limit_with_overrides entries m lt)))"

definition caches_ok :: "limited_amount \<Rightarrow> (string, string) hashmap \<Rightarrow> (string, 'l) hashmap \<Rightarrow> bool" where
  "caches_ok entries lts caches \<longleftrightarrow> (\<forall>m. slot_ok entries m (hm_get lts m) (hm_get caches m))"

lemma slot_ok_wf: "slot_ok entries m lt (Some l) \<Longrightarrow> wf l"
  by (simp add: slot_ok_def split: option.splits)

lemma slot_ok_update:
  "slot_ok entries m lt (Some l) \<Longrightarrow> wf l' \<Longrightarrow> lru_cap L l' = lru_cap L l \<Longrightarrow> slot_ok entries m lt (Some l')"
  by (simp add: slot_ok_def split: option.splits)

lemma caches_ok_insert:
  assumes "caches_ok entries lts caches" and "hm_get caches ns = Some l" and "wf l'" and "lru_cap L l' = lru_cap L l"
  shows "caches_ok entries lts (hm_insert ns l' caches)"
  using assms slot_ok_update [of entries ns "hm_get lts ns" l l'] by (simp add: caches_ok_def) metis

lemma caches_ok_bound:
  assumes "caches_ok entries lts caches"
  shows "\<forall>m lt. hm_get lts m = Some lt \<longrightarrow>
    (\<exists>l. hm_get caches m = Some l \<and> length (lru_iter L l) \<le> unat (get_limit_with_overrides entries m lt))"
proof (intro allI impI)
  fix m lt assume "hm_get lts m = Some lt"
  moreover have "slot_ok entries m (hm_get lts m) (hm_get caches m)" using assms by (simp add: caches_ok_def)
  ultimately show "\<exists>l. hm_get caches m = Some l \<and> length (lru_iter L l) \<le> unat (get_limit_with_overrides entries m lt)"
    by (auto simp: slot_ok_def wf_def)
qed

lemma caches_ok_wf: "caches_ok entries lts caches \<Longrightarrow> hm_get caches ns = Some l \<Longrightarrow> wf l"
  unfolding caches_ok_def by (metis slot_ok_wf)

lemma in_memory_new_ok:
  assumes "\<And>m lt. hm_get lts m = Some lt \<Longrightarrow> get_limit_with_overrides (cache_entries config) m lt \<noteq> 0"
    and "in_memory_cache_new L lts config = Some caches"
  shows "caches_ok (cache_entries config) lts caches"
proof -
  let ?f = "\<lambda>m lt. lru_new L (unat (module_capacity (cache_entries config) m lt))"
  have caches: "caches = map (\<lambda>(m, lt). (m, ?f m lt)) lts"
    using assms(2) by (auto simp: in_memory_cache_new_def split: if_splits)
  have "hm_get caches m = map_option (?f m) (hm_get lts m)" for m
    unfolding caches by (induction lts) (auto simp: hm_get_def)
  moreover have "wf (?f m lt)" if "hm_get lts m = Some lt" for m lt
    using assms(1) [OF that] by (intro wf_new) (simp add: module_capacity_eq word_gt_0_no unat_gt_0)
  ultimately show ?thesis
    by (auto simp: caches_ok_def slot_ok_def new_cap module_capacity_eq split: option.splits)
qed

lemma put_ok:
  assumes "caches_ok entries lts caches"
  shows "\<exists>caches'. snd (cache_put L R (InMemoryCache caches) ns k v) = InMemoryCache caches'
    \<and> caches_ok entries lts caches' \<and> (\<forall>m. m \<noteq> ns \<longrightarrow> hm_get caches' m = hm_get caches m)"
proof (cases "hm_get caches ns")
  case None
  then show ?thesis using assms by (simp add: in_memory_cache_put_def)
next
  case (Some l)
  obtain old l' where put: "lru_put L l k v = (old, l')" by force
  have "wf l" by (rule caches_ok_wf [OF assms Some])
  then have "caches_ok entries lts (hm_insert ns l' caches)"
    using caches_ok_insert [OF assms Some] wf_put [OF _ put] put_cap [OF put] by blast
  then show ?thesis using Some put by (simp add: in_memory_cache_put_def)
qed

lemma get_ok:
  assumes "caches_ok entries lts caches"
  shows "\<exists>caches'. snd (cache_get L R (InMemoryCache caches) ns k) = InMemoryCache caches'
    \<and> caches_ok entries lts caches' \<and> (\<forall>m. m \<noteq> ns \<longrightarrow> hm_get caches' m = hm_get caches m)"
proof (cases "hm_get caches ns")
  case None
  then show ?thesis using assms by (simp add: in_memory_cache_get_def)
next
  case (Some l)
  obtain r l' where get: "lru_get L l k = (r, l')" by force
  have "wf l" by (rule caches_ok_wf [OF assms Some])
  then have "caches_ok entries lts (hm_insert ns l' caches)"
    using caches_ok_insert [OF assms Some] wf_get [OF _ get] get_cap [OF get] by blast
  then show ?thesis using Some get by (simp add: in_memory_cache_get_def)
qed

lemma turn_ok:
  assumes "caches_ok entries lts caches"
  shows "\<exists>caches'. cache_turn W L R env0 turn (InMemoryCache caches) = InMemoryCache caches'
    \<and> caches_ok entries lts caches' \<and> (\<forall>m. m \<noteq> mod_name (fst turn) \<longrightarrow> hm_get caches' m = hm_get caches m)"
proof -
  obtain pm mem call tm where t: "turn = (pm, mem, call, tm)" by (cases turn) auto
  consider "cache_turn W L R env0 turn (InMemoryCache caches) = InMemoryCache caches"
    | k v where "cache_turn W L R env0 turn (InMemoryCache caches) = snd (cache_put L R (InMemoryCache caches) (mod_name pm) k v)"
    | k where "cache_turn W L R env0 turn (InMemoryCache caches) = snd (cache_get L R (InMemoryCache caches) (mod_name pm) k)"
    using cache_turn_effect [of W L R env0 pm mem call tm "InMemoryCache caches"] unfolding t by blast
  then show ?thesis
  proof cases
    case 1
    then show ?thesis using assms by blast
  next
    case (2 k v)
    then show ?thesis using put_ok [OF assms, of R "mod_name pm" k v] by (simp add: t)
  next
    case (3 k)
    then show ?thesis using get_ok [OF assms, of R "mod_name pm" k] by (simp add: t)
  qed
qed

lemma run_ok:
  assumes "caches_ok entries lts caches"
  shows "\<exists>caches'. cache_run W L R env0 turns (InMemoryCache caches) = InMemoryCache caches'
    \<and> caches_ok entries lts caches'
    \<and> (\<forall>m. (\<forall>t \<in> set turns. mod_name (fst t) \<noteq> m) \<longrightarrow> hm_get caches' m = hm_get caches m)"
  using assms unfolding cache_run_def
proof (induction turns arbitrary: caches)
  case (Cons t turns)
  obtain c1 where c1: "cache_turn W L R env0 t (InMemoryCache caches) = InMemoryCache c1" "caches_ok entries lts c1"
    "\<forall>m. m \<noteq> mod_name (fst t) \<longrightarrow> hm_get c1 m = hm_get caches m"
    using turn_ok [OF Cons.prems] by blast
  show ?case using Cons.IH [OF c1(2)] c1(1,3) by fastforce
qed simp

end

interpretation clru: cache_lru lru_list
  by unfold_locales

subsection \<open>Redis\<close>

locale redis_server =
  fixes R :: "'r redis_ops" and hash :: "'r \<Rightarrow> string \<Rightarrow> string \<rightharpoonup> string"
  assumes hget: "r_hget R r ns k = hash r ns k"
    and hset: "hash (r_hset R r ns k v) = (hash r)(ns := (hash r ns)(k \<mapsto> v))"
    and hlen: "r_hlen R r ns = card (dom (hash r ns))"
    and hdel: "hash (r_hdel R r ns k) = (hash r)(ns := (hash r ns)(k := None))"
    and hrandfield: "r_hrandfield R r ns = Some f \<Longrightarrow> f \<in> dom (hash r ns)"
    and hrandfield_None: "r_hrandfield R r ns = None \<Longrightarrow> dom (hash r ns) = {}"
    and finite_hash: "finite (dom (hash r ns))"
begin

text \<open>
  The script keeps a hash within the given number of fields: it replaces a field in place, and makes
  room for a new one by deleting one other.
\<close>

lemma eviction_script_outcome:
  assumes "eviction_script R r ns k v m = ((old, evicted), r')"
  shows "old = hash r ns k" and "hash r' ns k = Some v"
    and "\<And>k'. k' \<noteq> k \<Longrightarrow> hash r' ns k' = hash r ns k' \<or> hash r' ns k' = None"
    and "\<And>ns'. ns' \<noteq> ns \<Longrightarrow> hash r' ns' = hash r ns'"
proof -
  obtain r1 where r1: "r' = r_hset R r1 ns k v" and r1': "r1 = r \<or> (\<exists>f. r1 = r_hdel R r ns f)"
    and old: "old = r_hget R r ns k"
    using assms by (auto simp: eviction_script_def Let_def split: if_splits option.splits)
  show "old = hash r ns k" by (simp add: old hget)
  show "hash r' ns k = Some v" by (simp add: r1 hset)
  show "hash r' ns k' = hash r ns k' \<or> hash r' ns k' = None" if "k' \<noteq> k" for k'
    using r1' that by (auto simp: r1 hset hdel split: if_splits)
  show "hash r' ns' = hash r ns'" if "ns' \<noteq> ns" for ns'
    using r1' that by (auto simp: r1 hset hdel)
qed

lemma eviction_script_bounded:
  assumes "eviction_script R r ns k v m = (res, r')" and "0 < m" and "card (dom (hash r ns)) \<le> m"
  shows "card (dom (hash r' ns)) \<le> m"
proof (cases "hash r ns k = None \<and> card (dom (hash r ns)) = m")
  case True
  then have "dom (hash r ns) \<noteq> {}" using assms(2) by force
  then obtain f where f: "r_hrandfield R r ns = Some f" "f \<in> dom (hash r ns)"
    using hrandfield hrandfield_None by (cases "r_hrandfield R r ns") auto
  then have "r' = r_hset R (r_hdel R r ns f) ns k v"
    using assms(1,2) True by (auto simp: eviction_script_def hget hlen Let_def)
  then have "dom (hash r' ns) = insert k (dom (hash r ns) - {f})" by (auto simp: hset hdel)
  then show ?thesis
    using True f(2) finite_hash [of r ns] assms(2) by (simp add: card_insert_if card_Diff_singleton split: if_splits)
next
  case False
  then have r': "r' = r_hset R r ns k v"
    using assms by (auto simp: eviction_script_def hget hlen Let_def split: if_splits)
  then have "dom (hash r' ns) = insert k (dom (hash r ns))" by (simp add: hset)
  then show ?thesis
    using False assms(3) finite_hash [of r ns] by (auto simp: card_insert_if split: if_splits)
qed

end

text \<open>A server to evaluate: its hashes are association lists, and its random field is the first.\<close>

definition redis_list :: "(string, (string, string) hashmap) hashmap redis_ops" where
  "redis_list =
     (let fields = (\<lambda>r ns. case hm_get r ns of Some h \<Rightarrow> h | None \<Rightarrow> [])
      in \<lparr>redis_connect = (\<lambda>_. Inr []), r_fail = (\<lambda>_. None),
          r_hget = (\<lambda>r ns k. hm_get (fields r ns) k),
          r_hset = (\<lambda>r ns k v. hm_insert ns (hm_insert k v (fields r ns)) r),
          r_hlen = (\<lambda>r ns. card (set (map fst (fields r ns)))),
          r_hrandfield = (\<lambda>r ns. map_option fst (case fields r ns of [] \<Rightarrow> None | e # _ \<Rightarrow> Some e)),
          r_hdel = (\<lambda>r ns k. hm_insert ns (hm_remove k (fields r ns)) r)\<rparr>)"

definition redis_list_hash :: "(string, (string, string) hashmap) hashmap \<Rightarrow> string \<Rightarrow> string \<rightharpoonup> string" where
  "redis_list_hash r ns = hm_get (case hm_get r ns of Some h \<Rightarrow> h | None \<Rightarrow> [])"

interpretation redis: redis_server redis_list redis_list_hash
proof unfold_locales
  show "finite (dom (redis_list_hash r ns))" for r ns
    by (simp add: redis_list_hash_def)
qed (auto simp: redis_list_def redis_list_hash_def Let_def fun_eq_iff dom_hm_get split: option.splits list.splits)

subsection \<open>Properties\<close>

text \<open>
  C30. The in-memory backend of the cache (not Redis), from its creation on. With limits as the configuration accepts them, creating
  the cache does not panic; and whatever calls modules make, with whatever timing, every module has a
  cache of its own with at most the configured number of entries (the module's override, its log
  type's, or the default), which the calls of other modules do not touch.
\<close>

theorem in_memory_cache_bounded:
  assumes "lru_crate L" and "deserialize_limited_amount raw = Inr (cache_entries config)"
    and "backend config = Some InMemoryBackend"
  shows "\<exists>caches caches'. cache_new L R lts config = Some (Inr (InMemoryCache caches))
    \<and> cache_run W L R env0 turns (InMemoryCache caches) = InMemoryCache caches'
    \<and> (\<forall>m lt. hm_get lts m = Some lt \<longrightarrow> (\<exists>l. hm_get caches' m = Some l
          \<and> length (lru_iter L l) \<le> unat (get_limit_with_overrides (cache_entries config) m lt)))
    \<and> (\<forall>m. (\<forall>t \<in> set turns. mod_name (fst t) \<noteq> m) \<longrightarrow> hm_get caches' m = hm_get caches m)"
proof -
  have L: "cache_lru L" using assms(1) by (simp add: cache_lru_def)
  have nz: "get_limit_with_overrides (cache_entries config) m lt \<noteq> 0" for m lt
    by (rule deserialize_limited_amount_nonzero [OF assms(2)])
  then obtain caches where new: "in_memory_cache_new L lts config = Some caches"
    by (auto simp: in_memory_cache_new_def module_capacity_eq list_all_iff)
  obtain caches' where run: "cache_run W L R env0 turns (InMemoryCache caches) = InMemoryCache caches'"
    "cache_lru.caches_ok L (cache_entries config) lts caches'"
    "\<forall>m. (\<forall>t \<in> set turns. mod_name (fst t) \<noteq> m) \<longrightarrow> hm_get caches' m = hm_get caches m"
    using cache_lru.run_ok [OF L cache_lru.in_memory_new_ok [OF L nz new], of W R env0 turns] by blast
  note bound = cache_lru.caches_ok_bound [OF L run(2)]
  show ?thesis
  proof (intro exI conjI)
    show "cache_new L R lts config = Some (Inr (InMemoryCache caches))"
      using new assms(3) by (simp add: cache_new_def)
  qed (use run(1,3) bound in blast)+
qed

theorem in_memory_cache_bounded_witness:
  "\<exists>caches caches'. cache_new lru_list redis_list [(''m.wasm'', ''test'')]
       \<lparr>cache_entries = \<lparr>la_default = 1, la_log_type = [], la_module_overrides = []\<rparr>, backend = Some InMemoryBackend\<rparr>
       = Some (Inr (InMemoryCache caches))
    \<and> cache_run flat_ops lru_list redis_list (sample_env :: (bytes, unit, _, unit) env)
        [(sample_module ''m.wasm'' Unlimited 0, [107, 108, 109], CCacheInsert 0 1 1 1 0 0, InTime),
         (sample_module ''m.wasm'' Unlimited 0, [107, 108, 109], CCacheInsert 1 1 2 1 0 0, InTime)]
        (InMemoryCache caches) = InMemoryCache caches'
    \<and> (\<exists>l. hm_get caches' ''m.wasm'' = Some l \<and> length (lru_iter lru_list l) \<le> 1)"
proof -
  let ?entries = "\<lparr>la_default = 1, la_log_type = [], la_module_overrides = []\<rparr>"
  let ?turns = "[(sample_module ''m.wasm'' Unlimited 0, [107, 108, 109], CCacheInsert 0 1 1 1 0 0, InTime),
         (sample_module ''m.wasm'' Unlimited 0, [107, 108, 109], CCacheInsert 1 1 2 1 0 0, InTime)]"
  have "deserialize_limited_amount ?entries = Inr (cache_entries \<lparr>cache_entries = ?entries, backend = Some InMemoryBackend\<rparr>)"
    by (simp add: deserialize_limited_amount_def)
  from in_memory_cache_bounded [OF lru.lru_crate_axioms this, of redis_list "[(''m.wasm'', ''test'')]" flat_ops sample_env ?turns]
  obtain caches caches' where c: "cache_new lru_list redis_list [(''m.wasm'', ''test'')]
       \<lparr>cache_entries = ?entries, backend = Some InMemoryBackend\<rparr> = Some (Inr (InMemoryCache caches))"
    "cache_run flat_ops lru_list redis_list (sample_env :: (bytes, unit, _, unit) env) ?turns (InMemoryCache caches)
       = InMemoryCache caches'"
    "\<forall>m lt. hm_get [(''m.wasm'', ''test'')] m = Some lt \<longrightarrow> (\<exists>l. hm_get caches' m = Some l
          \<and> length (lru_iter lru_list l) \<le> unat (get_limit_with_overrides ?entries m lt))"
    unfolding cache_config.simps by blast
  have "\<exists>l. hm_get caches' ''m.wasm'' = Some l \<and> length (lru_iter lru_list l) \<le> 1"
    using c(3) [rule_format, of "''m.wasm''" "''test''"] by (simp add: hm_get_def get_limit_with_overrides_def)
  then show ?thesis using c(1,2) by blast
qed

text \<open>
  Round trip through the in-memory cache: what a module has put under a key is what it gets from
  there, byte for byte in its memory, when both calls are in time and the return buffer can hold it.
\<close>

theorem cache_insert_get_roundtrip:
  assumes "lru_crate L" and "wasm_mem_ok W" and "env_memory env = Some mv"
    and "env_cache env = Some (InMemoryCache caches)" and "hm_get caches (mod_name (env_module env)) = Some l"
    and "distinct (map fst (lru_iter L l)) \<and> length (lru_iter L l) \<le> lru_cap L l \<and> 0 < lru_cap L l"
    and "safely_get_string W mv kp kn = Inr key" and "safely_get_string W mv vp vn = Inr val"
    and "env' = snd (fn_cache_insert W L R InTime env kp kn vp vn p n)"
    and "safely_get_string W mv2 kp2 kn2 = Inr key" and "ptr_slice W mv2 p2 (word_of_nat (length val))"
    and "length val \<le> unat n2" and "n2 \<noteq> 0"
    and "fn_cache_get W L R InTime (env'\<lparr>env_memory := Some mv2\<rparr>) kp2 kn2 p2 n2 = (code, env2)"
  shows "code = as_i32 (length val)
    \<and> (\<exists>mv3. env_memory env2 = Some mv3 \<and> view_read W mv3 (ucast p2) (length val) = Some (as_bytes val))"
proof -
  obtain old l1 where put: "lru_put L l key val = (old, l1)" by force
  obtain r l2 where get: "lru_get L l1 key = (r, l2)" by force
  have wf: "lru_crate.wf L l" using assms(6) by (simp add: lru_crate.wf_def [OF assms(1)])
  have "r = lru_crate.view L l1 key"
    using lru_crate.get_old [OF assms(1) get] by (simp add: lru_crate.view_def [OF assms(1)])
  then have r: "r = Some val" using lru_crate.view_put(1) [OF assms(1) wf put] by simp
  have env': "env_cache env' = Some (InMemoryCache (hm_insert (mod_name (env_module env)) l1 caches))"
    "env_module env' = env_module env"
    using assms(3-5,7,8) put
    by (simp_all add: assms(9) fn_cache_insert_def finish_cache_call_def get_memory_def in_memory_cache_put_def split: prod.splits)
  obtain m3 where wb: "safely_write_data_back W mv2 (as_bytes val) p2 n2 = (Inr (as_i32 (length val)), m3)"
    "view_read W m3 (ucast p2) (length val) = Some (as_bytes val)"
    using write_back_fits [OF assms(2), of "as_bytes val" n2 mv2 p2] assms(11-13) by auto
  have "cache_reply W mv2 (Inr (Some val)) p2 n2 = (as_i32 (length val), m3)"
    using wb(1) by (simp add: cache_reply_def)
  then have "code = as_i32 (length val) \<and> env_memory env2 = Some m3"
    using assms(14,10) env' get r
    by (auto simp: fn_cache_get_def finish_cache_call_def get_memory_def in_memory_cache_get_def)
  then show ?thesis using wb(2) by blast
qed

theorem cache_insert_get_roundtrip_witness:
  "\<exists>code env2 mv3. fn_cache_get flat_ops lru_list redis_list InTime
       ((snd (fn_cache_insert flat_ops lru_list redis_list InTime
          ((sample_env :: (bytes, unit, _, unit) env)\<lparr>env_memory := Some [107, 108, 109],
             env_cache := Some (InMemoryCache [(''m.wasm'', (1, []))])\<rparr>) 0 1 1 2 0 0))\<lparr>env_memory := Some [107, 0, 0, 0]\<rparr>)
       0 1 1 3 = (code, env2)
    \<and> code = 2 \<and> env_memory env2 = Some mv3 \<and> view_read flat_ops mv3 1 2 = Some [108, 109]"
proof -
  let ?env = "(sample_env :: (bytes, unit, _, unit) env)\<lparr>env_memory := Some [107, 108, 109],
             env_cache := Some (InMemoryCache [(''m.wasm'', (1 :: nat, []))])\<rparr>"
  let ?env' = "snd (fn_cache_insert flat_ops lru_list redis_list InTime ?env 0 1 1 2 0 0)"
  obtain code env2 where get: "fn_cache_get flat_ops lru_list redis_list InTime (?env'\<lparr>env_memory := Some [107, 0, 0, 0]\<rparr>) 0 1 1 3
      = (code, env2)" by force
  have str: "safely_get_string flat_ops [107, 108, 109] 0 1 = Inr ''k''" "safely_get_string flat_ops [107, 108, 109] 1 2 = Inr ''lm''"
    "safely_get_string flat_ops [107, 0, 0, 0] 0 1 = Inr ''k''"
    by (simp_all add: safely_get_string_def flat_read_string_def flat_read_def char_of_def bit_0)
  have env: "env_memory ?env = Some [107, 108, 109]" "env_cache ?env = Some (InMemoryCache [(''m.wasm'', (1, []))])"
    "hm_get [(''m.wasm'', (1 :: nat, [] :: (string \<times> string) list))] (mod_name (env_module ?env)) = Some (1, [])"
    by (simp_all add: sample_env_def sample_module_def hm_get_def)
  have lru: "distinct (map fst (lru_iter lru_list (1 :: nat, [] :: (string \<times> string) list)))
      \<and> length (lru_iter lru_list (1 :: nat, [] :: (string \<times> string) list)) \<le> lru_cap lru_list (1 :: nat, [] :: (string \<times> string) list)
      \<and> 0 < lru_cap lru_list (1 :: nat, [] :: (string \<times> string) list)"
    by (simp add: lru_list_def)
  have "code = as_i32 (length ''lm'')
    \<and> (\<exists>mv3. env_memory env2 = Some mv3 \<and> view_read flat_ops mv3 (ucast (1 :: u32)) (length ''lm'') = Some (as_bytes ''lm''))"
    by (rule cache_insert_get_roundtrip [OF lru.lru_crate_axioms wasm_mem_ok_flat env lru str(1,2) refl str(3) _ _ _ get])
      simp_all
  moreover have "as_bytes ''lm'' = [108, 109]" by (simp add: as_bytes_def)
  moreover have "length ''lm'' = 2" "ucast (1 :: u32) = (1 :: u64)" by simp_all
  moreover have "as_i32 2 = 2" by simp
  ultimately show ?thesis using get by metis
qed

text \<open>
  One \<^verbatim>\<open>put\<close> into the Redis cache, under both policies. The previous value is returned, the new one
  stored, and no other namespace changes. With random eviction a namespace that holds at most its
  configured number of entries still does, at the price of another entry; without eviction nothing is
  lost, and the configured number is not looked at.
\<close>

theorem redis_put_outcome:
  assumes "redis_server R hash" and "r_fail R (connection c) = None"
    and "redis_cache_put R c ns k v = (res, c')"
    and "max_entries = (case hm_get (la_module_overrides (max_capacity c)) ns of Some n \<Rightarrow> n | None \<Rightarrow> la_default (max_capacity c))"
  shows "res = Inr (hash (connection c) ns k) \<and> hash (connection c') ns k = Some v
    \<and> (\<forall>ns'. ns' \<noteq> ns \<longrightarrow> hash (connection c') ns' = hash (connection c) ns')
    \<and> (rc_eviction_policy c = NoEviction \<longrightarrow> hash (connection c') ns = (hash (connection c) ns)(k \<mapsto> v))
    \<and> (rc_eviction_policy c = RandomEviction \<longrightarrow> max_entries \<noteq> 0 \<longrightarrow>
         card (dom (hash (connection c) ns)) \<le> unat max_entries \<longrightarrow> card (dom (hash (connection c') ns)) \<le> unat max_entries)"
proof (cases "rc_eviction_policy c")
  case NoEviction
  then show ?thesis
    using assms(2,3) redis_server.hget [OF assms(1)] redis_server.hset [OF assms(1)]
    by (auto simp: redis_cache_put_def)
next
  case RandomEviction
  obtain old ev r where scr: "eviction_script R (connection c) ns k v (unat max_entries) = ((old, ev), r)"
    by (metis prod.exhaust)
  then have res: "res = Inr old" "connection c' = r"
    using assms(2-4) RandomEviction by (auto simp: redis_cache_put_def)
  show ?thesis
    using redis_server.eviction_script_outcome(1,2,4) [OF assms(1) scr] RandomEviction
      redis_server.eviction_script_bounded [OF assms(1) scr] by (simp add: res unat_gt_0)
qed

theorem redis_put_outcome_witness:
  "let c = \<lparr>connection = [(''m.wasm'', [(''a'', ''1'')])], rc_eviction_policy = RandomEviction,
            max_capacity = \<lparr>la_default = 1, la_log_type = [], la_module_overrides = []\<rparr>\<rparr>
   in fst (redis_cache_put redis_list c ''m.wasm'' ''b'' ''2'') = Inr None
    \<and> card (dom (redis_list_hash (connection (snd (redis_cache_put redis_list c ''m.wasm'' ''b'' ''2''))) ''m.wasm'')) \<le> 1"
proof -
  let ?c = "\<lparr>connection = [(''m.wasm'', [(''a'', ''1'')])], rc_eviction_policy = RandomEviction,
            max_capacity = \<lparr>la_default = 1, la_log_type = [], la_module_overrides = []\<rparr>\<rparr>"
  have "r_fail redis_list (connection ?c) = None" by (simp add: redis_list_def Let_def)
  from redis_put_outcome [OF redis.redis_server_axioms this prod.collapse [symmetric] refl, of "''m.wasm''" "''b''" "''2''"]
  show ?thesis
    by (simp add: redis_list_hash_def hm_get_def Let_def dom_def)
qed

end
