(* ===== verification/Plaid_Generators.thy ===== *)
theory Plaid_Generators
  imports Plaid_Lru Plaid_Text Plaid_Env
begin

text \<open>
  The data generators that poll a source of logs: the trait and the loop of
  \<^verbatim>\<open>runtime/plaid/src/data/mod.rs\<close> and its two implementations, \<^verbatim>\<open>data/okta/mod.rs\<close> and
  \<^verbatim>\<open>data/github/mod.rs\<close>. The trait is the record \<open>dg_ops\<close> of its methods. A moment of the crate \<^verbatim>\<open>time\<close>
  is its distance from the epoch in nanoseconds; the range of representable moments is a parameter.
  The clock and the answers of the source are arguments, one pair for each pass of the loop. The
  metrics are left out, and so is the pause between two passes.
\<close>

subsection \<open>Logs and the trait\<close>

type_synonym nanos = int

definition NANOS :: int where
  "NANOS = 1000000000"

record time_range =
  min_time :: nanos
  max_time :: nanos

record dg_log =
  log_id :: string
  log_timestamp :: nanos
  log_payload :: bytes

record 'g dg_ops =
  get_name :: string
  get_canon_time :: "'g \<Rightarrow> u64"
  get_last_seen :: "'g \<Rightarrow> nanos"
  set_last_seen :: "'g \<Rightarrow> nanos \<Rightarrow> 'g"
  was_already_seen :: "'g \<Rightarrow> string \<Rightarrow> bool"
  mark_already_seen :: "'g \<Rightarrow> string \<Rightarrow> 'g"
  list_already_seen :: "'g \<Rightarrow> string list"
  send_for_processing :: "'g \<Rightarrow> bytes \<Rightarrow> (unit + unit) \<times> 'g"
  get_max_since_until_interval :: "'g \<Rightarrow> u64"
  get_max_catchup_time :: "'g \<Rightarrow> u64"

subsection \<open>Moments\<close>

definition saturating_sub_time :: "time_range \<Rightarrow> nanos \<Rightarrow> int \<Rightarrow> nanos" where
  "saturating_sub_time T t d = max (min_time T) (min (max_time T) (t - d))"

definition unix_timestamp :: "nanos \<Rightarrow> int" where
  "unix_timestamp t = t div NANOS"

definition from_unix_timestamp :: "time_range \<Rightarrow> int \<Rightarrow> nanos option" where
  "from_unix_timestamp T s = (if min_time T \<le> s * NANOS \<and> s * NANOS \<le> max_time T then Some (s * NANOS) else None)"

definition from_unix_timestamp_nanos :: "time_range \<Rightarrow> int \<Rightarrow> nanos option" where
  "from_unix_timestamp_nanos T n = (if min_time T \<le> n \<and> n \<le> max_time T then Some n else None)"

text \<open>\<^verbatim>\<open>Duration::whole_seconds\<close> rounds towards zero.\<close>

definition whole_seconds :: "int \<Rightarrow> int" where
  "whole_seconds d = (if 0 \<le> d then d div NANOS else - (- d div NANOS))"

subsection \<open>State in storage\<close>

definition DATA_GENERATOR_STORAGE_PREFIX :: string where
  "DATA_GENERATOR_STORAGE_PREFIX = ''__DATA_GENERATOR''"

definition LAST_SEEN_KEY :: string where
  "LAST_SEEN_KEY = ''last_seen''"

definition ALREADY_SEEN_UUIDS_KEY :: string where
  "ALREADY_SEEN_UUIDS_KEY = ''already_seen_uuids''"

definition get_dg_storage_namespace :: "string \<Rightarrow> string" where
  "get_dg_storage_namespace dg_name = DATA_GENERATOR_STORAGE_PREFIX @ ''_'' @ dg_name"

definition read_vec_from_storage ::
  "(bytes \<Rightarrow> string list option) \<Rightarrow> 'd storage option \<Rightarrow> string \<Rightarrow> string \<Rightarrow> string list option" where
  "read_vec_from_storage from_json st namespace key =
     (case st of
        None \<Rightarrow> None
      | Some st \<Rightarrow> (case storage_get st namespace key of
                     Inr (Some res) \<Rightarrow> from_json res
                   | _ \<Rightarrow> None))"

definition read_string_from_storage :: "'d storage option \<Rightarrow> string \<Rightarrow> string \<Rightarrow> string option" where
  "read_string_from_storage st namespace key =
     (case st of
        None \<Rightarrow> None
      | Some st \<Rightarrow> (case storage_get st namespace key of
                     Inr (Some res) \<Rightarrow> from_utf8 res
                   | _ \<Rightarrow> None))"

text \<open>
  The two readings of the clock: \<open>now1\<close> stands in for a time that cannot be read back, \<open>now\<close> is what the
  look-back window is measured from. The cast to \<^verbatim>\<open>u64\<close> of a negative number of seconds wraps around.
\<close>

definition cap_last_seen :: "'g dg_ops \<Rightarrow> time_range \<Rightarrow> nanos \<Rightarrow> 'g \<Rightarrow> nanos \<Rightarrow> nanos" where
  "cap_last_seen D T now g last_seen =
     (if (word_of_int (whole_seconds (now - last_seen)) :: u64) > get_max_catchup_time D g
      then saturating_sub_time T now (sint (get_max_catchup_time D g) * NANOS)
      else last_seen)"

definition update_dg_from_storage ::
  "'g dg_ops \<Rightarrow> time_range \<Rightarrow> (bytes \<Rightarrow> string list option) \<Rightarrow> nanos \<Rightarrow> nanos \<Rightarrow> 'd storage option \<Rightarrow> 'g \<Rightarrow> 'g" where
  "update_dg_from_storage D T from_json now1 now st g =
     (let storage_namespace = get_dg_storage_namespace (get_name D);
          last_seen = read_string_from_storage st storage_namespace LAST_SEEN_KEY;
          seen_logs_uuids = read_vec_from_storage from_json st storage_namespace ALREADY_SEEN_UUIDS_KEY
      in case (last_seen, seen_logs_uuids) of
           (Some last_seen, Some seen_logs_uuids) \<Rightarrow>
             (let last_seen =
                    (case parse_i128 last_seen of
                       Some x \<Rightarrow> (case from_unix_timestamp_nanos T x of Some t \<Rightarrow> t | None \<Rightarrow> now1)
                     | None \<Rightarrow> now1)
              in fold (\<lambda>id g. mark_already_seen D g id) seen_logs_uuids
                   (set_last_seen D g (cap_last_seen D T now g last_seen)))
         | _ \<Rightarrow> g)"

subsection \<open>The loop\<close>

text \<open>One page of logs: each one not seen before is sent, marked, and may move \<open>last_seen\<close> on.\<close>

fun process_dg_logs :: "'g dg_ops \<Rightarrow> dg_log list \<Rightarrow> u32 \<Rightarrow> 'g \<Rightarrow> (unit + u32) \<times> 'g" where
  "process_dg_logs D [] sent g = (Inr sent, g)"
| "process_dg_logs D (log # logs) sent g =
     (if was_already_seen D g (log_id log) then process_dg_logs D logs sent g
      else case send_for_processing D g (log_payload log) of
             (Inl _, g) \<Rightarrow> (Inl (), g)
           | (Inr _, g) \<Rightarrow>
               (let g = mark_already_seen D g (log_id log);
                    g = (if log_timestamp log > get_last_seen D g then set_last_seen D g (log_timestamp log) else g)
                in process_dg_logs D logs (sent + 1) g))"

text \<open>Failures to store the state are ignored. Encoding a vector of strings as JSON cannot fail.\<close>

definition persist_dg :: "'g dg_ops \<Rightarrow> (string list \<Rightarrow> bytes) \<Rightarrow> 'g \<Rightarrow> 'd storage option \<Rightarrow> 'd storage option" where
  "persist_dg D to_json g st =
     (case st of
        None \<Rightarrow> None
      | Some st \<Rightarrow>
          (let storage_namespace = get_dg_storage_namespace (get_name D);
               (_, st) = storage_insert st storage_namespace LAST_SEEN_KEY (as_bytes (show_int (get_last_seen D g)));
               (_, st) = storage_insert st storage_namespace ALREADY_SEEN_UUIDS_KEY (to_json (list_already_seen D g))
           in Some st))"

definition dg_since :: "'g dg_ops \<Rightarrow> time_range \<Rightarrow> 'g \<Rightarrow> nanos" where
  "dg_since D T g = saturating_sub_time T (get_last_seen D g) NANOS"

definition dg_until :: "'g dg_ops \<Rightarrow> time_range \<Rightarrow> u64 \<Rightarrow> 'g \<Rightarrow> nanos option" where
  "dg_until D T now g =
     (let until = now - get_canon_time D g;
          until = min until (word_of_int (unix_timestamp (dg_since D T g)) + get_max_since_until_interval D g)
      in from_unix_timestamp T (sint until))"

text \<open>One pass: \<open>Some\<close> result when the function returns, \<open>None\<close> when the loop goes on.\<close>

definition dg_pass ::
  "'g dg_ops \<Rightarrow> time_range \<Rightarrow> (string list \<Rightarrow> bytes) \<Rightarrow> u64 \<times> (nanos \<Rightarrow> nanos \<Rightarrow> unit + dg_log list)
     \<Rightarrow> 'g \<times> 'd storage option \<Rightarrow> (unit + unit) option \<times> 'g \<times> 'd storage option" where
  "dg_pass D T to_json input s =
     (let (now, fetch_logs) = input; (g, st) = s
      in case dg_until D T now g of
           None \<Rightarrow> (Some (Inl ()), g, st)
         | Some until \<Rightarrow>
             if until < get_last_seen D g then (Some (Inr ()), g, st)
             else case fetch_logs (dg_since D T g) until of
               Inl _ \<Rightarrow> (Some (Inl ()), g, st)
             | Inr logs \<Rightarrow>
                 if logs = [] then (Some (Inr ()), g, st)
                 else case process_dg_logs D logs 0 g of
                   (Inl _, g) \<Rightarrow> (Some (Inl ()), g, st)
                 | (Inr sent, g) \<Rightarrow>
                     if sent = 0 then (Some (Inr ()), g, st)
                     else (None, g, persist_dg D to_json g st))"

text \<open>The loop, with the clock and the source of each pass. \<open>None\<close>: it is still running after them.\<close>

fun get_and_process_dg_logs ::
  "'g dg_ops \<Rightarrow> time_range \<Rightarrow> (string list \<Rightarrow> bytes) \<Rightarrow> (u64 \<times> (nanos \<Rightarrow> nanos \<Rightarrow> unit + dg_log list)) list
     \<Rightarrow> 'g \<times> 'd storage option \<Rightarrow> (unit + unit) option \<times> 'g \<times> 'd storage option" where
  "get_and_process_dg_logs D T to_json [] s = (None, s)"
| "get_and_process_dg_logs D T to_json (input # inputs) s =
     (case dg_pass D T to_json input s of
        (Some r, s) \<Rightarrow> (Some r, s)
      | (None, s) \<Rightarrow> get_and_process_dg_logs D T to_json inputs s)"

subsection \<open>Pages of logs\<close>

datatype json =
    JObject "(string \<times> json) list"
  | JString string
  | JNumber u64
  | JOther string

fun json_get :: "json \<Rightarrow> string \<Rightarrow> json option" where
  "json_get (JObject obj) k = map_of obj k"
| "json_get _ k = None"

fun as_str :: "json \<Rightarrow> string option" where
  "as_str (JString s) = Some s"
| "as_str _ = None"

fun as_u64 :: "json \<Rightarrow> u64 option" where
  "as_u64 (JNumber n) = Some n"
| "as_u64 _ = None"

text \<open>
  The link to the next page. \<open>None\<close> is a panic: of a slice whose end is before its start, when the
  first \<^verbatim>\<open>>\<close> of the part comes before its first \<^verbatim>\<open><\<close>.
\<close>

fun next_from_parts :: "string list \<Rightarrow> string option option" where
  "next_from_parts [] = Some None"
| "next_from_parts (part # parts) =
     (let part = trim part
      in if suffix ''rel=\"next\"'' part then
           (case find_char CHR ''<'' part of
              Some start \<Rightarrow>
                (case find_char CHR ''>'' part of
                   Some end_ \<Rightarrow> if start + 1 \<le> end_ then Some (Some (take (end_ - (start + 1)) (drop (start + 1) part))) else None
                 | None \<Rightarrow> next_from_parts parts)
            | None \<Rightarrow> next_from_parts parts)
         else next_from_parts parts)"

definition get_next_from_link_header :: "string option \<Rightarrow> string option option" where
  "get_next_from_link_header hv =
     (case hv of None \<Rightarrow> Some None | Some header \<Rightarrow> next_from_parts (split_on CHR '','' header))"

text \<open>
  A response of the source: whether its status is a success, its \<^verbatim>\<open>link\<close> header (if it has one, and
  as a string if it is one), and its body unless reading it failed.
\<close>

record page =
  pg_success :: bool
  pg_link :: "string option option"
  pg_body :: "string option"

datatype fetch_error = FetchFailed | FetchPanicked

partial_function (option) fetch_pages ::
  "(string \<Rightarrow> page option) \<Rightarrow> (string \<Rightarrow> json list option) \<Rightarrow> (json \<Rightarrow> dg_log option) \<Rightarrow> string option
     \<Rightarrow> dg_log list \<Rightarrow> (fetch_error + dg_log list) option" where
  "fetch_pages http from_json parse_log next_page output_logs =
     (case next_page of
        None \<Rightarrow> Some (Inr output_logs)
      | Some address \<Rightarrow>
     (case http address of
        None \<Rightarrow> Some (Inl FetchFailed)
      | Some resp \<Rightarrow>
          if \<not> pg_success resp then Some (Inl FetchFailed)
          else
     (case (case pg_link resp of None \<Rightarrow> Some None | Some hv \<Rightarrow> get_next_from_link_header hv) of
        None \<Rightarrow> Some (Inl FetchPanicked)
      | Some next_page' \<Rightarrow>
     (case pg_body resp of
        None \<Rightarrow> Some (Inl FetchFailed)
      | Some body \<Rightarrow>
     (case from_json body of
        None \<Rightarrow> Some (Inl FetchFailed)
      | Some logs \<Rightarrow>
          if logs = [] then Some (Inr output_logs)
          else fetch_pages http from_json parse_log next_page' (output_logs @ List.map_filter parse_log logs))))))"

subsection \<open>Okta\<close>

record okta_config =
  okta_domain :: string
  okta_limit :: u16
  okta_logbacks_allowed :: logbacks_allowed
  okta_canon_time :: u64
  okta_lru_cache_size :: nat
  okta_max_since_until :: u64
  okta_max_catchup :: u64

definition okta_parse_limit :: "u16 \<Rightarrow> string + u16" where
  "okta_parse_limit limit =
     (if 1 \<le> limit \<and> limit \<le> 1000 then Inr limit
      else if limit = 0 then Inl ''Invalid limit value provided. Minimum limit is 1''
      else Inl ''Invalid limit value provided. Maximum limit is 1000'')"

text \<open>The channel to the executor: what has been sent into it, and whether anyone still listens.\<close>

record ('cfg, 'l) generator_state =
  gs_config :: 'cfg
  gs_last_seen :: nanos
  gs_connected :: bool
  gs_sent :: "message list"
  gs_seen :: 'l

definition send_message ::
  "message \<Rightarrow> ('cfg, 'l) generator_state \<Rightarrow> (unit + unit) \<times> ('cfg, 'l) generator_state" where
  "send_message msg g = (if gs_connected g then (Inr (), g\<lparr>gs_sent := gs_sent g @ [msg]\<rparr>) else (Inl (), g))"

definition okta_new :: "(string, u32, 'l) lru_ops \<Rightarrow> okta_config \<Rightarrow> nanos \<Rightarrow> (okta_config, 'l) generator_state option" where
  "okta_new L config now =
     (if okta_lru_cache_size config = 0 then None
      else Some \<lparr>gs_config = config, gs_last_seen = now, gs_connected = True, gs_sent = [],
                gs_seen = lru_new L (okta_lru_cache_size config)\<rparr>)"

definition okta_parse_log :: "(string \<Rightarrow> nanos option) \<Rightarrow> (json \<Rightarrow> bytes option) \<Rightarrow> json \<Rightarrow> dg_log option" where
  "okta_parse_log parse_rfc3339 to_vec log =
     (case Option.bind (json_get log ''published'') as_str of
        None \<Rightarrow> None
      | Some published \<Rightarrow>
     (case parse_rfc3339 published of
        None \<Rightarrow> None
      | Some ts \<Rightarrow>
     (case Option.bind (json_get log ''uuid'') as_str of
        None \<Rightarrow> None
      | Some uuid \<Rightarrow>
     (case to_vec log of
        None \<Rightarrow> None
      | Some b \<Rightarrow> Some \<lparr>log_id = uuid, log_timestamp = ts, log_payload = b\<rparr>))))"

definition okta_fetch_logs ::
  "(nanos \<Rightarrow> string option) \<Rightarrow> (string \<Rightarrow> nanos option) \<Rightarrow> (json \<Rightarrow> bytes option) \<Rightarrow> (string \<Rightarrow> page option)
     \<Rightarrow> (string \<Rightarrow> json list option) \<Rightarrow> okta_config \<Rightarrow> nanos \<Rightarrow> nanos \<Rightarrow> (fetch_error + dg_log list) option" where
  "okta_fetch_logs rfc3339 parse_rfc3339 to_vec http from_json config since until =
     (case rfc3339 since of
        None \<Rightarrow> Some (Inl FetchFailed)
      | Some since \<Rightarrow>
     (case rfc3339 until of
        None \<Rightarrow> Some (Inl FetchFailed)
      | Some until \<Rightarrow>
          (let address = ''https://'' @ okta_domain config @ ''/api/v1/logs?sortOrder=ASCENDING&since='' @ since
                 @ ''&until='' @ until @ ''&limit='' @ decimal (unat (okta_limit config))
           in fetch_pages http from_json (okta_parse_log parse_rfc3339 to_vec) (Some address) [])))"

definition okta_ops :: "(string, u32, 'l) lru_ops \<Rightarrow> (nat \<Rightarrow> string) \<Rightarrow> (okta_config, 'l) generator_state dg_ops" where
  "okta_ops L uuid =
     \<lparr>get_name = ''Okta'',
      get_canon_time = (\<lambda>g. okta_canon_time (gs_config g)),
      get_last_seen = gs_last_seen,
      set_last_seen = (\<lambda>g v. g\<lparr>gs_last_seen := v\<rparr>),
      was_already_seen = (\<lambda>g id. lru_contains L (gs_seen g) id),
      mark_already_seen = (\<lambda>g id. g\<lparr>gs_seen := snd (lru_put L (gs_seen g) id 0)\<rparr>),
      list_already_seen = (\<lambda>g. map fst (lru_iter L (gs_seen g))),
      send_for_processing = (\<lambda>g payload. send_message
        (message_new (uuid (length (gs_sent g))) ''okta'' payload (Generator Okta) (okta_logbacks_allowed (gs_config g))) g),
      get_max_since_until_interval = (\<lambda>g. okta_max_since_until (gs_config g)),
      get_max_catchup_time = (\<lambda>g. okta_max_catchup (gs_config g))\<rparr>"

subsection \<open>GitHub\<close>

datatype github_log_type = Web | Git | All

fun github_log_type_fmt :: "github_log_type \<Rightarrow> string" where
  "github_log_type_fmt Web = ''web''"
| "github_log_type_fmt Git = ''git''"
| "github_log_type_fmt All = ''all''"

definition to_lowercase_ascii :: "string \<Rightarrow> string" where
  "to_lowercase_ascii s =
     map (\<lambda>c. if 65 \<le> (of_char c :: nat) \<and> (of_char c :: nat) \<le> 90 then char_of ((of_char c :: nat) + 32) else c) s"

definition github_parse_log_type :: "string \<Rightarrow> string + github_log_type" where
  "github_parse_log_type raw =
     (let log_type = to_lowercase_ascii raw
      in if log_type = ''web'' then Inr Web
         else if log_type = ''git'' then Inr Git
         else if log_type = ''all'' then Inr All
         else Inl ''Invalid log type provided. Expected one of All, Git, Web'')"

record github_config =
  gh_org :: string
  gh_log_type :: github_log_type
  gh_logbacks_allowed :: logbacks_allowed
  gh_canon_time :: u64
  gh_lru_cache_size :: nat
  gh_max_since_until :: u64
  gh_max_catchup :: u64

definition default_lru_cache_size :: nat where
  "default_lru_cache_size = 4096"

definition github_new :: "(string, u32, 'l) lru_ops \<Rightarrow> github_config \<Rightarrow> nanos \<Rightarrow> (github_config, 'l) generator_state" where
  "github_new L config now =
     (let size = (if gh_lru_cache_size config = 0 then default_lru_cache_size else gh_lru_cache_size config)
      in \<lparr>gs_config = config, gs_last_seen = now, gs_connected = True, gs_sent = [], gs_seen = lru_new L size\<rparr>)"

definition github_parse_log :: "time_range \<Rightarrow> (json \<Rightarrow> bytes) \<Rightarrow> json \<Rightarrow> dg_log option" where
  "github_parse_log T to_vec log =
     (case Option.bind (json_get log ''@timestamp'') as_u64 of
        None \<Rightarrow> None
      | Some timestamp \<Rightarrow>
     (case from_unix_timestamp_nanos T (uint timestamp * 1000000) of
        None \<Rightarrow> None
      | Some t \<Rightarrow>
     (case Option.bind (json_get log ''_document_id'') as_str of
        None \<Rightarrow> None
      | Some doc_id \<Rightarrow> Some \<lparr>log_id = doc_id, log_timestamp = t, log_payload = to_vec log\<rparr>)))"

definition github_fetch_logs ::
  "(nanos \<Rightarrow> string option) \<Rightarrow> time_range \<Rightarrow> (json \<Rightarrow> bytes) \<Rightarrow> (string \<Rightarrow> page option)
     \<Rightarrow> (string \<Rightarrow> json list option) \<Rightarrow> github_config \<Rightarrow> nanos \<Rightarrow> nanos \<Rightarrow> (fetch_error + dg_log list) option" where
  "github_fetch_logs rfc3339 T to_vec http from_json config since until =
     (case rfc3339 since of
        None \<Rightarrow> Some (Inl FetchFailed)
      | Some since \<Rightarrow>
     (case rfc3339 until of
        None \<Rightarrow> Some (Inl FetchFailed)
      | Some until \<Rightarrow>
          (let address = ''https://api.github.com/orgs/'' @ gh_org config @ ''/audit-log?include=''
                 @ github_log_type_fmt (gh_log_type config) @ ''&per_page=100&order=asc&phrase=created:'' @ since @ ''..'' @ until
           in fetch_pages http from_json (github_parse_log T to_vec) (Some address) [])))"

definition github_ops :: "(string, u32, 'l) lru_ops \<Rightarrow> (nat \<Rightarrow> string) \<Rightarrow> (github_config, 'l) generator_state dg_ops" where
  "github_ops L uuid =
     \<lparr>get_name = ''GitHub'',
      get_canon_time = (\<lambda>g. gh_canon_time (gs_config g)),
      get_last_seen = gs_last_seen,
      set_last_seen = (\<lambda>g v. g\<lparr>gs_last_seen := v\<rparr>),
      was_already_seen = (\<lambda>g id. lru_contains L (gs_seen g) id),
      mark_already_seen = (\<lambda>g id. g\<lparr>gs_seen := snd (lru_put L (gs_seen g) id 0)\<rparr>),
      list_already_seen = (\<lambda>g. map fst (lru_iter L (gs_seen g))),
      send_for_processing = (\<lambda>g payload. send_message
        (message_new (uuid (length (gs_sent g))) ''github'' payload (Generator Github) (gh_logbacks_allowed (gs_config g))) g),
      get_max_since_until_interval = (\<lambda>g. gh_max_since_until (gs_config g)),
      get_max_catchup_time = (\<lambda>g. gh_max_catchup (gs_config g))\<rparr>"

subsection \<open>Polling\<close>

text \<open>The task of a generator: one run of the loop every ten seconds, whatever its result.\<close>

definition dg_polls ::
  "'g dg_ops \<Rightarrow> time_range \<Rightarrow> (string list \<Rightarrow> bytes) \<Rightarrow> (u64 \<times> (nanos \<Rightarrow> nanos \<Rightarrow> unit + dg_log list)) list list
     \<Rightarrow> 'g \<times> 'd storage option \<Rightarrow> 'g \<times> 'd storage option" where
  "dg_polls D T to_json polls s = fold (\<lambda>inputs s. snd (get_and_process_dg_logs D T to_json inputs s)) polls s"

text \<open>
  What the source answered, whatever became of it: the page of a pass, the pages of a run of the loop
  and those of any number of polls. A pass that asks nothing, or that gets an error, has an empty page.
\<close>

definition page_served ::
  "'g dg_ops \<Rightarrow> time_range \<Rightarrow> u64 \<times> (nanos \<Rightarrow> nanos \<Rightarrow> unit + dg_log list) \<Rightarrow> 'g \<Rightarrow> dg_log list" where
  "page_served D T input g =
     (case dg_until D T (fst input) g of
        None \<Rightarrow> []
      | Some until \<Rightarrow>
          if until < get_last_seen D g then []
          else (case snd input (dg_since D T g) until of Inl _ \<Rightarrow> [] | Inr logs \<Rightarrow> logs))"

fun pages_of_run ::
  "'g dg_ops \<Rightarrow> time_range \<Rightarrow> (string list \<Rightarrow> bytes) \<Rightarrow> (u64 \<times> (nanos \<Rightarrow> nanos \<Rightarrow> unit + dg_log list)) list
     \<Rightarrow> 'g \<times> 'd storage option \<Rightarrow> dg_log list" where
  "pages_of_run D T to_json [] s = []"
| "pages_of_run D T to_json (input # inputs) s =
     page_served D T input (fst s) @
     (case dg_pass D T to_json input s of (Some r, s) \<Rightarrow> [] | (None, s) \<Rightarrow> pages_of_run D T to_json inputs s)"

fun pages_of_polls ::
  "'g dg_ops \<Rightarrow> time_range \<Rightarrow> (string list \<Rightarrow> bytes) \<Rightarrow> (u64 \<times> (nanos \<Rightarrow> nanos \<Rightarrow> unit + dg_log list)) list list
     \<Rightarrow> 'g \<times> 'd storage option \<Rightarrow> dg_log list" where
  "pages_of_polls D T to_json [] s = []"
| "pages_of_polls D T to_json (inputs # polls) s =
     pages_of_run D T to_json inputs s
       @ pages_of_polls D T to_json polls (snd (get_and_process_dg_logs D T to_json inputs s))"

subsection \<open>Deduplication, for every generator\<close>

text \<open>The logs of a list whose identifier is new, each identifier once.\<close>

fun fresh :: "string set \<Rightarrow> dg_log list \<Rightarrow> dg_log list" where
  "fresh S [] = []"
| "fresh S (l # ls) = (if log_id l \<in> S then fresh S ls else l # fresh (insert (log_id l) S) ls)"

definition ids :: "dg_log list \<Rightarrow> string set" where
  "ids ls = log_id ` set ls"

lemma fresh_append: "fresh S (xs @ ys) = fresh S xs @ fresh (S \<union> ids xs) ys"
proof (induction xs arbitrary: S)
  case (Cons x xs)
  have "S \<union> ids (x # xs) = insert (log_id x) S \<union> ids xs" by (auto simp: ids_def)
  moreover have "log_id x \<in> S \<Longrightarrow> S \<union> ids (x # xs) = S \<union> ids xs" by (auto simp: ids_def)
  ultimately show ?case using Cons by auto
qed (simp add: ids_def)

lemma fresh_ids: "ids (fresh S ls) = ids ls - S"
  by (induction ls arbitrary: S) (auto simp: ids_def)

lemma fresh_distinct: "distinct (map log_id (fresh S ls))"
proof (induction ls arbitrary: S)
  case (Cons l ls)
  have "log_id l \<notin> ids (fresh (insert (log_id l) S) ls)" by (simp add: fresh_ids)
  then show ?case using Cons by (auto simp: ids_def)
qed simp

lemma fresh_subset: "set (fresh S ls) \<subseteq> set ls"
  by (induction ls arbitrary: S) auto

text \<open>The source never returns more than \<open>N\<close> logs at once.\<close>

definition pages_within :: "nat \<Rightarrow> (u64 \<times> (nanos \<Rightarrow> nanos \<Rightarrow> unit + dg_log list)) list \<Rightarrow> bool" where
  "pages_within N inputs \<longleftrightarrow> (\<forall>input \<in> set inputs. \<forall>since until logs. snd input since until = Inr logs \<longrightarrow> length logs \<le> N)"

text \<open>
  What the loop relies on of a generator: it remembers identifiers as long as it has room for them,
  sends while its channel is connected, and keeps what it is told of the last log seen.
\<close>

locale data_generator =
  fixes D :: "'g dg_ops"
    and seen :: "'g \<Rightarrow> string set"
    and room :: "'g \<Rightarrow> nat"
    and out :: "'g \<Rightarrow> bytes list"
    and ok :: "'g \<Rightarrow> bool"
  assumes was_seen: "was_already_seen D g i \<longleftrightarrow> i \<in> seen g"
    and mark_seen: "ok g \<Longrightarrow> 0 < room g \<Longrightarrow> seen (mark_already_seen D g i) = insert i (seen g)"
    and mark_room: "ok g \<Longrightarrow> room g \<le> Suc (room (mark_already_seen D g i))"
    and mark_keeps: "ok g \<Longrightarrow> ok (mark_already_seen D g i) \<and> out (mark_already_seen D g i) = out g
      \<and> get_last_seen D (mark_already_seen D g i) = get_last_seen D g"
    and send_sends: "ok g \<Longrightarrow> fst (send_for_processing D g p) = Inr () \<and> out (snd (send_for_processing D g p)) = out g @ [p]"
    and send_keeps: "ok g \<Longrightarrow> ok (snd (send_for_processing D g p)) \<and> seen (snd (send_for_processing D g p)) = seen g
      \<and> room (snd (send_for_processing D g p)) = room g
      \<and> get_last_seen D (snd (send_for_processing D g p)) = get_last_seen D g"
    and last_set: "get_last_seen D (set_last_seen D g t) = t"
    and last_keeps: "ok g \<Longrightarrow> ok (set_last_seen D g t) \<and> seen (set_last_seen D g t) = seen g
      \<and> room (set_last_seen D g t) = room g \<and> out (set_last_seen D g t) = out g"
begin

definition processed :: "'g \<Rightarrow> dg_log list \<Rightarrow> 'g \<Rightarrow> bool" where
  "processed g ls g' \<longleftrightarrow> ok g' \<and> seen g' = seen g \<union> ids ls \<and> room g \<le> room g' + length ls
     \<and> out g' = out g @ map log_payload (fresh (seen g) ls)
     \<and> get_last_seen D g \<le> get_last_seen D g' \<and> (\<forall>l \<in> set (fresh (seen g) ls). log_timestamp l \<le> get_last_seen D g')"

lemma processed_refl: "ok g \<Longrightarrow> processed g [] g"
  by (simp add: processed_def ids_def)

lemma processed_trans:
  assumes "processed g xs g1" and "processed g1 ys g2"
  shows "processed g (xs @ ys) g2"
proof -
  have "get_last_seen D g1 \<le> get_last_seen D g2" "\<forall>l \<in> set (fresh (seen g) xs). log_timestamp l \<le> get_last_seen D g1"
    using assms by (simp_all add: processed_def)
  then have "\<forall>l \<in> set (fresh (seen g) xs). log_timestamp l \<le> get_last_seen D g2" by force
  then show ?thesis
    using assms by (auto simp: processed_def fresh_append ids_def)
qed

lemma processed_seen: "ok g \<Longrightarrow> was_already_seen D g (log_id l) \<Longrightarrow> processed g [l] g"
  by (auto simp: processed_def ids_def was_seen)

lemma processed_new:
  assumes "ok g" and "\<not> was_already_seen D g (log_id l)" and "0 < room g"
    and "send_for_processing D g (log_payload l) = (r, g1)" and "g2 = mark_already_seen D g1 (log_id l)"
    and "g3 = (if log_timestamp l > get_last_seen D g2 then set_last_seen D g2 (log_timestamp l) else g2)"
  shows "processed g [l] g3"
proof -
  have g1: "ok g1" "seen g1 = seen g" "room g1 = room g" "get_last_seen D g1 = get_last_seen D g" "out g1 = out g @ [log_payload l]"
    using send_sends [OF assms(1), of "log_payload l"] send_keeps [OF assms(1), of "log_payload l"] assms(4) by simp_all
  have g2: "ok g2" "seen g2 = insert (log_id l) (seen g)" "room g \<le> Suc (room g2)" "out g2 = out g @ [log_payload l]"
    "get_last_seen D g2 = get_last_seen D g"
    using mark_seen [OF g1(1)] mark_room [OF g1(1)] mark_keeps [OF g1(1)] g1 assms(3) by (simp_all add: assms(5))
  show ?thesis
    using g2 last_set last_keeps [OF g2(1)] assms(2)
    by (auto simp: processed_def assms(6) ids_def was_seen)
qed

lemma process_dg_logs_processed:
  assumes "ok g" and "length ls \<le> room g"
  shows "\<exists>n g'. process_dg_logs D ls sent g = (Inr n, g') \<and> processed g ls g'"
  using assms
proof (induction ls arbitrary: g sent)
  case Nil
  then show ?case by (simp add: processed_refl)
next
  case (Cons l ls)
  show ?case
  proof (cases "was_already_seen D g (log_id l)")
    case True
    have "length ls \<le> room g" using Cons.prems(2) by simp
    from Cons.IH [OF Cons.prems(1) this] obtain n g' where g': "process_dg_logs D ls sent g = (Inr n, g')" "processed g ls g'"
      by blast
    then show ?thesis using True processed_trans [OF processed_seen [OF Cons.prems(1) True] g'(2)] by simp
  next
    case False
    obtain r g1 where send: "send_for_processing D g (log_payload l) = (r, g1)" by force
    have r: "r = Inr ()" using send_sends [OF Cons.prems(1), of "log_payload l"] send by simp
    define g2 where "g2 = mark_already_seen D g1 (log_id l)"
    define g3 where "g3 = (if log_timestamp l > get_last_seen D g2 then set_last_seen D g2 (log_timestamp l) else g2)"
    have p: "processed g [l] g3"
      using processed_new [OF Cons.prems(1) False _ send g2_def g3_def] Cons.prems(2) by simp
    then have "ok g3" "length ls \<le> room g3" using Cons.prems(2) by (simp_all add: processed_def)
    from Cons.IH [OF this] obtain n g' where g': "process_dg_logs D ls (sent + 1) g3 = (Inr n, g')" "processed g3 ls g'"
      by blast
    have "process_dg_logs D (l # ls) sent g = process_dg_logs D ls (sent + 1) g3"
      using False send r by (simp add: g3_def g2_def Let_def)
    then show ?thesis using g'(1) processed_trans [OF p g'(2)] by auto
  qed
qed

text \<open>One pass processes the page that the source returned, if it asked for one.\<close>

lemma page_served_within: "pages_within N (input # inputs) \<Longrightarrow> length (page_served D T input g) \<le> N"
  by (auto simp: pages_within_def page_served_def split: option.split sum.split)

lemma dg_pass_processed:
  assumes "ok g" and "length (page_served D T input g) \<le> room g"
    and "dg_pass D T to_json input (g, st) = (r, g', st')"
  shows "processed g (page_served D T input g) g'"
proof (cases "page_served D T input g = []")
  case True
  then have "g' = g"
    using assms(3) by (auto simp: dg_pass_def page_served_def split: option.splits sum.splits if_splits prod.splits)
  then show ?thesis using processed_refl [OF assms(1)] True by simp
next
  case False
  then obtain until where u: "dg_until D T (fst input) g = Some until" "\<not> until < get_last_seen D g"
    "snd input (dg_since D T g) until = Inr (page_served D T input g)"
    by (auto simp: page_served_def split: option.splits if_splits sum.splits)
  obtain n g1 where p: "process_dg_logs D (page_served D T input g) 0 g = (Inr n, g1)" "processed g (page_served D T input g) g1"
    using process_dg_logs_processed [OF assms(1,2)] by blast
  have "g' = g1" using assms(3) u p(1) False by (cases input) (auto simp: dg_pass_def split: if_splits)
  then show ?thesis using p(2) by simp
qed

text \<open>
  A run of the loop, and any number of polls, with enough room for what the passes may return: the
  output is what is new among the pages the source returned.
\<close>

lemma dg_run_processed:
  assumes "ok g" and "pages_within N inputs" and "length inputs * N \<le> room g"
    and "get_and_process_dg_logs D T to_json inputs (g, st) = (r, g', st')"
  shows "processed g (pages_of_run D T to_json inputs (g, st)) g'
    \<and> length (pages_of_run D T to_json inputs (g, st)) \<le> length inputs * N"
  using assms
proof (induction inputs arbitrary: g st)
  case Nil
  then show ?case using processed_refl by simp
next
  case (Cons i inputs)
  obtain r1 g1 st1 where pass: "dg_pass D T to_json i (g, st) = (r1, g1, st1)" by (metis prod.exhaust)
  have lim: "length (page_served D T i g) \<le> N" by (rule page_served_within [OF Cons.prems(2)])
  then have page: "processed g (page_served D T i g) g1"
    using Cons.prems(3) by (intro dg_pass_processed [OF Cons.prems(1) _ pass]) simp
  show ?case
  proof (cases r1)
    case (Some res)
    then show ?thesis using Cons.prems(4) pass page lim by (auto simp: trans_le_add1)
  next
    case None
    have rest: "get_and_process_dg_logs D T to_json inputs (g1, st1) = (r, g', st')" using Cons.prems(4) pass None by simp
    have "length inputs * N \<le> room g1" "ok g1" "pages_within N inputs"
      using page lim Cons.prems(2,3) by (simp_all add: processed_def pages_within_def)
    from Cons.IH [OF this(2,3,1) rest] show ?thesis
      using processed_trans [OF page] pass None lim by simp
  qed
qed

lemma dg_polls_processed:
  assumes "ok g" and "\<forall>inputs \<in> set polls. pages_within N inputs" and "length (concat polls) * N \<le> room g"
    and "dg_polls D T to_json polls (g, st) = (g', st')"
  shows "processed g (pages_of_polls D T to_json polls (g, st)) g'"
  using assms
proof (induction polls arbitrary: g st)
  case Nil
  then show ?case using processed_refl by (simp add: dg_polls_def)
next
  case (Cons inputs polls)
  obtain r g1 st1 where run: "get_and_process_dg_logs D T to_json inputs (g, st) = (r, g1, st1)" by (metis prod.exhaust)
  have room: "length inputs * N + length (concat polls) * N \<le> room g" using Cons.prems(3) by (simp add: add_mult_distrib)
  have first: "processed g (pages_of_run D T to_json inputs (g, st)) g1"
    "length (pages_of_run D T to_json inputs (g, st)) \<le> length inputs * N"
    using dg_run_processed [OF Cons.prems(1) _ _ run] Cons.prems(2) room by auto
  have "ok g1" "length (concat polls) * N \<le> room g1" using first room by (simp_all add: processed_def)
  moreover have "dg_polls D T to_json polls (g1, st1) = (g', st')" using Cons.prems(4) run by (simp add: dg_polls_def)
  ultimately show ?case using Cons.IH [of g1 st1] Cons.prems(2) processed_trans [OF first(1)] run by simp
qed

end

subsection \<open>The two generators\<close>

definition seen_ids :: "(string, u32, 'l) lru_ops \<Rightarrow> ('cfg, 'l) generator_state \<Rightarrow> string set" where
  "seen_ids L g = fst ` set (lru_iter L (gs_seen g))"

definition seen_room :: "(string, u32, 'l) lru_ops \<Rightarrow> ('cfg, 'l) generator_state \<Rightarrow> nat" where
  "seen_room L g = lru_cap L (gs_seen g) - length (lru_iter L (gs_seen g))"

definition generator_ok :: "(string, u32, 'l) lru_ops \<Rightarrow> ('cfg, 'l) generator_state \<Rightarrow> bool" where
  "generator_ok L g \<longleftrightarrow> gs_connected g \<and> distinct (map fst (lru_iter L (gs_seen g)))
     \<and> length (lru_iter L (gs_seen g)) \<le> lru_cap L (gs_seen g) \<and> 0 < lru_cap L (gs_seen g)"

locale generator_lru = lru_crate L for L :: "(string, u32, 'l) lru_ops"
begin

lemma ok_iff: "generator_ok L g \<longleftrightarrow> gs_connected g \<and> wf (gs_seen g)"
  by (simp add: generator_ok_def wf_def)

lemma seen_view: "seen_ids L g = dom (view (gs_seen g))"
  by (simp add: seen_ids_def view_def dom_map_of_conv_image_fst)

lemma put_remembers:
  assumes "wf l" and "length (lru_iter L l) < lru_cap L l"
  shows "fst ` set (lru_iter L (snd (lru_put L l k v))) = insert k (fst ` set (lru_iter L l))"
proof -
  obtain old l' where put: "lru_put L l k v = (old, l')" by force
  have "dom (view l') = insert k (dom (view l))"
    using put_room(1) [OF assms(1) put assms(2)] by simp
  then show ?thesis using put by (simp add: view_def dom_map_of_conv_image_fst)
qed

lemma put_shrinks_room:
  assumes "wf l"
  shows "lru_cap L l - length (lru_iter L l)
    \<le> Suc (lru_cap L (snd (lru_put L l k v)) - length (lru_iter L (snd (lru_put L l k v))))"
proof (cases "length (lru_iter L l) < lru_cap L l")
  case True
  obtain old l' where put: "lru_put L l k v = (old, l')" by force
  then show ?thesis using put_room(2) [OF assms put True] put_cap [OF put] True by simp
next
  case False
  then show ?thesis by simp
qed

lemma wf_put_snd: "wf l \<Longrightarrow> wf (snd (lru_put L l k v))"
  by (metis prod.collapse wf_put)

end

sublocale generator_lru \<subseteq> okta: data_generator "okta_ops L uuid" "seen_ids L" "seen_room L" "\<lambda>g. map msg_data (gs_sent g)" "generator_ok L"
  for uuid
proof unfold_locales
  fix g :: "(okta_config, 'l) generator_state" and i p t
  let ?D = "okta_ops L uuid"
  show "was_already_seen ?D g i \<longleftrightarrow> i \<in> seen_ids L g" by (simp add: okta_ops_def seen_ids_def contains_iter)
  show "get_last_seen ?D (set_last_seen ?D g t) = t" by (simp add: okta_ops_def)
  assume ok: "generator_ok L g"
  then have wf: "wf (gs_seen g)" "gs_connected g" by (simp_all add: ok_iff)
  show "0 < seen_room L g \<Longrightarrow> seen_ids L (mark_already_seen ?D g i) = insert i (seen_ids L g)"
    using put_remembers [OF wf(1)] by (simp add: okta_ops_def seen_ids_def seen_room_def)
  show "seen_room L g \<le> Suc (seen_room L (mark_already_seen ?D g i))"
    using put_shrinks_room [OF wf(1)] by (simp add: okta_ops_def seen_room_def)
  show "generator_ok L (mark_already_seen ?D g i)
      \<and> map msg_data (gs_sent (mark_already_seen ?D g i)) = map msg_data (gs_sent g)
      \<and> get_last_seen ?D (mark_already_seen ?D g i) = get_last_seen ?D g"
    using wf wf_put_snd [OF wf(1)] by (simp add: okta_ops_def ok_iff)
qed (simp_all add: okta_ops_def send_message_def message_new_def generator_ok_def seen_ids_def seen_room_def)

sublocale generator_lru \<subseteq> github: data_generator "github_ops L uuid" "seen_ids L" "seen_room L" "\<lambda>g. map msg_data (gs_sent g)" "generator_ok L"
  for uuid
proof unfold_locales
  fix g :: "(github_config, 'l) generator_state" and i p t
  let ?D = "github_ops L uuid"
  show "was_already_seen ?D g i \<longleftrightarrow> i \<in> seen_ids L g" by (simp add: github_ops_def seen_ids_def contains_iter)
  show "get_last_seen ?D (set_last_seen ?D g t) = t" by (simp add: github_ops_def)
  assume ok: "generator_ok L g"
  then have wf: "wf (gs_seen g)" "gs_connected g" by (simp_all add: ok_iff)
  show "0 < seen_room L g \<Longrightarrow> seen_ids L (mark_already_seen ?D g i) = insert i (seen_ids L g)"
    using put_remembers [OF wf(1)] by (simp add: github_ops_def seen_ids_def seen_room_def)
  show "seen_room L g \<le> Suc (seen_room L (mark_already_seen ?D g i))"
    using put_shrinks_room [OF wf(1)] by (simp add: github_ops_def seen_room_def)
  show "generator_ok L (mark_already_seen ?D g i)
      \<and> map msg_data (gs_sent (mark_already_seen ?D g i)) = map msg_data (gs_sent g)
      \<and> get_last_seen ?D (mark_already_seen ?D g i) = get_last_seen ?D g"
    using wf wf_put_snd [OF wf(1)] by (simp add: github_ops_def ok_iff)
qed (simp_all add: github_ops_def send_message_def message_new_def generator_ok_def seen_ids_def seen_room_def)

interpretation glru: generator_lru lru_list
  by unfold_locales

subsection \<open>The window of a generator\<close>

text \<open>
  A source that holds a list of logs and answers with those of the window it is asked for.
\<close>

definition serve :: "dg_log list \<Rightarrow> nanos \<Rightarrow> nanos \<Rightarrow> unit + dg_log list" where
  "serve source_logs since until = Inr (filter (\<lambda>l. since \<le> log_timestamp l \<and> log_timestamp l \<le> until) source_logs)"

text \<open>The end of the longest window a generator asks for while its last log stays the same.\<close>

definition window_end :: "'g dg_ops \<Rightarrow> time_range \<Rightarrow> 'g \<Rightarrow> nanos" where
  "window_end D T g = (unix_timestamp (dg_since D T g) + uint (get_max_since_until_interval D g)) * NANOS"

lemma sint_le_min:
  fixes a b :: u64
  assumes "uint b < 2 ^ 63"
  shows "sint (min a b) \<le> uint b"
proof -
  have "uint (min a b) \<le> uint b" by (simp add: min_def word_le_def)
  moreover have "signed_take_bit 63 (uint (min a b)) = uint (min a b)"
    using assms calculation unsigned_greater_eq [of "min a b", where ?'a = int]
    by (intro signed_take_bit_int_eq_self) linarith+
  then have "sint (min a b) = uint (min a b)" by (simp add: sint_uint)
  ultimately show ?thesis by simp
qed

lemma dg_until_le:
  assumes "dg_until D T now g = Some until" and "0 \<le> unix_timestamp (dg_since D T g)"
    and "unix_timestamp (dg_since D T g) + uint (get_max_since_until_interval D g) < 2 ^ 63"
  shows "until \<le> window_end D T g"
proof -
  let ?b = "word_of_int (unix_timestamp (dg_since D T g)) + get_max_since_until_interval D g"
  have "uint ?b = (unix_timestamp (dg_since D T g) + uint (get_max_since_until_interval D g)) mod 2 ^ 64"
    by (simp add: uint_word_ariths(1) unsigned_of_int take_bit_eq_mod mod_simps)
  also have "\<dots> = unix_timestamp (dg_since D T g) + uint (get_max_since_until_interval D g)"
    using assms(2,3) by (intro mod_pos_pos_trivial) simp_all
  finally have b: "uint ?b = unix_timestamp (dg_since D T g) + uint (get_max_since_until_interval D g)" .
  have "until = sint (min (now - get_canon_time D g) ?b) * NANOS"
    using assms(1) by (auto simp: dg_until_def from_unix_timestamp_def Let_def split: if_splits)
  moreover have "sint (min (now - get_canon_time D g) ?b) \<le> uint ?b"
    using assms(3) by (intro sint_le_min) (simp add: b)
  ultimately show ?thesis by (simp add: window_end_def b NANOS_def)
qed

text \<open>Logs that have all been seen change nothing.\<close>

lemma process_dg_logs_seen:
  "\<forall>l \<in> set ls. was_already_seen D g (log_id l) \<Longrightarrow> process_dg_logs D ls n g = (Inr n, g)"
  by (induction ls) auto

lemma dg_pass_quiet:
  assumes "\<And>until ls. dg_until D T now g = Some until \<Longrightarrow> fetch (dg_since D T g) until = Inr ls \<Longrightarrow>
     \<forall>l \<in> set ls. was_already_seen D g (log_id l)"
  shows "\<exists>r. dg_pass D T to_json (now, fetch) (g, st) = (Some r, g, st)"
proof (cases "\<exists>until ls. dg_until D T now g = Some until \<and> \<not> until < get_last_seen D g
    \<and> fetch (dg_since D T g) until = Inr ls \<and> ls \<noteq> []")
  case True
  then obtain until ls where u: "dg_until D T now g = Some until" "\<not> until < get_last_seen D g"
    "fetch (dg_since D T g) until = Inr ls" "ls \<noteq> []" by blast
  then show ?thesis using process_dg_logs_seen [OF assms [OF u(1,3)], of 0] by (simp add: dg_pass_def)
next
  case False
  then show ?thesis by (auto simp: dg_pass_def split: option.splits sum.splits)
qed

lemma dg_polls_quiet:
  assumes "\<forall>inputs \<in> set polls. \<forall>(now, fetch) \<in> set inputs. \<forall>until ls.
     dg_until D T now g = Some until \<longrightarrow> fetch (dg_since D T g) until = Inr ls \<longrightarrow>
     (\<forall>l \<in> set ls. was_already_seen D g (log_id l))"
  shows "dg_polls D T to_json polls (g, st) = (g, st)"
  using assms unfolding dg_polls_def
proof (induction polls)
  case (Cons inputs polls)
  have "snd (get_and_process_dg_logs D T to_json inputs (g, st)) = (g, st)"
  proof (cases inputs)
    case (Cons i rest)
    obtain now fetch where i: "i = (now, fetch)" by force
    have "\<exists>r. dg_pass D T to_json (now, fetch) (g, st) = (Some r, g, st)"
      using Cons.prems i Cons by (intro dg_pass_quiet) auto
    then show ?thesis using Cons i by auto
  qed simp
  then show ?case using Cons by simp
qed simp

subsection \<open>Restarting\<close>

lemma cap_last_seen_recent:
  assumes "0 \<le> now - t" and "whole_seconds (now - t) \<le> uint (get_max_catchup_time D g)"
  shows "cap_last_seen D T now g t = t"
proof -
  have nn: "0 \<le> whole_seconds (now - t)" using assms(1) by (simp add: whole_seconds_def NANOS_def)
  have "uint (get_max_catchup_time D g) < 2 ^ 64" using unsigned_less [of "get_max_catchup_time D g", where ?'a = int] by simp
  then have "uint (word_of_int (whole_seconds (now - t)) :: u64) = whole_seconds (now - t)"
    using nn assms(2) by (simp add: unsigned_of_int take_bit_int_eq_self)
  then show ?thesis using assms(2) by (simp add: cap_last_seen_def word_less_def)
qed

text \<open>What the storage holds after the state has been stored, for the in-memory backend.\<close>

lemma persist_dg_Some: "\<exists>st'. persist_dg D to_json g (Some st) = Some st'"
  by (simp add: persist_dg_def Let_def split: prod.splits)

lemma persist_dg_contents:
  assumes "vtable st = in_memory_provider" and "im_inv (database st)" and "persist_dg D to_json g (Some st) = Some st'"
  shows "storage_get st' (get_dg_storage_namespace (get_name D)) LAST_SEEN_KEY = Inr (Some (as_bytes (show_int (get_last_seen D g))))
    \<and> storage_get st' (get_dg_storage_namespace (get_name D)) ALREADY_SEEN_UUIDS_KEY = Inr (Some (to_json (list_already_seen D g)))"
  using assms by (auto simp: persist_dg_def storage_ops im_defs LAST_SEEN_KEY_def ALREADY_SEEN_UUIDS_KEY_def Let_def
      split: prod.splits option.splits)

text \<open>
  A generator that went from one state to another while its source served it some logs: it has sent
  what was new among them, each identifier once and in the order they came, everything it had not
  seen is sent, and \<open>last_seen\<close> did not go back and is at or after every log sent.
\<close>

definition sent_once ::
  "(string, u32, 'l) lru_ops \<Rightarrow> dg_log list \<Rightarrow> ('cfg, 'l) generator_state \<Rightarrow> ('cfg, 'l) generator_state \<Rightarrow> bool" where
  "sent_once L served g g' \<longleftrightarrow>
     (let sent = fresh (seen_ids L g) served
      in map msg_data (gs_sent g') = map msg_data (gs_sent g) @ map log_payload sent
         \<and> distinct (map log_id sent) \<and> log_id ` set sent = log_id ` set served - seen_ids L g
         \<and> seen_ids L g' = seen_ids L g \<union> log_id ` set served
         \<and> gs_last_seen g \<le> gs_last_seen g' \<and> (\<forall>l \<in> set sent. log_timestamp l \<le> gs_last_seen g'))"

lemma sent_once_processed:
  assumes "map msg_data (gs_sent g') = map msg_data (gs_sent g) @ map log_payload (fresh (seen_ids L g) served)"
    and "seen_ids L g' = seen_ids L g \<union> ids served"
    and "gs_last_seen g \<le> gs_last_seen g'" and "\<forall>l \<in> set (fresh (seen_ids L g) served). log_timestamp l \<le> gs_last_seen g'"
  shows "sent_once L served g g'"
  using assms fresh_distinct fresh_ids [of "seen_ids L g" served] by (simp add: sent_once_def Let_def ids_def)

context generator_lru
begin

lemma ops_last_seen: "get_last_seen (github_ops L uuid) = gs_last_seen" "get_last_seen (okta_ops L uuid) = gs_last_seen"
  by (simp_all add: github_ops_def okta_ops_def)

lemma github_polls:
  assumes "generator_ok L g" and "\<forall>inputs \<in> set polls. pages_within N inputs" and "length (concat polls) * N \<le> seen_room L g"
    and "dg_polls (github_ops L uuid) T to_json polls (g, st) = (g', st')"
  shows "sent_once L (pages_of_polls (github_ops L uuid) T to_json polls (g, st)) g g'"
  using github.dg_polls_processed [OF assms]
  unfolding github.processed_def ops_last_seen by (intro sent_once_processed) blast+

lemma okta_polls:
  assumes "generator_ok L g" and "\<forall>inputs \<in> set polls. pages_within N inputs" and "length (concat polls) * N \<le> seen_room L g"
    and "dg_polls (okta_ops L uuid) T to_json polls (g, st) = (g', st')"
  shows "sent_once L (pages_of_polls (okta_ops L uuid) T to_json polls (g, st)) g g'"
  using okta.dg_polls_processed [OF assms]
  unfolding okta.processed_def ops_last_seen by (intro sent_once_processed) blast+

lemma mark_all_okta:
  "fold (\<lambda>id g. mark_already_seen (okta_ops L uuid) g id) xs g =
     g\<lparr>gs_seen := fold (\<lambda>k l. snd (lru_put L l k 0)) xs (gs_seen g)\<rparr>"
  by (induction xs arbitrary: g) (simp_all add: okta_ops_def)

end

subsection \<open>Properties\<close>

text \<open>
  C18. Exactly once. Over any number of polls of the GitHub and of the Okta generator, each with any number of
  passes, any clock and any source: as long as the memory of identifiers has room for everything the
  polls may return and the executor listens, the messages sent are the logs that the source returned
  and that had not been seen before, every one of them, each identifier once, in the order of the
  source. (When the memory is full the generator forgets its oldest identifiers, and may send a log
  again.) The memory is any implementation of the \<^verbatim>\<open>lru\<close> crate's documented behaviour.
\<close>

theorem generator_sends_each_log_once:
  assumes "lru_crate L" and "\<forall>inputs \<in> set polls. pages_within N inputs"
    and "generator_ok L g" and "length (concat polls) * N \<le> seen_room L g"
    and "dg_polls (github_ops L uuid) T to_json polls (g, st) = (g', st')"
    and "generator_ok L h" and "length (concat polls) * N \<le> seen_room L h"
    and "dg_polls (okta_ops L uuid) T to_json polls (h, sto) = (h', sto')"
  shows "sent_once L (pages_of_polls (github_ops L uuid) T to_json polls (g, st)) g g'
    \<and> sent_once L (pages_of_polls (okta_ops L uuid) T to_json polls (h, sto)) h h'"
proof -
  have L: "generator_lru L" using assms(1) by (simp add: generator_lru_def)
  show ?thesis
    using generator_lru.github_polls [OF L assms(3,2,4,5)] generator_lru.okta_polls [OF L assms(6,2,7,8)] by simp
qed

definition sample_github :: github_config where
  "sample_github = \<lparr>gh_org = ''o'', gh_log_type = All, gh_logbacks_allowed = LogbacksLimited 0, gh_canon_time = 20,
     gh_lru_cache_size = 8, gh_max_since_until = 60, gh_max_catchup = 10800\<rparr>"

definition sample_range :: time_range where
  "sample_range = \<lparr>min_time = - (10 ^ 20), max_time = 10 ^ 20\<rparr>"

definition sample_logs :: "dg_log list" where
  "sample_logs = [\<lparr>log_id = ''a'', log_timestamp = 5 * NANOS, log_payload = [1]\<rparr>,
     \<lparr>log_id = ''b'', log_timestamp = 7 * NANOS, log_payload = [2]\<rparr>]"

definition sample_okta :: okta_config where
  "sample_okta = \<lparr>okta_domain = ''o'', okta_limit = 100, okta_logbacks_allowed = LogbacksLimited 0, okta_canon_time = 60,
     okta_lru_cache_size = 8, okta_max_since_until = 60, okta_max_catchup = 10800\<rparr>"

definition sample_polls :: "(u64 \<times> (nanos \<Rightarrow> nanos \<Rightarrow> unit + dg_log list)) list list" where
  "sample_polls = [[(100, serve sample_logs), (110, serve sample_logs)], [(120, serve sample_logs)]]"

text \<open>Two polls of a source with two logs, by two fresh generators; the witness reports on the GitHub one.\<close>

theorem generator_sends_each_log_once_witness:
  "let D = github_ops lru_list (\<lambda>_. ''id''); g = github_new lru_list sample_github (5 * NANOS);
       final = dg_polls D sample_range (\<lambda>_. []) sample_polls (g, None :: in_memory_db storage option)
   in pages_of_polls D sample_range (\<lambda>_. []) sample_polls (g, None :: in_memory_db storage option) \<noteq> []
      \<and> sent_once lru_list (pages_of_polls D sample_range (\<lambda>_. []) sample_polls (g, None :: in_memory_db storage option)) g (fst final)"
proof -
  let ?g = "github_new lru_list sample_github (5 * NANOS)" and ?h = "the (okta_new lru_list sample_okta (5 * NANOS))"
  have ok: "generator_ok lru_list ?g" "length (concat sample_polls) * 2 \<le> seen_room lru_list ?g"
    "generator_ok lru_list ?h" "length (concat sample_polls) * 2 \<le> seen_room lru_list ?h"
    by (simp_all add: generator_ok_def seen_room_def github_new_def okta_new_def sample_github_def sample_okta_def lru_list_def
        sample_polls_def)
  have lim: "\<forall>inputs \<in> set sample_polls. pages_within 2 inputs"
    by (auto simp: pages_within_def sample_polls_def serve_def sample_logs_def)
  have "page_served (github_ops lru_list (\<lambda>_. ''id'')) sample_range (100, serve sample_logs) ?g = sample_logs"
    by (simp add: page_served_def dg_until_def dg_since_def github_ops_def github_new_def sample_github_def sample_range_def
        saturating_sub_time_def from_unix_timestamp_def unix_timestamp_def NANOS_def serve_def sample_logs_def Let_def)
  then have page: "page_served (github_ops lru_list (\<lambda>_. ''id'')) sample_range (100, serve sample_logs) ?g \<noteq> []"
    by (simp add: sample_logs_def)
  have "pages_of_polls (github_ops lru_list (\<lambda>_. ''id'')) sample_range (\<lambda>_. []) sample_polls (?g, None :: in_memory_db storage option) \<noteq> []"
    unfolding sample_polls_def pages_of_polls.simps pages_of_run.simps using page by simp
  then show ?thesis
    using generator_sends_each_log_once [OF lru.lru_crate_axioms lim ok(1,2) prod.collapse [symmetric] ok(3,4) prod.collapse [symmetric],
        of "\<lambda>_. ''id''" sample_range "\<lambda>_. []" "None :: in_memory_db storage option" "None :: in_memory_db storage option"]
    unfolding Let_def by blast
qed

text \<open>
  C19. A quiet stretch stops a generator for good. A generator never asks for more than the configured
  number of seconds after the last log it has seen (less one). If everything the source has in that
  stretch has been seen already, then no run, at whatever time and however often repeated, sends
  anything or changes the generator or its stored state, whatever the source has afterwards.
\<close>

theorem generator_stuck_after_quiet_window:
  assumes "0 \<le> unix_timestamp (dg_since D T g)"
    and "unix_timestamp (dg_since D T g) + uint (get_max_since_until_interval D g) < 2 ^ 63"
    and "\<forall>inputs \<in> set polls. \<forall>(now, src) \<in> set inputs. \<forall>l \<in> set src.
       dg_since D T g \<le> log_timestamp l \<longrightarrow> log_timestamp l \<le> window_end D T g \<longrightarrow> was_already_seen D g (log_id l)"
  shows "dg_polls D T to_json (map (map (apsnd serve)) polls) (g, st) = (g, st)"
proof (rule dg_polls_quiet)
  have seen: "was_already_seen D g (log_id l)"
    if "inputs \<in> set polls" "(now, src) \<in> set inputs" "dg_until D T now g = Some until"
      "serve src (dg_since D T g) until = Inr ls" "l \<in> set ls" for inputs now src until ls l
  proof -
    have "until \<le> window_end D T g" by (rule dg_until_le [OF that(3) assms(1,2)])
    moreover have "l \<in> set src" "dg_since D T g \<le> log_timestamp l" "log_timestamp l \<le> until"
      using that(4,5) by (auto simp: serve_def)
    ultimately show ?thesis using assms(3) that(1,2) by fastforce
  qed
  show "\<forall>inputs \<in> set (map (map (apsnd serve)) polls). \<forall>(now, fetch) \<in> set inputs. \<forall>until ls.
     dg_until D T now g = Some until \<longrightarrow> fetch (dg_since D T g) until = Inr ls \<longrightarrow>
     (\<forall>l \<in> set ls. was_already_seen D g (log_id l))"
    using seen by fastforce
qed

text \<open>A source with a new log, two minutes after the last one seen; it is never fetched.\<close>

theorem generator_stuck_after_quiet_window_witness:
  "let g = (github_new lru_list sample_github (5 * NANOS)); late = \<lparr>log_id = ''c'', log_timestamp = 125 * NANOS, log_payload = [3]\<rparr>
   in dg_polls (github_ops lru_list (\<lambda>_. ''id'')) sample_range (\<lambda>_. []) (map (map (apsnd serve)) [[(1000, [late])], [(2000, [late])]])
        (g, None :: in_memory_db storage option) = (g, None)"
proof -
  let ?g = "github_new lru_list sample_github (5 * NANOS)"
  let ?D = "github_ops lru_list (\<lambda>_. ''id'')"
  have since: "dg_since ?D sample_range ?g = 4 * NANOS" "get_max_since_until_interval ?D ?g = 60"
    by (simp_all add: dg_since_def saturating_sub_time_def github_ops_def github_new_def sample_range_def sample_github_def
        NANOS_def Let_def)
  have ts: "unix_timestamp (4 * NANOS) = 4" by (simp add: unix_timestamp_def NANOS_def)
  show ?thesis
    unfolding Let_def
    by (rule generator_stuck_after_quiet_window) (simp_all add: since ts window_end_def, simp_all add: NANOS_def)
qed

text \<open>
  Restarting. An Okta generator that starts again, with the same memory size, no earlier than its last
  log and within its catch-up time, from the state its predecessor stored, takes up where it left off:
  the same last log and the same identifiers seen. It remembers them in the reverse order, however,
  so that it will forget the most recent ones first.
\<close>

theorem generator_restart:
  assumes "lru_crate L" and "generator_ok L g" and "okta_lru_cache_size config = lru_cap L (gs_seen g)"
    and "vtable st = in_memory_provider" and "im_inv (database st)"
    and "persist_dg (okta_ops L uuid) to_json g (Some st) = Some st'"
    and "from_json (to_json (list_already_seen (okta_ops L uuid) g)) = Some (list_already_seen (okta_ops L uuid) g)"
    and "min_time T \<le> gs_last_seen g \<and> gs_last_seen g \<le> max_time T \<and> \<bar>gs_last_seen g\<bar> < 2 ^ 127"
    and "0 \<le> now - gs_last_seen g" and "whole_seconds (now - gs_last_seen g) \<le> uint (okta_max_catchup config)"
    and "okta_new L config boot = Some g0"
    and "g1 = update_dg_from_storage (okta_ops L uuid) T from_json now1 now (Some st') g0"
  shows "gs_last_seen g1 = gs_last_seen g \<and> seen_ids L g1 = seen_ids L g
    \<and> list_already_seen (okta_ops L uuid) g1 = rev (list_already_seen (okta_ops L uuid) g)"
proof -
  have L: "generator_lru L" using assms(1) by (simp add: generator_lru_def)
  let ?D = "okta_ops L uuid" and ?xs = "map fst (lru_iter L (gs_seen g))"
  have D: "get_last_seen ?D g = gs_last_seen g" "list_already_seen ?D g = ?xs" "get_max_catchup_time ?D g0 = okta_max_catchup (gs_config g0)"
    by (simp_all add: okta_ops_def)
  have g0: "gs_config g0 = config" "gs_seen g0 = lru_new L (lru_cap L (gs_seen g))"
    using assms(3,11) by (auto simp: okta_new_def split: if_splits)
  note st = persist_dg_contents [OF assms(4-6)]
  have parse: "parse_i128 (show_int (gs_last_seen g)) = Some (gs_last_seen g)"
    using assms(8) by (intro parse_show_int) auto
  have cap: "cap_last_seen ?D T now g0 (gs_last_seen g) = gs_last_seen g"
    using assms(9,10) g0 by (intro cap_last_seen_recent) (simp_all add: D)
  have g1: "g1 = (set_last_seen ?D g0 (gs_last_seen g))\<lparr>gs_seen := fold (\<lambda>k l. snd (lru_put L l k 0)) ?xs (gs_seen g0)\<rparr>"
    using st assms(7,8) parse cap generator_lru.mark_all_okta [OF L]
    by (simp add: assms(12) update_dg_from_storage_def read_string_from_storage_def read_vec_from_storage_def D
        from_unix_timestamp_nanos_def okta_ops_def)
  have it: "lru_iter L (gs_seen g1) = rev (map (\<lambda>k. (k, 0)) ?xs)"
    using assms(2) lru_crate.put_all_new [OF assms(1), of "gs_seen g0" ?xs 0]
      lru_crate.new_iter [OF assms(1)] lru_crate.new_cap [OF assms(1)]
    by (simp add: g1 g0(2) generator_ok_def)
  then have "map fst (lru_iter L (gs_seen g1)) = rev ?xs" by (simp add: rev_map o_def)
  moreover from this have "seen_ids L g1 = seen_ids L g"
    unfolding seen_ids_def by (metis list.set_map set_rev)
  ultimately show ?thesis by (simp add: D) (simp add: g1 okta_ops_def)
qed

theorem generator_restart_witness:
  "\<exists>st' g1. persist_dg (okta_ops lru_list (\<lambda>_. ''id'')) (\<lambda>_. [9])
       \<lparr>gs_config = sample_okta, gs_last_seen = 5 * NANOS, gs_connected = True, gs_sent = [], gs_seen = (8, [(''b'', 0), (''a'', 0)])\<rparr>
       (Some storage_new_in_memory) = Some st'
    \<and> g1 = update_dg_from_storage (okta_ops lru_list (\<lambda>_. ''id'')) sample_range (\<lambda>_. Some [''b'', ''a'']) 0 (65 * NANOS) (Some st')
        \<lparr>gs_config = sample_okta, gs_last_seen = 65 * NANOS, gs_connected = True, gs_sent = [], gs_seen = (8, [])\<rparr>
    \<and> gs_last_seen g1 = 5 * NANOS \<and> list_already_seen (okta_ops lru_list (\<lambda>_. ''id'')) g1 = [''a'', ''b'']"
proof -
  let ?D = "okta_ops lru_list (\<lambda>_. ''id'')"
  let ?old = "\<lparr>gs_config = sample_okta, gs_last_seen = 5 * NANOS, gs_connected = True, gs_sent = [], gs_seen = (8 :: nat, [(''b'', 0 :: u32), (''a'', 0)])\<rparr>"
  let ?new = "\<lparr>gs_config = sample_okta, gs_last_seen = 65 * NANOS, gs_connected = True, gs_sent = [], gs_seen = (8 :: nat, [] :: (string \<times> u32) list)\<rparr>"
  obtain st' where st': "persist_dg ?D (\<lambda>_. [9]) ?old (Some storage_new_in_memory) = Some st'"
    using persist_dg_Some [of ?D "\<lambda>_. [9]" ?old storage_new_in_memory] by blast
  have st: "vtable storage_new_in_memory = in_memory_provider" "im_inv (database storage_new_in_memory)"
    by (simp_all add: storage_new_in_memory_def im_new)
  have ls: "list_already_seen ?D ?old = [''b'', ''a'']" by (simp add: okta_ops_def lru_list_def)
  have ok: "generator_ok lru_list ?old" "okta_lru_cache_size sample_okta = lru_cap lru_list (gs_seen ?old)"
    by (simp_all add: generator_ok_def lru_list_def sample_okta_def)
  have new: "okta_new lru_list sample_okta (65 * NANOS) = Some ?new"
    by (simp add: okta_new_def sample_okta_def lru_list_def)
  have "gs_last_seen (update_dg_from_storage ?D sample_range (\<lambda>_. Some [''b'', ''a'']) 0 (65 * NANOS) (Some st') ?new) = gs_last_seen ?old
      \<and> seen_ids lru_list (update_dg_from_storage ?D sample_range (\<lambda>_. Some [''b'', ''a'']) 0 (65 * NANOS) (Some st') ?new) = seen_ids lru_list ?old
      \<and> list_already_seen ?D (update_dg_from_storage ?D sample_range (\<lambda>_. Some [''b'', ''a'']) 0 (65 * NANOS) (Some st') ?new)
        = rev (list_already_seen ?D ?old)"
    by (rule generator_restart [OF lru.lru_crate_axioms ok st st' _ _ _ _ new refl])
      (simp_all only: ls, simp_all add: sample_range_def sample_okta_def whole_seconds_def NANOS_def)
  then show ?thesis using st' by (simp add: ls)
qed

end
