(* ===== verification/Plaid_Webhooks.thy ===== *)
theory Plaid_Webhooks
  imports Plaid_Executor Plaid_Text
begin

text \<open>
  The web server: the handlers of POST and GET requests in \<^verbatim>\<open>runtime/plaid/src/bin/plaid.rs\<close>, with the
  part of \<^verbatim>\<open>config.rs\<close> that configures them. The framework \<^verbatim>\<open>warp\<close> delivers a request as a stream of
  buffers and a table of headers, which is the function \<open>request_header\<close>. The clock, the fresh
  identifiers and what arrives on the oneshot channel of a GET request are arguments.
\<close>

subsection \<open>Configuration\<close>

datatype caching_mode = NoCaching | Timed u64 | UsePersistentResponse bool

datatype response_mode = Facebook string | Rule string | Static string

record get_mode =
  gm_caching_mode :: caching_mode
  gm_response_mode :: response_mode

record webhook_config =
  wh_log_type :: string
  wh_headers :: "string list"
  wh_max_body_size :: nat
  wh_get_mode :: "get_mode option"
  wh_label :: "string option"
  wh_logbacks_allowed :: logbacks_allowed

definition validate_webhook_body_size :: "nat \<Rightarrow> string + nat" where
  "validate_webhook_body_size val = (if val = 0 then Inl ''Webhook body size limit must not be 0'' else Inr val)"

text \<open>The last piece is the data and the one before it the mode; splitting always gives one piece.\<close>

definition response_mode_deserializer :: "string \<Rightarrow> string + response_mode" where
  "response_mode_deserializer mode =
     (case rev (split_on CHR '':'' mode) of
        [] \<Rightarrow> Inl ''Must provide context for the response_mode. For Facebook/Meta this is the secret, for Rule this is the module name''
      | [data] \<Rightarrow> Inl ''Must provide a response_mode''
      | data # mode # _ \<Rightarrow>
          if mode = ''facebook'' \<or> mode = ''meta'' then Inr (Facebook data)
          else if mode = ''Rule'' \<or> mode = ''rule'' then Inr (Rule data)
          else if mode = ''Static'' \<or> mode = ''static'' then Inr (Static data)
          else Inl (mode @ '' is an unknown response_mode. Must be 'facebook', 'rule', or 'static'' @ [CHR 0x27]))"

subsection \<open>Reading a body\<close>

fun read_buffers :: "nat \<Rightarrow> (string + bytes) list \<Rightarrow> nat \<Rightarrow> bytes list \<Rightarrow> string + bytes list" where
  "read_buffers limit [] total_bytes_count buffers = Inr buffers"
| "read_buffers limit (Inr buf # body) total_bytes_count buffers =
     (if length buf + total_bytes_count > limit then Inl (''Body exceeded maximum allowed size of '' @ decimal limit @ '' bytes'')
      else read_buffers limit body (total_bytes_count + length buf) (buffers @ [buf]))"
| "read_buffers limit (Inl e # body) total_bytes_count buffers = Inl (''Error reading body: '' @ e)"

definition read_body_with_limit :: "(string + bytes) list \<Rightarrow> nat \<Rightarrow> string + bytes" where
  "read_body_with_limit body limit =
     (case read_buffers limit body 0 [] of Inl e \<Rightarrow> Inl e | Inr buffers \<Rightarrow> Inr (concat buffers))"

subsection \<open>POST\<close>

datatype http_status = StatusOk | StatusTooManyRequests

definition forward_headers :: "(string \<Rightarrow> bytes option) \<Rightarrow> string list \<Rightarrow> message \<Rightarrow> message" where
  "forward_headers request_header requested msg =
     fold (\<lambda>h msg. case request_header h of
             Some v \<Rightarrow> msg\<lparr>headers := hm_insert h v (headers msg)\<rparr>
           | None \<Rightarrow> msg) requested msg"

definition webhook_label :: "webhook_config \<Rightarrow> string \<Rightarrow> string" where
  "webhook_label cfg webhook = (case wh_label cfg of Some label \<Rightarrow> label | None \<Rightarrow> webhook)"

text \<open>\<open>None\<close> is a panic: the executor is gone.\<close>

definition post_handler ::
  "string \<Rightarrow> ('q \<Rightarrow> message \<Rightarrow> 'q try_send_result) \<Rightarrow> string \<Rightarrow> (string + bytes) list \<Rightarrow> (string \<Rightarrow> bytes option)
     \<Rightarrow> (string, webhook_config) hashmap \<Rightarrow> 'q execution_thread_pools \<Rightarrow> (http_status \<times> 'q execution_thread_pools) option" where
  "post_handler uuid try_send webhook body request_header webhooks exec =
     (case hm_get webhooks webhook of
        None \<Rightarrow> Some (StatusOk, exec)
      | Some cfg \<Rightarrow>
     (case read_body_with_limit body (wh_max_body_size cfg) of
        Inl e \<Rightarrow> Some (StatusOk, exec)
      | Inr full_body \<Rightarrow>
          (let msg = message_new uuid (wh_log_type cfg) full_body (WebhookPost (webhook_label cfg webhook))
                 (wh_logbacks_allowed cfg);
               msg = forward_headers request_header (wh_headers cfg) msg
           in case execute_webhook_message try_send exec msg of
                Sent exec' \<Rightarrow> Some (StatusOk, exec')
              | Full \<Rightarrow> Some (StatusTooManyRequests, exec)
              | Disconnected \<Rightarrow> None)))"

subsection \<open>GET\<close>

type_synonym get_cache = "(string, u64 \<times> string) hashmap"

text \<open>
  What the caching mode decides before the rule is run: a reply, or to run the rule and whether to
  cache its response.
\<close>

definition cached_reply :: "caching_mode \<Rightarrow> u64 \<Rightarrow> string \<Rightarrow> get_cache \<Rightarrow> plaid_module \<Rightarrow> string + bool" where
  "cached_reply mode current_time webhook cache rule =
     (case mode of
        Timed validity \<Rightarrow>
          (case hm_get cache webhook of
             Some (t, body) \<Rightarrow> if t + validity > current_time then Inl body else Inr True
           | None \<Rightarrow> Inr True)
      | NoCaching \<Rightarrow> Inr False
      | UsePersistentResponse call_on_none \<Rightarrow>
          (case get_persistent_response_data rule of
             Some data \<Rightarrow> Inl data
           | None \<Rightarrow> if \<not> call_on_none then Inl [] else Inr False))"

text \<open>
  The result of waiting for the rule: \<open>None\<close> when the sending end was dropped, which is also what
  happens when the queue is full and the message is dropped.
\<close>

type_synonym oneshot = "response_message option option"

definition get_rule_reply ::
  "string \<Rightarrow> ('q \<Rightarrow> message \<Rightarrow> 'q try_send_result) \<Rightarrow> nat \<Rightarrow> u64 \<Rightarrow> u64 \<Rightarrow> oneshot \<Rightarrow> string \<Rightarrow> (string, string) hashmap
     \<Rightarrow> (string + bytes) list \<Rightarrow> (string \<Rightarrow> bytes option) \<Rightarrow> webhook_config \<Rightarrow> string \<Rightarrow> caching_mode
     \<Rightarrow> (string, plaid_module) hashmap \<Rightarrow> get_cache \<times> 'q \<Rightarrow> (string \<times> get_cache \<times> 'q) option" where
  "get_rule_reply uuid try_send response_send now1 now2 response_recv webhook query body request_header cfg name mode modules s =
     (let (cache, q) = s in
      case hm_get modules name of
        None \<Rightarrow> Some ([], s)
      | Some rule \<Rightarrow>
     (case cached_reply mode now1 webhook cache rule of
        Inl reply \<Rightarrow> Some (reply, s)
      | Inr update \<Rightarrow>
     (case read_body_with_limit body (wh_max_body_size cfg) of
        Inl e \<Rightarrow> Some ([], s)
      | Inr body_bytes \<Rightarrow>
          (let msg = message_new_detailed uuid name body_bytes (WebhookGet (webhook_label cfg webhook))
                 (wh_logbacks_allowed cfg) (map (\<lambda>(k, v). (k, as_bytes v)) query) (Some response_send) (Some rule);
               msg = forward_headers request_header (wh_headers cfg) msg
           in case try_send q msg of
                Disconnected \<Rightarrow> None
              | Full \<Rightarrow> Some ([], s)
              | Sent q' \<Rightarrow>
                  (case response_recv of
                     Some (Some resp) \<Rightarrow>
                       Some (rm_body resp, if update then hm_insert webhook (now2, rm_body resp) cache else cache, q')
                   | _ \<Rightarrow> Some ([], cache, q'))))))"

definition get_handler ::
  "string \<Rightarrow> ('q \<Rightarrow> message \<Rightarrow> 'q try_send_result) \<Rightarrow> nat \<Rightarrow> u64 \<Rightarrow> u64 \<Rightarrow> oneshot \<Rightarrow> string \<Rightarrow> (string, string) hashmap
     \<Rightarrow> (string + bytes) list \<Rightarrow> (string \<Rightarrow> bytes option) \<Rightarrow> (string, webhook_config) hashmap
     \<Rightarrow> (string, plaid_module) hashmap \<Rightarrow> get_cache \<times> 'q \<Rightarrow> (string \<times> get_cache \<times> 'q) option" where
  "get_handler uuid try_send response_send now1 now2 response_recv webhook query body request_header webhooks modules s =
     (case hm_get webhooks webhook of
        None \<Rightarrow> Some ([], s)
      | Some cfg \<Rightarrow>
     (case wh_get_mode cfg of
        None \<Rightarrow> Some ([], s)
      | Some gm \<Rightarrow>
     (case gm_response_mode gm of
        Static data \<Rightarrow> Some (data, s)
      | Facebook secret \<Rightarrow>
          (case hm_get query ''hub.verify_token'' of
             Some fb_secret \<Rightarrow>
               if fb_secret = secret
               then Some (case hm_get query ''hub.challenge'' of Some c \<Rightarrow> c | None \<Rightarrow> [], s)
               else Some ([], s)
           | None \<Rightarrow> Some ([], s))
      | Rule name \<Rightarrow>
          get_rule_reply uuid try_send response_send now1 now2 response_recv webhook query body request_header cfg name
            (gm_caching_mode gm) modules s)))"

subsection \<open>Lemmas\<close>

text \<open>A body is read to the end exactly when no buffer fails and all of them fit; then it is all of them.\<close>

lemma read_buffers_iff:
  "read_buffers limit body n bufs = Inr out \<longleftrightarrow>
     (\<exists>bs. body = map Inr bs \<and> out = bufs @ bs \<and> (n + length (concat bs) \<le> limit \<or> bs = []))"
proof (induction body arbitrary: n bufs)
  case (Cons c body)
  show ?case
  proof (cases c)
    case (Inr b)
    have "(\<exists>bs. Inr b # body = map Inr bs \<and> out = bufs @ bs \<and> (n + length (concat bs) \<le> limit \<or> bs = [])) \<longleftrightarrow>
      (\<exists>bs. body = map Inr bs \<and> out = bufs @ b # bs \<and> n + length b + length (concat bs) \<le> limit)"
      by (auto simp: Cons_eq_map_conv)
    then show ?thesis using Cons [of "n + length b" "bufs @ [b]"] by (auto simp: Inr)
  qed (simp add: Cons_eq_map_conv)
qed auto

lemma read_body_iff:
  "read_body_with_limit body limit = Inr out \<longleftrightarrow>
     (\<exists>bs. body = map Inr bs \<and> out = concat bs \<and> length out \<le> limit)"
proof -
  have "read_body_with_limit body limit = Inr out \<longleftrightarrow> (\<exists>bs. read_buffers limit body 0 [] = Inr bs \<and> out = concat bs)"
    by (auto simp: read_body_with_limit_def split: sum.splits)
  then show ?thesis by (auto simp: read_buffers_iff)
qed

lemma forward_headers_other [simp]:
  "msg_type (forward_headers rh hs msg) = msg_type msg" "msg_data (forward_headers rh hs msg) = msg_data msg"
  "source (forward_headers rh hs msg) = source msg" "logbacks_allowed (forward_headers rh hs msg) = logbacks_allowed msg"
  "msg_module (forward_headers rh hs msg) = msg_module msg" "response_sender (forward_headers rh hs msg) = response_sender msg"
  "query_params (forward_headers rh hs msg) = query_params msg"
  unfolding forward_headers_def by (induction hs arbitrary: msg) (simp_all split: option.split)

lemma forward_headers_get:
  "hm_get (headers (forward_headers rh hs msg)) h =
     (if h \<in> set hs \<and> rh h \<noteq> None then rh h else hm_get (headers msg) h)"
  unfolding forward_headers_def by (induction hs arbitrary: msg) (auto split: option.splits)

text \<open>The queue that serves a log type: its dedicated pool's, or the general one.\<close>

definition queue_of :: "'q execution_thread_pools \<Rightarrow> string \<Rightarrow> 'q" where
  "queue_of pools t =
     (case hm_get (dedicated_pools pools) t of Some tp \<Rightarrow> pool_queue tp | None \<Rightarrow> pool_queue (general_pool pools))"

lemma execute_webhook_message_queue:
  "execute_webhook_message try_send pools msg = Sent pools' \<longleftrightarrow>
     (\<exists>q. try_send (queue_of pools (msg_type msg)) msg = Sent q
        \<and> pools' = (case hm_get (dedicated_pools pools) (msg_type msg) of
             Some tp \<Rightarrow> pools\<lparr>dedicated_pools := hm_insert (msg_type msg) (tp\<lparr>pool_queue := q\<rparr>) (dedicated_pools pools)\<rparr>
           | None \<Rightarrow> pools\<lparr>general_pool := (general_pool pools)\<lparr>pool_queue := q\<rparr>\<rparr>))"
  "execute_webhook_message try_send pools msg = Full \<longleftrightarrow> try_send (queue_of pools (msg_type msg)) msg = Full"
  "execute_webhook_message try_send pools msg = Disconnected \<longleftrightarrow> try_send (queue_of pools (msg_type msg)) msg = Disconnected"
proof -
  have "execute_webhook_message try_send pools msg = map_try_send_result (\<lambda>q. case hm_get (dedicated_pools pools) (msg_type msg) of
             Some tp \<Rightarrow> pools\<lparr>dedicated_pools := hm_insert (msg_type msg) (tp\<lparr>pool_queue := q\<rparr>) (dedicated_pools pools)\<rparr>
           | None \<Rightarrow> pools\<lparr>general_pool := (general_pool pools)\<lparr>pool_queue := q\<rparr>\<rparr>) (try_send (queue_of pools (msg_type msg)) msg)"
    by (simp add: execute_webhook_message_def queue_of_def split: option.split)
  then show "execute_webhook_message try_send pools msg = Sent pools' \<longleftrightarrow>
     (\<exists>q. try_send (queue_of pools (msg_type msg)) msg = Sent q
        \<and> pools' = (case hm_get (dedicated_pools pools) (msg_type msg) of
             Some tp \<Rightarrow> pools\<lparr>dedicated_pools := hm_insert (msg_type msg) (tp\<lparr>pool_queue := q\<rparr>) (dedicated_pools pools)\<rparr>
           | None \<Rightarrow> pools\<lparr>general_pool := (general_pool pools)\<lparr>pool_queue := q\<rparr>\<rparr>))"
    "execute_webhook_message try_send pools msg = Full \<longleftrightarrow> try_send (queue_of pools (msg_type msg)) msg = Full"
    "execute_webhook_message try_send pools msg = Disconnected \<longleftrightarrow> try_send (queue_of pools (msg_type msg)) msg = Disconnected"
    by (cases "try_send (queue_of pools (msg_type msg)) msg"; auto)+
qed

lemma execute_webhook_message_queue_of:
  assumes "execute_webhook_message try_send pools msg = Sent pools'"
  shows "try_send (queue_of pools (msg_type msg)) msg = Sent (queue_of pools' (msg_type msg))"
  using assms unfolding execute_webhook_message_queue(1)
  by (auto simp: queue_of_def split: option.splits)

text \<open>A body that arrives without an error and within the limit.\<close>

definition body_accepted :: "webhook_config \<Rightarrow> (string + bytes) list \<Rightarrow> bool" where
  "body_accepted cfg body \<longleftrightarrow> (\<exists>bs. body = map Inr bs \<and> length (concat bs) \<le> wh_max_body_size cfg)"

text \<open>The message of a POST request, and what becomes of it.\<close>

definition webhook_message :: "string \<Rightarrow> (string \<Rightarrow> bytes option) \<Rightarrow> webhook_config \<Rightarrow> string \<Rightarrow> bytes \<Rightarrow> message" where
  "webhook_message uuid request_header cfg webhook full_body = forward_headers request_header (wh_headers cfg)
     (message_new uuid (wh_log_type cfg) full_body (WebhookPost (webhook_label cfg webhook)) (wh_logbacks_allowed cfg))"

lemma post_message_fields:
  fixes uuid request_header cfg webhook b
  defines "msg \<equiv> webhook_message uuid request_header cfg webhook b"
  shows "msg_type msg = wh_log_type cfg \<and> msg_data msg = b \<and> logbacks_allowed msg = wh_logbacks_allowed cfg
    \<and> source msg = WebhookPost (case wh_label cfg of Some l \<Rightarrow> l | None \<Rightarrow> webhook)
    \<and> (\<forall>h. hm_get (headers msg) h = (if h \<in> set (wh_headers cfg) then request_header h else None))"
  by (simp add: msg_def webhook_message_def message_new_def webhook_label_def forward_headers_get)

lemma post_handler_refused:
  assumes "hm_get webhooks webhook = Some cfg" and "\<not> body_accepted cfg body"
  shows "post_handler uuid try_send webhook body request_header webhooks exec = Some (StatusOk, exec)"
proof (cases "read_body_with_limit body (wh_max_body_size cfg)")
  case (Inl e)
  then show ?thesis using assms(1) by (simp add: post_handler_def)
next
  case (Inr b)
  then have "body_accepted cfg body" unfolding read_body_iff body_accepted_def by metis
  then show ?thesis using assms(2) by simp
qed

lemma post_handler_accepted:
  assumes "hm_get webhooks webhook = Some cfg" and "read_body_with_limit body (wh_max_body_size cfg) = Inr b"
    and "post_handler uuid try_send webhook body request_header webhooks exec = Some (status, exec')"
  shows "case try_send (queue_of exec (wh_log_type cfg)) (webhook_message uuid request_header cfg webhook b) of
        Sent q \<Rightarrow> status = StatusOk \<and> queue_of exec' (wh_log_type cfg) = q
      | Full \<Rightarrow> status = StatusTooManyRequests \<and> exec' = exec
      | Disconnected \<Rightarrow> False"
proof -
  let ?msg = "webhook_message uuid request_header cfg webhook b"
  have t: "msg_type ?msg = wh_log_type cfg" using post_message_fields by blast
  have "(case execute_webhook_message try_send exec ?msg of
      Sent exec' \<Rightarrow> Some (StatusOk, exec') | Full \<Rightarrow> Some (StatusTooManyRequests, exec) | Disconnected \<Rightarrow> None) = Some (status, exec')"
    using assms by (simp add: post_handler_def webhook_message_def Let_def)
  then show ?thesis
    using execute_webhook_message_queue_of [of try_send exec ?msg] execute_webhook_message_queue(2) [of try_send exec ?msg]
    by (cases "execute_webhook_message try_send exec ?msg") (simp_all add: t)
qed

subsection \<open>Properties\<close>

text \<open>
  C17. Every outcome of a POST request. A request to a webhook that is not configured, or whose body fails
  or is larger than the limit, is answered with 200 and leaves no trace. Any other is put on the queue
  of its log type, with the whole body, the configured logback budget, and of the headers exactly
  those that were configured and sent: answered with 200 when the queue takes it, with 429 and no
  trace when the queue is full.
\<close>

theorem post_request_outcome:
  assumes "post_handler uuid try_send webhook body request_header webhooks exec = Some (status, exec')"
  shows "case hm_get webhooks webhook of
      None \<Rightarrow> status = StatusOk \<and> exec' = exec
    | Some cfg \<Rightarrow>
        if \<not> body_accepted cfg body then status = StatusOk \<and> exec' = exec
        else \<exists>bs msg. body = map Inr bs
             \<and> msg_type msg = wh_log_type cfg \<and> msg_data msg = concat bs \<and> logbacks_allowed msg = wh_logbacks_allowed cfg
             \<and> source msg = WebhookPost (case wh_label cfg of Some l \<Rightarrow> l | None \<Rightarrow> webhook)
             \<and> (\<forall>h. hm_get (headers msg) h = (if h \<in> set (wh_headers cfg) then request_header h else None))
             \<and> (case try_send (queue_of exec (wh_log_type cfg)) msg of
                  Sent q \<Rightarrow> status = StatusOk \<and> queue_of exec' (wh_log_type cfg) = q
                | Full \<Rightarrow> status = StatusTooManyRequests \<and> exec' = exec
                | Disconnected \<Rightarrow> False)"
proof (cases "hm_get webhooks webhook")
  case None
  then show ?thesis using assms by (simp add: post_handler_def)
next
  case (Some cfg)
  show ?thesis
  proof (cases "body_accepted cfg body")
    case False
    then show ?thesis using assms by (simp add: Some post_handler_refused [OF Some False])
  next
    case True
    then obtain bs where bs: "body = map Inr bs" "read_body_with_limit body (wh_max_body_size cfg) = Inr (concat bs)"
      unfolding body_accepted_def read_body_iff by metis
    note fields = post_message_fields [of uuid request_header cfg webhook "concat bs"]
    have "\<exists>bs msg. body = map Inr bs
             \<and> msg_type msg = wh_log_type cfg \<and> msg_data msg = concat bs \<and> logbacks_allowed msg = wh_logbacks_allowed cfg
             \<and> source msg = WebhookPost (case wh_label cfg of Some l \<Rightarrow> l | None \<Rightarrow> webhook)
             \<and> (\<forall>h. hm_get (headers msg) h = (if h \<in> set (wh_headers cfg) then request_header h else None))
             \<and> (case try_send (queue_of exec (wh_log_type cfg)) msg of
                  Sent q \<Rightarrow> status = StatusOk \<and> queue_of exec' (wh_log_type cfg) = q
                | Full \<Rightarrow> status = StatusTooManyRequests \<and> exec' = exec
                | Disconnected \<Rightarrow> False)"
      using post_handler_accepted [OF Some bs(2) assms] bs(1) fields
      by (intro exI [of _ bs] exI [of _ "webhook_message uuid request_header cfg webhook (concat bs)"] conjI) blast+
    then show ?thesis using True by (simp only: Some option.case not_True_eq_False if_False)
  qed
qed

definition sample_webhook :: webhook_config where
  "sample_webhook = \<lparr>wh_log_type = ''okta'', wh_headers = [''H''], wh_max_body_size = 3,
     wh_get_mode = Some \<lparr>gm_caching_mode = Timed 60, gm_response_mode = Rule ''m.wasm''\<rparr>, wh_label = Some ''l'',
     wh_logbacks_allowed = LogbacksLimited 0\<rparr>"

definition sample_pools :: "message list execution_thread_pools" where
  "sample_pools = \<lparr>general_pool = \<lparr>num_threads = 1, pool_queue = []\<rparr>, dedicated_pools = []\<rparr>"

definition one_slot :: "message list \<Rightarrow> message \<Rightarrow> message list try_send_result" where
  "one_slot q m = (if q = [] then Sent [m] else Full)"

theorem post_request_outcome_witness:
  "\<exists>exec' msg. post_handler ''id'' one_slot ''w'' [Inr [1], Inr [2, 3]] (\<lambda>_. Some [9]) [(''w'', sample_webhook)] sample_pools
       = Some (StatusOk, exec')
    \<and> queue_of exec' ''okta'' = [msg] \<and> msg_data msg = [1, 2, 3] \<and> hm_get (headers msg) ''H'' = Some [9]
    \<and> hm_get (headers msg) ''X'' = None"
proof -
  have cfg: "hm_get [(''w'', sample_webhook)] ''w'' = Some sample_webhook" by (simp add: hm_get_def)
  have "post_handler ''id'' one_slot ''w'' [Inr [1], Inr [2, 3]] (\<lambda>_. Some [9]) [(''w'', sample_webhook)] sample_pools \<noteq> None"
    by (simp add: post_handler_def hm_get_def read_body_with_limit_def sample_webhook_def execute_webhook_message_def sample_pools_def
        one_slot_def forward_headers_def message_new_def Let_def)
  then obtain status exec' where run: "post_handler ''id'' one_slot ''w'' [Inr [1], Inr [2, 3]] (\<lambda>_. Some [9]) [(''w'', sample_webhook)]
      sample_pools = Some (status, exec')" by auto
  have acc: "body_accepted sample_webhook [Inr [1], Inr [2, 3]]"
    unfolding body_accepted_def by (rule exI [of _ "[[1], [2, 3]]"]) (simp add: sample_webhook_def)
  have q: "queue_of sample_pools (wh_log_type sample_webhook) = []" by (simp add: sample_pools_def queue_of_def)
  from post_request_outcome [OF run] acc obtain bs msg where m: "[Inr [1], Inr [2, 3]] = (map Inr bs :: (string + bytes) list)"
    "msg_data msg = concat bs" "\<forall>h. hm_get (headers msg) h = (if h \<in> set (wh_headers sample_webhook) then Some [9] else None)"
    "case one_slot [] msg of Sent q \<Rightarrow> status = StatusOk \<and> queue_of exec' (wh_log_type sample_webhook) = q
       | Full \<Rightarrow> status = StatusTooManyRequests \<and> exec' = sample_pools | Disconnected \<Rightarrow> False"
    unfolding cfg option.case q by (simp only: not_True_eq_False if_False) (elim exE conjE, rule that, assumption+)
  have "bs = [[1], [2, 3]]" using m(1) by (cases bs; cases "tl bs") auto
  then show ?thesis using m(2-4) run by (auto simp: one_slot_def sample_webhook_def)
qed

lemma get_rule_reply_cached:
  assumes "get_rule_reply uuid try_send rs now1 now2 recv webhook query body rh cfg name mode modules (cache, q) = Some (reply, cache', q')"
    and "cache' \<noteq> cache"
  shows "hm_get cache' webhook = Some (now2, reply)"
  using assms by (auto simp: get_rule_reply_def Let_def split: option.splits sum.splits try_send_result.splits if_splits)

text \<open>
  Timed caching of GET requests. Once the response of a rule has been cached, every request to the
  webhook gets it until the validity is over, whatever it asks for, without the rule being run and
  without any change. After that, a request that reaches the rule gets what the rule answers then.
\<close>

theorem timed_get_cache:
  assumes "hm_get webhooks webhook = Some cfg"
    and "wh_get_mode cfg = Some \<lparr>gm_caching_mode = Timed validity, gm_response_mode = Rule name\<rparr>"
    and "hm_get modules name = Some rule"
    and "get_handler uuid try_send rs now1 now2 recv webhook query body rh webhooks modules (cache, q) = Some (reply, cache', q')"
    and "cache' \<noteq> cache"
    and "get_handler uuid2 try_send rs2 t1 t2 recv2 webhook query2 body2 rh2 webhooks modules (cache', q2) = Some (reply2, s2)"
  shows "if t1 < now2 + validity then reply2 = reply \<and> s2 = (cache', q2)
    else \<forall>q3. snd s2 = q3 \<longrightarrow> q3 \<noteq> q2 \<longrightarrow> reply2 = (case recv2 of Some (Some resp) \<Rightarrow> rm_body resp | _ \<Rightarrow> [])"
proof -
  have get: "get_handler u ts r a b rv webhook qu bo h webhooks modules st =
      get_rule_reply u ts r a b rv webhook qu bo h cfg name (Timed validity) modules st" for u ts r a b rv qu bo h st
    using assms(1,2) by (simp add: get_handler_def)
  have c: "hm_get cache' webhook = Some (now2, reply)"
    by (rule get_rule_reply_cached [OF assms(4) [unfolded get] assms(5)])
  show ?thesis
    using assms(6) [unfolded get] assms(3) c
    by (auto simp: get_rule_reply_def cached_reply_def Let_def split: option.splits sum.splits try_send_result.splits if_splits)
qed

theorem timed_get_cache_witness:
  "\<exists>cache' q'. get_handler ''id'' one_slot 0 100 101 (Some (Some \<lparr>rm_code = 200, rm_body = ''ok''\<rparr>)) ''w'' [] [] (\<lambda>_. None)
        [(''w'', sample_webhook)] [(''m.wasm'', responder)] ([], []) = Some (''ok'', cache', q')
    \<and> get_handler ''id2'' one_slot 0 150 150 None ''w'' [(''a'', ''b'')] [] (\<lambda>_. None)
        [(''w'', sample_webhook)] [(''m.wasm'', responder)] (cache', []) = Some (''ok'', cache', [])"
proof -
  let ?w = "[(''w'', sample_webhook)]" and ?m = "[(''m.wasm'', responder)]"
  have cfg: "hm_get ?w ''w'' = Some sample_webhook" "hm_get ?m ''m.wasm'' = Some responder"
    "wh_get_mode sample_webhook = Some \<lparr>gm_caching_mode = Timed 60, gm_response_mode = Rule ''m.wasm''\<rparr>"
    by (simp_all add: hm_get_def sample_webhook_def)
  note defs = get_handler_def get_rule_reply_def cached_reply_def read_body_with_limit_def one_slot_def cfg hm_get_Nil
  obtain q' where one: "get_handler ''id'' one_slot 0 100 101 (Some (Some \<lparr>rm_code = 200, rm_body = ''ok''\<rparr>)) ''w'' [] [] (\<lambda>_. None)
        ?w ?m ([], []) = Some (''ok'', [(''w'', (101, ''ok''))], q')"
    by (simp add: defs hm_insert_def)
  obtain reply2 s2 where two: "get_handler ''id2'' one_slot 0 150 150 None ''w'' [(''a'', ''b'')] [] (\<lambda>_. None) ?w ?m
      ([(''w'', (101, ''ok''))], []) = Some (reply2, s2)"
    by (simp add: defs hm_get_def)
  have "if (150 :: u64) < 101 + 60 then reply2 = ''ok'' \<and> s2 = ([(''w'', (101, ''ok''))], [])
    else \<forall>q3. snd s2 = q3 \<longrightarrow> q3 \<noteq> [] \<longrightarrow> reply2 = (case (None :: oneshot) of Some (Some resp) \<Rightarrow> rm_body resp | _ \<Rightarrow> [])"
    by (rule timed_get_cache [OF cfg(1,3,2) one _ two]) simp
  then show ?thesis using one two by auto
qed

end
