(* ===== verification/Plaid_Interval.thy ===== *)
theory Plaid_Interval
  imports Plaid_Env "HOL-Library.Multiset"
begin

text \<open>
  What is scheduled by time: interval jobs, \<^verbatim>\<open>runtime/plaid/src/data/interval/mod.rs\<close>, and the choice of
  the next server of a websocket, \<^verbatim>\<open>data/websocket/selector.rs\<close>. A \<^verbatim>\<open>BinaryHeap\<close> of the standard
  library is a list sorted by the key it is ordered by. A schedule belongs to the crate \<^verbatim>\<open>cron\<close>: when
  it is due next, in milliseconds, is a parameter, which may depend on how many jobs have been run,
  since time goes by meanwhile. Instants and durations are in nanoseconds.
\<close>

subsection \<open>Interval jobs\<close>

record 's interval_job =
  ij_schedule :: 's
  ij_log_type :: string
  ij_data :: "string option"
  ij_logbacks_allowed :: logbacks_allowed

definition parse_jobs :: "(string, 's interval_job) hashmap \<Rightarrow> string + (string, 's interval_job) hashmap" where
  "parse_jobs m = (if m = [] then Inl ''`jobs` map must not be empty'' else Inr m)"

record 's scheduled_job =
  execution_time :: u64
  sj_schedule :: 's
  sj_message :: message

definition job_push :: "'s scheduled_job \<Rightarrow> 's scheduled_job list \<Rightarrow> 's scheduled_job list" where
  "job_push job job_heap = insort_key execution_time job job_heap"

definition execution_seconds :: "int \<Rightarrow> u64" where
  "execution_seconds timestamp_millis =
     word_of_int (if 0 \<le> timestamp_millis then timestamp_millis div 1000 else - (- timestamp_millis div 1000))"

fun interval_new :: "('s \<Rightarrow> int option) \<Rightarrow> (nat \<Rightarrow> string) \<Rightarrow> (string, 's interval_job) hashmap \<Rightarrow> 's scheduled_job list
     \<Rightarrow> 's scheduled_job list" where
  "interval_new upcoming uuid [] job_heap = job_heap"
| "interval_new upcoming uuid ((name, job) # jobs) job_heap =
     (case upcoming (ij_schedule job) of
        None \<Rightarrow> interval_new upcoming uuid jobs job_heap
      | Some time \<Rightarrow>
          interval_new upcoming uuid jobs
            (job_push \<lparr>execution_time = execution_seconds time, sj_schedule = ij_schedule job,
                       sj_message = message_new (uuid (length job_heap)) (ij_log_type job)
                         (as_bytes (case ij_data job of Some d \<Rightarrow> d | None \<Rightarrow> []))
                         (Generator (Interval name)) (ij_logbacks_allowed job)\<rparr> job_heap))"

text \<open>Sending a job's message; when that fails, the message of this time is lost.\<close>

definition send_or_drop :: "('q \<Rightarrow> message \<Rightarrow> 'q try_send_result) \<Rightarrow> message \<Rightarrow> 'q \<Rightarrow> 'q" where
  "send_or_drop try_send msg q = (case try_send q msg of Sent q' \<Rightarrow> q' | _ \<Rightarrow> q)"

definition reschedule :: "(nat \<Rightarrow> 's \<Rightarrow> int option) \<Rightarrow> nat \<Rightarrow> 's scheduled_job \<Rightarrow> 's scheduled_job option" where
  "reschedule upcoming n job =
     map_option (\<lambda>time. \<lparr>execution_time = execution_seconds time, sj_schedule = sj_schedule job,
                         sj_message = create_duplicate (sj_message job)\<rparr>) (upcoming n (sj_schedule job))"

text \<open>The loop; it need not end if schedules are due in the past. The result is the seconds to sleep.\<close>

partial_function (option) fetch_interval_loop ::
  "('q \<Rightarrow> message \<Rightarrow> 'q try_send_result) \<Rightarrow> (nat \<Rightarrow> 's \<Rightarrow> int option) \<Rightarrow> u64 \<Rightarrow> nat \<Rightarrow> 's scheduled_job list \<Rightarrow> 'q
     \<Rightarrow> (u64 \<times> 's scheduled_job list \<times> 'q) option" where
  "fetch_interval_loop try_send upcoming current_time n job_heap q =
     (case job_heap of
        [] \<Rightarrow> Some (0, [], q)
      | job # rest \<Rightarrow>
          if current_time < execution_time job then Some (execution_time job - current_time, job_heap, q)
          else
            (case reschedule upcoming n job of
               None \<Rightarrow> fetch_interval_loop try_send upcoming current_time (Suc n) rest
                         (send_or_drop try_send (create_duplicate (sj_message job)) q)
             | Some job' \<Rightarrow> fetch_interval_loop try_send upcoming current_time (Suc n) (job_push job' rest)
                         (send_or_drop try_send (create_duplicate (sj_message job)) q)))"

declare fetch_interval_loop.simps [code]

definition fetch_interval_jobs ::
  "('q \<Rightarrow> message \<Rightarrow> 'q try_send_result) \<Rightarrow> (nat \<Rightarrow> 's \<Rightarrow> int option) \<Rightarrow> u64 \<Rightarrow> 's scheduled_job list \<Rightarrow> 'q
     \<Rightarrow> (u64 \<times> 's scheduled_job list \<times> 'q) option" where
  "fetch_interval_jobs try_send upcoming current_time job_heap q =
     fetch_interval_loop try_send upcoming current_time 0 job_heap q"

text \<open>The jobs that are due, and the heap afterwards.\<close>

definition due :: "u64 \<Rightarrow> 's scheduled_job list \<Rightarrow> 's scheduled_job list" where
  "due now heap = filter (\<lambda>j. execution_time j \<le> now) heap"

lemma job_push_sorted: "sorted (map execution_time h) \<Longrightarrow> sorted (map execution_time (job_push j h))"
  by (simp add: job_push_def sorted_insort_key)

lemma mset_job_push: "mset (job_push j h) = add_mset j (mset h)"
  by (simp add: job_push_def)

lemma due_job_push: "execution_time j > now \<Longrightarrow> due now (job_push j h) = due now h"
  by (induction h) (auto simp: due_def job_push_def)

lemma interval_new_sorted:
  "sorted (map execution_time h) \<Longrightarrow> sorted (map execution_time (interval_new upcoming uuid jobs h))"
proof (induction jobs arbitrary: h)
  case Nil
  then show ?case by simp
next
  case (Cons nj jobs)
  obtain name job where nj: "nj = (name, job)" by force
  show ?case
  proof (cases "upcoming (ij_schedule job)")
    case None
    then show ?thesis using Cons by (simp add: nj)
  next
    case (Some t)
    then show ?thesis using Cons by (simp add: nj job_push_sorted)
  qed
qed

lemma reschedule_later:
  "\<forall>n s t. upcoming n s = Some t \<longrightarrow> now < execution_seconds t \<Longrightarrow> reschedule upcoming n job = Some job' \<Longrightarrow>
     now < execution_time job'"
  by (auto simp: reschedule_def)

text \<open>The rescheduled jobs, in the order they were run.\<close>

fun rescheduled :: "(nat \<Rightarrow> 's \<Rightarrow> int option) \<Rightarrow> nat \<Rightarrow> 's scheduled_job list \<Rightarrow> 's scheduled_job list" where
  "rescheduled upcoming n [] = []"
| "rescheduled upcoming n (j # js) =
     (case reschedule upcoming n j of None \<Rightarrow> [] | Some j' \<Rightarrow> [j']) @ rescheduled upcoming (Suc n) js"

lemma fetch_interval_loop_spec:
  assumes "\<forall>n s t. upcoming n s = Some t \<longrightarrow> now < execution_seconds t" and "sorted (map execution_time heap)"
  shows "\<exists>wait heap'. fetch_interval_loop try_send upcoming now n heap q =
      Some (wait, heap', fold (send_or_drop try_send) (map (\<lambda>j. create_duplicate (sj_message j)) (due now heap)) q)
    \<and> sorted (map execution_time heap')
    \<and> mset heap' = mset (filter (\<lambda>j. now < execution_time j) heap) + mset (rescheduled upcoming n (due now heap))
    \<and> (\<forall>j \<in> set heap'. now < execution_time j)
    \<and> wait = (case heap' of [] \<Rightarrow> 0 | j # _ \<Rightarrow> execution_time j - now)"
  using assms(2)
proof (induction "length (due now heap)" arbitrary: heap n q)
  case 0
  then have later: "\<forall>j \<in> set heap. now < execution_time j"
    by (auto simp: due_def filter_empty_conv not_le)
  then have "filter (\<lambda>j. now < execution_time j) heap = heap" "due now heap = []"
    by (auto simp: filter_id_conv due_def filter_empty_conv)
  then show ?case using 0(2) later
    by (subst fetch_interval_loop.simps) (auto split: list.split)
next
  case (Suc k)
  then obtain job rest where heap: "heap = job # rest" by (cases heap) (auto simp: due_def)
  have job: "execution_time job \<le> now"
  proof (rule ccontr)
    assume "\<not> execution_time job \<le> now"
    then have "due now heap = []" using Suc.prems by (force simp: heap due_def filter_empty_conv)
    then show False using Suc.hyps(2) by simp
  qed
  have rest: "sorted (map execution_time rest)" "due now heap = job # due now rest"
    "filter (\<lambda>j. now < execution_time j) heap = filter (\<lambda>j. now < execution_time j) rest"
    using Suc.prems job by (simp_all add: heap due_def)
  let ?q = "send_or_drop try_send (create_duplicate (sj_message job)) q"
  show ?case
  proof (cases "reschedule upcoming n job")
    case None
    have "k = length (due now rest)" using Suc.hyps(2) rest(2) by simp
    from Suc.hyps(1) [OF this rest(1), of "Suc n" ?q] show ?thesis
      using leD [OF job] None rest(2,3) by (subst fetch_interval_loop.simps) (simp add: heap)
  next
    case (Some job')
    have later: "now < execution_time job'" by (rule reschedule_later [OF assms(1) Some])
    then have d: "due now (job_push job' rest) = due now rest" by (rule due_job_push)
    have f: "mset (filter (\<lambda>j. now < execution_time j) (job_push job' rest)) =
        add_mset job' (mset (filter (\<lambda>j. now < execution_time j) rest))"
      using later by (simp add: mset_job_push)
    have "k = length (due now (job_push job' rest))" using Suc.hyps(2) rest(2) d by simp
    from Suc.hyps(1) [OF this job_push_sorted [OF rest(1)], of "Suc n" ?q] show ?thesis
      using leD [OF job] Some rest(2,3) d f by (subst fetch_interval_loop.simps) (simp add: heap)
  qed
qed

text \<open>
  C31. A check of the interval jobs returns: every job that is due is sent exactly once, in the order of the
  heap, and nothing else is; each is put back at the next time its schedule is due, or leaves the heap when
  there is none; jobs that are not due stay as they are. Afterwards nothing in the heap is due, the heap is
  ordered, and the result is the time until the earliest job, or 0 when no job is left. This needs that a
  schedule is due next after the time the check began.
\<close>

theorem interval_jobs_fetched:
  assumes "\<forall>n s t. upcoming n s = Some t \<longrightarrow> now < execution_seconds t" and "sorted (map execution_time heap)"
  shows "\<exists>wait heap'. fetch_interval_jobs try_send upcoming now heap q =
      Some (wait, heap', fold (send_or_drop try_send) (map (\<lambda>j. create_duplicate (sj_message j)) (due now heap)) q)
    \<and> sorted (map execution_time heap')
    \<and> mset heap' = mset (filter (\<lambda>j. now < execution_time j) heap) + mset (rescheduled upcoming 0 (due now heap))
    \<and> (\<forall>j \<in> set heap'. now < execution_time j)
    \<and> wait = (case heap' of [] \<Rightarrow> 0 | j # _ \<Rightarrow> execution_time j - now)"
  unfolding fetch_interval_jobs_def by (rule fetch_interval_loop_spec [OF assms])

definition sample_jobs :: "(string, nat interval_job) hashmap" where
  "sample_jobs =
     [(''late'', \<lparr>ij_schedule = 50, ij_log_type = ''b'', ij_data = None, ij_logbacks_allowed = LogbacksLimited 0\<rparr>),
      (''early'', \<lparr>ij_schedule = 10, ij_log_type = ''a'', ij_data = Some ''x'', ij_logbacks_allowed = LogbacksLimited 0\<rparr>),
      (''never'', \<lparr>ij_schedule = 0, ij_log_type = ''c'', ij_data = None, ij_logbacks_allowed = LogbacksLimited 0\<rparr>)]"

definition sample_upcoming :: "int \<Rightarrow> nat \<Rightarrow> int option" where
  "sample_upcoming at s = (if s = 0 then None else Some (at * 1000 + int s * 1000))"

theorem interval_jobs_fetched_witness:
  "let heap = interval_new (sample_upcoming 0) (\<lambda>n. ''u'') sample_jobs [];
       upc = \<lambda>n s. if s = 10 then Some 30000 else None
   in map execution_time heap = [10, 50] \<and>
      (\<exists>heap'. fetch_interval_jobs (\<lambda>q m. Sent (q @ [msg_data m])) upc 20 heap [] = Some (10, heap', [as_bytes ''x''])
        \<and> map execution_time heap' = [30, 50])"
proof -
  let ?upc = "\<lambda>n s. if s = (10::nat) then Some (30000::int) else None"
  let ?heap = "interval_new (sample_upcoming 0) (\<lambda>n. ''u'') sample_jobs []"
  let ?send = "\<lambda>q m. Sent (q @ [msg_data m])"
  let ?md = "\<lambda>j. create_duplicate (sj_message j)"
  have heap: "map execution_time ?heap = [10, 50]"
    by (simp add: sample_jobs_def sample_upcoming_def execution_seconds_def job_push_def)
  have due: "due 20 ?heap = [hd ?heap]" "filter (\<lambda>j. 20 < execution_time j) ?heap = [?heap ! 1]"
    "sj_schedule (hd ?heap) = 10" "msg_data (sj_message (hd ?heap)) = as_bytes ''x''"
    by (simp_all add: due_def sample_jobs_def sample_upcoming_def execution_seconds_def job_push_def message_new_def)
  have upc: "\<forall>n s t. ?upc n s = Some t \<longrightarrow> 20 < execution_seconds t"
    by (auto simp: execution_seconds_def split: if_splits)
  have srt: "sorted (map execution_time ?heap)" by (simp add: heap)
  obtain wait heap' where run: "fetch_interval_jobs ?send ?upc 20 ?heap [] =
        Some (wait, heap', fold (send_or_drop ?send) (map ?md (due 20 ?heap)) [])"
    and sorted: "sorted (map execution_time heap')"
    and ms: "mset heap' = mset [?heap ! 1] + mset (rescheduled ?upc 0 (due 20 ?heap))"
    and wait: "wait = (case heap' of [] \<Rightarrow> 0 | j # _ \<Rightarrow> execution_time j - 20)"
    using interval_jobs_fetched [of ?upc 20 ?heap ?send "[]", OF upc srt] unfolding due(2) by blast
  have "execution_time (?heap ! Suc 0) = map execution_time ?heap ! Suc 0"
    using heap [THEN arg_cong, of length] by simp
  then have "mset (map execution_time heap') = {#50, 30#}"
    using ms due heap by (simp add: reschedule_def execution_seconds_def)
  then have "map execution_time heap' = sort [50, 30]"
    using sorted by (intro properties_for_sort [symmetric]) simp_all
  then have times: "map execution_time heap' = [30, 50]" by simp
  moreover have "wait = 10" using wait times by (auto split: list.splits)
  ultimately show ?thesis
    using heap run due(1,4) by (simp add: Let_def send_or_drop_def)
qed

end
