(* ===== verification/Plaid_Websocket.thy ===== *)
theory Plaid_Websocket
  imports Plaid_Env "HOL-Library.Multiset"
begin

text \<open>
  The clients of external websockets, \<^verbatim>\<open>runtime/plaid/src/data/websocket/mod.rs\<close>, and the choice of the
  next server with exponential backoff, \<^verbatim>\<open>data/websocket/selector.rs\<close>. The heap of servers is a list
  sorted by the time of the next attempt. Times and durations are in nanoseconds. Whether a connection
  is made, and what is read from it, is an argument, one for each round of the client's loop. Two panics
  are outcomes: of the arithmetic on times, and of a timer with a period of zero.
\<close>

subsection \<open>Choosing a server\<close>

record uri_entry =
  ue_name :: string
  ue_uri :: string
  backoff_duration :: nat
  next_attempt :: nat

record uri_selector =
  uris :: "uri_entry list"
  initial_retry_after :: nat
  max_retry_after :: nat
  us_log_type :: string

text \<open>The range of \<^verbatim>\<open>Duration\<close>, and of \<^verbatim>\<open>Instant\<close> on the Unix platforms.\<close>

definition DURATION_END :: nat where
  "DURATION_END = 2 ^ 64 * 1000000000"

definition INSTANT_END :: nat where
  "INSTANT_END = 2 ^ 63 * 1000000000"

definition duration_mul :: "nat \<Rightarrow> nat \<Rightarrow> nat option" where
  "duration_mul d n = (if d * n < DURATION_END then Some (d * n) else None)"

definition instant_add :: "nat \<Rightarrow> nat \<Rightarrow> nat option" where
  "instant_add t d = (if t + d < INSTANT_END then Some (t + d) else None)"

definition uri_selector_new :: "nat \<Rightarrow> (string, string) hashmap \<Rightarrow> nat \<Rightarrow> nat \<Rightarrow> string \<Rightarrow> uri_selector" where
  "uri_selector_new now us initial maximum t =
     \<lparr>uris = map (\<lambda>(name, uri). \<lparr>ue_name = name, ue_uri = uri, backoff_duration = initial, next_attempt = now\<rparr>) us,
      initial_retry_after = initial, max_retry_after = maximum, us_log_type = t\<rparr>"

text \<open>The time at which the entry is handed out is part of the result.\<close>

definition next_uri :: "nat \<Rightarrow> uri_selector \<Rightarrow> (uri_entry \<times> nat \<times> uri_selector) option" where
  "next_uri now sel =
     (case uris sel of
        [] \<Rightarrow> None
      | entry # rest \<Rightarrow>
          Some (entry, if next_attempt entry > now then next_attempt entry else now, sel\<lparr>uris := rest\<rparr>))"

definition mark_failed :: "nat \<Rightarrow> uri_entry \<Rightarrow> uri_selector \<Rightarrow> uri_selector option" where
  "mark_failed now entry sel =
     Option.bind (duration_mul (backoff_duration entry) 2) (\<lambda>d.
       let b = min d (max_retry_after sel)
       in map_option (\<lambda>t. sel\<lparr>uris := insort_key next_attempt (entry\<lparr>backoff_duration := b, next_attempt := t\<rparr>) (uris sel)\<rparr>)
            (instant_add now b))"

definition reset_failure :: "nat \<Rightarrow> uri_selector \<Rightarrow> uri_entry \<Rightarrow> uri_entry" where
  "reset_failure now sel entry = entry\<lparr>backoff_duration := initial_retry_after sel, next_attempt := now\<rparr>"

subsection \<open>Configuration\<close>

record socket_message =
  sm_message :: string
  sleep_duration :: u64

record web_socket =
  ws_uris :: "(string, string) hashmap"
  ws_log_type :: string
  message_config :: "socket_message option"
  ws_headers :: "(string, bytes) hashmap option"
  ws_logbacks_allowed :: logbacks_allowed
  ws_min_retry_duration :: nat
  ws_max_retry_duration :: nat

text \<open>Defaults: 100 milliseconds and one minute.\<close>

definition default_min_retry_duration :: nat where
  "default_min_retry_duration = 100 * 1000000"

definition default_max_retry_duration :: nat where
  "default_max_retry_duration = 60000 * 1000000"

text \<open>\<^verbatim>\<open>Uri::from_str\<close> of the crate \<^verbatim>\<open>http\<close> is an argument. Invalid URIs are left out.\<close>

definition parse_uris :: "(string \<Rightarrow> string option) \<Rightarrow> (string, string) hashmap \<Rightarrow> string + (string, string) hashmap" where
  "parse_uris uri_from_str uris_raw =
     (let us = List.map_filter (\<lambda>(name, uri). map_option (Pair name) (uri_from_str uri)) uris_raw
      in if us = [] then Inl ''No valid URIs provided'' else Inr us)"

text \<open>Headers of the configuration are added to a request only where it has none of the same name.\<close>

definition request_headers :: "(string, bytes) hashmap \<Rightarrow> (string, bytes) hashmap option \<Rightarrow> (string, bytes) hashmap" where
  "request_headers request user_configured_headers =
     (case user_configured_headers of
        None \<Rightarrow> request
      | Some hs \<Rightarrow> fold (\<lambda>(k, v) r. case hm_get r k of None \<Rightarrow> hm_insert k v r | Some _ \<Rightarrow> r) hs request)"

subsection \<open>A client\<close>

record web_socket_client =
  configuration :: web_socket
  client_name :: string
  uri_selector :: uri_selector

definition web_socket_client_new :: "nat \<Rightarrow> web_socket \<Rightarrow> string \<Rightarrow> web_socket_client" where
  "web_socket_client_new now cfg name =
     \<lparr>configuration = cfg, client_name = name,
      uri_selector = uri_selector_new now (ws_uris cfg) (ws_min_retry_duration cfg) (ws_max_retry_duration cfg) (ws_log_type cfg)\<rparr>"

text \<open>
  What may happen on a connection: a read returns a message, an error or the end of the stream; the timer
  ticks and the configured message is written, which may fail. A blocking \<open>send\<close> to the executor fails only
  when the executor is gone, and the failure is only logged.
\<close>

datatype ws_event = ReadMessage string bytes | ReadError | ReadClosed | WriteTick bool

definition handle_read_message :: "(message \<Rightarrow> 'q \<Rightarrow> 'q) \<Rightarrow> web_socket_client \<Rightarrow> ws_event \<Rightarrow> 'q \<Rightarrow> bool \<times> 'q" where
  "handle_read_message send client ev q =
     (case ev of
        ReadMessage uuid msg \<Rightarrow>
          (True, send (message_new uuid (ws_log_type (configuration client)) msg
                    (Generator (WebSocketExternal (client_name client))) (ws_logbacks_allowed (configuration client))) q)
      | _ \<Rightarrow> (False, q))"

text \<open>The loop ends with the first failure; the flag says whether it has ended when the events run out.\<close>

fun connection_loop :: "(message \<Rightarrow> 'q \<Rightarrow> 'q) \<Rightarrow> web_socket_client \<Rightarrow> ws_event list \<Rightarrow> 'q \<Rightarrow> bool \<times> 'q" where
  "connection_loop send client [] q = (False, q)"
| "connection_loop send client (WriteTick ok # evs) q =
     (case message_config (configuration client) of
        None \<Rightarrow> connection_loop send client evs q
      | Some _ \<Rightarrow> if ok then connection_loop send client evs q else (True, q))"
| "connection_loop send client (ev # evs) q =
     (case handle_read_message send client ev q of
        (True, q') \<Rightarrow> connection_loop send client evs q'
      | (False, q') \<Rightarrow> (True, q'))"

text \<open>\<^verbatim>\<open>tokio::time::interval\<close> panics (\<open>None\<close>) when its period is zero.\<close>

definition run_connection :: "(message \<Rightarrow> 'q \<Rightarrow> 'q) \<Rightarrow> web_socket_client \<Rightarrow> ws_event list \<Rightarrow> 'q \<Rightarrow> (bool \<times> 'q) option" where
  "run_connection send client evs q =
     (case message_config (configuration client) of
        Some mc \<Rightarrow> if sleep_duration mc = 0 then None else Some (connection_loop send client evs q)
      | None \<Rightarrow> Some (connection_loop send client evs q))"

text \<open>What the environment decides in one round: the times at which the code reads the clock and whether
  the server accepts the connection, with what then happens on it.\<close>

record ws_round =
  at_select :: nat
  at_reset :: nat
  at_failed :: nat
  connection :: "ws_event list option"

text \<open>The outer \<open>None\<close> is a panic; the inner one says that no server is left.\<close>

definition client_start ::
  "(message \<Rightarrow> 'q \<Rightarrow> 'q) \<Rightarrow> ws_round \<Rightarrow> web_socket_client \<Rightarrow> 'q \<Rightarrow> (uri_entry \<times> web_socket_client \<times> 'q) option option" where
  "client_start send r client q =
     (case next_uri (at_select r) (uri_selector client) of
        None \<Rightarrow> Some None
      | Some (entry, _, sel) \<Rightarrow>
          (let client = client\<lparr>uri_selector := sel\<rparr>
           in case connection r of
                None \<Rightarrow> Some (Some (entry, client, q))
              | Some evs \<Rightarrow>
                  (case run_connection send client evs q of
                     None \<Rightarrow> None
                   | Some (_, q) \<Rightarrow> Some (Some (reset_failure (at_reset r) sel entry, client, q)))))"

text \<open>The task of a client. It ends when no server is left.\<close>

datatype 'a task = Running 'a | Finished 'a | Panicked

fun client_task :: "(message \<Rightarrow> 'q \<Rightarrow> 'q) \<Rightarrow> ws_round list \<Rightarrow> web_socket_client \<Rightarrow> 'q \<Rightarrow> (web_socket_client \<times> 'q) task" where
  "client_task send [] client q = Running (client, q)"
| "client_task send (r # rs) client q =
     (case client_start send r client q of
        None \<Rightarrow> Panicked
      | Some None \<Rightarrow> Finished (client, q)
      | Some (Some (entry, client', q')) \<Rightarrow>
          (case mark_failed (at_failed r) entry (uri_selector client') of
             None \<Rightarrow> Panicked
           | Some sel \<Rightarrow> client_task send rs (client'\<lparr>uri_selector := sel\<rparr>) q'))"

text \<open>
  What an observer sees of a client: which server each round tries, when the round begins and when it makes
  the attempt (the time at which the selector hands the server out), whether the connection was made, and
  when the round ends.
\<close>

record ws_attempt =
  wa_name :: string
  wa_asked :: nat
  wa_start :: nat
  wa_connected :: bool
  wa_end :: nat

definition attempt_of :: "ws_round \<Rightarrow> web_socket_client \<Rightarrow> ws_attempt list" where
  "attempt_of r client =
     (case next_uri (at_select r) (uri_selector client) of
        None \<Rightarrow> []
      | Some (entry, t, _) \<Rightarrow>
          [\<lparr>wa_name = ue_name entry, wa_asked = at_select r, wa_start = t, wa_connected = (connection r \<noteq> None), wa_end = at_failed r\<rparr>])"

fun attempts_of :: "(message \<Rightarrow> 'q \<Rightarrow> 'q) \<Rightarrow> ws_round list \<Rightarrow> web_socket_client \<Rightarrow> 'q \<Rightarrow> ws_attempt list" where
  "attempts_of send [] client q = []"
| "attempts_of send (r # rs) client q = attempt_of r client @
     (case client_task send [r] client q of Running (client', q') \<Rightarrow> attempts_of send rs client' q' | _ \<Rightarrow> [])"

subsection \<open>Backoff\<close>

text \<open>
  How often a server has failed in a row (a connection that was made and dropped counts as one failure), when it
  last failed, and when it is due again: at once if it was never tried, and otherwise after the backoff, counted
  from its last failure.
\<close>

definition count_attempt :: "ws_attempt \<Rightarrow> (string \<Rightarrow> nat) \<Rightarrow> string \<Rightarrow> nat" where
  "count_attempt a F = F(wa_name a := (if wa_connected a then 1 else Suc (F (wa_name a))))"

definition failures :: "ws_attempt list \<Rightarrow> string \<Rightarrow> nat" where
  "failures past = fold count_attempt past (\<lambda>_. 0)"

definition last_failure :: "ws_attempt list \<Rightarrow> string \<Rightarrow> nat option" where
  "last_failure past name = map_option wa_end (List.find (\<lambda>a. wa_name a = name) (rev past))"

definition backoff_after :: "nat \<Rightarrow> nat \<Rightarrow> nat \<Rightarrow> nat" where
  "backoff_after initial maximum k = (if k = 0 then initial else min (2 ^ k * initial) maximum)"

definition due :: "nat \<Rightarrow> nat \<Rightarrow> nat \<Rightarrow> ws_attempt list \<Rightarrow> string \<Rightarrow> nat" where
  "due created initial maximum past name =
     (case last_failure past name of None \<Rightarrow> created | Some t \<Rightarrow> t + backoff_after initial maximum (failures past name))"

text \<open>
  A sequence of attempts that keeps to the backoff: each is at a server that is due earliest of all, and is made
  when the server is due, or at once if it is due already.
\<close>

fun keeps_backoff :: "nat \<Rightarrow> nat \<Rightarrow> nat \<Rightarrow> string set \<Rightarrow> ws_attempt list \<Rightarrow> ws_attempt list \<Rightarrow> bool" where
  "keeps_backoff created i m names past [] \<longleftrightarrow> True"
| "keeps_backoff created i m names past (a # as) \<longleftrightarrow>
     wa_name a \<in> names \<and> (\<forall>n \<in> names. due created i m past (wa_name a) \<le> due created i m past n)
     \<and> wa_start a = max (wa_asked a) (due created i m past (wa_name a))
     \<and> keeps_backoff created i m names (past @ [a]) as"

lemma failures_snoc: "failures (past @ [a]) = count_attempt a (failures past)"
  by (simp add: failures_def)

lemma due_snoc:
  "due c i m (past @ [a]) n =
     (if n = wa_name a then wa_end a + backoff_after i m (if wa_connected a then 1 else Suc (failures past n)) else due c i m past n)"
  by (simp add: due_def last_failure_def failures_snoc count_attempt_def split: option.split)

lemma backoff_after_Suc: "min (backoff_after i m k * 2) m = backoff_after i m (Suc k)"
  by (cases k) (auto simp: backoff_after_def min_def)

lemma backoff_after_fits: "i * 2 < B \<Longrightarrow> m * 2 < B \<Longrightarrow> backoff_after i m k * 2 < (B::nat)"
  by (auto simp: backoff_after_def min_def)

text \<open>A server that has failed has failed at least once in a row.\<close>

lemma failures_positive: "last_failure past name \<noteq> None \<Longrightarrow> 0 < failures past name"
  by (induction past rule: rev_induct) (auto simp: last_failure_def failures_snoc count_attempt_def failures_def [of "[]"])

lemma due_failed:
  "due c i m past name = (case last_failure past name of None \<Rightarrow> c | Some t \<Rightarrow> t + min (2 ^ failures past name * i) m)"
  using failures_positive [of past name] by (auto simp: due_def backoff_after_def split: option.split)

text \<open>The next server is the one that has been due longest, and it is not tried before it is due.\<close>

lemma next_uri_earliest:
  assumes "next_uri now sel = Some (entry, t, sel')" and "sorted (map next_attempt (uris sel))"
  shows "next_attempt entry \<le> t" "now \<le> t" "\<forall>e \<in> set (uris sel'). next_attempt entry \<le> next_attempt e"
    "mset (uris sel) = add_mset entry (mset (uris sel'))" "sorted (map next_attempt (uris sel'))"
  using assms by (auto simp: next_uri_def split: list.splits)

definition selector_ok :: "(string, string) hashmap \<Rightarrow> nat \<Rightarrow> nat \<Rightarrow> nat \<Rightarrow> ws_attempt list \<Rightarrow> uri_selector \<Rightarrow> bool" where
  "selector_ok us c i m past sel \<longleftrightarrow>
     sorted (map next_attempt (uris sel)) \<and> initial_retry_after sel = i \<and> max_retry_after sel = m \<and>
     mset (map (\<lambda>e. (ue_name e, ue_uri e)) (uris sel)) = mset us \<and>
     (\<forall>e \<in> set (uris sel). backoff_duration e = backoff_after i m (failures past (ue_name e))
        \<and> next_attempt e = due c i m past (ue_name e))"

lemma selector_ok_new: "selector_ok us now i m [] (uri_selector_new now us i m t)"
proof -
  have srt: "sorted (map (\<lambda>_. now) us)" by (induction us) auto
  show ?thesis
    using srt by (auto simp: selector_ok_def uri_selector_new_def backoff_after_def comp_def case_prod_unfold failures_def
        due_def last_failure_def)
qed

lemma selector_ok_names: "selector_ok us c i m past sel \<Longrightarrow> ue_name ` set (uris sel) = fst ` set us"
proof -
  assume "selector_ok us c i m past sel"
  then have "mset (map fst (map (\<lambda>e. (ue_name e, ue_uri e)) (uris sel))) = mset (map fst us)"
    unfolding selector_ok_def by (metis mset_map)
  then have "set (map fst (map (\<lambda>e. (ue_name e, ue_uri e)) (uris sel))) = set (map fst us)" by (rule mset_eq_setD)
  then show ?thesis by (auto simp: image_comp)
qed

lemma mark_failed_ok:
  assumes "backoff_duration entry * 2 < DURATION_END" and "now + max_retry_after sel < INSTANT_END"
  shows "\<exists>sel'. mark_failed now entry sel = Some sel' \<and>
    uris sel' = insort_key next_attempt (entry\<lparr>backoff_duration := min (backoff_duration entry * 2) (max_retry_after sel),
                  next_attempt := now + min (backoff_duration entry * 2) (max_retry_after sel)\<rparr>) (uris sel) \<and>
    initial_retry_after sel' = initial_retry_after sel \<and> max_retry_after sel' = max_retry_after sel"
  using assms by (auto simp: mark_failed_def duration_mul_def instant_add_def Let_def min_def)

text \<open>The servers of a selector have different names.\<close>

lemma selector_ok_distinct:
  assumes "selector_ok us c i m past sel" and "hm_wf us" and "uris sel = e # rest"
  shows "\<forall>x \<in> set rest. ue_name x \<noteq> ue_name e"
proof -
  have "image_mset fst (mset (map (\<lambda>e. (ue_name e, ue_uri e)) (uris sel))) = image_mset fst (mset us)"
    using assms(1) unfolding selector_ok_def by simp
  then have "mset (map ue_name (uris sel)) = mset (map fst us)" by (simp add: multiset.map_comp comp_def)
  then have "distinct (map ue_name (uris sel))" using assms(2) mset_eq_imp_distinct_iff unfolding hm_wf_def by blast
  then have "ue_name e \<notin> ue_name ` set rest" by (simp add: assms(3))
  then show ?thesis by (metis imageI)
qed

text \<open>One round keeps the servers and counts for the one it tried.\<close>

lemma client_round_ok:
  assumes ok: "selector_ok us c i m past (uri_selector client)" and wf: "hm_wf us" and ne: "us \<noteq> []"
    and fits: "i * 2 < DURATION_END" "m * 2 < DURATION_END" "at_failed r + m < INSTANT_END"
    and timer: "\<forall>mc. message_config (configuration client) = Some mc \<longrightarrow> sleep_duration mc \<noteq> 0"
  shows "\<exists>a client' q'. client_task send [r] client q = Running (client', q') \<and> configuration client' = configuration client
    \<and> attempt_of r client = [a] \<and> selector_ok us c i m (past @ [a]) (uri_selector client')
    \<and> keeps_backoff c i m (fst ` set us) past [a] \<and> wa_asked a = at_select r \<and> wa_connected a = (connection r \<noteq> None) \<and> wa_end a = at_failed r"
proof -
  let ?sel = "uri_selector client"
  have "uris ?sel \<noteq> []" using ok ne by (auto simp: selector_ok_def)
  then obtain e rest where uris: "uris ?sel = e # rest" by (cases "uris ?sel") auto
  note names = selector_ok_distinct [OF ok wf uris]
  define entry where "entry = (if connection r = None then e else reset_failure (at_reset r) (?sel\<lparr>uris := rest\<rparr>) e)"
  define q' where "q' = (case connection r of None \<Rightarrow> q
      | Some evs \<Rightarrow> snd (connection_loop send (client\<lparr>uri_selector := ?sel\<lparr>uris := rest\<rparr>\<rparr>) evs q))"
  have start: "client_start send r client q = Some (Some (entry, client\<lparr>uri_selector := ?sel\<lparr>uris := rest\<rparr>\<rparr>, q'))"
    using timer by (auto simp: client_start_def next_uri_def uris entry_def q'_def run_connection_def Let_def split: option.split prod.split)
  define a where "a = \<lparr>wa_name = ue_name e, wa_asked = at_select r, wa_start = max (at_select r) (next_attempt e),
      wa_connected = (connection r \<noteq> None), wa_end = at_failed r\<rparr>"
  have attempt: "attempt_of r client = [a]" by (simp add: attempt_of_def next_uri_def uris a_def max_def)
  have due: "next_attempt e = due c i m past (ue_name e)" using ok by (simp add: selector_ok_def uris)
  have "due c i m past (ue_name e) \<le> due c i m past n" if "n \<in> fst ` set us" for n
    using that ok unfolding selector_ok_names [OF ok, symmetric] due [symmetric] by (auto simp: selector_ok_def uris)
  then have keeps: "keeps_backoff c i m (fst ` set us) past [a]"
    using due selector_ok_names [OF ok] uris by (auto simp: a_def)
  let ?k = "if connection r \<noteq> None then 0 else failures past (ue_name e)"
  have entry: "backoff_duration entry = backoff_after i m ?k" "ue_name entry = ue_name e" "ue_uri entry = ue_uri e"
    using ok by (auto simp: entry_def reset_failure_def selector_ok_def uris backoff_after_def)
  have "backoff_duration entry * 2 < DURATION_END"
    unfolding entry(1) by (rule backoff_after_fits [OF fits(1,2)])
  moreover have "at_failed r + max_retry_after (?sel\<lparr>uris := rest\<rparr>) < INSTANT_END"
    using fits(3) ok by (simp add: selector_ok_def)
  ultimately obtain sel where failed: "mark_failed (at_failed r) entry (?sel\<lparr>uris := rest\<rparr>) = Some sel"
    and sel: "uris sel = insort_key next_attempt (entry\<lparr>backoff_duration := backoff_after i m (Suc ?k),
                next_attempt := at_failed r + backoff_after i m (Suc ?k)\<rparr>) rest"
      "initial_retry_after sel = i" "max_retry_after sel = m"
    using mark_failed_ok [of entry "at_failed r" "?sel\<lparr>uris := rest\<rparr>"] ok
    by (auto simp: selector_ok_def entry(1) backoff_after_Suc)
  have "selector_ok us c i m (past @ [a]) sel"
    using ok names
    by (auto simp: selector_ok_def sel uris entry(2,3) failures_snoc due_snoc count_attempt_def a_def sorted_insort_key set_insort_key)
  then show ?thesis using start failed attempt keeps by (simp add: a_def)
qed

lemma client_task_Cons:
  "client_task send [r] client q = Running (client', q') \<Longrightarrow> client_task send (r # rs) client q = client_task send rs client' q'"
  by (auto split: option.splits)

lemma client_task_ok:
  assumes "selector_ok us c i m past (uri_selector client)" and "hm_wf us" and "us \<noteq> []"
    and "i * 2 < DURATION_END" "m * 2 < DURATION_END" "\<forall>r \<in> set rs. at_failed r + m < INSTANT_END"
    and "\<forall>mc. message_config (configuration client) = Some mc \<longrightarrow> sleep_duration mc \<noteq> 0"
  shows "\<exists>client' q'. client_task send rs client q = Running (client', q')
    \<and> selector_ok us c i m (past @ attempts_of send rs client q) (uri_selector client')
    \<and> keeps_backoff c i m (fst ` set us) past (attempts_of send rs client q)
    \<and> map (\<lambda>a. (wa_asked a, wa_connected a, wa_end a)) (attempts_of send rs client q) =
        map (\<lambda>r. (at_select r, connection r \<noteq> None, at_failed r)) rs"
  using assms(1,6,7)
proof (induction rs arbitrary: client q past)
  case Nil
  then show ?case by simp
next
  case (Cons r rs)
  have fits: "at_failed r + m < INSTANT_END" using Cons.prems(2) by simp
  obtain a client' q' where round: "client_task send [r] client q = Running (client', q')"
      "configuration client' = configuration client" "attempt_of r client = [a]"
      "selector_ok us c i m (past @ [a]) (uri_selector client')" "keeps_backoff c i m (fst ` set us) past [a]"
      "wa_asked a = at_select r" "wa_connected a = (connection r \<noteq> None)" "wa_end a = at_failed r"
    using client_round_ok [OF Cons.prems(1) assms(2-5) fits Cons.prems(3), of send q] by blast
  have rs: "attempts_of send (r # rs) client q = a # attempts_of send rs client' q'" by (simp add: round(1,3) del: client_task.simps)
  obtain client2 q2 where rest: "client_task send rs client' q' = Running (client2, q2)"
      "selector_ok us c i m ((past @ [a]) @ attempts_of send rs client' q') (uri_selector client2)"
      "keeps_backoff c i m (fst ` set us) (past @ [a]) (attempts_of send rs client' q')"
      "map (\<lambda>a. (wa_asked a, wa_connected a, wa_end a)) (attempts_of send rs client' q') =
        map (\<lambda>r. (at_select r, connection r \<noteq> None, at_failed r)) rs"
    using Cons.IH [OF round(4), of q'] Cons.prems(2,3) round(2) by auto
  show ?case
    unfolding client_task_Cons [OF round(1)] rs rest(1) using rest(2-4) round(5-8) by simp
qed

text \<open>
  C32. The task of a websocket client does not end and never loses a server: whatever connections fail, break
  or deliver, after any number of rounds each configured server is in the heap exactly once, and its next
  attempt is set to its last failure plus its initial duration doubled for each failure in a row, at most the
  configured maximum (at once, if it was not tried yet). Every round tries a server that is due earliest, and
  waits until it is due, no longer. This needs durations below half of what a \<^verbatim>\<open>Duration\<close> can hold, a clock
  that far from its end, and, if the client is to send a message periodically, a period that is not zero.
\<close>

theorem websocket_backoff:
  assumes "hm_wf (ws_uris cfg)" and "ws_uris cfg \<noteq> []"
    and "ws_min_retry_duration cfg * 2 < DURATION_END" and "ws_max_retry_duration cfg * 2 < DURATION_END"
    and "\<forall>r \<in> set rs. at_failed r + ws_max_retry_duration cfg < INSTANT_END"
    and "\<forall>mc. message_config cfg = Some mc \<longrightarrow> sleep_duration mc \<noteq> 0"
    and "attempts = attempts_of send rs (web_socket_client_new now cfg name) q"
  shows "\<exists>client q'. client_task send rs (web_socket_client_new now cfg name) q = Running (client, q')
    \<and> map (\<lambda>a. (wa_asked a, wa_connected a, wa_end a)) attempts = map (\<lambda>r. (at_select r, connection r \<noteq> None, at_failed r)) rs
    \<and> keeps_backoff now (ws_min_retry_duration cfg) (ws_max_retry_duration cfg) (fst ` set (ws_uris cfg)) [] attempts
    \<and> mset (map (\<lambda>e. (ue_name e, ue_uri e)) (uris (uri_selector client))) = mset (ws_uris cfg)
    \<and> (\<forall>e \<in> set (uris (uri_selector client)). next_attempt e =
         (case last_failure attempts (ue_name e) of
            None \<Rightarrow> now
          | Some t \<Rightarrow> t + min (2 ^ failures attempts (ue_name e) * ws_min_retry_duration cfg) (ws_max_retry_duration cfg)))"
proof -
  let ?c = "web_socket_client_new now cfg name"
  have new: "selector_ok (ws_uris cfg) now (ws_min_retry_duration cfg) (ws_max_retry_duration cfg) [] (uri_selector ?c)"
    "configuration ?c = cfg" by (simp_all add: web_socket_client_new_def selector_ok_new)
  from client_task_ok [OF new(1) assms(1-5), of send q] assms(6) new(2) obtain client q'
    where run: "client_task send rs ?c q = Running (client, q')"
      "selector_ok (ws_uris cfg) now (ws_min_retry_duration cfg) (ws_max_retry_duration cfg) attempts (uri_selector client)"
      "keeps_backoff now (ws_min_retry_duration cfg) (ws_max_retry_duration cfg) (fst ` set (ws_uris cfg)) [] attempts"
      "map (\<lambda>a. (wa_asked a, wa_connected a, wa_end a)) attempts = map (\<lambda>r. (at_select r, connection r \<noteq> None, at_failed r)) rs"
    unfolding assms(7) by auto
  then show ?thesis
    unfolding selector_ok_def due_failed by blast
qed

definition sample_socket :: web_socket where
  "sample_socket =
     \<lparr>ws_uris = [(''a'', ''wss://a'')], ws_log_type = ''ws'', message_config = None, ws_headers = None,
      ws_logbacks_allowed = LogbacksLimited 0, ws_min_retry_duration = 100, ws_max_retry_duration = 350\<rparr>"

definition sample_round :: "nat \<Rightarrow> ws_event list option \<Rightarrow> ws_round" where
  "sample_round t c = \<lparr>at_select = t, at_reset = t, at_failed = t, connection = c\<rparr>"

theorem websocket_backoff_witness:
  "\<exists>client. client_task (#) [sample_round 0 None, sample_round 200 None, sample_round 600 (Some [ReadMessage ''u'' [7], ReadClosed])]
        (web_socket_client_new 0 sample_socket ''s'') [] =
      Running (client, [message_new ''u'' ''ws'' [7] (Generator (WebSocketExternal ''s'')) (LogbacksLimited 0)]) \<and>
    map next_attempt (uris (uri_selector client)) = [800]"
  (is "\<exists>client. client_task _ ?rs ?c [] = _ \<and> _")
proof -
  let ?as = "attempts_of (#) ?rs ?c []"
  have cfg: "hm_wf (ws_uris sample_socket)" "ws_uris sample_socket \<noteq> []" "ws_min_retry_duration sample_socket * 2 < DURATION_END"
    "ws_max_retry_duration sample_socket * 2 < DURATION_END" "\<forall>r \<in> set ?rs. at_failed r + ws_max_retry_duration sample_socket < INSTANT_END"
    "\<forall>mc. message_config sample_socket = Some mc \<longrightarrow> sleep_duration mc \<noteq> 0"
    by (simp_all add: sample_socket_def sample_round_def hm_wf_def DURATION_END_def INSTANT_END_def)
  have times: "ws_min_retry_duration sample_socket = 100" "ws_max_retry_duration sample_socket = 350"
    by (simp_all add: sample_socket_def)
  obtain client q where run: "client_task (#) ?rs ?c [] = Running (client, q)"
    and servers: "mset (map (\<lambda>e. (ue_name e, ue_uri e)) (uris (uri_selector client))) = mset (ws_uris sample_socket)"
    and backoff: "\<forall>e \<in> set (uris (uri_selector client)). next_attempt e = (case last_failure ?as (ue_name e) of
        None \<Rightarrow> 0 | Some t \<Rightarrow> t + min (2 ^ failures ?as (ue_name e) * 100) 350)"
    using websocket_backoff [OF cfg refl, of "(#)" 0 "''s''" "[]"] unfolding times by (elim exE conjE)
  from servers obtain e where e: "uris (uri_selector client) = [e]" "ue_name e = ''a''"
    by (cases "uris (uri_selector client)") (auto simp: sample_socket_def)
  note defs = sample_socket_def sample_round_def web_socket_client_new_def uri_selector_new_def client_start_def run_connection_def
    next_uri_def mark_failed_def duration_mul_def instant_add_def DURATION_END_def INSTANT_END_def Let_def
    reset_failure_def handle_read_message_def
  have trace: "map (\<lambda>a. (wa_name a, wa_connected a, wa_end a)) ?as = [(''a'', False, 0), (''a'', False, 200), (''a'', True, 600)]"
    and q: "client_task (#) ?rs ?c [] = Running (c', q') \<Longrightarrow>
      q' = [message_new ''u'' ''ws'' [7] (Generator (WebSocketExternal ''s'')) (LogbacksLimited 0)]" for c' q'
    by (auto simp: defs attempt_of_def)
  have "failures ?as ''a'' = 1" "last_failure ?as ''a'' = Some 600"
    using trace by (auto simp: map_eq_Cons_conv failures_def count_attempt_def last_failure_def simp del: attempts_of.simps)
  then show ?thesis
    using run [unfolded q [OF run]] backoff unfolding e
    by (intro exI [of _ client]) (simp add: e del: client_task.simps attempts_of.simps)
qed

text \<open>A client that is to send a message every zero milliseconds panics at its first connection.\<close>

lemma zero_period_panics:
  assumes "message_config cfg = Some mc" and "sleep_duration mc = 0" and "ws_uris cfg \<noteq> []" and "connection r = Some evs"
  shows "client_task send (r # rs) (web_socket_client_new now cfg name) q = Panicked"
  using assms
  by (cases "ws_uris cfg")
    (auto simp: web_socket_client_new_def uri_selector_new_def client_start_def next_uri_def run_connection_def Let_def)

end
