(* ===== verification/Plaid_Sqs.thy ===== *)
theory Plaid_Sqs
  imports Plaid_Lru Plaid_Env
begin

text \<open>
  The data generator for AWS SQS, \<^verbatim>\<open>runtime/plaid/src/data/sqs/mod.rs\<close>. The queue is AWS's: what each call to
  receive messages returns is an argument, and requests to delete a message are recorded. A failure to
  delete is only logged. The identifiers of messages already seen are in an \<^verbatim>\<open>LruCache\<close>.
\<close>

record sqs_message =
  message_id :: "string option"
  message_body :: "string option"
  receipt_handle :: "string option"

record 'l sqs =
  sqs_name :: string
  sqs_logbacks_allowed :: logbacks_allowed
  sqs_connected :: bool
  sqs_sent :: "message list"
  sqs_deleted :: "string list"
  seen_messages :: 'l

definition sqs_new :: "(string, u32, 'l) lru_ops \<Rightarrow> string \<Rightarrow> logbacks_allowed \<Rightarrow> 'l sqs" where
  "sqs_new L name lb =
     \<lparr>sqs_name = name, sqs_logbacks_allowed = lb, sqs_connected = True, sqs_sent = [], sqs_deleted = [],
      seen_messages = lru_new L 4096\<rparr>"

definition delete_message :: "string option \<Rightarrow> 'l sqs \<Rightarrow> 'l sqs" where
  "delete_message receipt s =
     (case receipt of Some r \<Rightarrow> s\<lparr>sqs_deleted := sqs_deleted s @ [r]\<rparr> | None \<Rightarrow> s)"

text \<open>Sending fails when nobody listens; the caller only logs that.\<close>

definition sqs_send_for_processing :: "(nat \<Rightarrow> string) \<Rightarrow> bytes \<Rightarrow> 'l sqs \<Rightarrow> 'l sqs" where
  "sqs_send_for_processing uuid payload s =
     (if sqs_connected s
      then s\<lparr>sqs_sent := sqs_sent s @ [message_new (uuid (length (sqs_sent s))) (''sqs/'' @ sqs_name s) payload
               (Generator (SQS (sqs_name s))) (sqs_logbacks_allowed s)]\<rparr>
      else s)"

definition consume_message :: "(nat \<Rightarrow> string) \<Rightarrow> sqs_message \<Rightarrow> 'l sqs \<Rightarrow> 'l sqs" where
  "consume_message uuid msg s =
     (case message_body msg of
        Some body \<Rightarrow> delete_message (receipt_handle msg) (sqs_send_for_processing uuid (as_bytes body) s)
      | None \<Rightarrow> s)"

definition process_message :: "(string, u32, 'l) lru_ops \<Rightarrow> (nat \<Rightarrow> string) \<Rightarrow> sqs_message \<Rightarrow> 'l sqs \<Rightarrow> 'l sqs" where
  "process_message L uuid msg s =
     (case message_id msg of
        Some i \<Rightarrow>
          if lru_contains L (seen_messages s) i then delete_message (receipt_handle msg) s
          else consume_message uuid msg (s\<lparr>seen_messages := snd (lru_put L (seen_messages s) i 0)\<rparr>)
      | None \<Rightarrow> consume_message uuid msg s)"

text \<open>The loop, with the answers of the queue. \<open>None\<close>: it is still running after them.\<close>

fun drain_queue ::
  "(string, u32, 'l) lru_ops \<Rightarrow> (nat \<Rightarrow> string) \<Rightarrow> (string + sqs_message list option) list \<Rightarrow> 'l sqs
     \<Rightarrow> (string + unit) option \<times> 'l sqs" where
  "drain_queue L uuid [] s = (None, s)"
| "drain_queue L uuid (Inl e # answers) s =
     (Some (Inl (''sqs/'' @ sqs_name s @ '' receive_messages failed. error: ['' @ e @ '']'')), s)"
| "drain_queue L uuid (Inr None # answers) s = (Some (Inr ()), s)"
| "drain_queue L uuid (Inr (Some messages) # answers) s =
     drain_queue L uuid answers (fold (process_message L uuid) messages s)"

subsection \<open>What is sent and what is deleted\<close>

text \<open>The messages a run of the loop gets to see, and those among them that are not duplicates.\<close>

fun received :: "(string + sqs_message list option) list \<Rightarrow> sqs_message list" where
  "received (Inr (Some messages) # answers) = messages @ received answers"
| "received _ = []"

fun new_messages :: "string set \<Rightarrow> sqs_message list \<Rightarrow> sqs_message list" where
  "new_messages S [] = []"
| "new_messages S (m # ms) =
     (case message_id m of
        Some i \<Rightarrow> if i \<in> S then new_messages S ms else m # new_messages (insert i S) ms
      | None \<Rightarrow> m # new_messages S ms)"

text \<open>Every message is deleted, unless it is a new one without a body.\<close>

fun deletions :: "string set \<Rightarrow> sqs_message list \<Rightarrow> string list" where
  "deletions S [] = []"
| "deletions S (m # ms) =
     (if (case message_id m of Some i \<Rightarrow> i \<in> S | None \<Rightarrow> False) \<or> message_body m \<noteq> None
      then (case receipt_handle m of Some r \<Rightarrow> [r] | None \<Rightarrow> []) else [])
     @ deletions (case message_id m of Some i \<Rightarrow> insert i S | None \<Rightarrow> S) ms"

definition payloads :: "sqs_message list \<Rightarrow> bytes list" where
  "payloads ms = map as_bytes (List.map_filter message_body ms)"

lemma drain_is_fold: "snd (drain_queue L uuid answers s) = fold (process_message L uuid) (received answers) s"
  by (induction L uuid answers s rule: drain_queue.induct) simp_all

lemma consume_message_effect:
  "seen_messages (consume_message uuid m s) = seen_messages s" "sqs_connected (consume_message uuid m s) = sqs_connected s"
  "map msg_data (sqs_sent (consume_message uuid m s)) =
     map msg_data (sqs_sent s) @ (if sqs_connected s then payloads [m] else [])"
  "sqs_deleted (consume_message uuid m s) = sqs_deleted s @
     (if message_body m \<noteq> None then (case receipt_handle m of Some r \<Rightarrow> [r] | None \<Rightarrow> []) else [])"
  by (auto simp: consume_message_def delete_message_def sqs_send_for_processing_def payloads_def message_new_def
      List.map_filter_simps split: option.split)

lemma payloads_Cons: "payloads (m # ms) = payloads [m] @ payloads ms"
  by (simp add: payloads_def List.map_filter_simps split: option.split)

lemma payloads_Nil [simp]: "payloads [] = []"
  by (simp add: payloads_def List.map_filter_simps)

lemma new_messages_Cons:
  "payloads (new_messages S (m # ms)) =
     payloads (new_messages S [m]) @ payloads (new_messages (case message_id m of Some i \<Rightarrow> insert i S | None \<Rightarrow> S) ms)"
proof (cases "message_id m")
  case None
  then show ?thesis using payloads_Cons [of m "new_messages S ms"] by simp
next
  case (Some i)
  then show ?thesis using payloads_Cons [of m "new_messages (insert i S) ms"] by (simp add: insert_absorb)
qed

lemma deletions_Cons:
  "deletions S (m # ms) = deletions S [m] @ deletions (case message_id m of Some i \<Rightarrow> insert i S | None \<Rightarrow> S) ms"
  by simp

locale sqs_lru = lru_crate L for L :: "(string, u32, 'l) lru_ops"
begin

lemma process_effect:
  assumes "wf (seen_messages s)" and "length (lru_iter L (seen_messages s)) < lru_cap L (seen_messages s)"
    and "s' = process_message L uuid m s" and "S = dom (view (seen_messages s))"
  shows "wf (seen_messages s')" "lru_cap L (seen_messages s') = lru_cap L (seen_messages s)"
    "length (lru_iter L (seen_messages s')) \<le> Suc (length (lru_iter L (seen_messages s)))"
    "sqs_connected s' = sqs_connected s"
    "dom (view (seen_messages s')) = (case message_id m of Some i \<Rightarrow> insert i S | None \<Rightarrow> S)"
    "map msg_data (sqs_sent s') = map msg_data (sqs_sent s) @ (if sqs_connected s then payloads (new_messages S [m]) else [])"
    "sqs_deleted s' = sqs_deleted s @ deletions S [m]"
proof -
  have "wf (seen_messages s') \<and> lru_cap L (seen_messages s') = lru_cap L (seen_messages s)
    \<and> length (lru_iter L (seen_messages s')) \<le> Suc (length (lru_iter L (seen_messages s)))
    \<and> sqs_connected s' = sqs_connected s
    \<and> dom (view (seen_messages s')) = (case message_id m of Some i \<Rightarrow> insert i S | None \<Rightarrow> S)
    \<and> map msg_data (sqs_sent s') = map msg_data (sqs_sent s) @ (if sqs_connected s then payloads (new_messages S [m]) else [])
    \<and> sqs_deleted s' = sqs_deleted s @ deletions S [m]"
  proof (cases "message_id m")
    case None
    then show ?thesis using assms by (simp add: process_message_def consume_message_effect)
  next
    case (Some i)
    obtain old l' where put: "lru_put L (seen_messages s) i 0 = (old, l')" by force
    have l': "wf l'" "lru_cap L l' = lru_cap L (seen_messages s)" "dom (view l') = insert i S"
      "length (lru_iter L l') \<le> Suc (length (lru_iter L (seen_messages s)))"
      using wf_put [OF assms(1) put] put_cap [OF put] put_room [OF assms(1) put assms(2)] assms(4) by simp_all
    have mem: "lru_contains L (seen_messages s) i \<longleftrightarrow> i \<in> S" using assms(4) by (auto simp: contains_view)
    show ?thesis
    proof (cases "i \<in> S")
      case True
      then show ?thesis using assms(1-3) Some mem assms(4)
        by (auto simp: process_message_def delete_message_def payloads_def List.map_filter_simps insert_absorb split: option.split)
    next
      case False
      then show ?thesis using assms(3) Some mem put l'
        by (simp add: process_message_def consume_message_effect)
    qed
  qed
  then show "wf (seen_messages s')" "lru_cap L (seen_messages s') = lru_cap L (seen_messages s)"
    "length (lru_iter L (seen_messages s')) \<le> Suc (length (lru_iter L (seen_messages s)))"
    "sqs_connected s' = sqs_connected s"
    "dom (view (seen_messages s')) = (case message_id m of Some i \<Rightarrow> insert i S | None \<Rightarrow> S)"
    "map msg_data (sqs_sent s') = map msg_data (sqs_sent s) @ (if sqs_connected s then payloads (new_messages S [m]) else [])"
    "sqs_deleted s' = sqs_deleted s @ deletions S [m]" by simp_all
qed

lemma fold_process_effect:
  assumes "wf (seen_messages s)" and "length (lru_iter L (seen_messages s)) + length ms \<le> lru_cap L (seen_messages s)"
  shows "map msg_data (sqs_sent (fold (process_message L uuid) ms s)) = map msg_data (sqs_sent s) @
      (if sqs_connected s then payloads (new_messages (dom (view (seen_messages s))) ms) else [])
    \<and> sqs_deleted (fold (process_message L uuid) ms s) = sqs_deleted s @ deletions (dom (view (seen_messages s))) ms"
  using assms
proof (induction ms arbitrary: s)
  case Nil
  then show ?case by (simp add: payloads_def List.map_filter_simps)
next
  case (Cons m ms)
  define s' where "s' = process_message L uuid m s"
  have room: "length (lru_iter L (seen_messages s)) < lru_cap L (seen_messages s)" using Cons.prems(2) by simp
  note eff = process_effect [OF Cons.prems(1) room s'_def refl]
  have "length (lru_iter L (seen_messages s')) + length ms \<le> lru_cap L (seen_messages s')"
    using eff(2,3) Cons.prems(2) by simp
  from Cons.IH [OF eff(1) this] show ?case
    unfolding eff(4-7) new_messages_Cons [of _ m ms] deletions_Cons [of _ m ms]
    by (simp add: s'_def [symmetric] eff(6,7) del: deletions.simps new_messages.simps)
qed

end

interpretation sqs: sqs_lru lru_list
  by unfold_locales

subsection \<open>Properties\<close>

text \<open>
  The SQS generator over any number of polls of its queue, with at most 4096 messages in all: the body of
  every message is sent to the rules once, in order, however often the queue delivers the message; and every
  message is deleted from the queue, except new ones without a body. Deleting does not depend on sending: when
  the executor is gone, nothing is sent but the same messages are deleted, and are lost.
\<close>

theorem sqs_drain_outcome:
  assumes "sqs_lru L" and "ms = concat (map received polls)" and "length ms \<le> 4096"
    and "s' = fold (\<lambda>answers s. snd (drain_queue L uuid answers s)) polls ((sqs_new L name lb)\<lparr>sqs_connected := c\<rparr>)"
  shows "map msg_data (sqs_sent s') = (if c then payloads (new_messages {} ms) else [])
    \<and> sqs_deleted s' = deletions {} ms"
proof -
  let ?s = "(sqs_new L name lb)\<lparr>sqs_connected := c\<rparr>"
  have crate: "lru_crate L" using assms(1) by (simp add: sqs_lru_def)
  have fold: "fold (\<lambda>answers s. snd (drain_queue L uuid answers s)) polls s = fold (process_message L uuid) (concat (map received polls)) s" for s
    by (induction polls arbitrary: s) (simp_all add: drain_is_fold)
  have wf: "lru_crate.wf L (seen_messages ?s)" using lru_crate.wf_new [OF crate, of 4096] by (simp add: sqs_new_def)
  have empty: "lru_crate.view L (seen_messages ?s) = Map.empty" using lru_crate.view_new [OF crate] by (simp add: sqs_new_def)
  have room: "length (lru_iter L (seen_messages ?s)) + length ms \<le> lru_cap L (seen_messages ?s)"
    using assms(3) lru_crate.new_iter [OF crate] lru_crate.new_cap [OF crate] by (simp add: sqs_new_def)
  note eff = sqs_lru.fold_process_effect [OF assms(1) wf room, of uuid, unfolded empty]
  have s': "s' = fold (process_message L uuid) ms ?s" unfolding assms(2,4) fold ..
  show ?thesis using eff unfolding s' by (simp add: sqs_new_def)
qed

theorem sqs_drain_outcome_witness:
  "let m = \<lparr>message_id = Some ''1'', message_body = Some ''a'', receipt_handle = Some ''r''\<rparr>;
       s' = \<lambda>c. fold (\<lambda>answers s. snd (drain_queue lru_list (\<lambda>_. []) answers s)) [[Inr (Some [m, m]), Inr None], [Inr (Some [m])]]
              ((sqs_new lru_list ''q'' LogbacksUnlimited)\<lparr>sqs_connected := c\<rparr>)
   in map msg_data (sqs_sent (s' True)) = [as_bytes ''a''] \<and> sqs_deleted (s' True) = [''r'', ''r'', ''r'']
    \<and> sqs_sent (s' False) = [] \<and> sqs_deleted (s' False) = [''r'', ''r'', ''r'']"
proof -
  let ?m = "\<lparr>message_id = Some ''1'', message_body = Some ''a'', receipt_handle = Some ''r''\<rparr>"
  let ?polls = "[[Inr (Some [?m, ?m]), Inr None], [Inr (Some [?m])]]"
  note out = sqs_drain_outcome [OF sqs.sqs_lru_axioms refl, where polls = ?polls and uuid = "\<lambda>_. []" and name = "''q''" and lb = LogbacksUnlimited,
    OF _ refl]
  show ?thesis
    using out [where c = True] out [where c = False] by (simp add: Let_def payloads_def List.map_filter_simps)
qed

end
