(* ===== verification/Plaid_Guest.thy ===== *)
theory Plaid_Guest
  imports Plaid_Storage_Runs Plaid_Text Plaid_Cache Plaid_Logback Plaid_Messages
begin

text \<open>
  The library rules are written with, \<^verbatim>\<open>runtime/plaid-stl\<close>: its error type (\<^verbatim>\<open>src/lib.rs\<close>) and its
  functions for storage, the cache, logbacks and runtime data (\<^verbatim>\<open>src/plaid\<close>), each of which calls host
  functions of the runtime, here those of the other theories. A rule runs in its own linear memory,
  the memory the environment holds: it allocates buffers there and passes pointers to them. The
  allocator is a parameter; \<open>None\<close> is a trap because memory is exhausted.
\<close>

subsection \<open>Errors\<close>

datatype plaid_function_error =
    StlApiNotConfigured
  | StlReturnBufferTooSmall
  | StlErrorCouldNotSerialize
  | StlInternalApiError
  | StlParametersNotUtf8
  | StlInvalidPointer
  | StlCacheDisabled
  | StlCouldNotGetAdequateMemory
  | StlFailedToWriteGuestMemory
  | StlStorageLimitReached
  | StlTestMode
  | StlOperationNotAllowed
  | StlSharedDbError
  | StlTimeoutElapsed
  | StlUnknown
  | StlFailedToLogBack
  | StlLogbackBudgetExhausted

definition error_of_code :: "i32 \<Rightarrow> plaid_function_error" where
  "error_of_code code =
     (if code = -1 then StlApiNotConfigured
      else if code = -2 then StlReturnBufferTooSmall
      else if code = -3 then StlErrorCouldNotSerialize
      else if code = -4 then StlInternalApiError
      else if code = -5 then StlParametersNotUtf8
      else if code = -6 then StlInvalidPointer
      else if code = -7 then StlCacheDisabled
      else if code = -8 then StlCouldNotGetAdequateMemory
      else if code = -9 then StlFailedToWriteGuestMemory
      else if code = -10 then StlStorageLimitReached
      else if code = -11 then StlTestMode
      else if code = -12 then StlOperationNotAllowed
      else if code = -13 then StlSharedDbError
      else if code = -14 then StlTimeoutElapsed
      else if code = -15 then StlFailedToLogBack
      else if code = -16 then StlLogbackBudgetExhausted
      else StlUnknown)"

text \<open>The cast of a variant is its position in the declaration.\<close>

fun code_of_error :: "plaid_function_error \<Rightarrow> i32" where
  "code_of_error StlApiNotConfigured = 0"
| "code_of_error StlReturnBufferTooSmall = 1"
| "code_of_error StlErrorCouldNotSerialize = 2"
| "code_of_error StlInternalApiError = 3"
| "code_of_error StlParametersNotUtf8 = 4"
| "code_of_error StlInvalidPointer = 5"
| "code_of_error StlCacheDisabled = 6"
| "code_of_error StlCouldNotGetAdequateMemory = 7"
| "code_of_error StlFailedToWriteGuestMemory = 8"
| "code_of_error StlStorageLimitReached = 9"
| "code_of_error StlTestMode = 10"
| "code_of_error StlOperationNotAllowed = 11"
| "code_of_error StlSharedDbError = 12"
| "code_of_error StlTimeoutElapsed = 13"
| "code_of_error StlUnknown = 14"
| "code_of_error StlFailedToLogBack = 15"
| "code_of_error StlLogbackBudgetExhausted = 16"

subsection \<open>The memory of a rule\<close>

type_synonym 'm allocator = "'m \<Rightarrow> bytes \<Rightarrow> ('m \<times> u32) option"

definition place ::
  "'m allocator \<Rightarrow> bytes \<Rightarrow> ('m, 'd, 'c, 'q) env \<Rightarrow> (u32 \<times> ('m, 'd, 'c, 'q) env) option" where
  "place alloc d env =
     (case env_memory env of
        None \<Rightarrow> None
      | Some m \<Rightarrow> map_option (\<lambda>(m', p). (p, env\<lparr>env_memory := Some m'\<rparr>)) (alloc m d))"

text \<open>What a rule reads in a buffer of its own.\<close>

definition buffer_at :: "'m wasm_ops \<Rightarrow> ('m, 'd, 'c, 'q) env \<Rightarrow> u32 \<Rightarrow> nat \<Rightarrow> bytes" where
  "buffer_at W env p n =
     (case env_memory env of
        None \<Rightarrow> []
      | Some m \<Rightarrow> (case view_read W m (ucast p) n of Some b \<Rightarrow> b | None \<Rightarrow> []))"

text \<open>The pointer of an empty vector, which is never followed.\<close>

definition DANGLING :: u32 where
  "DANGLING = 1"

text \<open>
  The protocol of every function that gets data from the host: ask for the size with an empty buffer,
  allocate a buffer of that size, and ask again. \<open>short\<close> is the error when the sizes differ.
\<close>

definition ask_twice ::
  "'m wasm_ops \<Rightarrow> 'm allocator
     \<Rightarrow> (('m, 'd, 'c, 'q) env \<Rightarrow> u32 \<Rightarrow> u32 \<Rightarrow> i32 \<times> ('m, 'd, 'c, 'q) env)
     \<Rightarrow> (('m, 'd, 'c, 'q) env \<Rightarrow> u32 \<Rightarrow> u32 \<Rightarrow> i32 \<times> ('m, 'd, 'c, 'q) env)
     \<Rightarrow> ('m, 'd, 'c, 'q) env \<Rightarrow> ((plaid_function_error + bytes) \<times> ('m, 'd, 'c, 'q) env) option" where
  "ask_twice W alloc probe call env =
     (let (buffer_size, env) = probe env DANGLING 0
      in if buffer_size < 0 then Some (Inl (error_of_code buffer_size), env)
         else Option.bind (place alloc (replicate (nat buffer_size) 0) env) (\<lambda>(data_buffer, env).
           let (copied_size, env) = call env data_buffer (word_of_int buffer_size)
           in if copied_size = buffer_size then Some (Inr (buffer_at W env data_buffer (nat buffer_size)), env)
              else Some (Inl StlReturnBufferTooSmall, env)))"

subsection \<open>Storage\<close>

type_synonym ('m, 'd, 'c, 'q, 'r) rule_call =
  "('m, 'd, 'c, 'q) env \<Rightarrow> ((plaid_function_error + 'r) \<times> ('m, 'd, 'c, 'q) env) option"

abbreviation len32 :: "'a list \<Rightarrow> u32" where
  "len32 xs \<equiv> word_of_nat (length xs)"

definition stl_insert :: "'m wasm_ops \<Rightarrow> 'm allocator \<Rightarrow> string \<Rightarrow> bytes \<Rightarrow> ('m, 'd, 'c, 'q, bytes) rule_call" where
  "stl_insert W alloc key val env =
     Option.bind (place alloc (as_bytes key) env) (\<lambda>(k, env).
     Option.bind (place alloc val env) (\<lambda>(v, env).
       ask_twice W alloc (\<lambda>env. fn_get W env k (len32 key)) (\<lambda>env. fn_insert W env k (len32 key) v (len32 val)) env))"

definition stl_get :: "'m wasm_ops \<Rightarrow> 'm allocator \<Rightarrow> string \<Rightarrow> ('m, 'd, 'c, 'q, bytes) rule_call" where
  "stl_get W alloc key env =
     Option.bind (place alloc (as_bytes key) env) (\<lambda>(k, env).
       ask_twice W alloc (\<lambda>env. fn_get W env k (len32 key)) (\<lambda>env. fn_get W env k (len32 key)) env)"

definition stl_delete :: "'m wasm_ops \<Rightarrow> 'm allocator \<Rightarrow> string \<Rightarrow> ('m, 'd, 'c, 'q, bytes) rule_call" where
  "stl_delete W alloc key env =
     Option.bind (place alloc (as_bytes key) env) (\<lambda>(k, env).
       ask_twice W alloc (\<lambda>env. fn_delete W env k (len32 key)) (\<lambda>env. fn_delete W env k (len32 key)) env)"

text \<open>Keys come as JSON; its decoder belongs to \<^verbatim>\<open>serde_json\<close> and is a parameter.\<close>

definition decoded :: "(bytes \<Rightarrow> string list option) \<Rightarrow> plaid_function_error + bytes \<Rightarrow> plaid_function_error + string list" where
  "decoded from_json r =
     (case r of
        Inl e \<Rightarrow> Inl e
      | Inr b \<Rightarrow> (case from_json b of Some keys \<Rightarrow> Inr keys | None \<Rightarrow> Inl StlInternalApiError))"

definition stl_list_keys ::
  "'m wasm_ops \<Rightarrow> 'm allocator \<Rightarrow> (string list \<Rightarrow> string option) \<Rightarrow> (bytes \<Rightarrow> string list option) \<Rightarrow> string option
     \<Rightarrow> ('m, 'd, 'c, 'q, string list) rule_call" where
  "stl_list_keys W alloc to_json from_json pfx env =
     (let pfx = (case pfx of Some p \<Rightarrow> p | None \<Rightarrow> [])
      in map_option (apfst (decoded from_json))
           (Option.bind (place alloc (as_bytes pfx) env) (\<lambda>(p, env).
              ask_twice W alloc (\<lambda>env. fn_list_keys W to_json env p (len32 pfx)) (\<lambda>env. fn_list_keys W to_json env p (len32 pfx)) env)))"

definition stl_insert_shared ::
  "'m wasm_ops \<Rightarrow> 'm allocator \<Rightarrow> string \<Rightarrow> string \<Rightarrow> bytes \<Rightarrow> ('m, 'd, 'c, 'q, bytes) rule_call" where
  "stl_insert_shared W alloc namespace key val env =
     Option.bind (place alloc (as_bytes namespace) env) (\<lambda>(ns, env).
     Option.bind (place alloc (as_bytes key) env) (\<lambda>(k, env).
     Option.bind (place alloc val env) (\<lambda>(v, env).
       ask_twice W alloc (\<lambda>env. fn_get_shared W env ns (len32 namespace) k (len32 key))
         (\<lambda>env. fn_insert_shared W env ns (len32 namespace) k (len32 key) v (len32 val)) env)))"

definition stl_get_shared :: "'m wasm_ops \<Rightarrow> 'm allocator \<Rightarrow> string \<Rightarrow> string \<Rightarrow> ('m, 'd, 'c, 'q, bytes) rule_call" where
  "stl_get_shared W alloc namespace key env =
     Option.bind (place alloc (as_bytes namespace) env) (\<lambda>(ns, env).
     Option.bind (place alloc (as_bytes key) env) (\<lambda>(k, env).
       ask_twice W alloc (\<lambda>env. fn_get_shared W env ns (len32 namespace) k (len32 key))
         (\<lambda>env. fn_get_shared W env ns (len32 namespace) k (len32 key)) env))"

definition stl_delete_shared :: "'m wasm_ops \<Rightarrow> 'm allocator \<Rightarrow> string \<Rightarrow> string \<Rightarrow> ('m, 'd, 'c, 'q, bytes) rule_call" where
  "stl_delete_shared W alloc namespace key env =
     Option.bind (place alloc (as_bytes namespace) env) (\<lambda>(ns, env).
     Option.bind (place alloc (as_bytes key) env) (\<lambda>(k, env).
       ask_twice W alloc (\<lambda>env. fn_delete_shared W env ns (len32 namespace) k (len32 key))
         (\<lambda>env. fn_delete_shared W env ns (len32 namespace) k (len32 key)) env))"

definition stl_list_keys_shared ::
  "'m wasm_ops \<Rightarrow> 'm allocator \<Rightarrow> (string list \<Rightarrow> string option) \<Rightarrow> (bytes \<Rightarrow> string list option) \<Rightarrow> string \<Rightarrow> string option
     \<Rightarrow> ('m, 'd, 'c, 'q, string list) rule_call" where
  "stl_list_keys_shared W alloc to_json from_json namespace pfx env =
     (let pfx = (case pfx of Some p \<Rightarrow> p | None \<Rightarrow> [])
      in map_option (apfst (decoded from_json))
           (Option.bind (place alloc (as_bytes namespace) env) (\<lambda>(ns, env).
            Option.bind (place alloc (as_bytes pfx) env) (\<lambda>(p, env).
              ask_twice W alloc (\<lambda>env. fn_list_keys_shared W to_json env ns (len32 namespace) p (len32 pfx))
                (\<lambda>env. fn_list_keys_shared W to_json env ns (len32 namespace) p (len32 pfx)) env))))"

subsection \<open>The cache\<close>

text \<open>Values are strings; that one is not UTF-8 would be a panic of the rule.\<close>

definition as_string ::
  "((plaid_function_error + bytes) \<times> 'e) option \<Rightarrow> ((plaid_function_error + string) \<times> 'e) option" where
  "as_string r =
     (case r of
        None \<Rightarrow> None
      | Some (Inl e, env) \<Rightarrow> Some (Inl e, env)
      | Some (Inr b, env) \<Rightarrow> (case from_utf8 b of Some s \<Rightarrow> Some (Inr s, env) | None \<Rightarrow> None))"

definition stl_cache_insert ::
  "'m wasm_ops \<Rightarrow> 'm allocator \<Rightarrow> (string, string, 'l) lru_ops \<Rightarrow> 'r redis_ops \<Rightarrow> timing \<Rightarrow> timing \<Rightarrow> string \<Rightarrow> string
     \<Rightarrow> ('m, 'd, ('l, 'r) cache, 'q, string) rule_call" where
  "stl_cache_insert W alloc L R tm1 tm2 key val env =
     Option.bind (place alloc (as_bytes key) env) (\<lambda>(k, env).
     Option.bind (place alloc (as_bytes val) env) (\<lambda>(v, env).
       as_string (ask_twice W alloc (\<lambda>env. fn_cache_get W L R tm1 env k (len32 key))
         (\<lambda>env. fn_cache_insert W L R tm2 env k (len32 key) v (len32 val)) env)))"

definition stl_cache_get ::
  "'m wasm_ops \<Rightarrow> 'm allocator \<Rightarrow> (string, string, 'l) lru_ops \<Rightarrow> 'r redis_ops \<Rightarrow> timing \<Rightarrow> timing \<Rightarrow> string
     \<Rightarrow> ('m, 'd, ('l, 'r) cache, 'q, string) rule_call" where
  "stl_cache_get W alloc L R tm1 tm2 key env =
     Option.bind (place alloc (as_bytes key) env) (\<lambda>(k, env).
       as_string (ask_twice W alloc (\<lambda>env. fn_cache_get W L R tm1 env k (len32 key))
         (\<lambda>env. fn_cache_get W L R tm2 env k (len32 key)) env))"

subsection \<open>Runtime data\<close>

text \<open>The getters of strings: here the error of the second call is kept.\<close>

definition ask_string ::
  "'m wasm_ops \<Rightarrow> 'm allocator \<Rightarrow> (('m, 'd, 'c, 'q) env \<Rightarrow> u32 \<Rightarrow> u32 \<Rightarrow> i32 \<times> ('m, 'd, 'c, 'q) env)
     \<Rightarrow> ('m, 'd, 'c, 'q, string) rule_call" where
  "ask_string W alloc call env =
     (let (buffer_size, env) = call env DANGLING 0
      in if buffer_size < 0 then Some (Inl (error_of_code buffer_size), env)
         else Option.bind (place alloc (replicate (nat buffer_size) 0) env) (\<lambda>(data_buffer, env).
           let (copied_size, env) = call env data_buffer (word_of_int buffer_size)
           in if copied_size < 0 then Some (Inl (error_of_code copied_size), env)
              else if copied_size \<noteq> buffer_size then Some (Inl StlInternalApiError, env)
              else (case from_utf8 (buffer_at W env data_buffer (nat buffer_size)) of
                      Some s \<Rightarrow> Some (Inr s, env)
                    | None \<Rightarrow> Some (Inl StlParametersNotUtf8, env))))"

definition stl_get_named ::
  "'m wasm_ops \<Rightarrow> 'm allocator
     \<Rightarrow> ('m wasm_ops \<Rightarrow> ('m, 'd, 'c, 'q) env \<Rightarrow> u32 \<Rightarrow> u32 \<Rightarrow> u32 \<Rightarrow> u32 \<Rightarrow> i32 \<times> ('m, 'd, 'c, 'q) env)
     \<Rightarrow> string \<Rightarrow> ('m, 'd, 'c, 'q, string) rule_call" where
  "stl_get_named W alloc getter name env =
     Option.bind (place alloc (as_bytes name) env) (\<lambda>(n, env).
       ask_string W alloc (\<lambda>env. getter W env n (len32 name)) env)"

definition stl_get_accessory_data :: "'m wasm_ops \<Rightarrow> 'm allocator \<Rightarrow> string \<Rightarrow> ('m, 'd, 'c, 'q, string) rule_call" where
  "stl_get_accessory_data W alloc = stl_get_named W alloc get_accessory_data"

definition stl_get_secrets :: "'m wasm_ops \<Rightarrow> 'm allocator \<Rightarrow> string \<Rightarrow> ('m, 'd, 'c, 'q, string) rule_call" where
  "stl_get_secrets W alloc = stl_get_named W alloc get_secrets"

definition stl_get_headers :: "'m wasm_ops \<Rightarrow> 'm allocator \<Rightarrow> string \<Rightarrow> ('m, 'd, 'c, 'q, string) rule_call" where
  "stl_get_headers W alloc = stl_get_named W alloc get_headers"

definition stl_get_query_params :: "'m wasm_ops \<Rightarrow> 'm allocator \<Rightarrow> string \<Rightarrow> ('m, 'd, 'c, 'q, string) rule_call" where
  "stl_get_query_params W alloc = stl_get_named W alloc get_query_params"

definition stl_get_response :: "'m wasm_ops \<Rightarrow> 'm allocator \<Rightarrow> ('m, 'd, 'c, 'q, string) rule_call" where
  "stl_get_response W alloc = ask_string W alloc (get_response W)"

definition stl_fetch_random_bytes ::
  "'m wasm_ops \<Rightarrow> 'm allocator \<Rightarrow> (u16 \<Rightarrow> bytes option) option \<Rightarrow> u16 \<Rightarrow> ('m, 'd, 'c, 'q, bytes) rule_call" where
  "stl_fetch_random_bytes W alloc general num_bytes env =
     Option.bind (place alloc (replicate (unat num_bytes) 0) env) (\<lambda>(random_bytes, env).
       let (ret, env) = fetch_random_bytes W general env random_bytes num_bytes
       in if ret \<noteq> int (unat num_bytes) then Some (Inl StlInternalApiError, env)
          else Some (Inr (buffer_at W env random_bytes (unat num_bytes)), env))"

subsection \<open>Logbacks\<close>

definition log_back_host_result :: "i32 \<Rightarrow> plaid_function_error + unit" where
  "log_back_host_result code = (if code = 0 then Inr () else Inl (error_of_code code))"

definition stl_log_back_with_budget ::
  "'m wasm_ops \<Rightarrow> 'm allocator \<Rightarrow> 'q channel_ops \<Rightarrow> string \<Rightarrow> string \<Rightarrow> bytes \<Rightarrow> u32 \<Rightarrow> u32
     \<Rightarrow> ('m, 'd, 'c, 'q, unit) rule_call" where
  "stl_log_back_with_budget W alloc C uuid t log dly b env =
     Option.bind (place alloc (as_bytes t) env) (\<lambda>(tp, env).
     Option.bind (place alloc log env) (\<lambda>(lp, env).
       let (code, env) = log_back W C uuid env tp (len32 t) lp (len32 log) dly b
       in Some (log_back_host_result code, env)))"

definition stl_log_back ::
  "'m wasm_ops \<Rightarrow> 'm allocator \<Rightarrow> 'q channel_ops \<Rightarrow> string \<Rightarrow> string \<Rightarrow> bytes \<Rightarrow> u32 \<Rightarrow> ('m, 'd, 'c, 'q, unit) rule_call" where
  "stl_log_back W alloc C uuid t log dly = stl_log_back_with_budget W alloc C uuid t log dly 0"

definition stl_log_back_unlimited ::
  "'m wasm_ops \<Rightarrow> 'm allocator \<Rightarrow> 'q channel_ops \<Rightarrow> string \<Rightarrow> string \<Rightarrow> bytes \<Rightarrow> u32 \<Rightarrow> ('m, 'd, 'c, 'q, unit) rule_call" where
  "stl_log_back_unlimited W alloc C uuid t log dly env =
     Option.bind (place alloc (as_bytes t) env) (\<lambda>(tp, env).
     Option.bind (place alloc log env) (\<lambda>(lp, env).
       let (code, env) = log_back_unlimited W C uuid env tp (len32 t) lp (len32 log) dly
       in Some (log_back_host_result code, env)))"

subsection \<open>Entry points\<close>

text \<open>
  The entry points the macros of \<^verbatim>\<open>src/lib.rs\<close> generate around the \<^verbatim>\<open>main\<close> of a rule, which may change its
  environment by calling the host and may trap. A failure of \<^verbatim>\<open>main\<close> is left as error context. The panic hook,
  which does the same for a panic before the trap, is not modelled.
\<close>

definition finish_main ::
  "'m wasm_ops \<Rightarrow> 'm allocator \<Rightarrow> ((string + unit) \<times> ('m, 'd, 'c, 'q) env) option \<Rightarrow> (i32 \<times> ('m, 'd, 'c, 'q) env) option" where
  "finish_main W alloc r =
     (case r of
        None \<Rightarrow> None
      | Some (Inr _, env) \<Rightarrow> Some (0, env)
      | Some (Inl e, env) \<Rightarrow>
          map_option (\<lambda>(p, env). (1, set_error_context W env p (len32 e))) (place alloc (as_bytes e) env))"

definition stl_entrypoint ::
  "'m wasm_ops \<Rightarrow> 'm allocator \<Rightarrow> (string \<Rightarrow> ('m, 'd, 'c, 'q) env \<Rightarrow> ((string + unit) \<times> ('m, 'd, 'c, 'q) env) option)
     \<Rightarrow> ('m, 'd, 'c, 'q) env \<Rightarrow> (i32 \<times> ('m, 'd, 'c, 'q) env) option" where
  "stl_entrypoint W alloc main env =
     (let (buffer_size, env) = fetch_data W env DANGLING 0
      in if buffer_size < 0 then Some (buffer_size, env)
         else Option.bind (place alloc (replicate (nat buffer_size) 0) env) (\<lambda>(data_buffer, env).
           let (copied_size, env) = fetch_data W env data_buffer (word_of_int buffer_size)
           in if copied_size < 0 then Some (copied_size, env)
              else if copied_size \<noteq> buffer_size then Some (-1, env)
              else (case from_utf8 (buffer_at W env data_buffer (nat buffer_size)) of
                      None \<Rightarrow> Some (-2, env)
                    | Some log \<Rightarrow> finish_main W alloc (main log env))))"

definition stl_entrypoint_with_source ::
  "'m wasm_ops \<Rightarrow> 'm allocator \<Rightarrow> (log_source \<Rightarrow> bytes option) \<Rightarrow> (bytes \<Rightarrow> log_source option)
     \<Rightarrow> (string \<Rightarrow> log_source \<Rightarrow> ('m, 'd, 'c, 'q) env \<Rightarrow> ((string + unit) \<times> ('m, 'd, 'c, 'q) env) option)
     \<Rightarrow> ('m, 'd, 'c, 'q) env \<Rightarrow> (i32 \<times> ('m, 'd, 'c, 'q) env) option" where
  "stl_entrypoint_with_source W alloc to_json from_json main env =
     (let (buffer_size, env) = fetch_data_and_source W to_json env DANGLING 0
      in if buffer_size < 4 then Some (-3, env)
         else Option.bind (place alloc (replicate (nat buffer_size) 0) env) (\<lambda>(data_buffer, env).
           let (copied_size, env) = fetch_data_and_source W to_json env data_buffer (word_of_int buffer_size)
           in case entrypoint_with_source from_utf8 from_json buffer_size copied_size (buffer_at W env data_buffer (nat buffer_size)) of
                None \<Rightarrow> None
              | Some (Inl code) \<Rightarrow> Some (code, env)
              | Some (Inr (log, src)) \<Rightarrow> finish_main W alloc (main log src env)))"

definition finish_main_response ::
  "'m wasm_ops \<Rightarrow> 'm allocator \<Rightarrow> ((string + string option) \<times> ('m, 'd, 'c, 'q) env) option
     \<Rightarrow> (i32 \<times> ('m, 'd, 'c, 'q) env) option" where
  "finish_main_response W alloc r =
     (case r of
        Some (Inr (Some resp), env) \<Rightarrow>
          map_option (\<lambda>(p, env). (0, set_response W env p (len32 resp))) (place alloc (as_bytes resp) env)
      | _ \<Rightarrow> finish_main W alloc (map_option (apfst (map_sum id (\<lambda>_. ()))) r))"

definition stl_entrypoint_with_source_and_response ::
  "'m wasm_ops \<Rightarrow> 'm allocator \<Rightarrow> (log_source \<Rightarrow> bytes option) \<Rightarrow> (bytes \<Rightarrow> log_source option)
     \<Rightarrow> (string \<Rightarrow> log_source \<Rightarrow> ('m, 'd, 'c, 'q) env \<Rightarrow> ((string + string option) \<times> ('m, 'd, 'c, 'q) env) option)
     \<Rightarrow> ('m, 'd, 'c, 'q) env \<Rightarrow> (i32 \<times> ('m, 'd, 'c, 'q) env) option" where
  "stl_entrypoint_with_source_and_response W alloc to_json from_json main env =
     (let (buffer_size, env) = fetch_data_and_source W to_json env DANGLING 0
      in if buffer_size < 4 then Some (-3, env)
         else Option.bind (place alloc (replicate (nat buffer_size) 0) env) (\<lambda>(data_buffer, env).
           let (copied_size, env) = fetch_data_and_source W to_json env data_buffer (word_of_int buffer_size)
           in case entrypoint_with_source from_utf8 from_json buffer_size copied_size (buffer_at W env data_buffer (nat buffer_size)) of
                None \<Rightarrow> None
              | Some (Inl code) \<Rightarrow> Some (code, env)
              | Some (Inr (log, src)) \<Rightarrow> finish_main_response W alloc (main log src env)))"

text \<open>The variant whose log need not be UTF-8; its error codes differ.\<close>

definition stl_entrypoint_vec_with_source ::
  "'m wasm_ops \<Rightarrow> 'm allocator \<Rightarrow> (log_source \<Rightarrow> bytes option) \<Rightarrow> (bytes \<Rightarrow> log_source option)
     \<Rightarrow> (bytes \<Rightarrow> log_source \<Rightarrow> ('m, 'd, 'c, 'q) env \<Rightarrow> ((string + unit) \<times> ('m, 'd, 'c, 'q) env) option)
     \<Rightarrow> ('m, 'd, 'c, 'q) env \<Rightarrow> (i32 \<times> ('m, 'd, 'c, 'q) env) option" where
  "stl_entrypoint_vec_with_source W alloc to_json from_json main env =
     (let (buffer_size, env) = fetch_data_and_source W to_json env DANGLING 0
      in if buffer_size < 4 then Some (buffer_size, env)
         else Option.bind (place alloc (replicate (nat buffer_size) 0) env) (\<lambda>(data_buffer, env).
           let (copied_size, env) = fetch_data_and_source W to_json env data_buffer (word_of_int buffer_size)
           in if copied_size < 4 then Some (copied_size, env)
              else if copied_size \<noteq> buffer_size then Some (-1, env)
              else let buf = buffer_at W env data_buffer (nat buffer_size); log_length = unat (from_le_bytes (take 4 buf))
                   in if 4 + log_length > length buf then None
                      else (case from_json (drop (4 + log_length) buf) of
                              None \<Rightarrow> Some (-2, env)
                            | Some src \<Rightarrow> finish_main W alloc (main (take log_length (drop 4 buf)) src env))))"

subsection \<open>What a rule relies on of its memory\<close>

text \<open>What a rule sees of a key in its namespace: a key that is not set looks like an empty value.\<close>

definition own_value :: "('m, in_memory_db, 'c, 'q) env \<Rightarrow> string \<Rightarrow> bytes" where
  "own_value env key = (case own_contents env key of Some v \<Rightarrow> v | None \<Rightarrow> [])"

text \<open>
  A buffer that was allocated holds its contents and stays there when others are allocated; the memory
  has room for so many more bytes, and a write of the host does not change that.
\<close>

locale guest_memory =
  fixes W :: "'m wasm_ops" and alloc :: "'m allocator" and live :: "'m \<Rightarrow> u32 \<Rightarrow> bytes \<Rightarrow> bool" and room :: "'m \<Rightarrow> nat"
  assumes mem_ok: "wasm_mem_ok W"
    and alloc_ok: "length d \<le> room m \<Longrightarrow>
      \<exists>m' p. alloc m d = Some (m', p) \<and> live m' p d \<and> room m' = room m - length d \<and> (\<forall>q e. live m q e \<longrightarrow> live m' q e)"
    and live_read: "live m p d \<Longrightarrow> view_read W m (ucast p) (length d) = Some d"
    and live_slice: "live m p d \<Longrightarrow> ptr_slice W m p (len32 d)"
    and live_string: "live m p (as_bytes s) \<Longrightarrow> utf8_valid (as_bytes s) \<Longrightarrow> read_utf8_string W m p (len32 s) = Some s"
    and live_small: "live m p d \<Longrightarrow> length d < 2 ^ 32"
    and write_room: "write_slice W m p d = Some m' \<Longrightarrow> room m' = room m"
begin

lemma live_get_string: "live m p (as_bytes s) \<Longrightarrow> utf8_valid (as_bytes s) \<Longrightarrow> safely_get_string W m p (len32 s) = Inr s"
  by (simp add: safely_get_string_def live_string)

lemma place_ok:
  assumes "env_memory env = Some m" and "length d \<le> room m"
  shows "\<exists>m' p. place alloc d env = Some (p, env\<lparr>env_memory := Some m'\<rparr>) \<and> live m' p d
    \<and> room m' = room m - length d \<and> (\<forall>q e. live m q e \<longrightarrow> live m' q e)"
proof -
  from alloc_ok [OF assms(2)] obtain m' p where m': "alloc m d = Some (m', p)" "live m' p d"
    "room m' = room m - length d" "\<forall>q e. live m q e \<longrightarrow> live m' q e" by blast
  then have "place alloc d env = Some (p, env\<lparr>env_memory := Some m'\<rparr>)" using assms(1) by (simp add: place_def)
  with m'(2-4) show ?thesis by (intro exI conjI)
qed

lemma live_value:
  assumes "live m p v" and "length v \<le> unat (calculate_max_buffer_size (page_limit (env_module env)))"
  shows "reads_value W env m p (len32 v) v"
proof -
  have u: "unat (len32 v) = length v" using live_small [OF assms(1)] by (simp add: unat_word_of_nat_u32)
  then have "\<not> len32 v > calculate_max_buffer_size (page_limit (env_module env))"
    using assms(2) by (simp add: word_less_nat_alt)
  then show ?thesis using live_read [OF assms(1)] by (simp add: reads_value_def safely_get_memory_def u)
qed

text \<open>Data handed back into a live buffer of its size arrives there.\<close>

lemma write_back_live:
  assumes "live m p d" and "length v = length d" and "length v < 2 ^ 31"
  shows "\<exists>m'. safely_write_data_back W m v p (word_of_int (int (length v))) = (Inr (int (length v)), m')
    \<and> view_read W m' (ucast p) (length v) = Some v \<and> room m' = room m"
proof (cases "v = []")
  case True
  then show ?thesis using live_read [OF assms(1)] assms(2) by (simp add: safely_write_data_back_def)
next
  case False
  have u: "unat (word_of_int (int (length v)) :: u32) = length v"
    using assms(3) by (simp add: unat_word_of_nat_u32)
  then have nz: "(word_of_int (int (length v)) :: u32) \<noteq> 0" using False by (metis length_0_conv unat_0)
  have lt: "length v < 2 ^ 32" using assms(3) by simp
  have slice: "ptr_slice W m p (len32 v)" using live_slice [OF assms(1)] assms(2) by simp
  obtain m' where w: "write_slice W m p v = Some m'" "view_read W m' (ucast p) (length v) = Some v"
    using mem_ok slice lt unfolding wasm_mem_ok_def by blast
  then show ?thesis
    using slice u nz assms(3) write_room [OF w(1)] by (simp add: safely_write_data_back_def)
qed

lemma ask_twice_place:
  assumes "probe env DANGLING 0 = (int n, env)" and "env_memory env = Some m" and "n \<le> room m"
  shows "\<exists>m' p. ask_twice W alloc probe call env =
      (let (c, env) = call (env\<lparr>env_memory := Some m'\<rparr>) p (word_of_int (int n))
       in if c = int n then Some (Inr (buffer_at W env p n), env) else Some (Inl StlReturnBufferTooSmall, env))
    \<and> live m' p (replicate n 0) \<and> room m' = room m - n \<and> (\<forall>q e. live m q e \<longrightarrow> live m' q e)"
proof -
  have "length (replicate n 0 :: bytes) \<le> room m" using assms(3) by simp
  from alloc_ok [OF this] obtain m' p where m': "alloc m (replicate n 0) = Some (m', p)" "live m' p (replicate n 0)"
    "room m' = room m - n" "\<forall>q e. live m q e \<longrightarrow> live m' q e" by auto
  have "ask_twice W alloc probe call env =
      (let (c, env) = call (env\<lparr>env_memory := Some m'\<rparr>) p (word_of_int (int n))
       in if c = int n then Some (Inr (buffer_at W env p n), env) else Some (Inl StlReturnBufferTooSmall, env))"
    using m'(1) by (simp add: ask_twice_def place_def assms(1,2) split: prod.split)
  with m'(2-4) show ?thesis by (intro exI conjI)
qed

lemma fetch_data_and_source_twice:
  assumes "env_memory env = Some m" and "to_json (source (env_message env)) = Some src"
    and "d = data_and_source (msg_data (env_message env)) src" and "length d < 2 ^ 31" and "length d \<le> room m"
  shows "\<exists>m1 m' p. fetch_data_and_source W to_json env DANGLING 0 = (int (length d), env)
    \<and> place alloc (replicate (length d) 0) env = Some (p, env\<lparr>env_memory := Some m1\<rparr>)
    \<and> fetch_data_and_source W to_json (env\<lparr>env_memory := Some m1\<rparr>) p (word_of_int (int (length d))) =
        (int (length d), env\<lparr>env_memory := Some m'\<rparr>)
    \<and> buffer_at W (env\<lparr>env_memory := Some m'\<rparr>) p (length d) = d"
proof -
  have call: "fetch_data_and_source W to_json (env\<lparr>env_memory := Some m1\<rparr>) q n = write_back W (env\<lparr>env_memory := Some m1\<rparr>) m1 d q n" for m1 q n
    using assms(2,3) by (simp add: fetch_data_and_source_def get_memory_def data_and_source_def Let_def)
  have same: "env\<lparr>env_memory := Some m\<rparr> = env" using assms(1) by simp
  have probe: "fetch_data_and_source W to_json env DANGLING 0 = (int (length d), env)"
    using call [of m DANGLING 0] assms(4) unfolding same by (simp add: write_back_def write_back_probe same)
  have "length (replicate (length d) 0 :: bytes) \<le> room m" using assms(5) by simp
  from place_ok [OF assms(1) this] obtain m1 p where m1: "place alloc (replicate (length d) 0) env = Some (p, env\<lparr>env_memory := Some m1\<rparr>)"
    "live m1 p (replicate (length d) 0)" by (elim exE conjE)
  obtain m' where m': "safely_write_data_back W m1 d p (word_of_int (int (length d))) = (Inr (int (length d)), m')"
    "view_read W m' (ucast p) (length d) = Some d"
    using write_back_live [OF m1(2)] assms(4) by auto
  have "fetch_data_and_source W to_json (env\<lparr>env_memory := Some m1\<rparr>) p (word_of_int (int (length d))) =
        (int (length d), env\<lparr>env_memory := Some m'\<rparr>)"
    unfolding call write_back_def m'(1) by simp
  moreover have "buffer_at W (env\<lparr>env_memory := Some m'\<rparr>) p (length d) = d" using m'(2) by (simp add: buffer_at_def)
  ultimately show ?thesis using probe m1(1) by (intro exI conjI)
qed

lemma fn_get_probe:
  assumes "guest_ready env st m" and "live m k (as_bytes key)" and "utf8_valid (as_bytes key)"
    and "length (own_value env key) < 2 ^ 31"
  shows "fn_get W env k (len32 key) DANGLING 0 = (int (length (own_value env key)), env)"
proof -
  have "env\<lparr>env_memory := Some m\<rparr> = env" using assms(1) by (simp add: guest_ready_def)
  then show ?thesis
    using assms(4) fn_get_ready [OF assms(1) live_get_string [OF assms(2,3)], of DANGLING 0]
    by (cases "own_contents env key") (simp_all add: write_back_probe own_value_def)
qed

lemma fn_get_fill:
  assumes "guest_ready env st m" and "live m k (as_bytes key)" and "utf8_valid (as_bytes key)"
    and "length (own_value env key) < 2 ^ 31" and "live m p (replicate (length (own_value env key)) 0)"
  shows "\<exists>m'. fn_get W env k (len32 key) p (word_of_int (int (length (own_value env key)))) =
      (int (length (own_value env key)), env\<lparr>env_memory := Some m'\<rparr>)
    \<and> view_read W m' (ucast p) (length (own_value env key)) = Some (own_value env key) \<and> room m' = room m"
proof (cases "own_contents env key")
  case None
  have "env\<lparr>env_memory := Some m\<rparr> = env" using assms(1) by (simp add: guest_ready_def)
  then show ?thesis
    using live_read [OF assms(5)] None fn_get_ready [OF assms(1) live_get_string [OF assms(2,3)]]
    by (intro exI [of _ m]) (simp add: own_value_def)
next
  case (Some v)
  then have v: "own_value env key = v" by (simp add: own_value_def)
  obtain m' where m': "safely_write_data_back W m v p (word_of_int (int (length v))) = (Inr (int (length v)), m')"
    "view_read W m' (ucast p) (length v) = Some v" "room m' = room m"
    using write_back_live [OF assms(5)] assms(4) unfolding v by auto
  then show ?thesis
    using fn_get_ready [OF assms(1) live_get_string [OF assms(2,3)], of p "word_of_int (int (length v))"] Some
    unfolding v by (intro exI [of _ m']) simp
qed

lemma guest_ready_memory: "guest_ready env st m \<Longrightarrow> guest_ready (env\<lparr>env_memory := Some m'\<rparr>) st m'"
  by (simp add: guest_ready_def)

lemma own_value_memory [simp]: "own_value (env\<lparr>env_memory := x\<rparr>) key = own_value env key"
  by (simp add: own_value_def)

lemma stl_get_ok:
  assumes "guest_ready env st m" and "utf8_valid (as_bytes key)" and "length (own_value env key) < 2 ^ 31"
    and "length key + length (own_value env key) \<le> room m"
  shows "\<exists>m'. stl_get W alloc key env = Some (Inr (own_value env key), env\<lparr>env_memory := Some m'\<rparr>)
    \<and> room m' = room m - length key - length (own_value env key)"
proof -
  have mem: "env_memory env = Some m" using assms(1) by (simp add: guest_ready_def)
  have "length (as_bytes key) \<le> room m" using assms(4) by simp
  from place_ok [OF mem this] obtain m1 k where m1: "place alloc (as_bytes key) env = Some (k, env\<lparr>env_memory := Some m1\<rparr>)"
    "live m1 k (as_bytes key)" "room m1 = room m - length (as_bytes key)" by (elim exE conjE)
  let ?env = "env\<lparr>env_memory := Some m1\<rparr>" and ?v = "own_value env key"
  let ?get = "\<lambda>env. fn_get W env k (len32 key)"
  have probe: "?get ?env DANGLING 0 = (int (length ?v), ?env)"
    using fn_get_probe [OF guest_ready_memory [OF assms(1)] m1(2) assms(2)] assms(3) by simp
  have fits: "length ?v \<le> room m1" using m1(3) assms(4) by simp
  have mem1: "env_memory ?env = Some m1" by simp
  obtain m2 p where m2: "ask_twice W alloc ?get ?get ?env =
      (let (c, env) = ?get (?env\<lparr>env_memory := Some m2\<rparr>) p (word_of_int (int (length ?v)))
       in if c = int (length ?v) then Some (Inr (buffer_at W env p (length ?v)), env) else Some (Inl StlReturnBufferTooSmall, env))"
    and live2: "live m2 p (replicate (length ?v) 0)" "room m2 = room m1 - length ?v" "\<forall>q e. live m1 q e \<longrightarrow> live m2 q e"
    using ask_twice_place [of ?get ?env "length ?v" m1 ?get, OF probe mem1 fits] by (elim exE conjE)
  have "live m2 k (as_bytes key)" using live2(3) m1(2) by blast
  from fn_get_fill [OF guest_ready_memory [OF assms(1)] this assms(2), unfolded own_value_memory, OF assms(3) live2(1)]
  obtain m' where m': "?get (env\<lparr>env_memory := Some m2\<rparr>) p (word_of_int (int (length ?v))) =
      (int (length ?v), env\<lparr>env_memory := Some m2, env_memory := Some m'\<rparr>)" "view_read W m' (ucast p) (length ?v) = Some ?v" "room m' = room m2"
    by (elim exE conjE)
  have "stl_get W alloc key env = Some (Inr ?v, env\<lparr>env_memory := Some m'\<rparr>)"
    using m1(1) m2 m'(1,2) by (simp add: stl_get_def buffer_at_def)
  moreover have "room m' = room m - length key - length ?v" using m1(3) live2(2) m'(3) by simp
  ultimately show ?thesis by blast
qed

lemma fn_insert_refused:
  assumes "guest_ready env st m" and "live m k (as_bytes key)" and "utf8_valid (as_bytes key)"
    and "reads_value W env m q n val" and "\<not> poisoned (storage_current (env_module env))"
    and "accounted (own_contents env) (storage_limit (env_module env)) (storage_current (env_module env))"
    and "over_limit (own_contents env) (storage_limit (env_module env)) key val"
  shows "fn_insert W env k (len32 key) q n p l = (error_code StorageLimitReached, env)"
proof -
  have env: "env_storage env = Some st" "env_memory env = Some m" "vtable st = in_memory_provider" "im_inv (database st)"
    using assms(1) by (simp_all add: guest_ready_def)
  show ?thesis
    using im_insertion_refused [OF env(3,4) assms(5)] assms(6,7)
    unfolding fn_insert_ready [OF assms(1) live_get_string [OF assms(2,3)] assms(4)]
    by (simp add: insert_common_def env)
qed

lemma fn_insert_fill:
  assumes "guest_ready env st m" and "live m k (as_bytes key)" and "utf8_valid (as_bytes key)"
    and "reads_value W env m q n val" and "\<not> poisoned (storage_current (env_module env))"
    and "accounted (own_contents env) (storage_limit (env_module env)) (storage_current (env_module env))"
    and "\<not> over_limit (own_contents env) (storage_limit (env_module env)) key val"
    and "length (own_value env key) < 2 ^ 31" and "live m p (replicate (length (own_value env key)) 0)"
  shows "\<exists>env' st' m'. fn_insert W env k (len32 key) q n p (word_of_int (int (length (own_value env key)))) =
      (int (length (own_value env key)), env')
    \<and> view_read W m' (ucast p) (length (own_value env key)) = Some (own_value env key) \<and> room m' = room m
    \<and> guest_ready env' st' m' \<and> mod_name (env_module env') = mod_name (env_module env)
    \<and> own_contents env' = (own_contents env)(key \<mapsto> val)"
proof -
  let ?pm = "env_module env" and ?v = "own_value env key" and ?m = "own_contents env"
  have env: "env_storage env = Some st" "env_memory env = Some m" "vtable st = in_memory_provider" "im_inv (database st)"
    using assms(1) by (simp_all add: guest_ready_def)
  obtain st' c' where ins: "insertion_result st (mod_name ?pm) key val (storage_limit ?pm) (storage_current ?pm)
        = Inr (Inr (?m key), st', c')"
      and st': "im_contents (database st') = (im_contents (database st))(mod_name ?pm := ?m(key \<mapsto> val))"
        "vtable st' = in_memory_provider" "im_inv (database st')"
    using im_insertion_done [OF env(3,4) assms(5), of "mod_name ?pm" "storage_limit ?pm" key val] assms(6,7)
    unfolding env(1) option.sel by blast
  let ?upd = "\<lambda>m'. env\<lparr>env_memory := Some m', env_storage := Some st', env_module := ?pm\<lparr>storage_current := c'\<rparr>\<rparr>"
  obtain m' where wb: "safely_write_data_back W m ?v p (word_of_int (int (length ?v))) = (Inr (int (length ?v)), m')"
    "view_read W m' (ucast p) (length ?v) = Some ?v" "room m' = room m"
    using write_back_live [OF assms(9)] assms(8) by auto
  have call: "fn_insert W env k (len32 key) q n p l =
      (case return_to_guest W m p l (Inr (?m key)) of (code, m') \<Rightarrow> (code, ?upd m'))" for l
    unfolding fn_insert_ready [OF assms(1) live_get_string [OF assms(2,3)] assms(4)]
    by (simp add: insert_common_def ins Let_def split: prod.split)
  have read: "view_read W m (ucast p) (length ?v) = Some (replicate (length ?v) 0)"
    using live_read [OF assms(9)] by simp
  define mf where "mf = (case ?m key of None \<Rightarrow> m | Some _ \<Rightarrow> m')"
  have "fn_insert W env k (len32 key) q n p (word_of_int (int (length ?v))) = (int (length ?v), ?upd mf)"
    using wb(1) unfolding call by (cases "?m key") (simp_all add: return_to_guest_def mf_def own_value_def)
  moreover have "view_read W mf (ucast p) (length ?v) = Some ?v" "room mf = room m"
    using wb(2,3) read by (cases "?m key"; simp add: mf_def own_value_def)+
  moreover have "guest_ready (?upd mf) st' mf" "own_contents (?upd mf) = ?m(key \<mapsto> val)"
    "mod_name (env_module (?upd mf)) = mod_name ?pm"
    using st' by (simp_all add: guest_ready_def)
  ultimately show ?thesis by (intro exI conjI)
qed

text \<open>The start of an insertion: both buffers are placed, the old value is measured, and room is made for it.\<close>

lemma stl_insert_calls:
  assumes "guest_ready env st m" and "utf8_valid (as_bytes key)" and "length (own_value env key) < 2 ^ 31"
    and "length val \<le> unat (calculate_max_buffer_size (page_limit (env_module env)))"
    and "length key + length val + length (own_value env key) \<le> room m"
  shows "\<exists>m' k q p. stl_insert W alloc key val env =
      (let (c, e) = fn_insert W (env\<lparr>env_memory := Some m'\<rparr>) k (len32 key) q (len32 val) p (word_of_int (int (length (own_value env key))))
       in if c = int (length (own_value env key)) then Some (Inr (buffer_at W e p (length (own_value env key))), e)
          else Some (Inl StlReturnBufferTooSmall, e))
    \<and> live m' k (as_bytes key) \<and> reads_value W (env\<lparr>env_memory := Some m'\<rparr>) m' q (len32 val) val
    \<and> live m' p (replicate (length (own_value env key)) 0)
    \<and> room m' = room m - length key - length val - length (own_value env key)"
proof -
  let ?v = "own_value env key"
  have mem: "env_memory env = Some m" using assms(1) by (simp add: guest_ready_def)
  have "length (as_bytes key) \<le> room m" using assms(5) by simp
  from place_ok [OF mem this] obtain m1 k where m1: "place alloc (as_bytes key) env = Some (k, env\<lparr>env_memory := Some m1\<rparr>)"
    "live m1 k (as_bytes key)" "room m1 = room m - length (as_bytes key)" by (elim exE conjE)
  have mem1: "env_memory (env\<lparr>env_memory := Some m1\<rparr>) = Some m1" "length val \<le> room m1" using m1(3) assms(5) by simp_all
  from place_ok [OF this] obtain m2 q where m2: "place alloc val (env\<lparr>env_memory := Some m1\<rparr>) = Some (q, env\<lparr>env_memory := Some m1, env_memory := Some m2\<rparr>)"
    "live m2 q val" "room m2 = room m1 - length val" "\<forall>q e. live m1 q e \<longrightarrow> live m2 q e" by (elim exE conjE)
  have key2: "live m2 k (as_bytes key)" using m1(2) m2(4) by blast
  let ?env = "env\<lparr>env_memory := Some m2\<rparr>"
  let ?get = "\<lambda>env. fn_get W env k (len32 key)" and ?ins = "\<lambda>env. fn_insert W env k (len32 key) q (len32 val)"
  have probe: "?get ?env DANGLING 0 = (int (length ?v), ?env)"
    using fn_get_probe [OF guest_ready_memory [OF assms(1)] key2 assms(2)] assms(3) by simp
  have mem2: "env_memory ?env = Some m2" "length ?v \<le> room m2" using m1(3) m2(3) assms(5) by simp_all
  obtain m3 p where ask: "ask_twice W alloc ?get ?ins ?env =
      (let (c, e) = ?ins (?env\<lparr>env_memory := Some m3\<rparr>) p (word_of_int (int (length ?v)))
       in if c = int (length ?v) then Some (Inr (buffer_at W e p (length ?v)), e) else Some (Inl StlReturnBufferTooSmall, e))"
    and m3: "live m3 p (replicate (length ?v) 0)" "room m3 = room m2 - length ?v" "\<forall>q e. live m2 q e \<longrightarrow> live m3 q e"
    using ask_twice_place [of ?get ?env "length ?v" m2 ?ins, OF probe mem2] by (elim exE conjE)
  have "stl_insert W alloc key val env =
      (let (c, e) = ?ins (env\<lparr>env_memory := Some m3\<rparr>) p (word_of_int (int (length ?v)))
       in if c = int (length ?v) then Some (Inr (buffer_at W e p (length ?v)), e) else Some (Inl StlReturnBufferTooSmall, e))"
    using ask by (simp add: stl_insert_def m1(1) m2(1))
  moreover have "live m3 k (as_bytes key)" using key2 m3(3) by blast
  moreover have "reads_value W (env\<lparr>env_memory := Some m3\<rparr>) m3 q (len32 val) val"
    using live_value [of m3 q val "env\<lparr>env_memory := Some m3\<rparr>"] m2(2) m3(3) assms(4) by simp
  moreover have "room m3 = room m - length key - length val - length ?v" using m1(3) m2(3) m3(2) by simp
  ultimately show ?thesis using m3(1) by (intro exI conjI)
qed

lemma stl_insert_refused:
  assumes "guest_ready env st m" and "utf8_valid (as_bytes key)" and "length (own_value env key) < 2 ^ 31"
    and "length val \<le> unat (calculate_max_buffer_size (page_limit (env_module env)))"
    and "length key + length val + length (own_value env key) \<le> room m"
    and "\<not> poisoned (storage_current (env_module env))"
    and "accounted (own_contents env) (storage_limit (env_module env)) (storage_current (env_module env))"
    and "over_limit (own_contents env) (storage_limit (env_module env)) key val"
  shows "\<exists>m'. stl_insert W alloc key val env = Some (Inl StlReturnBufferTooSmall, env\<lparr>env_memory := Some m'\<rparr>)"
proof -
  obtain m' k q p where calls: "stl_insert W alloc key val env =
      (let (c, e) = fn_insert W (env\<lparr>env_memory := Some m'\<rparr>) k (len32 key) q (len32 val) p (word_of_int (int (length (own_value env key))))
       in if c = int (length (own_value env key)) then Some (Inr (buffer_at W e p (length (own_value env key))), e)
          else Some (Inl StlReturnBufferTooSmall, e))"
    and m': "live m' k (as_bytes key)" "reads_value W (env\<lparr>env_memory := Some m'\<rparr>) m' q (len32 val) val"
    using stl_insert_calls [OF assms(1-5)] by (elim exE conjE)
  have "fn_insert W (env\<lparr>env_memory := Some m'\<rparr>) k (len32 key) q (len32 val) p l =
      (error_code StorageLimitReached, env\<lparr>env_memory := Some m'\<rparr>)" for l
    using fn_insert_refused [OF guest_ready_memory [OF assms(1)] m'(1) assms(2) m'(2)] assms(6-8) by simp
  then show ?thesis unfolding calls by (intro exI [of _ m']) simp
qed

lemma stl_insert_ok:
  assumes "guest_ready env st m" and "utf8_valid (as_bytes key)" and "length (own_value env key) < 2 ^ 31"
    and "length val \<le> unat (calculate_max_buffer_size (page_limit (env_module env)))"
    and "length key + length val + length (own_value env key) \<le> room m"
    and "\<not> poisoned (storage_current (env_module env))"
    and "accounted (own_contents env) (storage_limit (env_module env)) (storage_current (env_module env))"
    and "\<not> over_limit (own_contents env) (storage_limit (env_module env)) key val"
  shows "\<exists>env' st' m'. stl_insert W alloc key val env = Some (Inr (own_value env key), env')
    \<and> guest_ready env' st' m' \<and> room m' = room m - length key - length val - length (own_value env key)
    \<and> mod_name (env_module env') = mod_name (env_module env)
    \<and> own_contents env' = (own_contents env)(key \<mapsto> val)"
proof -
  let ?v = "own_value env key"
  obtain m1 k q p where calls: "stl_insert W alloc key val env =
      (let (c, e) = fn_insert W (env\<lparr>env_memory := Some m1\<rparr>) k (len32 key) q (len32 val) p (word_of_int (int (length ?v)))
       in if c = int (length ?v) then Some (Inr (buffer_at W e p (length ?v)), e)
          else Some (Inl StlReturnBufferTooSmall, e))"
    and m1: "live m1 k (as_bytes key)" "reads_value W (env\<lparr>env_memory := Some m1\<rparr>) m1 q (len32 val) val"
      "live m1 p (replicate (length ?v) 0)" "room m1 = room m - length key - length val - length ?v"
    using stl_insert_calls [OF assms(1-5)] by (elim exE conjE)
  have "\<exists>env' st' m'. fn_insert W (env\<lparr>env_memory := Some m1\<rparr>) k (len32 key) q (len32 val) p (word_of_int (int (length ?v))) =
      (int (length ?v), env')
    \<and> view_read W m' (ucast p) (length ?v) = Some ?v \<and> room m' = room m1
    \<and> guest_ready env' st' m' \<and> mod_name (env_module env') = mod_name (env_module env)
    \<and> own_contents env' = (own_contents env)(key \<mapsto> val)"
    using fn_insert_fill [OF guest_ready_memory [OF assms(1)] m1(1) assms(2) m1(2)] assms(3,6-8) m1(3) by simp
  then obtain env' st' m' where ins: "fn_insert W (env\<lparr>env_memory := Some m1\<rparr>) k (len32 key) q (len32 val) p (word_of_int (int (length ?v))) =
      (int (length ?v), env')"
    and m': "view_read W m' (ucast p) (length ?v) = Some ?v" "room m' = room m1" "guest_ready env' st' m'"
      "mod_name (env_module env') = mod_name (env_module env)" "own_contents env' = (own_contents env)(key \<mapsto> val)"
    by (elim exE conjE)
  have "buffer_at W env' p (length ?v) = ?v" using m'(1,3) by (simp add: buffer_at_def guest_ready_def)
  then have "stl_insert W alloc key val env = Some (Inr ?v, env')" unfolding calls ins by simp
  then show ?thesis using m' m1(4) by (intro exI [of _ env'] exI [of _ st'] exI [of _ m'] conjI) simp_all
qed

lemma fn_delete_probe:
  assumes "guest_ready env st m" and "live m k (as_bytes key)" and "utf8_valid (as_bytes key)"
    and "length (own_value env key) < 2 ^ 31"
  shows "fn_delete W env k (len32 key) p 0 = (int (length (own_value env key)), env)"
proof -
  have env: "env_storage env = Some st" "env_memory env = Some m" "vtable st = in_memory_provider" "im_inv (database st)"
    using assms(1) by (simp_all add: guest_ready_def)
  show ?thesis
    unfolding fn_delete_ready [OF assms(1) live_get_string [OF assms(2,3)]]
    using assms(4) by (cases "own_contents env key")
      (simp_all add: delete_common_def deletion_result_def storage_ops in_memory_get_eq env return_to_guest_def
        write_back_probe own_value_def)
qed

lemma fn_delete_fill:
  assumes "guest_ready env st m" and "live m k (as_bytes key)" and "utf8_valid (as_bytes key)"
    and "\<not> poisoned (storage_current (env_module env))"
    and "own_contents env key = Some v" and "v \<noteq> []" and "length v < 2 ^ 31" and "live m p (replicate (length v) 0)"
  shows "\<exists>env' m'. fn_delete W env k (len32 key) p (word_of_int (int (length v))) = (int (length v), env')
    \<and> env_memory env' = Some m' \<and> view_read W m' (ucast p) (length v) = Some v
    \<and> own_contents env' = (own_contents env)(key := None)"
proof -
  let ?pm = "env_module env" and ?m = "own_contents env"
  have env: "env_storage env = Some st" "env_memory env = Some m" "vtable st = in_memory_provider" "im_inv (database st)"
    using assms(1) by (simp_all add: guest_ready_def)
  have "unat (word_of_int (int (length v)) :: u32) = length v" using assms(7) by (simp add: unat_word_of_nat_u32)
  then have nz: "(word_of_int (int (length v)) :: u32) \<noteq> 0" using assms(6) by (metis length_0_conv unat_0)
  obtain st' c' where dr: "deletion_result st (mod_name ?pm) key (word_of_int (int (length v))) (storage_limit ?pm) (storage_current ?pm)
      = Inr (Inr (?m key), st', c')"
    and st': "im_contents (database st') = (im_contents (database st))(mod_name ?pm := ?m(key := None))"
    using im_deletion_done [OF env(3,4) assms(4) nz, of "mod_name ?pm" key "storage_limit ?pm"]
    unfolding env(1) option.sel by blast
  obtain m' where "safely_write_data_back W m v p (word_of_int (int (length v))) = (Inr (int (length v)), m')"
    "view_read W m' (ucast p) (length v) = Some v"
    using write_back_live [OF assms(8)] assms(7) by auto
  then show ?thesis
    unfolding fn_delete_ready [OF assms(1) live_get_string [OF assms(2,3)]] delete_common_def
    using st' assms(5) by (intro exI [of _ m'] exI [of _ "env\<lparr>env_memory := Some m', env_storage := Some st',
      env_module := ?pm\<lparr>storage_current := c'\<rparr>\<rparr>"]) (simp add: dr return_to_guest_def Let_def del: of_int_of_nat_eq)
qed

lemma stl_delete_calls:
  assumes "guest_ready env st m" and "utf8_valid (as_bytes key)" and "length (own_value env key) < 2 ^ 31"
    and "length key + length (own_value env key) \<le> room m"
  shows "\<exists>m' k p. stl_delete W alloc key env =
      (let (c, e) = fn_delete W (env\<lparr>env_memory := Some m'\<rparr>) k (len32 key) p (word_of_int (int (length (own_value env key))))
       in if c = int (length (own_value env key)) then Some (Inr (buffer_at W e p (length (own_value env key))), e)
          else Some (Inl StlReturnBufferTooSmall, e))
    \<and> live m' k (as_bytes key) \<and> live m' p (replicate (length (own_value env key)) 0)"
proof -
  let ?v = "own_value env key"
  have mem: "env_memory env = Some m" using assms(1) by (simp add: guest_ready_def)
  have "length (as_bytes key) \<le> room m" using assms(4) by simp
  from place_ok [OF mem this] obtain m1 k where m1: "place alloc (as_bytes key) env = Some (k, env\<lparr>env_memory := Some m1\<rparr>)"
    "live m1 k (as_bytes key)" "room m1 = room m - length (as_bytes key)" by (elim exE conjE)
  let ?env = "env\<lparr>env_memory := Some m1\<rparr>"
  let ?del = "\<lambda>env. fn_delete W env k (len32 key)"
  have probe: "?del ?env DANGLING 0 = (int (length ?v), ?env)"
    using fn_delete_probe [OF guest_ready_memory [OF assms(1)] m1(2) assms(2)] assms(3) by simp
  have mem1: "env_memory ?env = Some m1" "length ?v \<le> room m1" using m1(3) assms(4) by simp_all
  obtain m2 p where ask: "ask_twice W alloc ?del ?del ?env =
      (let (c, e) = ?del (?env\<lparr>env_memory := Some m2\<rparr>) p (word_of_int (int (length ?v)))
       in if c = int (length ?v) then Some (Inr (buffer_at W e p (length ?v)), e) else Some (Inl StlReturnBufferTooSmall, e))"
    and m2: "live m2 p (replicate (length ?v) 0)" "\<forall>q e. live m1 q e \<longrightarrow> live m2 q e"
    using ask_twice_place [of ?del ?env "length ?v" m1 ?del, OF probe mem1] by (elim exE conjE)
  have "stl_delete W alloc key env =
      (let (c, e) = ?del (env\<lparr>env_memory := Some m2\<rparr>) p (word_of_int (int (length ?v)))
       in if c = int (length ?v) then Some (Inr (buffer_at W e p (length ?v)), e) else Some (Inl StlReturnBufferTooSmall, e))"
    using ask by (simp add: stl_delete_def m1(1))
  moreover have "live m2 k (as_bytes key)" using m1(2) m2(2) by blast
  ultimately show ?thesis using m2(1) by (intro exI conjI)
qed

lemma stl_delete_ok:
  assumes "guest_ready env st m" and "utf8_valid (as_bytes key)" and "length (own_value env key) < 2 ^ 31"
    and "length key + length (own_value env key) \<le> room m" and "\<not> poisoned (storage_current (env_module env))"
  shows "\<exists>env'. stl_delete W alloc key env = Some (Inr (own_value env key), env')
    \<and> own_contents env' = (if own_value env key = [] then own_contents env else (own_contents env)(key := None))"
proof -
  let ?v = "own_value env key"
  obtain m1 k p where calls: "stl_delete W alloc key env =
      (let (c, e) = fn_delete W (env\<lparr>env_memory := Some m1\<rparr>) k (len32 key) p (word_of_int (int (length ?v)))
       in if c = int (length ?v) then Some (Inr (buffer_at W e p (length ?v)), e)
          else Some (Inl StlReturnBufferTooSmall, e))"
    and m1: "live m1 k (as_bytes key)" "live m1 p (replicate (length ?v) 0)"
    using stl_delete_calls [OF assms(1-4)] by (elim exE conjE)
  let ?env = "env\<lparr>env_memory := Some m1\<rparr>"
  have ready: "guest_ready ?env st m1" by (rule guest_ready_memory [OF assms(1)])
  show ?thesis
  proof (cases "?v = []")
    case True
    have "fn_delete W ?env k (len32 key) p 0 = (0, ?env)"
      using fn_delete_probe [OF ready m1(1) assms(2), of p] assms(3) True by simp
    then show ?thesis
      using live_read [OF m1(2)] True unfolding calls by (intro exI [of _ ?env]) (simp add: buffer_at_def)
  next
    case False
    then have some: "own_contents ?env key = Some ?v" by (auto simp: own_value_def split: option.splits)
    obtain env' m' where "fn_delete W ?env k (len32 key) p (word_of_int (int (length ?v))) = (int (length ?v), env')"
      and m': "env_memory env' = Some m'" "view_read W m' (ucast p) (length ?v) = Some ?v"
      "own_contents env' = (own_contents ?env)(key := None)"
      using fn_delete_fill [OF ready m1(1) assms(2) _ some False assms(3) m1(2)] assms(5) by auto
    then show ?thesis
      using False unfolding calls by (intro exI [of _ env']) (simp add: buffer_at_def del: of_int_of_nat_eq)
  qed
qed

end

subsection \<open>A linear memory\<close>

text \<open>A flat memory with UTF-8 strings, in which buffers are allocated one after the other and never freed.\<close>

definition linear_read_string :: "bytes \<Rightarrow> u32 \<Rightarrow> u32 \<Rightarrow> string option" where
  "linear_read_string m p n = Option.bind (flat_read m (ucast p) (unat n)) from_utf8"

definition linear_ops :: "bytes wasm_ops" where
  "linear_ops = flat_ops\<lparr>read_utf8_string := linear_read_string\<rparr>"

definition linear_room :: "bytes \<Rightarrow> nat" where
  "linear_room m = 2 ^ 32 - 1 - length m"

definition bump :: "bytes allocator" where
  "bump m d = (if length d \<le> linear_room m then Some (m @ d, len32 m) else None)"

definition linear_live :: "bytes \<Rightarrow> u32 \<Rightarrow> bytes \<Rightarrow> bool" where
  "linear_live m p d \<longleftrightarrow> length d < 2 ^ 32 \<and> unat p + length d \<le> length m \<and> take (length d) (drop (unat p) m) = d"

lemma linear_ops_sel [simp]:
  "view_read linear_ops = flat_read" "read_utf8_string linear_ops = linear_read_string"
  "ptr_slice linear_ops = (\<lambda>m p n. unat p + unat n \<le> length m)" "write_slice linear_ops = flat_write"
  by (simp_all add: linear_ops_def)

lemma as_bytes_from_utf8:
  assumes "from_utf8 b = Some s"
  shows "as_bytes s = b"
  using assms by (auto simp: from_utf8_def as_bytes_def o_def split: if_splits)

lemma wasm_mem_ok_linear: "wasm_mem_ok linear_ops"
proof -
  have "linear_read_string m p n = Some s \<Longrightarrow> flat_read m (ucast p) (unat n) = Some (as_bytes s)" for m p n s
    by (auto simp: linear_read_string_def as_bytes_from_utf8 split: bind_splits)
  then show ?thesis using wasm_mem_ok_flat by (auto simp: wasm_mem_ok_def)
qed

lemma linear_live_append: "linear_live m p d \<Longrightarrow> linear_live (m @ e) p d"
  by (auto simp: linear_live_def)

lemma bump_ok:
  assumes "length d \<le> linear_room m"
  shows "bump m d = Some (m @ d, len32 m)" "linear_live (m @ d) (len32 m) d" "linear_room (m @ d) = linear_room m - length d"
proof -
  show "bump m d = Some (m @ d, len32 m)" using assms by (simp add: bump_def)
  show "linear_room (m @ d) = linear_room m - length d" by (simp add: linear_room_def)
  show "linear_live (m @ d) (len32 m) d"
  proof (cases "d = []")
    case True
    have "unat (len32 m) \<le> length m" by (simp add: unat_of_nat)
    then show ?thesis by (simp add: linear_live_def True)
  next
    case False
    then have "length m + length d < 2 ^ 32" using assms by (cases d) (auto simp: linear_room_def)
    then have "unat (len32 m) = length m" "length d < 2 ^ 32" by (simp_all add: unat_word_of_nat_u32)
    then show ?thesis by (simp add: linear_live_def)
  qed
qed

lemma linear_live_facts:
  assumes "linear_live m p d"
  shows "flat_read m (ucast p) (length d) = Some d" "unat p + unat (len32 d) \<le> length m"
    "flat_read m (ucast p) (unat (len32 d)) = Some d"
proof -
  have u: "unat (len32 d) = length d" using assms by (simp add: linear_live_def unat_word_of_nat_u32)
  show "flat_read m (ucast p) (length d) = Some d" using assms by (simp add: linear_live_def flat_read_def)
  then show "flat_read m (ucast p) (unat (len32 d)) = Some d" by (simp add: u)
  show "unat p + unat (len32 d) \<le> length m" using assms by (simp add: linear_live_def u)
qed

interpretation lin: guest_memory linear_ops bump linear_live linear_room
proof
  show "wasm_mem_ok linear_ops" by (rule wasm_mem_ok_linear)
  show "\<exists>m' p. bump m d = Some (m', p) \<and> linear_live m' p d \<and> linear_room m' = linear_room m - length d \<and>
      (\<forall>q e. linear_live m q e \<longrightarrow> linear_live m' q e)" if "length d \<le> linear_room m" for m d
    using bump_ok [OF that] linear_live_append by blast
  show "view_read linear_ops m (ucast p) (length d) = Some d" if "linear_live m p d" for m p d
    using linear_live_facts [OF that] by simp
  show "ptr_slice linear_ops m p (len32 d)" if "linear_live m p d" for m p d
    using linear_live_facts [OF that] by simp
  show "read_utf8_string linear_ops m p (len32 s) = Some s"
    if "linear_live m p (as_bytes s)" and "utf8_valid (as_bytes s)" for m p s
    using linear_live_facts(3) [OF that(1)] that(2) by (simp add: linear_read_string_def from_utf8_as_bytes)
  show "length d < 2 ^ 32" if "linear_live m p d" for m p and d :: bytes
    using that by (simp add: linear_live_def)
  show "linear_room m' = linear_room m" if "write_slice linear_ops m p d = Some m'" for m p d m'
    using that by (auto simp: flat_write_def linear_room_def split: if_splits)
qed

subsection \<open>Properties\<close>

text \<open>
  C21. A rule is run on the message it was started for: its entry point calls \<^verbatim>\<open>main\<close> exactly with the log and
  the source of the message, and the code it ends with is 0 or 1 according to the result of \<^verbatim>\<open>main\<close>; the text of
  an error becomes the error context of the execution.
\<close>

theorem entrypoint_runs_main:
  assumes "guest_memory W alloc live room" and "env_memory env = Some m"
    and "to_json (source (env_message env)) = Some src" and "from_json src = Some (source (env_message env))"
    and "from_utf8 (msg_data (env_message env)) = Some log"
    and "4 + length (msg_data (env_message env)) + length src < 2 ^ 31"
    and "4 + length (msg_data (env_message env)) + length src \<le> room m"
  shows "\<exists>m'. stl_entrypoint_with_source W alloc to_json from_json main env =
    (case main log (source (env_message env)) (env\<lparr>env_memory := Some m'\<rparr>) of
       None \<Rightarrow> None
     | Some (Inr _, env') \<Rightarrow> Some (0, env')
     | Some (Inl e, env') \<Rightarrow>
         (case place alloc (as_bytes e) env' of
            None \<Rightarrow> None
          | Some (p, env'') \<Rightarrow> Some (1, set_error_context W env'' p (len32 e))))"
proof -
  define d where "d = data_and_source (msg_data (env_message env)) src"
  have len: "length d = 4 + length (msg_data (env_message env)) + length src" by (simp add: d_def)
  have fits: "length d < 2 ^ 31" "length d \<le> room m" using assms(6,7) len by simp_all
  obtain m1 m' p where run: "fetch_data_and_source W to_json env DANGLING 0 = (int (length d), env)"
      "place alloc (replicate (length d) 0) env = Some (p, env\<lparr>env_memory := Some m1\<rparr>)"
      "fetch_data_and_source W to_json (env\<lparr>env_memory := Some m1\<rparr>) p (word_of_int (int (length d))) =
        (int (length d), env\<lparr>env_memory := Some m'\<rparr>)"
      "buffer_at W (env\<lparr>env_memory := Some m'\<rparr>) p (length d) = d"
    using guest_memory.fetch_data_and_source_twice [of W alloc live room env m to_json src d, OF assms(1-3) d_def fits] by (elim exE conjE)
  have "length (msg_data (env_message env)) < 2 ^ 32" using assms(6) by simp
  from entrypoint_data_and_source [of "msg_data (env_message env)" from_utf8 log from_json src _ "int (length d)", OF this assms(5,4)]
  have dec: "entrypoint_with_source from_utf8 from_json (int (length d)) (int (length d)) d =
      Some (Inr (log, source (env_message env)))"
    using len by (simp add: d_def)
  have ge: "\<not> int (length d) < 4" using len by simp
  have nat: "nat (int (length d)) = length d" by simp
  have "stl_entrypoint_with_source W alloc to_json from_json main env =
      finish_main W alloc (main log (source (env_message env)) (env\<lparr>env_memory := Some m'\<rparr>))"
    unfolding stl_entrypoint_with_source_def run(1) Let_def prod.case if_not_P [OF ge] nat run(2) Option.bind.bind_lunit
      run(3) run(4) dec by simp
  then show ?thesis
    by (auto simp: finish_main_def intro!: exI [of _ m'] split: option.split sum.split)
qed

theorem entrypoint_runs_main_witness:
  "\<exists>m'. stl_entrypoint_with_source linear_ops bump (\<lambda>_. Some [9]) (\<lambda>_. Some (Generator Okta))
      (\<lambda>log src env. Some (if log = ''hi'' \<and> src = Generator Okta then Inr () else Inl ''no'', env))
      ((sample_env :: (bytes, unit, unit, unit) env)\<lparr>env_message := sample_message\<lparr>msg_data := as_bytes ''hi''\<rparr>, env_memory := Some []\<rparr>) =
    Some (0, (sample_env :: (bytes, unit, unit, unit) env)\<lparr>env_message := sample_message\<lparr>msg_data := as_bytes ''hi''\<rparr>, env_memory := Some m'\<rparr>)"
proof -
  let ?env = "(sample_env :: (bytes, unit, unit, unit) env)\<lparr>env_message := sample_message\<lparr>msg_data := as_bytes ''hi''\<rparr>, env_memory := Some []\<rparr>"
  have "env_memory ?env = Some []" "source (env_message ?env) = Generator Okta" "msg_data (env_message ?env) = as_bytes ''hi''"
    by (simp_all add: sample_message_def message_new_def)
  moreover have "from_utf8 (as_bytes ''hi'') = Some ''hi''"
    by (rule from_utf8_as_bytes) (simp add: as_bytes_def)
  ultimately show ?thesis
    using entrypoint_runs_main [OF lin.guest_memory_axioms, of ?env "[]" "\<lambda>_. Some [9]" "[9]" "\<lambda>_. Some (Generator Okta)" "''hi''"
      "\<lambda>log src env. Some (if log = ''hi'' \<and> src = Generator Okta then Inr () else Inl ''no'', env)"]
    by (simp add: linear_room_def)
qed

text \<open>The error of the library that stands for an error of the runtime.\<close>

fun counterpart :: "function_errors \<Rightarrow> plaid_function_error" where
  "counterpart ApiNotConfigured = StlApiNotConfigured"
| "counterpart ReturnBufferTooSmall = StlReturnBufferTooSmall"
| "counterpart ErrorCouldNotSerialize = StlErrorCouldNotSerialize"
| "counterpart InternalApiError = StlInternalApiError"
| "counterpart ParametersNotUtf8 = StlParametersNotUtf8"
| "counterpart InvalidPointer = StlInvalidPointer"
| "counterpart CacheDisabled = StlCacheDisabled"
| "counterpart CouldNotGetAdequateMemory = StlCouldNotGetAdequateMemory"
| "counterpart FailedToWriteGuestMemory = StlFailedToWriteGuestMemory"
| "counterpart StorageLimitReached = StlStorageLimitReached"
| "counterpart TestMode = StlTestMode"
| "counterpart OperationNotAllowed = StlOperationNotAllowed"
| "counterpart SharedDbFnError = StlSharedDbError"
| "counterpart TimeoutElapsed = StlTimeoutElapsed"
| "counterpart FailedToLogBack = StlFailedToLogBack"
| "counterpart LogbackBudgetExhausted = StlLogbackBudgetExhausted"

text \<open>
  The runtime and the library agree on error codes: every code the runtime returns is read as the error
  of the same name, only codes the runtime does not know are read as unknown, and no code of an error is
  mistaken for a size. The opposite conversion of the library is not the inverse: it never gives back the
  code the error came from.
\<close>

theorem error_codes_agree:
  "error_of_code (error_code e) = counterpart e
   \<and> (error_of_code c = StlUnknown \<longleftrightarrow> (\<forall>e. c \<noteq> error_code e))
   \<and> error_code e < 0 \<and> code_of_error (error_of_code (error_code e)) \<noteq> error_code e"
proof -
  let ?codes = "{-1, -2, -3, -4, -5, -6, -7, -8, -9, -10, -11, -12, -13, -14, -15, -16}"
  have "error_of_code c = StlUnknown \<longleftrightarrow> c \<notin> ?codes"
    unfolding error_of_code_def by auto
  moreover have "c \<in> ?codes \<longleftrightarrow> (\<exists>e. c = error_code e)"
  proof
    show "c \<in> ?codes \<Longrightarrow> \<exists>e. c = error_code e" by (auto intro: error_code.simps [symmetric])
    assume "\<exists>e. c = error_code e"
    then obtain e where "c = error_code e" by blast
    then show "c \<in> ?codes" by (cases e) simp_all
  qed
  ultimately have "error_of_code c = StlUnknown \<longleftrightarrow> (\<forall>e. c \<noteq> error_code e)" by blast
  moreover have "error_of_code (error_code e) = counterpart e \<and> error_code e < 0
      \<and> code_of_error (error_of_code (error_code e)) \<noteq> error_code e"
    by (cases e) (simp_all add: error_of_code_def)
  ultimately show ?thesis by blast
qed

text \<open>
  C20. Storing a value from a rule, with the in-memory backend, a counter that agrees with what is stored, a
  value no longer than the host reads, and room for the buffers in the rule's memory. When the value fits
  the module's limit, \<^verbatim>\<open>insert\<close> returns the value the key had before (empty if none), and a \<^verbatim>\<open>get\<close> that follows
  returns exactly what was inserted. When it is over the limit, nothing is stored, but the rule does not
  learn why: the error it gets is \<^verbatim>\<open>ReturnBufferTooSmall\<close>, not \<^verbatim>\<open>StorageLimitReached\<close>. (Errors of the
  first call, which asks for the size of the old value, do reach the rule.)
\<close>

theorem stl_insert_outcome:
  assumes "guest_memory W alloc live room" and "guest_ready env st m" and "utf8_valid (as_bytes key)"
    and "length (own_value env key) < 2 ^ 31" and "length val < 2 ^ 31"
    and "length val \<le> unat (calculate_max_buffer_size (page_limit (env_module env)))"
    and "2 * length key + 2 * length val + length (own_value env key) \<le> room m"
    and "\<not> poisoned (storage_current (env_module env))"
    and "accounted (own_contents env) (storage_limit (env_module env)) (storage_current (env_module env))"
  shows "if over_limit (own_contents env) (storage_limit (env_module env)) key val
    then \<exists>m'. stl_insert W alloc key val env = Some (Inl StlReturnBufferTooSmall, env\<lparr>env_memory := Some m'\<rparr>)
    else \<exists>env1 env2. stl_insert W alloc key val env = Some (Inr (own_value env key), env1)
       \<and> own_contents env1 = (own_contents env)(key \<mapsto> val)
       \<and> stl_get W alloc key env1 = Some (Inr val, env2)"
proof -
  have room: "length key + length val + length (own_value env key) \<le> room m" using assms(7) by simp
  note facts = assms(2-4,6) room assms(8,9)
  show ?thesis
  proof (cases "over_limit (own_contents env) (storage_limit (env_module env)) key val")
    case True
    then show ?thesis using guest_memory.stl_insert_refused [OF assms(1) facts] by simp
  next
    case False
    obtain env1 st1 m1 where ins: "stl_insert W alloc key val env = Some (Inr (own_value env key), env1)"
      and env1: "guest_ready env1 st1 m1" "room m1 = room m - length key - length val - length (own_value env key)"
        "own_contents env1 = (own_contents env)(key \<mapsto> val)"
      using guest_memory.stl_insert_ok [OF assms(1) facts False] by (elim exE conjE)
    have v: "own_value env1 key = val" using env1(3) by (simp add: own_value_def)
    have "length key + length (own_value env1 key) \<le> room m1" "length (own_value env1 key) < 2 ^ 31"
      using assms(5,7) env1(2) unfolding v by linarith+
    from guest_memory.stl_get_ok [OF assms(1) env1(1) assms(3) this(2,1)]
    obtain m2 where "stl_get W alloc key env1 = Some (Inr val, env1\<lparr>env_memory := Some m2\<rparr>)"
      unfolding v by blast
    then show ?thesis using False ins env1(3) by auto
  qed
qed

text \<open>A rule in an empty memory, with one key stored that has an empty value, and four bytes of storage in all.\<close>

definition sample_rule :: "(bytes, in_memory_db, unit, unit) env" where
  "sample_rule = sample_env\<lparr>env_module := sample_module ''a.wasm'' (Limited 4) 1,
     env_storage := Some \<lparr>vtable = in_memory_provider, database = [(''a.wasm'', [(''e'', [])])], shared_dbs = None\<rparr>,
     env_memory := Some []\<rparr>"

lemma sample_rule_facts:
  "guest_ready sample_rule \<lparr>vtable = in_memory_provider, database = [(''a.wasm'', [(''e'', [])])], shared_dbs = None\<rparr> []"
  "own_contents sample_rule = [''e'' \<mapsto> []]" "own_value sample_rule ''k'' = []" "own_value sample_rule ''e'' = []"
  "accounted (own_contents sample_rule) (storage_limit (env_module sample_rule)) (storage_current (env_module sample_rule))"
  "\<not> poisoned (storage_current (env_module sample_rule))" "storage_limit (env_module sample_rule) = Limited 4"
  "utf8_valid (as_bytes ''k'')" "utf8_valid (as_bytes ''e'')" "page_limit (env_module sample_rule) = 1"
  "linear_room [] = 4294967295"
proof -
  show own: "own_contents sample_rule = [''e'' \<mapsto> []]"
    by (auto simp: sample_rule_def sample_module_def im_contents_def hm_get_def)
  show "accounted (own_contents sample_rule) (storage_limit (env_module sample_rule)) (storage_current (env_module sample_rule))"
    unfolding own by (simp add: sample_rule_def sample_module_def accounted_def map_bytes_def)
  show "own_value sample_rule ''k'' = []" "own_value sample_rule ''e'' = []" by (simp_all add: own_value_def own)
qed (simp_all add: sample_rule_def sample_module_def guest_ready_def im_inv_def hm_wf_def as_bytes_def linear_room_def)

theorem stl_insert_outcome_witness:
  "(\<exists>env1 env2. stl_insert linear_ops bump ''k'' [7] sample_rule = Some (Inr [], env1)
      \<and> stl_get linear_ops bump ''k'' env1 = Some (Inr [7], env2))
   \<and> (\<exists>m'. stl_insert linear_ops bump ''k'' [7, 8, 9] sample_rule =
        Some (Inl StlReturnBufferTooSmall, sample_rule\<lparr>env_memory := Some m'\<rparr>))"
proof -
  have "\<not> over_limit (own_contents sample_rule) (Limited 4) ''k'' [7]"
    "over_limit (own_contents sample_rule) (Limited 4) ''k'' [7, 8, 9]"
    unfolding sample_rule_facts(2) by (simp_all add: over_limit_def map_bytes_def)
  then show ?thesis
    using stl_insert_outcome [OF lin.guest_memory_axioms sample_rule_facts(1,8), of "[7]"]
      stl_insert_outcome [OF lin.guest_memory_axioms sample_rule_facts(1,8), of "[7, 8, 9]"]
    unfolding sample_rule_facts(3,7,10,11) using sample_rule_facts(5,6) by (auto simp: max_buffer_one_page sample_rule_facts(7))
qed

text \<open>
  Deleting from a rule. \<^verbatim>\<open>delete\<close> returns the value of the key (empty if it was not set) and removes the key,
  unless its value is empty: a key with an empty value can not be deleted, since the second call, with a
  buffer of the size the first one reported, is again a probe.
\<close>

theorem stl_delete_outcome:
  assumes "guest_memory W alloc live room" and "guest_ready env st m" and "utf8_valid (as_bytes key)"
    and "length (own_value env key) < 2 ^ 31" and "length key + length (own_value env key) \<le> room m"
    and "\<not> poisoned (storage_current (env_module env))"
  shows "\<exists>env'. stl_delete W alloc key env = Some (Inr (own_value env key), env')
    \<and> own_contents env' = (if own_contents env key = Some [] then own_contents env else (own_contents env)(key := None))"
proof -
  have "(own_contents env)(key := None) = own_contents env" if "own_contents env key = None"
    using that by (simp add: fun_upd_idem)
  then show ?thesis
    using guest_memory.stl_delete_ok [OF assms]
    by (cases "own_contents env key") (auto simp: own_value_def)
qed

theorem stl_delete_outcome_witness:
  "\<exists>env'. stl_delete linear_ops bump ''e'' sample_rule = Some (Inr [], env') \<and> own_contents env' = [''e'' \<mapsto> []]"
  using stl_delete_outcome [OF lin.guest_memory_axioms sample_rule_facts(1,9)] sample_rule_facts(6)
  unfolding sample_rule_facts(2,4,11) by simp

end
