(* ===== verification/Plaid_Network.thy ===== *)
theory Plaid_Network
  imports Plaid_Api
begin

text \<open>
  The general API, \<^verbatim>\<open>runtime/plaid/src/apis/general/mod.rs\<close> and \<^verbatim>\<open>apis/general/network.rs\<close>: web requests that
  are defined in the configuration and may be made only by the rules listed there. An HTTP client is its
  settings; sending a request (the crate \<^verbatim>\<open>reqwest\<close>), the JSON codecs, the conversion to a header map and
  base64 are parameters. Sending acts on an unspecified world.
\<close>

subsection \<open>Configuration and clients\<close>

record mnr_request =
  mnr_verb :: string
  mnr_uri :: string
  mnr_body :: "string option"
  return_body :: bool
  return_code :: bool
  return_cert :: bool
  root_certificate :: "string option"
  mnr_timeout :: "u64 option"
  allowed_rules :: "string list"
  mnr_headers :: "(string, string) hashmap"
  available_in_test_mode :: bool
  enable_redirects :: bool
  max_response_size :: "nat option"

definition duration_deserializer :: "u8 option \<Rightarrow> string + u64 option" where
  "duration_deserializer d =
     (case d of
        None \<Rightarrow> Inr None
      | Some secs \<Rightarrow>
          if secs = 0 then Inl ''Invalid timeout duration provided. Acceptable values are between 1 and 255 seconds''
          else Inr (Some (ucast secs)))"

record http_client =
  hc_timeout :: u64
  hc_root_certificate :: "string option"
  hc_tls_info :: bool
  hc_redirects :: bool

record general =
  web_requests :: "(string, mnr_request) hashmap"
  default_client :: http_client
  specialized :: "(string, http_client) hashmap"

definition create_specialized_client :: "string \<Rightarrow> mnr_request \<Rightarrow> u64 \<Rightarrow> (string \<times> http_client) option" where
  "create_specialized_client name req default_timeout_duration =
     (if mnr_timeout req = None \<and> root_certificate req = None \<and> \<not> enable_redirects req \<and> \<not> return_cert req then None
      else Some (name, \<lparr>hc_timeout = (case mnr_timeout req of Some t \<Rightarrow> t | None \<Rightarrow> default_timeout_duration),
                        hc_root_certificate = root_certificate req, hc_tls_info = return_cert req,
                        hc_redirects = enable_redirects req\<rparr>))"

definition general_new :: "(string, mnr_request) hashmap \<Rightarrow> u64 \<Rightarrow> general" where
  "general_new requests api_timeout_seconds =
     \<lparr>web_requests = requests,
      default_client = \<lparr>hc_timeout = api_timeout_seconds, hc_root_certificate = None, hc_tls_info = False, hc_redirects = False\<rparr>,
      specialized = List.map_filter (\<lambda>(name, req). create_specialized_client name req api_timeout_seconds) requests\<rparr>"

definition get_client :: "general \<Rightarrow> string \<Rightarrow> http_client" where
  "get_client G mnr = (case hm_get (specialized G) mnr of Some client \<Rightarrow> client | None \<Rightarrow> default_client G)"

subsection \<open>Requests and responses\<close>

record 'h http_request =
  hq_method :: http_method
  hq_uri :: string
  hq_headers :: 'h
  hq_body :: string

record http_response =
  hr_status :: u16
  hr_peer_certificate :: "bytes option"
  hr_chunks :: "(string + bytes) list"

datatype mnr_response_encoding = EncUtf8 | EncBinary

record make_request_request =
  rq_body :: string
  rq_request_name :: string
  rq_variables :: "(string, string) hashmap"
  rq_headers :: "(string, string) hashmap option"
  rq_response_encoding :: mnr_response_encoding

datatype response_data = Utf8 string | Binary bytes

record web_request_response =
  wr_code :: "u16 option"
  wr_data :: "response_data option"
  wr_cert :: "string option"

text \<open>\<^verbatim>\<open>str::replace\<close> with a pattern that is not empty.\<close>

function replace_all :: "string \<Rightarrow> string \<Rightarrow> string \<Rightarrow> string" where
  "replace_all pat rep [] = []"
| "replace_all pat rep (c # s) =
     (if pat \<noteq> [] \<and> prefix pat (c # s) then rep @ replace_all pat rep (drop (length pat) (c # s))
      else c # replace_all pat rep s)"
  by pat_completeness auto

termination
  by (relation "measure (\<lambda>(pat, rep, s). length s)") (auto simp: neq_Nil_conv)

definition substitute :: "(string, string) hashmap \<Rightarrow> string \<Rightarrow> string" where
  "substitute variables uri = fold (\<lambda>(k, v) uri. replace_all (''{'' @ k @ ''}'') v uri) variables uri"

text \<open>\<^verbatim>\<open>HashMap::extend\<close>: the pairs of the argument replace those of the map.\<close>

definition hm_extend :: "('k, 'v) hashmap \<Rightarrow> ('k, 'v) hashmap \<Rightarrow> ('k, 'v) hashmap" where
  "hm_extend m m' = fold (\<lambda>(k, v) m. hm_insert k v m) m' m"

fun read_response_body :: "nat option \<Rightarrow> (string + bytes) list \<Rightarrow> nat \<Rightarrow> bytes \<Rightarrow> api_error + bytes" where
  "read_response_body limit [] n body = Inr body"
| "read_response_body limit (Inl e # chunks) n body = Inl (NetworkError e)"
| "read_response_body limit (Inr chunk # chunks) n body =
     (if (case limit of Some m \<Rightarrow> n + length chunk > m | None \<Rightarrow> False) then Inl NetworkResponseTooLarge
      else read_response_body limit chunks (n + length chunk) (body @ chunk))"

definition make_named_request_check_permissions :: "general \<Rightarrow> string \<Rightarrow> plaid_module \<Rightarrow> api_error + mnr_request" where
  "make_named_request_check_permissions G request_name pm =
     (case hm_get (web_requests G) request_name of
        None \<Rightarrow> Inl BadRequest
      | Some spec \<Rightarrow>
          if mod_name pm \<notin> set (allowed_rules spec) then Inl BadRequest
          else if test_mode pm \<and> \<not> available_in_test_mode spec then Inl ApiTestMode
          else Inr spec)"

text \<open>A \<^verbatim>\<open>HEAD\<close> request goes to the configured URI without the variables.\<close>

definition request_line :: "mnr_request \<Rightarrow> string \<Rightarrow> (http_method \<times> string) option" where
  "request_line spec uri =
     (if mnr_verb spec = ''delete'' then Some (DELETE, uri)
      else if mnr_verb spec = ''get'' then Some (GET, uri)
      else if mnr_verb spec = ''patch'' then Some (PATCH, uri)
      else if mnr_verb spec = ''post'' then Some (POST, uri)
      else if mnr_verb spec = ''put'' then Some (PUT, uri)
      else if mnr_verb spec = ''head'' then Some (HEAD, mnr_uri spec)
      else None)"

text \<open>What the program uses of the crates \<^verbatim>\<open>reqwest\<close>, \<^verbatim>\<open>serde_json\<close>, \<^verbatim>\<open>http\<close> and \<^verbatim>\<open>base64\<close>.\<close>

record ('h, 'w) net_ops =
  http_send :: "http_client \<Rightarrow> 'h http_request \<Rightarrow> 'w \<Rightarrow> (string + http_response) \<times> 'w"
  to_header_map :: "(string, string) hashmap \<Rightarrow> string + 'h"
  request_from_str :: "string \<Rightarrow> make_request_request option"
  post_from_str :: "string \<Rightarrow> (string, string) hashmap option"
  response_to_string :: "web_request_response \<Rightarrow> string option"
  base64_encode :: "bytes \<Rightarrow> string"

definition named_response ::
  "('h, 'w) net_ops \<Rightarrow> mnr_request \<Rightarrow> mnr_response_encoding \<Rightarrow> http_response \<Rightarrow> api_error + web_request_response" where
  "named_response N spec enc r =
     (let ret = \<lparr>wr_code = (if return_code spec then Some (hr_status r) else None), wr_data = None,
                 wr_cert = (if return_cert spec then map_option (base64_encode N) (hr_peer_certificate r) else None)\<rparr>
      in if return_body spec then
           (case read_response_body (max_response_size spec) (hr_chunks r) 0 [] of
              Inl e \<Rightarrow> Inl e
            | Inr body \<Rightarrow>
                Inr (ret\<lparr>wr_data := Some (case enc of
                       EncUtf8 \<Rightarrow> Utf8 (case from_utf8 body of Some s \<Rightarrow> s | None \<Rightarrow> [])
                     | EncBinary \<Rightarrow> Binary body)\<rparr>))
         else Inr ret)"

definition make_named_request ::
  "('h, 'w) net_ops \<Rightarrow> general \<Rightarrow> string \<Rightarrow> plaid_module \<Rightarrow> 'w \<Rightarrow> (api_error + string) \<times> 'w" where
  "make_named_request N G params pm w =
     (case request_from_str N params of
        None \<Rightarrow> (Inl BadRequest, w)
      | Some request \<Rightarrow>
     (case make_named_request_check_permissions G (rq_request_name request) pm of
        Inl e \<Rightarrow> (Inl e, w)
      | Inr spec \<Rightarrow>
     (let headers_to_include_in_request =
            (case rq_headers request of
               Some dynamic_headers \<Rightarrow> hm_extend dynamic_headers (mnr_headers spec)
             | None \<Rightarrow> mnr_headers spec)
      in case to_header_map N headers_to_include_in_request of
        Inl e \<Rightarrow> (Inl (ConfigurationError (rq_request_name request @ '' has the headers misconfigured: '' @ e)), w)
      | Inr hs \<Rightarrow>
     (case request_line spec (substitute (rq_variables request) (mnr_uri spec)) of
        None \<Rightarrow> (Inl BadRequest, w)
      | Some (meth, uri) \<Rightarrow>
          (let body = (case mnr_body spec of Some x \<Rightarrow> x | None \<Rightarrow> rq_body request)
           in case http_send N (get_client G (rq_request_name request))
                     \<lparr>hq_method = meth, hq_uri = uri, hq_headers = hs, hq_body = body\<rparr> w of
                (Inl e, w') \<Rightarrow> (Inl (NetworkError e), w')
              | (Inr r, w') \<Rightarrow>
                  (case named_response N spec (rq_response_encoding request) r of
                     Inl e \<Rightarrow> (Inl e, w')
                   | Inr ret \<Rightarrow>
                       (case response_to_string N ret of
                          Some s \<Rightarrow> (Inr s, w')
                        | None \<Rightarrow> (Inl BadRequest, w'))))))))"

text \<open>The unrestricted request; its headers are given as pairs.\<close>

definition simple_json_post_request ::
  "('h, 'w) net_ops \<Rightarrow> ((string \<times> string) list \<Rightarrow> 'h) \<Rightarrow> general \<Rightarrow> string \<Rightarrow> 'w \<Rightarrow> (api_error + u32) \<times> 'w" where
  "simple_json_post_request N pairs G params w =
     (case post_from_str N params of
        None \<Rightarrow> (Inl BadRequest, w)
      | Some request \<Rightarrow>
     (case hm_get request ''url'' of
        None \<Rightarrow> (Inl (MissingParameter ''url''), w)
      | Some url \<Rightarrow>
     (case hm_get request ''body'' of
        None \<Rightarrow> (Inl (MissingParameter ''body''), w)
      | Some body \<Rightarrow>
          (let hs = (''Content-Type'', ''application/json; charset=utf-8'') #
                 (case hm_get request ''auth'' of Some auth \<Rightarrow> [(''Authorization'', auth)] | None \<Rightarrow> [])
           in case http_send N (default_client G) \<lparr>hq_method = POST, hq_uri = url, hq_headers = pairs hs, hq_body = body\<rparr> w of
                (Inl e, w') \<Rightarrow> (Inl (NetworkError e), w')
              | (Inr r, w') \<Rightarrow> (Inr (ucast (hr_status r)), w')))))"

text \<open>The certificate itself is fetched by \<^verbatim>\<open>apis/general/cert_sni.rs\<close>, over TLS.\<close>

definition retrieve_tls_certificate_with_sni ::
  "(string \<Rightarrow> (string \<times> string) option) \<Rightarrow> (string \<Rightarrow> string \<Rightarrow> 'w \<Rightarrow> (string + string) \<times> 'w) \<Rightarrow> string \<Rightarrow> 'w
     \<Rightarrow> (api_error + string) \<times> 'w" where
  "retrieve_tls_certificate_with_sni from_str get_peer_certificate_with_sni params w =
     (case from_str params of
        None \<Rightarrow> (Inl BadRequest, w)
      | Some (domain, sni) \<Rightarrow> apfst (map_sum TlsError id) (get_peer_certificate_with_sni domain sni w))"

definition with_general ::
  "('h, 'w) net_ops \<Rightarrow> ((string \<times> string) list \<Rightarrow> 'h) \<Rightarrow> general \<Rightarrow> 'w api_ops \<Rightarrow> 'w api_ops" where
  "with_general N pairs G A = A\<lparr>
     invoke_int := (\<lambda>d params pm w.
       if decl_api d = ''general'' \<and> decl_function d = ''simple_json_post_request''
       then simple_json_post_request N pairs G params w
       else invoke_int A d params pm w),
     invoke_string := (\<lambda>d params pm w.
       if decl_api d = ''general'' \<and> decl_function d = ''make_named_request''
       then make_named_request N G params pm w
       else invoke_string A d params pm w)\<rparr>"

subsection \<open>Lemmas\<close>

lemma hm_get_extend: "hm_wf m' \<Longrightarrow> hm_get (hm_extend m m') k = (case hm_get m' k of Some v \<Rightarrow> Some v | None \<Rightarrow> hm_get m k)"
proof (induction m' arbitrary: m)
  case (Cons kv m')
  obtain k' v' where kv: "kv = (k', v')" by force
  have ext: "hm_extend m (kv # m') = hm_extend (hm_insert k' v' m) m'" by (simp add: hm_extend_def kv)
  have "hm_wf m'" "hm_get m' k' = None" using Cons.prems by (auto simp: kv hm_defs map_of_eq_None_iff)
  then show ?case
    unfolding ext using Cons.IH [of "hm_insert k' v' m"] by (auto simp: kv hm_get_def hm_insert_def update_conv' split: option.splits)
qed (simp add: hm_extend_def)

lemma read_response_body_bounded:
  "read_response_body limit chunks n body = Inr out \<Longrightarrow> limit = Some m \<Longrightarrow> n = length body \<Longrightarrow> length body \<le> m \<Longrightarrow> length out \<le> m"
  by (induction limit chunks n body rule: read_response_body.induct) (auto split: if_splits)

text \<open>The headers a rule passes along.\<close>

definition rule_headers :: "make_request_request \<Rightarrow> (string, string) hashmap" where
  "rule_headers request = (case rq_headers request of Some d \<Rightarrow> d | None \<Rightarrow> [])"

text \<open>
  Header names are compared without case. What is relied on of the conversion of the crate \<^verbatim>\<open>http\<close>: the
  values sent under a name (read by \<open>values\<close>) are values that the map has under that name up to case, and
  there is at least one if the map has one. Which of several, or whether all of them are sent, is left open.
\<close>

definition header_name :: "string \<Rightarrow> string" where
  "header_name s =
     map (\<lambda>c. if 65 \<le> (of_char c :: nat) \<and> (of_char c :: nat) \<le> 90 then char_of ((of_char c :: nat) + 32) else c) s"

definition header_map_ok :: "('h, 'w) net_ops \<Rightarrow> ('h \<Rightarrow> string \<Rightarrow> string list) \<Rightarrow> bool" where
  "header_map_ok N values \<longleftrightarrow>
     (\<forall>m hs name. to_header_map N m = Inr hs \<longrightarrow>
        set (values hs name) \<subseteq> {v. \<exists>k. hm_get m k = Some v \<and> header_name k = header_name name}
      \<and> (hm_get m name \<noteq> None \<longrightarrow> values hs name \<noteq> []))"

text \<open>
  What a named request may do to the world: one request that the configuration defines for this rule. Its
  method is that of the configured verb, its address the configured one with the rule's variables put in
  (\<^verbatim>\<open>HEAD\<close> requests take none), its body the configured one if there is one, and its client has the settings
  of the request: its own timeout or that of the API, its root certificate, redirects only if enabled. A
  configured header is sent, and with no other value than the configured one unless the rule passes a header
  whose name differs only in case; every value sent is of the configuration or of the rule.
\<close>

definition permitted_send ::
  "('h, 'w) net_ops \<Rightarrow> ('h \<Rightarrow> string \<Rightarrow> string list) \<Rightarrow> (string, mnr_request) hashmap \<Rightarrow> u64 \<Rightarrow> make_request_request
     \<Rightarrow> plaid_module \<Rightarrow> 'w \<Rightarrow> 'w \<Rightarrow> bool" where
  "permitted_send N values requests secs request pm w w' \<longleftrightarrow>
     (\<exists>spec client meth uri hs body.
        hm_get requests (rq_request_name request) = Some spec \<and> mod_name pm \<in> set (allowed_rules spec)
      \<and> (test_mode pm \<longrightarrow> available_in_test_mode spec)
      \<and> (mnr_verb spec, meth) \<in> set [(''delete'', DELETE), (''get'', GET), (''patch'', PATCH), (''post'', POST), (''put'', PUT), (''head'', HEAD)]
      \<and> uri = (if meth = HEAD then mnr_uri spec else substitute (rq_variables request) (mnr_uri spec))
      \<and> body = (case mnr_body spec of Some b \<Rightarrow> b | None \<Rightarrow> rq_body request)
      \<and> client = \<lparr>hc_timeout = (case mnr_timeout spec of Some t \<Rightarrow> t | None \<Rightarrow> secs), hc_root_certificate = root_certificate spec,
          hc_tls_info = return_cert spec, hc_redirects = enable_redirects spec\<rparr>
      \<and> (\<forall>k v. hm_get (mnr_headers spec) k = Some v \<longrightarrow> values hs k \<noteq> []
          \<and> (\<forall>x \<in> set (values hs k). x = v \<or> (\<exists>k'. k' \<noteq> k \<and> header_name k' = header_name k
               \<and> (hm_get (rule_headers request) k' = Some x \<or> hm_get (mnr_headers spec) k' = Some x))))
      \<and> (\<forall>k. \<forall>x \<in> set (values hs k). \<exists>k'. header_name k' = header_name k
          \<and> (hm_get (rule_headers request) k' = Some x \<or> hm_get (mnr_headers spec) k' = Some x))
      \<and> w' = snd (http_send N client \<lparr>hq_method = meth, hq_uri = uri, hq_headers = hs, hq_body = body\<rparr> w))"

lemma specialized_name: "create_specialized_client name req secs = Some c \<Longrightarrow> fst c = name"
  by (auto simp: create_specialized_client_def split: if_splits)

lemma specialized_names:
  "fst ` set (List.map_filter (\<lambda>(name, req). create_specialized_client name req secs) requests) \<subseteq> fst ` set requests"
  by (induction requests) (auto simp: List.map_filter_simps dest!: specialized_name split: option.splits)

lemma get_client_settings:
  assumes "hm_wf requests" and "hm_get requests name = Some spec"
  shows "get_client (general_new requests secs) name =
    \<lparr>hc_timeout = (case mnr_timeout spec of Some t \<Rightarrow> t | None \<Rightarrow> secs), hc_root_certificate = root_certificate spec,
     hc_tls_info = return_cert spec, hc_redirects = enable_redirects spec\<rparr>"
proof -
  have "hm_get (List.map_filter (\<lambda>(name, req). create_specialized_client name req secs) requests) name =
      map_option snd (create_specialized_client name spec secs)"
    using assms
  proof (induction requests)
    case (Cons r requests)
    obtain n q where r: "r = (n, q)" by force
    have "hm_get (List.map_filter (\<lambda>(name, req). create_specialized_client name req secs) requests) name = None"
      if "n = name"
      using Cons.prems(1) that specialized_names [of secs requests] by (auto simp: r hm_defs map_of_eq_None_iff)
    then show ?case
      using Cons by (auto simp: r hm_defs List.map_filter_simps create_specialized_client_def split: if_splits)
  qed (simp add: hm_get_def)
  then show ?thesis
    by (auto simp: get_client_def general_new_def create_specialized_client_def split: option.splits)
qed

lemma request_line_method:
  assumes "request_line spec uri = Some (meth, uri')"
  shows "(mnr_verb spec, meth) \<in> set [(''delete'', DELETE), (''get'', GET), (''patch'', PATCH), (''post'', POST), (''put'', PUT), (''head'', HEAD)]
    \<and> uri' = (if meth = HEAD then mnr_uri spec else uri)"
  using assms by (auto simp: request_line_def split: if_splits)

text \<open>The headers of a request, once converted.\<close>

lemma header_values:
  assumes "header_map_ok N values" and "hm_wf static"
    and "to_header_map N (case dyn of Some d \<Rightarrow> hm_extend d static | None \<Rightarrow> static) = Inr hs"
  shows "hm_get static k = Some v \<Longrightarrow> values hs k \<noteq> []"
    and "x \<in> set (values hs k) \<Longrightarrow> \<exists>k'. header_name k' = header_name k \<and>
      (hm_get static k' = Some x \<or> hm_get static k' = None \<and> hm_get (case dyn of Some d \<Rightarrow> d | None \<Rightarrow> []) k' = Some x)"
proof -
  let ?m = "case dyn of Some d \<Rightarrow> hm_extend d static | None \<Rightarrow> static"
  have m: "hm_get ?m k' = (case hm_get static k' of Some v \<Rightarrow> Some v | None \<Rightarrow> hm_get (case dyn of Some d \<Rightarrow> d | None \<Rightarrow> []) k')" for k'
    using hm_get_extend [OF assms(2)] by (cases dyn) (auto simp: hm_get_def split: option.splits)
  show "hm_get static k = Some v \<Longrightarrow> values hs k \<noteq> []"
    using assms(1,3) m [of k] unfolding header_map_ok_def by fastforce
  assume "x \<in> set (values hs k)"
  then obtain k' where "hm_get ?m k' = Some x" "header_name k' = header_name k"
    using assms(1,3) unfolding header_map_ok_def by blast
  then show "\<exists>k'. header_name k' = header_name k \<and>
      (hm_get static k' = Some x \<or> hm_get static k' = None \<and> hm_get (case dyn of Some d \<Rightarrow> d | None \<Rightarrow> []) k' = Some x)"
    using m [of k'] by (auto split: option.splits)
qed

lemma make_named_request_confined:
  assumes "header_map_ok N values" and "hm_wf requests"
    and "\<forall>name spec. hm_get requests name = Some spec \<longrightarrow> hm_wf (mnr_headers spec)"
    and "make_named_request N (general_new requests secs) params pm w = (r, w')"
  shows "w' = w \<and> (\<exists>e. r = Inl e)
    \<or> (\<exists>request. request_from_str N params = Some request \<and> permitted_send N values requests secs request pm w w')"
proof (cases "\<exists>request spec hs meth uri. request_from_str N params = Some request
    \<and> make_named_request_check_permissions (general_new requests secs) (rq_request_name request) pm = Inr spec
    \<and> to_header_map N (case rq_headers request of Some dyn \<Rightarrow> hm_extend dyn (mnr_headers spec) | None \<Rightarrow> mnr_headers spec) = Inr hs
    \<and> request_line spec (substitute (rq_variables request) (mnr_uri spec)) = Some (meth, uri)")
  case True
  then obtain request spec hs meth uri where req: "request_from_str N params = Some request"
    and perm: "make_named_request_check_permissions (general_new requests secs) (rq_request_name request) pm = Inr spec"
    and hs: "to_header_map N (case rq_headers request of Some dyn \<Rightarrow> hm_extend dyn (mnr_headers spec) | None \<Rightarrow> mnr_headers spec) = Inr hs"
    and line: "request_line spec (substitute (rq_variables request) (mnr_uri spec)) = Some (meth, uri)" by blast
  have spec: "hm_get requests (rq_request_name request) = Some spec" "mod_name pm \<in> set (allowed_rules spec)"
    "test_mode pm \<longrightarrow> available_in_test_mode spec"
    using perm by (auto simp: make_named_request_check_permissions_def general_new_def split: option.splits if_splits)
  have wf: "hm_wf (mnr_headers spec)" using assms(3) spec(1) by blast
  note headers = header_values [OF assms(1) wf hs, folded rule_headers_def]
  have w': "w' = snd (http_send N (get_client (general_new requests secs) (rq_request_name request))
      \<lparr>hq_method = meth, hq_uri = uri, hq_headers = hs, hq_body = (case mnr_body spec of Some x \<Rightarrow> x | None \<Rightarrow> rq_body request)\<rparr> w)"
    using assms(4) req perm hs line
    by (auto simp: make_named_request_def Let_def split: prod.splits sum.splits option.splits)
  have all: "\<forall>k. \<forall>x \<in> set (values hs k). \<exists>k'. header_name k' = header_name k
      \<and> (hm_get (rule_headers request) k' = Some x \<or> hm_get (mnr_headers spec) k' = Some x)"
    using headers(2) by blast
  have static: "\<forall>k v. hm_get (mnr_headers spec) k = Some v \<longrightarrow> values hs k \<noteq> []
      \<and> (\<forall>x \<in> set (values hs k). x = v \<or> (\<exists>k'. k' \<noteq> k \<and> header_name k' = header_name k
           \<and> (hm_get (rule_headers request) k' = Some x \<or> hm_get (mnr_headers spec) k' = Some x)))"
  proof (intro allI impI conjI ballI)
    fix k v assume k: "hm_get (mnr_headers spec) k = Some v"
    then show "values hs k \<noteq> []" by (rule headers(1))
    fix x assume "x \<in> set (values hs k)"
    then show "x = v \<or> (\<exists>k'. k' \<noteq> k \<and> header_name k' = header_name k
        \<and> (hm_get (rule_headers request) k' = Some x \<or> hm_get (mnr_headers spec) k' = Some x))"
      using headers(2) [of x k] k by (metis option.inject option.distinct(1))
  qed
  have "permitted_send N values requests secs request pm w w'"
    unfolding permitted_send_def
    using spec request_line_method [OF line] static all w' [unfolded get_client_settings [OF assms(2) spec(1)]] by blast
  then show ?thesis using req by blast
next
  case False
  then have "w' = w \<and> (\<exists>e. r = Inl e)"
    using assms(4) by (auto simp: make_named_request_def Let_def split: option.splits sum.splits)
  then show ?thesis by blast
qed

subsection \<open>Properties\<close>


definition sample_mnr :: mnr_request where
  "sample_mnr = \<lparr>mnr_verb = ''head'', mnr_uri = ''https://x/{id}'', mnr_body = Some ''b'', return_body = True, return_code = True,
     return_cert = False, root_certificate = None, mnr_timeout = None, allowed_rules = [''m.wasm''],
     mnr_headers = [(''Authorization'', ''t'')], available_in_test_mode = False, enable_redirects = False,
     max_response_size = Some 2\<rparr>"

definition sample_net :: "make_request_request \<Rightarrow> ((string, string) hashmap, (string, string) hashmap http_request list) net_ops" where
  "sample_net rq = \<lparr>http_send = (\<lambda>c q w. (Inr \<lparr>hr_status = 200, hr_peer_certificate = None, hr_chunks = [Inr [1]]\<rparr>, q # w)),
     to_header_map = Inr, request_from_str = (\<lambda>_. Some rq), post_from_str = (\<lambda>_. None),
     response_to_string = (\<lambda>_. Some ''ok''), base64_encode = (\<lambda>_. [])\<rparr>"

text \<open>The values that a list of pairs has under a name.\<close>

definition pair_values :: "(string, string) hashmap \<Rightarrow> string \<Rightarrow> string list" where
  "pair_values m name = map snd (filter (\<lambda>(k, v). header_name k = header_name name \<and> hm_get m k = Some v) m)"

lemma sample_header_map: "header_map_ok (sample_net rq) pair_values"
  by (auto simp: header_map_ok_def sample_net_def pair_values_def filter_empty_conv hm_get_def dest: map_of_SomeD)

definition sample_mrr :: make_request_request where
  "sample_mrr = \<lparr>rq_body = ''mine'', rq_request_name = ''r'', rq_variables = [(''id'', ''7'')],
     rq_headers = Some [(''authorization'', ''u'')], rq_response_encoding = EncBinary\<rparr>"


text \<open>
  Two gaps in how a request is put together. A \<^verbatim>\<open>HEAD\<close> request ignores the variables of the rule. And a header
  of the rule does not replace one of the configuration with the same name, but names are compared with their
  case: one that differs in case stays in the map that is converted.
\<close>

lemma head_ignores_variables:
  "mnr_verb spec = ''head'' \<Longrightarrow> request_line spec (substitute vars (mnr_uri spec)) = Some (HEAD, mnr_uri spec)"
  by (simp add: request_line_def)

lemma other_case_header_kept:
  "hm_extend [(''authorization'', x)] [(''Authorization'', y)] = [(''authorization'', x), (''Authorization'', y)]"
  by (simp add: hm_extend_def hm_insert_def)

end
