(* ===== verification/Plaid_Github_Types.thy ===== *)
theory Plaid_Github_Types
  imports Plaid_Api_Base
begin

text \<open>
  The parameters rules send to the GitHub service and the answers of GitHub it reads, as declared in
  \<^verbatim>\<open>runtime/plaid-stl/src/github\<close>. The fields of a structure start with the initials of its name.
\<close>

record 'p github_api_wrapper =
  gaw_client_id :: string
  gaw_params :: 'p

datatype git_ref = Branch string | Tag string

fun git_ref_fmt :: "git_ref \<Rightarrow> string" where
  "git_ref_fmt (Tag tag) = ''tags/'' @ tag"
| "git_ref_fmt (Branch branch) = ''heads/'' @ branch"

datatype fetch_file_custom_media_type = MediaDefault | MediaRaw | MediaHtml | MediaObject

fun media_type_fmt :: "fetch_file_custom_media_type \<Rightarrow> string" where
  "media_type_fmt MediaDefault = ''default''"
| "media_type_fmt MediaRaw = ''raw''"
| "media_type_fmt MediaHtml = ''html''"
| "media_type_fmt MediaObject = ''object''"

datatype pull_request_review_event = Approve | RequestChanges | Comment

fun review_event_name :: "pull_request_review_event \<Rightarrow> string" where
  "review_event_name Approve = ''APPROVE''"
| "review_event_name RequestChanges = ''REQUEST_CHANGES''"
| "review_event_name Comment = ''COMMENT''"

fun review_event_debug :: "pull_request_review_event \<Rightarrow> string" where
  "review_event_debug Approve = ''Approve''"
| "review_event_debug RequestChanges = ''RequestChanges''"
| "review_event_debug Comment = ''Comment''"

datatype pull_request_state = PrOpen | PrClosed | PrAll

fun pull_request_state_fmt :: "pull_request_state \<Rightarrow> string" where
  "pull_request_state_fmt PrOpen = ''open''"
| "pull_request_state_fmt PrClosed = ''closed''"
| "pull_request_state_fmt PrAll = ''all''"

record remove_user_from_repo_params =
  rufrp_user :: string
  rufrp_repo :: string

record add_user_to_repo_params =
  autrp_user :: string
  autrp_repo :: string
  autrp_permission :: "string option"

record get_repo_collaborators_params =
  grcp_owner :: string
  grcp_repo :: string
  grcp_per_page :: "u8 option"
  grcp_page :: "u16 option"
  grcp_affiliation :: "string option"

record get_custom_properties_values_params =
  gcpvp_owner :: string
  gcpvp_repo :: string

record get_repo_sbom_params =
  grsp_owner :: string
  grsp_repo :: string

record fetch_commit_params =
  fcp_user :: string
  fcp_repo :: string
  fcp_commit :: string

record get_repo_id_from_repo_name_params =
  grifrnp_owner :: string
  grifrnp_repo :: string

record get_repo_name_from_repo_id_params =
  grnfrip_repo_id :: string

record fetch_file_request =
  ffr_organization :: string
  ffr_repository_name :: string
  ffr_file_path :: string
  ffr_reference :: "string option"
  ffr_media_type :: fetch_file_custom_media_type

record create_or_update_file_request =
  coufr_owner :: string
  coufr_repo :: string
  coufr_path :: string
  coufr_message :: string
  coufr_content :: bytes
  coufr_branch :: "string option"
  coufr_sha :: "string option"

record comment_on_pull_request_request =
  coprr_owner :: string
  coprr_repository :: string
  coprr_number :: string
  coprr_comment :: string

record check_codeowners_params =
  ccp_owner :: string
  ccp_repo :: string

record get_branch_protection_rules_params =
  gbprp_owner :: string
  gbprp_repo :: string
  gbprp_branch :: string

record get_branch_protection_ruleset_params =
  gbprpx_owner :: string
  gbprpx_repo :: string
  gbprpx_branch :: string

record update_branch_protection_rule_params =
  ubprp_owner :: string
  ubprp_repo :: string
  ubprp_branch :: string
  ubprp_body :: string

record require_signed_commits_params =
  rscp_owner :: string
  rscp_repo :: string
  rscp_branch :: string
  rscp_activated :: bool

record create_environment_for_repo_params =
  cefrp_owner :: string
  cefrp_repo :: string
  cefrp_env_name :: string

record create_deployment_branch_protection_rule_params =
  cdbprp_owner :: string
  cdbprp_repo :: string
  cdbprp_env_name :: string
  cdbprp_branch :: string

record get_weekly_commit_count_params =
  gwccp_owner :: string
  gwccp_repo :: string

record list_files_params =
  lfp_owner :: string
  lfp_repo :: string
  lfp_pull_request :: string
  lfp_page :: string

record pull_request_request_reviewers =
  prrr_owner :: string
  prrr_repo :: string
  prrr_pull_number :: u64
  prrr_reviewers :: "string list"
  prrr_team_reviewers :: "string list"

record submit_pull_request_review_request =
  sprrr_owner :: string
  sprrr_repo :: string
  sprrr_number :: u32
  sprrr_event :: pull_request_review_event
  sprrr_body :: "string option"

record get_pull_request_options =
  gpro_state :: "pull_request_state option"
  gpro_head :: "string option"
  gpro_base :: "string option"

record get_pull_request_request =
  gprr_owner :: string
  gprr_repo :: string
  gprr_options :: "get_pull_request_options option"
  gprr_page :: u16
  gprr_per_page :: u64

record create_pull_request_request =
  cprr_owner :: string
  cprr_repo :: string
  cprr_title :: string
  cprr_head :: string
  cprr_base :: string
  cprr_body :: "string option"
  cprr_draft :: bool

record add_labels_request =
  alr_owner :: string
  alr_repo :: string
  alr_number :: u32
  alr_labels :: "string list"

record get_or_create_branch_reference_params =
  gocbrp_owner :: string
  gocbrp_repo :: string
  gocbrp_reference :: git_ref
  gocbrp_sha :: "string option"

record search_code_params =
  scp_file_content :: "string option"
  scp_filename :: "string option"
  scp_extension :: "string option"
  scp_path :: "string option"
  scp_org :: "string option"
  scp_repo :: "string option"
  scp_per_page :: "u8 option"
  scp_page :: "u16 option"

record add_user_to_team_params =
  auttp_org :: string
  auttp_team_slug :: string
  auttp_user :: string
  auttp_role :: string

record remove_user_from_team_params =
  ruftp_org :: string
  ruftp_team_slug :: string
  ruftp_user :: string

record add_repo_to_team_params =
  arttp_org :: string
  arttp_team_slug :: string
  arttp_repo :: string
  arttp_permission :: string

record remove_repo_from_team_params =
  rrftp_org :: string
  rrftp_team_slug :: string
  rrftp_repo :: string

record get_repo_teams_params =
  grtp_org :: string
  grtp_repo :: string
  grtp_per_page :: "u8 option"
  grtp_page :: "u16 option"

record configure_secret_params =
  csp_owner :: string
  csp_repo :: string
  csp_env_name :: "string option"
  csp_secret_name :: string
  csp_secret :: string

record add_or_remove_repo_to_org_secret_params =
  aorrtosp_org :: string
  aorrtosp_secret_name :: string
  aorrtosp_repository :: string

record list_org_secrets_for_repo_params =
  losfrp_org :: string
  losfrp_repository :: string
  losfrp_per_page :: "u32 option"
  losfrp_page :: "u32 option"

record repository_dispatch_params =
  rdp_owner :: string
  rdp_repo :: string
  rdp_event_type :: string
  rdp_client_payload :: json

record check_org_membership_params =
  comp_user :: string
  comp_org :: string

record remove_outside_collaborator_params =
  rocp_user :: string
  rocp_org :: string

record list_seats_in_org_copilot_params =
  lsiocp_org :: string
  lsiocp_per_page :: "u8 option"
  lsiocp_page :: "u16 option"

record add_users_to_org_copilot_params =
  autocp_org :: string
  autocp_selected_usernames :: "string list"

record remove_users_from_org_copilot_params =
  rufocp_org :: string
  rufocp_selected_usernames :: "string list"

record list_fpat_requests_for_org_params =
  lfrfop_org :: string

record get_repos_for_fpat_params =
  grffp_org :: string
  grffp_request_id :: u64
  grffp_per_page :: "u64 option"
  grffp_page :: "u64 option"

record review_fpat_requests_for_org_params =
  rfrfop_org :: string
  rfrfop_pat_request_ids :: "u64 list"
  rfrfop_action :: string
  rfrfop_reason :: string

record grant_repo_access_to_org_installation_params =
  gratoip_enterprise :: string
  gratoip_org :: string
  gratoip_installation_id :: u64
  gratoip_repositories :: "string list"

record remove_repo_access_from_org_installation_params =
  rrafoip_enterprise :: string
  rrafoip_org :: string
  rrafoip_installation_id :: u64
  rrafoip_repositories :: "string list"

record delete_deploy_key_params =
  ddkp_owner :: string
  ddkp_repo :: string
  ddkp_key_id :: u64

record create_deploy_key_params =
  cdkp_owner :: string
  cdkp_repo :: string
  cdkp_title :: string
  cdkp_key :: string
  cdkp_read_only :: bool

record github_repository_owner =
  gro_login :: string

record github_repository =
  gr_id :: u64
  gr_name :: string
  gr_full_name :: string
  gr_private :: bool
  gr_description :: "string option"
  gr_owner :: github_repository_owner

record git_hub_user =
  ghu_login :: string
  ghu_id :: u64

record codeowners_error =
  ce_kind :: string
  ce_message :: string
  ce_path :: string
  ce_source :: "string option"

datatype codeowners_status = CodeownersOk | CodeownersMissing | CodeownersInvalid "codeowners_error list"

record codeowners_errors_response =
  cer_errors :: "codeowners_error list"

record consumed_licenses_response =
  clr_total_seats_consumed :: u64
  clr_total_seats_purchased :: u64

end
