(* ===== verification/Plaid_Github.thy ===== *)
theory Plaid_Github
  imports Plaid_Github_Types
begin

text \<open>
  The GitHub service, \<^verbatim>\<open>runtime/plaid/src/apis/github\<close>: every handler a rule can call. A handler decodes its
  parameters, validates what goes into the address, sends one or two requests with a configured client
  and reads the answer. The module is an argument of the handlers only for the log, and is left out. The
  client (the crate \<^verbatim>\<open>octocrab\<close>), the regex engine, the JSON codecs, base64, sealed boxes, SHA-256 and the
  URL encodings are parameters.
\<close>

subsection \<open>The service\<close>

datatype authentication =
    Token string
  | App u64 u64 string
  | NoAuth

record 'c github =
  graphql_queries :: "(string, string) hashmap"
  gh_clients :: "(string, 'c) hashmap"
  gh_validators :: "(string, string) hashmap"

record github_request =
  ghr_method :: http_method
  ghr_uri :: string
  ghr_headers :: "(string \<times> string) list"
  ghr_body :: "json option"

record ('c, 'w) github_api_ops =
  is_match :: "string \<Rightarrow> string \<Rightarrow> bool"
  octocrab :: "'c \<times> github_request \<Rightarrow> 'w \<Rightarrow> (string + u16 \<times> (string + string)) \<times> 'w"
  value_from_str :: "string \<Rightarrow> json option"
  base64_encode :: "bytes \<Rightarrow> string"
  base64_decode :: "string \<Rightarrow> bytes option"
  seal_key_length :: nat
  seal_encrypt :: "bytes \<Rightarrow> bytes \<Rightarrow> bytes option"
  sha256_hex :: "bytes \<Rightarrow> string"
  url_encode :: "string \<Rightarrow> string"
  form_pairs :: "(string \<times> string) list \<Rightarrow> string"

text \<open>
  Building the clients: the three ways of authenticating, reading a private key, building a client and
  turning it into that of an installation are octocrab's.
\<close>

definition build_github_client ::
  "(string \<Rightarrow> 'k option) \<Rightarrow> (authentication \<Rightarrow> 'k option \<Rightarrow> string + 'c) \<Rightarrow> ('c \<Rightarrow> u64 \<Rightarrow> string + 'c)
     \<Rightarrow> string \<times> authentication \<Rightarrow> api_error + (string \<times> 'c)" where
  "build_github_client from_rsa_pem build installation = (\<lambda>(key, auth).
     let encoding_key = (case auth of
           App app_id installation_id private_key \<Rightarrow>
             (case from_rsa_pem private_key of
                None \<Rightarrow> Inl (GitHubError (GhInvalidInput (''Failed to create encoding key from private key for GitHub API for ['' @ key @ '']'')))
              | Some k \<Rightarrow> Inr (Some k))
         | _ \<Rightarrow> Inr None)
     in case encoding_key of
          Inl e \<Rightarrow> Inl e
        | Inr k \<Rightarrow>
            (case build auth k of
               Inl e \<Rightarrow> Inl (GitHubError (GhClientError e))
             | Inr client \<Rightarrow>
                 (case auth of
                    App app_id installation_id private_key \<Rightarrow>
                      (case installation client installation_id of
                         Inl e \<Rightarrow> Inl (GitHubError (GhClientError e))
                       | Inr client' \<Rightarrow> Inr (key, client'))
                  | _ \<Rightarrow> Inr (key, client))))"

fun collect_clients :: "('a \<Rightarrow> api_error + 'b) \<Rightarrow> 'a list \<Rightarrow> api_error + 'b list" where
  "collect_clients f [] = Inr []"
| "collect_clients f (x # xs) =
     (case f x of Inl e \<Rightarrow> Inl e | Inr y \<Rightarrow> map_sum id (Cons y) (collect_clients f xs))"

definition build_github_clients ::
  "(string \<Rightarrow> 'k option) \<Rightarrow> (authentication \<Rightarrow> 'k option \<Rightarrow> string + 'c) \<Rightarrow> ('c \<Rightarrow> u64 \<Rightarrow> string + 'c)
     \<Rightarrow> (string, authentication) hashmap \<Rightarrow> api_error + (string, 'c) hashmap" where
  "build_github_clients from_rsa_pem build installation auths =
     (if auths = [] then Inl (GitHubError (GhInvalidInput ''At least one GitHub client must be configured''))
      else collect_clients (build_github_client from_rsa_pem build installation) auths)"

text \<open>The patterns, with \<open>bs\<close> for a backslash.\<close>

abbreviation bs :: string where "bs \<equiv> [CHR 0x5C]"

definition NAME_PATTERN :: string where
  "NAME_PATTERN = ''^['' @ bs @ ''w'' @ bs @ ''-]+$''"

definition REPOSITORY_PATTERN :: string where
  "REPOSITORY_PATTERN = ''^['' @ bs @ ''w'' @ bs @ ''-'' @ bs @ ''./]+$''"

definition COMMIT_PATTERN :: string where
  "COMMIT_PATTERN = ''^'' @ bs @ ''b([a-f0-9]{40})'' @ bs @ ''b$''"

definition PINT_PATTERN :: string where
  "PINT_PATTERN = ''^'' @ bs @ ''d+$''"

definition BRANCH_PATTERN :: string where
  "BRANCH_PATTERN = ''^[a-zA-Z][a-zA-Z0-9./_-]*$''"

definition SECRET_PATTERN :: string where
  "SECRET_PATTERN = ''^[A-Z][A-Z0-9_]*$''"

definition FILENAME_PATTERN :: string where
  "FILENAME_PATTERN = ''^[a-zA-Z0-9'' @ bs @ ''.]{1,32}$''"

definition EXTENSION_PATTERN :: string where
  "EXTENSION_PATTERN = ''^[a-zA-Z0-9]{1,5}$''"

definition PATH_PATTERN :: string where
  "PATH_PATTERN = ''^[a-zA-Z0-9'' @ bs @ ''./_-]{1,128}$''"

definition EVENT_PATTERN :: string where
  "EVENT_PATTERN = ''^['' @ bs @ ''w'' @ bs @ ''-_]+$''"

definition PARENT_PATTERN :: string where
  "PARENT_PATTERN = bs @ ''.'' @ bs @ ''.''"

definition create_validators :: "(string, string) hashmap" where
  "create_validators =
     [(''repository_name'', REPOSITORY_PATTERN), (''username'', NAME_PATTERN), (''org'', NAME_PATTERN),
      (''team_slug'', NAME_PATTERN), (''commit_hash'', COMMIT_PATTERN), (''pint'', PINT_PATTERN),
      (''branch_name'', BRANCH_PATTERN), (''environment_name'', BRANCH_PATTERN), (''secret_name'', SECRET_PATTERN),
      (''filename'', FILENAME_PATTERN), (''extension'', EXTENSION_PATTERN), (''path'', PATH_PATTERN),
      (''event_type'', EVENT_PATTERN), (''contains_parent_directory_component'', PARENT_PATTERN)]"

definition github_api_new ::
  "(string \<Rightarrow> 'k option) \<Rightarrow> (authentication \<Rightarrow> 'k option \<Rightarrow> string + 'c) \<Rightarrow> ('c \<Rightarrow> u64 \<Rightarrow> string + 'c)
     \<Rightarrow> (string, authentication) hashmap \<Rightarrow> (string, string) hashmap \<Rightarrow> api_error + 'c github" where
  "github_api_new from_rsa_pem build installation auths queries =
     (case build_github_clients from_rsa_pem build installation auths of
        Inl e \<Rightarrow> Inl e
      | Inr clients \<Rightarrow> Inr \<lparr>graphql_queries = queries, gh_clients = clients, gh_validators = create_validators\<rparr>)"

subsection \<open>Validators\<close>

definition validate_with :: "('c, 'w) github_api_ops \<Rightarrow> 'c github \<Rightarrow> string \<Rightarrow> string \<Rightarrow> api_error + string" where
  "validate_with H G validator value_to_validate =
     (case hm_get (gh_validators G) validator of
        None \<Rightarrow> Inl ImpossibleError
      | Some re \<Rightarrow>
          if is_match H re value_to_validate then Inr value_to_validate
          else Inl (GitHubError (GhInvalidInput value_to_validate)))"

definition validate :: "('c, 'w) github_api_ops \<Rightarrow> 'c github \<Rightarrow> string \<Rightarrow> string \<Rightarrow> ('w, string) api_call" where
  "validate H G validator value_to_validate = lift (validate_with H G validator value_to_validate)"

abbreviation validate_username where "validate_username H G \<equiv> validate H G ''username''"
abbreviation validate_org where "validate_org H G \<equiv> validate H G ''org''"
abbreviation validate_repository_name where "validate_repository_name H G \<equiv> validate H G ''repository_name''"
abbreviation validate_team_slug where "validate_team_slug H G \<equiv> validate H G ''team_slug''"
abbreviation validate_commit_hash where "validate_commit_hash H G \<equiv> validate H G ''commit_hash''"
abbreviation validate_pint where "validate_pint H G \<equiv> validate H G ''pint''"
abbreviation validate_user_id where "validate_user_id H G \<equiv> validate_pint H G"
abbreviation validate_repo_id where "validate_repo_id H G \<equiv> validate_pint H G"
abbreviation validate_branch_name where "validate_branch_name H G \<equiv> validate H G ''branch_name''"
abbreviation validate_environment_name where "validate_environment_name H G \<equiv> validate H G ''environment_name''"
abbreviation validate_secret_name where "validate_secret_name H G \<equiv> validate H G ''secret_name''"
abbreviation validate_filename where "validate_filename H G \<equiv> validate H G ''filename''"
abbreviation validate_extension where "validate_extension H G \<equiv> validate H G ''extension''"
abbreviation validate_path where "validate_path H G \<equiv> validate H G ''path''"
abbreviation validate_event_type where "validate_event_type H G \<equiv> validate H G ''event_type''"

definition validate_review_body :: "pull_request_review_event \<Rightarrow> string option \<Rightarrow> ('w, unit) api_call" where
  "validate_review_body event body =
     (if event = Approve \<or> (case body of Some b \<Rightarrow> b \<noteq> [] | None \<Rightarrow> False) then ok ()
      else err (GitHubError (GhInvalidInput (''a non-empty body is required for review event '' @ review_event_debug event))))"

subsection \<open>Requests\<close>

definition github_answer :: "string + u16 \<times> (string + string) \<Rightarrow> api_error + u16 \<times> (api_error + string)" where
  "github_answer a =
     (case a of
        Inl e \<Rightarrow> Inl (GitHubError (GhClientError e))
      | Inr (status, body) \<Rightarrow> Inr (status, map_sum (\<lambda>e. GitHubError (GraphQLRequestError e)) id body))"

definition github_send ::
  "('c, 'w) github_api_ops \<Rightarrow> 'c github \<Rightarrow> string \<Rightarrow> github_request \<Rightarrow> ('w, u16 \<times> (api_error + string)) api_call" where
  "github_send H G client_id req =
     and_then (ok_or (GitHubError (GhInvalidInput (''Client ID not found: '' @ client_id))) (hm_get (gh_clients G) client_id))
       (\<lambda>client. send_call (octocrab H) github_answer (client, req))"

definition make_get_request_with_headers where
  "make_get_request_with_headers H G client_id uri headers =
     github_send H G client_id \<lparr>ghr_method = GET, ghr_uri = uri, ghr_headers = headers, ghr_body = None\<rparr>"

definition make_generic_get_request where
  "make_generic_get_request H G client_id uri = make_get_request_with_headers H G client_id uri []"

definition make_generic_post_request where
  "make_generic_post_request H G client_id uri body =
     github_send H G client_id \<lparr>ghr_method = POST, ghr_uri = uri, ghr_headers = [], ghr_body = Some body\<rparr>"

definition make_generic_put_request where
  "make_generic_put_request H G client_id uri body =
     github_send H G client_id \<lparr>ghr_method = PUT, ghr_uri = uri, ghr_headers = [], ghr_body = body\<rparr>"

definition make_generic_patch_request where
  "make_generic_patch_request H G client_id uri body =
     github_send H G client_id \<lparr>ghr_method = PATCH, ghr_uri = uri, ghr_headers = [], ghr_body = body\<rparr>"

definition make_generic_delete_request where
  "make_generic_delete_request H G client_id uri body =
     github_send H G client_id \<lparr>ghr_method = DELETE, ghr_uri = uri, ghr_headers = [], ghr_body = body\<rparr>"

text \<open>
  What every handler starts and ends with: decoding the parameters, and the three ways of reading the
  answer: the body if the status is as expected, nothing but the status, or the status and a readable body.
\<close>

definition from_params ::
  "(string \<Rightarrow> 'p github_api_wrapper option) \<Rightarrow> string \<Rightarrow> (string \<Rightarrow> 'p \<Rightarrow> ('w, 'a) api_call) \<Rightarrow> ('w, 'a) api_call" where
  "from_params from_str params k =
     and_then (ok_or BadRequest (from_str params)) (\<lambda>request. k (gaw_client_id request) (gaw_params request))"

definition unexpected :: "u16 \<Rightarrow> api_error" where
  "unexpected status = GitHubError (GhUnexpectedStatusCode status)"

definition body_if :: "u16 list \<Rightarrow> u16 \<times> (api_error + string) \<Rightarrow> ('w, string) api_call" where
  "body_if expected = (\<lambda>(status, body).
     case body of Inl e \<Rightarrow> err e | Inr b \<Rightarrow> if status \<in> set expected then ok b else err (unexpected status))"

definition done_if :: "u16 list \<Rightarrow> u16 \<times> (api_error + string) \<Rightarrow> ('w, u32) api_call" where
  "done_if expected = (\<lambda>(status, body). if status \<in> set expected then ok 0 else err (unexpected status))"

definition done_if_body :: "u16 list \<Rightarrow> u16 \<times> (api_error + string) \<Rightarrow> ('w, u32) api_call" where
  "done_if_body expected r = and_then (body_if expected r) (\<lambda>_. ok 0)"

subsection \<open>Repositories\<close>

definition remove_user_from_repo where
  "remove_user_from_repo H G from_str params = from_params from_str params (\<lambda>client_id p.
     and_then (validate_username H G (rufrp_user p)) (\<lambda>user.
     and_then (validate_repository_name H G (rufrp_repo p)) (\<lambda>repo.
     and_then (make_generic_delete_request H G client_id (''/repos/'' @ repo @ ''/collaborators/'' @ user) None)
       (done_if [204]))))"

definition add_user_to_repo where
  "add_user_to_repo H G from_str params = from_params from_str params (\<lambda>client_id p.
     and_then (validate_username H G (autrp_user p)) (\<lambda>user.
     and_then (validate_repository_name H G (autrp_repo p)) (\<lambda>repo.
     let permission = (case autrp_permission p of Some x \<Rightarrow> x | None \<Rightarrow> ''pull'') in
     and_then (make_generic_put_request H G client_id (''/repos/'' @ repo @ ''/collaborators/'' @ user)
         (Some (JObject [(''permission'', JString permission)])))
       (done_if [204, 201]))))"

definition fetch_commit where
  "fetch_commit H G from_str params = from_params from_str params (\<lambda>client_id p.
     and_then (validate_username H G (fcp_user p)) (\<lambda>user.
     and_then (validate_repository_name H G (fcp_repo p)) (\<lambda>repo.
     and_then (validate_commit_hash H G (fcp_commit p)) (\<lambda>commit.
     and_then (make_generic_get_request H G client_id (''/repos/'' @ user @ ''/'' @ repo @ ''/commits/'' @ commit))
       (body_if [200])))))"

definition list_files where
  "list_files H G from_str params = from_params from_str params (\<lambda>client_id p.
     and_then (validate_org H G (lfp_owner p)) (\<lambda>organization.
     and_then (validate_repository_name H G (lfp_repo p)) (\<lambda>repository_name.
     and_then (validate_pint H G (lfp_pull_request p)) (\<lambda>pull_request.
     and_then (validate_pint H G (lfp_page p)) (\<lambda>page.
     and_then (make_generic_get_request H G client_id
         (''/repos/'' @ organization @ ''/'' @ repository_name @ ''/pulls/'' @ pull_request @ ''/files?page='' @ page))
       (body_if [200]))))))"

definition ref_q_param :: "('c, 'w) github_api_ops \<Rightarrow> 'c github \<Rightarrow> string option \<Rightarrow> ('w, string) api_call" where
  "ref_q_param H G reference =
     (case reference of
        None \<Rightarrow> ok []
      | Some r \<Rightarrow>
          if isl (validate_with H G ''commit_hash'' r) \<and> isl (validate_with H G ''branch_name'' r)
          then err BadRequest else ok (''?ref='' @ r))"

definition fetch_file_with_custom_media_type where
  "fetch_file_with_custom_media_type H G from_str params = from_params from_str params (\<lambda>client_id p.
     and_then (validate_org H G (ffr_organization p)) (\<lambda>organization.
     and_then (validate_repository_name H G (ffr_repository_name p)) (\<lambda>repository_name.
     let file_path = ffr_file_path p in
     if \<not> isl (validate_with H G ''contains_parent_directory_component'' file_path) then err BadRequest
     else and_then (ref_q_param H G (ffr_reference p)) (\<lambda>ref.
     let header_value = (case ffr_media_type p of
           MediaDefault \<Rightarrow> ''application/vnd.github+json''
         | cmt \<Rightarrow> ''application/vnd.github.'' @ media_type_fmt cmt @ ''+json'') in
     and_then (make_get_request_with_headers H G client_id
         (''/repos/'' @ organization @ ''/'' @ repository_name @ ''/contents/'' @ file_path @ ref)
         [(''Accept'', header_value)])
       (body_if [200])))))"

definition get_branch_protection_rules where
  "get_branch_protection_rules H G from_str params = from_params from_str params (\<lambda>client_id p.
     and_then (validate_username H G (gbprp_owner p)) (\<lambda>owner.
     and_then (validate_repository_name H G (gbprp_repo p)) (\<lambda>repo.
     and_then (validate_branch_name H G (gbprp_branch p)) (\<lambda>branch.
     and_then (make_generic_get_request H G client_id
         (''/repos/'' @ owner @ ''/'' @ repo @ ''/branches/'' @ branch @ ''/protection''))
       (body_if [200])))))"

definition get_branch_protection_ruleset where
  "get_branch_protection_ruleset H G from_str params = from_params from_str params (\<lambda>client_id p.
     and_then (validate_username H G (gbprpx_owner p)) (\<lambda>owner.
     and_then (validate_repository_name H G (gbprpx_repo p)) (\<lambda>repo.
     and_then (validate_branch_name H G (gbprpx_branch p)) (\<lambda>branch.
     and_then (make_generic_get_request H G client_id
         (''/repos/'' @ owner @ ''/'' @ repo @ ''/rules/branches/'' @ branch))
       (body_if [200])))))"

definition get_repository_collaborators where
  "get_repository_collaborators H G from_str params = from_params from_str params (\<lambda>client_id p.
     and_then (validate_username H G (grcp_owner p)) (\<lambda>owner.
     and_then (validate_repository_name H G (grcp_repo p)) (\<lambda>repo.
     let per_page = (case grcp_per_page p of Some n \<Rightarrow> n | None \<Rightarrow> 30);
         page = (case grcp_page p of Some n \<Rightarrow> n | None \<Rightarrow> 1);
         affiliation = (case grcp_affiliation p of Some a \<Rightarrow> a | None \<Rightarrow> ''all'')
     in if affiliation \<notin> {''outside'', ''direct'', ''all''} then err BadRequest
        else if per_page > 100 then err BadRequest
        else and_then (make_generic_get_request H G client_id
               (''/repos/'' @ owner @ ''/'' @ repo @ ''/collaborators?per_page='' @ decimal (unat per_page)
                @ ''&affiliation='' @ affiliation @ ''&page='' @ decimal (unat page)))
             (body_if [200]))))"

definition update_branch_protection_rule where
  "update_branch_protection_rule H G from_str params = from_params from_str params (\<lambda>client_id p.
     and_then (validate_username H G (ubprp_owner p)) (\<lambda>owner.
     and_then (validate_repository_name H G (ubprp_repo p)) (\<lambda>repo.
     and_then (validate_branch_name H G (ubprp_branch p)) (\<lambda>branch.
     and_then (ok_or BadRequest (value_from_str H (ubprp_body p))) (\<lambda>body.
     and_then (make_generic_put_request H G client_id
         (''/repos/'' @ owner @ ''/'' @ repo @ ''/branches/'' @ branch @ ''/protection'') (Some body))
       (done_if [200]))))))"

definition require_signed_commits where
  "require_signed_commits H G from_str params = from_params from_str params (\<lambda>client_id p.
     and_then (validate_username H G (rscp_owner p)) (\<lambda>owner.
     and_then (validate_repository_name H G (rscp_repo p)) (\<lambda>repo.
     and_then (validate_branch_name H G (rscp_branch p)) (\<lambda>branch.
     let address = ''/repos/'' @ owner @ ''/'' @ repo @ ''/branches/'' @ branch @ ''/protection/required_signatures'' in
     if rscp_activated p
     then and_then (make_generic_post_request H G client_id address JNull) (done_if [200])
     else and_then (make_generic_delete_request H G client_id address None) (done_if [204])))))"

definition get_weekly_commit_count where
  "get_weekly_commit_count H G from_str params = from_params from_str params (\<lambda>client_id p.
     and_then (validate_username H G (gwccp_owner p)) (\<lambda>owner.
     and_then (validate_repository_name H G (gwccp_repo p)) (\<lambda>repo.
     and_then (make_generic_get_request H G client_id (''/repos/'' @ owner @ ''/'' @ repo @ ''/stats/participation''))
       (body_if [200]))))"

definition comment_on_pull_request where
  "comment_on_pull_request H G from_str params = from_params from_str params (\<lambda>client_id p.
     and_then (validate_username H G (coprr_owner p)) (\<lambda>username.
     and_then (validate_repository_name H G (coprr_repository p)) (\<lambda>repository_name.
     and_then (validate_pint H G (coprr_number p)) (\<lambda>pull_request.
     and_then (make_generic_post_request H G client_id
         (''/repos/'' @ username @ ''/'' @ repository_name @ ''/issues/'' @ pull_request @ ''/comments'')
         (JObject [(''body'', JString (coprr_comment p))]))
       (done_if [200])))))"

definition get_custom_properties_values where
  "get_custom_properties_values H G from_str params = from_params from_str params (\<lambda>client_id p.
     and_then (validate_username H G (gcpvp_owner p)) (\<lambda>owner.
     and_then (validate_repository_name H G (gcpvp_repo p)) (\<lambda>repo.
     and_then (make_generic_get_request H G client_id (''/repos/'' @ owner @ ''/'' @ repo @ ''/properties/values''))
       (body_if [200]))))"

definition codeowners_status_of ::
  "(string \<Rightarrow> codeowners_errors_response option) \<Rightarrow> (codeowners_status \<Rightarrow> string option) \<Rightarrow> u16 \<times> (api_error + string)
     \<Rightarrow> ('w, string) api_call" where
  "codeowners_status_of errors_from_str status_to_string = (\<lambda>(status, body).
     case body of
       Inl e \<Rightarrow> err e
     | Inr b \<Rightarrow>
         if status = 200 then
           (case errors_from_str b of
              None \<Rightarrow> err (GitHubError GhBadResponse)
            | Some response \<Rightarrow>
                ok_or (GitHubError GhBadResponse)
                  (status_to_string (if cer_errors response = [] then CodeownersOk else CodeownersInvalid (cer_errors response))))
         else if status = 404 then ok_or (GitHubError GhBadResponse) (status_to_string CodeownersMissing)
         else err (unexpected status))"

definition check_codeowners_file where
  "check_codeowners_file H G errors_from_str status_to_string from_str params = from_params from_str params (\<lambda>client_id p.
     and_then (validate_username H G (ccp_owner p)) (\<lambda>owner.
     and_then (validate_repository_name H G (ccp_repo p)) (\<lambda>repo.
     and_then (make_generic_get_request H G client_id (''/repos/'' @ owner @ ''/'' @ repo @ ''/codeowners/errors''))
       (codeowners_status_of errors_from_str status_to_string))))"

definition create_file where
  "create_file H G from_str params = from_params from_str params (\<lambda>client_id p.
     and_then (validate_org H G (coufr_owner p)) (\<lambda>owner.
     and_then (validate_repository_name H G (coufr_repo p)) (\<lambda>repo.
     and_then (validate_path H G (coufr_path p)) (\<lambda>path.
     let file_hash = sha256_hex H (coufr_content p);
         body = JObject [(''message'', JString (coufr_message p)), (''content'', JString (base64_encode H (coufr_content p)))];
         body = (case coufr_branch p of Some branch \<Rightarrow> json_set ''branch'' (JString branch) body | None \<Rightarrow> body)
     in and_then (case coufr_sha p of
                None \<Rightarrow> ok body
              | Some sha \<Rightarrow> and_then (validate_commit_hash H G sha) (\<lambda>_. ok (json_set ''sha'' (JString sha) body))) (\<lambda>body.
        and_then (make_generic_put_request H G client_id
            (''/repos/'' @ owner @ ''/'' @ repo @ ''/contents/'' @ path) (Some body)) (\<lambda>r.
        and_then (body_if [200, 201] r) (\<lambda>_. ok file_hash)))))))"

definition get_repo_sbom where
  "get_repo_sbom H G from_str params = from_params from_str params (\<lambda>client_id p.
     and_then (validate_username H G (grsp_owner p)) (\<lambda>owner.
     and_then (validate_repository_name H G (grsp_repo p)) (\<lambda>repo.
     and_then (make_generic_get_request H G client_id (''/repos/'' @ owner @ ''/'' @ repo @ ''/dependency-graph/sbom''))
       (body_if [200]))))"

definition get_repo_id_from_repo_name_internal where
  "get_repo_id_from_repo_name_internal H G repo_from_str client_id owner repo =
     and_then (make_generic_get_request H G client_id (''/repos/'' @ owner @ ''/'' @ repo)) (\<lambda>r.
     and_then (body_if [200] r) (\<lambda>body.
     and_then (ok_or (GitHubError GhBadResponse) (repo_from_str body)) (\<lambda>repo_info.
     ok (decimal (unat (gr_id repo_info))))))"

definition get_repo_id_from_repo_name where
  "get_repo_id_from_repo_name H G repo_from_str from_str params = from_params from_str params (\<lambda>client_id p.
     and_then (validate_username H G (grifrnp_owner p)) (\<lambda>owner.
     and_then (validate_repository_name H G (grifrnp_repo p)) (\<lambda>repo.
     get_repo_id_from_repo_name_internal H G repo_from_str client_id owner repo)))"

definition get_repo_name_from_repo_id where
  "get_repo_name_from_repo_id H G repo_from_str from_str params = from_params from_str params (\<lambda>client_id p.
     and_then (validate_repo_id H G (grnfrip_repo_id p)) (\<lambda>repo_id.
     and_then (make_generic_get_request H G client_id (''/repositories/'' @ repo_id)) (\<lambda>r.
     and_then (body_if [200] r) (\<lambda>body.
     and_then (ok_or (GitHubError GhBadResponse) (repo_from_str body)) (\<lambda>repo_info. ok (gr_full_name repo_info))))))"

subsection \<open>References and code search\<close>

definition get_reference where
  "get_reference H G from_str params = from_params from_str params (\<lambda>client_id p.
     and_then (validate_username H G (gocbrp_owner p)) (\<lambda>owner.
     and_then (validate_repository_name H G (gocbrp_repo p)) (\<lambda>repo.
     and_then (validate_branch_name H G (case gocbrp_reference p of Branch name \<Rightarrow> name | Tag name \<Rightarrow> name)) (\<lambda>_.
     and_then (make_generic_get_request H G client_id
         (''/repos/'' @ owner @ ''/'' @ repo @ ''/git/ref/'' @ git_ref_fmt (gocbrp_reference p)))
       (\<lambda>(status, body). case body of
            Inl e \<Rightarrow> err e
          | Inr b \<Rightarrow> if status = 200 then ok b else if status = 404 then ok [] else err (unexpected status))))))"

definition create_reference where
  "create_reference H G from_str params = from_params from_str params (\<lambda>client_id p.
     case gocbrp_sha p of
       None \<Rightarrow> err BadRequest
     | Some sha \<Rightarrow>
         and_then (validate_username H G (gocbrp_owner p)) (\<lambda>owner.
         and_then (validate_repository_name H G (gocbrp_repo p)) (\<lambda>repo.
         and_then (validate_commit_hash H G sha) (\<lambda>sha.
         and_then (make_generic_post_request H G client_id (''/repos/'' @ owner @ ''/'' @ repo @ ''/git/refs'')
             (JObject [(''ref'', JString (''refs/'' @ git_ref_fmt (gocbrp_reference p))), (''sha'', JString sha)]))
           (done_if_body [201])))))"

definition validated_term :: "string \<Rightarrow> (string \<Rightarrow> ('w, string) api_call) \<Rightarrow> string option \<Rightarrow> ('w, string) api_call" where
  "validated_term label check value =
     (case value of None \<Rightarrow> ok [] | Some v \<Rightarrow> and_then (check v) (\<lambda>v. ok (label @ v)))"

definition validated_option :: "(string \<Rightarrow> ('w, string) api_call) \<Rightarrow> string option \<Rightarrow> ('w, string option) api_call" where
  "validated_option check value =
     (case value of None \<Rightarrow> ok None | Some v \<Rightarrow> and_then (check v) (\<lambda>v. ok (Some v)))"

definition search_code where
  "search_code H G from_str params = from_params from_str params (\<lambda>client_id p.
     let file_content = (case scp_file_content p of Some c \<Rightarrow> c | None \<Rightarrow> []) in
     if \<exists>c \<in> set file_content. c \<in> {CHR '':'', CHR 0x22, CHR 0x27, CHR ''('', CHR '')'', CHR ''&'', CHR ''|'', CHR 0x0A, CHR 0x0D, CHR 0x09}
     then err BadRequest
     else
       and_then (validated_term ''filename:'' (validate_filename H G) (scp_filename p)) (\<lambda>filename.
       and_then (validated_term ''extension:'' (validate_extension H G) (scp_extension p)) (\<lambda>extension.
       and_then (validated_term ''path:'' (validate_path H G) (scp_path p)) (\<lambda>path.
       and_then (validated_option (validate_org H G) (scp_org p)) (\<lambda>org.
       and_then (validated_option (validate_repository_name H G) (scp_repo p)) (\<lambda>repo.
       let org_and_repo = (case (org, repo) of
             (None, None) \<Rightarrow> []
           | (Some org, Some repo) \<Rightarrow> ''repo:'' @ org @ ''/'' @ repo
           | (Some org, None) \<Rightarrow> ''org:'' @ org
           | (None, Some repo) \<Rightarrow> ''repo:'' @ repo);
           per_page = (case scp_per_page p of Some n \<Rightarrow> n | None \<Rightarrow> 100);
           page = (case scp_page p of Some n \<Rightarrow> n | None \<Rightarrow> 1);
           query = file_content @ '' '' @ filename @ '' '' @ extension @ '' '' @ path @ '' '' @ org_and_repo
       in if per_page > 100 then err BadRequest
          else and_then (make_generic_get_request H G client_id
                 (''/search/code?q='' @ url_encode H query @ ''&per_page='' @ decimal (unat per_page) @ ''&page='' @ decimal (unat page)))
               (body_if [200])))))))"

subsection \<open>Teams\<close>

datatype permission = PermAdmin | PermPush | PermMaintain | PermTriage | PermPull

definition permission_from_str :: "string \<Rightarrow> permission option" where
  "permission_from_str s =
     (if s = ''admin'' then Some PermAdmin else if s = ''push'' then Some PermPush
      else if s = ''maintain'' then Some PermMaintain else if s = ''triage'' then Some PermTriage
      else if s = ''pull'' then Some PermPull else None)"

fun permission_fmt :: "permission \<Rightarrow> string" where
  "permission_fmt PermAdmin = ''admin''"
| "permission_fmt PermPush = ''push''"
| "permission_fmt PermMaintain = ''maintain''"
| "permission_fmt PermTriage = ''triage''"
| "permission_fmt PermPull = ''pull''"

definition remove_user_from_team where
  "remove_user_from_team H G from_str params = from_params from_str params (\<lambda>client_id p.
     and_then (validate_org H G (ruftp_org p)) (\<lambda>org.
     and_then (validate_team_slug H G (ruftp_team_slug p)) (\<lambda>team_slug.
     and_then (validate_username H G (ruftp_user p)) (\<lambda>user.
     and_then (make_generic_delete_request H G client_id
         (''/orgs/'' @ org @ ''/teams/'' @ team_slug @ ''/memberships/'' @ user) None)
       (done_if [204])))))"

definition add_user_to_team where
  "add_user_to_team H G from_str params = from_params from_str params (\<lambda>client_id p.
     and_then (validate_org H G (auttp_org p)) (\<lambda>org.
     and_then (validate_team_slug H G (auttp_team_slug p)) (\<lambda>team_slug.
     and_then (validate_username H G (auttp_user p)) (\<lambda>user.
     and_then (make_generic_put_request H G client_id
         (''/orgs/'' @ org @ ''/teams/'' @ team_slug @ ''/memberships/'' @ user)
         (Some (JObject [(''role'', JString (auttp_role p))])))
       (done_if [204])))))"

definition add_repo_to_team where
  "add_repo_to_team H G from_str params = from_params from_str params (\<lambda>client_id p.
     and_then (validate_org H G (arttp_org p)) (\<lambda>org.
     and_then (validate_team_slug H G (arttp_team_slug p)) (\<lambda>team_slug.
     and_then (validate_repository_name H G (arttp_repo p)) (\<lambda>repo.
     and_then (ok_or BadRequest (permission_from_str (arttp_permission p))) (\<lambda>permission.
     and_then (make_generic_put_request H G client_id
         (''/orgs/'' @ org @ ''/teams/'' @ team_slug @ ''/repos/'' @ org @ ''/'' @ repo)
         (Some (JObject [(''permission'', JString (permission_fmt permission))])))
       (done_if [204]))))))"

definition remove_repo_from_team where
  "remove_repo_from_team H G from_str params = from_params from_str params (\<lambda>client_id p.
     and_then (validate_org H G (rrftp_org p)) (\<lambda>org.
     and_then (validate_team_slug H G (rrftp_team_slug p)) (\<lambda>team_slug.
     and_then (validate_repository_name H G (rrftp_repo p)) (\<lambda>repo.
     and_then (make_generic_delete_request H G client_id
         (''/orgs/'' @ org @ ''/teams/'' @ team_slug @ ''/repos/'' @ org @ ''/'' @ repo) None)
       (done_if [204])))))"

definition get_repo_teams where
  "get_repo_teams H G from_str params = from_params from_str params (\<lambda>client_id p.
     and_then (validate_org H G (grtp_org p)) (\<lambda>org.
     and_then (validate_repository_name H G (grtp_repo p)) (\<lambda>repo.
     let per_page = (case grtp_per_page p of Some n \<Rightarrow> n | None \<Rightarrow> 30);
         page = (case grtp_page p of Some n \<Rightarrow> n | None \<Rightarrow> 1)
     in and_then (make_generic_get_request H G client_id
            (''/repos/'' @ org @ ''/'' @ repo @ ''/teams?per_page='' @ decimal (unat per_page) @ ''&page='' @ decimal (unat page)))
          (body_if [200]))))"

subsection \<open>Pull requests\<close>

definition pull_request_request_reviewers_call where
  "pull_request_request_reviewers_call H G from_str params = from_params from_str params (\<lambda>client_id p.
     and_then (validate_org H G (prrr_owner p)) (\<lambda>owner.
     and_then (validate_repository_name H G (prrr_repo p)) (\<lambda>repo.
     and_then (check_all (validate_username H G) (prrr_reviewers p)) (\<lambda>_.
     and_then (check_all (validate_team_slug H G) (prrr_team_reviewers p)) (\<lambda>_.
     and_then (make_generic_post_request H G client_id
         (''/repos/'' @ owner @ ''/'' @ repo @ ''/pulls/'' @ decimal (unat (prrr_pull_number p)) @ ''/requested_reviewers'')
         (JObject [(''reviewers'', j_strings (prrr_reviewers p)), (''team_reviewers'', j_strings (prrr_team_reviewers p))]))
       (\<lambda>(status, body). case body of
            Inl e \<Rightarrow> err e
          | Inr _ \<Rightarrow>
              if status = 201 then ok True else if status = 404 then ok False else if status = 422 then ok False
              else err (unexpected status)))))))"

definition submit_pull_request_review where
  "submit_pull_request_review H G from_str params = from_params from_str params (\<lambda>client_id p.
     and_then (validate_org H G (sprrr_owner p)) (\<lambda>owner.
     and_then (validate_repository_name H G (sprrr_repo p)) (\<lambda>repo.
     and_then (validate_review_body (sprrr_event p) (sprrr_body p)) (\<lambda>_.
     let request_body = JObject ((''event'', JString (review_event_name (sprrr_event p)))
           # (case sprrr_body p of None \<Rightarrow> [] | Some b \<Rightarrow> [(''body'', JString b)]))
     in and_then (make_generic_post_request H G client_id
            (''/repos/'' @ owner @ ''/'' @ repo @ ''/pulls/'' @ decimal (unat (sprrr_number p)) @ ''/reviews'') request_body)
          (done_if_body [200])))))"

definition create_pull_request where
  "create_pull_request H G from_str params = from_params from_str params (\<lambda>client_id p.
     and_then (validate_org H G (cprr_owner p)) (\<lambda>owner.
     and_then (validate_repository_name H G (cprr_repo p)) (\<lambda>repo.
     let request_body = JObject [(''title'', JString (cprr_title p)), (''head'', JString (cprr_head p)),
                                 (''base'', JString (cprr_base p)), (''draft'', JBool (cprr_draft p))];
         request_body = (case cprr_body p of Some body \<Rightarrow> json_set ''body'' (JString body) request_body | None \<Rightarrow> request_body)
     in and_then (make_generic_post_request H G client_id (''/repos/'' @ owner @ ''/'' @ repo @ ''/pulls'') request_body)
          (body_if [201]))))"

definition query_string_from_options :: "('c, 'w) github_api_ops \<Rightarrow> get_pull_request_options \<Rightarrow> string" where
  "query_string_from_options H options =
     form_pairs H
       ((case gpro_state options of None \<Rightarrow> [] | Some s \<Rightarrow> [(''state'', pull_request_state_fmt s)])
        @ (case gpro_head options of None \<Rightarrow> [] | Some h \<Rightarrow> [(''head'', h)])
        @ (case gpro_base options of None \<Rightarrow> [] | Some b \<Rightarrow> if b = [] then [] else [(''base'', b)]))"

definition get_pull_requests where
  "get_pull_requests H G from_str params = from_params from_str params (\<lambda>client_id p.
     and_then (validate_org H G (gprr_owner p)) (\<lambda>owner.
     and_then (validate_repository_name H G (gprr_repo p)) (\<lambda>repo.
     if gprr_per_page p > 100 then err BadRequest
     else and_then (make_generic_get_request H G client_id
              (''/repos/'' @ owner @ ''/'' @ repo @ ''/pulls?''
               @ (case gprr_options p of None \<Rightarrow> [] | Some options \<Rightarrow> query_string_from_options H options)))
            (body_if [200]))))"

definition add_labels where
  "add_labels H G from_str params = from_params from_str params (\<lambda>client_id p.
     and_then (validate_org H G (alr_owner p)) (\<lambda>owner.
     and_then (validate_repository_name H G (alr_repo p)) (\<lambda>repo.
     and_then (make_generic_post_request H G client_id
         (''/repos/'' @ owner @ ''/'' @ repo @ ''/issues/'' @ decimal (unat (alr_number p)) @ ''/labels'')
         (JObject [(''labels'', j_strings (alr_labels p))]))
       (done_if_body [200]))))"

subsection \<open>Secrets\<close>

definition GITHUB_SECRET_MAX_BYTES :: nat where
  "GITHUB_SECRET_MAX_BYTES = 48 * 1024"

definition key_part :: "string \<Rightarrow> json \<Rightarrow> ('w, string) api_call" where
  "key_part name res =
     and_then (ok_or (GitHubError (GhInvalidInput ''Invalid response while fetching public key from GitHub'')) (json_get name res))
       (\<lambda>v. ok_or (GitHubError GhBadResponse) (json_as_str v))"

definition get_pub_key_for_secret_encryption where
  "get_pub_key_for_secret_encryption H G client_id address =
     and_then (make_generic_get_request H G client_id address) (\<lambda>(status, body).
     if status \<noteq> 200 then err (unexpected status)
     else and_then (lift body) (\<lambda>body.
       and_then (ok_or (GitHubError (GhInvalidInput ''Could not deserialize public key from GitHub'')) (value_from_str H body)) (\<lambda>res.
       and_then (key_part ''key'' res) (\<lambda>pub_key.
       and_then (key_part ''key_id'' res) (\<lambda>key_id. ok (pub_key, key_id))))))"

definition encrypt_secret :: "('c, 'w) github_api_ops \<Rightarrow> string \<Rightarrow> string \<Rightarrow> ('w, string) api_call" where
  "encrypt_secret H secret pub_key =
     and_then (ok_or (GitHubError GhBadResponse) (base64_decode H pub_key)) (\<lambda>key.
     if length key \<noteq> seal_key_length H then err (GitHubError GhBadResponse)
     else and_then (ok_or (GitHubError (GhInvalidInput ''Could not encrypt secret under public key''))
              (seal_encrypt H (as_bytes secret) key))
            (\<lambda>ciphertext. ok (base64_encode H ciphertext)))"

definition configure_secret where
  "configure_secret H G from_str params = from_params from_str params (\<lambda>client_id p.
     and_then (validate_username H G (csp_owner p)) (\<lambda>owner.
     and_then (validate_repository_name H G (csp_repo p)) (\<lambda>repo.
     and_then (validated_option (validate_environment_name H G) (csp_env_name p)) (\<lambda>env_name.
     and_then (validate_secret_name H G (csp_secret_name p)) (\<lambda>secret_name.
     if length (csp_secret p) > GITHUB_SECRET_MAX_BYTES
     then err (GitHubError (GhInvalidInput (''Secret exceeds GitHub's 48KiB limit: '' @ decimal (length (csp_secret p)) @ '' bytes'')))
     else
       and_then (get_pub_key_for_secret_encryption H G client_id
           (case env_name of
              Some env_name \<Rightarrow> ''/repos/'' @ owner @ ''/'' @ repo @ ''/environments/'' @ env_name @ ''/secrets/public-key''
            | None \<Rightarrow> ''/repos/'' @ owner @ ''/'' @ repo @ ''/actions/secrets/public-key'')) (\<lambda>(pub_key, key_id).
       and_then (encrypt_secret H (csp_secret p) pub_key) (\<lambda>ciphertext.
       and_then (make_generic_put_request H G client_id
           (case env_name of
              Some env_name \<Rightarrow> ''/repos/'' @ owner @ ''/'' @ repo @ ''/environments/'' @ env_name @ ''/secrets/'' @ secret_name
            | None \<Rightarrow> ''/repos/'' @ owner @ ''/'' @ repo @ ''/actions/secrets/'' @ secret_name)
           (Some (JObject [(''encrypted_value'', JString ciphertext), (''key_id'', JString key_id)])))
         (done_if [201, 204]))))))))"

datatype repo_to_org_secret_action = AddRepo | RemoveRepo

definition execute_org_secret_action where
  "execute_org_secret_action H G repo_from_str client_id p action =
     and_then (validate_org H G (aorrtosp_org p)) (\<lambda>org.
     and_then (validate_secret_name H G (aorrtosp_secret_name p)) (\<lambda>secret_name.
     and_then (validate_repository_name H G (aorrtosp_repository p)) (\<lambda>repository.
     and_then (get_repo_id_from_repo_name_internal H G repo_from_str client_id org repository) (\<lambda>repo_id.
     let address = ''/orgs/'' @ org @ ''/actions/secrets/'' @ secret_name @ ''/repositories/'' @ repo_id
     in and_then (case action of
              AddRepo \<Rightarrow> make_generic_put_request H G client_id address None
            | RemoveRepo \<Rightarrow> make_generic_delete_request H G client_id address None)
          (done_if [204])))))"

definition add_repo_to_org_secret where
  "add_repo_to_org_secret H G repo_from_str from_str params =
     from_params from_str params (\<lambda>client_id p. execute_org_secret_action H G repo_from_str client_id p AddRepo)"

definition remove_repo_from_org_secret where
  "remove_repo_from_org_secret H G repo_from_str from_str params =
     from_params from_str params (\<lambda>client_id p. execute_org_secret_action H G repo_from_str client_id p RemoveRepo)"

definition list_org_secrets_for_repo where
  "list_org_secrets_for_repo H G from_str params = from_params from_str params (\<lambda>client_id p.
     and_then (validate_org H G (losfrp_org p)) (\<lambda>org.
     and_then (validate_repository_name H G (losfrp_repository p)) (\<lambda>repository.
     let per_page = (case losfrp_per_page p of Some n \<Rightarrow> n | None \<Rightarrow> 30);
         page = (case losfrp_page p of Some n \<Rightarrow> n | None \<Rightarrow> 1)
     in and_then (make_generic_get_request H G client_id
            (''/repos/'' @ org @ ''/'' @ repository @ ''/actions/organization-secrets?per_page='' @ decimal (unat per_page)
             @ ''&page='' @ decimal (unat page)))
          (body_if [200]))))"

subsection \<open>Environments, dispatches and deploy keys\<close>

definition create_environment_for_repo where
  "create_environment_for_repo H G from_str params = from_params from_str params (\<lambda>client_id p.
     and_then (validate_username H G (cefrp_owner p)) (\<lambda>owner.
     and_then (validate_repository_name H G (cefrp_repo p)) (\<lambda>repo.
     and_then (validate_environment_name H G (cefrp_env_name p)) (\<lambda>env_name.
     and_then (make_generic_put_request H G client_id (''/repos/'' @ owner @ ''/'' @ repo @ ''/environments/'' @ env_name)
         (Some (JObject [(''wait_timer'', JInt 0), (''prevent_self_review'', JBool False), (''reviewers'', JArray []),
           (''deployment_branch_policy'', JObject [(''protected_branches'', JBool False), (''custom_branch_policies'', JBool True)])])))
       (done_if [200])))))"

definition create_deployment_branch_protection_rule where
  "create_deployment_branch_protection_rule H G from_str params = from_params from_str params (\<lambda>client_id p.
     and_then (validate_username H G (cdbprp_owner p)) (\<lambda>owner.
     and_then (validate_repository_name H G (cdbprp_repo p)) (\<lambda>repo.
     and_then (validate_environment_name H G (cdbprp_env_name p)) (\<lambda>env_name.
     and_then (validate_branch_name H G (cdbprp_branch p)) (\<lambda>branch.
     and_then (make_generic_post_request H G client_id
         (''/repos/'' @ owner @ ''/'' @ repo @ ''/environments/'' @ env_name @ ''/deployment-branch-policies'')
         (JObject [(''name'', JString branch), (''type'', JString ''branch'')]))
       (done_if [200]))))))"

definition trigger_repo_dispatch where
  "trigger_repo_dispatch H G from_str params = from_params from_str params (\<lambda>client_id p.
     and_then (validate_username H G (rdp_owner p)) (\<lambda>owner.
     and_then (validate_repository_name H G (rdp_repo p)) (\<lambda>repo.
     and_then (validate_event_type H G (rdp_event_type p)) (\<lambda>event_type.
     and_then (make_generic_post_request H G client_id (''/repos/'' @ owner @ ''/'' @ repo @ ''/dispatches'')
         (JObject [(''event_type'', JString event_type), (''client_payload'', rdp_client_payload p)]))
       (done_if_body [204])))))"

definition delete_deploy_key where
  "delete_deploy_key H G from_str params = from_params from_str params (\<lambda>client_id p.
     and_then (validate_username H G (ddkp_owner p)) (\<lambda>owner.
     and_then (validate_repository_name H G (ddkp_repo p)) (\<lambda>repo.
     and_then (make_generic_delete_request H G client_id
         (''/repos/'' @ owner @ ''/'' @ repo @ ''/keys/'' @ decimal (unat (ddkp_key_id p))) None)
       (done_if_body [204]))))"

definition create_deploy_key where
  "create_deploy_key H G id_from_str from_str params = from_params from_str params (\<lambda>client_id p.
     and_then (validate_username H G (cdkp_owner p)) (\<lambda>owner.
     and_then (validate_repository_name H G (cdkp_repo p)) (\<lambda>repo.
     and_then (make_generic_post_request H G client_id (''/repos/'' @ owner @ ''/'' @ repo @ ''/keys'')
         (JObject [(''title'', JString (cdkp_title p)), (''key'', JString (cdkp_key p)), (''read_only'', JBool (cdkp_read_only p))])) (\<lambda>r.
     and_then (body_if [201] r) (\<lambda>body.
     and_then (ok_or BadRequest (id_from_str body)) (\<lambda>key_id :: u64. ok (decimal (unat key_id))))))))"

subsection \<open>Members, Copilot seats, access tokens and enterprises\<close>

definition check_org_membership_of_user where
  "check_org_membership_of_user H G from_str params = from_params from_str params (\<lambda>client_id p.
     and_then (validate_org H G (comp_org p)) (\<lambda>org.
     and_then (validate_username H G (comp_user p)) (\<lambda>user.
     and_then (make_generic_get_request H G client_id (''/orgs/'' @ org @ ''/members/'' @ user))
       (\<lambda>(status, body). case body of
            Inl e \<Rightarrow> err e
          | Inr _ \<Rightarrow> if status = 204 then ok True else if status = 404 then ok False else err (unexpected status)))))"

definition remove_outside_collaborator_from_org where
  "remove_outside_collaborator_from_org H G from_str params = from_params from_str params (\<lambda>client_id p.
     and_then (validate_org H G (rocp_org p)) (\<lambda>org.
     and_then (validate_username H G (rocp_user p)) (\<lambda>user.
     and_then (make_generic_delete_request H G client_id (''/orgs/'' @ org @ ''/outside_collaborators/'' @ user) None)
       (done_if_body [204]))))"

definition get_user_id_from_username where
  "get_user_id_from_username H G user_from_str from_str params = from_params from_str params (\<lambda>client_id p.
     and_then (validate_username H G p) (\<lambda>username.
     and_then (make_generic_get_request H G client_id (''/users/'' @ username)) (\<lambda>r.
     and_then (body_if [200] r) (\<lambda>body.
     and_then (ok_or (GitHubError GhBadResponse) (user_from_str body)) (\<lambda>user_info. ok (decimal (unat (ghu_id user_info))))))))"

definition get_username_from_user_id where
  "get_username_from_user_id H G user_from_str from_str params = from_params from_str params (\<lambda>client_id p.
     and_then (validate_user_id H G p) (\<lambda>user_id.
     and_then (make_generic_get_request H G client_id (''/user/'' @ user_id)) (\<lambda>r.
     and_then (body_if [200] r) (\<lambda>body.
     and_then (ok_or (GitHubError GhBadResponse) (user_from_str body)) (\<lambda>user_info. ok (ghu_login user_info))))))"

definition list_seats_in_org_copilot where
  "list_seats_in_org_copilot H G from_str params = from_params from_str params (\<lambda>client_id p.
     and_then (validate_org H G (lsiocp_org p)) (\<lambda>organization.
     let per_page = (case lsiocp_per_page p of Some n \<Rightarrow> n | None \<Rightarrow> 50);
         page = (case lsiocp_page p of Some n \<Rightarrow> n | None \<Rightarrow> 1)
     in and_then (make_generic_get_request H G client_id
            (''/orgs/'' @ organization @ ''/copilot/billing/seats?page='' @ decimal (unat page) @ ''&per_page='' @ decimal (unat per_page)))
          (body_if [200])))"

definition add_users_to_org_copilot where
  "add_users_to_org_copilot H G from_str params = from_params from_str params (\<lambda>client_id p.
     and_then (validate_org H G (autocp_org p)) (\<lambda>organization.
     and_then (check_all (validate_username H G) (autocp_selected_usernames p)) (\<lambda>_.
     and_then (make_generic_post_request H G client_id (''/orgs/'' @ organization @ ''/copilot/billing/selected_users'')
         (JObject [(''selected_usernames'', j_strings (autocp_selected_usernames p))]))
       (body_if [201]))))"

definition remove_users_from_org_copilot where
  "remove_users_from_org_copilot H G from_str params = from_params from_str params (\<lambda>client_id p.
     and_then (validate_org H G (rufocp_org p)) (\<lambda>organization.
     and_then (check_all (validate_username H G) (rufocp_selected_usernames p)) (\<lambda>_.
     and_then (make_generic_delete_request H G client_id (''/orgs/'' @ organization @ ''/copilot/billing/selected_users'')
         (Some (JObject [(''selected_usernames'', j_strings (rufocp_selected_usernames p))])))
       (body_if [200]))))"

definition list_fpat_requests_for_org where
  "list_fpat_requests_for_org H G from_str params = from_params from_str params (\<lambda>client_id p.
     and_then (validate_org H G (lfrfop_org p)) (\<lambda>org.
     and_then (make_generic_get_request H G client_id (''/orgs/'' @ org @ ''/personal-access-token-requests''))
       (body_if [200])))"

definition get_repos_for_fpat where
  "get_repos_for_fpat H G from_str params = from_params from_str params (\<lambda>client_id p.
     and_then (validate_org H G (grffp_org p)) (\<lambda>org.
     let per_page = (case grffp_per_page p of Some n \<Rightarrow> n | None \<Rightarrow> 30);
         page = (case grffp_page p of Some n \<Rightarrow> n | None \<Rightarrow> 1)
     in and_then (make_generic_get_request H G client_id
            (''/orgs/'' @ org @ ''/personal-access-token-requests/'' @ decimal (unat (grffp_request_id p))
             @ ''/repositories?per_page='' @ decimal (unat per_page) @ ''&page='' @ decimal (unat page)))
          (body_if [200])))"

definition review_fpat_requests_for_org where
  "review_fpat_requests_for_org H G from_str params = from_params from_str params (\<lambda>client_id p.
     and_then (validate_org H G (rfrfop_org p)) (\<lambda>org.
     if rfrfop_action p \<notin> {''approve'', ''deny''} then err BadRequest
     else and_then (make_generic_post_request H G client_id (''/orgs/'' @ org @ ''/personal-access-token-requests'')
              (JObject [(''pat_request_ids'', JArray (map (\<lambda>i. JInt (uint i)) (rfrfop_pat_request_ids p))),
                        (''action'', JString (rfrfop_action p)), (''reason'', JString (rfrfop_reason p))]))
            (done_if_body [202])))"

definition grant_repo_access_to_org_installation where
  "grant_repo_access_to_org_installation H G from_str params = from_params from_str params (\<lambda>client_id p.
     and_then (validate_org H G (gratoip_enterprise p)) (\<lambda>enterprise.
     and_then (validate_org H G (gratoip_org p)) (\<lambda>org.
     and_then (check_all (validate_repository_name H G) (gratoip_repositories p)) (\<lambda>_.
     and_then (make_generic_patch_request H G client_id
         (''/enterprises/'' @ enterprise @ ''/apps/organizations/'' @ org @ ''/installations/''
          @ decimal (unat (gratoip_installation_id p)) @ ''/repositories/add'')
         (Some (JObject [(''repositories'', j_strings (gratoip_repositories p))])))
       (done_if [200])))))"

definition remove_repo_access_from_org_installation where
  "remove_repo_access_from_org_installation H G from_str params = from_params from_str params (\<lambda>client_id p.
     and_then (validate_org H G (rrafoip_enterprise p)) (\<lambda>enterprise.
     and_then (validate_org H G (rrafoip_org p)) (\<lambda>org.
     and_then (check_all (validate_repository_name H G) (rrafoip_repositories p)) (\<lambda>_.
     and_then (make_generic_patch_request H G client_id
         (''/enterprises/'' @ enterprise @ ''/apps/organizations/'' @ org @ ''/installations/''
          @ decimal (unat (rrafoip_installation_id p)) @ ''/repositories/remove'')
         (Some (JObject [(''repositories'', j_strings (rrafoip_repositories p))])))
       (done_if [200])))))"

definition get_enterprise_license_status where
  "get_enterprise_license_status H G licenses_from_str licenses_to_string from_str params = from_params from_str params (\<lambda>client_id p.
     and_then (validate_org H G p) (\<lambda>enterprise.
     and_then (make_generic_get_request H G client_id (''/enterprises/'' @ enterprise @ ''/consumed-licenses'')) (\<lambda>r.
     and_then (body_if [200] r) (\<lambda>body.
     and_then (ok_or (GitHubError GhBadResponse) (licenses_from_str body)) (\<lambda>consumed_licenses :: consumed_licenses_response.
     ok_or (GitHubError GhBadResponse) (licenses_to_string consumed_licenses))))))"

subsection \<open>GraphQL\<close>

record graphql_request =
  gql_query_name :: string
  gql_variables :: "(string, json) hashmap"

definition GITHUB_GQL_API :: string where
  "GITHUB_GQL_API = ''/graphql''"

definition make_gql_request where
  "make_gql_request H G client_id query =
     and_then (github_send H G client_id \<lparr>ghr_method = POST, ghr_uri = GITHUB_GQL_API, ghr_headers = [], ghr_body = Some query\<rparr>)
       (body_if [200])"

text \<open>
  The two handlers differ in the type of the variables: strings for the first, any JSON values for the second.
\<close>

definition make_advanced_graphql_query where
  "make_advanced_graphql_query H G from_str request = from_params from_str request (\<lambda>client_id p.
     case hm_get (graphql_queries G) (gql_query_name p) of
       None \<Rightarrow> err (GitHubError (GraphQLQueryUnknown (gql_query_name p)))
     | Some query \<Rightarrow>
         make_gql_request H G client_id (JObject [(''query'', JString query), (''variables'', JObject (gql_variables p))]))"

definition make_graphql_query where
  "make_graphql_query H G from_str request = from_params from_str request (\<lambda>client_id p.
     case hm_get (graphql_queries G) (fst p) of
       None \<Rightarrow> err (GitHubError (GraphQLQueryUnknown (fst p)))
     | Some query \<Rightarrow>
         make_gql_request H G client_id
           (JObject [(''query'', JString query), (''variables'', JObject (map (\<lambda>(k, v). (k, JString v)) (snd p)))]))"

end
