(* ===== verification/Plaid_Github_Safety.thy ===== *)
theory Plaid_Github_Safety
  imports Plaid_Github Plaid_Api
begin

text \<open>
  What the GitHub service may send: a table of the endpoints of every function, as a specification, and the
  proof that every function keeps to it, whatever a rule passes. Holes of an address are filled with characters
  of a class only. The interface the handlers rely on (the regex engine and the URL encodings) is a locale.
\<close>

named_theorems confined and call_rules and request_rules

subsection \<open>Characters of the parts of an address\<close>

definition name_char :: "char \<Rightarrow> bool" where
  "name_char c \<longleftrightarrow> word_char c \<or> c = CHR ''-''"

definition repo_char :: "char \<Rightarrow> bool" where
  "repo_char c \<longleftrightarrow> word_char c \<or> c \<in> {CHR ''-'', CHR ''.'', CHR ''/''}"

definition hex_char :: "char \<Rightarrow> bool" where
  "hex_char c \<longleftrightarrow> between CHR ''a'' CHR ''f'' c \<or> between CHR ''0'' CHR ''9'' c"

definition branch_char :: "char \<Rightarrow> bool" where
  "branch_char c \<longleftrightarrow> is_alnum c \<or> c \<in> {CHR ''.'', CHR ''/'', CHR ''_'', CHR ''-''}"

definition secret_char :: "char \<Rightarrow> bool" where
  "secret_char c \<longleftrightarrow> between CHR ''A'' CHR ''Z'' c \<or> between CHR ''0'' CHR ''9'' c \<or> c = CHR ''_''"

definition word_lower :: "char \<Rightarrow> bool" where
  "word_lower c \<longleftrightarrow> between CHR ''a'' CHR ''z'' c"

abbreviation path_char :: "char \<Rightarrow> bool" where
  "path_char \<equiv> branch_char"

definition any_char :: "char \<Rightarrow> bool" where
  "any_char c \<longleftrightarrow> True"

definition url_char :: "char \<Rightarrow> bool" where
  "url_char c \<longleftrightarrow> is_alnum c \<or> c \<in> {CHR ''-'', CHR ''_'', CHR ''.'', CHR ''~'', CHR ''%''}"

definition form_char :: "char \<Rightarrow> bool" where
  "form_char c \<longleftrightarrow> is_alnum c \<or> c \<in> {CHR ''-'', CHR ''_'', CHR ''.'', CHR ''*'', CHR ''+'', CHR ''%'', CHR ''&'', CHR ''=''}"

subsection \<open>The interface the handlers rely on\<close>

text \<open>
  The laws say what the documentation of \<^verbatim>\<open>regex\<close> says of each pattern, restricted to what is used, and which
  characters \<^verbatim>\<open>urlencoding\<close> and \<^verbatim>\<open>form_urlencoded\<close> produce.
\<close>

locale github_service =
  fixes H :: "('c, 'w) github_api_ops" and G :: "'c github"
  assumes validators: "gh_validators G = create_validators"
    and name_pattern: "is_match H NAME_PATTERN s \<Longrightarrow> nonempty_of name_char s"
    and repository_pattern: "is_match H REPOSITORY_PATTERN s \<Longrightarrow> nonempty_of repo_char s"
    and commit_pattern: "is_match H COMMIT_PATTERN s \<Longrightarrow> nonempty_of hex_char s"
    and pint_pattern: "is_match H PINT_PATTERN s \<Longrightarrow> nonempty_of digit_class s"
    and branch_pattern: "is_match H BRANCH_PATTERN s \<Longrightarrow> nonempty_of branch_char s"
    and secret_pattern: "is_match H SECRET_PATTERN s \<Longrightarrow> nonempty_of secret_char s"
    and path_pattern: "is_match H PATH_PATTERN s \<Longrightarrow> nonempty_of path_char s"
    and url_encoded: "list_all url_char (url_encode H s)"
    and form_encoded: "list_all form_char (form_pairs H ps)"

definition endpoint_of :: "(http_method \<times> piece list) list \<Rightarrow> http_method \<Rightarrow> string \<Rightarrow> bool" where
  "endpoint_of eps m uri \<longleftrightarrow> (\<exists>(m', t) \<in> set eps. m' = m \<and> fills t uri)"

lemma endpoint_of_single [call_rules]: "fills t uri \<Longrightarrow> endpoint_of [(m, t)] m uri"
  by (simp add: endpoint_of_def)

lemma endpoint_of_Cons: "fills t uri \<Longrightarrow> endpoint_of ((m, t) # eps) m uri" "endpoint_of eps m uri \<Longrightarrow> endpoint_of (e # eps) m uri"
  by (auto simp: endpoint_of_def)

definition request_of :: "'c github \<Rightarrow> (http_method \<times> piece list) list \<Rightarrow> 'c \<times> github_request \<Rightarrow> bool" where
  "request_of G eps = (\<lambda>(client, r). (\<exists>name. hm_get (gh_clients G) name = Some client) \<and> endpoint_of eps (ghr_method r) (ghr_uri r))"

lemma does_body_if [call_rules]: "does R (body_if expected r) (\<lambda>_. True)"
  by (auto simp: body_if_def split: prod.split sum.split intro: does_intros)

lemma does_done_if [call_rules]: "does R (done_if expected r) (\<lambda>_. True)"
  by (auto simp: done_if_def split: prod.split intro: does_intros)

lemma does_done_if_body [call_rules]: "does R (done_if_body expected r) (\<lambda>_. True)"
  unfolding done_if_body_def by (rule does_and_then [OF does_body_if]) (simp add: does_ok)

lemma does_then_body_if [call_rules]:
  "(\<And>b. does R (f b) (\<lambda>_. True)) \<Longrightarrow> does R (and_then (body_if expected r) f) (\<lambda>_. True)"
  by (rule does_and_then [OF does_body_if])

lemmas call_part_rules [call_rules] = TrueI decimal_class

declare nonempty_ofD [call_rules]

context github_service
begin

definition confined :: "(http_method \<times> piece list) list \<Rightarrow> ('w, 'a) api_call \<Rightarrow> bool" where
  "confined eps m \<longleftrightarrow> does (sends (octocrab H) (request_of G eps)) m (\<lambda>_. True)"

lemma validated:
  assumes "hm_get create_validators name = Some re" and "\<And>s. is_match H re s \<Longrightarrow> P s"
    and "P v \<Longrightarrow> does R (f v) Q"
  shows "does R (and_then (validate H G name v) f) Q"
  unfolding validate_def
  by (rule does_then_lift)
    (use assms in \<open>auto simp: validate_with_def validators split: option.splits if_splits\<close>)

lemma validate_username_rule [request_rules]:
  "(nonempty_of name_char v \<Longrightarrow> does R (f v) Q) \<Longrightarrow> does R (and_then (validate_username H G v) f) Q"
  by (rule validated [OF _ name_pattern]) (simp_all add: create_validators_def hm_get_def)

lemma validate_org_rule [request_rules]:
  "(nonempty_of name_char v \<Longrightarrow> does R (f v) Q) \<Longrightarrow> does R (and_then (validate_org H G v) f) Q"
  by (rule validated [OF _ name_pattern]) (simp_all add: create_validators_def hm_get_def)

lemma validate_team_slug_rule [request_rules]:
  "(nonempty_of name_char v \<Longrightarrow> does R (f v) Q) \<Longrightarrow> does R (and_then (validate_team_slug H G v) f) Q"
  by (rule validated [OF _ name_pattern]) (simp_all add: create_validators_def hm_get_def)

lemma validate_repository_name_rule [request_rules]:
  "(nonempty_of repo_char v \<Longrightarrow> does R (f v) Q) \<Longrightarrow> does R (and_then (validate_repository_name H G v) f) Q"
  by (rule validated [OF _ repository_pattern]) (simp_all add: create_validators_def hm_get_def)

lemma validate_commit_hash_rule [request_rules]:
  "(nonempty_of hex_char v \<Longrightarrow> does R (f v) Q) \<Longrightarrow> does R (and_then (validate_commit_hash H G v) f) Q"
  by (rule validated [OF _ commit_pattern]) (simp_all add: create_validators_def hm_get_def)

lemma validate_pint_rule [request_rules]:
  "(nonempty_of digit_class v \<Longrightarrow> does R (f v) Q) \<Longrightarrow> does R (and_then (validate_pint H G v) f) Q"
  by (rule validated [OF _ pint_pattern]) (simp_all add: create_validators_def hm_get_def)

lemma validate_branch_name_rule [request_rules]:
  "(nonempty_of branch_char v \<Longrightarrow> does R (f v) Q) \<Longrightarrow> does R (and_then (validate_branch_name H G v) f) Q"
  by (rule validated [OF _ branch_pattern]) (simp_all add: create_validators_def hm_get_def)

lemma validate_environment_name_rule [request_rules]:
  "(nonempty_of branch_char v \<Longrightarrow> does R (f v) Q) \<Longrightarrow> does R (and_then (validate_environment_name H G v) f) Q"
  by (rule validated [OF _ branch_pattern]) (simp_all add: create_validators_def hm_get_def)

lemma validate_secret_name_rule [request_rules]:
  "(nonempty_of secret_char v \<Longrightarrow> does R (f v) Q) \<Longrightarrow> does R (and_then (validate_secret_name H G v) f) Q"
  by (rule validated [OF _ secret_pattern]) (simp_all add: create_validators_def hm_get_def)

lemma validate_path_rule [request_rules]:
  "(nonempty_of path_char v \<Longrightarrow> does R (f v) Q) \<Longrightarrow> does R (and_then (validate_path H G v) f) Q"
  by (rule validated [OF _ path_pattern]) (simp_all add: create_validators_def hm_get_def)

lemma validate_any [request_rules]: "(\<And>x. does R (f x) Q) \<Longrightarrow> does R (and_then (validate H G name v) f) Q"
  unfolding validate_def by (rule does_then_lift)

lemma check_all_any [request_rules]:
  "(\<And>x. does R (f x) Q) \<Longrightarrow> does R (and_then (check_all (validate H G name) xs) f) Q"
  by (rule does_and_then [OF does_check_all [where P = "\<lambda>_. True"]]) (simp_all add: validate_def does_lift)

lemma github_send_confined:
  assumes "endpoint_of eps (ghr_method r) (ghr_uri r)" and "\<And>x. does (sends (octocrab H) (request_of G eps)) (f x) Q"
  shows "does (sends (octocrab H) (request_of G eps)) (and_then (github_send H G client_id r) f) Q"
proof (rule does_and_then [where P = "\<lambda>_. True", OF _ assms(2)])
  show "does (sends (octocrab H) (request_of G eps)) (github_send H G client_id r) (\<lambda>_. True)"
    unfolding github_send_def
    by (intro does_intros) (use assms(1) in \<open>auto simp: request_of_def\<close>)
qed

lemma get_with_headers_rule [request_rules]:
  "endpoint_of eps GET uri \<Longrightarrow> (\<And>x. does (sends (octocrab H) (request_of G eps)) (f x) Q) \<Longrightarrow>
    does (sends (octocrab H) (request_of G eps)) (and_then (make_get_request_with_headers H G client_id uri hs) f) Q"
  unfolding make_get_request_with_headers_def by (rule github_send_confined) simp_all

lemma get_rule [request_rules]:
  "endpoint_of eps GET uri \<Longrightarrow> (\<And>x. does (sends (octocrab H) (request_of G eps)) (f x) Q) \<Longrightarrow>
    does (sends (octocrab H) (request_of G eps)) (and_then (make_generic_get_request H G client_id uri) f) Q"
  unfolding make_generic_get_request_def by (rule get_with_headers_rule)

lemma post_rule [request_rules]:
  "endpoint_of eps POST uri \<Longrightarrow> (\<And>x. does (sends (octocrab H) (request_of G eps)) (f x) Q) \<Longrightarrow>
    does (sends (octocrab H) (request_of G eps)) (and_then (make_generic_post_request H G client_id uri body) f) Q"
  unfolding make_generic_post_request_def by (rule github_send_confined) simp_all

lemma put_rule [request_rules]:
  "endpoint_of eps PUT uri \<Longrightarrow> (\<And>x. does (sends (octocrab H) (request_of G eps)) (f x) Q) \<Longrightarrow>
    does (sends (octocrab H) (request_of G eps)) (and_then (make_generic_put_request H G client_id uri body) f) Q"
  unfolding make_generic_put_request_def by (rule github_send_confined) simp_all

lemma patch_rule [request_rules]:
  "endpoint_of eps PATCH uri \<Longrightarrow> (\<And>x. does (sends (octocrab H) (request_of G eps)) (f x) Q) \<Longrightarrow>
    does (sends (octocrab H) (request_of G eps)) (and_then (make_generic_patch_request H G client_id uri body) f) Q"
  unfolding make_generic_patch_request_def by (rule github_send_confined) simp_all

lemma delete_rule [request_rules]:
  "endpoint_of eps DELETE uri \<Longrightarrow> (\<And>x. does (sends (octocrab H) (request_of G eps)) (f x) Q) \<Longrightarrow>
    does (sends (octocrab H) (request_of G eps)) (and_then (make_generic_delete_request H G client_id uri body) f) Q"
  unfolding make_generic_delete_request_def by (rule github_send_confined) simp_all

end

subsection \<open>The table of functions\<close>

text \<open>
  The decoders of the parameters (\<^verbatim>\<open>serde_json::from_str\<close>, one for each type) and the codecs of answers,
  in records; then the functions by the name under which the host function calls them.
\<close>

record github_params_1 =
  de_remove_user_from_repo :: "string \<Rightarrow> remove_user_from_repo_params github_api_wrapper option"
  de_add_user_to_repo :: "string \<Rightarrow> add_user_to_repo_params github_api_wrapper option"
  de_fetch_commit :: "string \<Rightarrow> fetch_commit_params github_api_wrapper option"
  de_list_files :: "string \<Rightarrow> list_files_params github_api_wrapper option"
  de_fetch_file_with_custom_media_type :: "string \<Rightarrow> fetch_file_request github_api_wrapper option"
  de_get_branch_protection_rules :: "string \<Rightarrow> get_branch_protection_rules_params github_api_wrapper option"
  de_get_branch_protection_ruleset :: "string \<Rightarrow> get_branch_protection_ruleset_params github_api_wrapper option"
  de_get_repository_collaborators :: "string \<Rightarrow> get_repo_collaborators_params github_api_wrapper option"
  de_update_branch_protection_rule :: "string \<Rightarrow> update_branch_protection_rule_params github_api_wrapper option"
  de_require_signed_commits :: "string \<Rightarrow> require_signed_commits_params github_api_wrapper option"
  de_get_weekly_commit_count :: "string \<Rightarrow> get_weekly_commit_count_params github_api_wrapper option"
  de_comment_on_pull_request :: "string \<Rightarrow> comment_on_pull_request_request github_api_wrapper option"
  de_get_custom_properties_values :: "string \<Rightarrow> get_custom_properties_values_params github_api_wrapper option"
  de_check_codeowners_file :: "string \<Rightarrow> check_codeowners_params github_api_wrapper option"

record github_params_2 =
  de_create_file :: "string \<Rightarrow> create_or_update_file_request github_api_wrapper option"
  de_get_repo_sbom :: "string \<Rightarrow> get_repo_sbom_params github_api_wrapper option"
  de_get_repo_id_from_repo_name :: "string \<Rightarrow> get_repo_id_from_repo_name_params github_api_wrapper option"
  de_get_repo_name_from_repo_id :: "string \<Rightarrow> get_repo_name_from_repo_id_params github_api_wrapper option"
  de_get_reference :: "string \<Rightarrow> get_or_create_branch_reference_params github_api_wrapper option"
  de_create_reference :: "string \<Rightarrow> get_or_create_branch_reference_params github_api_wrapper option"
  de_search_code :: "string \<Rightarrow> search_code_params github_api_wrapper option"
  de_remove_user_from_team :: "string \<Rightarrow> remove_user_from_team_params github_api_wrapper option"
  de_add_user_to_team :: "string \<Rightarrow> add_user_to_team_params github_api_wrapper option"
  de_add_repo_to_team :: "string \<Rightarrow> add_repo_to_team_params github_api_wrapper option"
  de_remove_repo_from_team :: "string \<Rightarrow> remove_repo_from_team_params github_api_wrapper option"
  de_get_repo_teams :: "string \<Rightarrow> get_repo_teams_params github_api_wrapper option"
  de_pull_request_request_reviewers :: "string \<Rightarrow> pull_request_request_reviewers github_api_wrapper option"
  de_submit_pull_request_review :: "string \<Rightarrow> submit_pull_request_review_request github_api_wrapper option"

record github_params_3 =
  de_create_pull_request :: "string \<Rightarrow> create_pull_request_request github_api_wrapper option"
  de_get_pull_requests :: "string \<Rightarrow> get_pull_request_request github_api_wrapper option"
  de_add_labels :: "string \<Rightarrow> add_labels_request github_api_wrapper option"
  de_configure_secret :: "string \<Rightarrow> configure_secret_params github_api_wrapper option"
  de_add_repo_to_org_secret :: "string \<Rightarrow> add_or_remove_repo_to_org_secret_params github_api_wrapper option"
  de_remove_repo_from_org_secret :: "string \<Rightarrow> add_or_remove_repo_to_org_secret_params github_api_wrapper option"
  de_list_org_secrets_for_repo :: "string \<Rightarrow> list_org_secrets_for_repo_params github_api_wrapper option"
  de_create_environment_for_repo :: "string \<Rightarrow> create_environment_for_repo_params github_api_wrapper option"
  de_create_deployment_branch_protection_rule :: "string \<Rightarrow> create_deployment_branch_protection_rule_params github_api_wrapper option"
  de_trigger_repo_dispatch :: "string \<Rightarrow> repository_dispatch_params github_api_wrapper option"
  de_delete_deploy_key :: "string \<Rightarrow> delete_deploy_key_params github_api_wrapper option"
  de_create_deploy_key :: "string \<Rightarrow> create_deploy_key_params github_api_wrapper option"
  de_check_org_membership_of_user :: "string \<Rightarrow> check_org_membership_params github_api_wrapper option"
  de_remove_outside_collaborator_from_org :: "string \<Rightarrow> remove_outside_collaborator_params github_api_wrapper option"

record github_params_4 =
  de_get_user_id_from_username :: "string \<Rightarrow> string github_api_wrapper option"
  de_get_username_from_user_id :: "string \<Rightarrow> string github_api_wrapper option"
  de_list_seats_in_org_copilot :: "string \<Rightarrow> list_seats_in_org_copilot_params github_api_wrapper option"
  de_add_users_to_org_copilot :: "string \<Rightarrow> add_users_to_org_copilot_params github_api_wrapper option"
  de_remove_users_from_org_copilot :: "string \<Rightarrow> remove_users_from_org_copilot_params github_api_wrapper option"
  de_list_fpat_requests_for_org :: "string \<Rightarrow> list_fpat_requests_for_org_params github_api_wrapper option"
  de_get_repos_for_fpat :: "string \<Rightarrow> get_repos_for_fpat_params github_api_wrapper option"
  de_review_fpat_requests_for_org :: "string \<Rightarrow> review_fpat_requests_for_org_params github_api_wrapper option"
  de_grant_repo_access_to_org_installation :: "string \<Rightarrow> grant_repo_access_to_org_installation_params github_api_wrapper option"
  de_remove_repo_access_from_org_installation :: "string \<Rightarrow> remove_repo_access_from_org_installation_params github_api_wrapper option"
  de_get_enterprise_license_status :: "string \<Rightarrow> string github_api_wrapper option"
  de_make_graphql_query :: "string \<Rightarrow> (string \<times> (string, string) hashmap) github_api_wrapper option"
  de_make_advanced_graphql_query :: "string \<Rightarrow> graphql_request github_api_wrapper option"

record github_codecs =
  params_1 :: github_params_1
  params_2 :: github_params_2
  params_3 :: github_params_3
  params_4 :: github_params_4
  co_errors :: "string \<Rightarrow> codeowners_errors_response option"
  co_status :: "codeowners_status \<Rightarrow> string option"
  co_repository :: "string \<Rightarrow> github_repository option"
  co_user :: "string \<Rightarrow> git_hub_user option"
  co_key_id :: "string \<Rightarrow> u64 option"
  co_licenses :: "string \<Rightarrow> consumed_licenses_response option"
  co_licenses_to_string :: "consumed_licenses_response \<Rightarrow> string option"

definition as_u32 :: "('w, bool) api_call \<Rightarrow> ('w, u32) api_call" where
  "as_u32 m = and_then m (\<lambda>b. ok (if b then 1 else 0))"

definition github_int_functions :: "('c, 'w) github_api_ops \<Rightarrow> 'c github \<Rightarrow> github_codecs \<Rightarrow> string \<Rightarrow> (string \<times> ('w, u32) api_call) list" where
  "github_int_functions H G C params =
     [(''remove_user_from_repo'', remove_user_from_repo H G (de_remove_user_from_repo (params_1 C)) params),
      (''add_user_to_repo'', add_user_to_repo H G (de_add_user_to_repo (params_1 C)) params),
      (''update_branch_protection_rule'', update_branch_protection_rule H G (de_update_branch_protection_rule (params_1 C)) params),
      (''require_signed_commits'', require_signed_commits H G (de_require_signed_commits (params_1 C)) params),
      (''comment_on_pull_request'', comment_on_pull_request H G (de_comment_on_pull_request (params_1 C)) params),
      (''create_reference'', create_reference H G (de_create_reference (params_2 C)) params),
      (''remove_user_from_team'', remove_user_from_team H G (de_remove_user_from_team (params_2 C)) params),
      (''add_user_to_team'', add_user_to_team H G (de_add_user_to_team (params_2 C)) params),
      (''add_repo_to_team'', add_repo_to_team H G (de_add_repo_to_team (params_2 C)) params),
      (''remove_repo_from_team'', remove_repo_from_team H G (de_remove_repo_from_team (params_2 C)) params),
      (''pull_request_request_reviewers'', as_u32 (pull_request_request_reviewers_call H G (de_pull_request_request_reviewers (params_2 C)) params)),
      (''submit_pull_request_review'', submit_pull_request_review H G (de_submit_pull_request_review (params_2 C)) params),
      (''add_labels'', add_labels H G (de_add_labels (params_3 C)) params),
      (''configure_secret'', configure_secret H G (de_configure_secret (params_3 C)) params),
      (''add_repo_to_org_secret'', add_repo_to_org_secret H G (co_repository C) (de_add_repo_to_org_secret (params_3 C)) params),
      (''remove_repo_from_org_secret'', remove_repo_from_org_secret H G (co_repository C) (de_remove_repo_from_org_secret (params_3 C)) params),
      (''create_environment_for_repo'', create_environment_for_repo H G (de_create_environment_for_repo (params_3 C)) params),
      (''create_deployment_branch_protection_rule'', create_deployment_branch_protection_rule H G (de_create_deployment_branch_protection_rule (params_3 C)) params),
      (''trigger_repo_dispatch'', trigger_repo_dispatch H G (de_trigger_repo_dispatch (params_3 C)) params),
      (''delete_deploy_key'', delete_deploy_key H G (de_delete_deploy_key (params_3 C)) params),
      (''check_org_membership_of_user'', as_u32 (check_org_membership_of_user H G (de_check_org_membership_of_user (params_3 C)) params)),
      (''remove_outside_collaborator_from_org'', remove_outside_collaborator_from_org H G (de_remove_outside_collaborator_from_org (params_3 C)) params),
      (''review_fpat_requests_for_org'', review_fpat_requests_for_org H G (de_review_fpat_requests_for_org (params_4 C)) params),
      (''grant_repo_access_to_org_installation'', grant_repo_access_to_org_installation H G (de_grant_repo_access_to_org_installation (params_4 C)) params),
      (''remove_repo_access_from_org_installation'', remove_repo_access_from_org_installation H G (de_remove_repo_access_from_org_installation (params_4 C)) params)]"

definition github_string_functions :: "('c, 'w) github_api_ops \<Rightarrow> 'c github \<Rightarrow> github_codecs \<Rightarrow> string \<Rightarrow> (string \<times> ('w, string) api_call) list" where
  "github_string_functions H G C params =
     [(''fetch_commit'', fetch_commit H G (de_fetch_commit (params_1 C)) params),
      (''list_files'', list_files H G (de_list_files (params_1 C)) params),
      (''fetch_file_with_custom_media_type'', fetch_file_with_custom_media_type H G (de_fetch_file_with_custom_media_type (params_1 C)) params),
      (''get_branch_protection_rules'', get_branch_protection_rules H G (de_get_branch_protection_rules (params_1 C)) params),
      (''get_branch_protection_ruleset'', get_branch_protection_ruleset H G (de_get_branch_protection_ruleset (params_1 C)) params),
      (''get_repository_collaborators'', get_repository_collaborators H G (de_get_repository_collaborators (params_1 C)) params),
      (''get_weekly_commit_count'', get_weekly_commit_count H G (de_get_weekly_commit_count (params_1 C)) params),
      (''get_custom_properties_values'', get_custom_properties_values H G (de_get_custom_properties_values (params_1 C)) params),
      (''check_codeowners_file'', check_codeowners_file H G (co_errors C) (co_status C) (de_check_codeowners_file (params_1 C)) params),
      (''create_file'', create_file H G (de_create_file (params_2 C)) params),
      (''get_repo_sbom'', get_repo_sbom H G (de_get_repo_sbom (params_2 C)) params),
      (''get_repo_id_from_repo_name'', get_repo_id_from_repo_name H G (co_repository C) (de_get_repo_id_from_repo_name (params_2 C)) params),
      (''get_repo_name_from_repo_id'', get_repo_name_from_repo_id H G (co_repository C) (de_get_repo_name_from_repo_id (params_2 C)) params),
      (''get_reference'', get_reference H G (de_get_reference (params_2 C)) params),
      (''search_code'', search_code H G (de_search_code (params_2 C)) params),
      (''get_repo_teams'', get_repo_teams H G (de_get_repo_teams (params_2 C)) params),
      (''create_pull_request'', create_pull_request H G (de_create_pull_request (params_3 C)) params),
      (''get_pull_requests'', get_pull_requests H G (de_get_pull_requests (params_3 C)) params),
      (''list_org_secrets_for_repo'', list_org_secrets_for_repo H G (de_list_org_secrets_for_repo (params_3 C)) params),
      (''create_deploy_key'', create_deploy_key H G (co_key_id C) (de_create_deploy_key (params_3 C)) params),
      (''get_user_id_from_username'', get_user_id_from_username H G (co_user C) (de_get_user_id_from_username (params_4 C)) params),
      (''get_username_from_user_id'', get_username_from_user_id H G (co_user C) (de_get_username_from_user_id (params_4 C)) params),
      (''list_seats_in_org_copilot'', list_seats_in_org_copilot H G (de_list_seats_in_org_copilot (params_4 C)) params),
      (''add_users_to_org_copilot'', add_users_to_org_copilot H G (de_add_users_to_org_copilot (params_4 C)) params),
      (''remove_users_from_org_copilot'', remove_users_from_org_copilot H G (de_remove_users_from_org_copilot (params_4 C)) params),
      (''list_fpat_requests_for_org'', list_fpat_requests_for_org H G (de_list_fpat_requests_for_org (params_4 C)) params),
      (''get_repos_for_fpat'', get_repos_for_fpat H G (de_get_repos_for_fpat (params_4 C)) params),
      (''get_enterprise_license_status'', get_enterprise_license_status H G (co_licenses C) (co_licenses_to_string C) (de_get_enterprise_license_status (params_4 C)) params),
      (''make_graphql_query'', make_graphql_query H G (de_make_graphql_query (params_4 C)) params),
      (''make_advanced_graphql_query'', make_advanced_graphql_query H G (de_make_advanced_graphql_query (params_4 C)) params)]"

text \<open>
  The specification: the method and the address of every request each function may send.
\<close>

definition github_int_endpoints :: "(string \<times> (http_method \<times> piece list) list) list" where
  "github_int_endpoints =
     [(''remove_user_from_repo'', [(DELETE, [Lit ''/repos/'', Hole repo_char, Lit ''/collaborators/'', Hole name_char])]),
      (''add_user_to_repo'', [(PUT, [Lit ''/repos/'', Hole repo_char, Lit ''/collaborators/'', Hole name_char])]),
      (''update_branch_protection_rule'', [(PUT, [Lit ''/repos/'', Hole name_char, Lit ''/'', Hole repo_char, Lit ''/branches/'', Hole branch_char, Lit ''/protection''])]),
      (''require_signed_commits'', [(POST, [Lit ''/repos/'', Hole name_char, Lit ''/'', Hole repo_char, Lit ''/branches/'', Hole branch_char, Lit ''/protection/required_signatures'']), (DELETE, [Lit ''/repos/'', Hole name_char, Lit ''/'', Hole repo_char, Lit ''/branches/'', Hole branch_char, Lit ''/protection/required_signatures''])]),
      (''comment_on_pull_request'', [(POST, [Lit ''/repos/'', Hole name_char, Lit ''/'', Hole repo_char, Lit ''/issues/'', Hole digit_class, Lit ''/comments''])]),
      (''create_reference'', [(POST, [Lit ''/repos/'', Hole name_char, Lit ''/'', Hole repo_char, Lit ''/git/refs''])]),
      (''remove_user_from_team'', [(DELETE, [Lit ''/orgs/'', Hole name_char, Lit ''/teams/'', Hole name_char, Lit ''/memberships/'', Hole name_char])]),
      (''add_user_to_team'', [(PUT, [Lit ''/orgs/'', Hole name_char, Lit ''/teams/'', Hole name_char, Lit ''/memberships/'', Hole name_char])]),
      (''add_repo_to_team'', [(PUT, [Lit ''/orgs/'', Hole name_char, Lit ''/teams/'', Hole name_char, Lit ''/repos/'', Hole name_char, Lit ''/'', Hole repo_char])]),
      (''remove_repo_from_team'', [(DELETE, [Lit ''/orgs/'', Hole name_char, Lit ''/teams/'', Hole name_char, Lit ''/repos/'', Hole name_char, Lit ''/'', Hole repo_char])]),
      (''pull_request_request_reviewers'', [(POST, [Lit ''/repos/'', Hole name_char, Lit ''/'', Hole repo_char, Lit ''/pulls/'', Hole (between CHR ''0'' CHR ''9''), Lit ''/requested_reviewers''])]),
      (''submit_pull_request_review'', [(POST, [Lit ''/repos/'', Hole name_char, Lit ''/'', Hole repo_char, Lit ''/pulls/'', Hole (between CHR ''0'' CHR ''9''), Lit ''/reviews''])]),
      (''add_labels'', [(POST, [Lit ''/repos/'', Hole name_char, Lit ''/'', Hole repo_char, Lit ''/issues/'', Hole (between CHR ''0'' CHR ''9''), Lit ''/labels''])]),
      (''configure_secret'', [(GET, [Lit ''/repos/'', Hole name_char, Lit ''/'', Hole repo_char, Lit ''/environments/'', Hole branch_char, Lit ''/secrets/public-key'']), (GET, [Lit ''/repos/'', Hole name_char, Lit ''/'', Hole repo_char, Lit ''/actions/secrets/public-key'']), (PUT, [Lit ''/repos/'', Hole name_char, Lit ''/'', Hole repo_char, Lit ''/environments/'', Hole branch_char, Lit ''/secrets/'', Hole secret_char]), (PUT, [Lit ''/repos/'', Hole name_char, Lit ''/'', Hole repo_char, Lit ''/actions/secrets/'', Hole secret_char])]),
      (''add_repo_to_org_secret'', [(GET, [Lit ''/repos/'', Hole name_char, Lit ''/'', Hole repo_char]), (PUT, [Lit ''/orgs/'', Hole name_char, Lit ''/actions/secrets/'', Hole secret_char, Lit ''/repositories/'', Hole (between CHR ''0'' CHR ''9'')])]),
      (''remove_repo_from_org_secret'', [(GET, [Lit ''/repos/'', Hole name_char, Lit ''/'', Hole repo_char]), (DELETE, [Lit ''/orgs/'', Hole name_char, Lit ''/actions/secrets/'', Hole secret_char, Lit ''/repositories/'', Hole (between CHR ''0'' CHR ''9'')])]),
      (''create_environment_for_repo'', [(PUT, [Lit ''/repos/'', Hole name_char, Lit ''/'', Hole repo_char, Lit ''/environments/'', Hole branch_char])]),
      (''create_deployment_branch_protection_rule'', [(POST, [Lit ''/repos/'', Hole name_char, Lit ''/'', Hole repo_char, Lit ''/environments/'', Hole branch_char, Lit ''/deployment-branch-policies''])]),
      (''trigger_repo_dispatch'', [(POST, [Lit ''/repos/'', Hole name_char, Lit ''/'', Hole repo_char, Lit ''/dispatches''])]),
      (''delete_deploy_key'', [(DELETE, [Lit ''/repos/'', Hole name_char, Lit ''/'', Hole repo_char, Lit ''/keys/'', Hole (between CHR ''0'' CHR ''9'')])]),
      (''check_org_membership_of_user'', [(GET, [Lit ''/orgs/'', Hole name_char, Lit ''/members/'', Hole name_char])]),
      (''remove_outside_collaborator_from_org'', [(DELETE, [Lit ''/orgs/'', Hole name_char, Lit ''/outside_collaborators/'', Hole name_char])]),
      (''review_fpat_requests_for_org'', [(POST, [Lit ''/orgs/'', Hole name_char, Lit ''/personal-access-token-requests''])]),
      (''grant_repo_access_to_org_installation'', [(PATCH, [Lit ''/enterprises/'', Hole name_char, Lit ''/apps/organizations/'', Hole name_char, Lit ''/installations/'', Hole (between CHR ''0'' CHR ''9''), Lit ''/repositories/add''])]),
      (''remove_repo_access_from_org_installation'', [(PATCH, [Lit ''/enterprises/'', Hole name_char, Lit ''/apps/organizations/'', Hole name_char, Lit ''/installations/'', Hole (between CHR ''0'' CHR ''9''), Lit ''/repositories/remove''])])]"

definition github_string_endpoints :: "(string \<times> (http_method \<times> piece list) list) list" where
  "github_string_endpoints =
     [(''fetch_commit'', [(GET, [Lit ''/repos/'', Hole name_char, Lit ''/'', Hole repo_char, Lit ''/commits/'', Hole hex_char])]),
      (''list_files'', [(GET, [Lit ''/repos/'', Hole name_char, Lit ''/'', Hole repo_char, Lit ''/pulls/'', Hole digit_class, Lit ''/files?page='', Hole digit_class])]),
      (''fetch_file_with_custom_media_type'', [(GET, [Lit ''/repos/'', Hole name_char, Lit ''/'', Hole repo_char, Lit ''/contents/'', Opt any_char])]),
      (''get_branch_protection_rules'', [(GET, [Lit ''/repos/'', Hole name_char, Lit ''/'', Hole repo_char, Lit ''/branches/'', Hole branch_char, Lit ''/protection''])]),
      (''get_branch_protection_ruleset'', [(GET, [Lit ''/repos/'', Hole name_char, Lit ''/'', Hole repo_char, Lit ''/rules/branches/'', Hole branch_char])]),
      (''get_repository_collaborators'', [(GET, [Lit ''/repos/'', Hole name_char, Lit ''/'', Hole repo_char, Lit ''/collaborators?per_page='', Hole (between CHR ''0'' CHR ''9''), Lit ''&affiliation='', Hole word_lower, Lit ''&page='', Hole (between CHR ''0'' CHR ''9'')])]),
      (''get_weekly_commit_count'', [(GET, [Lit ''/repos/'', Hole name_char, Lit ''/'', Hole repo_char, Lit ''/stats/participation''])]),
      (''get_custom_properties_values'', [(GET, [Lit ''/repos/'', Hole name_char, Lit ''/'', Hole repo_char, Lit ''/properties/values''])]),
      (''check_codeowners_file'', [(GET, [Lit ''/repos/'', Hole name_char, Lit ''/'', Hole repo_char, Lit ''/codeowners/errors''])]),
      (''create_file'', [(PUT, [Lit ''/repos/'', Hole name_char, Lit ''/'', Hole repo_char, Lit ''/contents/'', Hole path_char])]),
      (''get_repo_sbom'', [(GET, [Lit ''/repos/'', Hole name_char, Lit ''/'', Hole repo_char, Lit ''/dependency-graph/sbom''])]),
      (''get_repo_id_from_repo_name'', [(GET, [Lit ''/repos/'', Hole name_char, Lit ''/'', Hole repo_char])]),
      (''get_repo_name_from_repo_id'', [(GET, [Lit ''/repositories/'', Hole digit_class])]),
      (''get_reference'', [(GET, [Lit ''/repos/'', Hole name_char, Lit ''/'', Hole repo_char, Lit ''/git/ref/heads/'', Hole branch_char]), (GET, [Lit ''/repos/'', Hole name_char, Lit ''/'', Hole repo_char, Lit ''/git/ref/tags/'', Hole branch_char])]),
      (''search_code'', [(GET, [Lit ''/search/code?q='', Opt url_char, Lit ''&per_page='', Hole (between CHR ''0'' CHR ''9''), Lit ''&page='', Hole (between CHR ''0'' CHR ''9'')])]),
      (''get_repo_teams'', [(GET, [Lit ''/repos/'', Hole name_char, Lit ''/'', Hole repo_char, Lit ''/teams?per_page='', Hole (between CHR ''0'' CHR ''9''), Lit ''&page='', Hole (between CHR ''0'' CHR ''9'')])]),
      (''create_pull_request'', [(POST, [Lit ''/repos/'', Hole name_char, Lit ''/'', Hole repo_char, Lit ''/pulls''])]),
      (''get_pull_requests'', [(GET, [Lit ''/repos/'', Hole name_char, Lit ''/'', Hole repo_char, Lit ''/pulls?'', Opt form_char])]),
      (''list_org_secrets_for_repo'', [(GET, [Lit ''/repos/'', Hole name_char, Lit ''/'', Hole repo_char, Lit ''/actions/organization-secrets?per_page='', Hole (between CHR ''0'' CHR ''9''), Lit ''&page='', Hole (between CHR ''0'' CHR ''9'')])]),
      (''create_deploy_key'', [(POST, [Lit ''/repos/'', Hole name_char, Lit ''/'', Hole repo_char, Lit ''/keys''])]),
      (''get_user_id_from_username'', [(GET, [Lit ''/users/'', Hole name_char])]),
      (''get_username_from_user_id'', [(GET, [Lit ''/user/'', Hole digit_class])]),
      (''list_seats_in_org_copilot'', [(GET, [Lit ''/orgs/'', Hole name_char, Lit ''/copilot/billing/seats?page='', Hole (between CHR ''0'' CHR ''9''), Lit ''&per_page='', Hole (between CHR ''0'' CHR ''9'')])]),
      (''add_users_to_org_copilot'', [(POST, [Lit ''/orgs/'', Hole name_char, Lit ''/copilot/billing/selected_users''])]),
      (''remove_users_from_org_copilot'', [(DELETE, [Lit ''/orgs/'', Hole name_char, Lit ''/copilot/billing/selected_users''])]),
      (''list_fpat_requests_for_org'', [(GET, [Lit ''/orgs/'', Hole name_char, Lit ''/personal-access-token-requests''])]),
      (''get_repos_for_fpat'', [(GET, [Lit ''/orgs/'', Hole name_char, Lit ''/personal-access-token-requests/'', Hole (between CHR ''0'' CHR ''9''), Lit ''/repositories?per_page='', Hole (between CHR ''0'' CHR ''9''), Lit ''&page='', Hole (between CHR ''0'' CHR ''9'')])]),
      (''get_enterprise_license_status'', [(GET, [Lit ''/enterprises/'', Hole name_char, Lit ''/consumed-licenses''])]),
      (''make_graphql_query'', [(POST, [Lit ''/graphql''])]),
      (''make_advanced_graphql_query'', [(POST, [Lit ''/graphql''])])]"

definition github_endpoints :: "api_decl \<Rightarrow> (http_method \<times> piece list) list option" where
  "github_endpoints d =
     map_of (if decl_error_buffer d then github_string_endpoints else github_int_endpoints) (decl_function d)"

subsection \<open>Every function keeps to its endpoints\<close>

context github_service
begin

lemma remove_user_from_repo_confined [confined]: "confined [(DELETE, [Lit ''/repos/'', Hole repo_char, Lit ''/collaborators/'', Hole name_char])] (remove_user_from_repo H G from_str params)"
  unfolding remove_user_from_repo_def from_params_def Let_def confined_def by (intro does_intros request_rules fills_intros call_rules)

lemma add_user_to_repo_confined [confined]: "confined [(PUT, [Lit ''/repos/'', Hole repo_char, Lit ''/collaborators/'', Hole name_char])] (add_user_to_repo H G from_str params)"
  unfolding add_user_to_repo_def from_params_def Let_def confined_def by (intro does_intros request_rules fills_intros call_rules)

lemma fetch_commit_confined [confined]: "confined [(GET, [Lit ''/repos/'', Hole name_char, Lit ''/'', Hole repo_char, Lit ''/commits/'', Hole hex_char])] (fetch_commit H G from_str params)"
  unfolding fetch_commit_def from_params_def Let_def confined_def by (intro does_intros request_rules fills_intros call_rules)

lemma list_files_confined [confined]: "confined [(GET, [Lit ''/repos/'', Hole name_char, Lit ''/'', Hole repo_char, Lit ''/pulls/'', Hole digit_class, Lit ''/files?page='', Hole digit_class])] (list_files H G from_str params)"
  unfolding list_files_def from_params_def Let_def confined_def by (intro does_intros request_rules fills_intros call_rules)

lemma get_branch_protection_rules_confined [confined]: "confined [(GET, [Lit ''/repos/'', Hole name_char, Lit ''/'', Hole repo_char, Lit ''/branches/'', Hole branch_char, Lit ''/protection''])] (get_branch_protection_rules H G from_str params)"
  unfolding get_branch_protection_rules_def from_params_def Let_def confined_def by (intro does_intros request_rules fills_intros call_rules)

lemma get_branch_protection_ruleset_confined [confined]: "confined [(GET, [Lit ''/repos/'', Hole name_char, Lit ''/'', Hole repo_char, Lit ''/rules/branches/'', Hole branch_char])] (get_branch_protection_ruleset H G from_str params)"
  unfolding get_branch_protection_ruleset_def from_params_def Let_def confined_def by (intro does_intros request_rules fills_intros call_rules)

lemma update_branch_protection_rule_confined [confined]: "confined [(PUT, [Lit ''/repos/'', Hole name_char, Lit ''/'', Hole repo_char, Lit ''/branches/'', Hole branch_char, Lit ''/protection''])] (update_branch_protection_rule H G from_str params)"
  unfolding update_branch_protection_rule_def from_params_def Let_def confined_def by (intro does_intros request_rules fills_intros call_rules)

lemma get_weekly_commit_count_confined [confined]: "confined [(GET, [Lit ''/repos/'', Hole name_char, Lit ''/'', Hole repo_char, Lit ''/stats/participation''])] (get_weekly_commit_count H G from_str params)"
  unfolding get_weekly_commit_count_def from_params_def Let_def confined_def by (intro does_intros request_rules fills_intros call_rules)

lemma comment_on_pull_request_confined [confined]: "confined [(POST, [Lit ''/repos/'', Hole name_char, Lit ''/'', Hole repo_char, Lit ''/issues/'', Hole digit_class, Lit ''/comments''])] (comment_on_pull_request H G from_str params)"
  unfolding comment_on_pull_request_def from_params_def Let_def confined_def by (intro does_intros request_rules fills_intros call_rules)

lemma get_custom_properties_values_confined [confined]: "confined [(GET, [Lit ''/repos/'', Hole name_char, Lit ''/'', Hole repo_char, Lit ''/properties/values''])] (get_custom_properties_values H G from_str params)"
  unfolding get_custom_properties_values_def from_params_def Let_def confined_def by (intro does_intros request_rules fills_intros call_rules)

lemma get_repo_sbom_confined [confined]: "confined [(GET, [Lit ''/repos/'', Hole name_char, Lit ''/'', Hole repo_char, Lit ''/dependency-graph/sbom''])] (get_repo_sbom H G from_str params)"
  unfolding get_repo_sbom_def from_params_def Let_def confined_def by (intro does_intros request_rules fills_intros call_rules)

lemma get_repo_name_from_repo_id_confined [confined]: "confined [(GET, [Lit ''/repositories/'', Hole digit_class])] (get_repo_name_from_repo_id H G c0 from_str params)"
  unfolding get_repo_name_from_repo_id_def from_params_def Let_def confined_def by (intro does_intros request_rules fills_intros call_rules)

lemma create_reference_confined [confined]: "confined [(POST, [Lit ''/repos/'', Hole name_char, Lit ''/'', Hole repo_char, Lit ''/git/refs''])] (create_reference H G from_str params)"
  unfolding create_reference_def from_params_def Let_def confined_def by (intro does_intros request_rules fills_intros call_rules)

lemma remove_user_from_team_confined [confined]: "confined [(DELETE, [Lit ''/orgs/'', Hole name_char, Lit ''/teams/'', Hole name_char, Lit ''/memberships/'', Hole name_char])] (remove_user_from_team H G from_str params)"
  unfolding remove_user_from_team_def from_params_def Let_def confined_def by (intro does_intros request_rules fills_intros call_rules)

lemma add_user_to_team_confined [confined]: "confined [(PUT, [Lit ''/orgs/'', Hole name_char, Lit ''/teams/'', Hole name_char, Lit ''/memberships/'', Hole name_char])] (add_user_to_team H G from_str params)"
  unfolding add_user_to_team_def from_params_def Let_def confined_def by (intro does_intros request_rules fills_intros call_rules)

lemma add_repo_to_team_confined [confined]: "confined [(PUT, [Lit ''/orgs/'', Hole name_char, Lit ''/teams/'', Hole name_char, Lit ''/repos/'', Hole name_char, Lit ''/'', Hole repo_char])] (add_repo_to_team H G from_str params)"
  unfolding add_repo_to_team_def from_params_def Let_def confined_def by (intro does_intros request_rules fills_intros call_rules)

lemma remove_repo_from_team_confined [confined]: "confined [(DELETE, [Lit ''/orgs/'', Hole name_char, Lit ''/teams/'', Hole name_char, Lit ''/repos/'', Hole name_char, Lit ''/'', Hole repo_char])] (remove_repo_from_team H G from_str params)"
  unfolding remove_repo_from_team_def from_params_def Let_def confined_def by (intro does_intros request_rules fills_intros call_rules)

lemma get_repo_teams_confined [confined]: "confined [(GET, [Lit ''/repos/'', Hole name_char, Lit ''/'', Hole repo_char, Lit ''/teams?per_page='', Hole (between CHR ''0'' CHR ''9''), Lit ''&page='', Hole (between CHR ''0'' CHR ''9'')])] (get_repo_teams H G from_str params)"
  unfolding get_repo_teams_def from_params_def Let_def confined_def by (intro does_intros request_rules fills_intros call_rules)

lemma create_pull_request_confined [confined]: "confined [(POST, [Lit ''/repos/'', Hole name_char, Lit ''/'', Hole repo_char, Lit ''/pulls''])] (create_pull_request H G from_str params)"
  unfolding create_pull_request_def from_params_def Let_def confined_def by (intro does_intros request_rules fills_intros call_rules)

lemma add_labels_confined [confined]: "confined [(POST, [Lit ''/repos/'', Hole name_char, Lit ''/'', Hole repo_char, Lit ''/issues/'', Hole (between CHR ''0'' CHR ''9''), Lit ''/labels''])] (add_labels H G from_str params)"
  unfolding add_labels_def from_params_def Let_def confined_def by (intro does_intros request_rules fills_intros call_rules)

lemma list_org_secrets_for_repo_confined [confined]: "confined [(GET, [Lit ''/repos/'', Hole name_char, Lit ''/'', Hole repo_char, Lit ''/actions/organization-secrets?per_page='', Hole (between CHR ''0'' CHR ''9''), Lit ''&page='', Hole (between CHR ''0'' CHR ''9'')])] (list_org_secrets_for_repo H G from_str params)"
  unfolding list_org_secrets_for_repo_def from_params_def Let_def confined_def by (intro does_intros request_rules fills_intros call_rules)

lemma create_environment_for_repo_confined [confined]: "confined [(PUT, [Lit ''/repos/'', Hole name_char, Lit ''/'', Hole repo_char, Lit ''/environments/'', Hole branch_char])] (create_environment_for_repo H G from_str params)"
  unfolding create_environment_for_repo_def from_params_def Let_def confined_def by (intro does_intros request_rules fills_intros call_rules)

lemma create_deployment_branch_protection_rule_confined [confined]: "confined [(POST, [Lit ''/repos/'', Hole name_char, Lit ''/'', Hole repo_char, Lit ''/environments/'', Hole branch_char, Lit ''/deployment-branch-policies''])] (create_deployment_branch_protection_rule H G from_str params)"
  unfolding create_deployment_branch_protection_rule_def from_params_def Let_def confined_def by (intro does_intros request_rules fills_intros call_rules)

lemma trigger_repo_dispatch_confined [confined]: "confined [(POST, [Lit ''/repos/'', Hole name_char, Lit ''/'', Hole repo_char, Lit ''/dispatches''])] (trigger_repo_dispatch H G from_str params)"
  unfolding trigger_repo_dispatch_def from_params_def Let_def confined_def by (intro does_intros request_rules fills_intros call_rules)

lemma delete_deploy_key_confined [confined]: "confined [(DELETE, [Lit ''/repos/'', Hole name_char, Lit ''/'', Hole repo_char, Lit ''/keys/'', Hole (between CHR ''0'' CHR ''9'')])] (delete_deploy_key H G from_str params)"
  unfolding delete_deploy_key_def from_params_def Let_def confined_def by (intro does_intros request_rules fills_intros call_rules)

lemma create_deploy_key_confined [confined]: "confined [(POST, [Lit ''/repos/'', Hole name_char, Lit ''/'', Hole repo_char, Lit ''/keys''])] (create_deploy_key H G c0 from_str params)"
  unfolding create_deploy_key_def from_params_def Let_def confined_def by (intro does_intros request_rules fills_intros call_rules)

lemma remove_outside_collaborator_from_org_confined [confined]: "confined [(DELETE, [Lit ''/orgs/'', Hole name_char, Lit ''/outside_collaborators/'', Hole name_char])] (remove_outside_collaborator_from_org H G from_str params)"
  unfolding remove_outside_collaborator_from_org_def from_params_def Let_def confined_def by (intro does_intros request_rules fills_intros call_rules)

lemma get_user_id_from_username_confined [confined]: "confined [(GET, [Lit ''/users/'', Hole name_char])] (get_user_id_from_username H G c0 from_str params)"
  unfolding get_user_id_from_username_def from_params_def Let_def confined_def by (intro does_intros request_rules fills_intros call_rules)

lemma get_username_from_user_id_confined [confined]: "confined [(GET, [Lit ''/user/'', Hole digit_class])] (get_username_from_user_id H G c0 from_str params)"
  unfolding get_username_from_user_id_def from_params_def Let_def confined_def by (intro does_intros request_rules fills_intros call_rules)

lemma list_seats_in_org_copilot_confined [confined]: "confined [(GET, [Lit ''/orgs/'', Hole name_char, Lit ''/copilot/billing/seats?page='', Hole (between CHR ''0'' CHR ''9''), Lit ''&per_page='', Hole (between CHR ''0'' CHR ''9'')])] (list_seats_in_org_copilot H G from_str params)"
  unfolding list_seats_in_org_copilot_def from_params_def Let_def confined_def by (intro does_intros request_rules fills_intros call_rules)

lemma add_users_to_org_copilot_confined [confined]: "confined [(POST, [Lit ''/orgs/'', Hole name_char, Lit ''/copilot/billing/selected_users''])] (add_users_to_org_copilot H G from_str params)"
  unfolding add_users_to_org_copilot_def from_params_def Let_def confined_def by (intro does_intros request_rules fills_intros call_rules)

lemma remove_users_from_org_copilot_confined [confined]: "confined [(DELETE, [Lit ''/orgs/'', Hole name_char, Lit ''/copilot/billing/selected_users''])] (remove_users_from_org_copilot H G from_str params)"
  unfolding remove_users_from_org_copilot_def from_params_def Let_def confined_def by (intro does_intros request_rules fills_intros call_rules)

lemma list_fpat_requests_for_org_confined [confined]: "confined [(GET, [Lit ''/orgs/'', Hole name_char, Lit ''/personal-access-token-requests''])] (list_fpat_requests_for_org H G from_str params)"
  unfolding list_fpat_requests_for_org_def from_params_def Let_def confined_def by (intro does_intros request_rules fills_intros call_rules)

lemma get_repos_for_fpat_confined [confined]: "confined [(GET, [Lit ''/orgs/'', Hole name_char, Lit ''/personal-access-token-requests/'', Hole (between CHR ''0'' CHR ''9''), Lit ''/repositories?per_page='', Hole (between CHR ''0'' CHR ''9''), Lit ''&page='', Hole (between CHR ''0'' CHR ''9'')])] (get_repos_for_fpat H G from_str params)"
  unfolding get_repos_for_fpat_def from_params_def Let_def confined_def by (intro does_intros request_rules fills_intros call_rules)

lemma review_fpat_requests_for_org_confined [confined]: "confined [(POST, [Lit ''/orgs/'', Hole name_char, Lit ''/personal-access-token-requests''])] (review_fpat_requests_for_org H G from_str params)"
  unfolding review_fpat_requests_for_org_def from_params_def Let_def confined_def by (intro does_intros request_rules fills_intros call_rules)

lemma grant_repo_access_to_org_installation_confined [confined]: "confined [(PATCH, [Lit ''/enterprises/'', Hole name_char, Lit ''/apps/organizations/'', Hole name_char, Lit ''/installations/'', Hole (between CHR ''0'' CHR ''9''), Lit ''/repositories/add''])] (grant_repo_access_to_org_installation H G from_str params)"
  unfolding grant_repo_access_to_org_installation_def from_params_def Let_def confined_def by (intro does_intros request_rules fills_intros call_rules)

lemma remove_repo_access_from_org_installation_confined [confined]: "confined [(PATCH, [Lit ''/enterprises/'', Hole name_char, Lit ''/apps/organizations/'', Hole name_char, Lit ''/installations/'', Hole (between CHR ''0'' CHR ''9''), Lit ''/repositories/remove''])] (remove_repo_access_from_org_installation H G from_str params)"
  unfolding remove_repo_access_from_org_installation_def from_params_def Let_def confined_def by (intro does_intros request_rules fills_intros call_rules)

lemma get_enterprise_license_status_confined [confined]: "confined [(GET, [Lit ''/enterprises/'', Hole name_char, Lit ''/consumed-licenses''])] (get_enterprise_license_status H G c0 c1 from_str params)"
  unfolding get_enterprise_license_status_def from_params_def Let_def confined_def by (intro does_intros request_rules fills_intros call_rules)

lemma ref_q_param_rule [request_rules]:
  "(\<And>x. does R (f x) Q) \<Longrightarrow> does R (and_then (ref_q_param H G r) f) Q"
  by (rule does_then_any) (auto simp: ref_q_param_def intro!: does_intros)

lemma fetch_file_with_custom_media_type_confined [confined]:
  "confined [(GET, [Lit ''/repos/'', Hole name_char, Lit ''/'', Hole repo_char, Lit ''/contents/'', Opt any_char])] (fetch_file_with_custom_media_type H G from_str params)"
  unfolding fetch_file_with_custom_media_type_def from_params_def Let_def confined_def
  by (intro does_intros request_rules endpoint_of_single fills_Lit fills_Hole fills_last_Opt call_rules)
    (assumption | simp add: list_all_iff any_char_def)+

lemma affiliation_chars: "a \<in> {''outside'', ''direct'', ''all''} \<Longrightarrow> nonempty_of word_lower a"
  by (auto simp: nonempty_of_def word_lower_def between_def)

lemma get_repository_collaborators_confined [confined]:
  "confined [(GET, [Lit ''/repos/'', Hole name_char, Lit ''/'', Hole repo_char, Lit ''/collaborators?per_page='', Hole (between CHR ''0'' CHR ''9''), Lit ''&affiliation='', Hole word_lower, Lit ''&page='', Hole (between CHR ''0'' CHR ''9'')])] (get_repository_collaborators H G from_str params)"
  unfolding get_repository_collaborators_def from_params_def Let_def confined_def
  by (intro does_intros request_rules fills_intros call_rules) (assumption | rule affiliation_chars, simp only: not_not)+

lemma require_signed_commits_confined [confined]:
  "confined [(POST, [Lit ''/repos/'', Hole name_char, Lit ''/'', Hole repo_char, Lit ''/branches/'', Hole branch_char, Lit ''/protection/required_signatures'']), (DELETE, [Lit ''/repos/'', Hole name_char, Lit ''/'', Hole repo_char, Lit ''/branches/'', Hole branch_char, Lit ''/protection/required_signatures''])] (require_signed_commits H G from_str params)"
  unfolding require_signed_commits_def from_params_def Let_def confined_def
  by (intro does_intros request_rules call_rules)
    ((rule endpoint_of_Cons(1) | rule endpoint_of_Cons(2), rule endpoint_of_single), intro fills_intros call_rules; assumption)+

lemma codeowners_rule [call_rules]: "does R (codeowners_status_of c0 c1 r) (\<lambda>_. True)"
  unfolding codeowners_status_of_def by (intro does_intros TrueI)

lemma check_codeowners_file_confined [confined]:
  "confined [(GET, [Lit ''/repos/'', Hole name_char, Lit ''/'', Hole repo_char, Lit ''/codeowners/errors''])] (check_codeowners_file H G c0 c1 from_str params)"
  unfolding check_codeowners_file_def from_params_def Let_def confined_def
  by (intro does_intros request_rules fills_intros call_rules)

lemma repo_id_does:
  assumes "endpoint_of eps GET (''/repos/'' @ owner @ ''/'' @ repo)"
  shows "does (sends (octocrab H) (request_of G eps)) (get_repo_id_from_repo_name_internal H G c0 client_id owner repo)
    (nonempty_of (between CHR ''0'' CHR ''9''))"
  unfolding get_repo_id_from_repo_name_internal_def
proof (rule get_rule [OF assms], rule does_and_then [OF does_body_if])
  fix x b
  show "does (sends (octocrab H) (request_of G eps))
      (and_then (ok_or (GitHubError GhBadResponse) (c0 b)) (\<lambda>repo_info. ok (decimal (unat (gr_id repo_info)))))
      (nonempty_of (between CHR ''0'' CHR ''9''))"
    by (intro does_intros) (use decimal_class in \<open>simp add: nonempty_of_def\<close>)
qed

lemma repo_endpoint:
  assumes "nonempty_of name_char owner" and "nonempty_of repo_char repo"
  shows "fills [Lit ''/repos/'', Hole name_char, Lit ''/'', Hole repo_char] (''/repos/'' @ owner @ ''/'' @ repo)"
  by (intro fills_intros nonempty_ofD assms)

lemma get_repo_id_from_repo_name_confined [confined]:
  "confined [(GET, [Lit ''/repos/'', Hole name_char, Lit ''/'', Hole repo_char])] (get_repo_id_from_repo_name H G c0 from_str params)"
  unfolding get_repo_id_from_repo_name_def from_params_def confined_def
  by (intro does_intros request_rules, rule does_weaken [OF repo_id_does [OF endpoint_of_single [OF repo_endpoint]]])
    (assumption | rule TrueI)+

lemma create_file_confined [confined]:
  "confined [(PUT, [Lit ''/repos/'', Hole name_char, Lit ''/'', Hole repo_char, Lit ''/contents/'', Hole path_char])] (create_file H G from_str params)"
  unfolding create_file_def from_params_def Let_def confined_def
  by (intro does_intros request_rules fills_intros call_rules)

lemma get_reference_confined [confined]:
  "confined [(GET, [Lit ''/repos/'', Hole name_char, Lit ''/'', Hole repo_char, Lit ''/git/ref/heads/'', Hole branch_char]), (GET, [Lit ''/repos/'', Hole name_char, Lit ''/'', Hole repo_char, Lit ''/git/ref/tags/'', Hole branch_char])] (get_reference H G from_str params)"
proof -
  have "endpoint_of [(GET, [Lit ''/repos/'', Hole name_char, Lit ''/'', Hole repo_char, Lit ''/git/ref/heads/'', Hole branch_char]), (GET, [Lit ''/repos/'', Hole name_char, Lit ''/'', Hole repo_char, Lit ''/git/ref/tags/'', Hole branch_char])] GET (''/repos/'' @ owner @ ''/'' @ repo @ ''/git/ref/'' @ git_ref_fmt r)"
    if "nonempty_of name_char owner" "nonempty_of repo_char repo"
      "nonempty_of branch_char (case r of Branch name \<Rightarrow> name | Tag name \<Rightarrow> name)" for owner repo r
  proof -
    have "fills [Lit ''/repos/'', Hole name_char, Lit ''/'', Hole repo_char, Lit (''/git/ref/'' @ l), Hole branch_char]
        (''/repos/'' @ owner @ ''/'' @ repo @ (''/git/ref/'' @ l) @ name)"
      if "nonempty_of branch_char name" for l name
      by (intro fills_intros call_rules; fact)
    from this [of _ "''heads/''"] this [of _ "''tags/''"] show ?thesis
      using that(3) by (cases r) (auto simp: endpoint_of_def)
  qed
  then show ?thesis
    unfolding get_reference_def from_params_def confined_def
    by (intro does_intros request_rules TrueI) assumption+
qed

lemma validated_term_rule [request_rules]:
  "(\<And>x. does R (f x) Q) \<Longrightarrow> does R (and_then (validated_term l (validate H G name) v) f) Q"
  by (rule does_then_any) (auto simp: validated_term_def validate_def intro!: does_intros)

lemma validated_option_rule [request_rules]:
  "(\<And>x. does R (f x) Q) \<Longrightarrow> does R (and_then (validated_option (validate H G name) v) f) Q"
  by (rule does_then_any) (auto simp: validated_option_def validate_def intro!: does_intros)

lemma search_code_confined [confined]:
  "confined [(GET, [Lit ''/search/code?q='', Opt url_char, Lit ''&per_page='', Hole (between CHR ''0'' CHR ''9''), Lit ''&page='', Hole (between CHR ''0'' CHR ''9'')])] (search_code H G from_str params)"
  unfolding search_code_def from_params_def Let_def confined_def
  by (intro does_intros request_rules fills_intros call_rules url_encoded)

lemma review_body_rule [request_rules]:
  "(\<And>x. does R (f x) Q) \<Longrightarrow> does R (and_then (validate_review_body e b) f) Q"
  by (rule does_then_any) (auto simp: validate_review_body_def intro!: does_intros)

lemma submit_pull_request_review_confined [confined]:
  "confined [(POST, [Lit ''/repos/'', Hole name_char, Lit ''/'', Hole repo_char, Lit ''/pulls/'', Hole (between CHR ''0'' CHR ''9''), Lit ''/reviews''])] (submit_pull_request_review H G from_str params)"
  unfolding submit_pull_request_review_def from_params_def Let_def confined_def
  by (intro does_intros request_rules fills_intros call_rules)

lemma options_encoded:
  "list_all form_char (case x of None \<Rightarrow> [] | Some options \<Rightarrow> query_string_from_options H options)"
  by (simp add: query_string_from_options_def form_encoded split: option.split)

lemma get_pull_requests_confined [confined]:
  "confined [(GET, [Lit ''/repos/'', Hole name_char, Lit ''/'', Hole repo_char, Lit ''/pulls?'', Opt form_char])] (get_pull_requests H G from_str params)"
  unfolding get_pull_requests_def from_params_def Let_def confined_def
  by (intro does_intros request_rules fills_intros call_rules options_encoded)

lemma execute_org_secret_action_does:
  assumes "\<And>owner repo. nonempty_of name_char owner \<Longrightarrow> nonempty_of repo_char repo \<Longrightarrow>
      endpoint_of eps GET (''/repos/'' @ owner @ ''/'' @ repo)"
    and "\<And>org secret n. nonempty_of name_char org \<Longrightarrow> nonempty_of secret_char secret \<Longrightarrow>
      nonempty_of (between CHR ''0'' CHR ''9'') n \<Longrightarrow>
      endpoint_of eps (case action of AddRepo \<Rightarrow> PUT | RemoveRepo \<Rightarrow> DELETE)
        (''/orgs/'' @ org @ ''/actions/secrets/'' @ secret @ ''/repositories/'' @ n)"
  shows "does (sends (octocrab H) (request_of G eps)) (execute_org_secret_action H G c0 client_id p action) (\<lambda>_. True)"
  unfolding execute_org_secret_action_def Let_def
  by (intro request_rules does_and_then [OF repo_id_does [OF assms(1)]]; (assumption | cases action);
      simp del: append_Cons append.simps; intro request_rules call_rules)
    (use assms(2) in \<open>auto simp del: append_Cons append.simps\<close>)

lemma org_secret_endpoint:
  assumes "nonempty_of name_char org" and "nonempty_of secret_char secret" and "nonempty_of (between CHR ''0'' CHR ''9'') n"
  shows "fills [Lit ''/orgs/'', Hole name_char, Lit ''/actions/secrets/'', Hole secret_char, Lit ''/repositories/'', Hole (between CHR ''0'' CHR ''9'')]
    (''/orgs/'' @ org @ ''/actions/secrets/'' @ secret @ ''/repositories/'' @ n)"
  by (intro fills_intros nonempty_ofD assms)

lemma add_repo_to_org_secret_confined [confined]:
  "confined [(GET, [Lit ''/repos/'', Hole name_char, Lit ''/'', Hole repo_char]), (PUT, [Lit ''/orgs/'', Hole name_char, Lit ''/actions/secrets/'', Hole secret_char, Lit ''/repositories/'', Hole (between CHR ''0'' CHR ''9'')])] (add_repo_to_org_secret H G c0 from_str params)"
  unfolding add_repo_to_org_secret_def from_params_def confined_def
  by (intro does_intros execute_org_secret_action_does)
    (auto intro: endpoint_of_Cons repo_endpoint org_secret_endpoint simp del: fills.simps append_Cons append.simps)

lemma remove_repo_from_org_secret_confined [confined]:
  "confined [(GET, [Lit ''/repos/'', Hole name_char, Lit ''/'', Hole repo_char]), (DELETE, [Lit ''/orgs/'', Hole name_char, Lit ''/actions/secrets/'', Hole secret_char, Lit ''/repositories/'', Hole (between CHR ''0'' CHR ''9'')])] (remove_repo_from_org_secret H G c0 from_str params)"
  unfolding remove_repo_from_org_secret_def from_params_def confined_def
  by (intro does_intros execute_org_secret_action_does)
    (auto intro: endpoint_of_Cons repo_endpoint org_secret_endpoint simp del: fills.simps append_Cons append.simps)

lemma pull_request_request_reviewers_confined [confined]:
  "confined [(POST, [Lit ''/repos/'', Hole name_char, Lit ''/'', Hole repo_char, Lit ''/pulls/'', Hole (between CHR ''0'' CHR ''9''), Lit ''/requested_reviewers''])] (pull_request_request_reviewers_call H G from_str params)"
  unfolding pull_request_request_reviewers_call_def from_params_def Let_def confined_def
  by (intro does_intros request_rules fills_intros call_rules)

lemma check_org_membership_of_user_confined [confined]:
  "confined [(GET, [Lit ''/orgs/'', Hole name_char, Lit ''/members/'', Hole name_char])] (check_org_membership_of_user H G from_str params)"
  unfolding check_org_membership_of_user_def from_params_def Let_def confined_def
  by (intro does_intros request_rules fills_intros call_rules)

lemma graphql_rule [request_rules]:
  "does (sends (octocrab H) (request_of G [(POST, [Lit ''/graphql''])])) (make_gql_request H G client_id query) (\<lambda>_. True)"
  unfolding make_gql_request_def GITHUB_GQL_API_def
  by (rule github_send_confined) (simp_all add: endpoint_of_def does_body_if)

lemma make_graphql_query_confined [confined]:
  "confined [(POST, [Lit ''/graphql''])] (make_graphql_query H G from_str params)"
  unfolding make_graphql_query_def from_params_def confined_def by (intro does_intros request_rules)

lemma make_advanced_graphql_query_confined [confined]:
  "confined [(POST, [Lit ''/graphql''])] (make_advanced_graphql_query H G from_str params)"
  unfolding make_advanced_graphql_query_def from_params_def confined_def by (intro does_intros request_rules)

lemma pub_key_does:
  assumes "endpoint_of eps GET address"
  shows "does (sends (octocrab H) (request_of G eps)) (get_pub_key_for_secret_encryption H G client_id address) (\<lambda>_. True)"
  unfolding get_pub_key_for_secret_encryption_def key_part_def
  by (intro get_rule [OF assms] does_intros; intro does_then_any does_intros TrueI)

lemma encrypt_secret_does: "does R (encrypt_secret H s k) (\<lambda>_. True)"
  unfolding encrypt_secret_def by (intro does_intros TrueI)

lemma secret_endpoints:
  assumes "nonempty_of name_char owner" and "nonempty_of repo_char repo"
  shows "nonempty_of branch_char e \<Longrightarrow>
      fills [Lit ''/repos/'', Hole name_char, Lit ''/'', Hole repo_char, Lit ''/environments/'', Hole branch_char, Lit ''/secrets/public-key'']
        (''/repos/'' @ owner @ ''/'' @ repo @ ''/environments/'' @ e @ ''/secrets/public-key'')"
    "nonempty_of branch_char e \<Longrightarrow> nonempty_of secret_char s \<Longrightarrow>
      fills [Lit ''/repos/'', Hole name_char, Lit ''/'', Hole repo_char, Lit ''/environments/'', Hole branch_char, Lit ''/secrets/'', Hole secret_char]
        (''/repos/'' @ owner @ ''/'' @ repo @ ''/environments/'' @ e @ ''/secrets/'' @ s)"
    "nonempty_of secret_char s \<Longrightarrow>
      fills [Lit ''/repos/'', Hole name_char, Lit ''/'', Hole repo_char, Lit ''/actions/secrets/'', Hole secret_char]
        (''/repos/'' @ owner @ ''/'' @ repo @ ''/actions/secrets/'' @ s)"
    "fills [Lit ''/repos/'', Hole name_char, Lit ''/'', Hole repo_char, Lit ''/actions/secrets/public-key'']
        (''/repos/'' @ owner @ ''/'' @ repo @ ''/actions/secrets/public-key'')"
  by (intro fills_intros nonempty_ofD assms; assumption)+

lemma validated_env_rule:
  "(\<And>x. \<forall>e. x = Some e \<longrightarrow> nonempty_of branch_char e \<Longrightarrow> does R (f x) Q) \<Longrightarrow>
    does R (and_then (validated_option (validate_environment_name H G) v) f) Q"
  by (rule does_and_then [where P = "\<lambda>x. \<forall>e. x = Some e \<longrightarrow> nonempty_of branch_char e"])
    (auto simp: validated_option_def intro!: does_intros validate_environment_name_rule)

lemma configure_secret_confined [confined]:
  "confined [(GET, [Lit ''/repos/'', Hole name_char, Lit ''/'', Hole repo_char, Lit ''/environments/'', Hole branch_char, Lit ''/secrets/public-key'']), (GET, [Lit ''/repos/'', Hole name_char, Lit ''/'', Hole repo_char, Lit ''/actions/secrets/public-key'']), (PUT, [Lit ''/repos/'', Hole name_char, Lit ''/'', Hole repo_char, Lit ''/environments/'', Hole branch_char, Lit ''/secrets/'', Hole secret_char]), (PUT, [Lit ''/repos/'', Hole name_char, Lit ''/'', Hole repo_char, Lit ''/actions/secrets/'', Hole secret_char])] (configure_secret H G from_str params)"
proof -
  have ep: "endpoint_of [(GET, [Lit ''/repos/'', Hole name_char, Lit ''/'', Hole repo_char, Lit ''/environments/'', Hole branch_char, Lit ''/secrets/public-key'']), (GET, [Lit ''/repos/'', Hole name_char, Lit ''/'', Hole repo_char, Lit ''/actions/secrets/public-key'']), (PUT, [Lit ''/repos/'', Hole name_char, Lit ''/'', Hole repo_char, Lit ''/environments/'', Hole branch_char, Lit ''/secrets/'', Hole secret_char]), (PUT, [Lit ''/repos/'', Hole name_char, Lit ''/'', Hole repo_char, Lit ''/actions/secrets/'', Hole secret_char])] GET
        (case env of Some e \<Rightarrow> ''/repos/'' @ owner @ ''/'' @ repo @ ''/environments/'' @ e @ ''/secrets/public-key''
         | None \<Rightarrow> ''/repos/'' @ owner @ ''/'' @ repo @ ''/actions/secrets/public-key'')"
    "endpoint_of [(GET, [Lit ''/repos/'', Hole name_char, Lit ''/'', Hole repo_char, Lit ''/environments/'', Hole branch_char, Lit ''/secrets/public-key'']), (GET, [Lit ''/repos/'', Hole name_char, Lit ''/'', Hole repo_char, Lit ''/actions/secrets/public-key'']), (PUT, [Lit ''/repos/'', Hole name_char, Lit ''/'', Hole repo_char, Lit ''/environments/'', Hole branch_char, Lit ''/secrets/'', Hole secret_char]), (PUT, [Lit ''/repos/'', Hole name_char, Lit ''/'', Hole repo_char, Lit ''/actions/secrets/'', Hole secret_char])] PUT
        (case env of Some e \<Rightarrow> ''/repos/'' @ owner @ ''/'' @ repo @ ''/environments/'' @ e @ ''/secrets/'' @ secret
         | None \<Rightarrow> ''/repos/'' @ owner @ ''/'' @ repo @ ''/actions/secrets/'' @ secret)"
    if "nonempty_of name_char owner" "nonempty_of repo_char repo" "\<forall>e. env = Some e \<longrightarrow> nonempty_of branch_char e"
      "nonempty_of secret_char secret" for owner repo env secret
    using that secret_endpoints [OF that(1,2)] by (auto simp: endpoint_of_def simp del: fills.simps append_Cons append.simps split: option.split)
  show ?thesis
    unfolding configure_secret_def from_params_def confined_def
    by (intro does_intros request_rules does_and_then [OF pub_key_does] does_then_any [OF encrypt_secret_does] ep call_rules validated_env_rule) assumption+
qed

end

context github_service
begin

lemma as_u32_confined: "confined eps m \<Longrightarrow> confined eps (as_u32 m)"
  unfolding confined_def as_u32_def by (rule does_then_any) (simp_all add: does_ok)

lemma confined_world: "confined eps m \<Longrightarrow> (sends (octocrab H) (request_of G eps))\<^sup>*\<^sup>* w (snd (m w))"
  unfolding confined_def by (rule does_world)

text \<open>The functions and their endpoints are listed in the same order.\<close>

inductive aligned :: "(string \<times> ('w, 'a) api_call) list \<Rightarrow> (string \<times> (http_method \<times> piece list) list) list \<Rightarrow> bool" where
  aligned_Nil: "aligned [] []"
| aligned_Cons: "confined eps call \<Longrightarrow> aligned fs es \<Longrightarrow> aligned ((name, call) # fs) ((name, eps) # es)"

lemma aligned_lookup:
  "aligned fs es \<Longrightarrow> map_of es name = Some eps \<Longrightarrow> \<exists>call. map_of fs name = Some call \<and> confined eps call"
  by (induction rule: aligned.induct) (auto split: if_splits)

lemma int_functions_aligned: "aligned (github_int_functions H G C params) github_int_endpoints"
  unfolding github_int_functions_def github_int_endpoints_def
  by (intro aligned_Nil aligned_Cons confined as_u32_confined)

lemma string_functions_aligned: "aligned (github_string_functions H G C params) github_string_endpoints"
  unfolding github_string_functions_def github_string_endpoints_def
  by (intro aligned_Nil aligned_Cons confined)

lemma service_confined:
  assumes "decl_api d = ''github'' \<and> decl_sub_module d = None" and "github_endpoints d = Some eps"
    and "host_call W (with_service ''github'' None (\<lambda>params pm. github_int_functions H G C params)
           (\<lambda>params pm. github_string_functions H G C params) A) d env p n rp rn w = (code, env', w')"
  shows "(sends (octocrab H) (request_of G eps))\<^sup>*\<^sup>* w w' \<and> (test_mode (env_module env) \<longrightarrow> w' = w \<or> allow_in_test_mode d)"
proof (rule host_call_service [OF assms(1,3)])
  have int: "\<exists>call. map_of (github_int_functions H G C params) (decl_function d) = Some call \<and> confined eps call"
    if "\<not> decl_error_buffer d" for params
    using aligned_lookup [OF int_functions_aligned] assms(2) that by (simp add: github_endpoints_def)
  have str: "\<exists>call. map_of (github_string_functions H G C params) (decl_function d) = Some call \<and> confined eps call"
    if "decl_error_buffer d" for params
    using aligned_lookup [OF string_functions_aligned] assms(2) that by (simp add: github_endpoints_def)
  show "\<forall>params. \<not> decl_error_buffer d \<longrightarrow> (\<exists>call. map_of (github_int_functions H G C params) (decl_function d) = Some call
      \<and> (sends (octocrab H) (request_of G eps))\<^sup>*\<^sup>* w (snd (call w)))"
    using int confined_world by blast
  show "\<forall>params. decl_error_buffer d \<longrightarrow> (\<exists>call. map_of (github_string_functions H G C params) (decl_function d) = Some call
      \<and> (sends (octocrab H) (request_of G eps))\<^sup>*\<^sup>* w (snd (call w)))"
    using str confined_world by blast
qed

end

definition with_github where
  "with_github H G C = with_service ''github'' None (\<lambda>params pm. github_int_functions H G C params)
     (\<lambda>params pm. github_string_functions H G C params)"

lemma github_declarations:
  "list_all (\<lambda>d. decl_api d = ''github'' \<and> decl_sub_module d = None \<and> \<not> Option.is_none (github_endpoints d)) github_functions"
  by code_simp

lemma github_test_mode_endpoints:
  "list_all (\<lambda>d. allow_in_test_mode d \<longrightarrow> decl_function d \<notin> {''make_graphql_query'', ''make_advanced_graphql_query''} \<longrightarrow>
     list_all (\<lambda>(m, t). m = GET) (the (github_endpoints d))) github_functions"
  by code_simp

lemma github_host_call:
  assumes "github_service H G" and "d \<in> set github_functions"
  shows "\<exists>eps. github_endpoints d = Some eps
    \<and> (sends (octocrab H) (request_of G eps))\<^sup>*\<^sup>* w (snd (snd (host_call W (with_github H G C A) d env p n rp rn w)))
    \<and> (test_mode (env_module env) \<longrightarrow> snd (snd (host_call W (with_github H G C A) d env p n rp rn w)) = w \<or> allow_in_test_mode d)"
proof -
  obtain eps where d: "decl_api d = ''github'' \<and> decl_sub_module d = None" "github_endpoints d = Some eps"
    using github_declarations assms(2) by (auto simp: list_all_iff Option.is_none_def)
  obtain code env' w' where call: "host_call W (with_github H G C A) d env p n rp rn w = (code, env', w')" by (rule prod_cases3)
  from github_service.service_confined [OF assms(1) d call [unfolded with_github_def]] show ?thesis
    using d(2) unfolding call by simp
qed

subsection \<open>An engine for the patterns\<close>

text \<open>
  The patterns over ASCII, percent-encoding and form encoding satisfy the laws, for a service built by \<open>github_api_new\<close>.
\<close>

definition ascii_match :: "string \<Rightarrow> string \<Rightarrow> bool" where
  "ascii_match re s =
     (if re = NAME_PATTERN then nonempty_of (\<lambda>c. ascii_word c \<or> c = CHR ''-'') s
      else if re = REPOSITORY_PATTERN then nonempty_of (\<lambda>c. ascii_word c \<or> c \<in> {CHR ''-'', CHR ''.'', CHR ''/''}) s
      else if re = COMMIT_PATTERN then length s = 40 \<and> list_all hex_char s
      else if re = PINT_PATTERN then nonempty_of (between CHR ''0'' CHR ''9'') s
      else if re = BRANCH_PATTERN then s \<noteq> [] \<and> is_alpha (hd s) \<and> list_all branch_char s
      else if re = SECRET_PATTERN then s \<noteq> [] \<and> between CHR ''A'' CHR ''Z'' (hd s) \<and> list_all secret_char s
      else if re = FILENAME_PATTERN then length s \<in> {1..32} \<and> list_all (\<lambda>c. is_alnum c \<or> c = CHR ''.'') s
      else if re = EXTENSION_PATTERN then length s \<in> {1..5} \<and> list_all is_alnum s
      else if re = PATH_PATTERN then length s \<in> {1..128} \<and> list_all path_char s
      else if re = EVENT_PATTERN then nonempty_of (\<lambda>c. ascii_word c \<or> c = CHR ''-'') s
      else if re = PARENT_PATTERN then sublist ''..'' s
      else False)"

definition hex_digit :: "nat \<Rightarrow> char" where
  "hex_digit d = (if d < 10 then char_of (48 + d) else char_of (55 + d))"

definition percent :: "char \<Rightarrow> string" where
  "percent c = [CHR ''%'', hex_digit (of_char c div 16 mod 16), hex_digit (of_char c mod 16)]"

definition percent_encode :: "string \<Rightarrow> string" where
  "percent_encode s = concat (map (\<lambda>c. if is_alnum c \<or> c \<in> {CHR ''-'', CHR ''_'', CHR ''.'', CHR ''~''} then [c] else percent c) s)"

definition form_encode :: "string \<Rightarrow> string" where
  "form_encode s = concat (map (\<lambda>c. if is_alnum c \<or> c \<in> {CHR ''-'', CHR ''_'', CHR ''.'', CHR ''*''} then [c]
     else if c = CHR '' '' then ''+'' else percent c) s)"

fun encode_pairs :: "(string \<times> string) list \<Rightarrow> string" where
  "encode_pairs [] = []"
| "encode_pairs [(k, v)] = form_encode k @ ''='' @ form_encode v"
| "encode_pairs ((k, v) # ps) = form_encode k @ ''='' @ form_encode v @ ''&'' @ encode_pairs ps"

lemma hex_digit_alnum: "d < 16 \<Longrightarrow> is_alnum (hex_digit d)"
  by (auto simp: hex_digit_def is_alnum_def is_alpha_def between_def of_char_of)

lemma percent_chars: "c' \<in> set (percent c) \<Longrightarrow> c' = CHR ''%'' \<or> is_alnum c'"
  by (auto simp: percent_def intro: hex_digit_alnum)

lemma percent_encode_chars: "list_all url_char (percent_encode s)"
  by (auto simp: list_all_iff percent_encode_def url_char_def dest: percent_chars split: if_splits)

lemma form_encode_chars: "c \<in> set (form_encode s) \<Longrightarrow> form_char c"
  by (auto simp: form_encode_def form_char_def dest: percent_chars split: if_splits)

lemma encode_pairs_chars: "list_all form_char (encode_pairs ps)"
  by (induction ps rule: encode_pairs.induct) (auto simp: list_all_iff form_encode_chars, auto simp: form_char_def)

definition sample_github_ops :: "(unit, (unit \<times> github_request) list) github_api_ops" where
  "sample_github_ops =
     \<lparr>is_match = ascii_match, octocrab = (\<lambda>r w. (Inr (200, Inr ''{}''), r # w)), value_from_str = (\<lambda>_. None),
      base64_encode = (\<lambda>_. []), base64_decode = (\<lambda>_. None), seal_key_length = 32, seal_encrypt = (\<lambda>_ _. None),
      sha256_hex = (\<lambda>_. []), url_encode = percent_encode, form_pairs = encode_pairs\<rparr>"

definition sample_github :: "unit github" where
  "sample_github = projr (github_api_new (\<lambda>_. None :: unit option) (\<lambda>_ _. Inr ()) (\<lambda>_ _. Inr ()) [(''default'', Token ''t'')] [])"

definition sample_codecs :: github_codecs where
  "sample_codecs =
     \<lparr>params_1 = \<lparr>de_remove_user_from_repo = (\<lambda>_. None), de_add_user_to_repo = (\<lambda>_. None), de_fetch_commit = (\<lambda>_. Some \<lparr>gaw_client_id = ''default'', gaw_params = \<lparr>fcp_user = ''o'', fcp_repo = ''../r'', fcp_commit = replicate 40 (CHR ''a'')\<rparr>\<rparr>), de_list_files = (\<lambda>_. None), de_fetch_file_with_custom_media_type = (\<lambda>_. None), de_get_branch_protection_rules = (\<lambda>_. None), de_get_branch_protection_ruleset = (\<lambda>_. None), de_get_repository_collaborators = (\<lambda>_. None), de_update_branch_protection_rule = (\<lambda>_. None), de_require_signed_commits = (\<lambda>_. None), de_get_weekly_commit_count = (\<lambda>_. None), de_comment_on_pull_request = (\<lambda>_. None), de_get_custom_properties_values = (\<lambda>_. None), de_check_codeowners_file = (\<lambda>_. None)\<rparr>,
      params_2 = \<lparr>de_create_file = (\<lambda>_. None), de_get_repo_sbom = (\<lambda>_. None), de_get_repo_id_from_repo_name = (\<lambda>_. None), de_get_repo_name_from_repo_id = (\<lambda>_. None), de_get_reference = (\<lambda>_. None), de_create_reference = (\<lambda>_. None), de_search_code = (\<lambda>_. None), de_remove_user_from_team = (\<lambda>_. None), de_add_user_to_team = (\<lambda>_. None), de_add_repo_to_team = (\<lambda>_. None), de_remove_repo_from_team = (\<lambda>_. None), de_get_repo_teams = (\<lambda>_. None), de_pull_request_request_reviewers = (\<lambda>_. None), de_submit_pull_request_review = (\<lambda>_. None)\<rparr>,
      params_3 = \<lparr>de_create_pull_request = (\<lambda>_. None), de_get_pull_requests = (\<lambda>_. None), de_add_labels = (\<lambda>_. None), de_configure_secret = (\<lambda>_. None), de_add_repo_to_org_secret = (\<lambda>_. None), de_remove_repo_from_org_secret = (\<lambda>_. None), de_list_org_secrets_for_repo = (\<lambda>_. None), de_create_environment_for_repo = (\<lambda>_. None), de_create_deployment_branch_protection_rule = (\<lambda>_. None), de_trigger_repo_dispatch = (\<lambda>_. None), de_delete_deploy_key = (\<lambda>_. None), de_create_deploy_key = (\<lambda>_. None), de_check_org_membership_of_user = (\<lambda>_. None), de_remove_outside_collaborator_from_org = (\<lambda>_. None)\<rparr>,
      params_4 = \<lparr>de_get_user_id_from_username = (\<lambda>_. None), de_get_username_from_user_id = (\<lambda>_. None), de_list_seats_in_org_copilot = (\<lambda>_. None), de_add_users_to_org_copilot = (\<lambda>_. None), de_remove_users_from_org_copilot = (\<lambda>_. None), de_list_fpat_requests_for_org = (\<lambda>_. None), de_get_repos_for_fpat = (\<lambda>_. None), de_review_fpat_requests_for_org = (\<lambda>_. None), de_grant_repo_access_to_org_installation = (\<lambda>_. None), de_remove_repo_access_from_org_installation = (\<lambda>_. None), de_get_enterprise_license_status = (\<lambda>_. None), de_make_graphql_query = (\<lambda>_. None), de_make_advanced_graphql_query = (\<lambda>_. None)\<rparr>,
      co_errors = (\<lambda>_. None), co_status = (\<lambda>_. None), co_repository = (\<lambda>_. None), co_user = (\<lambda>_. None),
      co_key_id = (\<lambda>_. None), co_licenses = (\<lambda>_. None), co_licenses_to_string = (\<lambda>_. None)\<rparr>"

lemmas pattern_defs = NAME_PATTERN_def REPOSITORY_PATTERN_def COMMIT_PATTERN_def PINT_PATTERN_def BRANCH_PATTERN_def
  SECRET_PATTERN_def FILENAME_PATTERN_def EXTENSION_PATTERN_def PATH_PATTERN_def EVENT_PATTERN_def PARENT_PATTERN_def

lemma ascii_match_patterns:
  "ascii_match NAME_PATTERN s = nonempty_of (\<lambda>c. ascii_word c \<or> c = CHR ''-'') s"
  "ascii_match REPOSITORY_PATTERN s = nonempty_of (\<lambda>c. ascii_word c \<or> c \<in> {CHR ''-'', CHR ''.'', CHR ''/''}) s"
  "ascii_match COMMIT_PATTERN s = (length s = 40 \<and> list_all hex_char s)"
  "ascii_match PINT_PATTERN s = nonempty_of (between CHR ''0'' CHR ''9'') s"
  "ascii_match BRANCH_PATTERN s = (s \<noteq> [] \<and> is_alpha (hd s) \<and> list_all branch_char s)"
  "ascii_match SECRET_PATTERN s = (s \<noteq> [] \<and> between CHR ''A'' CHR ''Z'' (hd s) \<and> list_all secret_char s)"
  "ascii_match PATH_PATTERN s = (length s \<in> {1..128} \<and> list_all path_char s)"
  unfolding ascii_match_def by (simp_all add: pattern_defs)

interpretation gh: github_service sample_github_ops sample_github
proof
  show "gh_validators sample_github = create_validators"
    by (simp add: sample_github_def github_api_new_def build_github_clients_def build_github_client_def)
qed (auto simp: sample_github_ops_def ascii_match_patterns nonempty_of_def list_all_iff word_char_def name_char_def repo_char_def
    digit_class_def percent_encode_chars [unfolded list_all_iff] encode_pairs_chars [unfolded list_all_iff])

subsection \<open>Properties\<close>

text \<open>
  C23. Shape of what the GitHub service sends. Whatever a rule passes to any of the 55 GitHub host functions, the
  only thing that happens in the world is requests sent with a configured client, with the method of an
  endpoint of that function and an address that is the template of the endpoint with its holes filled, each
  with characters of the class of its parameter. The classes are those of the validators, and they limit the
  characters, not the path: a repository may have dots and slashes in its name, so that the address the
  server resolves can lie outside the owner's repositories (the witness sends such a one), branches and the
  paths of created files may have them too, and the path of \<^verbatim>\<open>fetch_file_with_custom_media_type\<close> may have any
  character. All other parameters have no slash, dot, question mark or hash, except where an encoder puts
  separators between pairs. In test mode, functions that are not allowed there do nothing.
\<close>

theorem github_requests_confined:
  assumes "github_service H G" and "d \<in> set github_functions"
    and "w' = snd (snd (host_call W (with_github H G C A) d env p n rp rn w))"
  shows "\<exists>eps. github_endpoints d = Some eps \<and> (sends (octocrab H) (request_of G eps))\<^sup>*\<^sup>* w w'
    \<and> (test_mode (env_module env) \<longrightarrow> w' = w \<or> allow_in_test_mode d)"
  using github_host_call [OF assms(1,2), where W = W and C = C and A = A and env = env and p = p and n = n and rp = rp and rn = rn and w = w] unfolding assms(3) by blast

theorem github_requests_confined_witness:
  "let d = api_fn ''github'' ''fetch_commit'' True ALLOW_IN_TEST_MODE;
       w' = snd (snd (host_call flat_ops (with_github sample_github_ops sample_github sample_codecs idle_services) d sample_caller 0 0 0 4 []))
   in map (ghr_uri \<circ> snd) w' = [''/repos/o/../r/commits/'' @ replicate 40 (CHR ''a'')]
    \<and> (\<exists>eps. github_endpoints d = Some eps \<and> (sends (octocrab sample_github_ops) (request_of sample_github eps))\<^sup>*\<^sup>* [] w')"
proof -
  let ?d = "api_fn ''github'' ''fetch_commit'' True ALLOW_IN_TEST_MODE"
  let ?w = "snd (snd (host_call flat_ops (with_github sample_github_ops sample_github sample_codecs idle_services) ?d sample_caller 0 0 0 4 []))"
  have "?d \<in> set github_functions" by (simp add: github_functions_def)
  from github_requests_confined [OF gh.github_service_axioms this refl, where W = flat_ops and C = sample_codecs
      and A = idle_services and env = sample_caller and p = 0 and n = 0 and rp = 0 and rn = 4 and w = "[]"]
  have "\<exists>eps. github_endpoints ?d = Some eps \<and> (sends (octocrab sample_github_ops) (request_of sample_github eps))\<^sup>*\<^sup>* [] ?w" by blast
  moreover have "map (ghr_uri \<circ> snd) ?w = [''/repos/o/../r/commits/'' @ replicate 40 (CHR ''a'')]"
  proof -
    have lookup: "map_of (github_string_functions sample_github_ops sample_github sample_codecs params) ''fetch_commit'' =
        Some (fetch_commit sample_github_ops sample_github (de_fetch_commit (params_1 sample_codecs)) params)" for params
      unfolding github_string_functions_def by simp
    have "fetch_commit sample_github_ops sample_github (de_fetch_commit (params_1 sample_codecs)) [] [] =
        (Inr ''{}'', [((), \<lparr>ghr_method = GET, ghr_uri = ''/repos/o/../r/commits/'' @ replicate 40 (CHR ''a''), ghr_headers = [], ghr_body = None\<rparr>)])"
      by code_simp
    then show ?thesis
      by (simp add: host_call_def api_function_buffer_def api_prologue_def with_github_def with_service_def api_fn_def lookup idle_services_def
          sample_caller_def sample_env_def sample_module_def get_memory_def safely_get_string_def flat_read_string_def flat_read_def
          safely_write_data_back_def flat_write_def Let_def as_bytes_def ALLOW_IN_TEST_MODE_def)
  qed
  ultimately show ?thesis by (simp add: Let_def)
qed

text \<open>
  A rule in test mode only reads from GitHub: apart from the two functions for GraphQL queries, which the
  configuration defines, every request a host function sends for it has the method GET.
\<close>

theorem github_test_mode_reads_only:
  assumes "github_service H G" and "d \<in> set github_functions" and "test_mode (env_module env)"
    and "decl_function d \<notin> {''make_graphql_query'', ''make_advanced_graphql_query''}"
    and "w' = snd (snd (host_call W (with_github H G C A) d env p n rp rn w))"
  shows "(sends (octocrab H) (\<lambda>(client, r). ghr_method r = GET))\<^sup>*\<^sup>* w w'"
proof -
  obtain eps where eps: "github_endpoints d = Some eps" "(sends (octocrab H) (request_of G eps))\<^sup>*\<^sup>* w w'"
    and allowed: "w' = w \<or> allow_in_test_mode d"
    using github_host_call [OF assms(1,2), where W = W and C = C and A = A and env = env and p = p and n = n and rp = rp and rn = rn and w = w] assms(3) unfolding assms(5) by blast
  show ?thesis
  proof (cases "w' = w")
    case False
    then have get: "\<forall>(m, t) \<in> set eps. m = GET"
      using github_test_mode_endpoints assms(2,4) allowed eps(1) by (fastforce simp: list_all_iff)
    have "sends (octocrab H) (request_of G eps) \<le> sends (octocrab H) (\<lambda>(client, r). ghr_method r = GET)"
      by (rule sends_mono) (use get in \<open>auto simp: request_of_def endpoint_of_def\<close>)
    from rtranclp_mono [OF this] eps(2) show ?thesis by blast
  qed simp
qed

theorem github_test_mode_reads_only_witness:
  "let env = sample_caller\<lparr>env_module := (sample_module ''m.wasm'' Unlimited 0)\<lparr>test_mode := True\<rparr>\<rparr>;
       w' = snd (snd (host_call flat_ops (with_github sample_github_ops sample_github sample_codecs idle_services)
              (api_fn ''github'' ''fetch_commit'' True ALLOW_IN_TEST_MODE) env 0 0 0 4 []))
   in (sends (octocrab sample_github_ops) (\<lambda>(client, r). ghr_method r = GET))\<^sup>*\<^sup>* [] w'"
  unfolding Let_def
  by (rule github_test_mode_reads_only [OF gh.github_service_axioms _ _ _ refl]) (simp_all add: github_functions_def api_fn_def)

text \<open>
  Two gaps. A repository may contain dots and slashes, so that an address can climb out of \<^verbatim>\<open>/repos\<close>. And the list
  of pull requests ignores the page and the page size it is asked for.
\<close>

lemma repository_name_may_climb:
  "snd (get_repo_sbom sample_github_ops sample_github
       (\<lambda>_. Some \<lparr>gaw_client_id = ''default'', gaw_params = \<lparr>grsp_owner = ''o'', grsp_repo = ''../../user''\<rparr>\<rparr>) [] []) =
     [((), \<lparr>ghr_method = GET, ghr_uri = ''/repos/o/../../user/dependency-graph/sbom'', ghr_headers = [], ghr_body = None\<rparr>)]"
  by code_simp

lemma get_pull_requests_ignores_page:
  assumes "unat per_page \<le> 100"
  shows "get_pull_requests H G (\<lambda>_. Some \<lparr>gaw_client_id = c, gaw_params = p\<lparr>gprr_page := page, gprr_per_page := per_page\<rparr>\<rparr>) params =
    get_pull_requests H G (\<lambda>_. Some \<lparr>gaw_client_id = c, gaw_params = p\<lparr>gprr_page := 1, gprr_per_page := 30\<rparr>\<rparr>) params"
proof -
  have "\<not> per_page > 100" using assms by (simp add: word_less_nat_alt)
  then show ?thesis by (simp add: get_pull_requests_def from_params_def ok_or_def ok_def lift_def and_then_def fun_eq_iff)
qed

end
