(* ===== verification/Plaid_Aws.thy ===== *)
theory Plaid_Aws
  imports Plaid_Api
begin

text \<open>
  The AWS services, \<^verbatim>\<open>runtime/plaid/src/apis/aws\<close>: keys (KMS), tables (DynamoDB) and buckets (S3), each with
  lists of the rules that may use them, and the conversion between JSON and the attributes of DynamoDB. The
  operations of the AWS clients, the JSON codecs, base64 and the conversions of \<^verbatim>\<open>f64\<close> are parameters; the
  parameters of rules are declared in \<^verbatim>\<open>runtime/plaid-stl/src/aws\<close>.
\<close>

subsection \<open>JSON and attributes\<close>

datatype attribute_value =
    AvS string
  | AvN string
  | AvB bytes
  | AvBool bool
  | AvNull bool
  | AvL "attribute_value list"
  | AvM "(string \<times> attribute_value) list"
  | AvSs "string list"
  | AvNs "string list"
  | AvBs "bytes list"
  | AvUnknown

record attribute_ops =
  base64_enc :: "bytes \<Rightarrow> string"
  base64_dec :: "string \<Rightarrow> string + bytes"
  f64_to_string :: "u64 \<Rightarrow> string"
  f64_of_int :: "int \<Rightarrow> u64"
  parse_f64 :: "string \<Rightarrow> u64 option"
  json_of_f64 :: "u64 \<Rightarrow> json"

definition in_i64 :: "int \<Rightarrow> bool" where
  "in_i64 i \<longleftrightarrow> - (2 ^ 63) \<le> i \<and> i < 2 ^ 63"

definition parse_i64 :: "string \<Rightarrow> int option" where
  "parse_i64 s = (case parse_i128 s of Some i \<Rightarrow> if in_i64 i then Some i else None | None \<Rightarrow> None)"

definition number_to_string :: "attribute_ops \<Rightarrow> json \<Rightarrow> string option" where
  "number_to_string F v =
     (case v of
        JInt i \<Rightarrow> Some (if in_i64 i then show_int i else f64_to_string F (f64_of_int F i))
      | JFloat x \<Rightarrow> Some (f64_to_string F x)
      | _ \<Rightarrow> None)"

datatype array_members = AllStrings | AllNumbers | AllBinary | NonUniform

fun is_string :: "json \<Rightarrow> bool" where
  "is_string (JString _) = True"
| "is_string _ = False"

fun is_number :: "json \<Rightarrow> bool" where
  "is_number (JInt _) = True"
| "is_number (JFloat _) = True"
| "is_number _ = False"

definition inspect_array_members :: "attribute_ops \<Rightarrow> json list \<Rightarrow> array_members" where
  "inspect_array_members F arr =
     (if list_all is_string arr then AllStrings
      else if list_all is_number arr then AllNumbers
      else if list_all (\<lambda>v. case json_as_str v of Some s \<Rightarrow> \<not> isl (base64_dec F s) | None \<Rightarrow> False) arr then AllBinary
      else NonUniform)"

fun collect :: "('a \<Rightarrow> api_error + 'b) \<Rightarrow> 'a list \<Rightarrow> api_error + 'b list" where
  "collect f [] = Inr []"
| "collect f (x # xs) =
     (case f x of Inl e \<Rightarrow> Inl e | Inr y \<Rightarrow> (case collect f xs of Inl e \<Rightarrow> Inl e | Inr ys \<Rightarrow> Inr (y # ys)))"

definition to_binary :: "attribute_ops \<Rightarrow> json \<Rightarrow> api_error + bytes" where
  "to_binary F v =
     (case json_as_str v of
        None \<Rightarrow> Inl (SerdeError ''Invalid binary value'')
      | Some s \<Rightarrow> map_sum (\<lambda>e. SerdeError (''Failed to decode base64: '' @ e)) id (base64_dec F s))"

function (sequential) to_attribute_value :: "attribute_ops \<Rightarrow> json \<Rightarrow> api_error + attribute_value"
  and to_attribute_list :: "attribute_ops \<Rightarrow> json list \<Rightarrow> api_error + attribute_value list"
  and to_attribute_map :: "attribute_ops \<Rightarrow> (string \<times> json) list \<Rightarrow> api_error + (string \<times> attribute_value) list"
where
  "to_attribute_value F (JString s) = Inr (AvS s)"
| "to_attribute_value F (JBool b) = Inr (AvBool b)"
| "to_attribute_value F JNull = Inr (AvNull True)"
| "to_attribute_value F (JArray arr) =
     (if arr = [] then Inl (SerdeError ''Lists and sets cannot be empty'')
      else case inspect_array_members F arr of
             AllStrings \<Rightarrow> Inr (AvSs (List.map_filter json_as_str arr))
           | AllNumbers \<Rightarrow>
               map_sum id AvNs (collect (\<lambda>v. case number_to_string F v of
                   Some n \<Rightarrow> Inr n | None \<Rightarrow> Inl (SerdeError ''Invalid number in number set'')) arr)
           | AllBinary \<Rightarrow> map_sum id AvBs (collect (to_binary F) arr)
           | NonUniform \<Rightarrow> map_sum id AvL (to_attribute_list F arr))"
| "to_attribute_value F (JObject obj) =
     (if length obj = 1 \<and> hm_get obj ''_binary'' \<noteq> None
      then (case hm_get obj ''_binary'' of
              Some (JString s) \<Rightarrow> map_sum (\<lambda>e. SerdeError (''Failed to decode base64: '' @ e)) AvB (base64_dec F s)
            | _ \<Rightarrow> Inl (SerdeError ''_binary must be a base64-encoded string''))
      else map_sum id AvM (to_attribute_map F obj))"
| "to_attribute_value F v =
     (case number_to_string F v of Some n \<Rightarrow> Inr (AvN n) | None \<Rightarrow> Inl (SerdeError ''Unsupported number format''))"
| "to_attribute_list F [] = Inr []"
| "to_attribute_list F (v # vs) =
     (case to_attribute_value F v of
        Inl e \<Rightarrow> Inl e
      | Inr a \<Rightarrow> (case to_attribute_list F vs of Inl e \<Rightarrow> Inl e | Inr as \<Rightarrow> Inr (a # as)))"
| "to_attribute_map F [] = Inr []"
| "to_attribute_map F ((k, v) # kvs) =
     (case to_attribute_value F v of
        Inl e \<Rightarrow> Inl e
      | Inr a \<Rightarrow> (case to_attribute_map F kvs of Inl e \<Rightarrow> Inl e | Inr m \<Rightarrow> Inr ((k, a) # m)))"
  by pat_completeness auto

termination
  by (relation "measure (\<lambda>x. case x of Inl (_, v) \<Rightarrow> size v | Inr (Inl (_, vs)) \<Rightarrow> size_list size vs
      | Inr (Inr (_, m)) \<Rightarrow> size_list (size_prod (\<lambda>_. 0) size) m)")
    auto

definition parse_number :: "attribute_ops \<Rightarrow> string \<Rightarrow> string \<Rightarrow> api_error + json" where
  "parse_number F message n =
     (case parse_i64 n of
        Some i \<Rightarrow> Inr (JInt i)
      | None \<Rightarrow> (case parse_f64 F n of Some x \<Rightarrow> Inr (json_of_f64 F x) | None \<Rightarrow> Inl (SerdeError (message @ n))))"

fun to_json_value :: "attribute_ops \<Rightarrow> attribute_value \<Rightarrow> api_error + json"
  and to_json_list :: "attribute_ops \<Rightarrow> attribute_value list \<Rightarrow> api_error + json list"
  and to_json_map :: "attribute_ops \<Rightarrow> (string \<times> attribute_value) list \<Rightarrow> api_error + (string \<times> json) list"
where
  "to_json_value F (AvS s) = Inr (JString s)"
| "to_json_value F (AvN n) = parse_number F ''Invalid number format: '' n"
| "to_json_value F (AvB blob) = Inr (JObject [(''_binary'', JString (base64_enc F blob))])"
| "to_json_value F (AvBool b) = Inr (JBool b)"
| "to_json_value F (AvNull _) = Inr JNull"
| "to_json_value F (AvL l) = map_sum id JArray (to_json_list F l)"
| "to_json_value F (AvM m) = map_sum id JObject (to_json_map F m)"
| "to_json_value F (AvSs strings) =
     (if strings = [] then Inl (SerdeError ''String set cannot be empty'') else Inr (JArray (map JString strings)))"
| "to_json_value F (AvNs numbers) =
     (if numbers = [] then Inl (SerdeError ''Number set cannot be empty'')
      else map_sum id JArray (collect (parse_number F ''Invalid number in number set: '') numbers))"
| "to_json_value F (AvBs blobs) =
     (if blobs = [] then Inl (SerdeError ''Binary set cannot be empty'')
      else Inr (JArray (map (\<lambda>b. JString (base64_enc F b)) blobs)))"
| "to_json_value F AvUnknown = Inl (SerdeError ''Unsupported AttributeValue variant'')"
| "to_json_list F [] = Inr []"
| "to_json_list F (a # as) =
     (case to_json_value F a of
        Inl e \<Rightarrow> Inl e
      | Inr v \<Rightarrow> (case to_json_list F as of Inl e \<Rightarrow> Inl e | Inr vs \<Rightarrow> Inr (v # vs)))"
| "to_json_map F [] = Inr []"
| "to_json_map F ((k, a) # m) =
     (case to_json_value F a of
        Inl e \<Rightarrow> Inl e
      | Inr v \<Rightarrow> (case to_json_map F m of Inl e \<Rightarrow> Inl e | Inr kvs \<Rightarrow> Inr ((k, v) # kvs)))"

definition attributes_into_json :: "attribute_ops \<Rightarrow> (string \<times> attribute_value) list \<Rightarrow> api_error + json" where
  "attributes_into_json F attrs = map_sum id JObject (to_json_map F attrs)"

definition json_into_attributes ::
  "attribute_ops \<Rightarrow> (string \<times> json) list option \<Rightarrow> api_error + (string \<times> attribute_value) list option" where
  "json_into_attributes F v =
     (case v of None \<Rightarrow> Inr None | Some expr_vals \<Rightarrow> map_sum id Some (to_attribute_map F expr_vals))"

datatype return_value = AllNew | AllOld | UpdatedNew | UpdatedOld | NoReturn

definition return_value_from_string :: "string option \<Rightarrow> api_error + return_value option" where
  "return_value_from_string v =
     (case v of
        None \<Rightarrow> Inr None
      | Some rv \<Rightarrow>
          if rv = ''ALL_NEW'' then Inr (Some AllNew)
          else if rv = ''ALL_OLD'' then Inr (Some AllOld)
          else if rv = ''UPDATED_NEW'' then Inr (Some UpdatedNew)
          else if rv = ''UPDATED_OLD'' then Inr (Some UpdatedOld)
          else if rv = ''NONE'' \<or> rv = '''' then Inr (Some NoReturn)
          else Inl (SerdeError (''Invalid return_values: '' @ rv @ ''.'')))"

subsection \<open>DynamoDB\<close>

record dynamo_db =
  ddb_rw :: "(string, string list) hashmap"
  ddb_r :: "(string, string list) hashmap"
  reserved_tables :: "string list option"

definition check_module_permissions :: "dynamo_db \<Rightarrow> access_scope \<Rightarrow> plaid_module \<Rightarrow> string \<Rightarrow> api_error + unit" where
  "check_module_permissions D scope pm table_name =
     (if (case reserved_tables D of Some inner \<Rightarrow> table_name \<in> set inner | None \<Rightarrow> False) then Inl BadRequest
      else case scope of
             Read \<Rightarrow>
               if listed (ddb_r D) table_name pm then Inr ()
               else if listed (ddb_rw D) table_name pm then Inr ()
               else Inl BadRequest
           | Write \<Rightarrow> if listed (ddb_rw D) table_name pm then Inr () else Inl BadRequest)"

record put_item_input =
  pii_table_name :: string
  pii_item :: "(string, json) hashmap"
  pii_expression_attribute_names :: "(string, string) hashmap option"
  pii_expression_attribute_values :: "(string, json) hashmap option"
  pii_condition_expression :: "string option"
  pii_return_values :: "string option"

record delete_item_input =
  dii_table_name :: string
  dii_key :: "(string, json) hashmap"
  dii_expression_attribute_names :: "(string, string) hashmap option"
  dii_expression_attribute_values :: "(string, json) hashmap option"
  dii_condition_expression :: "string option"
  dii_return_values :: "string option"

record query_input =
  qi_table_name :: string
  qi_index_name :: "string option"
  qi_key_condition_expression :: string
  qi_expression_attribute_names :: "(string, string) hashmap option"
  qi_expression_attribute_values :: "(string, json) hashmap option"

type_synonym attributes = "(string \<times> attribute_value) list"

record 'w dynamo_client =
  ddb_put_item :: "string \<Rightarrow> attributes option \<Rightarrow> (string, string) hashmap option \<Rightarrow> attributes option \<Rightarrow> string option
    \<Rightarrow> return_value option \<Rightarrow> 'w \<Rightarrow> (string + attributes option) \<times> 'w"
  ddb_delete_item :: "string \<Rightarrow> attributes option \<Rightarrow> string option \<Rightarrow> (string, string) hashmap option \<Rightarrow> attributes option
    \<Rightarrow> return_value option \<Rightarrow> 'w \<Rightarrow> (string + attributes option) \<times> 'w"
  ddb_query :: "string \<Rightarrow> string option \<Rightarrow> string \<Rightarrow> (string, string) hashmap option \<Rightarrow> attributes option
    \<Rightarrow> 'w \<Rightarrow> (string + attributes list) \<times> 'w"

text \<open>The answer to a put or a deletion: the attributes returned, if any, as JSON.\<close>

definition attributes_output ::
  "attribute_ops \<Rightarrow> (json option \<Rightarrow> string + string) \<Rightarrow> attributes option \<Rightarrow> ('w, string) api_call" where
  "attributes_output F to_string output =
     and_then (lift (case output of None \<Rightarrow> Inr None | Some attrs \<Rightarrow> map_sum id Some (attributes_into_json F attrs))) (\<lambda>attributes.
     lift (map_sum SerdeError id (to_string attributes)))"

definition put_item where
  "put_item F K D (from_str :: string \<Rightarrow> string + put_item_input) to_string params pm =
     and_then (lift (map_sum SerdeError id (from_str params))) (\<lambda>p.
     and_then (lift (check_module_permissions D Write pm (pii_table_name p))) (\<lambda>_.
     and_then (lift (json_into_attributes F (Some (pii_item p)))) (\<lambda>item.
     and_then (lift (json_into_attributes F (pii_expression_attribute_values p))) (\<lambda>expression_attribute_values.
     and_then (lift (return_value_from_string (pii_return_values p))) (\<lambda>return_values.
     and_then (op_call (ddb_put_item K (pii_table_name p) item (pii_expression_attribute_names p) expression_attribute_values
         (pii_condition_expression p) return_values) (map_sum DynamoDbPutItemError id)) (\<lambda>output.
     attributes_output F to_string output))))))"

definition delete_item where
  "delete_item F K D (from_str :: string \<Rightarrow> string + delete_item_input) to_string params pm =
     and_then (lift (map_sum SerdeError id (from_str params))) (\<lambda>p.
     and_then (lift (check_module_permissions D Write pm (dii_table_name p))) (\<lambda>_.
     and_then (lift (json_into_attributes F (dii_expression_attribute_values p))) (\<lambda>expression_attribute_values.
     and_then (lift (json_into_attributes F (Some (dii_key p)))) (\<lambda>dynamo_key.
     and_then (lift (return_value_from_string (dii_return_values p))) (\<lambda>return_values.
     and_then (op_call (ddb_delete_item K (dii_table_name p) dynamo_key (dii_condition_expression p) (dii_expression_attribute_names p)
         expression_attribute_values return_values) (map_sum DynamoDbDeleteItemError id)) (\<lambda>output.
     attributes_output F to_string output))))))"

definition query_items where
  "query_items F K D (from_str :: string \<Rightarrow> string + query_input) (to_string :: json list \<Rightarrow> string + string) params pm =
     and_then (lift (map_sum SerdeError id (from_str params))) (\<lambda>p.
     and_then (lift (check_module_permissions D Read pm (qi_table_name p))) (\<lambda>_.
     and_then (lift (json_into_attributes F (qi_expression_attribute_values p))) (\<lambda>expression_attribute_values.
     and_then (op_call (ddb_query K (qi_table_name p) (qi_index_name p) (qi_key_condition_expression p)
         (qi_expression_attribute_names p) expression_attribute_values) (map_sum DynamoDbQueryError id)) (\<lambda>output.
     and_then (lift (collect (attributes_into_json F) output)) (\<lambda>items.
     lift (map_sum SerdeError id (to_string items)))))))"

subsection \<open>Keys\<close>

type_synonym kms = "(string, string list) hashmap"

datatype message_type = MessageRaw | MessageDigest

datatype signing_algorithm =
    EcdsaSha256 | EcdsaSha384 | EcdsaSha512
  | RsassaPkcs1V15Sha256 | RsassaPkcs1V15Sha384 | RsassaPkcs1V15Sha512
  | RsassaPssSha256 | RsassaPssSha384 | RsassaPssSha512
  | Sm2Dsa

definition parse_message_type :: "(string \<Rightarrow> string) \<Rightarrow> string \<Rightarrow> message_type option" where
  "parse_message_type to_uppercase s =
     (let t = to_uppercase s in
      if t = ''RAW'' then Some MessageRaw else if t = ''DIGEST'' then Some MessageDigest else None)"

definition parse_signing_algorithm :: "(string \<Rightarrow> string) \<Rightarrow> string \<Rightarrow> signing_algorithm option" where
  "parse_signing_algorithm to_uppercase s =
     map_of [(''ECDSA_SHA_256'', EcdsaSha256), (''ECDSA_SHA_384'', EcdsaSha384), (''ECDSA_SHA_512'', EcdsaSha512),
       (''RSASSA_PKCS1_V1_5_SHA_256'', RsassaPkcs1V15Sha256), (''RSASSA_PKCS1_V1_5_SHA_384'', RsassaPkcs1V15Sha384),
       (''RSASSA_PKCS1_V1_5_SHA_512'', RsassaPkcs1V15Sha512), (''RSASSA_PSS_SHA_256'', RsassaPssSha256),
       (''RSASSA_PSS_SHA_384'', RsassaPssSha384), (''RSASSA_PSS_SHA_512'', RsassaPssSha512), (''SM2DSA'', Sm2Dsa)]
       (to_uppercase s)"

datatype mac_algorithm = HmacSha224 | HmacSha256 | HmacSha384 | HmacSha512

record generate_mac_request =
  gmr_algorithm :: mac_algorithm
  gmr_key_id :: string
  gmr_message :: bytes

record verify_mac_request =
  vmr_algorithm :: mac_algorithm
  vmr_key_id :: string
  vmr_message :: bytes
  vmr_mac :: bytes

record sign_request =
  srr_key_id :: string
  srr_message :: bytes
  srr_message_type :: message_type
  srr_signing_algorithm :: signing_algorithm

record sign_request_response =
  sro_key_id :: "string option"
  sro_signature :: "bytes option"
  sro_signing_algorithm :: "string option"

record public_key_response =
  pk_key_id :: "string option"
  pk_public_key :: "bytes option"

record 'w kms_client =
  kms_generate_mac :: "string \<Rightarrow> bytes \<Rightarrow> mac_algorithm \<Rightarrow> 'w \<Rightarrow> (string + bytes option) \<times> 'w"
  kms_verify_mac :: "string \<Rightarrow> bytes \<Rightarrow> bytes \<Rightarrow> mac_algorithm \<Rightarrow> 'w \<Rightarrow> (string + unit) \<times> 'w"
  kms_sign :: "string \<Rightarrow> message_type \<Rightarrow> signing_algorithm \<Rightarrow> bytes \<Rightarrow> 'w \<Rightarrow> (string + sign_request_response) \<times> 'w"
  kms_get_public_key :: "string \<Rightarrow> 'w \<Rightarrow> (string + public_key_response) \<times> 'w"
  kms_get_key_policy :: "string \<Rightarrow> 'w \<Rightarrow> (string + string option) \<times> 'w"

definition fetch_key_configuration :: "kms \<Rightarrow> string \<Rightarrow> api_error + string list" where
  "fetch_key_configuration keys key_id = (case hm_get keys key_id of Some config \<Rightarrow> Inr config | None \<Rightarrow> Inl BadRequest)"

definition with_key :: "kms \<Rightarrow> plaid_module \<Rightarrow> string \<Rightarrow> ('w, 'a) api_call \<Rightarrow> ('w, 'a) api_call" where
  "with_key keys pm key_id call =
     and_then (lift (fetch_key_configuration keys key_id)) (\<lambda>allowed_rules.
     if mod_name pm \<notin> set allowed_rules then err BadRequest else call)"

definition generate_mac where
  "generate_mac (base64 :: bytes \<Rightarrow> string) K keys (from_str :: string \<Rightarrow> generate_mac_request option) params pm =
     and_then (ok_or BadRequest (from_str params)) (\<lambda>request.
     with_key keys pm (gmr_key_id request)
       (and_then (op_call (kms_generate_mac K (gmr_key_id request) (gmr_message request) (gmr_algorithm request))
            (map_sum (\<lambda>e. KmsError (GenerateMacError e)) id)) (\<lambda>mac.
        and_then (ok_or (KmsError NoMacReturned) mac) (\<lambda>blob. ok (base64 blob)))))"

definition verify_mac where
  "verify_mac K keys (from_str :: string \<Rightarrow> verify_mac_request option) params pm =
     and_then (ok_or BadRequest (from_str params)) (\<lambda>request.
     with_key keys pm (vmr_key_id request)
       (and_then (op_call (kms_verify_mac K (vmr_key_id request) (vmr_message request) (vmr_mac request) (vmr_algorithm request))
            (map_sum (\<lambda>e. KmsError (VerifyMacError e)) id)) (\<lambda>_. ok (0 :: u32))))"

definition sign_arbitrary_message where
  "sign_arbitrary_message K keys (from_str :: string \<Rightarrow> sign_request option) (to_string :: sign_request_response \<Rightarrow> string option) params pm =
     and_then (ok_or BadRequest (from_str params)) (\<lambda>request.
     with_key keys pm (srr_key_id request)
       (and_then (op_call (kms_sign K (srr_key_id request) (srr_message_type request) (srr_signing_algorithm request) (srr_message request))
            (map_sum (\<lambda>e. KmsError (KmsSignError e)) id)) (\<lambda>output.
        ok_or BadRequest (to_string output))))"

definition get_public_key where
  "get_public_key K keys (from_str :: string \<Rightarrow> (string, string) hashmap option) (to_string :: public_key_response \<Rightarrow> string option) params pm =
     and_then (ok_or BadRequest (from_str params)) (\<lambda>request.
     and_then (ok_or (MissingParameter ''key_id'') (hm_get request ''key_id'')) (\<lambda>key_id.
     with_key keys pm key_id
       (and_then (op_call (kms_get_public_key K key_id) (map_sum (\<lambda>e. KmsError (KmsGetPublicKeyError e)) id)) (\<lambda>output.
        ok_or BadRequest (to_string output)))))"

definition get_key_policy where
  "get_key_policy K keys (from_str :: string \<Rightarrow> string option) params pm =
     and_then (ok_or BadRequest (from_str params)) (\<lambda>key_id.
     with_key keys pm key_id
       (and_then (op_call (kms_get_key_policy K key_id) (map_sum (\<lambda>e. KmsError (GetKeyPolicyError e)) id)) (\<lambda>policy.
        ok_or (KmsError MissingPolicy) policy)))"

subsection \<open>Buckets\<close>

record bucket_configuration =
  bucket_r :: "string list"
  bucket_rw :: "string list"

record s3 =
  bucket_configurations :: "(string, bucket_configuration) hashmap"
  max_object_fetch_size :: nat

definition default_max_object_size :: nat where
  "default_max_object_size = 1024 * 1024 * 4"

record get_object_request =
  gor_bucket_id :: string
  gor_object_key :: string
  gor_expires_in :: "u64 option"

record list_objects_request =
  lor_bucket_id :: string
  lor_prefix :: string
  lor_continuation_key :: "string option"

record put_object_request =
  por_bucket_id :: string
  por_object :: bytes
  por_object_key :: string

record put_object_tag_request =
  potr_bucket_id :: string
  potr_object_key :: string
  potr_tags :: "(string, string) hashmap"

record list_object_versions_request =
  lovr_bucket_id :: string
  lovr_object_key :: string

record delete_object_request =
  dor_bucket_id :: string
  dor_object_key :: string
  dor_version_id :: "string option"

record object_version =
  ov_key :: string
  ov_is_latest :: bool
  ov_last_modified :: int
  ov_version_id :: string

datatype get_object_response = Object bytes | PresignedUri string

record s3_version =
  sv_key :: "string option"
  sv_is_latest :: "bool option"
  sv_last_modified :: "int option"
  sv_version_id :: "string option"

record 'w s3_client =
  s3_delete_object :: "string \<Rightarrow> string \<Rightarrow> string option \<Rightarrow> 'w \<Rightarrow> (string + unit) \<times> 'w"
  s3_get_object_attributes :: "string \<Rightarrow> string \<Rightarrow> 'w \<Rightarrow> (string + int option \<times> int option) \<times> 'w"
  s3_list_object_versions :: "string \<Rightarrow> string \<Rightarrow> 'w \<Rightarrow> (string + s3_version list) \<times> 'w"
  s3_list_objects :: "string \<Rightarrow> string \<Rightarrow> string option \<Rightarrow> 'w \<Rightarrow> (string + string option \<times> string option list option) \<times> 'w"
  s3_presigning_config :: "u64 \<Rightarrow> string + u64"
  s3_presigned :: "string \<Rightarrow> string \<Rightarrow> u64 \<Rightarrow> 'w \<Rightarrow> (string + string) \<times> 'w"
  s3_get_object :: "string \<Rightarrow> string \<Rightarrow> 'w \<Rightarrow> (string + int option \<times> (string + bytes)) \<times> 'w"
  s3_put_object :: "string \<Rightarrow> bytes \<Rightarrow> string \<Rightarrow> 'w \<Rightarrow> (string + unit) \<times> 'w"
  s3_build_tagging :: "(string \<times> string) list \<Rightarrow> string + (string \<times> string) list"
  s3_put_object_tagging :: "string \<Rightarrow> string \<Rightarrow> (string \<times> string) list \<Rightarrow> 'w \<Rightarrow> (string + unit) \<times> 'w"

definition can_rule_access_bucket :: "s3 \<Rightarrow> plaid_module \<Rightarrow> string \<Rightarrow> bool \<Rightarrow> bool" where
  "can_rule_access_bucket S pm bucket write =
     (case hm_get (bucket_configurations S) bucket of
        None \<Rightarrow> False
      | Some bc \<Rightarrow>
          if write then mod_name pm \<in> set (bucket_rw bc)
          else mod_name pm \<in> set (bucket_r bc) \<or> mod_name pm \<in> set (bucket_rw bc))"

definition with_bucket :: "s3 \<Rightarrow> plaid_module \<Rightarrow> string \<Rightarrow> bool \<Rightarrow> ('w, 'a) api_call \<Rightarrow> ('w, 'a) api_call" where
  "with_bucket S pm bucket write call = (if \<not> can_rule_access_bucket S pm bucket write then err BadRequest else call)"

definition delete_object where
  "delete_object K S (from_str :: string \<Rightarrow> delete_object_request option) params pm =
     and_then (ok_or BadRequest (from_str params)) (\<lambda>request.
     with_bucket S pm (dor_bucket_id request) True
       (and_then (op_call (s3_delete_object K (dor_bucket_id request) (dor_object_key request) (dor_version_id request))
            (map_sum (\<lambda>e. S3Error (DeleteObjectError e)) id)) (\<lambda>_. ok (0 :: u32))))"

definition get_object_attributes where
  "get_object_attributes K S (from_str :: string \<Rightarrow> get_object_request option) (to_string :: int option \<times> int option \<Rightarrow> string option) params pm =
     and_then (ok_or BadRequest (from_str params)) (\<lambda>request.
     with_bucket S pm (gor_bucket_id request) False
       (and_then (op_call (s3_get_object_attributes K (gor_bucket_id request) (gor_object_key request))
            (map_sum (\<lambda>e. S3Error (GetObjectAttributesError e)) id)) (\<lambda>attributes.
        ok_or BadRequest (to_string attributes))))"

definition to_object_version :: "s3_version \<Rightarrow> object_version option" where
  "to_object_version v =
     (case (sv_key v, sv_is_latest v, sv_last_modified v, sv_version_id v) of
        (Some k, Some l, Some m, Some i) \<Rightarrow> Some \<lparr>ov_key = k, ov_is_latest = l, ov_last_modified = m, ov_version_id = i\<rparr>
      | _ \<Rightarrow> None)"

definition list_object_versions where
  "list_object_versions K S (from_str :: string \<Rightarrow> list_object_versions_request option) (to_string :: object_version list \<Rightarrow> string option) params pm =
     and_then (ok_or BadRequest (from_str params)) (\<lambda>request.
     with_bucket S pm (lovr_bucket_id request) False
       (and_then (op_call (s3_list_object_versions K (lovr_bucket_id request) (lovr_object_key request))
            (map_sum (\<lambda>e. S3Error (ListObjectVersionsError e)) id)) (\<lambda>versions.
        ok_or BadRequest (to_string (List.map_filter to_object_version versions)))))"

definition list_objects where
  "list_objects K S (from_str :: string \<Rightarrow> list_objects_request option) (to_string :: string option \<times> string list option \<Rightarrow> string option) params pm =
     and_then (ok_or BadRequest (from_str params)) (\<lambda>request.
     with_bucket S pm (lor_bucket_id request) False
       (and_then (op_call (s3_list_objects K (lor_bucket_id request) (lor_prefix request) (lor_continuation_key request))
            (map_sum (\<lambda>e. S3Error (ListObjectsError e)) id)) (\<lambda>(token, contents).
        ok_or BadRequest (to_string (token, map_option (List.map_filter id) contents)))))"

text \<open>The length is cast to \<^verbatim>\<open>usize\<close>, so that a negative one is too large.\<close>

definition object_of :: "s3 \<Rightarrow> int option \<times> (string + bytes) \<Rightarrow> ('w, get_object_response) api_call" where
  "object_of S = (\<lambda>(content_length, body).
     and_then (ok_or (S3Error NoContentLengthReturned) content_length) (\<lambda>len.
     if nat (len mod 2 ^ 64) > max_object_fetch_size S then err (S3Error ObjectTooLarge)
     else lift (map_sum (\<lambda>e. S3Error (BytesStreamError e)) Object body)))"

definition get_object where
  "get_object K S (from_str :: string \<Rightarrow> get_object_request option) (to_string :: get_object_response \<Rightarrow> string option) params pm =
     and_then (ok_or BadRequest (from_str params)) (\<lambda>request.
     with_bucket S pm (gor_bucket_id request) False
       (and_then
          (case gor_expires_in request of
             Some expiration \<Rightarrow>
               and_then (lift (map_sum (\<lambda>e. S3Error (PresignError e)) id (s3_presigning_config K expiration))) (\<lambda>presigned.
               and_then (op_call (s3_presigned K (gor_bucket_id request) (gor_object_key request) presigned)
                  (map_sum (\<lambda>e. S3Error (GetObjectError e)) id)) (\<lambda>uri. ok (PresignedUri uri)))
           | None \<Rightarrow>
               and_then (op_call (s3_get_object K (gor_bucket_id request) (gor_object_key request))
                  (map_sum (\<lambda>e. S3Error (GetObjectError e)) id)) (object_of S)) (\<lambda>response.
        ok_or BadRequest (to_string response))))"

definition put_object where
  "put_object K S (from_str :: string \<Rightarrow> put_object_request option) params pm =
     and_then (ok_or BadRequest (from_str params)) (\<lambda>request.
     with_bucket S pm (por_bucket_id request) True
       (and_then (op_call (s3_put_object K (por_bucket_id request) (por_object request) (por_object_key request))
            (map_sum (\<lambda>e. S3Error (PutObjectError e)) id)) (\<lambda>_. ok (0 :: u32))))"

definition is_safe_tag_char :: "unicode_ops \<Rightarrow> nat \<Rightarrow> bool" where
  "is_safe_tag_char U c \<longleftrightarrow> is_alphanumeric U c \<or> is_whitespace U c \<or> c \<in> of_char ` set ''+-=._:/@''"

definition tag_allowed :: "unicode_ops \<Rightarrow> string \<times> string \<Rightarrow> bool" where
  "tag_allowed U = (\<lambda>(key, value).
     \<not> (length key < 1 \<or> length key > 128 \<or> length value > 256) \<and> \<not> (prefix ''aws:'' key \<or> prefix ''aws:'' value)
     \<and> list_all (is_safe_tag_char U) (chars_of U key) \<and> list_all (is_safe_tag_char U) (chars_of U value))"

definition put_object_tags where
  "put_object_tags U K S (from_str :: string \<Rightarrow> put_object_tag_request option) (to_string :: string list \<Rightarrow> string option) params pm =
     and_then (ok_or BadRequest (from_str params)) (\<lambda>request.
     with_bucket S pm (potr_bucket_id request) True
       (if length (potr_tags request) > 10 then err (S3Error TooManyTagsProvided)
        else
          let tags = filter (tag_allowed U) (potr_tags request);
              filtered_tags = map fst tags
          in and_then (lift (map_sum (\<lambda>e. S3Error (BuildError e)) id (s3_build_tagging K tags))) (\<lambda>tag_set.
             and_then (op_call (s3_put_object_tagging K (potr_bucket_id request) (potr_object_key request) tag_set)
                (map_sum (\<lambda>e. S3Error (TagObjectError e)) id)) (\<lambda>_.
             ok_or BadRequest (to_string filtered_tags)))))"

subsection \<open>The functions of the services\<close>

record aws_codecs =
  c_generate_mac :: "string \<Rightarrow> generate_mac_request option"
  c_verify_mac :: "string \<Rightarrow> verify_mac_request option"
  c_sign :: "string \<Rightarrow> sign_request option"
  c_signature :: "sign_request_response \<Rightarrow> string option"
  c_public_key :: "string \<Rightarrow> (string, string) hashmap option"
  c_public_key_response :: "public_key_response \<Rightarrow> string option"
  c_put_item :: "string \<Rightarrow> string + put_item_input"
  c_delete_item :: "string \<Rightarrow> string + delete_item_input"
  c_query :: "string \<Rightarrow> string + query_input"
  c_output :: "json option \<Rightarrow> string + string"
  c_items :: "json list \<Rightarrow> string + string"
  c_delete_object :: "string \<Rightarrow> delete_object_request option"
  c_get_object :: "string \<Rightarrow> get_object_request option"
  c_attributes :: "int option \<times> int option \<Rightarrow> string option"
  c_object :: "get_object_response \<Rightarrow> string option"
  c_list_objects :: "string \<Rightarrow> list_objects_request option"
  c_objects :: "string option \<times> string list option \<Rightarrow> string option"
  c_list_versions :: "string \<Rightarrow> list_object_versions_request option"
  c_versions :: "object_version list \<Rightarrow> string option"
  c_put_object :: "string \<Rightarrow> put_object_request option"
  c_tags :: "string \<Rightarrow> put_object_tag_request option"
  c_tag_keys :: "string list \<Rightarrow> string option"

record 'w aws =
  aws_kms :: "'w kms_client"
  aws_dynamodb :: "'w dynamo_client"
  aws_s3 :: "'w s3_client"
  key_configuration :: kms
  table_configuration :: dynamo_db
  s3_configuration :: s3
  attribute_conversions :: attribute_ops
  tag_characters :: unicode_ops

definition kms_int_functions where
  "kms_int_functions G C params pm =
     [(''verify_mac'', verify_mac (aws_kms G) (key_configuration G) (c_verify_mac C) params pm)]"

definition kms_string_functions where
  "kms_string_functions G C params pm =
     [(''generate_mac'', generate_mac (base64_enc (attribute_conversions G)) (aws_kms G) (key_configuration G) (c_generate_mac C) params pm),
      (''sign_arbitrary_message'', sign_arbitrary_message (aws_kms G) (key_configuration G) (c_sign C) (c_signature C) params pm),
      (''get_public_key'', get_public_key (aws_kms G) (key_configuration G) (c_public_key C) (c_public_key_response C) params pm)]"

definition dynamodb_string_functions where
  "dynamodb_string_functions G C params pm =
     (let F = attribute_conversions G; K = aws_dynamodb G; D = table_configuration G in
      [(''put_item'', put_item F K D (c_put_item C) (c_output C) params pm),
       (''delete_item'', delete_item F K D (c_delete_item C) (c_output C) params pm),
       (''query'', query_items F K D (c_query C) (c_items C) params pm)])"

definition s3_int_functions where
  "s3_int_functions G C params pm =
     [(''delete_object'', delete_object (aws_s3 G) (s3_configuration G) (c_delete_object C) params pm),
      (''put_object'', put_object (aws_s3 G) (s3_configuration G) (c_put_object C) params pm)]"

definition s3_string_functions where
  "s3_string_functions G C params pm =
     (let K = aws_s3 G; S = s3_configuration G in
      [(''get_object_attributes'', get_object_attributes K S (c_get_object C) (c_attributes C) params pm),
       (''get_object'', get_object K S (c_get_object C) (c_object C) params pm),
       (''list_objects'', list_objects K S (c_list_objects C) (c_objects C) params pm),
       (''list_object_versions'', list_object_versions K S (c_list_versions C) (c_versions C) params pm),
       (''put_object_tags'', put_object_tags (tag_characters G) K S (c_tags C) (c_tag_keys C) params pm)])"

definition with_aws where
  "with_aws G C A =
     with_service ''aws'' (Some ''kms'') (kms_int_functions G C) (kms_string_functions G C)
       (with_service ''aws'' (Some ''dynamodb'') (\<lambda>_ _. []) (dynamodb_string_functions G C)
         (with_service ''aws'' (Some ''s3'') (s3_int_functions G C) (s3_string_functions G C) A))"

subsection \<open>What the configuration permits\<close>

text \<open>
  The lists of rules, read as access rights: a key may be used by the rules listed for it, a table that is not
  reserved may be read by the rules listed for reading or for writing and written by the latter, and likewise a bucket.
  \<open>aws_read\<close> and \<open>aws_write\<close> are the single operations those rights allow; an operation uses the key, table or bucket the
  right is for, tags are at most ten and each is a permitted one.
\<close>

definition granted :: "(string, string list) hashmap \<Rightarrow> string \<Rightarrow> plaid_module \<Rightarrow> bool" where
  "granted m k pm \<longleftrightarrow> (\<exists>rules. hm_get m k = Some rules \<and> mod_name pm \<in> set rules)"

definition reserved :: "dynamo_db \<Rightarrow> string \<Rightarrow> bool" where
  "reserved D t \<longleftrightarrow> (\<exists>ts. reserved_tables D = Some ts \<and> t \<in> set ts)"

definition bucket_granted :: "(bucket_configuration \<Rightarrow> string list) \<Rightarrow> s3 \<Rightarrow> string \<Rightarrow> plaid_module \<Rightarrow> bool" where
  "bucket_granted right S b pm \<longleftrightarrow> (\<exists>bc. hm_get (bucket_configurations S) b = Some bc \<and> mod_name pm \<in> set (right bc))"

inductive aws_read :: "'w aws \<Rightarrow> plaid_module \<Rightarrow> 'w \<Rightarrow> 'w \<Rightarrow> bool" for G pm where
  read_key: "granted (key_configuration G) k pm \<Longrightarrow> aws_read G pm w (snd (kms_get_public_key (aws_kms G) k w))"
| read_table: "\<not> reserved (table_configuration G) t \<Longrightarrow>
    granted (ddb_r (table_configuration G)) t pm \<or> granted (ddb_rw (table_configuration G)) t pm \<Longrightarrow>
    aws_read G pm w (snd (ddb_query (aws_dynamodb G) t i c ns vs w))"
| read_attributes: "bucket_granted bucket_r (s3_configuration G) b pm \<or> bucket_granted bucket_rw (s3_configuration G) b pm \<Longrightarrow>
    aws_read G pm w (snd (s3_get_object_attributes (aws_s3 G) b k w))"
| read_versions: "bucket_granted bucket_r (s3_configuration G) b pm \<or> bucket_granted bucket_rw (s3_configuration G) b pm \<Longrightarrow>
    aws_read G pm w (snd (s3_list_object_versions (aws_s3 G) b k w))"
| read_names: "bucket_granted bucket_r (s3_configuration G) b pm \<or> bucket_granted bucket_rw (s3_configuration G) b pm \<Longrightarrow>
    aws_read G pm w (snd (s3_list_objects (aws_s3 G) b k c w))"
| read_uri: "bucket_granted bucket_r (s3_configuration G) b pm \<or> bucket_granted bucket_rw (s3_configuration G) b pm \<Longrightarrow>
    aws_read G pm w (snd (s3_presigned (aws_s3 G) b k e w))"
| read_object: "bucket_granted bucket_r (s3_configuration G) b pm \<or> bucket_granted bucket_rw (s3_configuration G) b pm \<Longrightarrow>
    aws_read G pm w (snd (s3_get_object (aws_s3 G) b k w))"

inductive aws_write :: "'w aws \<Rightarrow> plaid_module \<Rightarrow> 'w \<Rightarrow> 'w \<Rightarrow> bool" for G pm where
  make_mac: "granted (key_configuration G) k pm \<Longrightarrow> aws_write G pm w (snd (kms_generate_mac (aws_kms G) k m a w))"
| check_mac: "granted (key_configuration G) k pm \<Longrightarrow> aws_write G pm w (snd (kms_verify_mac (aws_kms G) k m x a w))"
| sign: "granted (key_configuration G) k pm \<Longrightarrow> aws_write G pm w (snd (kms_sign (aws_kms G) k t a m w))"
| write_table: "\<not> reserved (table_configuration G) t \<Longrightarrow> granted (ddb_rw (table_configuration G)) t pm \<Longrightarrow>
    aws_write G pm w (snd (ddb_put_item (aws_dynamodb G) t i ns vs c r w))"
| delete_table: "\<not> reserved (table_configuration G) t \<Longrightarrow> granted (ddb_rw (table_configuration G)) t pm \<Longrightarrow>
    aws_write G pm w (snd (ddb_delete_item (aws_dynamodb G) t i c ns vs r w))"
| remove_object: "bucket_granted bucket_rw (s3_configuration G) b pm \<Longrightarrow>
    aws_write G pm w (snd (s3_delete_object (aws_s3 G) b k v w))"
| write_object: "bucket_granted bucket_rw (s3_configuration G) b pm \<Longrightarrow>
    aws_write G pm w (snd (s3_put_object (aws_s3 G) b x k w))"
| write_tags: "bucket_granted bucket_rw (s3_configuration G) b pm \<Longrightarrow> length ts \<le> 10 \<Longrightarrow>
    list_all (tag_allowed (tag_characters G)) ts \<Longrightarrow> s3_build_tagging (aws_s3 G) ts = Inr tag_set \<Longrightarrow>
    aws_write G pm w (snd (s3_put_object_tagging (aws_s3 G) b k tag_set w))"

definition aws_step :: "'w aws \<Rightarrow> bool \<Rightarrow> plaid_module \<Rightarrow> 'w \<Rightarrow> 'w \<Rightarrow> bool" where
  "aws_step G read_only pm w w' \<longleftrightarrow> aws_read G pm w w' \<or> (\<not> read_only \<and> aws_write G pm w w')"

lemma aws_step_read: "aws_read G pm w w' \<Longrightarrow> aws_step G ro pm w w'"
  by (simp add: aws_step_def)

lemma aws_step_write: "aws_write G pm w w' \<Longrightarrow> aws_step G False pm w w'"
  by (simp add: aws_step_def)

lemma does_with_key:
  "(granted keys k pm \<Longrightarrow> does R call Q) \<Longrightarrow> does R (with_key keys pm k call) Q"
  unfolding with_key_def granted_def fetch_key_configuration_def
  by (intro does_intros) (auto split: option.splits)

lemma does_with_bucket:
  assumes "(if write then bucket_granted bucket_rw S b pm else bucket_granted bucket_r S b pm \<or> bucket_granted bucket_rw S b pm) \<Longrightarrow> does R call Q"
  shows "does R (with_bucket S pm b write call) Q"
  using assms unfolding with_bucket_def can_rule_access_bucket_def bucket_granted_def
  by (intro does_intros) (auto split: option.splits if_splits)

lemma check_module_permissions_granted:
  assumes "check_module_permissions D scope pm t = Inr x"
  shows "\<not> reserved D t \<and> (granted (ddb_rw D) t pm \<or> scope = Read \<and> granted (ddb_r D) t pm)"
  using assms unfolding check_module_permissions_def reserved_def granted_def listed_def
  by (auto split: option.splits if_splits access_scope.splits)

lemma attributes_output_does [does_intros]: "does R (attributes_output F to_string output) (\<lambda>_. True)"
  unfolding attributes_output_def by (intro does_intros TrueI)

lemma object_of_does [does_intros]: "does R (object_of S x) (\<lambda>_. True)"
  unfolding object_of_def by (intro does_intros TrueI)

lemma map_sum_Inr_iff: "map_sum f g s = Inr y \<longleftrightarrow> (\<exists>x. s = Inr x \<and> y = g x)"
  by (cases s) auto

lemmas aws_rules = does_intros does_then_op_call does_with_key does_with_bucket
lemmas aws_steps = aws_step_read [OF aws_read.read_key] aws_step_read [OF aws_read.read_table] aws_step_read [OF aws_read.read_attributes]
  aws_step_read [OF aws_read.read_versions] aws_step_read [OF aws_read.read_names] aws_step_read [OF aws_read.read_uri]
  aws_step_read [OF aws_read.read_object] aws_step_write [OF aws_write.make_mac] aws_step_write [OF aws_write.check_mac]
  aws_step_write [OF aws_write.sign] aws_step_write [OF aws_write.write_table] aws_step_write [OF aws_write.delete_table]
  aws_step_write [OF aws_write.remove_object] aws_step_write [OF aws_write.write_object] aws_step_write [OF aws_write.write_tags]

lemma kms_does:
  "does (aws_step G False pm) (verify_mac (aws_kms G) (key_configuration G) c1 params pm) (\<lambda>_. True)"
  "does (aws_step G False pm) (generate_mac enc (aws_kms G) (key_configuration G) c2 params pm) (\<lambda>_. True)"
  "does (aws_step G False pm) (sign_arbitrary_message (aws_kms G) (key_configuration G) c3 c4 params pm) (\<lambda>_. True)"
  "does (aws_step G True pm) (get_public_key (aws_kms G) (key_configuration G) c5 c6 params pm) (\<lambda>_. True)"
  unfolding verify_mac_def generate_mac_def sign_arbitrary_message_def get_public_key_def
  by (intro aws_rules aws_steps TrueI; assumption)+

lemma dynamodb_does:
  "does (aws_step G False pm) (put_item F (aws_dynamodb G) (table_configuration G) c1 c2 params pm) (\<lambda>_. True)"
  "does (aws_step G False pm) (delete_item F (aws_dynamodb G) (table_configuration G) c3 c4 params pm) (\<lambda>_. True)"
  "does (aws_step G True pm) (query_items F (aws_dynamodb G) (table_configuration G) c5 c6 params pm) (\<lambda>_. True)"
  unfolding put_item_def delete_item_def query_items_def
  by (intro aws_rules aws_steps TrueI; auto dest: check_module_permissions_granted)+

lemma s3_reads:
  "does (aws_step G True pm) (get_object_attributes (aws_s3 G) (s3_configuration G) c1 c2 params pm) (\<lambda>_. True)"
  "does (aws_step G True pm) (get_object (aws_s3 G) (s3_configuration G) c1 c3 params pm) (\<lambda>_. True)"
  "does (aws_step G True pm) (list_objects (aws_s3 G) (s3_configuration G) c4 c5 params pm) (\<lambda>_. True)"
  "does (aws_step G True pm) (list_object_versions (aws_s3 G) (s3_configuration G) c6 c7 params pm) (\<lambda>_. True)"
  unfolding get_object_attributes_def get_object_def list_objects_def list_object_versions_def
  by (intro aws_rules does_then_any [OF object_of_does] aws_steps TrueI; simp)+

lemma list_all_filter: "list_all P (filter P xs)"
  by (simp add: list_all_iff)

lemma s3_writes:
  "does (aws_step G False pm) (delete_object (aws_s3 G) (s3_configuration G) c1 params pm) (\<lambda>_. True)"
  "does (aws_step G False pm) (put_object (aws_s3 G) (s3_configuration G) c2 params pm) (\<lambda>_. True)"
  "does (aws_step G False pm) (put_object_tags (tag_characters G) (aws_s3 G) (s3_configuration G) c3 c4 params pm) (\<lambda>_. True)"
  unfolding delete_object_def put_object_def put_object_tags_def
  by (intro aws_rules aws_steps TrueI; (assumption | simp add: list_all_filter map_sum_Inr_iff le_trans [OF length_filter_le])?)+

definition kms_functions :: "api_decl list" where
  "kms_functions = filter (\<lambda>d. decl_sub_module d = Some ''kms'') aws_functions"

definition dynamodb_functions :: "api_decl list" where
  "dynamodb_functions = filter (\<lambda>d. decl_sub_module d = Some ''dynamodb'') aws_functions"

definition s3_functions :: "api_decl list" where
  "s3_functions = filter (\<lambda>d. decl_sub_module d = Some ''s3'') aws_functions"

lemmas aws_decls = kms_functions_def dynamodb_functions_def s3_functions_def aws_functions_def sub_fn_def
  ALLOW_IN_TEST_MODE_def DISALLOW_IN_TEST_MODE_def

lemma aws_step_reads: "aws_step G True pm w w' \<Longrightarrow> aws_step G False pm w w'"
  by (simp add: aws_step_def)

interpretation kms: read_only_service "''aws''" "Some ''kms''" "kms_int_functions G C" "kms_string_functions G C" kms_functions
  "aws_step G" for G C
  by unfold_locales
    (auto simp: aws_decls kms_int_functions_def kms_string_functions_def kms_does aws_step_reads)

interpretation dynamodb: read_only_service "''aws''" "Some ''dynamodb''" "\<lambda>_ _. []" "dynamodb_string_functions G C" dynamodb_functions
  "aws_step G" for G C
  by unfold_locales
    (auto simp: aws_decls dynamodb_string_functions_def Let_def dynamodb_does aws_step_reads)

interpretation s3: read_only_service "''aws''" "Some ''s3''" "s3_int_functions G C" "s3_string_functions G C" s3_functions
  "aws_step G" for G C
  by unfold_locales
    (auto simp: aws_decls s3_int_functions_def s3_string_functions_def Let_def s3_reads s3_writes aws_step_reads)

lemma aws_function_cases:
  assumes "d \<in> set aws_functions"
  shows "(d \<in> set kms_functions \<and> decl_sub_module d = Some ''kms'') \<or> (d \<in> set dynamodb_functions \<and> decl_sub_module d = Some ''dynamodb'')
    \<or> (d \<in> set s3_functions \<and> decl_sub_module d = Some ''s3'')"
proof -
  have "list_all (\<lambda>d. decl_sub_module d \<in> {Some ''kms'', Some ''dynamodb'', Some ''s3''}) aws_functions"
    by code_simp
  then have "decl_sub_module d \<in> {Some ''kms'', Some ''dynamodb'', Some ''s3''}"
    using assms by (simp add: list_all_iff)
  then show ?thesis
    using assms by (auto simp: kms_functions_def dynamodb_functions_def s3_functions_def)
qed

lemma aws_host_call:
  assumes "d \<in> set aws_functions"
  shows "(aws_step G (test_mode (env_module env)) (env_module env))\<^sup>*\<^sup>* w (snd (snd (host_call W (with_aws G C A) d env p n rp rn w)))"
  using aws_function_cases [OF assms]
proof (elim disjE conjE)
  assume "d \<in> set kms_functions"
  then show ?thesis unfolding with_aws_def by (rule kms.host_call_steps)
next
  assume d: "d \<in> set dynamodb_functions" "decl_sub_module d = Some ''dynamodb''"
  then show ?thesis unfolding with_aws_def by (simp add: host_call_other_service dynamodb.host_call_steps)
next
  assume d: "d \<in> set s3_functions" "decl_sub_module d = Some ''s3''"
  then show ?thesis unfolding with_aws_def by (simp add: host_call_other_service s3.host_call_steps)
qed

subsection \<open>Properties\<close>

text \<open>
  C24. Access control of the AWS services. Whatever a rule passes to a function of KMS, DynamoDB or S3, the call performs
  only operations which the configuration grants to that rule on that key, table or bucket, and never one on a reserved
  table; in test mode it performs only operations that read.
\<close>

theorem aws_access_controlled:
  assumes "d \<in> set aws_functions" and "w' = snd (snd (host_call W (with_aws G C A) d env p n rp rn w))"
  shows "(aws_step G (test_mode (env_module env)) (env_module env))\<^sup>*\<^sup>* w w'"
  unfolding assms(2) by (rule aws_host_call [OF assms(1)])

definition sample_aws :: "(string list) aws" where
  "sample_aws =
     \<lparr>aws_kms = \<lparr>kms_generate_mac = (\<lambda>k _ _ w. (Inr (Some [1]), k # w)), kms_verify_mac = (\<lambda>k _ _ _ w. (Inr (), k # w)),
        kms_sign = (\<lambda>k _ _ _ w. (Inl ''denied'', k # w)),
        kms_get_public_key = (\<lambda>k w. (Inr \<lparr>pk_key_id = Some k, pk_public_key = Some [7]\<rparr>, k # w)), kms_get_key_policy = (\<lambda>k w. (Inr None, k # w))\<rparr>,
      aws_dynamodb = \<lparr>ddb_put_item = (\<lambda>t _ _ _ _ _ w. (Inr None, t # w)), ddb_delete_item = (\<lambda>t _ _ _ _ _ w. (Inr None, t # w)),
        ddb_query = (\<lambda>t _ _ _ _ w. (Inr [], t # w))\<rparr>,
      aws_s3 = \<lparr>s3_delete_object = (\<lambda>b _ _ w. (Inr (), b # w)), s3_get_object_attributes = (\<lambda>b _ w. (Inr (None, None), b # w)),
        s3_list_object_versions = (\<lambda>b _ w. (Inr [], b # w)), s3_list_objects = (\<lambda>b _ _ w. (Inr (None, None), b # w)),
        s3_presigning_config = Inr, s3_presigned = (\<lambda>b _ _ w. (Inr ''uri'', b # w)),
        s3_get_object = (\<lambda>b _ w. (Inr (Some 1, Inr [1]), b # w)), s3_put_object = (\<lambda>b _ _ w. (Inr (), b # w)),
        s3_build_tagging = Inr, s3_put_object_tagging = (\<lambda>b _ _ w. (Inr (), b # w))\<rparr>,
      key_configuration = [(''k'', [''m.wasm''])],
      table_configuration = \<lparr>ddb_rw = [(''t'', [''m.wasm''])], ddb_r = [], reserved_tables = Some [''plaid'']\<rparr>,
      s3_configuration = \<lparr>bucket_configurations = [(''b'', \<lparr>bucket_r = [''m.wasm''], bucket_rw = []\<rparr>)], max_object_fetch_size = default_max_object_size\<rparr>,
      attribute_conversions = \<lparr>base64_enc = map (\<lambda>b. char_of (unat b)), base64_dec = (\<lambda>s. Inr (as_bytes s)), f64_to_string = (\<lambda>x. ''0.5''),
        f64_of_int = (\<lambda>_. 0), parse_f64 = (\<lambda>s. if s = ''0.5'' then Some 5 else None), json_of_f64 = JFloat\<rparr>,
      tag_characters = \<lparr>chars_of = map of_char, is_alphanumeric = (\<lambda>_. True), is_whitespace = (\<lambda>_. False)\<rparr>\<rparr>"

definition sample_aws_codecs :: aws_codecs where
  "sample_aws_codecs =
     \<lparr>c_generate_mac = (\<lambda>_. None), c_verify_mac = (\<lambda>_. None), c_sign = (\<lambda>_. None), c_signature = (\<lambda>_. None),
      c_public_key = (\<lambda>_. Some [(''key_id'', ''k'')]), c_public_key_response = (\<lambda>_. Some ''{}''),
      c_put_item = (\<lambda>_. Inl ''eof''), c_delete_item = (\<lambda>_. Inl ''eof''), c_query = (\<lambda>_. Inl ''eof''), c_output = (\<lambda>_. Inr ''{}''),
      c_items = (\<lambda>_. Inr ''{}''), c_delete_object = (\<lambda>_. None), c_get_object = (\<lambda>_. None), c_attributes = (\<lambda>_. None),
      c_object = (\<lambda>_. None), c_list_objects = (\<lambda>_. None), c_objects = (\<lambda>_. None), c_list_versions = (\<lambda>_. None),
      c_versions = (\<lambda>_. None), c_put_object = (\<lambda>_. None), c_tags = (\<lambda>_. None), c_tag_keys = (\<lambda>_. None)\<rparr>"

theorem aws_access_controlled_witness:
  "let d = sub_fn ''aws'' ''kms'' ''get_public_key'' True ALLOW_IN_TEST_MODE;
       w' = snd (snd (host_call flat_ops (with_aws sample_aws sample_aws_codecs idle_services) d sample_caller 0 0 0 4 []))
   in w' = [''k''] \<and> (aws_step sample_aws (test_mode (env_module sample_caller)) (env_module sample_caller))\<^sup>*\<^sup>* [] w'"
proof -
  let ?d = "sub_fn ''aws'' ''kms'' ''get_public_key'' True ALLOW_IN_TEST_MODE"
  have "?d \<in> set aws_functions" by (simp add: aws_functions_def)
  note aws_access_controlled [OF this refl, where W = flat_ops and G = sample_aws and C = sample_aws_codecs and A = idle_services
      and env = sample_caller and p = 0 and n = 0 and rp = 0 and rn = 4 and w = "[]"]
  moreover have "snd (snd (host_call flat_ops (with_aws sample_aws sample_aws_codecs idle_services) ?d sample_caller 0 0 0 4 [])) = [''k'']"
    by (simp add: host_call_def api_function_buffer_def api_prologue_def with_aws_def with_service_def sub_fn_def kms_string_functions_def
        get_public_key_def with_key_def fetch_key_configuration_def call_defs hm_get_def op_call_def sample_aws_def sample_aws_codecs_def idle_services_def
        sample_caller_def sample_env_def sample_module_def get_memory_def safely_get_string_def flat_read_string_def flat_read_def
        safely_write_data_back_def flat_write_def Let_def as_bytes_def ALLOW_IN_TEST_MODE_def)
  ultimately show ?thesis by (simp add: Let_def)
qed

text \<open>
  A JSON value survives the conversion to attributes and back when its integers fit \<^verbatim>\<open>i64\<close>, its other numbers are printed as
  something that parses as the same number and not as an integer, its arrays are not empty, and an object whose only key is
  \<^verbatim>\<open>_binary\<close> holds canonical base64.
\<close>

fun number_storable :: "attribute_ops \<Rightarrow> json \<Rightarrow> bool" where
  "number_storable F (JInt i) = in_i64 i"
| "number_storable F (JFloat x) \<longleftrightarrow> parse_i64 (f64_to_string F x) = None \<and> parse_f64 F (f64_to_string F x) = Some x \<and> json_of_f64 F x = JFloat x"
| "number_storable F _ = True"

definition canonical_base64 :: "attribute_ops \<Rightarrow> json \<Rightarrow> bool" where
  "canonical_base64 F v \<longleftrightarrow> (case v of JString s \<Rightarrow> (case base64_dec F s of Inr b \<Rightarrow> base64_enc F b = s | Inl _ \<Rightarrow> False) | _ \<Rightarrow> False)"

fun storable :: "attribute_ops \<Rightarrow> json \<Rightarrow> bool"
  and storable_list :: "attribute_ops \<Rightarrow> json list \<Rightarrow> bool"
  and storable_map :: "attribute_ops \<Rightarrow> (string \<times> json) list \<Rightarrow> bool"
where
  "storable F (JArray arr) = (arr \<noteq> [] \<and> storable_list F arr)"
| "storable F (JObject obj) =
     (if map fst obj = [''_binary''] then canonical_base64 F (snd (hd obj)) else storable_map F obj)"
| "storable F v = number_storable F v"
| "storable_list F [] = True"
| "storable_list F (v # vs) \<longleftrightarrow> storable F v \<and> storable_list F vs"
| "storable_map F [] = True"
| "storable_map F ((k, v) # m) \<longleftrightarrow> storable F v \<and> storable_map F m"

lemma parse_show_i64: "in_i64 i \<Longrightarrow> parse_i64 (show_int i) = Some i"
  unfolding parse_i64_def in_i64_def by (subst parse_show_int) simp_all

lemma number_roundtrip:
  "is_number v \<Longrightarrow> number_storable F v \<Longrightarrow> \<exists>n. number_to_string F v = Some n \<and> parse_number F m n = Inr v"
  by (cases v) (auto simp: number_to_string_def parse_number_def parse_show_i64 split: option.splits)

lemma storable_number: "is_number v \<Longrightarrow> storable F v = number_storable F v"
  by (cases v) auto

lemma numbers_roundtrip:
  "list_all is_number vs \<Longrightarrow> storable_list F vs \<Longrightarrow>
    \<exists>ns. length ns = length vs \<and> collect (\<lambda>v. case number_to_string F v of Some n \<Rightarrow> Inr n | None \<Rightarrow> Inl e) vs = Inr ns
      \<and> collect (parse_number F m) ns = Inr vs"
proof (induction vs)
  case (Cons v vs)
  then obtain ns where "length ns = length vs" "collect (\<lambda>v. case number_to_string F v of Some n \<Rightarrow> Inr n | None \<Rightarrow> Inl e) vs = Inr ns"
      "collect (parse_number F m) ns = Inr vs" by auto
  moreover obtain n where "number_to_string F v = Some n" "parse_number F m n = Inr v"
    using number_roundtrip [of v F m] Cons.prems by (auto simp: storable_number)
  ultimately show ?case by (intro exI [of _ "n # ns"]) simp
qed simp

lemma strings_roundtrip: "list_all is_string vs \<Longrightarrow> map JString (List.map_filter json_as_str vs) = vs"
proof (induction vs)
  case (Cons v vs)
  then show ?case by (cases v) (simp_all add: List.map_filter_simps json_as_str_def)
qed (simp add: List.map_filter_simps)

text \<open>The third case of the inspection of an array never occurs: base64 strings are strings.\<close>

lemma inspect_never_binary: "arr \<noteq> [] \<Longrightarrow> inspect_array_members F arr \<noteq> AllBinary"
proof -
  have "list_all is_string arr" if "list_all (\<lambda>v. case json_as_str v of Some s \<Rightarrow> \<not> isl (base64_dec F s) | None \<Rightarrow> False) arr"
    by (rule list.pred_mono_strong [OF that]) (auto simp: json_as_str_def split: json.splits)
  then show ?thesis by (simp add: inspect_array_members_def)
qed

lemma binary_object:
  "length obj = 1 \<and> hm_get obj ''_binary'' \<noteq> None \<longleftrightarrow> map fst obj = [''_binary'']"
  by (cases obj) (auto simp: hm_get_def split: if_splits)

lemma number_value_roundtrip:
  "storable F (JInt i) \<Longrightarrow> \<exists>a. to_attribute_value F (JInt i) = Inr a \<and> to_json_value F a = Inr (JInt i)"
  "storable F (JFloat x) \<Longrightarrow> \<exists>a. to_attribute_value F (JFloat x) = Inr a \<and> to_json_value F a = Inr (JFloat x)"
  using number_roundtrip [of "JInt i" F "''Invalid number format: ''"] number_roundtrip [of "JFloat x" F "''Invalid number format: ''"]
  by auto

lemma attribute_roundtrip_all:
  "storable F v \<Longrightarrow> \<exists>a. to_attribute_value F v = Inr a \<and> to_json_value F a = Inr v"
  "storable_list F vs \<Longrightarrow> \<exists>as. to_attribute_list F vs = Inr as \<and> to_json_list F as = Inr vs"
  "storable_map F m \<Longrightarrow> \<exists>as. to_attribute_map F m = Inr as \<and> to_json_map F as = Inr m"
proof (induction F v and F vs and F m rule: to_attribute_value_to_attribute_list_to_attribute_map.induct)
  case (4 F arr)
  show ?case
  proof (cases "inspect_array_members F arr")
    case AllStrings
    then have "list_all is_string arr" by (simp add: inspect_array_members_def split: if_splits)
    then show ?thesis using 4 AllStrings strings_roundtrip by fastforce
  next
    case AllNumbers
    then have "list_all is_number arr" by (simp add: inspect_array_members_def split: if_splits)
    from numbers_roundtrip [OF this, of F "SerdeError ''Invalid number in number set''" "''Invalid number in number set: ''"] 4
    obtain ns where "length ns = length arr" "collect (parse_number F ''Invalid number in number set: '') ns = Inr arr"
        "collect (\<lambda>v. case number_to_string F v of Some n \<Rightarrow> Inr n | None \<Rightarrow> Inl (SerdeError ''Invalid number in number set'')) arr = Inr ns"
      by auto
    then show ?thesis using 4 AllNumbers by auto
  next
    case AllBinary
    then show ?thesis using 4 inspect_never_binary by simp
  next
    case NonUniform
    then show ?thesis using 4 by auto
  qed
next
  case (5 F obj)
  show ?case
  proof (cases "map fst obj = [''_binary'']")
    case True
    then obtain v where "obj = [(''_binary'', v)]" by (cases obj) auto
    then show ?thesis using 5 by (auto simp: canonical_base64_def hm_get_def split: json.splits sum.splits)
  next
    case False
    then have neg: "\<not> (length obj = 1 \<and> hm_get obj ''_binary'' \<noteq> None)" using binary_object [of obj] by blast
    then show ?thesis using 5 False by (auto simp: if_not_P [OF neg])
  qed
qed ((erule number_value_roundtrip) | (auto; fastforce))+

text \<open>
  C29. Items stored in DynamoDB read back as they were: for a storable JSON value the conversion to an attribute succeeds, and
  the conversion of that attribute to JSON returns the value.
\<close>

theorem attribute_roundtrip:
  assumes "storable F v"
  shows "\<exists>a. to_attribute_value F v = Inr a \<and> to_json_value F a = Inr v"
  using attribute_roundtrip_all(1) assms by blast

theorem attribute_roundtrip_witness:
  "let F = attribute_conversions sample_aws;
       v = JObject [(''id'', JInt (- 7)), (''tags'', JArray [JString ''a'', JString ''b'']), (''mix'', JArray [JNull, JFloat 5]),
             (''raw'', JObject [(''_binary'', JString ''AQ'')])]
   in storable F v \<and> (\<exists>a. to_attribute_value F v = Inr a \<and> to_json_value F a = Inr v)"
proof -
  let ?v = "JObject [(''id'', JInt (- 7)), (''tags'', JArray [JString ''a'', JString ''b'']), (''mix'', JArray [JNull, JFloat 5]),
             (''raw'', JObject [(''_binary'', JString ''AQ'')])]"
  have "storable (attribute_conversions sample_aws) ?v" 
    by (simp add: sample_aws_def canonical_base64_def in_i64_def parse_i64_def parse_i128_def parse_nat_def char_of_as_bytes is_digit_def)
  with attribute_roundtrip [OF this] show ?thesis by (simp only: Let_def)
qed

end
