(* ===== verification/Plaid_Web.thy ===== *)
theory Plaid_Web
  imports Plaid_Api
begin

text \<open>
  The issuing of JSON web tokens, \<^verbatim>\<open>runtime/plaid/src/apis/web/mod.rs\<close>: which rules may use a key, which claims and
  headers they may set, which the configuration enforces. Parsing and encoding, the clock and the classes of
  Unicode are parameters. A panic is the value \<open>None\<close> of the answer.
\<close>

subsection \<open>Configuration\<close>

datatype jwt_key_type = Es256 | Rs256

datatype jwt_algorithm = ES256 | RS256

fun key_algorithm :: "jwt_key_type \<Rightarrow> jwt_algorithm" where
  "key_algorithm Es256 = ES256"
| "key_algorithm Rs256 = RS256"

record 'k pem_ops =
  from_ec_pem :: "string \<Rightarrow> string + 'k"
  from_rsa_pem :: "string \<Rightarrow> string + 'k"

definition parse_encoding_key :: "'k pem_ops \<Rightarrow> jwt_key_type \<Rightarrow> string \<Rightarrow> web_error + 'k" where
  "parse_encoding_key P kt pem =
     (case kt of
        Es256 \<Rightarrow> map_sum (\<lambda>e. FailedToParsePrivateKey (''Failed to parse ES256 EC key: '' @ e)) id (from_ec_pem P pem)
      | Rs256 \<Rightarrow> map_sum (\<lambda>e. FailedToParsePrivateKey (''Failed to parse RS256 RSA key: '' @ e)) id (from_rsa_pem P pem))"

definition RESERVED_ENFORCED_CLAIMS :: "string list" where
  "RESERVED_ENFORCED_CLAIMS = [''sub'', ''iat'', ''exp'']"

record jwt_config_raw =
  raw_private_key :: string
  raw_key_type :: jwt_key_type
  raw_allowed_rules :: "string list"
  raw_enforce_accurate_iat :: "bool option"
  raw_max_ttl :: "u64 option"
  raw_allowlisted_extra_headers :: "string list option"
  raw_allowlisted_extra_fields :: "string list option"
  raw_enforced_claims :: "(string, json) hashmap"

record 'k jwt_config =
  key_type :: jwt_key_type
  private_key :: 'k
  allowed_rules :: "string list"
  enforce_accurate_iat :: "bool option"
  max_ttl :: "u64 option"
  allowlisted_extra_headers :: "string list option"
  allowlisted_extra_fields :: "string list option"
  enforced_claims :: "(string, json) hashmap"

definition jwt_config_deserialize :: "'k pem_ops \<Rightarrow> (web_error \<Rightarrow> string) \<Rightarrow> jwt_config_raw \<Rightarrow> string + 'k jwt_config" where
  "jwt_config_deserialize P debug raw =
     (case List.find (\<lambda>k. k \<in> set RESERVED_ENFORCED_CLAIMS) (map fst (raw_enforced_claims raw)) of
        Some k \<Rightarrow> Inl (''enforced_claims may not include reserved claim ['' @ k @ '']'')
      | None \<Rightarrow>
          (case parse_encoding_key P (raw_key_type raw) (raw_private_key raw) of
             Inl e \<Rightarrow> Inl (debug e)
           | Inr encoding_key \<Rightarrow>
               Inr \<lparr>key_type = raw_key_type raw, private_key = encoding_key, allowed_rules = raw_allowed_rules raw,
                    enforce_accurate_iat = raw_enforce_accurate_iat raw, max_ttl = raw_max_ttl raw,
                    allowlisted_extra_headers = raw_allowlisted_extra_headers raw,
                    allowlisted_extra_fields = raw_allowlisted_extra_fields raw, enforced_claims = raw_enforced_claims raw\<rparr>))"

type_synonym 'k web = "(string, 'k jwt_config) hashmap"

definition ALLOWLISTABLE_HEADERS :: "string list" where
  "ALLOWLISTABLE_HEADERS = [''cty'', ''jku'', ''x5u'', ''x5t'', ''x5t_s256'']"

definition sanitize_config :: "(string, 'k jwt_config) hashmap \<Rightarrow> (string, 'k jwt_config) hashmap" where
  "sanitize_config keys = map (\<lambda>(kid, config).
     case allowlisted_extra_headers config of
       None \<Rightarrow> (kid, config)
     | Some configured_headers \<Rightarrow>
         (kid, config\<lparr>allowlisted_extra_headers := Some (filter (\<lambda>v. v \<in> set ALLOWLISTABLE_HEADERS) configured_headers)\<rparr>)) keys"

definition web_new :: "(string, 'k jwt_config) hashmap \<Rightarrow> 'k web" where
  "web_new config = sanitize_config config"

subsection \<open>Tokens\<close>

record jwt_params =
  jp_kid :: string
  jp_sub :: string
  jp_iat :: "u64 option"
  jp_exp :: "u64 option"
  jp_aud :: "string option"
  jp_extra_headers :: "(string, json) hashmap"
  jp_extra_fields :: "(string, json) hashmap"

record jwt_header =
  jh_alg :: jwt_algorithm
  jh_kid :: "string option"
  jh_cty :: "string option"
  jh_jku :: "string option"
  jh_x5u :: "string option"
  jh_x5t :: "string option"
  jh_x5t_s256 :: "string option"

definition add_header :: "jwt_header \<Rightarrow> string \<Rightarrow> string \<Rightarrow> jwt_header option" where
  "add_header h k v =
     (if k = ''cty'' then Some (h\<lparr>jh_cty := Some v\<rparr>)
      else if k = ''jku'' then Some (h\<lparr>jh_jku := Some v\<rparr>)
      else if k = ''x5u'' then Some (h\<lparr>jh_x5u := Some v\<rparr>)
      else if k = ''x5t'' then Some (h\<lparr>jh_x5t := Some v\<rparr>)
      else if k = ''x5t_s256'' then Some (h\<lparr>jh_x5t_s256 := Some v\<rparr>)
      else None)"

type_synonym claims = "(string, json) hashmap"

record ('k, 'w) web_ops =
  get_time :: "'w \<Rightarrow> u64 \<times> 'w"
  jwt_encode :: "jwt_header \<Rightarrow> claims \<Rightarrow> 'k \<Rightarrow> string + string"
  web_unicode :: unicode_ops

abbreviation j_u64 :: "u64 \<Rightarrow> json" where
  "j_u64 t \<equiv> JInt (uint t)"

definition now :: "('k, 'w) web_ops \<Rightarrow> ('w, u64) api_call" where
  "now E = op_call (get_time E) Inr"

definition iat_claim :: "('k, 'w) web_ops \<Rightarrow> 'k jwt_config \<Rightarrow> u64 option \<Rightarrow> claims \<Rightarrow> ('w, claims) api_call" where
  "iat_claim E spec requested claims =
     (if enforce_accurate_iat spec = Some True then and_then (now E) (\<lambda>t. ok (hm_insert ''iat'' (j_u64 t) claims))
      else ok (case requested of Some iat \<Rightarrow> hm_insert ''iat'' (j_u64 iat) claims | None \<Rightarrow> claims))"

definition aud_claim :: "('k, 'w) web_ops \<Rightarrow> string option \<Rightarrow> claims \<Rightarrow> ('w, claims) api_call" where
  "aud_claim E requested claims =
     (case requested of
        None \<Rightarrow> ok claims
      | Some aud \<Rightarrow>
          if list_all (is_whitespace (web_unicode E)) (chars_of (web_unicode E) aud)
          then err (WebError (UnsupportedField ''aud cannot be empty''))
          else ok (hm_insert ''aud'' (JString aud) claims))"

definition expiry :: "('k, 'w) web_ops \<Rightarrow> 'k jwt_config \<Rightarrow> u64 option \<Rightarrow> ('w, u64) api_call" where
  "expiry E spec requested =
     (case max_ttl spec of
        Some ttl \<Rightarrow>
          and_then (now E) (\<lambda>t. ok (case requested of None \<Rightarrow> t + ttl | Some e \<Rightarrow> min e (t + ttl)))
      | None \<Rightarrow>
          (case requested of
             None \<Rightarrow> err (WebError (UnsupportedField ''The key does not enforce a max TTL, so an exp field must be passed''))
           | Some e \<Rightarrow> ok e))"

fun insert_allowed :: "string list \<Rightarrow> (string \<times> json) list \<Rightarrow> claims \<Rightarrow> api_error + claims" where
  "insert_allowed allowed [] claims = Inr claims"
| "insert_allowed allowed ((k, v) # fs) claims =
     (if k \<in> set allowed then insert_allowed allowed fs (hm_insert k v claims)
      else Inl (WebError (UnsupportedField (''The request contained field ['' @ k @ ''] but it is not allowed''))))"

definition add_extra_fields :: "string list option \<Rightarrow> (string \<times> json) list \<Rightarrow> claims \<Rightarrow> api_error + claims" where
  "add_extra_fields allowlist fs claims =
     (if fs = [] then Inr claims
      else case allowlist of
             Some allowed \<Rightarrow> insert_allowed allowed fs claims
           | None \<Rightarrow> Inl (WebError (UnsupportedField ''The request contains extra fields but none is allowed'')))"

fun enforce_claims :: "(string \<times> json) list \<Rightarrow> claims \<Rightarrow> api_error + claims" where
  "enforce_claims [] claims = Inr claims"
| "enforce_claims ((k, v) # enforced) claims =
     (if (case hm_get claims k of Some existing \<Rightarrow> existing \<noteq> v | None \<Rightarrow> False)
      then Inl (WebError (EnforcedClaimsConflict (''Claim ['' @ k @ ''] is enforced by config and cannot be set to a different value'')))
      else enforce_claims enforced (hm_insert k v claims))"

fun insert_headers :: "string list \<Rightarrow> (string \<times> json) list \<Rightarrow> jwt_header \<Rightarrow> api_error + jwt_header option" where
  "insert_headers allowed [] h = Inr (Some h)"
| "insert_headers allowed ((k, v) # hs) h =
     (if k \<in> set allowed then
        (case json_as_str v of
           None \<Rightarrow> Inl (WebError (UnsupportedHeaderField (''Could not parse value for header ['' @ k @ ''] as a string'')))
         | Some s \<Rightarrow> (case add_header h k s of None \<Rightarrow> Inr None | Some h' \<Rightarrow> insert_headers allowed hs h'))
      else Inl (WebError (UnsupportedHeaderField (''The request contained header ['' @ k @ ''] but it is not allowed''))))"

definition add_extra_headers :: "string list option \<Rightarrow> (string \<times> json) list \<Rightarrow> jwt_header \<Rightarrow> api_error + jwt_header option" where
  "add_extra_headers allowlist hs h =
     (if hs = [] then Inr (Some h)
      else case allowlist of
             Some allowed \<Rightarrow> insert_headers allowed hs h
           | None \<Rightarrow> Inl (WebError (UnsupportedHeaderField ''The request contains extra headers but none is allowed'')))"

definition default_header :: "jwt_key_type \<Rightarrow> string \<Rightarrow> jwt_header" where
  "default_header kt kid =
     \<lparr>jh_alg = key_algorithm kt, jh_kid = Some kid, jh_cty = None, jh_jku = None, jh_x5u = None, jh_x5t = None, jh_x5t_s256 = None\<rparr>"

definition issue_jwt ::
  "('k, 'w) web_ops \<Rightarrow> 'k web \<Rightarrow> (string \<Rightarrow> jwt_params option) \<Rightarrow> string \<Rightarrow> plaid_module \<Rightarrow> ('w, string option) api_call" where
  "issue_jwt E keys from_str params pm =
     and_then (ok_or BadRequest (from_str params)) (\<lambda>request.
     let kid = jp_kid request in
     and_then (ok_or (WebError (WebBadRequest (''Module ['' @ mod_name pm @ ''] tried to use ['' @ kid @ ''] that does not exist'')))
       (hm_get keys kid)) (\<lambda>key_specs.
     if mod_name pm \<notin> set (allowed_rules key_specs)
     then err (WebError (ModuleUnauthorizedToUseKey (''Module ['' @ mod_name pm @ ''] is not authorized to use key ['' @ kid @ '']'')))
     else
     and_then (iat_claim E key_specs (jp_iat request) [(''sub'', JString (jp_sub request))]) (\<lambda>claims.
     and_then (aud_claim E (jp_aud request) claims) (\<lambda>claims.
     and_then (expiry E key_specs (jp_exp request)) (\<lambda>exp.
     and_then (lift (add_extra_fields (allowlisted_extra_fields key_specs) (jp_extra_fields request)
       (hm_insert ''exp'' (j_u64 exp) claims))) (\<lambda>claims.
     and_then (lift (enforce_claims (enforced_claims key_specs) claims)) (\<lambda>claims.
     and_then (lift (add_extra_headers (allowlisted_extra_headers key_specs) (jp_extra_headers request)
       (default_header (key_type key_specs) kid))) (\<lambda>h.
     case h of
       None \<Rightarrow> ok None
     | Some header \<Rightarrow>
         lift (map_sum (\<lambda>e. WebError (FailedToEncodeJwt e)) Some (jwt_encode E header claims (private_key key_specs)))))))))))"

subsection \<open>What a token contains\<close>

text \<open>
  \<open>header_respects\<close> and \<open>claims_respect\<close> say what the configuration of a key promises of the tokens signed with it. A
  reading of the clock is any time the clock may give.
\<close>

definition clock_reading :: "('k, 'w) web_ops \<Rightarrow> u64 \<Rightarrow> bool" where
  "clock_reading E t \<longleftrightarrow> (\<exists>w. t = fst (get_time E w))"

definition extra_fields_allowed :: "'k jwt_config \<Rightarrow> string set" where
  "extra_fields_allowed spec = (case allowlisted_extra_fields spec of None \<Rightarrow> {} | Some ks \<Rightarrow> set ks)"

definition iat_accurate :: "('k, 'w) web_ops \<Rightarrow> 'k jwt_config \<Rightarrow> claims \<Rightarrow> bool" where
  "iat_accurate E spec c \<longleftrightarrow>
     (enforce_accurate_iat spec = Some True \<longrightarrow> (\<exists>t. clock_reading E t \<and> hm_get c ''iat'' = Some (j_u64 t)))"

definition exp_bounded :: "('k, 'w) web_ops \<Rightarrow> 'k jwt_config \<Rightarrow> claims \<Rightarrow> bool" where
  "exp_bounded E spec c \<longleftrightarrow>
     (\<exists>e. hm_get c ''exp'' = Some (j_u64 e) \<and> (\<forall>ttl. max_ttl spec = Some ttl \<longrightarrow> (\<exists>t. clock_reading E t \<and> e \<le> t + ttl)))"

definition claims_respect :: "('k, 'w) web_ops \<Rightarrow> 'k jwt_config \<Rightarrow> claims \<Rightarrow> bool" where
  "claims_respect E spec c \<longleftrightarrow>
     (\<forall>(k, v) \<in> set (enforced_claims spec). hm_get c k = Some v)
     \<and> dom (hm_get c) \<subseteq> {''sub'', ''iat'', ''aud'', ''exp''} \<union> extra_fields_allowed spec \<union> fst ` set (enforced_claims spec)
     \<and> (''iat'' \<notin> extra_fields_allowed spec \<longrightarrow> iat_accurate E spec c)
     \<and> (''exp'' \<notin> extra_fields_allowed spec \<longrightarrow> exp_bounded E spec c)"

definition header_respects :: "'k jwt_config \<Rightarrow> string \<Rightarrow> jwt_header \<Rightarrow> bool" where
  "header_respects spec kid h \<longleftrightarrow> jh_alg h = key_algorithm (key_type spec) \<and> jh_kid h = Some kid
     \<and> (\<forall>(name, value) \<in> {(''cty'', jh_cty h), (''jku'', jh_jku h), (''x5u'', jh_x5u h), (''x5t'', jh_x5t h), (''x5t_s256'', jh_x5t_s256 h)}.
           value \<noteq> None \<longrightarrow> (\<exists>names. allowlisted_extra_headers spec = Some names \<and> name \<in> set names))"

lemma insert_allowed_claims:
  "insert_allowed allowed fs c = Inr c' \<Longrightarrow>
    (\<forall>k. k \<notin> set allowed \<longrightarrow> hm_get c' k = hm_get c k) \<and> dom (hm_get c') \<subseteq> dom (hm_get c) \<union> set allowed"
  by (induction allowed fs c rule: insert_allowed.induct) (auto split: if_splits)

lemma add_extra_fields_claims:
  assumes "add_extra_fields allowlist fs c = Inr c'"
  shows "(\<forall>k. k \<notin> (case allowlist of None \<Rightarrow> {} | Some ks \<Rightarrow> set ks) \<longrightarrow> hm_get c' k = hm_get c k)
    \<and> dom (hm_get c') \<subseteq> dom (hm_get c) \<union> (case allowlist of None \<Rightarrow> {} | Some ks \<Rightarrow> set ks)"
proof (cases allowlist)
  case (Some ks)
  then show ?thesis using assms insert_allowed_claims [of ks fs c c'] by (auto simp: add_extra_fields_def split: if_splits)
qed (use assms in \<open>auto simp: add_extra_fields_def split: if_splits\<close>)

lemma enforce_claims_claims:
  "enforce_claims en c = Inr c' \<Longrightarrow>
    (\<forall>k v. hm_get c k = Some v \<longrightarrow> hm_get c' k = Some v) \<and> (\<forall>(k, v) \<in> set en. hm_get c' k = Some v)
    \<and> dom (hm_get c') \<subseteq> dom (hm_get c) \<union> fst ` set en"
proof (induction en c rule: enforce_claims.induct)
  case (2 k v en c)
  then have step: "enforce_claims en (hm_insert k v c) = Inr c'" and same: "hm_get c k = None \<or> hm_get c k = Some v"
    by (auto split: if_splits option.splits)
  from 2 step have IH: "\<forall>k' v'. hm_get (hm_insert k v c) k' = Some v' \<longrightarrow> hm_get c' k' = Some v'"
      "\<forall>(k, v) \<in> set en. hm_get c' k = Some v" "dom (hm_get c') \<subseteq> dom (hm_get (hm_insert k v c)) \<union> fst ` set en"
    by (auto split: if_splits option.splits)
  have "hm_get c' k' = Some v'" if "hm_get c k' = Some v'" for k' v'
    using IH(1) same that by (cases "k' = k") auto
  moreover have "hm_get c' k = Some v" using IH(1) by simp
  ultimately show ?case using IH(2,3) by (auto split: if_splits)
qed simp

lemma add_header_some: "k \<in> set ALLOWLISTABLE_HEADERS \<Longrightarrow> \<exists>h'. add_header h k v = Some h'"
  by (auto simp: ALLOWLISTABLE_HEADERS_def add_header_def)

lemma add_header_respects:
  "add_header h k v = Some h' \<Longrightarrow> header_respects spec kid h \<Longrightarrow> allowlisted_extra_headers spec = Some names \<Longrightarrow> k \<in> set names \<Longrightarrow>
    header_respects spec kid h'"
  by (auto simp: add_header_def header_respects_def split: if_splits)

lemma insert_headers_respects:
  assumes "allowlisted_extra_headers spec = Some names" and "set names \<subseteq> set ALLOWLISTABLE_HEADERS"
  shows "insert_headers names hs h = Inr r \<Longrightarrow> header_respects spec kid h \<Longrightarrow> \<exists>h'. r = Some h' \<and> header_respects spec kid h'"
proof (induction hs arbitrary: h)
  case (Cons kv hs)
  obtain k v where kv: "kv = (k, v)" by (cases kv)
  have k: "k \<in> set names" using Cons.prems(1) by (auto simp: kv split: if_splits)
  then obtain x where x: "json_as_str v = Some x" using Cons.prems(1) by (auto simp: kv split: option.splits)
  obtain h' where h': "add_header h k x = Some h'" using add_header_some k assms(2) by blast
  have "header_respects spec kid h'" using add_header_respects [OF h' Cons.prems(2) assms(1) k] .
  moreover have "insert_headers names hs h' = Inr r" using Cons.prems(1) k x h' by (simp add: kv)
  ultimately show ?case using Cons.IH by blast
qed auto

lemma default_header_respects: "header_respects spec kid (default_header (key_type spec) kid)"
  by (simp add: header_respects_def default_header_def)

lemma add_extra_headers_respects:
  assumes "set (case allowlisted_extra_headers spec of None \<Rightarrow> [] | Some ns \<Rightarrow> ns) \<subseteq> set ALLOWLISTABLE_HEADERS"
    and "add_extra_headers (allowlisted_extra_headers spec) hs (default_header (key_type spec) kid) = Inr r"
  shows "\<exists>h'. r = Some h' \<and> header_respects spec kid h'"
proof (cases "hs = []")
  case True
  then show ?thesis using assms(2) default_header_respects by (auto simp: add_extra_headers_def)
next
  case False
  then obtain names where names: "allowlisted_extra_headers spec = Some names"
      and r: "insert_headers names hs (default_header (key_type spec) kid) = Inr r"
    using assms(2) by (auto simp: add_extra_headers_def split: option.splits)
  from names assms(1) have "set names \<subseteq> set ALLOWLISTABLE_HEADERS" by simp
  from insert_headers_respects [OF names this r default_header_respects] show ?thesis .
qed

lemma sanitize_config_spec:
  assumes "hm_get (sanitize_config config) kid = Some spec"
  shows "\<exists>orig. hm_get config kid = Some orig \<and> spec = orig\<lparr>allowlisted_extra_headers := allowlisted_extra_headers spec\<rparr>
    \<and> set (case allowlisted_extra_headers spec of None \<Rightarrow> [] | Some ns \<Rightarrow> ns) \<subseteq>
        set ALLOWLISTABLE_HEADERS \<inter> set (case allowlisted_extra_headers orig of None \<Rightarrow> [] | Some ns \<Rightarrow> ns)"
  using assms unfolding hm_get_def sanitize_config_def
  by (induction config) (auto split: if_splits option.splits)

lemma does_then_now:
  "(\<And>t. clock_reading E t \<Longrightarrow> does (\<lambda>_ _. True) (f t) Q) \<Longrightarrow> does (\<lambda>_ _. True) (and_then (now E) f) Q"
proof (rule does_and_then [where P = "clock_reading E"])
  show "does (\<lambda>_ _. True) (now E) (clock_reading E)"
    unfolding does_def now_def op_call_def clock_reading_def
    by (auto split: prod.split) (metis fst_conv)
qed

lemma iat_claim_does:
  "does (\<lambda>_ _. True) (iat_claim E spec requested [(''sub'', s)])
     (\<lambda>c. iat_accurate E spec c \<and> dom (hm_get c) \<subseteq> {''sub'', ''iat''})"
  unfolding iat_claim_def
  by (intro does_intros does_then_now) (auto simp: iat_accurate_def hm_get_def hm_insert_def split: option.splits if_splits)

lemma aud_claim_does:
  assumes "iat_accurate E spec c \<and> dom (hm_get c) \<subseteq> {''sub'', ''iat''}"
  shows "does (\<lambda>_ _. True) (aud_claim E requested c) (\<lambda>c. iat_accurate E spec c \<and> dom (hm_get c) \<subseteq> {''sub'', ''iat'', ''aud''})"
proof -
  have "dom (hm_get (hm_insert ''aud'' v c)) \<subseteq> {''sub'', ''iat'', ''aud''}" for v
    using assms by (auto simp: hm_get_insert dom_def split: if_splits)
  then show ?thesis
    using assms unfolding aud_claim_def by (intro does_intros) (auto simp: iat_accurate_def)
qed

lemma expiry_does:
  "does (\<lambda>_ _. True) (expiry E spec requested) (\<lambda>e. \<forall>ttl. max_ttl spec = Some ttl \<longrightarrow> (\<exists>t. clock_reading E t \<and> e \<le> t + ttl))"
  unfolding expiry_def by (intro does_intros does_then_now) (auto split: option.splits)

lemma claims_respect_intro:
  assumes c0: "iat_accurate E spec c0" "dom (hm_get c0) \<subseteq> {''sub'', ''iat'', ''aud''}"
    and e: "\<forall>ttl. max_ttl spec = Some ttl \<longrightarrow> (\<exists>t. clock_reading E t \<and> e \<le> t + ttl)"
    and c1: "add_extra_fields (allowlisted_extra_fields spec) fs (hm_insert ''exp'' (j_u64 e) c0) = Inr c1"
    and c2: "enforce_claims (enforced_claims spec) c1 = Inr c2"
  shows "claims_respect E spec c2"
proof -
  let ?c = "hm_insert ''exp'' (j_u64 e) c0"
  note extra = add_extra_fields_claims [OF c1, folded extra_fields_allowed_def]
  note enforced = enforce_claims_claims [OF c2]
  have keep: "hm_get c2 k = Some v" if "k \<notin> extra_fields_allowed spec" and "hm_get ?c k = Some v" for k v
    using extra enforced that by simp
  have dom: "dom (hm_get ?c) \<subseteq> {''sub'', ''iat'', ''aud'', ''exp''}"
    using c0(2) by (auto simp: hm_get_insert dom_def split: if_splits)
  have "iat_accurate E spec c2" if "''iat'' \<notin> extra_fields_allowed spec"
    using c0(1) keep [OF that] by (auto simp: iat_accurate_def)
  moreover have "exp_bounded E spec c2" if "''exp'' \<notin> extra_fields_allowed spec"
    using e keep [OF that] by (auto simp: exp_bounded_def)
  moreover have "dom (hm_get c2) \<subseteq> {''sub'', ''iat'', ''aud'', ''exp''} \<union> extra_fields_allowed spec \<union> fst ` set (enforced_claims spec)"
    using extra enforced dom by blast
  ultimately show ?thesis using enforced by (simp add: claims_respect_def)
qed

lemma issue_jwt_does:
  "does (\<lambda>_ _. True) (issue_jwt E (web_new config) from_str params pm)
     (\<lambda>r. \<exists>token kid spec h c. r = Some token \<and> hm_get (web_new config) kid = Some spec \<and> mod_name pm \<in> set (allowed_rules spec)
        \<and> jwt_encode E h c (private_key spec) = Inr token \<and> header_respects spec kid h \<and> claims_respect E spec c)"
  unfolding issue_jwt_def Let_def
proof (intro does_intros does_and_then [OF iat_claim_does] does_and_then [OF aud_claim_does] does_and_then [OF expiry_does])
  fix request spec c0 c1 e c2 c3 h r x
  assume spec: "hm_get (web_new config) (jp_kid request) = Some spec" "\<not> mod_name pm \<notin> set (allowed_rules spec)"
    and c: "iat_accurate E spec c1 \<and> dom (hm_get c1) \<subseteq> {''sub'', ''iat'', ''aud''}"
      "\<forall>ttl. max_ttl spec = Some ttl \<longrightarrow> (\<exists>t. clock_reading E t \<and> e \<le> t + ttl)"
      "add_extra_fields (allowlisted_extra_fields spec) (jp_extra_fields request) (hm_insert ''exp'' (j_u64 e) c1) = Inr c2"
      "enforce_claims (enforced_claims spec) c2 = Inr c3"
    and h: "add_extra_headers (allowlisted_extra_headers spec) (jp_extra_headers request)
        (default_header (key_type spec) (jp_kid request)) = Inr r"
  obtain h' where h': "r = Some h'" "header_respects spec (jp_kid request) h'"
    using add_extra_headers_respects [OF _ h] sanitize_config_spec spec(1) unfolding web_new_def by blast
  note respects = claims_respect_intro [OF conjunct1 [OF c(1)] conjunct2 [OF c(1)] c(2,3,4)]
  show "\<exists>token kid spec h c. None = Some token \<and> hm_get (web_new config) kid = Some spec \<and> mod_name pm \<in> set (allowed_rules spec)
        \<and> jwt_encode E h c (private_key spec) = Inr token \<and> header_respects spec kid h \<and> claims_respect E spec c" if "r = None"
    using that h' by simp
  show "\<exists>token kid spec h c. x = Some token \<and> hm_get (web_new config) kid = Some spec \<and> mod_name pm \<in> set (allowed_rules spec)
        \<and> jwt_encode E h c (private_key spec) = Inr token \<and> header_respects spec kid h \<and> claims_respect E spec c"
    if rh: "r = Some h" and enc: "map_sum (\<lambda>e. WebError (FailedToEncodeJwt e)) Some (jwt_encode E h c3 (private_key spec)) = Inr x"
  proof -
    obtain token where "x = Some token" "jwt_encode E h c3 (private_key spec) = Inr token"
      using enc by (cases "jwt_encode E h c3 (private_key spec)") auto
    then show ?thesis using rh spec h' respects by blast
  qed
qed simp_all

subsection \<open>Properties\<close>

text \<open>
  C25. What the configuration of a key promises of every token, for keys that do not list \<^verbatim>\<open>iat\<close> or \<^verbatim>\<open>exp\<close> among the
  extra fields. When a rule gets a token, it is one of the rules listed for the key; the token has the algorithm and the
  identifier of the key, only headers that are listed for it and can be listed; every enforced claim has its configured
  value, every other claim is a standard or a listed one. If the key demands an accurate \<^verbatim>\<open>iat\<close> and \<^verbatim>\<open>iat\<close> is not listed
  as an extra field, the time of issue is a reading of the clock; if the key has a longest validity and \<^verbatim>\<open>exp\<close> is not
  listed as an extra field, the token expires no later than a reading of the clock plus that validity. The unreachable
  branch for other headers is never taken. (A listed \<^verbatim>\<open>iat\<close> or \<^verbatim>\<open>exp\<close> is inserted last and wins over both demands,
  as shown below.)
\<close>

theorem issued_jwt_respects_key:
  assumes "fst (issue_jwt E (web_new config) from_str params pm w) = Inr r"
  shows "\<exists>token kid spec h c. r = Some token \<and> hm_get (web_new config) kid = Some spec \<and> mod_name pm \<in> set (allowed_rules spec)
    \<and> jwt_encode E h c (private_key spec) = Inr token \<and> header_respects spec kid h \<and> claims_respect E spec c"
  by (rule does_result [OF issue_jwt_does assms])

definition sample_web_ops :: "(nat, u64) web_ops" where
  "sample_web_ops =
     \<lparr>get_time = (\<lambda>w. (w, w)), jwt_encode = (\<lambda>h c k. Inr ''token''),
      web_unicode = \<lparr>chars_of = map of_char, is_alphanumeric = (\<lambda>_. True), is_whitespace = (\<lambda>c. c = 32)\<rparr>\<rparr>"

definition sample_web :: "(string, nat jwt_config) hashmap" where
  "sample_web =
     [(''k'', \<lparr>key_type = Es256, private_key = 1, allowed_rules = [''m.wasm''], enforce_accurate_iat = Some True, max_ttl = Some 60,
        allowlisted_extra_headers = Some [''cty'', ''alg''], allowlisted_extra_fields = Some [''team''],
        enforced_claims = [(''iss'', JString ''plaid'')]\<rparr>)]"

definition sample_jwt :: jwt_params where
  "sample_jwt = \<lparr>jp_kid = ''k'', jp_sub = ''u'', jp_iat = Some 1, jp_exp = Some 5000, jp_aud = Some ''a'',
     jp_extra_headers = [(''cty'', JString ''x'')], jp_extra_fields = [(''team'', JInt 1)]\<rparr>"

theorem issued_jwt_respects_key_witness:
  "fst (issue_jwt sample_web_ops (web_new sample_web) (\<lambda>_. Some sample_jwt) [] (sample_module ''m.wasm'' Unlimited 0) 1000) = Inr (Some ''token'')
    \<and> (\<exists>token kid spec h c. Some ''token'' = Some token \<and> hm_get (web_new sample_web) kid = Some spec
        \<and> mod_name (sample_module ''m.wasm'' Unlimited 0) \<in> set (allowed_rules spec)
        \<and> jwt_encode sample_web_ops h c (private_key spec) = Inr token \<and> header_respects spec kid h \<and> claims_respect sample_web_ops spec c)"
proof -
  have "fst (issue_jwt sample_web_ops (web_new sample_web) (\<lambda>_. Some sample_jwt) [] (sample_module ''m.wasm'' Unlimited 0) 1000) = Inr (Some ''token'')"
    by code_simp
  with issued_jwt_respects_key [OF this] show ?thesis by simp
qed

text \<open>
  The exception is real, against the documentation of the two settings: with \<^verbatim>\<open>exp\<close> and \<^verbatim>\<open>iat\<close> listed as extra fields,
  a rule gets a token issued at time 1 that expires at time 99999, although the key demands the time of issue (1000)
  and a validity of at most 60 seconds.
\<close>

lemma listed_fields_override_limits:
  "fst (issue_jwt (sample_web_ops\<lparr>jwt_encode := (\<lambda>h c k.
          if hm_get c ''exp'' = Some (JInt 99999) \<and> hm_get c ''iat'' = Some (JInt 1) then Inr ''late'' else Inr ''bounded'')\<rparr>)
        (web_new [(''k'', (snd (hd sample_web))\<lparr>allowlisted_extra_fields := Some [''exp'', ''iat'']\<rparr>)])
        (\<lambda>_. Some (sample_jwt\<lparr>jp_extra_fields := [(''exp'', JInt 99999), (''iat'', JInt 1)]\<rparr>)) []
        (sample_module ''m.wasm'' Unlimited 0) 1000) = Inr (Some ''late'')"
  by code_simp

end
