(* ===== verification/Plaid_Jira.thy ===== *)
theory Plaid_Jira
  imports Plaid_Api
begin

text \<open>
  The Jira service, \<^verbatim>\<open>runtime/plaid/src/apis/jira\<close>, with the payloads that \<^verbatim>\<open>runtime/plaid-stl/src/jira\<close> builds. Which
  projects a rule may touch is configured. The HTTP client, the regex engine, the JSON codecs and percent-encoding are
  parameters.
\<close>

subsection \<open>Parameters and payloads\<close>

record create_issue_request =
  cir_project_key :: string
  cir_summary :: string
  cir_description :: json
  cir_issuetype_name :: "string option"
  cir_other_fields :: "(string, json) hashmap"

record update_issue_request =
  uir_id :: string
  uir_fields :: "json option"
  uir_update :: "json option"

record post_comment_request =
  pcr_issue_id :: string
  pcr_comment :: string

record search_issue_request =
  sir_jql :: string
  sir_max_results :: "u32 option"

record jira_issue =
  ji_id :: string
  ji_key :: string

record get_user_response =
  gur_display_name :: "string option"
  gur_id :: string

definition create_issue_to_payload :: "create_issue_request \<Rightarrow> json" where
  "create_issue_to_payload r =
     (let fs = JObject [(''project'', JObject [(''key'', JString (cir_project_key r))]), (''summary'', JString (cir_summary r)),
                 (''description'', cir_description r)];
          fs = (case cir_issuetype_name r of
                      Some name \<Rightarrow> json_set ''issuetype'' (JObject [(''name'', JString name)]) fs
                    | None \<Rightarrow> fs)
      in JObject [(''fields'', fold (\<lambda>(k, v). json_set k v) (cir_other_fields r) fs)])"

definition post_comment_to_payload :: "post_comment_request \<Rightarrow> json" where
  "post_comment_to_payload r =
     JObject [(''body'', JObject [(''type'', JString ''doc''), (''version'', JInt 1), (''content'', JArray [JObject [
       (''type'', JString ''paragraph''),
       (''content'', JArray [JObject [(''text'', JString (pcr_comment r)), (''type'', JString ''text'')]])]])])]"

definition update_issue_to_payload :: "update_issue_request \<Rightarrow> string + json" where
  "update_issue_to_payload r =
     (case (uir_fields r, uir_update r) of
        (Some f, Some u) \<Rightarrow> Inr (JObject [(''fields'', f), (''update'', u)])
      | (Some f, None) \<Rightarrow> Inr (JObject [(''fields'', f)])
      | (None, Some u) \<Rightarrow> Inr (JObject [(''update'', u)])
      | (None, None) \<Rightarrow> Inl ''Both fields and update are missing'')"

subsection \<open>The service\<close>

definition EMAIL_PATTERN :: string where
  "EMAIL_PATTERN = ''^[^'' @ [CHR 0x5C] @ ''s@]+@[^'' @ [CHR 0x5C] @ ''s@]+'' @ [CHR 0x5C] @ ''.[^'' @ [CHR 0x5C] @ ''s@]+$''"

definition ISSUE_PATTERN :: string where
  "ISSUE_PATTERN = ''^[A-Za-z_-]{1,10}-'' @ [CHR 0x5C] @ ''d{1,10}$''"

definition jira_validator_patterns :: "(string, string) hashmap" where
  "jira_validator_patterns = [(''email'', EMAIL_PATTERN), (''issue_id'', ISSUE_PATTERN)]"

record jira_config =
  jc_token :: string
  jc_base_url :: string
  jc_module_permissions :: "(string, string list) hashmap"

record jira =
  jira_base_url :: string
  jira_headers :: "(string \<times> string) list"
  jira_validators :: "(string, string) hashmap"
  module_permissions :: "(string, string list) hashmap"

definition trim_end_slashes :: "string \<Rightarrow> string" where
  "trim_end_slashes s = rev (dropWhile (\<lambda>c. c = CHR ''/'') (rev s))"

definition jira_new :: "(string \<Rightarrow> string + string) \<Rightarrow> jira_config \<Rightarrow> string + jira" where
  "jira_new header_value config =
     (case header_value (''Basic '' @ jc_token config) of
        Inl e \<Rightarrow> Inl e
      | Inr h \<Rightarrow> Inr \<lparr>jira_base_url = trim_end_slashes (jc_base_url config), jira_headers = [(''Authorization'', h)],
                   jira_validators = jira_validator_patterns, module_permissions = jc_module_permissions config\<rparr>)"

record jira_search_response =
  jsr_is_last :: bool
  jsr_issues :: "jira_issue list"
  jsr_next_page_token :: "string option"

record 'w jira_ops =
  jira_is_match :: "string \<Rightarrow> string \<Rightarrow> bool"
  jira_send :: "http_request \<Rightarrow> 'w \<Rightarrow> http_response \<times> 'w"
  percent_encoded :: "string \<Rightarrow> string"
  de_create_issue :: "string \<Rightarrow> create_issue_request option"
  de_update_issue :: "string \<Rightarrow> update_issue_request option"
  de_post_comment :: "string \<Rightarrow> post_comment_request option"
  de_search_issues :: "string \<Rightarrow> search_issue_request option"
  reencode_created :: "string \<Rightarrow> string option"
  reencode_issue :: "string \<Rightarrow> string option"
  de_users :: "string \<Rightarrow> (string \<times> string option) list option"
  ser_user :: "get_user_response \<Rightarrow> string option"
  de_search_page :: "string \<Rightarrow> jira_search_response option"
  ser_issues :: "jira_issue list \<Rightarrow> string option"

definition jira_validate :: "'w jira_ops \<Rightarrow> jira \<Rightarrow> string \<Rightarrow> string \<Rightarrow> api_error + string" where
  "jira_validate H J validator value_to_validate =
     (case hm_get (jira_validators J) validator of
        None \<Rightarrow> Inl ImpossibleError
      | Some re \<Rightarrow>
          if jira_is_match H re value_to_validate then Inr value_to_validate
          else Inl (JiraError (JiraInvalidInput value_to_validate)))"

definition validate_module_permission :: "jira \<Rightarrow> string \<Rightarrow> string \<Rightarrow> api_error + unit" where
  "validate_module_permission J module_name project =
     (case hm_get (module_permissions J) module_name of
        Some v \<Rightarrow> if project \<in> set v then Inr () else Inl BadRequest
      | None \<Rightarrow> Inl BadRequest)"

text \<open>The part of an issue identifier before its first dash, which the source takes for the project.\<close>

definition issue_project :: "string \<Rightarrow> string" where
  "issue_project issue_id = takeWhile (\<lambda>c. c \<noteq> CHR ''-'') issue_id"

definition validate_issue :: "'w jira_ops \<Rightarrow> jira \<Rightarrow> plaid_module \<Rightarrow> string \<Rightarrow> ('w, string) api_call" where
  "validate_issue H J pm issue_id =
     and_then (lift (jira_validate H J ''issue_id'' issue_id)) (\<lambda>issue_id.
     and_then (lift (validate_module_permission J (mod_name pm) (issue_project issue_id))) (\<lambda>_.
     ok issue_id))"

definition jira_answer :: "u16 list \<Rightarrow> (string + string \<Rightarrow> api_error + 'a) \<Rightarrow> http_response \<Rightarrow> api_error + 'a" where
  "jira_answer expected read_body a =
     (case a of
        Inl e \<Rightarrow> Inl (JiraError (JiraNetworkError e))
      | Inr (status, body) \<Rightarrow>
          if status \<notin> set expected then Inl (JiraError (JiraUnexpectedStatusCode status)) else read_body body)"

definition json_body :: "(string \<Rightarrow> 'a option) \<Rightarrow> string + string \<Rightarrow> api_error + 'a" where
  "json_body decode body =
     (case body of
        Inl _ \<Rightarrow> Inl (JiraError InvalidResponse)
      | Inr s \<Rightarrow> (case decode s of Some x \<Rightarrow> Inr x | None \<Rightarrow> Inl (JiraError InvalidResponse)))"

definition jira_request :: "jira \<Rightarrow> http_method \<Rightarrow> string \<Rightarrow> http_body \<Rightarrow> http_request" where
  "jira_request J m path body = (http m (jira_base_url J @ path))\<lparr>hq_headers := jira_headers J, hq_body := body\<rparr>"

definition create_issue where
  "create_issue H J params pm =
     and_then (ok_or BadRequest (de_create_issue H params)) (\<lambda>request.
     and_then (lift (validate_module_permission J (mod_name pm) (cir_project_key request))) (\<lambda>_.
     send_call (jira_send H) (jira_answer [201] (json_body (reencode_created H)))
       (jira_request J POST ''/issue'' (JsonBody (create_issue_to_payload request)))))"

definition get_issue where
  "get_issue H J params pm =
     and_then (validate_issue H J pm params) (\<lambda>issue_id.
     send_call (jira_send H) (jira_answer [200] (json_body (reencode_issue H)))
       (jira_request J GET (''/issue/'' @ issue_id) NoBody))"

definition update_issue where
  "update_issue H J params pm =
     and_then (ok_or BadRequest (de_update_issue H params)) (\<lambda>request.
     and_then (validate_issue H J pm (uir_id request)) (\<lambda>issue_id.
     and_then (lift (map_sum (\<lambda>_. BadRequest) id (update_issue_to_payload request))) (\<lambda>payload.
     send_call (jira_send H) (jira_answer [200, 204] (\<lambda>_. Inr (0 :: u32)))
       (jira_request J PUT (''/issue/'' @ issue_id) (JsonBody payload)))))"

definition get_user where
  "get_user H J params (pm :: plaid_module) =
     and_then (lift (jira_validate H J ''email'' params)) (\<lambda>email.
     and_then (send_call (jira_send H) (jira_answer [200] (json_body (de_users H)))
       (jira_request J GET (''/user/search?query='' @ email) NoBody)) (\<lambda>users.
     case users of
       [] \<Rightarrow> err (JiraError InvalidResponse)
     | (account_id, display_name) # _ \<Rightarrow>
         ok_or (JiraError InvalidResponse) (ser_user H \<lparr>gur_display_name = display_name, gur_id = account_id\<rparr>)))"

definition post_comment where
  "post_comment H J params pm =
     and_then (ok_or BadRequest (de_post_comment H params)) (\<lambda>request.
     and_then (validate_issue H J pm (pcr_issue_id request)) (\<lambda>issue_id.
     send_call (jira_send H) (jira_answer [201] (\<lambda>_. Inr (0 :: u32)))
       (jira_request J POST (''/issue/'' @ issue_id @ ''/comment'') (JsonBody (post_comment_to_payload request)))))"

text \<open>
  The search fetches pages until one is the last, has no token, or enough results are there. The loop has no bound of its
  own: it takes fuel, and \<open>None\<close> is a loop that is still running.
\<close>

definition fetch_page where
  "fetch_page H J path =
     send_call (jira_send H) (jira_answer [200] (json_body (de_search_page H))) (jira_request J GET path NoBody)"

definition enough_results :: "u32 option \<Rightarrow> 'a list \<Rightarrow> 'a list option" where
  "enough_results max_results result =
     (case max_results of
        Some m \<Rightarrow> if (word_of_nat (length result) :: u32) \<ge> m then Some (take (unat m) result) else None
      | None \<Rightarrow> None)"

fun search_loop ::
  "nat \<Rightarrow> 'w jira_ops \<Rightarrow> jira \<Rightarrow> string \<Rightarrow> u32 option \<Rightarrow> jira_issue list \<Rightarrow> jira_search_response \<Rightarrow> ('w, jira_issue list option) api_call" where
  "search_loop fuel H J request_path max_results result current_page =
     (let result = result @ jsr_issues current_page in
      case enough_results max_results result of
        Some r \<Rightarrow> ok (Some r)
      | None \<Rightarrow>
          if jsr_is_last current_page then ok (Some result)
          else case jsr_next_page_token current_page of
                 None \<Rightarrow> ok (Some result)
               | Some t \<Rightarrow>
                   (case fuel of
                      0 \<Rightarrow> ok None
                    | Suc n \<Rightarrow>
                        and_then (fetch_page H J (request_path @ ''&nextPageToken='' @ t)) (\<lambda>page.
                        search_loop n H J request_path max_results result page)))"

declare search_loop.simps [simp del]

definition search_issues where
  "search_issues fuel H J params (pm :: plaid_module) =
     and_then (ok_or BadRequest (de_search_issues H params)) (\<lambda>request.
     let path = ''/search/jql?fields=id,key&jql='' @ percent_encoded H (sir_jql request) in
     and_then (fetch_page H J path) (\<lambda>page.
     and_then (search_loop fuel H J path (sir_max_results request) [] page) (\<lambda>result.
     case result of
       None \<Rightarrow> ok None
     | Some issues \<Rightarrow> and_then (ok_or (JiraError InvalidResponse) (ser_issues H issues)) (\<lambda>s. ok (Some s)))))"

subsection \<open>What the service may send\<close>

text \<open>
  The specification. A rule may create issues in a project granted to it; only when its own request names a
  project among the other fields is that one sent instead, and nothing is promised of it. It may read, change and comment
  on issues whose identifier is a project granted to it, which has no dash, then a dash and the rest. It may look up users
  and search, with any query. Nothing else is sent, and always to the configured base address with the credentials of the
  service.
\<close>

definition issue_char :: "char \<Rightarrow> bool" where
  "issue_char c \<longleftrightarrow> is_alpha c \<or> c = CHR ''_'' \<or> c = CHR ''-''"

definition email_char :: "char \<Rightarrow> bool" where
  "email_char c \<longleftrightarrow> c \<notin> {CHR '' '', CHR 0x09, CHR 0x0A, CHR 0x0B, CHR 0x0C, CHR 0x0D, CHR ''@''}"

definition project_granted :: "jira \<Rightarrow> plaid_module \<Rightarrow> string \<Rightarrow> bool" where
  "project_granted J pm project \<longleftrightarrow> (\<exists>ps. hm_get (module_permissions J) (mod_name pm) = Some ps \<and> project \<in> set ps)"

definition issue_granted :: "jira \<Rightarrow> plaid_module \<Rightarrow> string \<Rightarrow> bool" where
  "issue_granted J pm i \<longleftrightarrow> fills [Hole issue_char, Lit ''-'', Hole digit_class] i
     \<and> (\<exists>project rest. i = project @ ''-'' @ rest \<and> CHR ''-'' \<notin> set project \<and> project_granted J pm project)"

definition jira_message :: "jira \<Rightarrow> http_method \<Rightarrow> string \<Rightarrow> http_body \<Rightarrow> http_request \<Rightarrow> bool" where
  "jira_message J m path body r \<longleftrightarrow> hq_method r = m \<and> hq_url r = jira_base_url J @ path \<and> hq_body r = body
     \<and> hq_headers r = jira_headers J"

inductive jira_permitted :: "'w jira_ops \<Rightarrow> jira \<Rightarrow> plaid_module \<Rightarrow> http_request \<Rightarrow> bool" for H J pm where
  creating: "project_granted J pm key \<Longrightarrow> json_get ''project'' fs = Some (JObject [(''key'', JString key)]) \<Longrightarrow>
    jira_message J POST ''/issue'' (JsonBody (JObject [(''fields'', fs)])) r \<Longrightarrow> jira_permitted H J pm r"
| creating_elsewhere: "de_create_issue H params = Some req \<Longrightarrow> (''project'', v) \<in> set (cir_other_fields req) \<Longrightarrow>
    project_granted J pm (cir_project_key req) \<Longrightarrow> json_get ''project'' fs = Some v \<Longrightarrow>
    jira_message J POST ''/issue'' (JsonBody (JObject [(''fields'', fs)])) r \<Longrightarrow> jira_permitted H J pm r"
| reading: "issue_granted J pm i \<Longrightarrow> jira_message J GET (''/issue/'' @ i) NoBody r \<Longrightarrow> jira_permitted H J pm r"
| changing: "issue_granted J pm i \<Longrightarrow> jira_message J PUT (''/issue/'' @ i) (JsonBody payload) r \<Longrightarrow> jira_permitted H J pm r"
| commenting: "issue_granted J pm i \<Longrightarrow> jira_message J POST (''/issue/'' @ i @ ''/comment'') (JsonBody payload) r \<Longrightarrow> jira_permitted H J pm r"
| finding_user: "fills [Hole email_char, Lit ''@'', Hole email_char] email \<Longrightarrow>
    jira_message J GET (''/user/search?query='' @ email) NoBody r \<Longrightarrow> jira_permitted H J pm r"
| searching: "jira_message J GET (''/search/jql?fields=id,key&jql='' @ q) NoBody r \<Longrightarrow> jira_permitted H J pm r"

lemma jira_message_request [simp]: "jira_message J m path body (jira_request J m path body)"
  by (simp add: jira_message_def jira_request_def)

text \<open>The project of the payload of a new issue.\<close>

lemma json_get_fold_set:
  "json_get k (fold (\<lambda>(k, v). json_set k v) kvs (JObject m)) = (case hm_get (rev kvs) k of Some v \<Rightarrow> Some v | None \<Rightarrow> hm_get m k)"
proof (induction kvs arbitrary: m)
  case (Cons kv kvs)
  then show ?case by (cases kv) (auto simp: json_set_def hm_get_def hm_insert_def map_add_def update_conv split: option.splits)
qed (simp add: json_get_def hm_get_def)

lemma create_issue_payload:
  obtains m where "create_issue_to_payload req = JObject [(''fields'', fold (\<lambda>(k, v). json_set k v) (cir_other_fields req) (JObject m))]"
    and "hm_get m ''project'' = Some (JObject [(''key'', JString (cir_project_key req))])"
  by (cases "cir_issuetype_name req")
    (auto simp: create_issue_to_payload_def json_set_def hm_get_def hm_insert_def update_conv)

lemma creating_permitted:
  assumes "de_create_issue H params = Some req" and "project_granted J pm (cir_project_key req)"
  shows "jira_permitted H J pm (jira_request J POST ''/issue'' (JsonBody (create_issue_to_payload req)))"
proof -
  obtain m where m: "create_issue_to_payload req = JObject [(''fields'', fold (\<lambda>(k, v). json_set k v) (cir_other_fields req) (JObject m))]"
      "hm_get m ''project'' = Some (JObject [(''key'', JString (cir_project_key req))])"
    by (rule create_issue_payload)
  let ?fs = "fold (\<lambda>(k, v). json_set k v) (cir_other_fields req) (JObject m)"
  have msg: "jira_message J POST ''/issue'' (JsonBody (JObject [(''fields'', ?fs)]))
      (jira_request J POST ''/issue'' (JsonBody (create_issue_to_payload req)))" by (simp add: m(1))
  show ?thesis
  proof (cases "hm_get (rev (cir_other_fields req)) ''project''")
    case None
    then have "json_get ''project'' ?fs = Some (JObject [(''key'', JString (cir_project_key req))])"
      by (simp add: json_get_fold_set m(2))
    then show ?thesis by (rule jira_permitted.creating [OF assms(2) _ msg])
  next
    case (Some v)
    then have "json_get ''project'' ?fs = Some v" by (simp add: json_get_fold_set)
    moreover have "(''project'', v) \<in> set (cir_other_fields req)" using Some by (auto simp: hm_get_def dest: map_of_SomeD)
    ultimately show ?thesis using assms by (intro jira_permitted.creating_elsewhere [OF assms(1) _ assms(2) _ msg])
  qed
qed

definition jira_step :: "'w jira_ops \<Rightarrow> jira \<Rightarrow> bool \<Rightarrow> plaid_module \<Rightarrow> 'w \<Rightarrow> 'w \<Rightarrow> bool" where
  "jira_step H J read_only pm = sends (jira_send H) (\<lambda>r. jira_permitted H J pm r \<and> (read_only \<longrightarrow> hq_method r = GET))"

locale jira_service =
  fixes H :: "'w jira_ops" and J :: jira
  assumes validators: "jira_validators J = jira_validator_patterns"
    and email_pattern: "jira_is_match H EMAIL_PATTERN s \<Longrightarrow> fills [Hole email_char, Lit ''@'', Hole email_char] s"
    and issue_pattern: "jira_is_match H ISSUE_PATTERN s \<Longrightarrow> fills [Hole issue_char, Lit ''-'', Hole digit_class] s"

lemma jira_request_method [simp]: "hq_method (jira_request J m path body) = m"
  by (simp add: jira_request_def)

lemma validate_module_permission_granted:
  "validate_module_permission J (mod_name pm) project = Inr x \<longleftrightarrow> project_granted J pm project"
  by (auto simp: validate_module_permission_def project_granted_def split: option.splits)

lemma does_jira_send [does_intros]:
  "jira_permitted H J pm r \<Longrightarrow> (ro \<longrightarrow> hq_method r = GET) \<Longrightarrow> does (jira_step H J ro pm) (send_call (jira_send H) answer r) (\<lambda>_. True)"
  unfolding jira_step_def by (rule does_send_call) simp_all

lemma does_then_jira_send [does_intros]:
  "jira_permitted H J pm r \<Longrightarrow> (ro \<longrightarrow> hq_method r = GET) \<Longrightarrow> (\<And>x. does (jira_step H J ro pm) (f x) Q) \<Longrightarrow>
    does (jira_step H J ro pm) (and_then (send_call (jira_send H) answer r) f) Q"
  by (rule does_then_any [OF does_jira_send])

lemma jira_step_reads: "jira_step H J True pm w w' \<Longrightarrow> jira_step H J False pm w w'"
  unfolding jira_step_def sends_def by blast

lemma fetch_page_does: "prefix ''/search/jql?fields=id,key&jql='' path \<Longrightarrow> does (jira_step H J ro pm) (fetch_page H J path) (\<lambda>_. True)"
  unfolding fetch_page_def prefix_def by (elim exE, hypsubst, intro does_jira_send jira_permitted.searching [OF jira_message_request]) simp

lemma search_loop_does:
  assumes "prefix ''/search/jql?fields=id,key&jql='' path"
  shows "does (jira_step H J ro pm) (search_loop fuel H J path m result page) (\<lambda>_. True)"
proof (induction fuel arbitrary: result page)
  case (Suc n)
  have "prefix ''/search/jql?fields=id,key&jql='' (path @ rest)" for rest using assms by (rule prefix_prefix)
  from fetch_page_does [OF this] show ?case
    by (subst search_loop.simps) (auto simp: Let_def intro!: does_intros does_then_any Suc split: option.splits)
qed (subst search_loop.simps, auto simp: Let_def intro!: does_intros split: option.splits)

lemma issue_grantedI:
  assumes "fills [Hole issue_char, Lit ''-'', Hole digit_class] i" and "project_granted J pm (issue_project i)"
  shows "issue_granted J pm i"
proof -
  have "CHR ''-'' \<in> set i" using assms(1) by auto
  then obtain project rest where i: "i = project @ CHR ''-'' # rest" "CHR ''-'' \<notin> set project"
    by (metis split_list_first)
  then have "issue_project i = project"
    unfolding issue_project_def by (simp add: takeWhile_append)
  then show ?thesis unfolding issue_granted_def using assms i by auto
qed

context jira_service
begin

lemma issue_valid: "jira_validate H J ''issue_id'' s = Inr i \<Longrightarrow> i = s \<and> fills [Hole issue_char, Lit ''-'', Hole digit_class] s"
  using issue_pattern by (auto simp: jira_validate_def validators jira_validator_patterns_def hm_get_def split: if_splits)

lemma email_valid: "jira_validate H J ''email'' s = Inr e \<Longrightarrow> e = s \<and> fills [Hole email_char, Lit ''@'', Hole email_char] s"
  using email_pattern by (auto simp: jira_validate_def validators jira_validator_patterns_def hm_get_def split: if_splits)

lemma does_then_validate_issue:
  assumes "\<And>i. issue_granted J pm i \<Longrightarrow> does R (f i) Q"
  shows "does R (and_then (validate_issue H J pm s) f) Q"
  using assms unfolding validate_issue_def
  by (intro does_intros) (auto dest: issue_valid intro: issue_grantedI simp: validate_module_permission_granted)

lemmas jira_rules = does_intros does_then_validate_issue TrueI

lemma handlers_do:
  "does (jira_step H J False pm) (create_issue H J params pm) (\<lambda>_. True)"
  "does (jira_step H J ro pm) (get_issue H J params pm) (\<lambda>_. True)"
  "does (jira_step H J False pm) (update_issue H J params pm) (\<lambda>_. True)"
  "does (jira_step H J False pm) (post_comment H J params pm) (\<lambda>_. True)"
  unfolding create_issue_def get_issue_def update_issue_def post_comment_def
  by ((intro jira_rules creating_permitted; simp add: validate_module_permission_granted)[1],
    (intro jira_rules jira_permitted.reading [OF _ jira_message_request] jira_permitted.changing [OF _ jira_message_request]
      jira_permitted.commenting [OF _ jira_message_request]; (assumption | simp))+)

lemma get_user_does: "does (jira_step H J ro pm) (get_user H J params pm) (\<lambda>_. True)"
  unfolding get_user_def
  by (intro does_intros jira_permitted.finding_user [OF _ jira_message_request])
    (auto dest: email_valid intro: does_intros split: list.splits prod.splits)

lemma search_issues_does: "does (jira_step H J ro pm) (search_issues fuel H J params pm) (\<lambda>_. True)"
  unfolding search_issues_def Let_def
  by (intro does_intros does_then_any [OF fetch_page_does] does_then_any [OF search_loop_does]) (simp_all add: does_intros split: option.split)

end

subsection \<open>Behind the host functions\<close>

text \<open>
  A search that is still running when its fuel ends has made a prefix of its requests; what holds for every amount of fuel
  holds for the requests of the search.
\<close>

definition jira_int_functions where
  "jira_int_functions H J params pm =
     [(''update_issue'', update_issue H J params pm), (''post_comment'', post_comment H J params pm)]"

definition jira_string_functions where
  "jira_string_functions fuel H J params pm =
     [(''create_issue'', create_issue H J params pm), (''get_issue'', get_issue H J params pm), (''get_user'', get_user H J params pm),
      (''search_issues'', and_then (search_issues fuel H J params pm) (\<lambda>r. ok_or ImpossibleError r))]"

definition with_jira where
  "with_jira fuel H J = with_service ''jira'' None (jira_int_functions H J) (jira_string_functions fuel H J)"

lemmas jira_decls = jira_functions_def api_fn_def ALLOW_IN_TEST_MODE_def DISALLOW_IN_TEST_MODE_def

context jira_service
begin

lemma is_service:
  "read_only_service ''jira'' None (jira_int_functions H J) (jira_string_functions fuel H J) jira_functions (jira_step H J)"
  by unfold_locales
    (auto simp: jira_decls jira_int_functions_def jira_string_functions_def handlers_do get_user_does
      intro: does_intros does_then_any search_issues_does jira_step_reads)

end

text \<open>An engine for the two patterns over ASCII satisfies the laws, for a service built by \<open>jira_new\<close>.\<close>

definition ascii_issue :: "string \<Rightarrow> bool" where
  "ascii_issue s =
     (let digits = takeWhile (\<lambda>c. c \<noteq> CHR ''-'') (rev s); rest = rev (drop (length digits) (rev s)) in
      rest \<noteq> [] \<and> length (butlast rest) \<in> {1..10} \<and> list_all issue_char (butlast rest)
      \<and> length digits \<in> {1..10} \<and> list_all (between CHR ''0'' CHR ''9'') digits)"

definition ascii_email :: "string \<Rightarrow> bool" where
  "ascii_email s =
     (let user = takeWhile (\<lambda>c. c \<noteq> CHR ''@'') s; domain = drop (Suc (length user)) s in
      length user < length s \<and> user \<noteq> [] \<and> list_all email_char user \<and> list_all email_char domain
      \<and> CHR ''.'' \<in> set (butlast (tl domain)))"

definition sample_jira_ops :: "(http_request list) jira_ops" where
  "sample_jira_ops =
     \<lparr>jira_is_match = (\<lambda>re s. if re = ISSUE_PATTERN then ascii_issue s else if re = EMAIL_PATTERN then ascii_email s else False),
      jira_send = (\<lambda>r w. (Inr (200, Inr ''{}''), r # w)), percent_encoded = (\<lambda>s. s),
      de_create_issue = (\<lambda>_. Some \<lparr>cir_project_key = ''OPEN'', cir_summary = ''s'', cir_description = JNull, cir_issuetype_name = None,
         cir_other_fields = [(''project'', JObject [(''key'', JString ''SECRET'')])]\<rparr>),
      de_update_issue = (\<lambda>_. None), de_post_comment = (\<lambda>_. None), de_search_issues = (\<lambda>_. Some \<lparr>sir_jql = ''x'', sir_max_results = Some 2\<rparr>),
      reencode_created = Some, reencode_issue = Some, de_users = (\<lambda>_. None), ser_user = (\<lambda>_. None),
      de_search_page = (\<lambda>_. Some \<lparr>jsr_is_last = False, jsr_issues = [\<lparr>ji_id = ''1'', ji_key = ''A-1''\<rparr>], jsr_next_page_token = Some ''t''\<rparr>),
      ser_issues = (\<lambda>xs. Some ''[]'')\<rparr>"

definition sample_jira :: jira where
  "sample_jira = projr (jira_new Inr \<lparr>jc_token = ''t'', jc_base_url = ''https://j/'', jc_module_permissions = [(''m.wasm'', [''OPEN''])]\<rparr>)"

lemma ascii_issue_fills: "ascii_issue s \<Longrightarrow> fills [Hole issue_char, Lit ''-'', Hole digit_class] s"
proof -
  assume issue: "ascii_issue s"
  define digits where "digits = takeWhile (\<lambda>c. c \<noteq> CHR ''-'') (rev s)"
  define rest where "rest = rev (dropWhile (\<lambda>c. c \<noteq> CHR ''-'') (rev s))"
  have s: "s = rest @ rev digits" unfolding rest_def digits_def by (simp flip: rev_append)
  have "rev (drop (length digits) (rev s)) = rest" unfolding rest_def digits_def by (simp add: dropWhile_eq_drop)
  then have "rest \<noteq> [] \<and> length (butlast rest) \<in> {1..10} \<and> list_all issue_char (butlast rest)
      \<and> length digits \<in> {1..10} \<and> list_all (between CHR ''0'' CHR ''9'') digits"
    using issue unfolding ascii_issue_def Let_def digits_def [symmetric] by (simp only: simp_thms)
  then have r: "rest \<noteq> []" "butlast rest \<noteq> []" "list_all issue_char (butlast rest)" "digits \<noteq> []"
      "list_all (between CHR ''0'' CHR ''9'') digits"
    by (auto simp del: length_butlast)
  have "last rest = CHR ''-''" using r(1) hd_dropWhile [of "\<lambda>c. c \<noteq> CHR ''-''" "rev s"] unfolding rest_def by (simp add: last_rev)
  then have "s = butlast rest @ ''-'' @ rev digits" using s r(1) by (metis append.assoc append_butlast_last_id)
  moreover have "list_all digit_class (rev digits)" using r(5) by (auto simp: list_all_iff digit_class_def)
  ultimately show ?thesis using r by (metis fills_Hole fills_Lit fills_last_Hole rev_is_Nil_conv)
qed

lemma ascii_email_fills: "ascii_email s \<Longrightarrow> fills [Hole email_char, Lit ''@'', Hole email_char] s"
proof -
  assume email: "ascii_email s"
  define user where "user = takeWhile (\<lambda>c. c \<noteq> CHR ''@'') s"
  have u: "length user < length s" "user \<noteq> []" "list_all email_char user" "list_all email_char (drop (Suc (length user)) s)"
      "drop (Suc (length user)) s \<noteq> []"
    using email unfolding ascii_email_def Let_def user_def [symmetric] by auto
  have "s = user @ drop (length user) s" unfolding user_def by (metis takeWhile_dropWhile_id dropWhile_eq_drop)
  moreover have "drop (length user) s = CHR ''@'' # drop (Suc (length user)) s"
    using u(1) nth_length_takeWhile [of "\<lambda>c. c \<noteq> CHR ''@''" s] unfolding user_def by (simp add: Cons_nth_drop_Suc [symmetric])
  ultimately have "s = user @ ''@'' @ drop (Suc (length user)) s" by simp
  then show ?thesis using u by (metis fills_Hole fills_Lit fills_last_Hole)
qed

interpretation sample_jira: jira_service sample_jira_ops sample_jira
  by unfold_locales
    (auto simp: sample_jira_def jira_new_def sample_jira_ops_def ISSUE_PATTERN_def EMAIL_PATTERN_def
      intro: ascii_issue_fills ascii_email_fills split: if_splits simp del: fills.simps)

subsection \<open>Properties\<close>

text \<open>
  C26. Access control of Jira. Whatever a rule passes to a Jira function, the requests the call makes are permitted to it:
  an issue is read, changed or commented only if its identifier is the name of a project granted to the rule (without a
  dash), a dash and a rest, which the pattern lets contain further dashes; an issue is created in a project granted to the
  rule, unless the rule's request names another one among its other fields, which is then sent in place of the one that
  was checked. Users may be looked up and searches made by every rule, and a search may be for issues of any project. In
  test mode there are only GET requests.
\<close>

theorem jira_requests_permitted:
  assumes "jira_service H J" and "d \<in> set jira_functions"
    and "w' = snd (snd (host_call W (with_jira fuel H J A) d env p n rp rn w))"
  shows "(jira_step H J (test_mode (env_module env)) (env_module env))\<^sup>*\<^sup>* w w'"
  unfolding assms(3) with_jira_def
  by (rule read_only_service.host_call_steps [OF jira_service.is_service [OF assms(1)] assms(2)])

theorem jira_requests_permitted_witness:
  "let d = api_fn ''jira'' ''create_issue'' True DISALLOW_IN_TEST_MODE;
       w' = snd (snd (host_call flat_ops (with_jira 0 sample_jira_ops sample_jira idle_services) d sample_caller 0 0 0 4 []))
   in map hq_url w' = [''https://j/issue'']
    \<and> (jira_step sample_jira_ops sample_jira (test_mode (env_module sample_caller)) (env_module sample_caller))\<^sup>*\<^sup>* [] w'"
proof -
  let ?d = "api_fn ''jira'' ''create_issue'' True DISALLOW_IN_TEST_MODE"
  have "?d \<in> set jira_functions" by (simp add: jira_functions_def)
  note jira_requests_permitted [OF sample_jira.jira_service_axioms this refl, where W = flat_ops and fuel = 0 and A = idle_services
      and env = sample_caller and p = 0 and n = 0 and rp = 0 and rn = 4 and w = "[]"]
  moreover have "map hq_url (snd (snd (host_call flat_ops (with_jira 0 sample_jira_ops sample_jira idle_services) ?d sample_caller 0 0 0 4 []))) = [''https://j/issue'']"
    by (simp add: host_call_def api_function_buffer_def api_prologue_def with_jira_def with_service_def api_fn_def jira_string_functions_def
        create_issue_def validate_module_permission_def call_defs send_call_def hm_get_def jira_answer_def jira_request_def
        sample_jira_ops_def sample_jira_def jira_new_def trim_end_slashes_def idle_services_def
        sample_caller_def sample_env_def sample_module_def get_memory_def safely_get_string_def flat_read_string_def flat_read_def
        Let_def DISALLOW_IN_TEST_MODE_def)
  ultimately show ?thesis by (simp add: Let_def)
qed

lemma hm_get_rev: "hm_wf m \<Longrightarrow> hm_get (rev m) k = hm_get m k"
  unfolding hm_get_def hm_wf_def
proof (cases "map_of m k")
  case None
  then show "map_of (rev m) k = map_of m k" by (metis map_of_eq_None_iff set_rev)
next
  case (Some v)
  assume "distinct (map fst m)"
  then have "map_of (rev m) k = Some v" using Some by (auto simp: rev_map [symmetric] dest: map_of_SomeD intro!: map_of_is_SomeI)
  then show "map_of (rev m) k = map_of m k" using Some by simp
qed

text \<open>
  What a new issue is created in. When a rule may create issues in the project of its request, the one request that is
  sent creates an issue in that project, unless the other fields of the rule's request name a project: then it is that
  one, which is not checked.
\<close>

theorem created_issue_project:
  assumes "de_create_issue H params = Some request" and "project_granted J pm (cir_project_key request)" and "hm_wf (cir_other_fields request)"
  shows "\<exists>r fs. snd (create_issue H J params pm w) = snd (jira_send H r w) \<and> hq_method r = POST \<and> hq_url r = jira_base_url J @ ''/issue''
    \<and> hq_body r = JsonBody (JObject [(''fields'', fs)])
    \<and> json_get ''project'' fs = Some (case hm_get (cir_other_fields request) ''project'' of
         Some v \<Rightarrow> v | None \<Rightarrow> JObject [(''key'', JString (cir_project_key request))])"
proof -
  obtain m where m: "create_issue_to_payload request = JObject [(''fields'', fold (\<lambda>(k, v). json_set k v) (cir_other_fields request) (JObject m))]"
      "hm_get m ''project'' = Some (JObject [(''key'', JString (cir_project_key request))])"
    by (rule create_issue_payload)
  have "validate_module_permission J (mod_name pm) (cir_project_key request) = Inr ()"
    using assms(2) by (simp add: validate_module_permission_granted)
  then have "snd (create_issue H J params pm w) = snd (jira_send H (jira_request J POST ''/issue'' (JsonBody (create_issue_to_payload request))) w)"
    by (simp add: create_issue_def assms(1) call_defs send_call_def split: prod.split)
  then show ?thesis
    using m assms(3) by (intro exI conjI) (auto simp: jira_request_def json_get_fold_set hm_get_rev split: option.split)
qed

theorem created_issue_project_witness:
  "\<exists>r fs. snd (create_issue sample_jira_ops sample_jira [] (sample_module ''m.wasm'' Unlimited 0) []) = snd (jira_send sample_jira_ops r [])
    \<and> hq_method r = POST \<and> hq_url r = ''https://j/issue'' \<and> hq_body r = JsonBody (JObject [(''fields'', fs)])
    \<and> json_get ''project'' fs = Some (JObject [(''key'', JString ''SECRET'')])"
proof -
  have req: "de_create_issue sample_jira_ops [] = Some \<lparr>cir_project_key = ''OPEN'', cir_summary = ''s'', cir_description = JNull,
      cir_issuetype_name = None, cir_other_fields = [(''project'', JObject [(''key'', JString ''SECRET'')])]\<rparr>"
    by (simp add: sample_jira_ops_def)
  have "project_granted sample_jira (sample_module ''m.wasm'' Unlimited 0) ''OPEN''" "jira_base_url sample_jira = ''https://j''"
    by (simp_all add: project_granted_def sample_jira_def jira_new_def hm_get_def sample_module_def trim_end_slashes_def)
  with created_issue_project [OF req, of sample_jira "sample_module ''m.wasm'' Unlimited 0" "[]"] show ?thesis
    by (simp add: hm_get_def hm_wf_def)
qed

lemma fetched_page: "fetch_page H J u w = (Inr p, w') \<Longrightarrow> \<exists>s. de_search_page H s = Some p"
  by (auto simp: fetch_page_def send_call_def jira_answer_def json_body_def split: prod.splits sum.splits if_splits option.splits)

lemma search_loop_returns:
  assumes "\<And>s p. de_search_page H s = Some p \<Longrightarrow> jsr_issues p \<noteq> [] \<and> length (jsr_issues p) \<le> k" and "unat m + k < 2 ^ 32"
  shows "length result \<le> unat m \<Longrightarrow> unat m \<le> fuel + length result + 1 \<Longrightarrow> jsr_issues page \<noteq> [] \<and> length (jsr_issues page) \<le> k \<Longrightarrow>
    fst (search_loop fuel H J path (Some m) result page w) \<noteq> Inr None"
proof (induction fuel arbitrary: result page w)
  case 0
  let ?r = "result @ jsr_issues page"
  have "unat m \<le> length ?r" using 0 by (cases "jsr_issues page") auto
  moreover have "length ?r < 2 ^ 32" using 0 assms(2) by simp
  ultimately have "(word_of_nat (length ?r) :: u32) \<ge> m" by (simp only: word_le_nat_alt unat_word_of_nat_u32)
  then show ?case by (subst search_loop.simps) (simp add: enough_results_def Let_def call_defs)
next
  case (Suc n)
  let ?r = "result @ jsr_issues page"
  show ?case
  proof (cases "enough_results (Some m) ?r")
    case (Some r)
    then show ?thesis by (subst search_loop.simps) (simp add: Let_def call_defs)
  next
    case None
    have "length ?r < 2 ^ 32" using Suc assms(2) by simp
    with None have less: "length ?r < unat m"
      unfolding enough_results_def word_le_nat_alt by (simp only: unat_word_of_nat_u32 option.case not_le split: if_splits) simp
    have more: "unat m \<le> n + length ?r + 1" using Suc.prems by (cases "jsr_issues page") auto
    have next_page: "fst (search_loop n H J path (Some m) ?r p w') \<noteq> Inr None" if "de_search_page H s = Some p" for s p w'
      using Suc.IH [of ?r p w'] less more assms(1) [OF that] by simp
    have "fst (and_then (fetch_page H J (path @ ''&nextPageToken='' @ t)) (search_loop n H J path (Some m) ?r) w) \<noteq> Inr None" for t
      by (rule and_then_not_None) (metis next_page fetched_page)
    then show ?thesis using None by (subst search_loop.simps) (simp add: Let_def call_defs(1-3) split: option.split)
  qed
qed

text \<open>
  A search that is bounded returns. If every page of results Jira sends holds at least one and at most \<open>k\<close> issues,
  a search for at most \<open>m\<close> results is not running any more after \<open>m\<close> further pages, whatever Jira answers otherwise.
\<close>

theorem bounded_search_returns:
  assumes "\<forall>s p. de_search_page H s = Some p \<longrightarrow> jsr_issues p \<noteq> [] \<and> length (jsr_issues p) \<le> k"
    and "de_search_issues H params = Some request" and "sir_max_results request = Some m" and "unat m + k < 2 ^ 32" and "unat m \<le> fuel + 1"
  shows "fst (search_issues fuel H J params pm w) \<noteq> Inr None"
proof -
  have loop: "fst (search_loop fuel H J u (Some m) [] p w') \<noteq> Inr None" if "de_search_page H s = Some p" for u s p w'
    by (rule search_loop_returns [where k = k]) (use assms that in auto)
  have finish: "fst (and_then (search_loop fuel H J u (Some m) [] p) (\<lambda>result. case result of None \<Rightarrow> ok None
      | Some issues \<Rightarrow> and_then (ok_or (JiraError InvalidResponse) (ser_issues H issues)) (\<lambda>s. ok (Some s))) w') \<noteq> Inr None"
    if "de_search_page H s = Some p" for u s p w'
    using loop [OF that, of u w'] by (intro and_then_not_None) (auto simp: call_defs split: option.splits)
  have "fst (and_then (fetch_page H J u) (\<lambda>page. and_then (search_loop fuel H J u (Some m) [] page) (\<lambda>result. case result of None \<Rightarrow> ok None
      | Some issues \<Rightarrow> and_then (ok_or (JiraError InvalidResponse) (ser_issues H issues)) (\<lambda>s. ok (Some s)))) w) \<noteq> Inr None" for u
    by (rule and_then_not_None) (metis finish fetched_page)
  moreover have "and_then (ok_or e (Some request)) f = f request" for e and f :: "search_issue_request \<Rightarrow> ('a, string option) api_call"
    by (simp add: call_defs fun_eq_iff)
  ultimately show ?thesis
    unfolding search_issues_def assms(2) Let_def by (simp only: assms(3) not_False_eq_True)
qed

theorem bounded_search_returns_witness:
  "fst (search_issues 1 sample_jira_ops sample_jira [] (sample_module ''m.wasm'' Unlimited 0) []) \<noteq> Inr None"
  by (rule bounded_search_returns [where k = 1 and m = 2 and request = "\<lparr>sir_jql = ''x'', sir_max_results = Some 2\<rparr>"])
    (simp_all add: sample_jira_ops_def)

end
