(* ===== verification/Plaid_Slack.thy ===== *)
theory Plaid_Slack
  imports Plaid_Api
begin

text \<open>
  The Slack service, \<^verbatim>\<open>runtime/plaid/src/apis/slack\<close>, with the parameters and request bodies of
  \<^verbatim>\<open>runtime/plaid-stl/src/slack/mod.rs\<close>. A call names a configured bot, whose token is sent with the request. The HTTP
  client and the JSON codecs are parameters.
\<close>

subsection \<open>Parameters\<close>

record post_message_params =
  pm_bot :: string
  pm_body :: string

record schedule_message_params =
  sm_bot :: string
  sm_body :: string

record delete_scheduled_message_params =
  dsm_bot :: string
  dsm_channel :: string
  dsm_scheduled_message_id :: string

record conversations_history_params =
  chy_bot :: string
  chy_channel :: string
  chy_limit :: "u32 option"
  chy_oldest :: "string option"

record update_message_params =
  um_bot :: string
  um_body :: string

record view_open_params =
  vo_bot :: string
  vo_body :: string

record get_id_from_email_params =
  gife_bot :: string
  gife_email :: string

record get_presence_params =
  gp_bot :: string
  gp_id :: string

record get_dnd_info_params =
  gdi_bot :: string
  gdi_id :: string

record user_info_params =
  ui_bot :: string
  ui_id :: string

record create_channel_params =
  cc_bot :: string
  cc_name :: string
  cc_is_private :: bool

record invite_to_channel_params =
  itc_bot :: string
  itc_channel :: string
  itc_users :: "string list"

record remove_from_channel_params =
  rfc_bot :: string
  rfc_channel :: string
  rfc_user :: string

record post_message_request =
  pmr_message :: post_message_params
  pmr_surface_rate_limit :: bool

definition create_channel_body :: "create_channel_params \<Rightarrow> json" where
  "create_channel_body p = JObject [(''name'', JString (cc_name p)), (''is_private'', JBool (cc_is_private p))]"

definition invite_to_channel_body :: "invite_to_channel_params \<Rightarrow> json" where
  "invite_to_channel_body p = JObject [(''channel'', JString (itc_channel p)), (''users'', JString (join '','' (itc_users p)))]"

definition remove_from_channel_body :: "remove_from_channel_params \<Rightarrow> json" where
  "remove_from_channel_body p = JObject [(''channel'', JString (rfc_channel p)), (''user'', JString (rfc_user p))]"

definition delete_scheduled_message_body :: "delete_scheduled_message_params \<Rightarrow> json" where
  "delete_scheduled_message_body p =
     JObject [(''channel'', JString (dsm_channel p)), (''scheduled_message_id'', JString (dsm_scheduled_message_id p))]"

subsection \<open>Requests\<close>

datatype apis =
    PostMessage post_message_params
  | ScheduleMessage schedule_message_params
  | DeleteScheduledMessage delete_scheduled_message_params
  | ConversationsHistory conversations_history_params
  | UpdateMessage update_message_params
  | ViewsOpen view_open_params
  | LookupByEmail get_id_from_email_params
  | GetPresence get_presence_params
  | GetDndInfo get_dnd_info_params
  | UserInfo user_info_params
  | CreateChannel create_channel_params
  | InviteToChannel invite_to_channel_params
  | RemoveFromChannel remove_from_channel_params

record 'w slack_ops =
  slack_send :: "http_request \<Rightarrow> 'w \<Rightarrow> http_response \<times> 'w"
  slack_to_string :: "json \<Rightarrow> string option"
  de_webhook :: "string \<Rightarrow> (string, string) hashmap option"
  de_post_message :: "string \<Rightarrow> post_message_request option"
  de_schedule_message :: "string \<Rightarrow> schedule_message_params option"
  de_delete_scheduled_message :: "string \<Rightarrow> delete_scheduled_message_params option"
  de_conversations_history :: "string \<Rightarrow> conversations_history_params option"
  de_update_message :: "string \<Rightarrow> update_message_params option"
  de_view_open :: "string \<Rightarrow> view_open_params option"
  de_get_id_from_email :: "string \<Rightarrow> get_id_from_email_params option"
  de_get_presence :: "string \<Rightarrow> get_presence_params option"
  de_get_dnd_info :: "string \<Rightarrow> get_dnd_info_params option"
  de_user_info :: "string \<Rightarrow> user_info_params option"
  de_create_channel :: "string \<Rightarrow> create_channel_params option"
  de_invite_to_channel :: "string \<Rightarrow> invite_to_channel_params option"
  de_remove_from_channel :: "string \<Rightarrow> remove_from_channel_params option"
  de_generic :: "string \<Rightarrow> string + bool"
  de_presence :: "string \<Rightarrow> string + bool"
  de_dnd :: "string \<Rightarrow> string + bool"
  de_user :: "string \<Rightarrow> string + bool \<times> string"
  de_channel :: "string \<Rightarrow> string + bool"

record slack =
  slack_webhooks :: "(string, string) hashmap"
  slack_bot_tokens :: "(string, string) hashmap"

definition SLACK_API_URL :: string where
  "SLACK_API_URL = ''https://slack.com/api/''"

definition slack_post :: "string \<Rightarrow> string \<Rightarrow> http_request" where
  "slack_post api body =
     (http POST (SLACK_API_URL @ api))\<lparr>hq_body := TextBody body, hq_headers := [(''Content-Type'', ''application/json; charset=utf-8'')]\<rparr>"

definition slack_get :: "string \<Rightarrow> (string \<times> string) list \<Rightarrow> http_request" where
  "slack_get api query = (http GET (SLACK_API_URL @ api))\<lparr>hq_query := query\<rparr>"

definition body_or_default :: "'w slack_ops \<Rightarrow> json \<Rightarrow> string" where
  "body_or_default H v = (case slack_to_string H v of Some s \<Rightarrow> s | None \<Rightarrow> [])"

fun build_request :: "'w slack_ops \<Rightarrow> apis \<Rightarrow> http_request" where
  "build_request H (PostMessage p) = slack_post ''chat.postMessage'' (pm_body p)"
| "build_request H (ScheduleMessage p) = slack_post ''chat.scheduleMessage'' (sm_body p)"
| "build_request H (DeleteScheduledMessage p) =
     slack_post ''chat.deleteScheduledMessage'' (body_or_default H (delete_scheduled_message_body p))"
| "build_request H (ConversationsHistory p) =
     slack_get ''conversations.history''
       ([(''channel'', chy_channel p), (''include_all_metadata'', ''true'')]
        @ (case chy_limit p of Some l \<Rightarrow> [(''limit'', decimal (unat l))] | None \<Rightarrow> [])
        @ (case chy_oldest p of Some t \<Rightarrow> [(''oldest'', t)] | None \<Rightarrow> []))"
| "build_request H (UpdateMessage p) = slack_post ''chat.update'' (um_body p)"
| "build_request H (ViewsOpen p) = slack_post ''views.open'' (vo_body p)"
| "build_request H (LookupByEmail p) = slack_get ''users.lookupByEmail'' [(''email'', gife_email p)]"
| "build_request H (GetPresence p) = slack_get ''users.getPresence'' [(''user'', gp_id p)]"
| "build_request H (GetDndInfo p) = slack_get ''dnd.info'' [(''user'', gdi_id p)]"
| "build_request H (UserInfo p) = slack_get ''users.info'' [(''user'', ui_id p)]"
| "build_request H (CreateChannel p) = slack_post ''conversations.create'' (body_or_default H (create_channel_body p))"
| "build_request H (InviteToChannel p) = slack_post ''conversations.invite'' (body_or_default H (invite_to_channel_body p))"
| "build_request H (RemoveFromChannel p) = slack_post ''conversations.kick'' (body_or_default H (remove_from_channel_body p))"

definition get_token :: "slack \<Rightarrow> string \<Rightarrow> api_error + string" where
  "get_token S bot_name = (case hm_get (slack_bot_tokens S) bot_name of Some t \<Rightarrow> Inr t | None \<Rightarrow> Inl (SlackError (UnknownBot bot_name)))"

definition slack_answer :: "http_response \<Rightarrow> api_error + u16 \<times> string" where
  "slack_answer a =
     (case a of Inl e \<Rightarrow> Inl (NetworkError e) | Inr (status, text) \<Rightarrow> Inr (status, text_or_default text))"

definition call_slack :: "'w slack_ops \<Rightarrow> slack \<Rightarrow> string \<Rightarrow> apis \<Rightarrow> ('w, u16 \<times> string) api_call" where
  "call_slack H S bot_name api =
     and_then (lift (get_token S bot_name)) (\<lambda>token.
     send_call (slack_send H) slack_answer
       ((build_request H api)\<lparr>hq_headers := hq_headers (build_request H api) @ [(''Authorization'', ''Bearer '' @ token)]\<rparr>))"

subsection \<open>Answers\<close>

definition slack_status :: "u16 \<Rightarrow> api_error" where
  "slack_status status = SlackError (SlackUnexpectedStatusCode status)"

definition on_ok :: "(string \<Rightarrow> api_error + 'a) \<Rightarrow> u16 \<times> string \<Rightarrow> ('w, 'a) api_call" where
  "on_ok f = (\<lambda>(status, reply). if status = 200 then lift (f reply) else err (slack_status status))"

text \<open>
  The source parses an answer and then looks at its field \<^verbatim>\<open>ok\<close>; when it cannot be parsed, some functions report the answer
  and some the error of the parser.
\<close>

definition ok_response :: "'w slack_ops \<Rightarrow> string \<Rightarrow> api_error + string" where
  "ok_response H reply =
     (case de_generic H reply of
        Inr True \<Rightarrow> Inr reply
      | _ \<Rightarrow> Inl (SlackError (SlackUnexpectedPayload reply)))"

definition any_response :: "'w slack_ops \<Rightarrow> string \<Rightarrow> api_error + string" where
  "any_response H reply =
     (case de_generic H reply of Inr _ \<Rightarrow> Inr reply | Inl _ \<Rightarrow> Inl (SlackError (SlackUnexpectedPayload reply)))"

definition typed_response :: "(string \<Rightarrow> string + bool) \<Rightarrow> string \<Rightarrow> api_error + string" where
  "typed_response parse reply =
     (case parse reply of
        Inl e \<Rightarrow> Inl (SlackError (SlackUnexpectedPayload e))
      | Inr True \<Rightarrow> Inr reply
      | Inr False \<Rightarrow> Inl (SlackError (SlackUnexpectedPayload reply)))"

definition zero :: "api_error + string \<Rightarrow> api_error + u32" where
  "zero r = map_sum id (\<lambda>_. 0) r"

subsection \<open>Functions\<close>

definition views_open where
  "views_open H S params =
     and_then (ok_or BadRequest (de_view_open H params)) (\<lambda>p.
     and_then (call_slack H S (vo_bot p) (ViewsOpen p)) (on_ok (\<lambda>r. zero (ok_response H r))))"

definition post_message where
  "post_message H S params =
     and_then (ok_or BadRequest (de_post_message H params)) (\<lambda>p.
     and_then (call_slack H S (pm_bot (pmr_message p)) (PostMessage (pmr_message p))) (\<lambda>(status, reply).
     if status = 200 then lift (ok_response H reply)
     else if status = 429 \<and> pmr_surface_rate_limit p then ok reply
     else err (slack_status status)))"

definition schedule_message where
  "schedule_message H S params =
     and_then (ok_or BadRequest (de_schedule_message H params)) (\<lambda>p.
     and_then (call_slack H S (sm_bot p) (ScheduleMessage p)) (on_ok (any_response H)))"

definition delete_scheduled_message where
  "delete_scheduled_message H S params =
     and_then (ok_or BadRequest (de_delete_scheduled_message H params)) (\<lambda>p.
     and_then (call_slack H S (dsm_bot p) (DeleteScheduledMessage p)) (on_ok (any_response H)))"

definition conversations_history where
  "conversations_history H S params =
     and_then (ok_or BadRequest (de_conversations_history H params)) (\<lambda>p.
     and_then (call_slack H S (chy_bot p) (ConversationsHistory p)) (on_ok (ok_response H)))"

definition update_message where
  "update_message H S params =
     and_then (ok_or BadRequest (de_update_message H params)) (\<lambda>p.
     and_then (call_slack H S (um_bot p) (UpdateMessage p)) (on_ok (ok_response H)))"

definition get_id_from_email where
  "get_id_from_email H S params =
     and_then (ok_or BadRequest (de_get_id_from_email H params)) (\<lambda>p.
     and_then (call_slack H S (gife_bot p) (LookupByEmail p)) (on_ok (\<lambda>reply.
       case de_user H reply of
         Inl e \<Rightarrow> Inl (SlackError (SlackUnexpectedPayload e))
       | Inr (is_ok, user_id) \<Rightarrow> if \<not> is_ok then Inl (SlackError (SlackUnexpectedPayload reply)) else Inr user_id)))"

definition get_presence where
  "get_presence H S params =
     and_then (ok_or BadRequest (de_get_presence H params)) (\<lambda>p.
     and_then (call_slack H S (gp_bot p) (GetPresence p)) (on_ok (typed_response (de_presence H))))"

definition get_dnd where
  "get_dnd H S params =
     and_then (ok_or BadRequest (de_get_dnd_info H params)) (\<lambda>p.
     and_then (call_slack H S (gdi_bot p) (GetDndInfo p)) (on_ok (typed_response (de_dnd H))))"

definition user_info where
  "user_info H S params =
     and_then (ok_or BadRequest (de_user_info H params)) (\<lambda>p.
     and_then (call_slack H S (ui_bot p) (UserInfo p)) (on_ok (typed_response (\<lambda>r. map_sum id fst (de_user H r)))))"

definition create_channel where
  "create_channel H S params =
     and_then (ok_or BadRequest (de_create_channel H params)) (\<lambda>p.
     and_then (call_slack H S (cc_bot p) (CreateChannel p)) (on_ok (typed_response (de_channel H))))"

definition invite_to_channel where
  "invite_to_channel H S params =
     and_then (ok_or BadRequest (de_invite_to_channel H params)) (\<lambda>p.
     and_then (call_slack H S (itc_bot p) (InviteToChannel p)) (on_ok (\<lambda>r. zero (typed_response (de_generic H) r))))"

definition remove_from_channel where
  "remove_from_channel H S params =
     and_then (ok_or BadRequest (de_remove_from_channel H params)) (\<lambda>p.
     and_then (call_slack H S (rfc_bot p) (RemoveFromChannel p)) (on_ok (\<lambda>r. zero (typed_response (de_generic H) r))))"

definition webhook_answer :: "http_response \<Rightarrow> api_error + u32" where
  "webhook_answer a =
     (case a of
        Inl e \<Rightarrow> Inl (NetworkError e)
      | Inr (status, _) \<Rightarrow> if status = 200 then Inr 0 else Inl (slack_status status))"

definition post_to_hook where
  "post_to_hook H hook body =
     send_call (slack_send H) webhook_answer ((http POST (''https://hooks.slack.com/services/'' @ hook))\<lparr>hq_body := TextBody body\<rparr>)"

definition post_to_arbitrary_webhook where
  "post_to_arbitrary_webhook H params =
     and_then (ok_or BadRequest (de_webhook H params)) (\<lambda>request.
     and_then (ok_or (MissingParameter ''hook'') (hm_get request ''hook'')) (\<lambda>hook.
     and_then (ok_or (MissingParameter ''body'') (hm_get request ''body'')) (\<lambda>body.
     post_to_hook H hook body)))"

definition post_to_named_webhook where
  "post_to_named_webhook H S params =
     and_then (ok_or BadRequest (de_webhook H params)) (\<lambda>request.
     and_then (ok_or (MissingParameter ''hook_name'') (hm_get request ''hook_name'')) (\<lambda>hook_name.
     and_then (ok_or (MissingParameter ''body'') (hm_get request ''body'')) (\<lambda>body.
     and_then (ok_or (SlackError (UnknownHook hook_name)) (hm_get (slack_webhooks S) hook_name)) (\<lambda>hook.
     post_to_hook H hook body))))"

definition slack_int_functions where
  "slack_int_functions H S params (pm :: plaid_module) =
     [(''views_open'', views_open H S params), (''post_to_arbitrary_webhook'', post_to_arbitrary_webhook H params),
      (''post_to_named_webhook'', post_to_named_webhook H S params), (''invite_to_channel'', invite_to_channel H S params),
      (''remove_from_channel'', remove_from_channel H S params)]"

definition slack_string_functions where
  "slack_string_functions H S params (pm :: plaid_module) =
     [(''post_message'', post_message H S params), (''update_message'', update_message H S params),
      (''schedule_message'', schedule_message H S params), (''delete_scheduled_message'', delete_scheduled_message H S params),
      (''conversations_history'', conversations_history H S params), (''get_id_from_email'', get_id_from_email H S params),
      (''get_presence'', get_presence H S params), (''get_dnd'', get_dnd H S params), (''user_info'', user_info H S params),
      (''create_channel'', create_channel H S params)]"

definition with_slack where
  "with_slack H S = with_service ''slack'' None (slack_int_functions H S) (slack_string_functions H S)"

subsection \<open>What the service may send\<close>

text \<open>
  A request is permitted when it goes to a method of the Slack API with the token of a configured bot, or to a webhook of
  Slack without any token. In test mode channels are neither created nor changed.
\<close>

definition slack_methods :: "bool \<Rightarrow> (http_method \<times> string) list" where
  "slack_methods test =
     [(POST, ''chat.postMessage''), (POST, ''chat.scheduleMessage''), (POST, ''chat.deleteScheduledMessage''), (GET, ''conversations.history''),
      (POST, ''chat.update''), (POST, ''views.open''), (GET, ''users.lookupByEmail''), (GET, ''users.getPresence''), (GET, ''dnd.info''),
      (GET, ''users.info'')]
     @ (if test then [] else [(POST, ''conversations.create''), (POST, ''conversations.invite''), (POST, ''conversations.kick'')])"

definition authorization :: "http_request \<Rightarrow> string list" where
  "authorization r = map snd (filter (\<lambda>(k, v). k = ''Authorization'') (hq_headers r))"

definition slack_permitted :: "slack \<Rightarrow> bool \<Rightarrow> http_request \<Rightarrow> bool" where
  "slack_permitted S test r \<longleftrightarrow>
     (\<exists>(m, api) \<in> set (slack_methods test). \<exists>bot_name token. hq_method r = m \<and> hq_url r = SLACK_API_URL @ api
        \<and> hm_get (slack_bot_tokens S) bot_name = Some token \<and> authorization r = [''Bearer '' @ token])
     \<or> (\<exists>hook. hq_method r = POST \<and> hq_url r = ''https://hooks.slack.com/services/'' @ hook \<and> authorization r = [])"

definition slack_step :: "'w slack_ops \<Rightarrow> slack \<Rightarrow> bool \<Rightarrow> plaid_module \<Rightarrow> 'w \<Rightarrow> 'w \<Rightarrow> bool" where
  "slack_step H S test pm = sends (slack_send H) (slack_permitted S test)"

lemma slack_methods_mono: "set (slack_methods True) \<subseteq> set (slack_methods False)"
  by (auto simp: slack_methods_def)

lemma slack_step_reads: "slack_step H S True pm w w' \<Longrightarrow> slack_step H S False pm w w'"
  unfolding slack_step_def sends_def slack_permitted_def using slack_methods_mono by blast

lemma slack_post_sel [simp]:
  "hq_method (slack_post api body) = POST" "hq_url (slack_post api body) = SLACK_API_URL @ api"
  "authorization ((slack_post api body)\<lparr>hq_headers := hq_headers (slack_post api body) @ [(''Authorization'', v)]\<rparr>) = [v]"
  by (simp_all add: slack_post_def authorization_def)

lemma slack_get_sel [simp]:
  "hq_method (slack_get api q) = GET" "hq_url (slack_get api q) = SLACK_API_URL @ api"
  "authorization ((slack_get api q)\<lparr>hq_headers := hq_headers (slack_get api q) @ [(''Authorization'', v)]\<rparr>) = [v]"
  by (simp_all add: slack_get_def authorization_def)

fun api_in_test_mode :: "apis \<Rightarrow> bool" where
  "api_in_test_mode (CreateChannel _) = False"
| "api_in_test_mode (InviteToChannel _) = False"
| "api_in_test_mode (RemoveFromChannel _) = False"
| "api_in_test_mode _ = True"

lemma build_request_permitted:
  assumes "hm_get (slack_bot_tokens S) bot_name = Some token" and "test \<longrightarrow> api_in_test_mode api"
  shows "slack_permitted S test ((build_request H api)\<lparr>hq_headers := hq_headers (build_request H api) @ [(''Authorization'', ''Bearer '' @ token)]\<rparr>)"
  unfolding slack_permitted_def
  by (rule disjI1, cases api) (use assms in \<open>auto simp: slack_methods_def intro!: exI [of _ bot_name]\<close>)

lemma does_then_call_slack:
  assumes "test \<longrightarrow> api_in_test_mode api" and "\<And>x. does (slack_step H S test pm) (f x) Q"
  shows "does (slack_step H S test pm) (and_then (call_slack H S bot_name api) f) Q"
  unfolding call_slack_def slack_step_def
  by (intro does_intros does_then_any [OF does_send_call] build_request_permitted [where bot_name = bot_name])
    (use assms in \<open>auto simp: get_token_def slack_step_def split: option.splits\<close>)

lemma on_ok_does [does_intros]: "does R (on_ok f x) (\<lambda>_. True)"
  unfolding on_ok_def by (intro does_intros TrueI)

lemma post_to_hook_does [does_intros]: "does (slack_step H S test pm) (post_to_hook H hook body) (\<lambda>_. True)"
  unfolding post_to_hook_def slack_step_def
  by (rule does_send_call) (auto simp: slack_permitted_def authorization_def)

lemmas slack_function_defs = views_open_def post_message_def schedule_message_def delete_scheduled_message_def conversations_history_def
  update_message_def get_id_from_email_def get_presence_def get_dnd_def user_info_def create_channel_def invite_to_channel_def
  remove_from_channel_def post_to_arbitrary_webhook_def post_to_named_webhook_def

lemma slack_functions_do:
  "does (slack_step H S test pm) (views_open H S params) (\<lambda>_. True)"
  "does (slack_step H S test pm) (post_message H S params) (\<lambda>_. True)"
  "does (slack_step H S test pm) (schedule_message H S params) (\<lambda>_. True)"
  "does (slack_step H S test pm) (delete_scheduled_message H S params) (\<lambda>_. True)"
  "does (slack_step H S test pm) (conversations_history H S params) (\<lambda>_. True)"
  "does (slack_step H S test pm) (update_message H S params) (\<lambda>_. True)"
  "does (slack_step H S test pm) (get_id_from_email H S params) (\<lambda>_. True)"
  "does (slack_step H S test pm) (get_presence H S params) (\<lambda>_. True)"
  "does (slack_step H S test pm) (get_dnd H S params) (\<lambda>_. True)"
  "does (slack_step H S test pm) (user_info H S params) (\<lambda>_. True)"
  "does (slack_step H S False pm) (create_channel H S params) (\<lambda>_. True)"
  "does (slack_step H S False pm) (invite_to_channel H S params) (\<lambda>_. True)"
  "does (slack_step H S False pm) (remove_from_channel H S params) (\<lambda>_. True)"
  "does (slack_step H S test pm) (post_to_arbitrary_webhook H params) (\<lambda>_. True)"
  "does (slack_step H S test pm) (post_to_named_webhook H S params) (\<lambda>_. True)"
  unfolding slack_function_defs by (intro does_intros does_then_call_slack TrueI; simp)+

lemmas slack_decls = slack_functions_def api_fn_def ALLOW_IN_TEST_MODE_def DISALLOW_IN_TEST_MODE_def

interpretation slack: read_only_service "''slack''" None "slack_int_functions H S" "slack_string_functions H S" slack_functions "slack_step H S" for H S
  by unfold_locales
    (auto simp: slack_decls slack_int_functions_def slack_string_functions_def slack_functions_do intro: slack_step_reads)

subsection \<open>Properties\<close>

text \<open>
  C27. The tokens of bots stay with Slack. Whatever a rule passes to a Slack function, a request that carries a token carries
  the one of a configured bot and goes to one of thirteen methods of the Slack API; a request to a webhook goes to
  Slack's host for webhooks and carries no token; in test mode channels are neither created nor changed.
\<close>

theorem slack_tokens_confined:
  assumes "d \<in> set slack_functions" and "w' = snd (snd (host_call W (with_slack H S A) d env p n rp rn w))"
  shows "(slack_step H S (test_mode (env_module env)) (env_module env))\<^sup>*\<^sup>* w w'"
  unfolding assms(2) with_slack_def by (rule slack.host_call_steps [OF assms(1)])

definition sample_slack_ops :: "(http_request list) slack_ops" where
  "sample_slack_ops =
     \<lparr>slack_send = (\<lambda>r w. (Inr (200, Inr ''{}''), r # w)), slack_to_string = (\<lambda>_. Some ''{}''), de_webhook = (\<lambda>_. None),
      de_post_message = (\<lambda>_. Some \<lparr>pmr_message = \<lparr>pm_bot = ''b'', pm_body = ''x''\<rparr>, pmr_surface_rate_limit = False\<rparr>),
      de_schedule_message = (\<lambda>_. None), de_delete_scheduled_message = (\<lambda>_. None), de_conversations_history = (\<lambda>_. None), de_update_message = (\<lambda>_. None), de_view_open = (\<lambda>_. None), de_get_id_from_email = (\<lambda>_. None), de_get_presence = (\<lambda>_. None), de_get_dnd_info = (\<lambda>_. None), de_user_info = (\<lambda>_. None), de_create_channel = (\<lambda>_. None), de_invite_to_channel = (\<lambda>_. None), de_remove_from_channel = (\<lambda>_. None),
      de_generic = (\<lambda>_. Inr True), de_presence = (\<lambda>_. Inr True), de_dnd = (\<lambda>_. Inr True), de_user = (\<lambda>_. Inr (True, ''u'')),
      de_channel = (\<lambda>_. Inr True)\<rparr>"

definition sample_slack :: slack where
  "sample_slack = \<lparr>slack_webhooks = [], slack_bot_tokens = [(''b'', ''secret'')]\<rparr>"

theorem slack_tokens_confined_witness:
  "let d = api_fn ''slack'' ''post_message'' True ALLOW_IN_TEST_MODE;
       w' = snd (snd (host_call flat_ops (with_slack sample_slack_ops sample_slack idle_services) d sample_caller 0 0 0 4 []))
   in map (\<lambda>r. (hq_url r, authorization r)) w' = [(''https://slack.com/api/chat.postMessage'', [''Bearer secret''])]
    \<and> (slack_step sample_slack_ops sample_slack (test_mode (env_module sample_caller)) (env_module sample_caller))\<^sup>*\<^sup>* [] w'"
proof -
  let ?d = "api_fn ''slack'' ''post_message'' True ALLOW_IN_TEST_MODE"
  have "?d \<in> set slack_functions" by (simp add: slack_functions_def)
  note slack_tokens_confined [OF this refl, where W = flat_ops and H = sample_slack_ops and S = sample_slack and A = idle_services
      and env = sample_caller and p = 0 and n = 0 and rp = 0 and rn = 4 and w = "[]"]
  moreover have "map (\<lambda>r. (hq_url r, authorization r)) (snd (snd (host_call flat_ops (with_slack sample_slack_ops sample_slack idle_services) ?d sample_caller 0 0 0 4 [])))
      = [(''https://slack.com/api/chat.postMessage'', [''Bearer secret''])]"
    by (simp add: host_call_def api_function_buffer_def api_prologue_def with_slack_def with_service_def api_fn_def slack_string_functions_def
        post_message_def call_slack_def get_token_def call_defs send_call_def hm_get_def slack_answer_def text_or_default_def ok_response_def
        sample_slack_ops_def sample_slack_def idle_services_def slack_post_def SLACK_API_URL_def authorization_def
        sample_caller_def sample_env_def sample_module_def get_memory_def safely_get_string_def flat_read_string_def flat_read_def
        safely_write_data_back_def flat_write_def Let_def as_bytes_def ALLOW_IN_TEST_MODE_def)
  ultimately show ?thesis by (simp add: Let_def)
qed

end
