(* ===== verification/Plaid_Alerts.thy ===== *)
theory Plaid_Alerts
  imports Plaid_Api
begin

text \<open>
  Three services that act with a configured credential: Okta (\<^verbatim>\<open>runtime/plaid/src/apis/okta\<close>), PagerDuty
  (\<^verbatim>\<open>apis/pagerduty\<close>) and Splunk (\<^verbatim>\<open>apis/splunk\<close>). The HTTP client, the JSON codecs, the clock and the signing of tokens are
  parameters. The codec of the requests to PagerDuty and of the removal from an Okta group is that of borrowed strings.
\<close>

subsection \<open>Okta\<close>

datatype 'k okta_authentication = ApiKey string | OktaApp string 'k

record 'k okta =
  okta_domain :: string
  okta_auth :: "'k okta_authentication"

datatype okta_operation = GetUserInfo | RemoveUserFromGroup

fun to_okta_scope :: "okta_operation \<Rightarrow> string" where
  "to_okta_scope GetUserInfo = ''okta.users.read''"
| "to_okta_scope RemoveUserFromGroup = ''okta.groups.manage''"

record ('k, 'w) alert_ops =
  alert_send :: "http_request \<Rightarrow> 'w \<Rightarrow> http_response \<times> 'w"
  epoch_seconds :: "'w \<Rightarrow> u64 option \<times> 'w"
  sign_rs256 :: "json \<Rightarrow> 'k \<Rightarrow> string option"
  de_access_token :: "string \<Rightarrow> string option"
  de_strings :: "string \<Rightarrow> (string, string) hashmap option"
  de_trigger :: "string \<Rightarrow> (string \<times> string) option"
  de_incident_alerts :: "string \<Rightarrow> string option"
  reencode_alerts :: "string \<Rightarrow> string option option"
  de_value :: "string \<Rightarrow> json option"
  ser_value :: "json \<Rightarrow> string option"

definition token_url :: "'k okta \<Rightarrow> string" where
  "token_url K = ''https://'' @ okta_domain K @ ''/oauth2/v1/token''"

text \<open>The signed assertion: the time is cast to \<^verbatim>\<open>i64\<close>, and the addition of thirty seconds wraps around.\<close>

definition get_jwt :: "('k, 'w) alert_ops \<Rightarrow> 'k okta \<Rightarrow> string \<Rightarrow> 'k \<Rightarrow> ('w, string) api_call" where
  "get_jwt H K client_id key =
     and_then (op_call (epoch_seconds H) (\<lambda>t. case t of Some n \<Rightarrow> Inr n | None \<Rightarrow> Inl (OktaError JwtSignatureFailure))) (\<lambda>now.
     ok_or (OktaError JwtSignatureFailure) (sign_rs256 H (JObject [(''iss'', JString client_id), (''sub'', JString client_id),
        (''aud'', JString (token_url K)), (''exp'', JInt (sint (now + 30))), (''iat'', JInt (sint now))]) key))"

definition token_answer :: "('k, 'w) alert_ops \<Rightarrow> http_response \<Rightarrow> api_error + string" where
  "token_answer H a =
     (case a of
        Inl e \<Rightarrow> Inl (OktaError (AuthenticationFailure e))
      | Inr (status, text) \<Rightarrow>
          if status \<noteq> 200 then
            (case text of Inl e \<Rightarrow> Inl (OktaError (AuthenticationFailure e)) | Inr _ \<Rightarrow> Inl (OktaError (OktaUnexpectedStatusCode status)))
          else (case text of
                  Inl _ \<Rightarrow> Inl (OktaError BadJsonResponse)
                | Inr s \<Rightarrow> (case de_access_token H s of Some t \<Rightarrow> Inr t | None \<Rightarrow> Inl (OktaError BadJsonResponse))))"

definition get_access_token :: "('k, 'w) alert_ops \<Rightarrow> 'k okta \<Rightarrow> okta_operation \<Rightarrow> string \<Rightarrow> 'k \<Rightarrow> ('w, string) api_call" where
  "get_access_token H K op client_id key =
     and_then (get_jwt H K client_id key) (\<lambda>assertion.
     send_call (alert_send H) (token_answer H)
       ((http POST (token_url K))\<lparr>hq_headers := [(''Accept'', ''application/json'')],
          hq_body := FormBody [(''grant_type'', ''client_credentials''), (''scope'', to_okta_scope op),
            (''client_assertion_type'', ''urn:ietf:params:oauth:client-assertion-type:jwt-bearer''), (''client_assertion'', assertion)]\<rparr>))"

definition get_authorization_header :: "('k, 'w) alert_ops \<Rightarrow> 'k okta \<Rightarrow> okta_operation \<Rightarrow> ('w, string) api_call" where
  "get_authorization_header H K op =
     (case okta_auth K of
        ApiKey token \<Rightarrow> ok (''SSWS '' @ token)
      | OktaApp client_id key \<Rightarrow> and_then (get_access_token H K op client_id key) (\<lambda>t. ok (''Bearer '' @ t)))"

definition okta_request :: "'k okta \<Rightarrow> http_method \<Rightarrow> string \<Rightarrow> string \<Rightarrow> http_request" where
  "okta_request K m path auth =
     (http m (''https://'' @ okta_domain K @ path))\<lparr>hq_headers :=
        [(''Authorization'', auth), (''Content-Type'', ''application/json''), (''Accept'', ''application/json'')]\<rparr>"

definition get_user_data where
  "get_user_data H K query =
     and_then (get_authorization_header H K GetUserInfo) (\<lambda>auth.
     send_call (alert_send H)
       (\<lambda>a. case a of
              Inl e \<Rightarrow> Inl (NetworkError e)
            | Inr (status, text) \<Rightarrow>
                (case text of
                   Inl e \<Rightarrow> Inl (NetworkError e)
                 | Inr t \<Rightarrow> if status \<noteq> 200 then Inl (OktaError (OktaUnexpectedStatusCode status)) else Inr t))
       (okta_request K GET (''/api/v1/users/'' @ query) auth))"

definition remove_user_from_group where
  "remove_user_from_group H K params =
     and_then (ok_or BadRequest (de_strings H params)) (\<lambda>request.
     and_then (ok_or BadRequest (hm_get request ''user_id'')) (\<lambda>user_id.
     and_then (ok_or BadRequest (hm_get request ''group_id'')) (\<lambda>group_id.
     and_then (get_authorization_header H K RemoveUserFromGroup) (\<lambda>auth.
     send_call (alert_send H)
       (\<lambda>a. case a of
              Inl e \<Rightarrow> Inl (NetworkError e)
            | Inr (status, _) \<Rightarrow> if status = 204 then Inr (0 :: u32) else Inl (OktaError (OktaUnexpectedStatusCode status)))
       (okta_request K DELETE (''/api/v1/groups/'' @ group_id @ ''/users/'' @ user_id) auth)))))"

subsection \<open>PagerDuty\<close>

record pagerduty =
  pd_services :: "(string, string) hashmap"
  pd_get_incident_alerts :: "(string \<times> string list) option"

definition PAGERDUTY_ENQUEUE_ADDRESS :: string where
  "PAGERDUTY_ENQUEUE_ADDRESS = ''https://events.pagerduty.com/v2/enqueue''"

definition PAGERDUTY_API_ADDRESS :: string where
  "PAGERDUTY_API_ADDRESS = ''https://api.pagerduty.com''"

datatype trigger_incident_result = TriggerSuccess | TriggerBadRequest | TriggerUnknownService | TriggerFailed

fun trigger_code :: "trigger_incident_result \<Rightarrow> u32" where
  "trigger_code TriggerSuccess = 0"
| "trigger_code TriggerBadRequest = 1"
| "trigger_code TriggerUnknownService = 2"
| "trigger_code TriggerFailed = 3"

definition trigger_incident where
  "trigger_incident H P request pm =
     (case de_trigger H request of
        None \<Rightarrow> ok (trigger_code TriggerBadRequest)
      | Some (service_name, description) \<Rightarrow>
          (case hm_get (pd_services P) service_name of
             None \<Rightarrow> ok (trigger_code TriggerUnknownService)
           | Some routing_key \<Rightarrow>
               send_call (alert_send H)
                 (\<lambda>a. case a of
                        Inl e \<Rightarrow> Inl (PagerDutyError (PdNetworkError e))
                      | Inr (status, _) \<Rightarrow> Inr (trigger_code (if status \<ge> 200 \<and> status < 300 then TriggerSuccess else TriggerFailed)))
                 ((http POST PAGERDUTY_ENQUEUE_ADDRESS)\<lparr>hq_body := JsonBody (JObject [(''routing_key'', JString routing_key),
                    (''event_action'', JString ''trigger''), (''payload'', JObject [(''summary'', JString description),
                    (''source'', JString (mod_name pm)), (''severity'', JString ''error'')])])\<rparr>)))"

definition valid_pagerduty_incident_id :: "string \<Rightarrow> bool" where
  "valid_pagerduty_incident_id i \<longleftrightarrow> i \<noteq> [] \<and> length i \<le> 64 \<and> list_all is_alnum i"

definition config_for_get_incident_alerts :: "pagerduty \<Rightarrow> plaid_module \<Rightarrow> api_error + string" where
  "config_for_get_incident_alerts P pm =
     (case pd_get_incident_alerts P of
        None \<Rightarrow> Inl (ConfigurationError ''PagerDuty get_incident_alerts is not configured'')
      | Some (token, allowed) \<Rightarrow> if mod_name pm \<notin> set allowed then Inl BadRequest else Inr token)"

definition get_incident_alerts where
  "get_incident_alerts H P request pm =
     and_then (ok_or BadRequest (de_incident_alerts H request)) (\<lambda>incident_id.
     and_then (lift (config_for_get_incident_alerts P pm)) (\<lambda>token.
     if \<not> valid_pagerduty_incident_id incident_id then err BadRequest
     else
     send_call (alert_send H)
       (\<lambda>a. case a of
              Inl e \<Rightarrow> Inl (PagerDutyError (PdNetworkError e))
            | Inr (status, text) \<Rightarrow>
                if \<not> (status \<ge> 200 \<and> status < 300) then Inl (PagerDutyError (PdUnexpectedStatusCode status))
                else (case reencode_alerts H (text_or_default text) of
                        None \<Rightarrow> Inl (PagerDutyError PdUnexpectedPayload)
                      | Some None \<Rightarrow> Inl ImpossibleError
                      | Some (Some s) \<Rightarrow> Inr s))
       ((http GET (PAGERDUTY_API_ADDRESS @ ''/incidents/'' @ incident_id @ ''/alerts''))\<lparr>hq_headers :=
          [(''Accept'', ''application/vnd.pagerduty+json;version=2''), (''Authorization'', ''Token token='' @ token)]\<rparr>)))"

subsection \<open>Splunk\<close>

record splunk =
  splunk_endpoint :: string
  hec_tokens :: "(string, string) hashmap"

definition post_hec where
  "post_hec H L params =
     and_then (ok_or BadRequest (de_strings H params)) (\<lambda>request.
     and_then (ok_or (MissingParameter ''hec_name'') (hm_get request ''hec_name'')) (\<lambda>hec_name.
     and_then (ok_or (MissingParameter ''log'') (hm_get request ''log'')) (\<lambda>log.
     and_then (ok_or (SplunkError (UnknownHec hec_name)) (hm_get (hec_tokens L) hec_name)) (\<lambda>token.
     and_then (ok_or BadRequest (de_value H log)) (\<lambda>event.
     and_then (ok_or BadRequest (ser_value H (JObject [(''event'', event)]))) (\<lambda>body.
     send_call (alert_send H)
       (\<lambda>a. case a of
              Inl e \<Rightarrow> Inl (NetworkError e)
            | Inr (status, _) \<Rightarrow> if status = 200 then Inr (0 :: u32) else Inl (SplunkError (SplunkUnexpectedStatusCode status)))
       ((http POST (splunk_endpoint L))\<lparr>hq_headers :=
          [(''Content-Type'', ''application/json; charset=utf-8''), (''Authorization'', ''Splunk '' @ token)], hq_body := TextBody body\<rparr>)))))))"

subsection \<open>What the services may send\<close>

record 'k alerts =
  al_okta :: "'k okta"
  al_pagerduty :: pagerduty
  al_splunk :: splunk

definition okta_int_functions where
  "okta_int_functions H C params (pm :: plaid_module) = [(''remove_user_from_group'', remove_user_from_group H (al_okta C) params)]"

definition okta_string_functions where
  "okta_string_functions H C params (pm :: plaid_module) = [(''get_user_data'', get_user_data H (al_okta C) params)]"

definition pagerduty_int_functions where
  "pagerduty_int_functions H C params pm = [(''trigger_incident'', trigger_incident H (al_pagerduty C) params pm)]"

definition pagerduty_string_functions where
  "pagerduty_string_functions H C params pm = [(''get_incident_alerts'', get_incident_alerts H (al_pagerduty C) params pm)]"

definition splunk_int_functions where
  "splunk_int_functions H C params (pm :: plaid_module) = [(''post_hec'', post_hec H (al_splunk C) params)]"

definition with_alerts where
  "with_alerts H C A =
     with_service ''okta'' None (okta_int_functions H C) (okta_string_functions H C)
       (with_service ''pagerduty'' None (pagerduty_int_functions H C) (pagerduty_string_functions H C)
         (with_service ''splunk'' None (splunk_int_functions H C) (\<lambda>_ _. []) A))"

text \<open>
  The credential of Okta. A service configured with an API key sends that key. One configured as an application asks
  Okta's token endpoint for an access token of the scope it needs, with an assertion about its own client identifier that
  is signed with its configured key and valid for thirty seconds from a reading of the clock; what it sends is an access
  token that such a request was answered with.
\<close>

definition okta_assertion :: "('k, 'w) alert_ops \<Rightarrow> 'k okta \<Rightarrow> string \<Rightarrow> bool" where
  "okta_assertion H K j \<longleftrightarrow>
     (\<exists>client key now w. okta_auth K = OktaApp client key \<and> fst (epoch_seconds H w) = Some now
       \<and> sign_rs256 H (JObject [(''iss'', JString client), (''sub'', JString client),
            (''aud'', JString (''https://'' @ okta_domain K @ ''/oauth2/v1/token'')), (''exp'', JInt (sint (now + 30))),
            (''iat'', JInt (sint now))]) key = Some j)"

definition okta_token_request :: "('k, 'w) alert_ops \<Rightarrow> 'k okta \<Rightarrow> string \<Rightarrow> http_request \<Rightarrow> bool" where
  "okta_token_request H K scope r \<longleftrightarrow>
     hq_method r = POST \<and> hq_url r = ''https://'' @ okta_domain K @ ''/oauth2/v1/token''
     \<and> hq_headers r = [(''Accept'', ''application/json'')]
     \<and> (\<exists>j. okta_assertion H K j \<and> hq_body r = FormBody [(''grant_type'', ''client_credentials''), (''scope'', scope),
            (''client_assertion_type'', ''urn:ietf:params:oauth:client-assertion-type:jwt-bearer''), (''client_assertion'', j)])"

definition okta_credential :: "('k, 'w) alert_ops \<Rightarrow> 'k okta \<Rightarrow> string \<Rightarrow> string \<Rightarrow> bool" where
  "okta_credential H K scope auth \<longleftrightarrow>
     (case okta_auth K of
        ApiKey key \<Rightarrow> auth = ''SSWS '' @ key
      | OktaApp _ _ \<Rightarrow> (\<exists>r w s t. okta_token_request H K scope r \<and> fst (alert_send H r w) = Inr (200, Inr s)
           \<and> de_access_token H s = Some t \<and> auth = ''Bearer '' @ t))"

definition okta_message :: "'k okta \<Rightarrow> http_method \<Rightarrow> string \<Rightarrow> string \<Rightarrow> http_request \<Rightarrow> bool" where
  "okta_message K m path auth r \<longleftrightarrow> hq_method r = m \<and> hq_url r = ''https://'' @ okta_domain K @ path \<and> hq_body r = NoBody
     \<and> hq_headers r = [(''Authorization'', auth), (''Content-Type'', ''application/json''), (''Accept'', ''application/json'')]"

text \<open>
  The credentials and where each may go: those of Okta to addresses of its domain (the scope for groups only outside test
  mode), the routing key of a service to PagerDuty's queue, the token for alerts to the alerts of one incident for the
  rules listed for it, the token of a Splunk collector to its endpoint.
\<close>

inductive alert_permitted :: "('k, 'w) alert_ops \<Rightarrow> 'k alerts \<Rightarrow> bool \<Rightarrow> plaid_module \<Rightarrow> http_request \<Rightarrow> bool" for H C test pm where
  okta_token: "scope = ''okta.users.read'' \<or> scope = ''okta.groups.manage'' \<and> \<not> test \<Longrightarrow> okta_token_request H (al_okta C) scope r \<Longrightarrow>
    alert_permitted H C test pm r"
| okta_user: "okta_credential H (al_okta C) ''okta.users.read'' auth \<Longrightarrow> okta_message (al_okta C) GET (''/api/v1/users/'' @ q) auth r \<Longrightarrow>
    alert_permitted H C test pm r"
| okta_group: "\<not> test \<Longrightarrow> okta_credential H (al_okta C) ''okta.groups.manage'' auth \<Longrightarrow>
    okta_message (al_okta C) DELETE (''/api/v1/groups/'' @ g @ ''/users/'' @ u) auth r \<Longrightarrow> alert_permitted H C test pm r"
| pd_incident: "\<not> test \<Longrightarrow> hm_get (pd_services (al_pagerduty C)) s = Some key \<Longrightarrow> hq_method r = POST \<Longrightarrow>
    hq_url r = ''https://events.pagerduty.com/v2/enqueue'' \<Longrightarrow>
    hq_body r = JsonBody (JObject [(''routing_key'', JString key), (''event_action'', JString ''trigger''),
      (''payload'', JObject [(''summary'', JString t), (''source'', JString (mod_name pm)), (''severity'', JString ''error'')])]) \<Longrightarrow>
    hq_headers r = [] \<Longrightarrow> alert_permitted H C test pm r"
| pd_alerts: "pd_get_incident_alerts (al_pagerduty C) = Some (token, rules) \<Longrightarrow> mod_name pm \<in> set rules \<Longrightarrow> hq_method r = GET \<Longrightarrow>
    fills [Lit ''https://api.pagerduty.com'', Lit ''/incidents/'', Hole is_alnum, Lit ''/alerts''] (hq_url r) \<Longrightarrow> hq_body r = NoBody \<Longrightarrow>
    hq_headers r = [(''Accept'', ''application/vnd.pagerduty+json;version=2''), (''Authorization'', ''Token token='' @ token)] \<Longrightarrow>
    alert_permitted H C test pm r"
| splunk_event: "hm_get (hec_tokens (al_splunk C)) name = Some token \<Longrightarrow> hq_method r = POST \<Longrightarrow> hq_url r = splunk_endpoint (al_splunk C) \<Longrightarrow>
    hq_headers r = [(''Content-Type'', ''application/json; charset=utf-8''), (''Authorization'', ''Splunk '' @ token)] \<Longrightarrow>
    ser_value H (JObject [(''event'', e)]) = Some body \<Longrightarrow> hq_body r = TextBody body \<Longrightarrow> alert_permitted H C test pm r"

inductive alert_step :: "('k, 'w) alert_ops \<Rightarrow> 'k alerts \<Rightarrow> bool \<Rightarrow> plaid_module \<Rightarrow> 'w \<Rightarrow> 'w \<Rightarrow> bool" for H C test pm where
  alert_sends: "sends (alert_send H) (alert_permitted H C test pm) w w' \<Longrightarrow> alert_step H C test pm w w'"
| reads_clock: "alert_step H C test pm w (snd (epoch_seconds H w))"

lemma alert_permitted_mono: "alert_permitted H C True pm r \<Longrightarrow> alert_permitted H C False pm r"
  by (induction rule: alert_permitted.induct) (blast intro: okta_token okta_user pd_alerts splunk_event)+

lemma alert_step_reads: "alert_step H C True pm w w' \<Longrightarrow> alert_step H C False pm w w'"
proof (induction rule: alert_step.induct)
  case (alert_sends w w')
  then have "sends (alert_send H) (alert_permitted H C False pm) w w'" unfolding sends_def by (metis alert_permitted_mono)
  then show ?case by (rule alert_step.alert_sends)
qed (rule reads_clock)

lemma does_alert_send_answer:
  assumes "alert_permitted H C test pm r" and "\<And>w x. answer (fst (alert_send H r w)) = Inr x \<Longrightarrow> Q x"
  shows "does (alert_step H C test pm) (send_call (alert_send H) answer r) Q"
proof -
  have "alert_step H C test pm w (snd (alert_send H r w))" for w
    using assms(1) by (intro alert_sends) (auto simp: sends_def)
  then show ?thesis
    using assms(2) unfolding does_def send_call_def by (auto split: prod.split) (metis r_into_rtranclp snd_conv, metis fst_conv)
qed

lemma does_alert_send:
  "alert_permitted H C test pm r \<Longrightarrow> does (alert_step H C test pm) (send_call (alert_send H) answer r) (\<lambda>_. True)"
  by (rule does_alert_send_answer) simp_all

lemmas alert_rules = does_intros does_then_any [OF does_alert_send] does_alert_send

lemma get_jwt_does:
  assumes "okta_auth K = OktaApp client key"
  shows "does (alert_step H C test pm) (get_jwt H K client key) (okta_assertion H K)"
  unfolding get_jwt_def
proof (rule does_and_then)
  show "does (alert_step H C test pm) (op_call (epoch_seconds H) (\<lambda>t. case t of Some n \<Rightarrow> Inr n | None \<Rightarrow> Inl (OktaError JwtSignatureFailure)))
      (\<lambda>now. \<exists>w. fst (epoch_seconds H w) = Some now)"
    unfolding does_def op_call_def
    by (auto split: prod.split option.splits) ((metis r_into_rtranclp reads_clock snd_conv)+, metis fst_conv)
qed (rule does_ok_or, unfold okta_assertion_def token_url_def, use assms in blast)

lemma authorization_header_does:
  assumes "to_okta_scope op = ''okta.users.read'' \<or> to_okta_scope op = ''okta.groups.manage'' \<and> \<not> test"
  shows "does (alert_step H C test pm) (get_authorization_header H (al_okta C) op) (okta_credential H (al_okta C) (to_okta_scope op))"
proof (cases "okta_auth (al_okta C)")
  case (ApiKey key)
  then show ?thesis unfolding get_authorization_header_def by (auto intro!: does_intros simp: okta_credential_def)
next
  case (OktaApp client key)
  define req where "req j = (http POST (token_url (al_okta C)))\<lparr>hq_headers := [(''Accept'', ''application/json'')],
      hq_body := FormBody [(''grant_type'', ''client_credentials''), (''scope'', to_okta_scope op),
        (''client_assertion_type'', ''urn:ietf:params:oauth:client-assertion-type:jwt-bearer''), (''client_assertion'', j)]\<rparr>" for j
  have req: "okta_token_request H (al_okta C) (to_okta_scope op) (req j)" if "okta_assertion H (al_okta C) j" for j
    using that by (simp add: okta_token_request_def req_def token_url_def)
  have "does (alert_step H C test pm) (send_call (alert_send H) (token_answer H) (req j))
      (\<lambda>t. okta_credential H (al_okta C) (to_okta_scope op) (''Bearer '' @ t))" if j: "okta_assertion H (al_okta C) j" for j
  proof (rule does_alert_send_answer)
    show "alert_permitted H C test pm (req j)" using assms req [OF j] by (rule okta_token)
    fix w t assume "token_answer H (fst (alert_send H (req j) w)) = Inr t"
    then obtain s where "fst (alert_send H (req j) w) = Inr (200, Inr s)" "de_access_token H s = Some t"
      unfolding token_answer_def by (auto split: sum.splits if_splits option.splits)
    then show "okta_credential H (al_okta C) (to_okta_scope op) (''Bearer '' @ t)"
      using req [OF j] unfolding okta_credential_def OktaApp by auto
  qed
  then have "does (alert_step H C test pm) (get_access_token H (al_okta C) op client key)
      (\<lambda>t. okta_credential H (al_okta C) (to_okta_scope op) (''Bearer '' @ t))"
    unfolding get_access_token_def req_def [symmetric] by (rule does_and_then [OF get_jwt_does [OF OktaApp]])
  then show ?thesis
    unfolding get_authorization_header_def OktaApp by (auto intro: does_and_then does_ok)
qed

lemma okta_message_request [simp]: "okta_message K m path auth (okta_request K m path auth)"
  by (simp add: okta_message_def okta_request_def http_def)

lemma alerts_do:
  "does (alert_step H C False pm) (remove_user_from_group H (al_okta C) params) (\<lambda>_. True)"
  "does (alert_step H C test pm) (get_user_data H (al_okta C) params) (\<lambda>_. True)"
  unfolding remove_user_from_group_def get_user_data_def
  by (intro alert_rules does_and_then [OF authorization_header_does [where op = RemoveUserFromGroup]]
      okta_group [OF _ _ okta_message_request]; simp)
    (intro alert_rules does_and_then [OF authorization_header_does [where op = GetUserInfo]]
      okta_user [OF _ okta_message_request]; simp)

lemma trigger_incident_does: "does (alert_step H C False pm) (trigger_incident H (al_pagerduty C) params pm) (\<lambda>_. True)"
  unfolding trigger_incident_def
  by (intro alert_rules TrueI) (auto intro!: pd_incident simp: PAGERDUTY_ENQUEUE_ADDRESS_def http_def)

lemma get_incident_alerts_does: "does (alert_step H C test pm) (get_incident_alerts H (al_pagerduty C) params pm) (\<lambda>_. True)"
  unfolding get_incident_alerts_def
proof (intro alert_rules TrueI)
  fix i token
  assume token: "config_for_get_incident_alerts (al_pagerduty C) pm = Inr token" and i: "\<not> \<not> valid_pagerduty_incident_id i"
  have "fills [Lit ''https://api.pagerduty.com'', Lit ''/incidents/'', Hole is_alnum, Lit ''/alerts'']
      (PAGERDUTY_API_ADDRESS @ ''/incidents/'' @ i @ ''/alerts'')"
    unfolding PAGERDUTY_API_ADDRESS_def by (intro fills_intros) (use i in \<open>simp add: valid_pagerduty_incident_id_def\<close>)
  with token show "alert_permitted H C test pm ((http GET (PAGERDUTY_API_ADDRESS @ ''/incidents/'' @ i @ ''/alerts''))\<lparr>hq_headers :=
          [(''Accept'', ''application/vnd.pagerduty+json;version=2''), (''Authorization'', ''Token token='' @ token)]\<rparr>)"
    by (auto simp: config_for_get_incident_alerts_def http_def simp del: fills.simps append.simps split: option.splits if_splits prod.splits intro: pd_alerts)
qed

lemma post_hec_does: "does (alert_step H C test pm) (post_hec H (al_splunk C) params) (\<lambda>_. True)"
  unfolding post_hec_def by (intro alert_rules; rule splunk_event) simp_all

lemmas alert_decls = okta_functions_def pagerduty_functions_def splunk_functions_def api_fn_def ALLOW_IN_TEST_MODE_def DISALLOW_IN_TEST_MODE_def

interpretation okta: read_only_service "''okta''" None "okta_int_functions H C" "okta_string_functions H C" okta_functions "alert_step H C" for H C
  by unfold_locales
    (auto simp: alert_decls okta_int_functions_def okta_string_functions_def alerts_do intro: alert_step_reads)

interpretation pagerduty: read_only_service "''pagerduty''" None "pagerduty_int_functions H C" "pagerduty_string_functions H C"
  pagerduty_functions "alert_step H C" for H C
  by unfold_locales
    (auto simp: alert_decls pagerduty_int_functions_def pagerduty_string_functions_def trigger_incident_does get_incident_alerts_does
      intro: alert_step_reads)

interpretation splunk: read_only_service "''splunk''" None "splunk_int_functions H C" "\<lambda>_ _. []" splunk_functions "alert_step H C" for H C
  by unfold_locales (auto simp: alert_decls splunk_int_functions_def post_hec_does intro: alert_step_reads)

lemma alert_function_cases:
  "d \<in> set okta_functions \<Longrightarrow> decl_api d = ''okta''"
  "d \<in> set pagerduty_functions \<Longrightarrow> decl_api d = ''pagerduty''"
  "d \<in> set splunk_functions \<Longrightarrow> decl_api d = ''splunk''"
  by (auto simp: alert_decls)

subsection \<open>Properties\<close>

text \<open>
  C28. Credentials go only where they belong. Whatever a rule passes to a function of Okta, PagerDuty or Splunk, every
  request that results is one of a fixed few, to an address of that service and with the credential that is configured for
  it: the configured API key of Okta, or an access token that Okta issued for an assertion signed with the configured key
  and for the scope of this function; the routing key of a configured PagerDuty service, and nothing else with it than the
  description and the name of the rule; the token for alerts, only for the rules listed for it; the token of a configured
  Splunk collector. In test mode no incident is triggered, nobody is removed from a group, and no token that could do so
  is asked for. (The query for a user and the identifiers of a user and a group are put into the address as the rule gives
  them.)
\<close>

theorem alert_credentials_confined:
  assumes "d \<in> set okta_functions \<union> set pagerduty_functions \<union> set splunk_functions"
    and "w' = snd (snd (host_call W (with_alerts H C A) d env p n rp rn w))"
  shows "(alert_step H C (test_mode (env_module env)) (env_module env))\<^sup>*\<^sup>* w w'"
proof -
  consider "d \<in> set okta_functions" | "d \<in> set pagerduty_functions" | "d \<in> set splunk_functions" using assms(1) by blast
  then show ?thesis
  proof cases
    case 1
    then show ?thesis unfolding assms(2) with_alerts_def by (rule okta.host_call_steps)
  next
    case 2
    then show ?thesis unfolding assms(2) with_alerts_def
      using alert_function_cases by (simp add: host_call_other_service pagerduty.host_call_steps)
  next
    case 3
    then show ?thesis unfolding assms(2) with_alerts_def
      using alert_function_cases by (simp add: host_call_other_service splunk.host_call_steps)
  qed
qed

definition sample_alert_ops :: "(unit, http_request list) alert_ops" where
  "sample_alert_ops =
     \<lparr>alert_send = (\<lambda>r w. (Inr (200, Inr ''{}''), r # w)), epoch_seconds = (\<lambda>w. (Some 5, w)), sign_rs256 = (\<lambda>_ _. Some ''j''),
      de_access_token = (\<lambda>_. Some ''t''), de_strings = (\<lambda>_. None), de_trigger = (\<lambda>_. None), de_incident_alerts = (\<lambda>_. Some ''P1''),
      reencode_alerts = (\<lambda>s. Some (Some s)), de_value = (\<lambda>_. None), ser_value = (\<lambda>_. None)\<rparr>"

definition sample_alerts :: "unit alerts" where
  "sample_alerts = \<lparr>al_okta = \<lparr>okta_domain = ''x.okta.com'', okta_auth = OktaApp ''c'' ()\<rparr>,
     al_pagerduty = \<lparr>pd_services = [], pd_get_incident_alerts = Some (''s'', [''m.wasm''])\<rparr>,
     al_splunk = \<lparr>splunk_endpoint = [], hec_tokens = []\<rparr>\<rparr>"

theorem alert_credentials_confined_witness:
  "let d = api_fn ''pagerduty'' ''get_incident_alerts'' True ALLOW_IN_TEST_MODE;
       w' = snd (snd (host_call flat_ops (with_alerts sample_alert_ops sample_alerts idle_services) d sample_caller 0 0 0 4 []))
   in map hq_url w' = [''https://api.pagerduty.com/incidents/P1/alerts'']
    \<and> (alert_step sample_alert_ops sample_alerts (test_mode (env_module sample_caller)) (env_module sample_caller))\<^sup>*\<^sup>* [] w'"
proof -
  let ?d = "api_fn ''pagerduty'' ''get_incident_alerts'' True ALLOW_IN_TEST_MODE"
  have "?d \<in> set okta_functions \<union> set pagerduty_functions \<union> set splunk_functions" by (simp add: pagerduty_functions_def)
  note alert_credentials_confined [OF this refl, where W = flat_ops and H = sample_alert_ops and C = sample_alerts and A = idle_services
      and env = sample_caller and p = 0 and n = 0 and rp = 0 and rn = 4 and w = "[]"]
  moreover have "map hq_url (snd (snd (host_call flat_ops (with_alerts sample_alert_ops sample_alerts idle_services) ?d sample_caller 0 0 0 4 [])))
      = [''https://api.pagerduty.com/incidents/P1/alerts'']"
    by (simp add: host_call_def api_function_buffer_def api_prologue_def with_alerts_def with_service_def api_fn_def pagerduty_string_functions_def
        get_incident_alerts_def config_for_get_incident_alerts_def valid_pagerduty_incident_id_def is_alnum_def is_alpha_def between_def
        call_defs send_call_def sample_alert_ops_def sample_alerts_def idle_services_def PAGERDUTY_API_ADDRESS_def text_or_default_def
        sample_caller_def sample_env_def sample_module_def get_memory_def safely_get_string_def flat_read_string_def flat_read_def
        safely_write_data_back_def flat_write_def Let_def as_bytes_def ALLOW_IN_TEST_MODE_def)
  ultimately show ?thesis by (simp add: Let_def)
qed

end
