(* ===== verification/Plaid_Chain.thy ===== *)
theory Plaid_Chain
  imports Plaid_Api
begin

text \<open>
  The blockchain service, \<^verbatim>\<open>runtime/plaid/src/apis/blockchain\<close>: the client with its node selection and retries
  (\<^verbatim>\<open>common\<close>), the functions for EVM chains (\<^verbatim>\<open>evm\<close>) and for Solana (\<^verbatim>\<open>solana\<close>), with the requests of
  \<^verbatim>\<open>runtime/plaid-stl/src/blockchain\<close>. The HTTP client, the JSON codecs and the random generator are parameters. The
  atomic index of a selector is a cell of an explicit store, which is part of the world a call acts on.
\<close>

subsection \<open>Requests\<close>

type_synonym chain_id = u64

definition chain_id_fmt :: "chain_id \<Rightarrow> string" where
  "chain_id_fmt i = decimal (unat i)"

definition chain_id_from_str :: "string \<Rightarrow> chain_id option" where
  "chain_id_from_str s =
     (case parse_nat (case s of CHR ''+'' # d # ds \<Rightarrow> d # ds | _ \<Rightarrow> s) of
        Some n \<Rightarrow> if n < 2 ^ 64 then Some (of_nat n) else None
      | None \<Rightarrow> None)"

datatype block_tag = Earliest | BlockFinalized | Latest | BlockPending | Safe | BlockNumber u64

fun block_tag_fmt :: "block_tag \<Rightarrow> string" where
  "block_tag_fmt Earliest = ''earliest''"
| "block_tag_fmt BlockFinalized = ''finalized''"
| "block_tag_fmt Latest = ''latest''"
| "block_tag_fmt BlockPending = ''pending''"
| "block_tag_fmt Safe = ''safe''"
| "block_tag_fmt (BlockNumber n) = ''0x'' @ lower_hex (unat n)"

record evm_get_transaction_request =
  gtr_chain_id :: chain_id
  gtr_hash :: string

record send_raw_transaction_request =
  srt_chain_id :: chain_id
  srt_signed_tx :: string

record get_address_metadata_request =
  gam_chain_id :: chain_id
  gam_address :: string
  gam_block_tag :: block_tag

record eth_call_request =
  ecr_chain_id :: chain_id
  ecr_to :: string
  ecr_data :: string
  ecr_block_tag :: block_tag

record estimate_gas_request =
  egr_from :: "string option"
  egr_to :: "string option"
  egr_value :: "string option"
  egr_data :: "string option"
  egr_block_tag :: block_tag
  egr_chain_id :: chain_id

record get_gas_price_request =
  ggp_chain_id :: chain_id

record get_logs_request =
  glr_chain_id :: chain_id
  glr_from_block :: block_tag
  glr_to_block :: block_tag
  glr_address :: "string list option"
  glr_topics :: "string list option"

record evm_get_block_request =
  gbr_chain_id :: chain_id
  gbr_block_tag :: block_tag
  gbr_hydrated_transactions :: bool

record get_fee_history_request =
  gfh_chain_id :: chain_id
  gfh_block_count :: u16
  gfh_block_tag :: block_tag
  gfh_reward_percentiles :: "u8 list option"

datatype cluster = Mainnet | Devnet | Testnet

fun cluster_fmt :: "cluster \<Rightarrow> string" where
  "cluster_fmt Mainnet = ''mainnet''"
| "cluster_fmt Devnet = ''devnet''"
| "cluster_fmt Testnet = ''testnet''"

definition cluster_from_str :: "string \<Rightarrow> cluster option" where
  "cluster_from_str s =
     (if s = ''mainnet'' then Some Mainnet else if s = ''devnet'' then Some Devnet
      else if s = ''testnet'' then Some Testnet else None)"

record send_transaction_request =
  str_cluster :: cluster
  str_transaction :: string

record cluster_request =
  clr_cluster :: cluster

record pubkey_request =
  pkr_cluster :: cluster
  pkr_pubkey :: string

record solana_get_transaction_request =
  sgt_cluster :: cluster
  sgt_signature :: string

record get_signature_statuses_request =
  gss_cluster :: cluster
  gss_signatures :: "string list"
  gss_search_transaction_history :: bool

record solana_get_block_request =
  sgb_cluster :: cluster
  sgb_slot :: u64

record get_multiple_accounts_request =
  gma_cluster :: cluster
  gma_pubkeys :: "string list"

record memcmp =
  mc_offset :: u64
  mc_bytes :: string
  mc_encoding :: "string option"

record data_slice =
  ds_offset :: u64
  ds_length :: u64

record program_accounts_filters =
  paf_data_size :: "u64 option"
  paf_memcmp :: "memcmp list"
  paf_data_slice :: "data_slice option"

record get_program_accounts_request =
  gpa_cluster :: cluster
  gpa_program_id :: string
  gpa_filters :: program_accounts_filters

record get_token_accounts_by_owner_request =
  gto_cluster :: cluster
  gto_owner :: string
  gto_mint :: "string option"
  gto_program_id :: "string option"

record get_minimum_balance_for_rent_exemption_request =
  gmb_cluster :: cluster
  gmb_data_length :: u64

record get_fee_for_message_request =
  gff_cluster :: cluster
  gff_message :: string

record get_recent_prioritization_fees_request =
  grp_cluster :: cluster
  grp_addresses :: "string list"

record get_signatures_for_address_request =
  gsa_cluster :: cluster
  gsa_address :: string
  gsa_limit :: "u64 option"

subsection \<open>Node selection\<close>

record node_config =
  node_uri :: string
  node_name :: string
  node_tags :: "string list option"

text \<open>A round-robin strategy holds the address of its atomic index.\<close>

datatype selection_strategy = RoundRobin nat | RandomNode

definition selection_strategy_deserializer :: "(string \<Rightarrow> string) \<Rightarrow> nat \<Rightarrow> string \<Rightarrow> selection_strategy option" where
  "selection_strategy_deserializer to_lowercase cell strategy =
     (let s = to_lowercase strategy
      in if s = ''roundrobin'' then Some (RoundRobin cell) else if s = ''random'' then Some RandomNode else None)"

record node_selector =
  ns_nodes :: "node_config list"
  selection_state :: selection_strategy

record chain_config =
  cc_nodes :: "node_config list"
  cc_selection_strategy :: selection_strategy

record ('i, 'o) chain_family_config =
  cf_chains :: "('i, chain_config) hashmap"
  cf_max_retries :: u8
  cf_options :: 'o

record ('i, 'o) blockchain_client =
  bc_node_selector :: "('i, node_selector) hashmap"
  bc_max_retries :: u8
  bc_options :: 'o

definition blockchain_client_new :: "('i, 'o) chain_family_config \<Rightarrow> ('i, 'o) blockchain_client" where
  "blockchain_client_new c =
     \<lparr>bc_node_selector = map (\<lambda>(i, cc). (i, \<lparr>ns_nodes = cc_nodes cc, selection_state = cc_selection_strategy cc\<rparr>)) (cf_chains c),
      bc_max_retries = cf_max_retries c, bc_options = cf_options c\<rparr>"

definition default_max_retries :: u8 where
  "default_max_retries = 3"

text \<open>The keys of the configured chains are parsed; one that cannot be parsed refuses the configuration.\<close>

fun deserialize_chains :: "(string \<Rightarrow> 'i option) \<Rightarrow> (string, chain_config) hashmap \<Rightarrow> ('i, chain_config) hashmap option" where
  "deserialize_chains from_str [] = Some []"
| "deserialize_chains from_str ((key, config) # cs) =
     (case from_str key of
        None \<Rightarrow> None
      | Some i \<Rightarrow> (case deserialize_chains from_str cs of None \<Rightarrow> None | Some m \<Rightarrow> Some (hm_insert i config m)))"

record 'w chain_ops =
  chain_send :: "http_request \<Rightarrow> 'w \<Rightarrow> http_response \<times> 'w"
  chain_to_string :: "json \<Rightarrow> string option"
  choose_node :: "node_config list \<Rightarrow> 'w \<Rightarrow> node_config option \<times> 'w"
  other_calls :: "'w \<Rightarrow> (nat \<Rightarrow> u64) \<Rightarrow> nat \<Rightarrow> u64"
  de_evm_get_transaction_request :: "string \<Rightarrow> evm_get_transaction_request option"
  de_send_raw_transaction_request :: "string \<Rightarrow> send_raw_transaction_request option"
  de_get_address_metadata_request :: "string \<Rightarrow> get_address_metadata_request option"
  de_eth_call_request :: "string \<Rightarrow> eth_call_request option"
  de_estimate_gas_request :: "string \<Rightarrow> estimate_gas_request option"
  de_get_gas_price_request :: "string \<Rightarrow> get_gas_price_request option"
  de_get_logs_request :: "string \<Rightarrow> get_logs_request option"
  de_evm_get_block_request :: "string \<Rightarrow> evm_get_block_request option"
  de_get_fee_history_request :: "string \<Rightarrow> get_fee_history_request option"
  de_send_transaction_request :: "string \<Rightarrow> send_transaction_request option"
  de_cluster_request :: "string \<Rightarrow> cluster_request option"
  de_pubkey_request :: "string \<Rightarrow> pubkey_request option"
  de_solana_get_transaction_request :: "string \<Rightarrow> solana_get_transaction_request option"
  de_get_signature_statuses_request :: "string \<Rightarrow> get_signature_statuses_request option"
  de_solana_get_block_request :: "string \<Rightarrow> solana_get_block_request option"
  de_get_multiple_accounts_request :: "string \<Rightarrow> get_multiple_accounts_request option"
  de_get_program_accounts_request :: "string \<Rightarrow> get_program_accounts_request option"
  de_get_token_accounts_by_owner_request :: "string \<Rightarrow> get_token_accounts_by_owner_request option"
  de_get_minimum_balance_for_rent_exemption_request :: "string \<Rightarrow> get_minimum_balance_for_rent_exemption_request option"
  de_get_fee_for_message_request :: "string \<Rightarrow> get_fee_for_message_request option"
  de_get_recent_prioritization_fees_request :: "string \<Rightarrow> get_recent_prioritization_fees_request option"
  de_get_signatures_for_address_request :: "string \<Rightarrow> get_signatures_for_address_request option"

type_synonym 'w chain_world = "(nat \<Rightarrow> u64) \<times> 'w"

definition select_node :: "'w chain_ops \<Rightarrow> node_selector \<Rightarrow> 'w chain_world \<Rightarrow> node_config option \<times> 'w chain_world" where
  "select_node H s = (\<lambda>(cells, w).
     if ns_nodes s = [] then (None, cells, w)
     else case selection_state s of
            RoundRobin cell \<Rightarrow> (Some (ns_nodes s ! (unat (cells cell) mod length (ns_nodes s))), cells, w)
          | RandomNode \<Rightarrow> (case choose_node H (ns_nodes s) w of (node, w') \<Rightarrow> (node, cells, w')))"

definition mark_current_node_failed :: "node_selector \<Rightarrow> 'w chain_world \<Rightarrow> 'w chain_world" where
  "mark_current_node_failed s = (\<lambda>(cells, w).
     case selection_state s of
       RoundRobin cell \<Rightarrow> (if ns_nodes s \<noteq> [] then cells(cell := cells cell + 1) else cells, w)
     | RandomNode \<Rightarrow> (cells, w))"

subsection \<open>Calls to a node\<close>

definition is_retryable :: "blockchain_error \<Rightarrow> bool" where
  "is_retryable e =
     (case e of
        CallFailed status _ \<Rightarrow> status \<ge> 500 \<and> status < 600 \<or> status = 429
      | ChainNetworkError _ \<Rightarrow> True
      | _ \<Rightarrow> False)"

definition json_rpc_request :: "string \<Rightarrow> json option \<Rightarrow> json" where
  "json_rpc_request rpc_method params =
     JObject [(''jsonrpc'', JString ''2.0''), (''method'', JString rpc_method), (''params'', j_opt id params), (''id'', JInt 1)]"

definition rpc_post :: "string \<Rightarrow> string \<Rightarrow> http_request" where
  "rpc_post rpc body = (http POST rpc)\<lparr>hq_headers := [(''Content-Type'', ''application/json'')], hq_body := TextBody body\<rparr>"

definition rpc_answer :: "http_response \<Rightarrow> blockchain_error + string" where
  "rpc_answer a =
     (case a of
        Inl e \<Rightarrow> Inl (ChainNetworkError e)
      | Inr (status, text) \<Rightarrow>
          if \<not> (status \<ge> 200 \<and> status < 300) then
            Inl (CallFailed status (case text of Inr t \<Rightarrow> t | Inl _ \<Rightarrow> ''Failed to get error message''))
          else (case text of Inr t \<Rightarrow> Inr t | Inl e \<Rightarrow> Inl (ChainNetworkError e)))"

definition execute :: "'w chain_ops \<Rightarrow> json \<Rightarrow> string \<Rightarrow> 'w \<Rightarrow> (blockchain_error + string) \<times> 'w" where
  "execute H request rpc w =
     (case chain_to_string H request of
        None \<Rightarrow> (Inl ChainSerdeError, w)
      | Some body \<Rightarrow> (case chain_send H (rpc_post rpc body) w of (a, w') \<Rightarrow> (rpc_answer a, w')))"

definition get_node_selector ::
  "('i \<Rightarrow> string) \<Rightarrow> ('i, 'o) blockchain_client \<Rightarrow> 'i \<Rightarrow> ('w, node_selector) api_call" where
  "get_node_selector fmt B i = ok_or (BlockchainError (NoNodes (fmt i))) (hm_get (bc_node_selector B) i)"

text \<open>
  The loop over the attempts that are left. The indices are atomic and shared by all calls: those of other threads may move
  them while a request is under way (\<open>other_calls\<close>).
\<close>

fun rpc_attempts ::
  "'w chain_ops \<Rightarrow> node_selector \<Rightarrow> string \<Rightarrow> json \<Rightarrow> nat \<Rightarrow> blockchain_error \<Rightarrow> ('w chain_world, string) api_call" where
  "rpc_attempts H s identifier request 0 last_error w = (Inl (BlockchainError last_error), w)"
| "rpc_attempts H s identifier request (Suc n) last_error w =
     (case select_node H s w of
        (None, w) \<Rightarrow> (Inl (BlockchainError (NoNodes identifier)), w)
      | (Some node, (cells, w)) \<Rightarrow>
          (case execute H request (node_uri node) w of
             (Inr r, w) \<Rightarrow> (Inr r, (other_calls H w cells, w))
           | (Inl e, w) \<Rightarrow>
               if \<not> is_retryable e then (Inl (BlockchainError e), (other_calls H w cells, w))
               else rpc_attempts H s identifier request n e (mark_current_node_failed s (other_calls H w cells, w))))"

definition execute_rpc_call ::
  "'w chain_ops \<Rightarrow> ('i, 'o) blockchain_client \<Rightarrow> node_selector \<Rightarrow> string \<Rightarrow> json \<Rightarrow> ('w chain_world, string) api_call" where
  "execute_rpc_call H B s identifier request = rpc_attempts H s identifier request (unat (bc_max_retries B)) AllNodesFailed"

subsection \<open>EVM\<close>

datatype evm_method =
    GetTransactionByHash
  | GetTransactionReceipt
  | SendRawTransaction
  | EvmGetTransactionCount
  | EvmGetBalance
  | EstimateGas
  | Call
  | GasPrice
  | GetLogs
  | EvmGetBlock
  | GetFeeHistory

fun evm_method_fmt :: "evm_method \<Rightarrow> string" where
  "evm_method_fmt GetTransactionByHash = ''eth_getTransactionByHash''"
| "evm_method_fmt GetTransactionReceipt = ''eth_getTransactionReceipt''"
| "evm_method_fmt SendRawTransaction = ''eth_sendRawTransaction''"
| "evm_method_fmt EvmGetTransactionCount = ''eth_getTransactionCount''"
| "evm_method_fmt EvmGetBalance = ''eth_getBalance''"
| "evm_method_fmt EstimateGas = ''eth_estimateGas''"
| "evm_method_fmt Call = ''eth_call''"
| "evm_method_fmt GasPrice = ''eth_gasPrice''"
| "evm_method_fmt GetLogs = ''eth_getLogs''"
| "evm_method_fmt EvmGetBlock = ''eth_getBlockByNumber''"
| "evm_method_fmt GetFeeHistory = ''eth_feeHistory''"

definition insert_some :: "string \<Rightarrow> ('a \<Rightarrow> json) \<Rightarrow> 'a option \<Rightarrow> (string, json) hashmap \<Rightarrow> (string, json) hashmap" where
  "insert_some k f x m = (case x of Some v \<Rightarrow> hm_insert k (f v) m | None \<Rightarrow> m)"

definition address_filter :: "string list \<Rightarrow> json" where
  "address_filter addresses = (case addresses of [a] \<Rightarrow> JString a | _ \<Rightarrow> j_strings addresses)"

definition evm_get_transaction_by_hash where
  "evm_get_transaction_by_hash H B params (pm :: plaid_module) =
     and_then (ok_or (BlockchainError ChainSerdeError) (de_evm_get_transaction_request H params)) (\<lambda>request.
     and_then (get_node_selector chain_id_fmt B (gtr_chain_id request)) (\<lambda>selector.
     execute_rpc_call H B selector (chain_id_fmt (gtr_chain_id request))
       (json_rpc_request (evm_method_fmt GetTransactionByHash)
         (Some (JArray [JString (gtr_hash request)])))))"

definition evm_get_transaction_receipt where
  "evm_get_transaction_receipt H B params (pm :: plaid_module) =
     and_then (ok_or (BlockchainError ChainSerdeError) (de_evm_get_transaction_request H params)) (\<lambda>request.
     and_then (get_node_selector chain_id_fmt B (gtr_chain_id request)) (\<lambda>selector.
     execute_rpc_call H B selector (chain_id_fmt (gtr_chain_id request))
       (json_rpc_request (evm_method_fmt GetTransactionReceipt)
         (Some (JArray [JString (gtr_hash request)])))))"

definition evm_send_raw_transaction where
  "evm_send_raw_transaction H B params (pm :: plaid_module) =
     and_then (ok_or (BlockchainError ChainSerdeError) (de_send_raw_transaction_request H params)) (\<lambda>request.
     and_then (get_node_selector chain_id_fmt B (srt_chain_id request)) (\<lambda>selector.
     execute_rpc_call H B selector (chain_id_fmt (srt_chain_id request))
       (json_rpc_request (evm_method_fmt SendRawTransaction)
         (Some (JArray [JString (srt_signed_tx request)])))))"

definition evm_get_transaction_count where
  "evm_get_transaction_count H B params (pm :: plaid_module) =
     and_then (ok_or (BlockchainError ChainSerdeError) (de_get_address_metadata_request H params)) (\<lambda>request.
     and_then (get_node_selector chain_id_fmt B (gam_chain_id request)) (\<lambda>selector.
     execute_rpc_call H B selector (chain_id_fmt (gam_chain_id request))
       (json_rpc_request (evm_method_fmt EvmGetTransactionCount)
         (Some (JArray [JString (gam_address request), JString (block_tag_fmt (gam_block_tag request))])))))"

definition evm_get_balance where
  "evm_get_balance H B params (pm :: plaid_module) =
     and_then (ok_or (BlockchainError ChainSerdeError) (de_get_address_metadata_request H params)) (\<lambda>request.
     and_then (get_node_selector chain_id_fmt B (gam_chain_id request)) (\<lambda>selector.
     execute_rpc_call H B selector (chain_id_fmt (gam_chain_id request))
       (json_rpc_request (evm_method_fmt EvmGetBalance)
         (Some (JArray [JString (gam_address request), JString (block_tag_fmt (gam_block_tag request))])))))"

definition evm_estimate_gas where
  "evm_estimate_gas H B params (pm :: plaid_module) =
     and_then (ok_or (BlockchainError ChainSerdeError) (de_estimate_gas_request H params)) (\<lambda>request.
     and_then (get_node_selector chain_id_fmt B (egr_chain_id request)) (\<lambda>selector.
     execute_rpc_call H B selector (chain_id_fmt (egr_chain_id request))
       (json_rpc_request (evm_method_fmt EstimateGas)
         (Some (JArray
           [JObject (insert_some ''data'' JString (egr_data request) (insert_some ''value'' JString (egr_value request)
              (insert_some ''to'' JString (egr_to request) (insert_some ''from'' JString (egr_from request) [])))),
            JString (block_tag_fmt (egr_block_tag request))])))))"

definition evm_eth_call where
  "evm_eth_call H B params (pm :: plaid_module) =
     and_then (ok_or (BlockchainError ChainSerdeError) (de_eth_call_request H params)) (\<lambda>request.
     and_then (get_node_selector chain_id_fmt B (ecr_chain_id request)) (\<lambda>selector.
     execute_rpc_call H B selector (chain_id_fmt (ecr_chain_id request))
       (json_rpc_request (evm_method_fmt Call)
         (Some (JArray [JObject [(''to'', JString (ecr_to request)), (''data'', JString (ecr_data request))], JString (block_tag_fmt (ecr_block_tag request))])))))"

definition evm_gas_price where
  "evm_gas_price H B params (pm :: plaid_module) =
     and_then (ok_or (BlockchainError ChainSerdeError) (de_get_gas_price_request H params)) (\<lambda>request.
     and_then (get_node_selector chain_id_fmt B (ggp_chain_id request)) (\<lambda>selector.
     execute_rpc_call H B selector (chain_id_fmt (ggp_chain_id request))
       (json_rpc_request (evm_method_fmt GasPrice)
         (None))))"

definition evm_get_logs where
  "evm_get_logs H B params (pm :: plaid_module) =
     and_then (ok_or (BlockchainError ChainSerdeError) (de_get_logs_request H params)) (\<lambda>request.
     and_then (get_node_selector chain_id_fmt B (glr_chain_id request)) (\<lambda>selector.
     execute_rpc_call H B selector (chain_id_fmt (glr_chain_id request))
       (json_rpc_request (evm_method_fmt GetLogs)
         (Some (JArray
           [JObject (insert_some ''topics'' j_strings (glr_topics request) (insert_some ''address'' address_filter (glr_address request)
              (hm_insert ''toBlock'' (JString (block_tag_fmt (glr_to_block request)))
                (hm_insert ''fromBlock'' (JString (block_tag_fmt (glr_from_block request))) []))))])))))"

definition evm_get_block where
  "evm_get_block H B params (pm :: plaid_module) =
     and_then (ok_or (BlockchainError ChainSerdeError) (de_evm_get_block_request H params)) (\<lambda>request.
     and_then (get_node_selector chain_id_fmt B (gbr_chain_id request)) (\<lambda>selector.
     execute_rpc_call H B selector (chain_id_fmt (gbr_chain_id request))
       (json_rpc_request (evm_method_fmt EvmGetBlock)
         (Some (JArray [JString (block_tag_fmt (gbr_block_tag request)), JBool (gbr_hydrated_transactions request)])))))"

definition evm_get_fee_history where
  "evm_get_fee_history H B params (pm :: plaid_module) =
     and_then (ok_or (BlockchainError ChainSerdeError) (de_get_fee_history_request H params)) (\<lambda>request.
     and_then (get_node_selector chain_id_fmt B (gfh_chain_id request)) (\<lambda>selector.
     execute_rpc_call H B selector (chain_id_fmt (gfh_chain_id request))
       (json_rpc_request (evm_method_fmt GetFeeHistory)
         (Some (JArray
           [JString (''0x'' @ lower_hex (unat (gfh_block_count request))), JString (block_tag_fmt (gfh_block_tag request)),
            JArray (map (\<lambda>p. JInt (uint p)) (case gfh_reward_percentiles request of Some ps \<Rightarrow> ps | None \<Rightarrow> []))])))))"

definition blockchain_evm_string_functions where
  "blockchain_evm_string_functions H B params pm =
     [(''get_transaction_by_hash'', evm_get_transaction_by_hash H B params pm),
      (''get_transaction_receipt'', evm_get_transaction_receipt H B params pm),
      (''send_raw_transaction'', evm_send_raw_transaction H B params pm),
      (''get_transaction_count'', evm_get_transaction_count H B params pm),
      (''get_balance'', evm_get_balance H B params pm),
      (''estimate_gas'', evm_estimate_gas H B params pm),
      (''eth_call'', evm_eth_call H B params pm),
      (''gas_price'', evm_gas_price H B params pm),
      (''get_logs'', evm_get_logs H B params pm),
      (''get_block'', evm_get_block H B params pm),
      (''get_fee_history'', evm_get_fee_history H B params pm)]"

subsection \<open>Solana\<close>

datatype commitment = Processed | Confirmed | Finalized

fun commitment_json :: "commitment \<Rightarrow> json" where
  "commitment_json Processed = JString ''processed''"
| "commitment_json Confirmed = JString ''confirmed''"
| "commitment_json Finalized = JString ''finalized''"

fun block_safe :: "commitment \<Rightarrow> commitment" where
  "block_safe Processed = Confirmed"
| "block_safe Confirmed = Confirmed"
| "block_safe Finalized = Finalized"

record solana_options =
  so_commitment :: commitment

definition sol_commitment :: "('i, solana_options) blockchain_client \<Rightarrow> commitment" where
  "sol_commitment B = so_commitment (bc_options B)"

definition SPL_TOKEN_PROGRAM_ID :: string where
  "SPL_TOKEN_PROGRAM_ID = ''TokenkegQfeZyiNwAJbNbGKPFXCWuBvf9Ss623VQ5DA''"

datatype solana_method =
    SendTransaction
  | GetBalance
  | GetAccountInfo
  | GetSlot
  | GetLatestBlockhash
  | GetTransactionCount
  | GetTransaction
  | GetSignatureStatuses
  | GetBlock
  | GetMultipleAccounts
  | GetProgramAccounts
  | GetTokenAccountsByOwner
  | GetTokenAccountBalance
  | GetTokenSupply
  | GetMinimumBalanceForRentExemption
  | GetFeeForMessage
  | GetRecentPrioritizationFees
  | SimulateTransaction
  | GetSignaturesForAddress

fun solana_method_fmt :: "solana_method \<Rightarrow> string" where
  "solana_method_fmt SendTransaction = ''sendTransaction''"
| "solana_method_fmt GetBalance = ''getBalance''"
| "solana_method_fmt GetAccountInfo = ''getAccountInfo''"
| "solana_method_fmt GetSlot = ''getSlot''"
| "solana_method_fmt GetLatestBlockhash = ''getLatestBlockhash''"
| "solana_method_fmt GetTransactionCount = ''getTransactionCount''"
| "solana_method_fmt GetTransaction = ''getTransaction''"
| "solana_method_fmt GetSignatureStatuses = ''getSignatureStatuses''"
| "solana_method_fmt GetBlock = ''getBlock''"
| "solana_method_fmt GetMultipleAccounts = ''getMultipleAccounts''"
| "solana_method_fmt GetProgramAccounts = ''getProgramAccounts''"
| "solana_method_fmt GetTokenAccountsByOwner = ''getTokenAccountsByOwner''"
| "solana_method_fmt GetTokenAccountBalance = ''getTokenAccountBalance''"
| "solana_method_fmt GetTokenSupply = ''getTokenSupply''"
| "solana_method_fmt GetMinimumBalanceForRentExemption = ''getMinimumBalanceForRentExemption''"
| "solana_method_fmt GetFeeForMessage = ''getFeeForMessage''"
| "solana_method_fmt GetRecentPrioritizationFees = ''getRecentPrioritizationFees''"
| "solana_method_fmt SimulateTransaction = ''simulateTransaction''"
| "solana_method_fmt GetSignaturesForAddress = ''getSignaturesForAddress''"

definition memcmp_json :: "memcmp \<Rightarrow> json" where
  "memcmp_json m = JObject [(''memcmp'', JObject (insert_some ''encoding'' JString (mc_encoding m)
     (hm_insert ''bytes'' (JString (mc_bytes m)) (hm_insert ''offset'' (JInt (uint (mc_offset m))) []))))]"

definition program_accounts_config :: "commitment \<Rightarrow> program_accounts_filters \<Rightarrow> (string, json) hashmap" where
  "program_accounts_config c fs =
     (let config = hm_insert ''commitment'' (commitment_json c) (hm_insert ''encoding'' (JString ''base64'') []);
          filters = (case paf_data_size fs of Some n \<Rightarrow> [JObject [(''dataSize'', JInt (uint n))]] | None \<Rightarrow> []) @ map memcmp_json (paf_memcmp fs);
          config = (if filters \<noteq> [] then hm_insert ''filters'' (JArray filters) config else config)
      in insert_some ''dataSlice'' (\<lambda>d. JObject [(''offset'', JInt (uint (ds_offset d))), (''length'', JInt (uint (ds_length d)))])
           (paf_data_slice fs) config)"

definition token_filter :: "string option \<Rightarrow> string option \<Rightarrow> json" where
  "token_filter mint program_id =
     (case mint of
        Some m \<Rightarrow> JObject [(''mint'', JString m)]
      | None \<Rightarrow> JObject [(''programId'', JString (case program_id of Some p \<Rightarrow> p | None \<Rightarrow> SPL_TOKEN_PROGRAM_ID))])"

definition solana_send_signed_transaction where
  "solana_send_signed_transaction H B params (pm :: plaid_module) =
     and_then (ok_or (BlockchainError ChainSerdeError) (de_send_transaction_request H params)) (\<lambda>request.
     and_then (get_node_selector cluster_fmt B (str_cluster request)) (\<lambda>selector.
     execute_rpc_call H B selector (cluster_fmt (str_cluster request))
       (json_rpc_request (solana_method_fmt SendTransaction)
         (Some (JArray [JString (str_transaction request), JObject [(''encoding'', JString ''base64''), (''preflightCommitment'', commitment_json (sol_commitment B))]])))))"

definition solana_get_balance where
  "solana_get_balance H B params (pm :: plaid_module) =
     and_then (ok_or (BlockchainError ChainSerdeError) (de_pubkey_request H params)) (\<lambda>request.
     and_then (get_node_selector cluster_fmt B (pkr_cluster request)) (\<lambda>selector.
     execute_rpc_call H B selector (cluster_fmt (pkr_cluster request))
       (json_rpc_request (solana_method_fmt GetBalance)
         (Some (JArray [JString (pkr_pubkey request), JObject [(''commitment'', commitment_json (sol_commitment B))]])))))"

definition solana_get_account_info where
  "solana_get_account_info H B params (pm :: plaid_module) =
     and_then (ok_or (BlockchainError ChainSerdeError) (de_pubkey_request H params)) (\<lambda>request.
     and_then (get_node_selector cluster_fmt B (pkr_cluster request)) (\<lambda>selector.
     execute_rpc_call H B selector (cluster_fmt (pkr_cluster request))
       (json_rpc_request (solana_method_fmt GetAccountInfo)
         (Some (JArray [JString (pkr_pubkey request), JObject [(''encoding'', JString ''base64''), (''commitment'', commitment_json (sol_commitment B))]])))))"

definition solana_get_slot where
  "solana_get_slot H B params (pm :: plaid_module) =
     and_then (ok_or (BlockchainError ChainSerdeError) (de_cluster_request H params)) (\<lambda>request.
     and_then (get_node_selector cluster_fmt B (clr_cluster request)) (\<lambda>selector.
     execute_rpc_call H B selector (cluster_fmt (clr_cluster request))
       (json_rpc_request (solana_method_fmt GetSlot)
         (Some (JArray [JObject [(''commitment'', commitment_json (sol_commitment B))]])))))"

definition solana_get_latest_blockhash where
  "solana_get_latest_blockhash H B params (pm :: plaid_module) =
     and_then (ok_or (BlockchainError ChainSerdeError) (de_cluster_request H params)) (\<lambda>request.
     and_then (get_node_selector cluster_fmt B (clr_cluster request)) (\<lambda>selector.
     execute_rpc_call H B selector (cluster_fmt (clr_cluster request))
       (json_rpc_request (solana_method_fmt GetLatestBlockhash)
         (Some (JArray [JObject [(''commitment'', commitment_json (sol_commitment B))]])))))"

definition solana_get_transaction_count where
  "solana_get_transaction_count H B params (pm :: plaid_module) =
     and_then (ok_or (BlockchainError ChainSerdeError) (de_cluster_request H params)) (\<lambda>request.
     and_then (get_node_selector cluster_fmt B (clr_cluster request)) (\<lambda>selector.
     execute_rpc_call H B selector (cluster_fmt (clr_cluster request))
       (json_rpc_request (solana_method_fmt GetTransactionCount)
         (Some (JArray [JObject [(''commitment'', commitment_json (sol_commitment B))]])))))"

definition solana_get_transaction where
  "solana_get_transaction H B params (pm :: plaid_module) =
     and_then (ok_or (BlockchainError ChainSerdeError) (de_solana_get_transaction_request H params)) (\<lambda>request.
     and_then (get_node_selector cluster_fmt B (sgt_cluster request)) (\<lambda>selector.
     execute_rpc_call H B selector (cluster_fmt (sgt_cluster request))
       (json_rpc_request (solana_method_fmt GetTransaction)
         (Some (JArray [JString (sgt_signature request), JObject [(''commitment'', commitment_json (sol_commitment B)), (''maxSupportedTransactionVersion'', JInt 0)]])))))"

definition solana_get_signature_statuses where
  "solana_get_signature_statuses H B params (pm :: plaid_module) =
     and_then (ok_or (BlockchainError ChainSerdeError) (de_get_signature_statuses_request H params)) (\<lambda>request.
     and_then (get_node_selector cluster_fmt B (gss_cluster request)) (\<lambda>selector.
     execute_rpc_call H B selector (cluster_fmt (gss_cluster request))
       (json_rpc_request (solana_method_fmt GetSignatureStatuses)
         (Some (JArray [j_strings (gss_signatures request), JObject [(''searchTransactionHistory'', JBool (gss_search_transaction_history request))]])))))"

definition solana_get_block where
  "solana_get_block H B params (pm :: plaid_module) =
     and_then (ok_or (BlockchainError ChainSerdeError) (de_solana_get_block_request H params)) (\<lambda>request.
     and_then (get_node_selector cluster_fmt B (sgb_cluster request)) (\<lambda>selector.
     execute_rpc_call H B selector (cluster_fmt (sgb_cluster request))
       (json_rpc_request (solana_method_fmt GetBlock)
         (Some (JArray
           [JInt (uint (sgb_slot request)),
            JObject [(''encoding'', JString ''json''), (''maxSupportedTransactionVersion'', JInt 0), (''transactionDetails'', JString ''full''),
              (''rewards'', JBool False), (''commitment'', commitment_json (block_safe (sol_commitment B)))]])))))"

definition solana_get_multiple_accounts where
  "solana_get_multiple_accounts H B params (pm :: plaid_module) =
     and_then (ok_or (BlockchainError ChainSerdeError) (de_get_multiple_accounts_request H params)) (\<lambda>request.
     and_then (get_node_selector cluster_fmt B (gma_cluster request)) (\<lambda>selector.
     execute_rpc_call H B selector (cluster_fmt (gma_cluster request))
       (json_rpc_request (solana_method_fmt GetMultipleAccounts)
         (Some (JArray [j_strings (gma_pubkeys request), JObject [(''encoding'', JString ''base64''), (''commitment'', commitment_json (sol_commitment B))]])))))"

definition solana_get_program_accounts where
  "solana_get_program_accounts H B params (pm :: plaid_module) =
     and_then (ok_or (BlockchainError ChainSerdeError) (de_get_program_accounts_request H params)) (\<lambda>request.
     and_then (get_node_selector cluster_fmt B (gpa_cluster request)) (\<lambda>selector.
     execute_rpc_call H B selector (cluster_fmt (gpa_cluster request))
       (json_rpc_request (solana_method_fmt GetProgramAccounts)
         (Some (JArray [JString (gpa_program_id request), JObject (program_accounts_config (sol_commitment B) (gpa_filters request))])))))"

definition solana_get_token_accounts_by_owner where
  "solana_get_token_accounts_by_owner H B params (pm :: plaid_module) =
     and_then (ok_or (BlockchainError ChainSerdeError) (de_get_token_accounts_by_owner_request H params)) (\<lambda>request.
     and_then (get_node_selector cluster_fmt B (gto_cluster request)) (\<lambda>selector.
     execute_rpc_call H B selector (cluster_fmt (gto_cluster request))
       (json_rpc_request (solana_method_fmt GetTokenAccountsByOwner)
         (Some (JArray
           [JString (gto_owner request), token_filter (gto_mint request) (gto_program_id request),
            JObject [(''encoding'', JString ''base64''), (''commitment'', commitment_json (sol_commitment B))]])))))"

definition solana_get_token_account_balance where
  "solana_get_token_account_balance H B params (pm :: plaid_module) =
     and_then (ok_or (BlockchainError ChainSerdeError) (de_pubkey_request H params)) (\<lambda>request.
     and_then (get_node_selector cluster_fmt B (pkr_cluster request)) (\<lambda>selector.
     execute_rpc_call H B selector (cluster_fmt (pkr_cluster request))
       (json_rpc_request (solana_method_fmt GetTokenAccountBalance)
         (Some (JArray [JString (pkr_pubkey request), JObject [(''commitment'', commitment_json (sol_commitment B))]])))))"

definition solana_get_token_supply where
  "solana_get_token_supply H B params (pm :: plaid_module) =
     and_then (ok_or (BlockchainError ChainSerdeError) (de_pubkey_request H params)) (\<lambda>request.
     and_then (get_node_selector cluster_fmt B (pkr_cluster request)) (\<lambda>selector.
     execute_rpc_call H B selector (cluster_fmt (pkr_cluster request))
       (json_rpc_request (solana_method_fmt GetTokenSupply)
         (Some (JArray [JString (pkr_pubkey request), JObject [(''commitment'', commitment_json (sol_commitment B))]])))))"

definition solana_get_minimum_balance_for_rent_exemption where
  "solana_get_minimum_balance_for_rent_exemption H B params (pm :: plaid_module) =
     and_then (ok_or (BlockchainError ChainSerdeError) (de_get_minimum_balance_for_rent_exemption_request H params)) (\<lambda>request.
     and_then (get_node_selector cluster_fmt B (gmb_cluster request)) (\<lambda>selector.
     execute_rpc_call H B selector (cluster_fmt (gmb_cluster request))
       (json_rpc_request (solana_method_fmt GetMinimumBalanceForRentExemption)
         (Some (JArray [JInt (uint (gmb_data_length request)), JObject [(''commitment'', commitment_json (sol_commitment B))]])))))"

definition solana_get_fee_for_message where
  "solana_get_fee_for_message H B params (pm :: plaid_module) =
     and_then (ok_or (BlockchainError ChainSerdeError) (de_get_fee_for_message_request H params)) (\<lambda>request.
     and_then (get_node_selector cluster_fmt B (gff_cluster request)) (\<lambda>selector.
     execute_rpc_call H B selector (cluster_fmt (gff_cluster request))
       (json_rpc_request (solana_method_fmt GetFeeForMessage)
         (Some (JArray [JString (gff_message request), JObject [(''commitment'', commitment_json (sol_commitment B))]])))))"

definition solana_get_recent_prioritization_fees where
  "solana_get_recent_prioritization_fees H B params (pm :: plaid_module) =
     and_then (ok_or (BlockchainError ChainSerdeError) (de_get_recent_prioritization_fees_request H params)) (\<lambda>request.
     and_then (get_node_selector cluster_fmt B (grp_cluster request)) (\<lambda>selector.
     execute_rpc_call H B selector (cluster_fmt (grp_cluster request))
       (json_rpc_request (solana_method_fmt GetRecentPrioritizationFees)
         ((if grp_addresses request \<noteq> [] then Some (j_strings (grp_addresses request)) else None)))))"

definition solana_simulate_transaction where
  "solana_simulate_transaction H B params (pm :: plaid_module) =
     and_then (ok_or (BlockchainError ChainSerdeError) (de_send_transaction_request H params)) (\<lambda>request.
     and_then (get_node_selector cluster_fmt B (str_cluster request)) (\<lambda>selector.
     execute_rpc_call H B selector (cluster_fmt (str_cluster request))
       (json_rpc_request (solana_method_fmt SimulateTransaction)
         (Some (JArray [JString (str_transaction request), JObject [(''encoding'', JString ''base64''), (''commitment'', commitment_json (sol_commitment B))]])))))"

definition solana_get_signatures_for_address where
  "solana_get_signatures_for_address H B params (pm :: plaid_module) =
     and_then (ok_or (BlockchainError ChainSerdeError) (de_get_signatures_for_address_request H params)) (\<lambda>request.
     and_then (get_node_selector cluster_fmt B (gsa_cluster request)) (\<lambda>selector.
     execute_rpc_call H B selector (cluster_fmt (gsa_cluster request))
       (json_rpc_request (solana_method_fmt GetSignaturesForAddress)
         (Some (JArray
           [JString (gsa_address request),
            JObject (insert_some ''limit'' (\<lambda>n. JInt (uint n)) (gsa_limit request)
              (hm_insert ''commitment'' (commitment_json (block_safe (sol_commitment B))) []))])))))"

definition blockchain_solana_string_functions where
  "blockchain_solana_string_functions H B params pm =
     [(''send_signed_transaction'', solana_send_signed_transaction H B params pm),
      (''get_balance'', solana_get_balance H B params pm),
      (''get_account_info'', solana_get_account_info H B params pm),
      (''get_slot'', solana_get_slot H B params pm),
      (''get_latest_blockhash'', solana_get_latest_blockhash H B params pm),
      (''get_transaction_count'', solana_get_transaction_count H B params pm),
      (''get_transaction'', solana_get_transaction H B params pm),
      (''get_signature_statuses'', solana_get_signature_statuses H B params pm),
      (''get_block'', solana_get_block H B params pm),
      (''get_multiple_accounts'', solana_get_multiple_accounts H B params pm),
      (''get_program_accounts'', solana_get_program_accounts H B params pm),
      (''get_token_accounts_by_owner'', solana_get_token_accounts_by_owner H B params pm),
      (''get_token_account_balance'', solana_get_token_account_balance H B params pm),
      (''get_token_supply'', solana_get_token_supply H B params pm),
      (''get_minimum_balance_for_rent_exemption'', solana_get_minimum_balance_for_rent_exemption H B params pm),
      (''get_fee_for_message'', solana_get_fee_for_message H B params pm),
      (''get_recent_prioritization_fees'', solana_get_recent_prioritization_fees H B params pm),
      (''simulate_transaction'', solana_simulate_transaction H B params pm),
      (''get_signatures_for_address'', solana_get_signatures_for_address H B params pm)]"


definition with_blockchain where
  "with_blockchain H E L A =
     with_service ''blockchain'' (Some ''evm'') (\<lambda>_ _. []) (blockchain_evm_string_functions H E)
       (with_service ''blockchain'' (Some ''solana'') (\<lambda>_ _. []) (blockchain_solana_string_functions H L) A)"

subsection \<open>Identifiers\<close>

lemma chain_id_roundtrip: "chain_id_from_str (chain_id_fmt i) = Some i"
proof -
  have "chain_id_from_str (chain_id_fmt i) = (case parse_nat (decimal (unat i)) of Some n \<Rightarrow> if n < 2 ^ 64 then Some (of_nat n) else None | None \<Rightarrow> None)"
    using decimal_digits [of "unat i"] digit_not_sign unfolding chain_id_from_str_def chain_id_fmt_def
    by (cases "decimal (unat i)") (auto split: char.splits bool.splits)
  then show ?thesis using unsigned_less [of i] by simp
qed

lemma cluster_roundtrip: "cluster_from_str (cluster_fmt c) = Some c"
  by (cases c) (simp_all add: cluster_from_str_def)

subsection \<open>What a call may do\<close>

definition client_nodes :: "('i, 'o) blockchain_client \<Rightarrow> node_config list" where
  "client_nodes B = concat (map (\<lambda>(i, s). ns_nodes s) (bc_node_selector B))"

definition sends_transaction :: "string \<Rightarrow> bool" where
  "sends_transaction m \<longleftrightarrow> m = ''eth_sendRawTransaction'' \<or> m = ''sendTransaction''"

text \<open>
  A call sends JSON-RPC requests to given nodes, moves the indices of round-robin selectors and draws random nodes. With
  \<open>test\<close> it sends no transaction.
\<close>

inductive chain_step :: "'w chain_ops \<Rightarrow> node_config list \<Rightarrow> bool \<Rightarrow> 'w chain_world \<Rightarrow> 'w chain_world \<Rightarrow> bool" for H nodes test where
  rpc_sends: "node \<in> set nodes \<Longrightarrow> (test \<longrightarrow> \<not> sends_transaction m) \<Longrightarrow> chain_to_string H (json_rpc_request m ps) = Some body \<Longrightarrow>
    chain_step H nodes test (cells, w) (cells, snd (chain_send H (rpc_post (node_uri node) body) w))"
| moves_index: "chain_step H nodes test (cells, w) (cells', w)"
| draws_node: "chain_step H nodes test (cells, w) (cells, snd (choose_node H ns w))"

lemma chain_step_reads: "chain_step H nodes True w w' \<Longrightarrow> chain_step H nodes False w w'"
  by (induction rule: chain_step.induct) (auto intro: chain_step.intros)

text \<open>Functions listed in the order of their declarations.\<close>

lemma aligned_functions:
  assumes "list_all2 (\<lambda>d (name, call). decl_function d = name \<and> P (allow_in_test_mode d) call) decls fs"
    and "distinct (map decl_function decls)" and "d \<in> set decls"
  shows "\<exists>call. map_of fs (decl_function d) = Some call \<and> P (allow_in_test_mode d) call"
  using assms
proof (induction rule: list_all2_induct)
  case (Cons x xs y ys)
  then show ?case by (cases y) (auto simp: image_iff)
qed simp

lemma evm_declared:
  "d \<in> set blockchain_evm_functions \<Longrightarrow> decl_api d = ''blockchain'' \<and> decl_sub_module d = Some ''evm'' \<and> decl_error_buffer d"
  by (auto simp: blockchain_evm_functions_def sub_fn_def)

lemma solana_declared:
  "d \<in> set blockchain_solana_functions \<Longrightarrow> decl_api d = ''blockchain'' \<and> decl_sub_module d = Some ''solana'' \<and> decl_error_buffer d"
  by (auto simp: blockchain_solana_functions_def sub_fn_def)

text \<open>What is used of the crate \<^verbatim>\<open>rand\<close>: a random choice from a list is a member of it.\<close>

locale node_choice =
  fixes H :: "'w chain_ops"
  assumes choose_member: "fst (choose_node H ns w) = Some node \<Longrightarrow> node \<in> set ns"
begin

lemma select_node_step:
  assumes "select_node H s w = (r, w')"
  shows "(chain_step H nodes test)\<^sup>*\<^sup>* w w' \<and> (\<forall>node. r = Some node \<longrightarrow> node \<in> set (ns_nodes s))"
proof (cases "ns_nodes s = []")
  case True
  then show ?thesis using assms by (cases w) (auto simp: select_node_def)
next
  case False
  obtain cells v where w: "w = (cells, v)" by (cases w)
  show ?thesis
  proof (cases "selection_state s")
    case (RoundRobin cell)
    then show ?thesis using assms False by (auto simp: select_node_def w)
  next
    case RandomNode
    then have "w' = (cells, snd (choose_node H (ns_nodes s) v)) \<and> r = fst (choose_node H (ns_nodes s) v)"
      using assms False by (auto simp: select_node_def w split: prod.splits)
    then show ?thesis using choose_member [of "ns_nodes s" v] draws_node [of H nodes test cells v "ns_nodes s"]
      by (auto simp: w intro: r_into_rtranclp)
  qed
qed

lemma mark_failed_step: "chain_step H nodes test w (mark_current_node_failed s w)"
  by (cases w) (auto simp: mark_current_node_failed_def split: selection_strategy.split intro: moves_index)

lemma execute_step:
  assumes "node \<in> set nodes" and "test \<longrightarrow> \<not> sends_transaction m" and "execute H (json_rpc_request m ps) (node_uri node) v = (r, v')"
  shows "(chain_step H nodes test)\<^sup>*\<^sup>* (cells, v) (cells, v')"
proof (cases "chain_to_string H (json_rpc_request m ps)")
  case None
  then show ?thesis using assms(3) by (simp add: execute_def)
next
  case (Some body)
  then have "v' = snd (chain_send H (rpc_post (node_uri node) body) v)" using assms(3) by (auto simp: execute_def split: prod.splits)
  then show ?thesis using rpc_sends [OF assms(1,2) Some] by (auto intro: r_into_rtranclp)
qed

lemma rpc_attempts_steps:
  assumes "set (ns_nodes s) \<subseteq> set nodes" and "test \<longrightarrow> \<not> sends_transaction m"
  shows "(chain_step H nodes test)\<^sup>*\<^sup>* w (snd (rpc_attempts H s i (json_rpc_request m ps) n e w))"
proof (induction n arbitrary: e w)
  case 0
  show ?case by simp
next
  case (Suc n)
  obtain r cells v where sel: "select_node H s w = (r, cells, v)" by (rule prod_cases3)
  note start = select_node_step [OF sel, of nodes test]
  show ?case
  proof (cases r)
    case None
    then show ?thesis using start sel by simp
  next
    case (Some node)
    obtain a v' where ex: "execute H (json_rpc_request m ps) (node_uri node) v = (a, v')" by (rule prod.exhaust)
    let ?cells = "other_calls H v' cells"
    have "(chain_step H nodes test)\<^sup>*\<^sup>* w (cells, v')"
      using start execute_step [OF _ assms(2) ex, of nodes] assms(1) Some by (auto intro: rtranclp_trans)
    then have moved: "(chain_step H nodes test)\<^sup>*\<^sup>* w (?cells, v')" using moves_index by (rule rtranclp.rtrancl_into_rtrancl)
    then have "(chain_step H nodes test)\<^sup>*\<^sup>* w (mark_current_node_failed s (?cells, v'))"
        "(chain_step H nodes test)\<^sup>*\<^sup>* w (?cells, v')"
      using mark_failed_step by (auto intro: rtranclp.rtrancl_into_rtrancl)
    then show ?thesis using rtranclp_trans [OF _ Suc.IH] sel ex Some by (simp split: sum.split)
  qed
qed

lemma does_execute_rpc_call:
  assumes "hm_get (bc_node_selector B) i = Some s" and "test \<longrightarrow> \<not> sends_transaction m"
  shows "does (chain_step H (client_nodes B) test) (execute_rpc_call H B s f (json_rpc_request m ps)) (\<lambda>_. True)"
proof -
  have "set (ns_nodes s) \<subseteq> set (client_nodes B)"
    using hm_get_Some_in_set [OF assms(1)] by (force simp: client_nodes_def)
  then show ?thesis unfolding does_def execute_rpc_call_def using rpc_attempts_steps [OF _ assms(2)] by blast
qed

lemma does_rpc:
  assumes "\<And>r. test \<longrightarrow> \<not> sends_transaction m"
  shows "does (chain_step H (client_nodes B) test)
    (and_then (get_node_selector fmt B i) (\<lambda>s. execute_rpc_call H B s f (json_rpc_request m ps))) (\<lambda>_. True)"
  unfolding get_node_selector_def by (rule does_then_ok_or) (rule does_execute_rpc_call, assumption, rule assms)

lemma evm_does:
  "does (chain_step H (client_nodes B) True) (evm_get_transaction_by_hash H B params pm) (\<lambda>_. True)"
  "does (chain_step H (client_nodes B) True) (evm_get_transaction_receipt H B params pm) (\<lambda>_. True)"
  "does (chain_step H (client_nodes B) False) (evm_send_raw_transaction H B params pm) (\<lambda>_. True)"
  "does (chain_step H (client_nodes B) True) (evm_get_transaction_count H B params pm) (\<lambda>_. True)"
  "does (chain_step H (client_nodes B) True) (evm_get_balance H B params pm) (\<lambda>_. True)"
  "does (chain_step H (client_nodes B) True) (evm_estimate_gas H B params pm) (\<lambda>_. True)"
  "does (chain_step H (client_nodes B) True) (evm_eth_call H B params pm) (\<lambda>_. True)"
  "does (chain_step H (client_nodes B) True) (evm_gas_price H B params pm) (\<lambda>_. True)"
  "does (chain_step H (client_nodes B) True) (evm_get_logs H B params pm) (\<lambda>_. True)"
  "does (chain_step H (client_nodes B) True) (evm_get_block H B params pm) (\<lambda>_. True)"
  "does (chain_step H (client_nodes B) True) (evm_get_fee_history H B params pm) (\<lambda>_. True)"
  unfolding evm_get_transaction_by_hash_def evm_get_transaction_receipt_def evm_send_raw_transaction_def evm_get_transaction_count_def evm_get_balance_def evm_estimate_gas_def evm_eth_call_def evm_gas_price_def evm_get_logs_def evm_get_block_def evm_get_fee_history_def
  by (rule does_then_ok_or, rule does_rpc, simp add: sends_transaction_def)+

lemma evm_functions_keep:
  assumes "d \<in> set blockchain_evm_functions"
  shows "\<exists>call. map_of (blockchain_evm_string_functions H B params pm) (decl_function d) = Some call
    \<and> does (chain_step H (client_nodes B) (allow_in_test_mode d)) call (\<lambda>_. True)"
proof (rule aligned_functions [OF _ _ assms])
  show "list_all2 (\<lambda>d (name, call). decl_function d = name \<and> does (chain_step H (client_nodes B) (allow_in_test_mode d)) call (\<lambda>_. True))
      blockchain_evm_functions (blockchain_evm_string_functions H B params pm)"
    by (simp add: blockchain_evm_functions_def blockchain_evm_string_functions_def sub_fn_def ALLOW_IN_TEST_MODE_def DISALLOW_IN_TEST_MODE_def evm_does)
  show "distinct (map decl_function blockchain_evm_functions)"
    by (simp add: blockchain_evm_functions_def sub_fn_def)
qed

lemma solana_does:
  "does (chain_step H (client_nodes B) False) (solana_send_signed_transaction H B params pm) (\<lambda>_. True)"
  "does (chain_step H (client_nodes B) True) (solana_get_balance H B params pm) (\<lambda>_. True)"
  "does (chain_step H (client_nodes B) True) (solana_get_account_info H B params pm) (\<lambda>_. True)"
  "does (chain_step H (client_nodes B) True) (solana_get_slot H B params pm) (\<lambda>_. True)"
  "does (chain_step H (client_nodes B) True) (solana_get_latest_blockhash H B params pm) (\<lambda>_. True)"
  "does (chain_step H (client_nodes B) True) (solana_get_transaction_count H B params pm) (\<lambda>_. True)"
  "does (chain_step H (client_nodes B) True) (solana_get_transaction H B params pm) (\<lambda>_. True)"
  "does (chain_step H (client_nodes B) True) (solana_get_signature_statuses H B params pm) (\<lambda>_. True)"
  "does (chain_step H (client_nodes B) True) (solana_get_block H B params pm) (\<lambda>_. True)"
  "does (chain_step H (client_nodes B) True) (solana_get_multiple_accounts H B params pm) (\<lambda>_. True)"
  "does (chain_step H (client_nodes B) True) (solana_get_program_accounts H B params pm) (\<lambda>_. True)"
  "does (chain_step H (client_nodes B) True) (solana_get_token_accounts_by_owner H B params pm) (\<lambda>_. True)"
  "does (chain_step H (client_nodes B) True) (solana_get_token_account_balance H B params pm) (\<lambda>_. True)"
  "does (chain_step H (client_nodes B) True) (solana_get_token_supply H B params pm) (\<lambda>_. True)"
  "does (chain_step H (client_nodes B) True) (solana_get_minimum_balance_for_rent_exemption H B params pm) (\<lambda>_. True)"
  "does (chain_step H (client_nodes B) True) (solana_get_fee_for_message H B params pm) (\<lambda>_. True)"
  "does (chain_step H (client_nodes B) True) (solana_get_recent_prioritization_fees H B params pm) (\<lambda>_. True)"
  "does (chain_step H (client_nodes B) True) (solana_simulate_transaction H B params pm) (\<lambda>_. True)"
  "does (chain_step H (client_nodes B) True) (solana_get_signatures_for_address H B params pm) (\<lambda>_. True)"
  unfolding solana_send_signed_transaction_def solana_get_balance_def solana_get_account_info_def solana_get_slot_def solana_get_latest_blockhash_def solana_get_transaction_count_def solana_get_transaction_def solana_get_signature_statuses_def solana_get_block_def solana_get_multiple_accounts_def solana_get_program_accounts_def solana_get_token_accounts_by_owner_def solana_get_token_account_balance_def solana_get_token_supply_def solana_get_minimum_balance_for_rent_exemption_def solana_get_fee_for_message_def solana_get_recent_prioritization_fees_def solana_simulate_transaction_def solana_get_signatures_for_address_def
  by (rule does_then_ok_or, rule does_rpc, simp add: sends_transaction_def)+

lemma solana_functions_keep:
  assumes "d \<in> set blockchain_solana_functions"
  shows "\<exists>call. map_of (blockchain_solana_string_functions H B params pm) (decl_function d) = Some call
    \<and> does (chain_step H (client_nodes B) (allow_in_test_mode d)) call (\<lambda>_. True)"
proof (rule aligned_functions [OF _ _ assms])
  show "list_all2 (\<lambda>d (name, call). decl_function d = name \<and> does (chain_step H (client_nodes B) (allow_in_test_mode d)) call (\<lambda>_. True))
      blockchain_solana_functions (blockchain_solana_string_functions H B params pm)"
    by (simp add: blockchain_solana_functions_def blockchain_solana_string_functions_def sub_fn_def ALLOW_IN_TEST_MODE_def DISALLOW_IN_TEST_MODE_def solana_does)
  show "distinct (map decl_function blockchain_solana_functions)"
    by (simp add: blockchain_solana_functions_def sub_fn_def)
qed

end

sublocale node_choice \<subseteq> evm: read_only_service "''blockchain''" "Some ''evm''" "\<lambda>_ _. []" "blockchain_evm_string_functions H B"
  blockchain_evm_functions "\<lambda>test pm. chain_step H (client_nodes B) test" for B
proof unfold_locales
  show "\<exists>call. map_of (blockchain_evm_string_functions H B params pm) (decl_function d) = Some call
      \<and> does (chain_step H (client_nodes B) (allow_in_test_mode d)) call (\<lambda>_. True)"
    if "d \<in> set blockchain_evm_functions" for d B params pm
    by (rule evm_functions_keep [OF that])
qed (simp_all add: evm_declared chain_step_reads)

sublocale node_choice \<subseteq> solana: read_only_service "''blockchain''" "Some ''solana''" "\<lambda>_ _. []" "blockchain_solana_string_functions H B"
  blockchain_solana_functions "\<lambda>test pm. chain_step H (client_nodes B) test" for B
proof unfold_locales
  show "\<exists>call. map_of (blockchain_solana_string_functions H B params pm) (decl_function d) = Some call
      \<and> does (chain_step H (client_nodes B) (allow_in_test_mode d)) call (\<lambda>_. True)"
    if "d \<in> set blockchain_solana_functions" for d B params pm
    by (rule solana_functions_keep [OF that])
qed (simp_all add: solana_declared chain_step_reads)

context node_choice
begin

lemmas evm_call_steps = evm.host_call_steps
lemmas solana_call_steps = solana.host_call_steps

end

subsection \<open>Failing over\<close>

definition node_at :: "node_selector \<Rightarrow> u64 \<Rightarrow> node_config" where
  "node_at s index = ns_nodes s ! (unat index mod length (ns_nodes s))"

definition may_retry :: "blockchain_error + string \<Rightarrow> bool" where
  "may_retry a = (case a of Inl e \<Rightarrow> is_retryable e | Inr _ \<Rightarrow> False)"

lemma rpc_attempts_failover:
  assumes "selection_state s = RoundRobin cell" and "ns_nodes s \<noteq> []"
    and "\<And>node w. node \<in> set (ns_nodes s) \<Longrightarrow> fst (execute H request (node_uri node) w) = reply node"
    and "\<And>w cells. other_calls H w cells cell = cells cell"
  shows "(\<And>j. j < k \<Longrightarrow> may_retry (reply (node_at s (cells cell + of_nat j)))) \<Longrightarrow> reply (node_at s (cells cell + of_nat k)) = Inr t \<Longrightarrow> k < n \<Longrightarrow>
    fst (rpc_attempts H s i request n e (cells, w)) = Inr t
    \<and> fst (snd (rpc_attempts H s i request n e (cells, w))) cell = cells cell + of_nat k"
proof (induction k arbitrary: n e cells w)
  case 0
  then obtain m where n: "n = Suc m" by (cases n) auto
  have sel: "select_node H s (cells, w) = (Some (node_at s (cells cell)), cells, w)"
    using assms(1,2) by (simp add: select_node_def node_at_def)
  have "node_at s (cells cell) \<in> set (ns_nodes s)" using assms(2) by (simp add: node_at_def)
  from assms(3) [OF this, of w] have "fst (execute H request (node_uri (node_at s (cells cell))) w) = Inr t" using 0 by simp
  then show ?case unfolding n using sel assms(4) by (auto split: prod.split)
next
  case (Suc k)
  then obtain m where n: "n = Suc m" "k < m" by (cases n) auto
  have sel: "select_node H s (cells, w) = (Some (node_at s (cells cell)), cells, w)"
    using assms(1,2) by (simp add: select_node_def node_at_def)
  have node: "node_at s (cells cell) \<in> set (ns_nodes s)" using assms(2) by (simp add: node_at_def)
  obtain w' where ex: "execute H request (node_uri (node_at s (cells cell))) w = (reply (node_at s (cells cell)), w')"
    using assms(3) [OF node, of w] by (cases "execute H request (node_uri (node_at s (cells cell))) w") auto
  obtain e' where e': "reply (node_at s (cells cell)) = Inl e'" "is_retryable e'"
    using Suc.prems(1) [of 0] by (auto simp: may_retry_def split: sum.splits)
  let ?cells = "(other_calls H w' cells)(cell := other_calls H w' cells cell + 1)"
  have shift: "?cells cell + of_nat j = cells cell + of_nat (Suc j)" for j by (simp add: add.assoc assms(4))
  have "fst (rpc_attempts H s i request m e' (?cells, w')) = Inr t
      \<and> fst (snd (rpc_attempts H s i request m e' (?cells, w'))) cell = ?cells cell + of_nat k"
    using Suc.prems(1) [OF Suc_mono] Suc.prems(2) n(2) by (intro Suc.IH) (simp_all only: shift)
  then show ?case unfolding n(1) using sel ex e' assms(1,2) by (simp add: mark_current_node_failed_def add.assoc assms(4))
qed

lemma every_node_visited:
  assumes "node \<in> set (ns_nodes s)" and "unat (index :: u64) + length (ns_nodes s) < 2 ^ 64"
  shows "\<exists>k < length (ns_nodes s). node_at s (index + of_nat k) = node"
proof -
  let ?l = "length (ns_nodes s)"
  obtain p where p: "p < ?l" "ns_nodes s ! p = node" using assms(1) by (auto simp: in_set_conv_nth)
  define k where "k = (p + ?l - unat index mod ?l) mod ?l"
  have k: "k < ?l" unfolding k_def using p(1) by (intro mod_less_divisor) linarith
  have "(unat index + k) mod ?l = (unat index mod ?l + (p + ?l - unat index mod ?l)) mod ?l"
    unfolding k_def by (simp add: mod_add_left_eq mod_add_right_eq)
  also have "unat index mod ?l + (p + ?l - unat index mod ?l) = p + ?l"
    using p(1) mod_less_divisor [of ?l "unat index"] by linarith
  also have "(p + ?l) mod ?l = p" using p(1) by simp
  finally have "(unat index + k) mod ?l = p" .
  moreover have "unat (index + of_nat k) = unat index + k"
    using assms(2) k by (simp add: unat_word_ariths unat_of_nat)
  ultimately show ?thesis using k p by (auto simp: node_at_def)
qed

subsection \<open>Properties\<close>

text \<open>
  C34. What blockchain functions send. Whatever a rule passes to an EVM or a Solana function, the call sends only JSON-RPC
  requests to the nodes configured for that family, and for a rule in test mode none that submits a transaction.
\<close>

theorem chain_requests_confined:
  assumes "node_choice H" and "d \<in> set blockchain_evm_functions \<union> set blockchain_solana_functions"
    and "w' = snd (snd (host_call W (with_blockchain H E L A) d env p n rp rn w))"
  shows "(chain_step H (if decl_sub_module d = Some ''evm'' then client_nodes E else client_nodes L) (test_mode (env_module env)))\<^sup>*\<^sup>* w w'"
proof (cases "d \<in> set blockchain_evm_functions")
  case True
  then have "decl_sub_module d = Some ''evm''" by (simp add: evm_declared)
  then show ?thesis unfolding assms(3) with_blockchain_def
    by (simp add: node_choice.evm_call_steps [OF assms(1) True])
next
  case False
  then have d: "d \<in> set blockchain_solana_functions" using assms(2) by blast
  then have "decl_sub_module d = Some ''solana''" by (simp add: solana_declared)
  then show ?thesis unfolding assms(3) with_blockchain_def
    by (simp add: host_call_other_service node_choice.solana_call_steps [OF assms(1) d])
qed

definition sample_chain_ops :: "(http_request list) chain_ops" where
  "sample_chain_ops =
     \<lparr>chain_send = (\<lambda>r w. (if hq_url r = ''https://a'' then Inr (503, Inr ''busy'') else Inr (200, Inr ''0x1''), r # w)),
      chain_to_string = (\<lambda>_. Some ''{}''), choose_node = (\<lambda>ns w. (case ns of [] \<Rightarrow> None | n # _ \<Rightarrow> Some n, w)), other_calls = (\<lambda>_ cells. cells),
      de_evm_get_transaction_request = (\<lambda>_. None),
      de_send_raw_transaction_request = (\<lambda>_. None),
      de_get_address_metadata_request = (\<lambda>_. None),
      de_eth_call_request = (\<lambda>_. None),
      de_estimate_gas_request = (\<lambda>_. None),
      de_get_gas_price_request = (\<lambda>_. Some \<lparr>ggp_chain_id = 1\<rparr>),
      de_get_logs_request = (\<lambda>_. None),
      de_evm_get_block_request = (\<lambda>_. None),
      de_get_fee_history_request = (\<lambda>_. None),
      de_send_transaction_request = (\<lambda>_. None),
      de_cluster_request = (\<lambda>_. None),
      de_pubkey_request = (\<lambda>_. None),
      de_solana_get_transaction_request = (\<lambda>_. None),
      de_get_signature_statuses_request = (\<lambda>_. None),
      de_solana_get_block_request = (\<lambda>_. None),
      de_get_multiple_accounts_request = (\<lambda>_. None),
      de_get_program_accounts_request = (\<lambda>_. None),
      de_get_token_accounts_by_owner_request = (\<lambda>_. None),
      de_get_minimum_balance_for_rent_exemption_request = (\<lambda>_. None),
      de_get_fee_for_message_request = (\<lambda>_. None),
      de_get_recent_prioritization_fees_request = (\<lambda>_. None),
      de_get_signatures_for_address_request = (\<lambda>_. None)\<rparr>"

definition sample_selector :: node_selector where
  "sample_selector = \<lparr>ns_nodes = [\<lparr>node_uri = ''https://a'', node_name = ''a'', node_tags = None\<rparr>, \<lparr>node_uri = ''https://b'', node_name = ''b'', node_tags = None\<rparr>],
     selection_state = RoundRobin 0\<rparr>"

definition sample_evm :: "(chain_id, unit) blockchain_client" where
  "sample_evm = \<lparr>bc_node_selector = [(1, sample_selector)], bc_max_retries = 2, bc_options = ()\<rparr>"

definition sample_solana :: "(cluster, solana_options) blockchain_client" where
  "sample_solana = \<lparr>bc_node_selector = [], bc_max_retries = 2, bc_options = \<lparr>so_commitment = Confirmed\<rparr>\<rparr>"

interpretation sample_choice: node_choice sample_chain_ops
  by unfold_locales (auto simp: sample_chain_ops_def split: list.splits)

lemma sample_other_calls [simp]: "other_calls sample_chain_ops w cells = cells"
  by (simp add: sample_chain_ops_def)

lemma sample_execute:
  "execute sample_chain_ops request rpc w =
     (if rpc = ''https://a'' then Inl (CallFailed 503 ''busy'') else Inr ''0x1'', rpc_post rpc ''{}'' # w)"
  by (simp add: execute_def sample_chain_ops_def rpc_post_def rpc_answer_def)

lemma sample_call:
  "execute_rpc_call sample_chain_ops sample_evm sample_selector i request (\<lambda>_. 0, []) =
     (Inr ''0x1'', (\<lambda>_. 0)(0 := 1), [rpc_post ''https://b'' ''{}'', rpc_post ''https://a'' ''{}''])"
proof -
  have retries: "unat (bc_max_retries sample_evm) = Suc (Suc 0)" by (simp add: sample_evm_def)
  show ?thesis unfolding execute_rpc_call_def retries
    by (simp add: sample_execute sample_selector_def select_node_def mark_current_node_failed_def is_retryable_def)
qed

theorem chain_requests_confined_witness:
  "let d = sub_fn ''blockchain'' ''evm'' ''gas_price'' True ALLOW_IN_TEST_MODE;
       w' = snd (snd (host_call flat_ops (with_blockchain sample_chain_ops sample_evm sample_solana idle_services) d sample_caller 0 0 0 4 (\<lambda>_. 0, [])))
   in map hq_url (snd w') = [''https://b'', ''https://a'']
    \<and> (chain_step sample_chain_ops (client_nodes sample_evm) (test_mode (env_module sample_caller)))\<^sup>*\<^sup>* (\<lambda>_. 0, []) w'"
proof -
  let ?d = "sub_fn ''blockchain'' ''evm'' ''gas_price'' True ALLOW_IN_TEST_MODE"
  have "?d \<in> set blockchain_evm_functions \<union> set blockchain_solana_functions" by (simp add: blockchain_evm_functions_def)
  note chain_requests_confined [OF sample_choice.node_choice_axioms this refl, where W = flat_ops and E = sample_evm and L = sample_solana
      and A = idle_services and env = sample_caller and p = 0 and n = 0 and rp = 0 and rn = 4 and w = "(\<lambda>_. 0, [])"]
  moreover have "map hq_url (snd (snd (snd (host_call flat_ops (with_blockchain sample_chain_ops sample_evm sample_solana idle_services) ?d sample_caller 0 0 0 4 (\<lambda>_. 0, [])))))
      = [''https://b'', ''https://a'']"
  proof -
    have "de_get_gas_price_request sample_chain_ops ps = Some \<lparr>ggp_chain_id = 1\<rparr>" for ps by (simp add: sample_chain_ops_def)
    moreover have selector: "hm_get (bc_node_selector sample_evm) 1 = Some sample_selector" by (simp add: sample_evm_def hm_get_def)
    ultimately show ?thesis
      by (simp add: host_call_def api_function_buffer_def api_prologue_def with_blockchain_def with_service_def sub_fn_def
          blockchain_evm_string_functions_def evm_gas_price_def get_node_selector_def sample_call rpc_post_def call_defs
          idle_services_def sample_caller_def sample_env_def sample_module_def get_memory_def safely_get_string_def
          flat_read_string_def flat_read_def safely_write_data_back_def flat_write_def Let_def as_bytes_def ALLOW_IN_TEST_MODE_def)
  qed
  moreover have "decl_sub_module ?d = Some ''evm''" by (simp add: sub_fn_def)
  ultimately show ?thesis by (simp add: Let_def)
qed

text \<open>
  C35. One healthy node is enough, for a call that has the selector to itself. If no other call moves the index of the
  selector meanwhile, a call to a chain with a round-robin selector succeeds with the answer of a healthy node, and leaves
  the selector at a healthy node, if one of its nodes answers, the others fail in a way that is retried, there are at least
  as many attempts as nodes, and the index does not wrap around. (Without the condition on other calls this is false, as
  shown below: the index is shared.)
\<close>

theorem one_healthy_node_suffices:
  assumes "selection_state s = RoundRobin cell" and "length (ns_nodes s) \<le> unat (bc_max_retries B)"
    and "unat (cells cell) + length (ns_nodes s) < 2 ^ 64" and "\<forall>v cells. other_calls H v cells cell = cells cell"
    and "\<forall>node \<in> set (ns_nodes s). \<forall>v. fst (execute H request (node_uri node) v) = reply node"
    and "\<forall>node \<in> set (ns_nodes s). may_retry (reply node) \<or> (\<exists>t. reply node = Inr t)"
    and "\<exists>node \<in> set (ns_nodes s). \<exists>t. reply node = Inr t"
  shows "\<exists>cells' w' t. execute_rpc_call H B s i request (cells, w) = (Inr t, cells', w')
    \<and> node_at s (cells' cell) \<in> set (ns_nodes s) \<and> reply (node_at s (cells' cell)) = Inr t"
proof -
  let ?ok = "\<lambda>k. \<exists>t. reply (node_at s (cells cell + of_nat k)) = Inr t"
  have nodes: "ns_nodes s \<noteq> []" using assms(7) by auto
  then have member: "node_at s index \<in> set (ns_nodes s)" for index by (simp add: node_at_def)
  obtain k0 where k0: "k0 < length (ns_nodes s)" "?ok k0"
    using assms(7) every_node_visited [OF _ assms(3)] by metis
  define k where "k = (LEAST k. ?ok k)"
  obtain t where t: "reply (node_at s (cells cell + of_nat k)) = Inr t" using LeastI [of ?ok, OF k0(2)] unfolding k_def by blast
  have "k \<le> k0" unfolding k_def by (rule Least_le) (rule k0(2))
  then have "k < unat (bc_max_retries B)" using k0(1) assms(2) by simp
  moreover have "may_retry (reply (node_at s (cells cell + of_nat j)))" if "j < k" for j
    using not_less_Least [of j ?ok] that assms(6) member unfolding k_def by blast
  ultimately have "fst (execute_rpc_call H B s i request (cells, w)) = Inr t
      \<and> fst (snd (execute_rpc_call H B s i request (cells, w))) cell = cells cell + of_nat k"
    unfolding execute_rpc_call_def using assms(4,5) by (intro rpc_attempts_failover [where reply = reply and cells = cells and k = k and t = t, OF assms(1) nodes]) (auto intro: t)
  then show ?thesis using t member
    by (cases "execute_rpc_call H B s i request (cells, w)") auto
qed

theorem one_healthy_node_suffices_witness:
  "\<exists>cells' w' t. execute_rpc_call sample_chain_ops sample_evm sample_selector ''1'' (json_rpc_request ''eth_gasPrice'' None) (\<lambda>_. 0, []) = (Inr t, cells', w')
    \<and> node_at sample_selector (cells' 0) \<in> set (ns_nodes sample_selector)
    \<and> (if node_uri (node_at sample_selector (cells' 0)) = ''https://a'' then Inl (CallFailed 503 ''busy'') else Inr ''0x1'') = Inr t"
  by (rule one_healthy_node_suffices [where reply = "\<lambda>n. if node_uri n = ''https://a'' then Inl (CallFailed 503 ''busy'') else Inr ''0x1''"])
    (simp_all add: sample_selector_def sample_evm_def sample_execute may_retry_def is_retryable_def)

text \<open>
  The condition on other calls is needed. Of the two nodes of the sample the second one is healthy and two attempts are
  made; but if another call fails at the first node at the same time and advances the index too, both attempts are at the
  first node.
\<close>

lemma concurrent_call_skips_healthy_node:
  "fst (execute_rpc_call (sample_chain_ops\<lparr>other_calls := (\<lambda>_ cells. cells(0 := cells 0 + 1))\<rparr>) sample_evm sample_selector ''1''
      (json_rpc_request ''eth_gasPrice'' None) (\<lambda>_. 0, [])) = Inl (BlockchainError (CallFailed 503 ''busy''))"
proof -
  have retries: "unat (bc_max_retries sample_evm) = Suc (Suc 0)" by (simp add: sample_evm_def)
  have two: "(2 :: nat) mod Suc (Suc 0) = 0" by (simp flip: numeral_2_eq_2)
  have "execute (sample_chain_ops\<lparr>other_calls := f\<rparr>) = execute sample_chain_ops" for f
    by (simp add: execute_def fun_eq_iff split: option.split)
  then show ?thesis unfolding execute_rpc_call_def retries
    by (simp add: sample_execute sample_selector_def select_node_def mark_current_node_failed_def is_retryable_def two)
qed

end
