(* ===== verification/Plaid_Crypto.thy ===== *)
theory Plaid_Crypto
  imports Plaid_Api "HOL-Library.Char_ord" "HOL-Library.List_Lexorder"
begin

text \<open>
  Three services around keys: local AES keys (\<^verbatim>\<open>runtime/plaid/src/apis/cryptography\<close> and \<^verbatim>\<open>src/cryptography\<close>), one-time
  passwords of Yubikeys (\<^verbatim>\<open>apis/yubikey\<close>) and certificates for Rustica (\<^verbatim>\<open>apis/rustica\<close>). The ciphers, the MAC, random
  bytes, base64 and the certificates of \<^verbatim>\<open>rcgen\<close> are parameters. The verification of a MAC is its comparison with the one
  computed, as \<^verbatim>\<open>ring\<close> documents. A \<^verbatim>\<open>BTreeMap\<close> is an association list sorted by its keys.
\<close>

subsection \<open>AES keys\<close>

datatype aes_action = Encrypt | Decrypt

record aes_key_spec =
  ks_id :: string
  ks_key :: string
  ks_rules_and_actions :: "(string, aes_action list) hashmap"

type_synonym aes = "(string, aes_key_spec) hashmap"

definition aes_new :: "aes_key_spec list \<Rightarrow> aes" where
  "aes_new specs = fold (\<lambda>ks m. hm_insert (ks_id ks) ks m) specs []"

record cryptography =
  cr_aes :: "aes option"

definition cryptography_new :: "aes_key_spec list option \<Rightarrow> cryptography" where
  "cryptography_new config = \<lparr>cr_aes = map_option aes_new config\<rparr>"

definition get_aes_key_for_action :: "cryptography \<Rightarrow> string \<Rightarrow> string \<Rightarrow> aes_action \<Rightarrow> string option" where
  "get_aes_key_for_action C module_name key_id action =
     (case cr_aes C of
        None \<Rightarrow> None
      | Some aes \<Rightarrow>
          (case hm_get aes key_id of
             None \<Rightarrow> None
           | Some key_spec \<Rightarrow>
               (case hm_get (ks_rules_and_actions key_spec) module_name of
                  None \<Rightarrow> None
                | Some allowed_actions \<Rightarrow> if action \<in> set allowed_actions then Some (ks_key key_spec) else None)))"

record aes_encrypt_payload =
  ae_key_id :: string
  ae_plaintext :: string

record aes_decrypt_payload =
  ad_key_id :: string
  ad_ciphertext :: string

text \<open>A cipher is made from a key and an initialisation vector, which may fail; so may decryption, but not encryption.\<close>

record ('c, 'w) aes_ops =
  fill_iv :: "'w \<Rightarrow> bytes \<times> 'w"
  new_from_slices :: "bytes \<Rightarrow> bytes \<Rightarrow> 'c option"
  encrypt_vec :: "'c \<Rightarrow> bytes \<Rightarrow> bytes"
  decrypt_vec :: "'c \<Rightarrow> bytes \<Rightarrow> bytes option"
  url_safe_encode :: "bytes \<Rightarrow> string"
  url_safe_decode :: "string \<Rightarrow> bytes option"
  hex_decode :: "string \<Rightarrow> bytes option"
  de_aes_encrypt :: "string \<Rightarrow> aes_encrypt_payload option"
  de_aes_decrypt :: "string \<Rightarrow> aes_decrypt_payload option"

definition aes_encrypt :: "('c, 'w) aes_ops \<Rightarrow> bytes \<Rightarrow> string \<Rightarrow> 'w \<Rightarrow> string option \<times> 'w" where
  "aes_encrypt H key plaintext w =
     (case fill_iv H w of (iv, w') \<Rightarrow>
        (case new_from_slices H key iv of
           None \<Rightarrow> None
         | Some cipher \<Rightarrow> Some (url_safe_encode H (iv @ encrypt_vec H cipher (as_bytes plaintext))), w'))"

definition aes_decrypt :: "('c, 'w) aes_ops \<Rightarrow> bytes \<Rightarrow> string \<Rightarrow> string option" where
  "aes_decrypt H key ciphertext =
     (case url_safe_decode H ciphertext of
        None \<Rightarrow> None
      | Some data \<Rightarrow>
          if length data < 16 then None
          else (case new_from_slices H key (take 16 data) of
                  None \<Rightarrow> None
                | Some cipher \<Rightarrow> (case decrypt_vec H cipher (drop 16 data) of None \<Rightarrow> None | Some pt \<Rightarrow> from_utf8 pt)))"

definition crypto_error :: "string \<Rightarrow> api_error" where
  "crypto_error s = CryptographyError s"

definition aes_128_cbc_encrypt where
  "aes_128_cbc_encrypt H C params pm =
     (if cr_aes C = None then err (crypto_error ''API not configured'')
      else
        and_then (ok_or (crypto_error ''Failed to parse payload'') (de_aes_encrypt H params)) (\<lambda>payload.
        and_then (ok_or (crypto_error ''Missing key or operation not permitted'')
          (get_aes_key_for_action C (mod_name pm) (ae_key_id payload) Encrypt)) (\<lambda>key.
        and_then (ok_or (crypto_error ''Failed to decode key'') (hex_decode H key)) (\<lambda>key.
        op_call (aes_encrypt H key (ae_plaintext payload))
          (\<lambda>r. case r of Some c \<Rightarrow> Inr c | None \<Rightarrow> Inl (crypto_error ''Failed to encrypt plaintext''))))))"

definition aes_128_cbc_decrypt where
  "aes_128_cbc_decrypt H C params pm =
     (if cr_aes C = None then err (crypto_error ''API not configured'')
      else
        and_then (ok_or (crypto_error ''Failed to parse payload'') (de_aes_decrypt H params)) (\<lambda>payload.
        and_then (ok_or (crypto_error ''Missing key or operation not permitted'')
          (get_aes_key_for_action C (mod_name pm) (ad_key_id payload) Decrypt)) (\<lambda>key.
        and_then (ok_or (crypto_error ''Failed to decode key'') (hex_decode H key)) (\<lambda>key.
        ok_or (crypto_error ''Failed to decrypt ciphertext'') (aes_decrypt H key (ad_ciphertext payload))))))"

text \<open>What is used of the crates: vectors have 16 bytes, and decryption and decoding invert encryption and encoding.\<close>

locale aes_library =
  fixes H :: "('c, 'w) aes_ops"
  assumes iv_length: "length (fst (fill_iv H w)) = 16"
    and decrypt_encrypt: "new_from_slices H key iv = Some cipher \<Longrightarrow> decrypt_vec H cipher (encrypt_vec H cipher data) = Some data"
    and decode_encode: "url_safe_decode H (url_safe_encode H data) = Some data"
begin

lemma aes_decrypt_encrypt:
  assumes "fst (aes_encrypt H key plaintext w) = Some c" and "utf8_valid (as_bytes plaintext)"
  shows "aes_decrypt H key c = Some plaintext"
proof -
  obtain iv w' where iv: "fill_iv H w = (iv, w')" "length iv = 16" using iv_length [of w] by (cases "fill_iv H w") auto
  then obtain cipher where "new_from_slices H key iv = Some cipher" "c = url_safe_encode H (iv @ encrypt_vec H cipher (as_bytes plaintext))"
    using assms(1) by (auto simp: aes_encrypt_def split: option.splits)
  then show ?thesis
    using iv(2) assms(2) by (simp add: aes_decrypt_def decode_encode decrypt_encrypt from_utf8_as_bytes)
qed

end

subsection \<open>One-time passwords\<close>

record ('w) yubikey_ops =
  random_nonce :: "'w \<Rightarrow> bytes option \<times> 'w"
  yk_send :: "http_request \<Rightarrow> 'w \<Rightarrow> http_response \<times> 'w"
  hmac_sign :: "bytes \<Rightarrow> bytes \<Rightarrow> bytes"
  base64_encode :: "bytes \<Rightarrow> string"
  base64_decode :: "string \<Rightarrow> bytes option"

record yubikey =
  yk_client_id :: u64
  yk_key :: bytes

text \<open>A secret that is not base64 panics, which is \<open>None\<close>; a client identifier of zero refuses the configuration.\<close>

definition validate_client_id :: "u64 \<Rightarrow> u64 option" where
  "validate_client_id v = (if v = 0 then None else Some v)"

definition yubikey_new :: "'w yubikey_ops \<Rightarrow> u64 \<Rightarrow> string \<Rightarrow> yubikey option" where
  "yubikey_new H client_id secret_key = map_option (\<lambda>k. \<lparr>yk_client_id = client_id, yk_key = k\<rparr>) (base64_decode H secret_key)"

definition YUBICLOUD_VERIFY :: string where
  "YUBICLOUD_VERIFY = ''https://api.yubico.com/wsapi/2.0/verify''"

definition hex_encode :: "bytes \<Rightarrow> string" where
  "hex_encode data = concat (map byte_hex data)"

definition request_text :: "yubikey \<Rightarrow> string \<Rightarrow> string \<Rightarrow> string" where
  "request_text Y nonce otp = ''id='' @ decimal (unat (yk_client_id Y)) @ ''&nonce='' @ nonce @ ''&otp='' @ otp"

definition otp_request :: "'w yubikey_ops \<Rightarrow> yubikey \<Rightarrow> string \<Rightarrow> string \<Rightarrow> http_request" where
  "otp_request H Y nonce otp =
     (let request = request_text Y nonce otp;
          signature = base64_encode H (hmac_sign H (yk_key Y) (as_bytes request))
      in http GET (YUBICLOUD_VERIFY @ ''?'' @ request @ ''&h='' @ signature))"

text \<open>The lines of a string, as \<^verbatim>\<open>str::lines\<close> has them, and the parts of a line around its first equals sign.\<close>

definition strip_cr :: "string \<Rightarrow> string" where
  "strip_cr l = (if l \<noteq> [] \<and> last l = CHR 0x0D then butlast l else l)"

definition str_lines :: "string \<Rightarrow> string list" where
  "str_lines s =
     (let ps = split_on (CHR 0x0A) s in map strip_cr (butlast ps) @ (if last ps = [] then [] else [last ps]))"

definition bt_insert :: "string \<Rightarrow> string \<Rightarrow> (string \<times> string) list \<Rightarrow> (string \<times> string) list" where
  "bt_insert k v m = insort_key fst (k, v) (filter (\<lambda>(k', _). k' \<noteq> k) m)"

definition response_item :: "string \<Rightarrow> (string \<times> string) list \<Rightarrow> (string \<times> string) list" where
  "response_item line items =
     (case find_char (CHR ''='') line of
        Some i \<Rightarrow> bt_insert (take i line) (drop (Suc i) line) items
      | None \<Rightarrow> items)"

definition response_items :: "string \<Rightarrow> (string \<times> string) list" where
  "response_items data = fold response_item (str_lines data) []"

fun join_items :: "(string \<times> string) list \<Rightarrow> string" where
  "join_items [] = []"
| "join_items [(k, v)] = k @ ''='' @ v"
| "join_items ((k, v) # is) = k @ ''='' @ v @ ''&'' @ join_items is"

definition yk_error :: "yubikey_error \<Rightarrow> api_error + 'a" where
  "yk_error e = Inl (YubikeyError e)"

definition check_response :: "'w yubikey_ops \<Rightarrow> yubikey \<Rightarrow> string \<Rightarrow> string \<Rightarrow> api_error + string" where
  "check_response H Y nonce data =
     (let items = response_items data
      in case map_of items ''h'' of
           None \<Rightarrow> yk_error NoSignature
         | Some signature \<Rightarrow>
             let items = filter (\<lambda>(k, _). k \<noteq> ''h'') items
             in if items = [] then yk_error (YkOther ''Nothing but a signature was returned'')
                else case base64_decode H signature of
                       None \<Rightarrow> yk_error YkBadData
                     | Some tag \<Rightarrow>
                         if tag \<noteq> hmac_sign H (yk_key Y) (as_bytes (join_items items)) then yk_error BadSignature
                         else case map_of items ''nonce'' of
                                None \<Rightarrow> yk_error MissingNonce
                              | Some returned_nonce \<Rightarrow>
                                  if nonce \<noteq> returned_nonce then yk_error NonceMismatch
                                  else case map_of items ''status'' of
                                         None \<Rightarrow> yk_error NoStatus
                                       | Some status \<Rightarrow> Inr status)"

definition yk_answer :: "'w yubikey_ops \<Rightarrow> yubikey \<Rightarrow> string \<Rightarrow> http_response \<Rightarrow> api_error + string" where
  "yk_answer H Y nonce a =
     (case a of
        Inl _ \<Rightarrow> yk_error YkNetworkError
      | Inr (_, Inl _) \<Rightarrow> yk_error NoData
      | Inr (_, Inr data) \<Rightarrow> check_response H Y nonce data)"

definition verify_otp :: "'w yubikey_ops \<Rightarrow> yubikey \<Rightarrow> string \<Rightarrow> ('w, string) api_call" where
  "verify_otp H Y otp =
     and_then (op_call (random_nonce H) (\<lambda>n. case n of Some b \<Rightarrow> Inr (hex_encode b) | None \<Rightarrow> yk_error RandError)) (\<lambda>nonce.
     send_call (yk_send H) (yk_answer H Y nonce) (otp_request H Y nonce otp))"

lemma bt_insert_sorted: "sorted (map fst m) \<Longrightarrow> distinct (map fst m) \<Longrightarrow> sorted (map fst (bt_insert k v m)) \<and> distinct (map fst (bt_insert k v m))"
  unfolding bt_insert_def
  by (auto simp: sorted_insort_key sorted_filter [of fst] distinct_map_filter distinct_insort_key set_insort_key
      intro: sorted_filter distinct_map_filter)

lemma response_items_sorted: "sorted (map fst (response_items data)) \<and> distinct (map fst (response_items data))"
proof -
  have "sorted (map fst (fold response_item ls items)) \<and> distinct (map fst (fold response_item ls items))"
    if "sorted (map fst items) \<and> distinct (map fst items)" for ls items
    using that by (induction ls arbitrary: items) (auto simp: response_item_def bt_insert_sorted split: option.split)
  then show ?thesis by (simp add: response_items_def)
qed

subsection \<open>Certificates\<close>

record environment =
  en_tls_ca :: string
  en_mtls_cn :: string
  en_mtls_key :: string
  en_server :: string

record server_configuration =
  sc_address :: string
  sc_ca_pem :: string
  sc_mtls_cert :: string
  sc_mtls_key :: string

type_synonym rustica = "(string, environment) hashmap"

text \<open>Times are seconds. A certificate is made from parameters, the key it is for, and the certificate and key of its issuer.\<close>

record ('k, 'a, 'c, 'p, 'w) rustica_ops =
  key_from_pem :: "string \<Rightarrow> 'k option"
  compatible_alg :: "'k \<Rightarrow> 'a option"
  self_signed :: "string \<Rightarrow> 'k \<Rightarrow> 'c option"
  certificate_params :: "string list \<Rightarrow> 'p option"
  push_common_name :: "string \<Rightarrow> 'p \<Rightarrow> 'p"
  set_validity :: "int \<Rightarrow> int \<Rightarrow> 'p \<Rightarrow> 'p"
  now_utc :: "'w \<Rightarrow> int \<times> 'w"
  saturating_add_seconds :: "int \<Rightarrow> int \<Rightarrow> int"
  generate_for :: "'a \<Rightarrow> 'w \<Rightarrow> 'k option \<times> 'w"
  signed_by :: "'p \<Rightarrow> 'k \<Rightarrow> 'c \<Rightarrow> 'k \<Rightarrow> string option"
  serialize_pem :: "'k \<Rightarrow> string"
  de_str_map :: "string \<Rightarrow> (string, string) hashmap option"
  ser_server_configuration :: "server_configuration \<Rightarrow> string option"

definition certificate_lifetime :: int where
  "certificate_lifetime = 60 * 60 * 24 * 90"

definition generate_server_configuration where
  "generate_server_configuration H environment_name user_identity env =
     and_then (ok_or (ConfigurationError (''Rustica environment ['' @ environment_name @ ''] has an incorrectly formatted key''))
       (key_from_pem H (en_mtls_key env))) (\<lambda>ca_key.
     and_then (ok_or (ConfigurationError (''Rustica environment ['' @ environment_name @ ''] has a certificate with no known signature algorithm''))
       (compatible_alg H ca_key)) (\<lambda>alg.
     and_then (ok_or (ConfigurationError (''Rustica environment ['' @ environment_name @ ''] has bad certificate and private key pair''))
       (self_signed H (en_mtls_cn env) ca_key)) (\<lambda>ca.
     and_then (ok_or (RusticaError (UnserializableCertificate user_identity)) (certificate_params H [user_identity])) (\<lambda>ps.
     and_then (op_call (now_utc H) Inr) (\<lambda>not_before.
     and_then (op_call (generate_for H alg) (\<lambda>k. case k of Some k \<Rightarrow> Inr k | None \<Rightarrow> Inl (RusticaError (UnserializableCertificate user_identity)))) (\<lambda>user_key_pair.
     and_then (ok_or (RusticaError (UnserializableCertificate user_identity))
       (signed_by H (set_validity H not_before (saturating_add_seconds H not_before certificate_lifetime) (push_common_name H user_identity ps))
          user_key_pair ca ca_key)) (\<lambda>new_certificate.
     ok \<lparr>sc_address = en_server env, sc_ca_pem = en_tls_ca env, sc_mtls_cert = new_certificate,
         sc_mtls_key = serialize_pem H user_key_pair\<rparr>)))))))"

definition new_mtls_cert where
  "new_mtls_cert H R params =
     and_then (ok_or BadRequest (de_str_map H params)) (\<lambda>request.
     and_then (ok_or (MissingParameter ''environment'') (hm_get request ''environment'')) (\<lambda>environment_name.
     and_then (ok_or (MissingParameter ''identity'') (hm_get request ''identity'')) (\<lambda>user_identity.
     and_then (ok_or (RusticaError (UnknownEnvironment environment_name)) (hm_get R environment_name)) (\<lambda>env.
     and_then (generate_server_configuration H environment_name user_identity env) (\<lambda>server_config.
     ok_or (RusticaError (UnserializableCertificate user_identity)) (ser_server_configuration H server_config))))))"

subsection \<open>Properties\<close>

definition aes_granted :: "cryptography \<Rightarrow> plaid_module \<Rightarrow> string \<Rightarrow> aes_action \<Rightarrow> bool" where
  "aes_granted C pm key_id action \<longleftrightarrow>
     (\<exists>aes spec actions. cr_aes C = Some aes \<and> hm_get aes key_id = Some spec
        \<and> hm_get (ks_rules_and_actions spec) (mod_name pm) = Some actions \<and> action \<in> set actions)"

lemma get_aes_key_granted: "get_aes_key_for_action C (mod_name pm) key_id action \<noteq> None \<longleftrightarrow> aes_granted C pm key_id action"
  by (auto simp: get_aes_key_for_action_def aes_granted_def split: option.split)

lemma get_aes_key_same:
  "get_aes_key_for_action C m key_id action = Some k \<Longrightarrow> get_aes_key_for_action C m' key_id action' = Some k' \<Longrightarrow> k' = k"
  by (auto simp: get_aes_key_for_action_def split: option.splits if_splits)

text \<open>
  C36. AES keys round trip, under their permissions. A rule that encrypts was granted encryption with the key. What it gets
  back decrypts, for every rule that is granted decryption with the same key, to the plaintext, and for no other rule.
\<close>

theorem aes_roundtrip:
  assumes "aes_library H" and "de_aes_encrypt H params = Some payload" and "utf8_valid (as_bytes (ae_plaintext payload))"
    and "fst (aes_128_cbc_encrypt H C params pm w) = Inr c"
    and "de_aes_decrypt H params' = Some \<lparr>ad_key_id = ae_key_id payload, ad_ciphertext = c\<rparr>"
  shows "aes_granted C pm (ae_key_id payload) Encrypt \<and>
    fst (aes_128_cbc_decrypt H C params' pm' w') =
      (if aes_granted C pm' (ae_key_id payload) Decrypt then Inr (ae_plaintext payload)
       else Inl (CryptographyError ''Missing key or operation not permitted''))"
proof -
  from assms(4) obtain k key where k: "get_aes_key_for_action C (mod_name pm) (ae_key_id payload) Encrypt = Some k"
    and key: "hex_decode H k = Some key" and c: "fst (aes_encrypt H key (ae_plaintext payload) w) = Some c" and "cr_aes C \<noteq> None"
    unfolding aes_128_cbc_encrypt_def
    by (auto simp: assms(2) call_results err_def lift_def split: if_splits option.splits)
  have granted: "aes_granted C pm (ae_key_id payload) Encrypt" using k by (simp flip: get_aes_key_granted)
  note plain = aes_library.aes_decrypt_encrypt [OF assms(1) c assms(3)]
  show ?thesis
  proof (cases "get_aes_key_for_action C (mod_name pm') (ae_key_id payload) Decrypt")
    case None
    then have "\<not> aes_granted C pm' (ae_key_id payload) Decrypt" by (simp flip: get_aes_key_granted)
    then show ?thesis
      using None granted \<open>cr_aes C \<noteq> None\<close> by (auto simp: aes_128_cbc_decrypt_def assms(5) call_defs crypto_error_def)
  next
    case (Some k')
    then have "k' = k" "aes_granted C pm' (ae_key_id payload) Decrypt"
      using get_aes_key_same [OF k] by (blast, simp flip: get_aes_key_granted)
    then show ?thesis
      using Some key plain granted \<open>cr_aes C \<noteq> None\<close> by (auto simp: aes_128_cbc_decrypt_def assms(5) call_defs)
  qed
qed

text \<open>A stand-in for the cipher: the exclusive or with the key.\<close>

definition xor_bytes :: "bytes \<Rightarrow> bytes \<Rightarrow> bytes" where
  "xor_bytes key data = map (\<lambda>b. Bit_Operations.xor b (hd (key @ [0]))) data"

definition sample_aes_ops :: "(bytes, nat) aes_ops" where
  "sample_aes_ops =
     \<lparr>fill_iv = (\<lambda>w. (replicate 16 (of_nat w), Suc w)), new_from_slices = (\<lambda>key iv. Some key), encrypt_vec = xor_bytes,
      decrypt_vec = (\<lambda>key data. Some (xor_bytes key data)), url_safe_encode = map (\<lambda>b. char_of (unat b)),
      url_safe_decode = (\<lambda>s. Some (as_bytes s)), hex_decode = (\<lambda>s. Some (as_bytes s)),
      de_aes_encrypt = (\<lambda>s. Some \<lparr>ae_key_id = ''k'', ae_plaintext = s\<rparr>), de_aes_decrypt = (\<lambda>s. Some \<lparr>ad_key_id = ''k'', ad_ciphertext = s\<rparr>)\<rparr>"

interpretation sample_aes: aes_library sample_aes_ops
proof unfold_locales
  show "url_safe_decode sample_aes_ops (url_safe_encode sample_aes_ops data) = Some data" for data
    by (simp add: sample_aes_ops_def as_bytes_def comp_def)
qed (auto simp: sample_aes_ops_def xor_bytes_def comp_def xor.assoc)

definition sample_keys :: cryptography where
  "sample_keys = cryptography_new (Some [\<lparr>ks_id = ''k'', ks_key = ''7'', ks_rules_and_actions = [(''m.wasm'', [Encrypt]), (''n.wasm'', [Decrypt])]\<rparr>])"

theorem aes_roundtrip_witness:
  "let pm = sample_module ''m.wasm'' Unlimited 0; pm' = sample_module ''n.wasm'' Unlimited 0
   in \<exists>c. fst (aes_128_cbc_encrypt sample_aes_ops sample_keys ''hi'' pm 3) = Inr c
     \<and> fst (aes_128_cbc_decrypt sample_aes_ops sample_keys c pm' 9) = Inr ''hi''
     \<and> fst (aes_128_cbc_decrypt sample_aes_ops sample_keys c pm 9) = Inl (CryptographyError ''Missing key or operation not permitted'')"
proof -
  let ?pm = "sample_module ''m.wasm'' Unlimited 0" and ?pm' = "sample_module ''n.wasm'' Unlimited 0"
  have payload: "de_aes_encrypt sample_aes_ops ''hi'' = Some \<lparr>ae_key_id = ''k'', ae_plaintext = ''hi''\<rparr>"
      "\<And>c. de_aes_decrypt sample_aes_ops c = Some \<lparr>ad_key_id = ''k'', ad_ciphertext = c\<rparr>"
    by (simp_all add: sample_aes_ops_def)
  have keys: "cr_aes sample_keys = Some [(''k'', \<lparr>ks_id = ''k'', ks_key = ''7'', ks_rules_and_actions = [(''m.wasm'', [Encrypt]), (''n.wasm'', [Decrypt])]\<rparr>)]"
    by (simp add: sample_keys_def cryptography_new_def aes_new_def hm_insert_def)
  have "get_aes_key_for_action sample_keys ''m.wasm'' ''k'' Encrypt = Some ''7''" by (simp add: get_aes_key_for_action_def keys hm_get_def)
  then obtain c where c: "fst (aes_128_cbc_encrypt sample_aes_ops sample_keys ''hi'' ?pm 3) = Inr c"
    by (simp add: aes_128_cbc_encrypt_def keys payload and_then_def ok_or_def ok_def lift_def op_call_def aes_encrypt_def
        sample_module_def sample_aes_ops_def)
  have "aes_granted sample_keys ?pm' ''k'' Decrypt" "\<not> aes_granted sample_keys ?pm ''k'' Decrypt"
    by (simp_all add: aes_granted_def keys hm_get_def sample_module_def)
  moreover have "utf8_valid (as_bytes ''hi'')" by (simp add: as_bytes_def utf8_valid_ascii)
  ultimately show ?thesis
    using aes_roundtrip [OF sample_aes.aes_library_axioms payload(1) _ c, where pm' = ?pm' and w' = 9 and params' = c]
      aes_roundtrip [OF sample_aes.aes_library_axioms payload(1) _ c, where pm' = ?pm and w' = 9 and params' = c] c payload(2) [of c]
    by (auto simp: Let_def)
qed

text \<open>
  C37. The status of a one-time password is authentic. Whatever the network answers, the service returns a status only if
  the answer carries a MAC, under the key shared with Yubico, of exactly the other items of the answer in the order of
  their names, if one of them is the fresh nonce of this very request, and if one is the status.
\<close>

theorem otp_status_authentic:
  assumes "fst (verify_otp H Y otp w) = Inr status"
  shows "\<exists>nonce w1 data signature items.
    random_nonce H w = (Some nonce, w1)
    \<and> (\<exists>code. fst (yk_send H (otp_request H Y (hex_encode nonce) otp) w1) = Inr (code, Inr data))
    \<and> map_of (response_items data) ''h'' = Some signature
    \<and> items = filter (\<lambda>(k, _). k \<noteq> ''h'') (response_items data) \<and> sorted (map fst items) \<and> distinct (map fst items)
    \<and> base64_decode H signature = Some (hmac_sign H (yk_key Y) (as_bytes (join_items items)))
    \<and> map_of items ''nonce'' = Some (hex_encode nonce) \<and> map_of items ''status'' = Some status"
proof -
  obtain nonce w1 where nonce: "random_nonce H w = (Some nonce, w1)"
    and sent: "fst (send_call (yk_send H) (yk_answer H Y (hex_encode nonce)) (otp_request H Y (hex_encode nonce) otp) w1) = Inr status"
    using assms by (auto simp: verify_otp_def call_results yk_error_def split: prod.splits option.splits)
  then obtain code data where data: "fst (yk_send H (otp_request H Y (hex_encode nonce) otp) w1) = Inr (code, Inr data)"
    and checked: "check_response H Y (hex_encode nonce) data = Inr status"
    by (auto simp: send_call_def yk_answer_def yk_error_def split: prod.splits sum.splits)
  let ?items = "filter (\<lambda>(k, _). k \<noteq> ''h'') (response_items data)"
  have "sorted (map fst ?items) \<and> distinct (map fst ?items)"
    using response_items_sorted [of data] by (simp add: sorted_filter distinct_map_filter)
  moreover obtain signature where "map_of (response_items data) ''h'' = Some signature"
      "base64_decode H signature = Some (hmac_sign H (yk_key Y) (as_bytes (join_items ?items)))"
      "map_of ?items ''nonce'' = Some (hex_encode nonce)" "map_of ?items ''status'' = Some status"
    using checked by (auto simp: check_response_def Let_def yk_error_def split: option.splits if_splits)
  ultimately show ?thesis using nonce data by blast
qed

definition sample_yubikey_ops :: "nat yubikey_ops" where
  "sample_yubikey_ops =
     \<lparr>random_nonce = (\<lambda>w. (Some [0xAB], Suc w)),
      yk_send = (\<lambda>r w. (Inr (200, Inr (''status=OK'' @ [CHR 0x0D, CHR 0x0A] @ ''nonce=ab'' @ [CHR 0x0D, CHR 0x0A] @ ''h=nonce=ab&status=OK'' @ [CHR 0x0A])), Suc w)),
      hmac_sign = (\<lambda>_ data. data), base64_encode = map (\<lambda>b. char_of (unat b)), base64_decode = (\<lambda>s. Some (as_bytes s))\<rparr>"

theorem otp_status_authentic_witness:
  "fst (verify_otp sample_yubikey_ops \<lparr>yk_client_id = 1, yk_key = []\<rparr> ''cccc'' 0) = Inr ''OK''
   \<and> (\<exists>nonce w1 data signature items.
    random_nonce sample_yubikey_ops 0 = (Some nonce, w1)
    \<and> (\<exists>code. fst (yk_send sample_yubikey_ops (otp_request sample_yubikey_ops \<lparr>yk_client_id = 1, yk_key = []\<rparr> (hex_encode nonce) ''cccc'') w1) = Inr (code, Inr data))
    \<and> map_of (response_items data) ''h'' = Some signature
    \<and> items = filter (\<lambda>(k, _). k \<noteq> ''h'') (response_items data) \<and> sorted (map fst items) \<and> distinct (map fst items)
    \<and> base64_decode sample_yubikey_ops signature = Some (hmac_sign sample_yubikey_ops [] (as_bytes (join_items items)))
    \<and> map_of items ''nonce'' = Some (hex_encode nonce) \<and> map_of items ''status'' = Some ''OK'')"
proof -
  let ?Y = "\<lparr>yk_client_id = 1, yk_key = []\<rparr>"
  have nonce: "hex_encode [0xAB] = ''ab''" by code_simp
  have items: "response_items (''status=OK'' @ [CHR 0x0D, CHR 0x0A] @ ''nonce=ab'' @ [CHR 0x0D, CHR 0x0A] @ ''h=nonce=ab&status=OK'' @ [CHR 0x0A]) =
      [(''h'', ''nonce=ab&status=OK''), (''nonce'', ''ab''), (''status'', ''OK'')]"
    by code_simp
  have "fst (verify_otp sample_yubikey_ops ?Y ''cccc'' 0) = Inr ''OK''"
    by (simp add: verify_otp_def and_then_def op_call_def send_call_def yk_answer_def check_response_def sample_yubikey_ops_def
        items [simplified] nonce)
  with otp_status_authentic [OF this] show ?thesis by simp
qed

text \<open>
  A certificate for Rustica. If a rule gets one, it was issued with the key of the requested environment, for the requested
  identity and a new key, for ninety days from now.
\<close>

theorem rustica_certificate:
  assumes "fst (new_mtls_cert H R params w) = Inr s"
  shows "\<exists>request name identity env ca_key ca ps alg now w1 key w2 cert.
    de_str_map H params = Some request \<and> hm_get request ''environment'' = Some name \<and> hm_get request ''identity'' = Some identity
    \<and> hm_get R name = Some env \<and> key_from_pem H (en_mtls_key env) = Some ca_key \<and> self_signed H (en_mtls_cn env) ca_key = Some ca
    \<and> certificate_params H [identity] = Some ps \<and> now_utc H w = (now, w1) \<and> generate_for H alg w1 = (Some key, w2)
    \<and> signed_by H (set_validity H now (saturating_add_seconds H now certificate_lifetime) (push_common_name H identity ps)) key ca ca_key = Some cert
    \<and> ser_server_configuration H \<lparr>sc_address = en_server env, sc_ca_pem = en_tls_ca env, sc_mtls_cert = cert, sc_mtls_key = serialize_pem H key\<rparr> = Some s"
  using assms
  unfolding new_mtls_cert_def generate_server_configuration_def
  by (simp only: call_results) (force split: option.splits)

end
