(* ===== verification/Plaid_Bigquery.thy ===== *)
theory Plaid_Bigquery
  imports Plaid_Api
begin

text \<open>
  The BigQuery service, \<^verbatim>\<open>runtime/plaid/src/apis/gcp/bigquery.rs\<close>, with the requests of
  \<^verbatim>\<open>runtime/plaid-stl/src/gcp/bigquery.rs\<close>: permissions, the SQL of a query and its parameters, and the decoding of rows
  under a limit on the size of the response. The client of BigQuery, its rows, JSON and the text of floating-point numbers
  are parameters.
\<close>

subsection \<open>Requests\<close>

datatype column_function = CountFn | MaxFn | MinFn

fun column_function_fmt :: "column_function \<Rightarrow> string" where
  "column_function_fmt CountFn = ''COUNT''"
| "column_function_fmt MaxFn = ''MAX''"
| "column_function_fmt MinFn = ''MIN''"

record column =
  col_identifier :: string
  col_function :: "column_function option"

datatype filter_operator = OpEq | OpNe | OpLt | OpLe | OpGt | OpGe | OpLike | OpIsNull | OpIsNotNull

datatype filter_value = FvString string | FvInteger int | FvFloat u64 | FvBoolean bool | FvTimestamp string | FvNull

datatype filter_tree = FAnd "filter_tree list" | FOr "filter_tree list" | Condition string filter_operator filter_value

record query_table_request =
  qt_dataset :: string
  qt_table :: string
  qt_columns :: "column list"
  qt_filter :: "filter_tree option"

datatype column_type = CtString | CtInteger | CtFloat | CtBoolean

record bigquery =
  bq_project_id :: string
  bq_r :: "(string, (string, string list) hashmap) hashmap"
  bq_schemas :: "(string, (string, (string, column_type) hashmap) hashmap) hashmap"
  bq_timeout_ms :: int
  bq_max_response_size :: nat

record query_parameter =
  qp_name :: string
  qp_type :: string
  qp_value :: "string option"

record query_request =
  qr_timeout_ms :: int
  qr_query :: string
  qr_parameter_mode :: "string option"
  qr_parameters :: "query_parameter list"

text \<open>A query gives an iterator over rows; a column of a row is read as one of four types and may be null.\<close>

record ('i, 'r, 'w) bigquery_ops =
  bq_query :: "string \<Rightarrow> query_request \<Rightarrow> 'w \<Rightarrow> (string + 'i) \<times> 'w"
  bq_next :: "'i \<Rightarrow> 'w \<Rightarrow> (string + ('r \<times> 'i) option) \<times> 'w"
  row_string :: "'r \<Rightarrow> nat \<Rightarrow> string + string option"
  row_i64 :: "'r \<Rightarrow> nat \<Rightarrow> string + int option"
  row_f64 :: "'r \<Rightarrow> nat \<Rightarrow> string + u64 option"
  row_bool :: "'r \<Rightarrow> nat \<Rightarrow> string + bool option"
  f64_finite :: "u64 \<Rightarrow> bool"
  f64_text :: "u64 \<Rightarrow> string"
  json_size :: "(string, json) hashmap \<Rightarrow> nat option"
  de_query_table :: "string \<Rightarrow> query_table_request option"
  ser_rows :: "(string, json) hashmap list \<Rightarrow> string option"

subsection \<open>SQL\<close>

definition MAX_FILTER_DEPTH :: nat where
  "MAX_FILTER_DEPTH = 2"

definition MAX_FILTER_CHILDREN :: nat where
  "MAX_FILTER_CHILDREN = 8"

definition is_valid_identifier :: "string \<Rightarrow> bool" where
  "is_valid_identifier s \<longleftrightarrow> s \<noteq> [] \<and> (is_alpha (hd s) \<or> hd s = CHR ''_'') \<and> list_all ascii_word s"

definition quoted :: "string \<Rightarrow> string" where
  "quoted s = ''`'' @ s @ ''`''"

definition push_value_param ::
  "('i, 'r, 'w) bigquery_ops \<Rightarrow> filter_value \<Rightarrow> query_parameter list \<Rightarrow> bigquery_error + string \<times> query_parameter list" where
  "push_value_param H v params =
     (let name = ''p'' @ decimal (length params);
          push = (\<lambda>ty scalar. Inr (''@'' @ name, params @ [\<lparr>qp_name = name, qp_type = ty, qp_value = scalar\<rparr>]))
      in case v of
           FvString s \<Rightarrow> push ''STRING'' (Some s)
         | FvInteger n \<Rightarrow> push ''INT64'' (Some (show_int n))
         | FvFloat f \<Rightarrow> if \<not> f64_finite H f then Inl (InvalidIdentifier ''invalid float value provided in filter'')
                      else push ''FLOAT64'' (Some (f64_text H f))
         | FvBoolean b \<Rightarrow> push ''BOOL'' (Some (if b then ''true'' else ''false''))
         | FvTimestamp t \<Rightarrow> push ''TIMESTAMP'' (Some t)
         | FvNull \<Rightarrow> push ''STRING'' None)"

fun operator_text :: "filter_operator \<Rightarrow> string" where
  "operator_text OpEq = ''=''"
| "operator_text OpNe = ''!=''"
| "operator_text OpLt = ''<''"
| "operator_text OpLe = ''<=''"
| "operator_text OpGt = ''>''"
| "operator_text OpGe = ''>=''"
| "operator_text OpLike = ''LIKE''"
| "operator_text OpIsNull = ''IS NULL''"
| "operator_text OpIsNotNull = ''IS NOT NULL''"

definition build_condition_sql ::
  "('i, 'r, 'w) bigquery_ops \<Rightarrow> string \<Rightarrow> filter_operator \<Rightarrow> filter_value \<Rightarrow> query_parameter list
     \<Rightarrow> bigquery_error + string \<times> query_parameter list" where
  "build_condition_sql H column op v params =
     (if op = OpIsNull \<or> op = OpIsNotNull then Inr (quoted column @ '' '' @ operator_text op, params)
      else case push_value_param H v params of
             Inl e \<Rightarrow> Inl e
           | Inr (placeholder, params) \<Rightarrow> Inr (quoted column @ '' '' @ operator_text op @ '' '' @ placeholder, params))"

definition children_error :: "string \<Rightarrow> nat \<Rightarrow> bigquery_error" where
  "children_error connective n =
     InvalidFilter (''provided '' @ connective @ '' filter has '' @ decimal n @ '' children, but only '' @ decimal MAX_FILTER_CHILDREN @ '' are allowed'')"

fun build_filter_sql ::
  "('i, 'r, 'w) bigquery_ops \<Rightarrow> filter_tree \<Rightarrow> nat \<Rightarrow> query_parameter list \<Rightarrow> bigquery_error + string \<times> query_parameter list"
and build_filters ::
  "('i, 'r, 'w) bigquery_ops \<Rightarrow> filter_tree list \<Rightarrow> nat \<Rightarrow> query_parameter list \<Rightarrow> bigquery_error + string list \<times> query_parameter list" where
  "build_filter_sql H (FAnd children) depth params =
     (if depth > MAX_FILTER_DEPTH then Inl (InvalidFilter ''provided filter exceeds max depth'')
      else if children = [] then Inl (InvalidFilter ''no children present'')
      else if length children > MAX_FILTER_CHILDREN then Inl (children_error ''AND'' (length children))
      else case build_filters H children (depth + 1) params of
             Inl e \<Rightarrow> Inl e
           | Inr (parts, params) \<Rightarrow> Inr (''('' @ join '' AND '' parts @ '')'', params))"
| "build_filter_sql H (FOr children) depth params =
     (if depth > MAX_FILTER_DEPTH then Inl (InvalidFilter ''provided filter exceeds max depth'')
      else if children = [] then Inl (InvalidFilter ''no children present'')
      else if length children > MAX_FILTER_CHILDREN then Inl (children_error ''OR'' (length children))
      else case build_filters H children (depth + 1) params of
             Inl e \<Rightarrow> Inl e
           | Inr (parts, params) \<Rightarrow> Inr (''('' @ join '' OR '' parts @ '')'', params))"
| "build_filter_sql H (Condition column op v) depth params =
     (if depth > MAX_FILTER_DEPTH then Inl (InvalidFilter ''provided filter exceeds max depth'')
      else if \<not> is_valid_identifier column then Inl (InvalidIdentifier column)
      else build_condition_sql H column op v params)"
| "build_filters H [] depth params = Inr ([], params)"
| "build_filters H (f # fs) depth params =
     (case build_filter_sql H f depth params of
        Inl e \<Rightarrow> Inl e
      | Inr (part, params) \<Rightarrow>
          (case build_filters H fs depth params of Inl e \<Rightarrow> Inl e | Inr (parts, params) \<Rightarrow> Inr (part # parts, params)))"

definition column_sql :: "column \<Rightarrow> string" where
  "column_sql c =
     (case col_function c of
        Some f \<Rightarrow> column_function_fmt f @ ''('' @ quoted (col_identifier c) @ '')''
      | None \<Rightarrow> quoted (col_identifier c))"

definition build_query_string ::
  "('i, 'r, 'w) bigquery_ops \<Rightarrow> string \<Rightarrow> string \<Rightarrow> column list \<Rightarrow> filter_tree option \<Rightarrow> bigquery_error + string \<times> query_parameter list" where
  "build_query_string H dataset table columns flt =
     (if columns = [] then Inl NoColumnsProvided
      else case List.find (\<lambda>c. \<not> is_valid_identifier (col_identifier c)) columns of
             Some c \<Rightarrow> Inl (InvalidIdentifier (col_identifier c))
           | None \<Rightarrow>
               if list_ex (\<lambda>c. col_function c \<noteq> None) columns \<and> length columns > 1
               then Inl (InvalidColumnCombination ''aggregate functions require exactly one column (GROUP BY is not supported)'')
               else
                 let sql = ''SELECT '' @ join '', '' (map column_sql columns) @ '' FROM '' @ quoted dataset @ ''.'' @ quoted table
                 in case flt of
                      None \<Rightarrow> Inr (sql, [])
                    | Some f \<Rightarrow>
                        (case build_filter_sql H f 0 [] of
                           Inl e \<Rightarrow> Inl e
                         | Inr (clause, params) \<Rightarrow> Inr (sql @ '' WHERE '' @ clause, params)))"

definition check_module_permission :: "bigquery \<Rightarrow> plaid_module \<Rightarrow> string \<Rightarrow> string \<Rightarrow> bigquery_error + unit" where
  "check_module_permission B pm dataset table =
     (case hm_get (bq_r B) (mod_name pm) of
        None \<Rightarrow> Inl ModuleNotPermitted
      | Some datasets \<Rightarrow>
          (case hm_get datasets dataset of
             None \<Rightarrow> Inl ModuleNotPermitted
           | Some tables \<Rightarrow> if \<not> list_ex (\<lambda>t. t = table) tables then Inl ModuleNotPermitted else Inr ()))"

definition build_query_request ::
  "('i, 'r, 'w) bigquery_ops \<Rightarrow> bigquery \<Rightarrow> plaid_module \<Rightarrow> query_table_request \<Rightarrow> bigquery_error + query_request" where
  "build_query_request H B pm params =
     (if \<not> is_valid_identifier (qt_dataset params) then Inl (InvalidIdentifier (qt_dataset params))
      else if \<not> is_valid_identifier (qt_table params) then Inl (InvalidIdentifier (qt_table params))
      else case check_module_permission B pm (qt_dataset params) (qt_table params) of
             Inl e \<Rightarrow> Inl e
           | Inr _ \<Rightarrow>
               (case build_query_string H (qt_dataset params) (qt_table params) (qt_columns params) (qt_filter params) of
                  Inl e \<Rightarrow> Inl e
                | Inr (query, query_parameters) \<Rightarrow>
                    Inr \<lparr>qr_timeout_ms = bq_timeout_ms B, qr_query = query,
                         qr_parameter_mode = (if query_parameters = [] then None else Some ''NAMED''), qr_parameters = query_parameters\<rparr>))"

subsection \<open>Rows\<close>

definition decode_column :: "('i, 'r, 'w) bigquery_ops \<Rightarrow> 'r \<Rightarrow> nat \<Rightarrow> column_type \<Rightarrow> string + json" where
  "decode_column H row index col_type =
     (case col_type of
        CtString \<Rightarrow> map_sum id (j_opt JString) (row_string H row index)
      | CtInteger \<Rightarrow> map_sum id (j_opt JInt) (row_i64 H row index)
      | CtFloat \<Rightarrow> map_sum id (\<lambda>v. case v of Some f \<Rightarrow> if f64_finite H f then JFloat f else JNull | None \<Rightarrow> JNull) (row_f64 H row index)
      | CtBoolean \<Rightarrow> map_sum id (j_opt JBool) (row_bool H row index))"

definition decoded_type :: "(string, column_type) hashmap option \<Rightarrow> column \<Rightarrow> column_type" where
  "decoded_type table_schema c =
     (if col_function c = Some CountFn then CtInteger
      else case table_schema of
             None \<Rightarrow> CtString
           | Some s \<Rightarrow> (case hm_get s (col_identifier c) of Some t \<Rightarrow> t | None \<Rightarrow> CtString))"

fun decode_row ::
  "('i, 'r, 'w) bigquery_ops \<Rightarrow> (string, column_type) hashmap option \<Rightarrow> 'r \<Rightarrow> nat \<Rightarrow> column list \<Rightarrow> (string, json) hashmap
     \<Rightarrow> string + (string, json) hashmap" where
  "decode_row H table_schema row i [] m = Inr m"
| "decode_row H table_schema row i (c # cs) m =
     (case decode_column H row i (decoded_type table_schema c) of
        Inl e \<Rightarrow> Inl e
      | Inr v \<Rightarrow> decode_row H table_schema row (Suc i) cs (hm_insert (col_identifier c) v m))"

text \<open>The loop over the rows, with fuel: \<open>Inr None\<close> is a loop that is still running.\<close>

fun read_rows ::
  "nat \<Rightarrow> ('i, 'r, 'w) bigquery_ops \<Rightarrow> bigquery \<Rightarrow> (string, column_type) hashmap option \<Rightarrow> column list \<Rightarrow> 'i \<Rightarrow> nat
     \<Rightarrow> (string, json) hashmap list \<Rightarrow> ('w, (string, json) hashmap list option) api_call" where
  "read_rows 0 H B table_schema columns iter bytes_accumulated rows = ok None"
| "read_rows (Suc fuel) H B table_schema columns iter bytes_accumulated rows =
     and_then (op_call (bq_next H iter) (map_sum (\<lambda>e. BigQueryError (BqIterError e)) id)) (\<lambda>r.
     case r of
       None \<Rightarrow> ok (Some rows)
     | Some (row, iter) \<Rightarrow>
         and_then (lift (map_sum (\<lambda>e. BigQueryError (BqRowError e)) id (decode_row H table_schema row 0 columns []))) (\<lambda>m.
         and_then (ok_or ImpossibleError (json_size H m)) (\<lambda>n.
         if bytes_accumulated + n > bq_max_response_size B then err (BigQueryError BqResponseTooLarge)
         else read_rows fuel H B table_schema columns iter (bytes_accumulated + n) (rows @ [m]))))"

definition query_table ::
  "nat \<Rightarrow> ('i, 'r, 'w) bigquery_ops \<Rightarrow> bigquery \<Rightarrow> string \<Rightarrow> plaid_module \<Rightarrow> ('w, string option) api_call" where
  "query_table fuel H B params pm =
     and_then (ok_or BadRequest (de_query_table H params)) (\<lambda>params.
     and_then (lift (map_sum BigQueryError id (build_query_request H B pm params))) (\<lambda>query_request.
     and_then (send_call (\<lambda>(pid, q). bq_query H pid q) (map_sum (\<lambda>e. BigQueryError (BqQueryError e)) id) (bq_project_id B, query_request)) (\<lambda>iter.
     let table_schema = (case hm_get (bq_schemas B) (qt_dataset params) of Some d \<Rightarrow> hm_get d (qt_table params) | None \<Rightarrow> None)
     in and_then (read_rows fuel H B table_schema (qt_columns params) iter 0 []) (\<lambda>rows.
        case rows of
          None \<Rightarrow> ok None
        | Some rows \<Rightarrow> and_then (ok_or ImpossibleError (ser_rows H rows)) (\<lambda>s. ok (Some s))))))"

subsection \<open>The shape of the SQL\<close>

text \<open>
  A query as tokens: fixed words, quoted identifiers and placeholders. A clause has only the words below, and identifiers
  that are valid.
\<close>

datatype sql_token = SqlWord string | SqlIdent string | SqlParam nat

fun token_text :: "sql_token \<Rightarrow> string" where
  "token_text (SqlWord w) = w"
| "token_text (SqlIdent s) = quoted s"
| "token_text (SqlParam n) = ''@p'' @ decimal n"

definition clause_words :: "string list" where
  "clause_words = ['', '', ''('', '')'', '' AND '', '' OR '', '' '', '' IS NULL'', '' IS NOT NULL'', ''='', ''!='', ''<'', ''<='', ''>'', ''>='', ''LIKE'',
     ''COUNT'', ''MAX'', ''MIN'']"

fun clause_token :: "sql_token \<Rightarrow> bool" where
  "clause_token (SqlWord w) = (w \<in> set clause_words)"
| "clause_token (SqlIdent s) = is_valid_identifier s"
| "clause_token (SqlParam n) = True"

fun placeholder :: "sql_token \<Rightarrow> nat list" where
  "placeholder (SqlParam n) = [n]"
| "placeholder _ = []"

definition sql_text :: "sql_token list \<Rightarrow> string" where
  "sql_text ts = concat (map token_text ts)"

definition placeholders :: "sql_token list \<Rightarrow> nat list" where
  "placeholders ts = concat (map placeholder ts)"

lemma sql_text_simps [simp]:
  "sql_text [] = []" "sql_text (t # ts) = token_text t @ sql_text ts" "sql_text (ts @ ts') = sql_text ts @ sql_text ts'"
  by (simp_all add: sql_text_def)

lemma placeholders_simps [simp]:
  "placeholders [] = []" "placeholders (t # ts) = placeholder t @ placeholders ts" "placeholders (ts @ ts') = placeholders ts @ placeholders ts'"
  by (simp_all add: placeholders_def)

text \<open>\<open>renders s ns\<close>: the text \<open>s\<close> is that of a clause whose placeholders are \<open>ns\<close>.\<close>

definition renders :: "string \<Rightarrow> nat list \<Rightarrow> bool" where
  "renders s ns \<longleftrightarrow> (\<exists>ts. s = sql_text ts \<and> list_all clause_token ts \<and> placeholders ts = ns)"

lemma renders_token: "clause_token t \<Longrightarrow> renders (token_text t) (placeholder t)"
  unfolding renders_def by (intro exI [of _ "[t]"]) simp

lemma renders_append: "renders s ns \<Longrightarrow> renders s' ns' \<Longrightarrow> renders (s @ s') (ns @ ns')"
  unfolding renders_def by (metis list_all_append placeholders_simps(3) sql_text_simps(3))

lemma renders_word: "w \<in> set clause_words \<Longrightarrow> renders w []"
  using renders_token [of "SqlWord w"] by simp

lemma renders_quoted: "is_valid_identifier c \<Longrightarrow> renders (quoted c) []"
  using renders_token [of "SqlIdent c"] by simp

lemma renders_join:
  assumes "sep \<in> set clause_words" and "list_all2 renders parts nss"
  shows "renders (join sep parts) (concat nss)"
  using assms(2)
proof (induction parts nss rule: list_all2_induct)
  case Nil
  show ?case unfolding renders_def by (intro exI [of _ "[]"]) simp
next
  case (Cons s ss ns nss)
  show ?case
  proof (cases ss)
    case Nil
    then show ?thesis using Cons by simp
  next
    case (Cons a as)
    then have "join sep (s # ss) = s @ sep @ join sep ss" by simp
    then show ?thesis
      using renders_append [OF \<open>renders s ns\<close> renders_append [OF renders_word [OF assms(1)] \<open>renders (join sep ss) (concat nss)\<close>]] by simp
  qed
qed

lemma renders_group: "renders s ns \<Longrightarrow> renders (''('' @ s @ '')'') ns"
  using renders_append [OF renders_word [of "''(''"] renders_append [OF _ renders_word [of "'')''"]]] by (simp add: clause_words_def)

definition numbered :: "query_parameter list \<Rightarrow> bool" where
  "numbered ps \<longleftrightarrow> map qp_name ps = map (\<lambda>i. ''p'' @ decimal i) [0..<length ps]"

lemma push_value_param_numbered:
  "push_value_param H v ps = Inr (s, ps') \<Longrightarrow> numbered ps \<Longrightarrow> s = ''@p'' @ decimal (length ps) \<and> length ps' = Suc (length ps) \<and> numbered ps'"
  by (auto simp: push_value_param_def Let_def numbered_def split: filter_value.splits if_splits)

lemma build_condition_sql_renders:
  assumes "build_condition_sql H c op v ps = Inr (s, ps')" and "is_valid_identifier c" and "numbered ps"
  shows "renders s [length ps..<length ps'] \<and> numbered ps' \<and> length ps' \<le> Suc (length ps) \<and> length ps \<le> length ps'"
proof (cases "op = OpIsNull \<or> op = OpIsNotNull")
  case True
  then have "s = quoted c @ ('' '' @ operator_text op)" "ps' = ps" "'' '' @ operator_text op \<in> set clause_words"
    using assms(1) by (auto simp: build_condition_sql_def clause_words_def)
  then show ?thesis
    using renders_append [OF renders_quoted [OF assms(2)] renders_word] assms(3) by fastforce
next
  case False
  then obtain t where t: "push_value_param H v ps = Inr (t, ps')" "s = quoted c @ '' '' @ operator_text op @ '' '' @ t"
    using assms(1) by (auto simp: build_condition_sql_def split: sum.splits)
  note p = push_value_param_numbered [OF t(1) assms(3)]
  have words: "operator_text op \<in> set clause_words" "'' '' \<in> set clause_words" using False by (cases op; simp add: clause_words_def)+
  have "renders t [length ps]" using p renders_token [of "SqlParam (length ps)"] by simp
  then have "renders s [length ps]"
    using renders_append [OF renders_quoted [OF assms(2)] renders_append [OF renders_word [OF words(2)]
        renders_append [OF renders_word [OF words(1)] renders_append [OF renders_word [OF words(2)]]]]] t(2) by fastforce
  then show ?thesis using p by (simp add: upt_rec)
qed

lemma renders_connective:
  assumes "(\<exists>nss. list_all2 renders parts nss \<and> concat nss = [length ps..<length ps']) \<and> numbered ps' \<and> length ps \<le> length ps'
      \<and> (fs \<noteq> [] \<longrightarrow> d + 1 \<le> 2) \<and> length ps' \<le> length ps + length fs * 8 ^ (2 - (d + 1))"
    and "fs \<noteq> []" and "length fs \<le> 8" and "sep \<in> set clause_words"
  shows "renders (''('' @ join sep parts @ '')'') [length ps..<length ps'] \<and> numbered ps' \<and> length ps \<le> length ps' \<and> d \<le> 2
    \<and> length ps' \<le> length ps + 8 ^ (2 - d)"
proof -
  have "length fs * 8 ^ (2 - (d + 1)) \<le> 8 * 8 ^ (2 - (d + 1))" using assms(3) by simp
  also have "\<dots> = 8 ^ Suc (2 - (d + 1))" by simp
  also have "Suc (2 - (d + 1)) = 2 - d" using assms(1,2) by arith
  finally show ?thesis using assms renders_group [OF renders_join [OF assms(4)]] by fastforce
qed

lemma build_filter_sql_renders:
  "build_filter_sql H f d ps = Inr (s, ps') \<Longrightarrow> numbered ps \<Longrightarrow>
     renders s [length ps..<length ps'] \<and> numbered ps' \<and> length ps \<le> length ps' \<and> d \<le> 2 \<and> length ps' \<le> length ps + 8 ^ (2 - d)"
  "build_filters H fs d ps = Inr (parts, ps') \<Longrightarrow> numbered ps \<Longrightarrow>
     (\<exists>nss. list_all2 renders parts nss \<and> concat nss = [length ps..<length ps']) \<and> numbered ps' \<and> length ps \<le> length ps'
     \<and> (fs \<noteq> [] \<longrightarrow> d \<le> 2) \<and> length ps' \<le> length ps + length fs * 8 ^ (2 - d)"
proof (induction H f d ps and H fs d ps arbitrary: s ps' and parts ps' rule: build_filter_sql_build_filters.induct)
  case (1 H children depth params)
  then obtain parts where parts: "build_filters H children (depth + 1) params = Inr (parts, ps')" "s = ''('' @ join '' AND '' parts @ '')''"
      "children \<noteq> []" "length children \<le> 8" "\<not> depth > MAX_FILTER_DEPTH" "\<not> length children > MAX_FILTER_CHILDREN"
    by (auto simp: MAX_FILTER_CHILDREN_def split: if_splits sum.splits)
  show ?case unfolding parts(2)
    by (rule renders_connective [OF 1(1) [OF parts(5) parts(3) parts(6) parts(1) 1(3)] parts(3,4)]) (simp add: clause_words_def)
next
  case (2 H children depth params)
  then obtain parts where parts: "build_filters H children (depth + 1) params = Inr (parts, ps')" "s = ''('' @ join '' OR '' parts @ '')''"
      "children \<noteq> []" "length children \<le> 8" "\<not> depth > MAX_FILTER_DEPTH" "\<not> length children > MAX_FILTER_CHILDREN"
    by (auto simp: MAX_FILTER_CHILDREN_def split: if_splits sum.splits)
  show ?case unfolding parts(2)
    by (rule renders_connective [OF 2(1) [OF parts(5) parts(3) parts(6) parts(1) 2(3)] parts(3,4)]) (simp add: clause_words_def)
next
  case (3 H column op v depth params)
  then have "depth \<le> 2" "is_valid_identifier column" "build_condition_sql H column op v params = Inr (s, ps')"
    by (auto simp: MAX_FILTER_DEPTH_def split: if_splits)
  then show ?case using build_condition_sql_renders [OF _ _ 3(2)] by (metis add_Suc_right add_leD2 le_add1 le_trans one_le_numeral one_le_power plus_1_eq_Suc add.commute nat_add_left_cancel_le)
next
  case (4 H depth params)
  then show ?case by (auto intro: exI [of _ "[]"])
next
  case (5 H f fs depth params)
  then obtain part qs rest where first: "build_filter_sql H f depth params = Inr (part, qs)"
    and rest: "build_filters H fs depth qs = Inr (rest, ps')" "parts = part # rest"
    by (auto split: sum.splits)
  note A = 5(1) [OF first 5(4)]
  with 5(2) [OF first refl rest(1)] obtain nss where B: "list_all2 renders rest nss" "concat nss = [length qs..<length ps']" "numbered ps'"
      "length qs \<le> length ps'" "length ps' \<le> length qs + length fs * 8 ^ (2 - depth)"
    by blast
  have "concat ([length params..<length qs] # nss) = [length params..<length ps']"
    using A B(2,4) upt_add_eq_append [of "length params" "length qs" "length ps' - length qs"] by simp
  moreover have "list_all2 renders parts ([length params..<length qs] # nss)" using A B rest(2) by simp
  ultimately show ?case using A B by (intro conjI exI) auto
qed

lemma renders_columns:
  assumes "list_all (\<lambda>c. is_valid_identifier (col_identifier c)) columns"
  shows "renders (join '', '' (map column_sql columns)) []"
proof -
  have column: "renders (column_sql c) []" if "is_valid_identifier (col_identifier c)" for c
  proof (cases "col_function c")
    case None
    then show ?thesis using renders_quoted [OF that] by (simp add: column_sql_def)
  next
    case (Some f)
    then have "renders (column_function_fmt f) []" by (cases f) (simp_all add: renders_word clause_words_def)
    from renders_append [OF this renders_group [OF renders_quoted [OF that]]] Some show ?thesis by (simp add: column_sql_def)
  qed
  have "list_all2 renders (map column_sql columns) (replicate (length columns) [])"
    using assms column by (simp add: list_all2_conv_all_nth list_all_length)
  from renders_join [OF _ this, of "'', ''"] show ?thesis by (simp add: clause_words_def)
qed

subsection \<open>What a call may do\<close>

definition table_granted :: "bigquery \<Rightarrow> plaid_module \<Rightarrow> string \<Rightarrow> string \<Rightarrow> bool" where
  "table_granted B pm dataset table \<longleftrightarrow>
     (\<exists>datasets tables. hm_get (bq_r B) (mod_name pm) = Some datasets \<and> hm_get datasets dataset = Some tables \<and> table \<in> set tables)"

lemma check_module_permission_granted: "check_module_permission B pm dataset table = Inr u \<longleftrightarrow> table_granted B pm dataset table"
  by (auto simp: check_module_permission_def table_granted_def list_ex_iff split: option.split)

text \<open>
  A query that is permitted to a rule selects from a table granted to it; the rest of its text is a list of columns and at
  most one condition, whose placeholders are, in order, those of its parameters, of which there are at most 64.
\<close>

definition query_permitted :: "bigquery \<Rightarrow> plaid_module \<Rightarrow> string \<times> query_request \<Rightarrow> bool" where
  "query_permitted B pm = (\<lambda>(project, q).
     project = bq_project_id B \<and> numbered (qr_parameters q) \<and> length (qr_parameters q) \<le> 64 \<and>
     (\<exists>dataset table columns condition. table_granted B pm dataset table \<and> is_valid_identifier dataset \<and> is_valid_identifier table
        \<and> renders columns [] \<and> (condition = [] \<and> qr_parameters q = [] \<or> (\<exists>clause. condition = '' WHERE '' @ clause \<and> renders clause [0..<length (qr_parameters q)]))
        \<and> qr_query q = ''SELECT '' @ columns @ '' FROM '' @ quoted dataset @ ''.'' @ quoted table @ condition))"

lemma build_query_string_renders:
  assumes "build_query_string H dataset table columns flt = Inr (sql, params)"
  shows "\<exists>cs condition. sql = ''SELECT '' @ cs @ '' FROM '' @ quoted dataset @ ''.'' @ quoted table @ condition \<and> renders cs []
    \<and> (condition = [] \<and> params = [] \<or> (\<exists>clause. condition = '' WHERE '' @ clause \<and> renders clause [0..<length params]))
    \<and> numbered params \<and> length params \<le> 64"
proof -
  have valid: "list_all (\<lambda>c. is_valid_identifier (col_identifier c)) columns"
    using assms by (auto simp: build_query_string_def find_None_iff list_all_iff split: if_splits option.splits)
  note cs = renders_columns [OF valid]
  show ?thesis
  proof (cases flt)
    case None
    then have "sql = ''SELECT '' @ join '', '' (map column_sql columns) @ '' FROM '' @ quoted dataset @ ''.'' @ quoted table @ []" "params = []"
      using assms by (auto simp: build_query_string_def Let_def split: if_splits option.splits)
    then show ?thesis using cs by (intro exI conjI) (auto simp: numbered_def)
  next
    case (Some f)
    then obtain clause where clause: "build_filter_sql H f 0 [] = Inr (clause, params)"
      and sql: "sql = ''SELECT '' @ join '', '' (map column_sql columns) @ '' FROM '' @ quoted dataset @ ''.'' @ quoted table @ '' WHERE '' @ clause"
      using assms by (auto simp: build_query_string_def Let_def split: if_splits option.splits sum.splits)
    have "renders clause [0..<length params] \<and> numbered params \<and> length params \<le> 64"
      using build_filter_sql_renders(1) [OF clause] by (simp add: numbered_def)
    then show ?thesis using cs sql by blast
  qed
qed

lemma build_query_request_permitted:
  assumes "build_query_request H B pm params = Inr q"
  shows "query_permitted B pm (bq_project_id B, q)"
proof -
  have valid: "is_valid_identifier (qt_dataset params)" "is_valid_identifier (qt_table params)"
    using assms by (auto simp: build_query_request_def split: if_splits)
  then obtain u sql ps where granted: "check_module_permission B pm (qt_dataset params) (qt_table params) = Inr u"
    and built: "build_query_string H (qt_dataset params) (qt_table params) (qt_columns params) (qt_filter params) = Inr (sql, ps)"
    and q: "qr_query q = sql" "qr_parameters q = ps"
    using assms by (auto simp: build_query_request_def split: sum.splits)
  obtain cs condition where "sql = ''SELECT '' @ cs @ '' FROM '' @ quoted (qt_dataset params) @ ''.'' @ quoted (qt_table params) @ condition" "renders cs []"
      "condition = [] \<and> ps = [] \<or> (\<exists>clause. condition = '' WHERE '' @ clause \<and> renders clause [0..<length ps])" "numbered ps" "length ps \<le> 64"
    using build_query_string_renders [OF built] by blast
  then show ?thesis
    using granted valid unfolding query_permitted_def check_module_permission_granted prod.case q
    by (intro conjI exI [of _ "qt_dataset params"] exI [of _ "qt_table params"] exI [of _ cs] exI [of _ condition]) simp_all
qed

inductive bigquery_step :: "('i, 'r, 'w) bigquery_ops \<Rightarrow> bigquery \<Rightarrow> bool \<Rightarrow> plaid_module \<Rightarrow> 'w \<Rightarrow> 'w \<Rightarrow> bool" for H B test pm where
  queries: "query_permitted B pm (project, q) \<Longrightarrow> bigquery_step H B test pm w (snd (bq_query H project q w))"
| fetches: "bigquery_step H B test pm w (snd (bq_next H iter w))"

lemma does_read_rows: "does (bigquery_step H B test pm) (read_rows fuel H B table_schema columns iter n rows) (\<lambda>_. True)"
proof (induction fuel arbitrary: iter n rows)
  case 0
  show ?case by (simp add: does_ok)
next
  case (Suc fuel)
  show ?case
    unfolding read_rows.simps
    by (intro does_intros does_then_op_call fetches Suc) simp_all
qed

lemma does_bq_query:
  assumes "query_permitted B pm (project, q)"
  shows "does (bigquery_step H B test pm) (send_call (\<lambda>(project, q). bq_query H project q) answer (project, q)) (\<lambda>_. True)"
  by (rule does_weaken [OF does_send_call [where P = "query_permitted B pm" and Q = "\<lambda>_. True"]])
    (use assms in \<open>auto simp: sends_def intro: queries\<close>)

lemma query_table_does: "does (bigquery_step H B test pm) (query_table fuel H B params pm) (\<lambda>_. True)"
  unfolding query_table_def Let_def
  by (intro does_intros does_then_any [OF does_bq_query] does_then_any [OF does_read_rows])
    (auto intro: build_query_request_permitted simp: map_sum_def split: sum.splits)

definition bigquery_string_functions where
  "bigquery_string_functions fuel H B params pm =
     [(''query_table'', and_then (query_table fuel H B params pm) (\<lambda>r. ok_or ImpossibleError r))]"

definition with_bigquery where
  "with_bigquery fuel H B = with_service ''gcp'' (Some ''bigquery'') (\<lambda>_ _. []) (bigquery_string_functions fuel H B)"

definition bigquery_functions :: "api_decl list" where
  "bigquery_functions = filter (\<lambda>d. decl_sub_module d = Some ''bigquery'') gcp_functions"

interpretation bigquery: read_only_service "''gcp''" "Some ''bigquery''" "\<lambda>_ _. []" "bigquery_string_functions fuel H B" bigquery_functions "bigquery_step H B"
  for fuel H B
  by unfold_locales
    (auto simp: bigquery_functions_def gcp_functions_def sub_fn_def bigquery_string_functions_def
      intro: does_intros does_then_any query_table_does elim!: bigquery_step.cases intro: queries fetches)

subsection \<open>Properties\<close>

text \<open>
  C38. BigQuery is queried only as configured, and nothing a rule passes can change the meaning of the SQL. Whatever a rule
  passes, every query that is sent selects from a table granted to the rule. Apart from the fixed words of a query its
  text holds only valid identifiers in backquotes and placeholders, one for each parameter and in their order; values
  never become part of the text. There are at most 64 parameters.
\<close>

theorem bigquery_queries_safe:
  assumes "d \<in> set bigquery_functions" and "w' = snd (snd (host_call W (with_bigquery fuel H B A) d env p n rp rn w))"
  shows "(bigquery_step H B (test_mode (env_module env)) (env_module env))\<^sup>*\<^sup>* w w'"
  unfolding assms(2) with_bigquery_def by (rule bigquery.host_call_steps [OF assms(1)])

definition sample_bigquery_ops :: "(nat, nat, query_request list) bigquery_ops" where
  "sample_bigquery_ops =
     \<lparr>bq_query = (\<lambda>_ q w. (Inr 0, q # w)), bq_next = (\<lambda>i w. (Inr (Some (i, Suc i)), w)), row_string = (\<lambda>_ _. Inr (Some ''x'')),
      row_i64 = (\<lambda>_ _. Inr (Some 1)), row_f64 = (\<lambda>_ _. Inr None), row_bool = (\<lambda>_ _. Inr (Some True)), f64_finite = (\<lambda>_. True),
      f64_text = (\<lambda>_. ''0.5''), json_size = (\<lambda>m. Some (2 + length m)),
      de_query_table = (\<lambda>_. Some \<lparr>qt_dataset = ''d'', qt_table = ''t'', qt_columns = [\<lparr>col_identifier = ''c'', col_function = Some CountFn\<rparr>],
         qt_filter = Some (FAnd [Condition ''c'' OpEq (FvString ''a; DROP''), Condition ''c'' OpIsNull FvNull])\<rparr>),
      ser_rows = (\<lambda>_. Some ''[]'')\<rparr>"

definition sample_bigquery :: bigquery where
  "sample_bigquery = \<lparr>bq_project_id = ''p'', bq_r = [(''m.wasm'', [(''d'', [''t''])])], bq_schemas = [], bq_timeout_ms = 5000, bq_max_response_size = 2\<rparr>"

theorem bigquery_queries_safe_witness:
  "let d = sub_fn ''gcp'' ''bigquery'' ''query_table'' True ALLOW_IN_TEST_MODE;
       w' = snd (snd (host_call flat_ops (with_bigquery 1 sample_bigquery_ops sample_bigquery idle_services) d sample_caller 0 0 0 4 []))
   in map qr_query w' = [''SELECT COUNT(`c`) FROM `d`.`t` WHERE (`c` = @p0 AND `c` IS NULL)'']
    \<and> (bigquery_step sample_bigquery_ops sample_bigquery (test_mode (env_module sample_caller)) (env_module sample_caller))\<^sup>*\<^sup>* [] w'"
proof -
  let ?d = "sub_fn ''gcp'' ''bigquery'' ''query_table'' True ALLOW_IN_TEST_MODE"
  have "?d \<in> set bigquery_functions" by (simp add: bigquery_functions_def gcp_functions_def sub_fn_def)
  note bigquery_queries_safe [OF this refl, where W = flat_ops and fuel = 1 and H = sample_bigquery_ops and B = sample_bigquery and A = idle_services
      and env = sample_caller and p = 0 and n = 0 and rp = 0 and rn = 4 and w = "[]"]
  moreover have "map qr_query (snd (snd (host_call flat_ops (with_bigquery 1 sample_bigquery_ops sample_bigquery idle_services) ?d sample_caller 0 0 0 4 [])))
      = [''SELECT COUNT(`c`) FROM `d`.`t` WHERE (`c` = @p0 AND `c` IS NULL)'']"
  proof -
    have "decimal 0 = ''0''" by code_simp
    then show ?thesis
      by (simp add: host_call_def api_function_buffer_def api_prologue_def with_bigquery_def with_service_def sub_fn_def bigquery_string_functions_def
          query_table_def build_query_request_def check_module_permission_def build_query_string_def build_condition_sql_def push_value_param_def
          is_valid_identifier_def ascii_word_def is_alnum_def is_alpha_def between_def quoted_def column_sql_def MAX_FILTER_DEPTH_def MAX_FILTER_CHILDREN_def
          call_defs send_call_def op_call_def decode_column_def decoded_type_def j_opt_def hm_get_def hm_insert_def
          sample_bigquery_ops_def sample_bigquery_def idle_services_def
          sample_caller_def sample_env_def sample_module_def get_memory_def safely_get_string_def flat_read_string_def flat_read_def
          safely_write_data_back_def flat_write_def Let_def as_bytes_def ALLOW_IN_TEST_MODE_def)
  qed
  ultimately show ?thesis by (simp add: Let_def)
qed

lemma read_rows_returns:
  assumes "\<And>m k. json_size H m = Some k \<Longrightarrow> 0 < k"
  shows "n \<le> bq_max_response_size B \<Longrightarrow> bq_max_response_size B < fuel + n \<Longrightarrow>
    fst (read_rows fuel H B table_schema columns iter n rows w) \<noteq> Inr None"
proof (induction fuel arbitrary: iter n rows w)
  case 0
  then show ?case by simp
next
  case (Suc fuel)
  have "fst ((case r of
       None \<Rightarrow> ok (Some rows)
     | Some (row, iter) \<Rightarrow>
         and_then (lift (map_sum (\<lambda>e. BigQueryError (BqRowError e)) id (decode_row H table_schema row 0 columns []))) (\<lambda>m.
         and_then (ok_or ImpossibleError (json_size H m)) (\<lambda>k.
         if n + k > bq_max_response_size B then err (BigQueryError BqResponseTooLarge)
         else read_rows fuel H B table_schema columns iter (n + k) (rows @ [m])))) v) \<noteq> Inr None" for r v
  proof (cases r)
    case None
    then show ?thesis by (simp add: call_defs)
  next
    case (Some x)
    have "fst ((if n + k > bq_max_response_size B then err (BigQueryError BqResponseTooLarge)
         else read_rows fuel H B table_schema columns iter' (n + k) rows') u) \<noteq> Inr None"
      if "json_size H m = Some k" for iter' rows' m k u
      using Suc.IH [of "n + k"] Suc.prems assms [OF that] by (simp add: call_defs)
    then show ?thesis using Some
      by (cases x) (simp, intro and_then_not_None, auto simp: ok_or_Inr)
  qed
  then show ?case unfolding read_rows.simps by (rule and_then_not_None)
qed

text \<open>
  C39. A query returns, whatever BigQuery streams. Every row counts at least one byte towards the limit on the size of the
  response, so the loop over the rows ends after at most as many rows as the limit has bytes, and one.
\<close>

theorem query_table_returns:
  assumes "\<forall>m k. json_size H m = Some k \<longrightarrow> 0 < k" and "bq_max_response_size B < fuel"
  shows "fst (query_table fuel H B params pm w) \<noteq> Inr None"
proof -
  have loop: "fst (read_rows fuel H B ts cs iter 0 [] v) \<noteq> Inr None" for ts cs iter v
    using assms by (intro read_rows_returns) auto
  have loop_result: "r \<noteq> None" if "read_rows fuel H B ts cs iter 0 [] v = (Inr r, v')" for ts cs iter v r v'
    using loop [of ts cs iter v] that by auto
  show ?thesis
    unfolding query_table_def Let_def
    by (intro and_then_not_None) (auto simp: ok_or_Inr call_defs(1-3) intro!: and_then_not_None split: option.split dest!: loop_result)
qed

theorem query_table_returns_witness:
  "fst (query_table 3 sample_bigquery_ops sample_bigquery [] (sample_module ''m.wasm'' Unlimited 0) []) \<noteq> Inr None"
  by (rule query_table_returns) (auto simp: sample_bigquery_ops_def sample_bigquery_def)

end
