(* ===== verification/Plaid_Docs.thy ===== *)
theory Plaid_Docs
  imports Plaid_Api
begin

text \<open>
  The Google Docs service, \<^verbatim>\<open>runtime/plaid/src/apis/gcp/google_docs.rs\<close>, with the inputs of
  \<^verbatim>\<open>runtime/plaid-stl/src/gcp/google_docs.rs\<close>. The cached access token is part of the world a call acts on. The HTTP client,
  JSON, the Markdown renderer and the clock are parameters; instants are nanoseconds, without the bound of the clock.
\<close>

subsection \<open>Inputs\<close>

record create_folder_input =
  cfi_parent_id :: string
  cfi_name :: string

record copy_file_input =
  cpi_parent_id :: string
  cpi_file_id :: string
  cpi_name :: string

record upload_file_input =
  ufi_parent_id :: string
  ufi_name :: string
  ufi_content :: string
  ufi_source_mime :: string
  ufi_target_mime :: string

record create_doc_from_markdown_input =
  cdm_parent_id :: string
  cdm_name :: string
  cdm_content :: string

record create_sheet_from_csv_input =
  csc_parent_id :: string
  csc_name :: string
  csc_content :: string

record google_docs =
  gd_client_id :: string
  gd_client_secret :: string
  gd_refresh_token :: string
  gd_rw :: "(string, string list) hashmap"
  gd_r :: "(string, string list) hashmap"

record 'w docs_ops =
  docs_send :: "http_request \<Rightarrow> 'w \<Rightarrow> http_response \<times> 'w"
  instant_now :: "'w \<Rightarrow> nat \<times> 'w"
  docs_json :: "string \<Rightarrow> string + json"
  docs_show :: "json \<Rightarrow> string"
  docs_to_string :: "json \<Rightarrow> string + string"
  bad_mime :: "string \<Rightarrow> string option"
  push_html :: "bool \<Rightarrow> bool \<Rightarrow> string \<Rightarrow> string"
  de_create_folder :: "string \<Rightarrow> string + create_folder_input"
  de_copy_file :: "string \<Rightarrow> string + copy_file_input"
  de_upload_file :: "string \<Rightarrow> string + upload_file_input"
  de_create_doc :: "string \<Rightarrow> string + create_doc_from_markdown_input"
  de_create_sheet :: "string \<Rightarrow> string + create_sheet_from_csv_input"
  ser_upload_file :: "upload_file_input \<Rightarrow> string + string"
  de_upload_output :: "string \<Rightarrow> string + string"

definition TOKEN_URL :: string where
  "TOKEN_URL = ''https://oauth2.googleapis.com/token''"

definition DRIVE_UPLOAD_URL :: string where
  "DRIVE_UPLOAD_URL = ''https://www.googleapis.com/upload/drive/v3/files?uploadType=multipart''"

definition DRIVE_API_URL :: string where
  "DRIVE_API_URL = ''https://www.googleapis.com/drive/v3/files''"

subsection \<open>Permissions\<close>

definition docs_check_module_permissions :: "google_docs \<Rightarrow> access_scope \<Rightarrow> plaid_module \<Rightarrow> string \<Rightarrow> api_error + unit" where
  "docs_check_module_permissions D access_scope pm resource_id =
     (case access_scope of
        Read \<Rightarrow>
          if listed (gd_r D) resource_id pm then Inr ()
          else if listed (gd_rw D) resource_id pm then Inr ()
          else Inl BadRequest
      | Write \<Rightarrow> if listed (gd_rw D) resource_id pm then Inr () else Inl BadRequest)"

subsection \<open>The access token\<close>

type_synonym 'w docs_world = "(string \<times> nat) option \<times> 'w"

definition docs_post :: "'w docs_ops \<Rightarrow> http_request \<Rightarrow> 'w docs_world \<Rightarrow> http_response \<times> 'w docs_world" where
  "docs_post H r = (\<lambda>(cache, w). case docs_send H r w of (a, w') \<Rightarrow> (a, cache, w'))"

definition docs_now :: "'w docs_ops \<Rightarrow> 'w docs_world \<Rightarrow> nat \<times> 'w docs_world" where
  "docs_now H = (\<lambda>(cache, w). case instant_now H w of (t, w') \<Rightarrow> (t, cache, w'))"

definition reqwest_error :: "string \<Rightarrow> api_error" where
  "reqwest_error e = GoogleDocsError (DocsReqwest e)"

definition response_json :: "'w docs_ops \<Rightarrow> string + string \<Rightarrow> api_error + json" where
  "response_json H text =
     (case text of
        Inl e \<Rightarrow> Inl (reqwest_error e)
      | Inr t \<Rightarrow> (case docs_json H t of Inl e \<Rightarrow> Inl (reqwest_error e) | Inr v \<Rightarrow> Inr v))"

definition answer_json :: "'w docs_ops \<Rightarrow> (string \<Rightarrow> google_docs_error) \<Rightarrow> http_response \<Rightarrow> api_error + json" where
  "answer_json H failed a =
     (case a of
        Inl e \<Rightarrow> Inl (reqwest_error e)
      | Inr (status, text) \<Rightarrow>
          if \<not> (status \<ge> 200 \<and> status < 300) then
            (case text of Inl e \<Rightarrow> Inl (reqwest_error e) | Inr t \<Rightarrow> Inl (GoogleDocsError (failed t)))
          else response_json H text)"

definition string_field :: "string \<Rightarrow> json \<Rightarrow> api_error + string" where
  "string_field k v =
     (case Option.bind (json_get k v) json_as_str of Some s \<Rightarrow> Inr s | None \<Rightarrow> Inl (GoogleDocsError (MissingField k)))"

definition token_request :: "google_docs \<Rightarrow> http_request" where
  "token_request D = (http POST TOKEN_URL)\<lparr>hq_body := FormBody [(''client_id'', gd_client_id D), (''client_secret'', gd_client_secret D),
     (''refresh_token'', gd_refresh_token D), (''grant_type'', ''refresh_token'')]\<rparr>"

definition cached_token :: "'w docs_ops \<Rightarrow> ('w docs_world, string option) api_call" where
  "cached_token H = (\<lambda>(cache, w).
     case cache of
       None \<Rightarrow> (Inr None, cache, w)
     | Some (token, expiry) \<Rightarrow> (case instant_now H w of (now, w') \<Rightarrow> (Inr (if now < expiry then Some token else None), cache, w')))"

definition store_token :: "string \<Rightarrow> nat \<Rightarrow> ('w docs_world, string) api_call" where
  "store_token token expiry = (\<lambda>(cache, w). (Inr token, Some (token, expiry), w))"

definition refresh_access_token :: "'w docs_ops \<Rightarrow> google_docs \<Rightarrow> ('w docs_world, string) api_call" where
  "refresh_access_token H D =
     and_then (cached_token H) (\<lambda>cached.
     case cached of
       Some token \<Rightarrow> ok token
     | None \<Rightarrow>
         and_then (send_call (docs_post H) (answer_json H (\<lambda>t. OAuth (''Token refresh failed: '' @ t))) (token_request D)) (\<lambda>v.
         and_then (lift (string_field ''access_token'' v)) (\<lambda>access_token.
         let expires_in = (case Option.bind (json_get ''expires_in'' v) json_as_u64 of Some n \<Rightarrow> n | None \<Rightarrow> 3600)
         in and_then (op_call (docs_now H) Inr) (\<lambda>now. store_token access_token (now + (unat expires_in - 60) * 1000000000)))))"

subsection \<open>Functions\<close>

definition markdown_to_html :: "'w docs_ops \<Rightarrow> string \<Rightarrow> string" where
  "markdown_to_html H md = (let enable_tables = True; enable_footnotes = True in push_html H enable_tables enable_footnotes md)"

definition serde_error :: "string + 'a \<Rightarrow> api_error + 'a" where
  "serde_error r = map_sum SerdeError id r"

definition bearer :: "string \<Rightarrow> http_request \<Rightarrow> http_request" where
  "bearer token r = r\<lparr>hq_headers := (''Authorization'', ''Bearer '' @ token) # hq_headers r\<rparr>"

definition drive_call :: "'w docs_ops \<Rightarrow> google_docs \<Rightarrow> string \<Rightarrow> http_request \<Rightarrow> ('w docs_world, string) api_call" where
  "drive_call H D what r =
     and_then (refresh_access_token H D) (\<lambda>access_token.
     and_then (send_call (docs_post H) (answer_json H (\<lambda>t. GoogleApi (what @ '' failed: '' @ t))) (bearer access_token r)) (\<lambda>v.
     lift (string_field ''id'' v)))"

definition output_id :: "'w docs_ops \<Rightarrow> string \<Rightarrow> string \<Rightarrow> ('v, string) api_call" where
  "output_id H field i = lift (serde_error (docs_to_string H (JObject [(field, JString i)])))"

definition create_folder where
  "create_folder H D input pm =
     and_then (lift (serde_error (de_create_folder H input))) (\<lambda>i.
     and_then (lift (docs_check_module_permissions D Write pm (cfi_parent_id i))) (\<lambda>_.
     and_then (drive_call H D ''Create Folder'' ((http POST DRIVE_API_URL)\<lparr>hq_body := JsonBody (JObject [(''name'', JString (cfi_name i)),
       (''mimeType'', JString ''application/vnd.google-apps.folder''), (''parents'', JArray [JString (cfi_parent_id i)])])\<rparr>)) (output_id H ''folder_id'')))"

definition copy_file where
  "copy_file H D input pm =
     and_then (lift (serde_error (de_copy_file H input))) (\<lambda>i.
     and_then (lift (docs_check_module_permissions D Read pm (cpi_file_id i))) (\<lambda>_.
     and_then (lift (docs_check_module_permissions D Write pm (cpi_parent_id i))) (\<lambda>_.
     and_then (drive_call H D ''Copy File'' ((http POST (DRIVE_API_URL @ ''/'' @ cpi_file_id i @ ''/copy?supportsAllDrives=true''))\<lparr>hq_body :=
       JsonBody (JObject [(''name'', JString (cpi_name i)), (''parents'', JArray [JString (cpi_parent_id i)])])\<rparr>)) (output_id H ''document_id''))))"

definition upload_metadata :: "string \<Rightarrow> string \<Rightarrow> string \<Rightarrow> json" where
  "upload_metadata name target_mime parent_id =
     JObject [(''name'', JString name), (''mimeType'', JString target_mime), (''parents'', JArray [JString parent_id])]"

text \<open>A media type that is refused is found when the form is built, after the token is there.\<close>

definition upload_file where
  "upload_file H D input pm =
     and_then (lift (serde_error (de_upload_file H input))) (\<lambda>i.
     and_then (lift (docs_check_module_permissions D Write pm (ufi_parent_id i))) (\<lambda>_.
     and_then (refresh_access_token H D) (\<lambda>access_token.
     case bad_mime H (ufi_source_mime i) of
       Some e \<Rightarrow> err (reqwest_error e)
     | None \<Rightarrow>
         and_then (send_call (docs_post H) (answer_json H (\<lambda>t. GoogleApi (''Drive Upload failed: '' @ t)))
           (bearer access_token ((http POST DRIVE_UPLOAD_URL)\<lparr>hq_body := MultipartBody
              [(''metadata'', ''application/json; charset=UTF-8'', docs_show H (upload_metadata (ufi_name i) (ufi_target_mime i) (ufi_parent_id i))),
               (''media'', ufi_source_mime i, ufi_content i)]\<rparr>))) (\<lambda>v.
         and_then (lift (string_field ''id'' v)) (output_id H ''document_id'')))))"

definition upload_converted where
  "upload_converted H D upload_input pm =
     and_then (lift (serde_error (ser_upload_file H upload_input))) (\<lambda>upload_input.
     and_then (upload_file H D upload_input pm) (\<lambda>upload_result.
     and_then (lift (serde_error (de_upload_output H upload_result))) (output_id H ''document_id'')))"

definition create_doc_from_markdown where
  "create_doc_from_markdown H D input pm =
     and_then (lift (serde_error (de_create_doc H input))) (\<lambda>i.
     upload_converted H D \<lparr>ufi_parent_id = cdm_parent_id i, ufi_name = cdm_name i, ufi_content = markdown_to_html H (cdm_content i),
       ufi_source_mime = ''text/html'', ufi_target_mime = ''application/vnd.google-apps.document''\<rparr> pm)"

definition create_sheet_from_csv where
  "create_sheet_from_csv H D input pm =
     and_then (lift (serde_error (de_create_sheet H input))) (\<lambda>i.
     upload_converted H D \<lparr>ufi_parent_id = csc_parent_id i, ufi_name = csc_name i, ufi_content = csc_content i,
       ufi_source_mime = ''text/csv'', ufi_target_mime = ''application/vnd.google-apps.spreadsheet''\<rparr> pm)"

definition docs_string_functions where
  "docs_string_functions H D params pm =
     [(''upload_file'', upload_file H D params pm), (''copy_file'', copy_file H D params pm), (''create_folder'', create_folder H D params pm),
      (''create_doc_from_markdown'', create_doc_from_markdown H D params pm), (''create_sheet_from_csv'', create_sheet_from_csv H D params pm)]"

definition with_docs where
  "with_docs H D = with_service ''gcp'' (Some ''google_docs'') (\<lambda>_ _. []) (docs_string_functions H D)"

subsection \<open>What a call may do\<close>

definition may_write :: "google_docs \<Rightarrow> plaid_module \<Rightarrow> string \<Rightarrow> bool" where
  "may_write D pm i = listed (gd_rw D) i pm"

definition may_read :: "google_docs \<Rightarrow> plaid_module \<Rightarrow> string \<Rightarrow> bool" where
  "may_read D pm i \<longleftrightarrow> listed (gd_r D) i pm \<or> listed (gd_rw D) i pm"

lemma docs_check_iff:
  "docs_check_module_permissions D Write pm i = Inr u \<longleftrightarrow> may_write D pm i"
  "docs_check_module_permissions D Read pm i = Inr u \<longleftrightarrow> may_read D pm i"
  by (auto simp: docs_check_module_permissions_def may_write_def may_read_def)

inductive docs_permitted :: "'w docs_ops \<Rightarrow> google_docs \<Rightarrow> plaid_module \<Rightarrow> http_request \<Rightarrow> bool" for H D pm where
  docs_token: "docs_permitted H D pm (token_request D)"
| docs_create: "may_write D pm parent \<Longrightarrow>
    docs_permitted H D pm (bearer token ((http POST DRIVE_API_URL)\<lparr>hq_body := JsonBody (JObject [(''name'', JString name),
      (''mimeType'', JString ''application/vnd.google-apps.folder''), (''parents'', JArray [JString parent])])\<rparr>))"
| docs_copy: "may_read D pm file \<Longrightarrow> may_write D pm parent \<Longrightarrow>
    docs_permitted H D pm (bearer token ((http POST (DRIVE_API_URL @ ''/'' @ file @ ''/copy?supportsAllDrives=true''))\<lparr>hq_body :=
      JsonBody (JObject [(''name'', JString name), (''parents'', JArray [JString parent])])\<rparr>))"
| docs_upload: "may_write D pm parent \<Longrightarrow>
    docs_permitted H D pm (bearer token ((http POST DRIVE_UPLOAD_URL)\<lparr>hq_body := MultipartBody
      [(''metadata'', ''application/json; charset=UTF-8'', docs_show H (upload_metadata name mime parent)), (''media'', mime', content)]\<rparr>))"

inductive docs_step :: "'w docs_ops \<Rightarrow> google_docs \<Rightarrow> bool \<Rightarrow> plaid_module \<Rightarrow> 'w docs_world \<Rightarrow> 'w docs_world \<Rightarrow> bool" for H D test pm where
  docs_sends: "\<not> test \<Longrightarrow> docs_permitted H D pm r \<Longrightarrow> docs_step H D test pm (cache, w) (cache, snd (docs_send H r w))"
| docs_clock: "docs_step H D test pm (cache, w) (cache, snd (instant_now H w))"
| docs_cache: "docs_step H D test pm (cache, w) (cache', w)"

lemma does_docs_post:
  assumes "docs_permitted H D pm r"
  shows "does (docs_step H D False pm) (send_call (docs_post H) answer r) (\<lambda>_. True)"
  unfolding does_def send_call_def docs_post_def using docs_sends [OF _ assms, where test = False]
  by (auto split: prod.split) (metis r_into_rtranclp snd_conv)

lemma does_refresh_access_token: "does (docs_step H D False pm) (refresh_access_token H D) (\<lambda>_. True)"
proof -
  have cached: "does (docs_step H D False pm) (cached_token H) (\<lambda>_. True)"
    unfolding does_def cached_token_def using docs_clock [of H D False pm]
    by (auto split: prod.split option.split) (metis r_into_rtranclp snd_conv)
  have clock: "docs_step H D False pm w (snd (docs_now H w))" for w
    using docs_clock [of H D False pm] by (cases w) (auto simp: docs_now_def split: prod.split, metis snd_conv)
  have store: "does (docs_step H D False pm) (store_token t e) (\<lambda>_. True)" for t e
    unfolding does_def store_token_def by (auto intro: docs_cache)
  show ?thesis
    unfolding refresh_access_token_def
    by (intro does_then_any [OF cached] does_option does_ok does_then_any [OF does_docs_post [OF docs_token]] does_then_lift does_Let
        does_then_op_call clock store TrueI)
qed

lemmas docs_rules = does_intros does_then_any [OF does_refresh_access_token] does_then_any [OF does_docs_post]

lemma create_folder_does: "does (docs_step H D False pm) (create_folder H D input pm) (\<lambda>_. True)"
  unfolding create_folder_def drive_call_def output_id_def
  by (intro docs_rules docs_create TrueI) (simp add: docs_check_iff)

lemma copy_file_does: "does (docs_step H D False pm) (copy_file H D input pm) (\<lambda>_. True)"
  unfolding copy_file_def drive_call_def output_id_def
  by (intro docs_rules docs_copy TrueI) (simp_all add: docs_check_iff)

lemma upload_file_does: "does (docs_step H D False pm) (upload_file H D input pm) (\<lambda>_. True)"
  unfolding upload_file_def output_id_def
  by (intro docs_rules docs_upload TrueI) (simp_all add: docs_check_iff)

lemma upload_converted_does: "does (docs_step H D False pm) (upload_converted H D i pm) (\<lambda>_. True)"
  unfolding upload_converted_def output_id_def
  by (intro docs_rules does_then_any [OF upload_file_does] TrueI)

lemma converted_do:
  "does (docs_step H D False pm) (create_doc_from_markdown H D input pm) (\<lambda>_. True)"
  "does (docs_step H D False pm) (create_sheet_from_csv H D input pm) (\<lambda>_. True)"
  unfolding create_doc_from_markdown_def create_sheet_from_csv_def
  by (intro does_then_lift upload_converted_does)+

definition docs_functions :: "api_decl list" where
  "docs_functions = filter (\<lambda>d. decl_sub_module d = Some ''google_docs'') gcp_functions"

interpretation docs: read_only_service "''gcp''" "Some ''google_docs''" "\<lambda>_ _. []" "docs_string_functions H D" docs_functions "docs_step H D" for H D
proof unfold_locales
  show "docs_step H D True pm w w' \<Longrightarrow> docs_step H D False pm w w'" for H :: "'a docs_ops" and D pm w w'
    by (induction rule: docs_step.induct) (auto intro: docs_step.intros)
qed (auto simp: docs_functions_def gcp_functions_def sub_fn_def docs_string_functions_def DISALLOW_IN_TEST_MODE_def
    create_folder_does copy_file_does upload_file_does converted_do)

subsection \<open>Properties\<close>

text \<open>
  C40. Drive folders are used only as configured. Whatever a rule passes to a function of Google Docs, the call sends only
  requests for a token, and requests that create, copy or upload into a folder the rule may write, a copy only of a file
  it may read. A rule in test mode sends nothing.
\<close>

theorem docs_requests_permitted:
  assumes "d \<in> set docs_functions" and "w' = snd (snd (host_call W (with_docs H D A) d env p n rp rn w))"
  shows "(docs_step H D (test_mode (env_module env)) (env_module env))\<^sup>*\<^sup>* w w'"
  unfolding assms(2) with_docs_def by (rule docs.host_call_steps [OF assms(1)])

definition sample_docs_ops :: "(http_request list) docs_ops" where
  "sample_docs_ops =
     \<lparr>docs_send = (\<lambda>r w. (Inr (200, Inr ''{}''), r # w)), instant_now = (\<lambda>w. (5, w)),
      docs_json = (\<lambda>_. Inr (JObject [(''access_token'', JString ''t''), (''id'', JString ''i'')])), docs_show = (\<lambda>_. ''{}''),
      docs_to_string = (\<lambda>_. Inr ''{}''), bad_mime = (\<lambda>_. None), push_html = (\<lambda>_ _. id), de_create_folder = (\<lambda>_. Inr \<lparr>cfi_parent_id = ''f'', cfi_name = ''n''\<rparr>),
      de_copy_file = (\<lambda>_. Inl []), de_upload_file = (\<lambda>_. Inl []), de_create_doc = (\<lambda>_. Inl []), de_create_sheet = (\<lambda>_. Inl []),
      ser_upload_file = (\<lambda>_. Inl []), de_upload_output = (\<lambda>_. Inl [])\<rparr>"

definition sample_docs :: google_docs where
  "sample_docs = \<lparr>gd_client_id = ''c'', gd_client_secret = ''s'', gd_refresh_token = ''r'', gd_rw = [(''f'', [''m.wasm''])], gd_r = []\<rparr>"

theorem docs_requests_permitted_witness:
  "let d = sub_fn ''gcp'' ''google_docs'' ''create_folder'' True DISALLOW_IN_TEST_MODE;
       w' = snd (snd (host_call flat_ops (with_docs sample_docs_ops sample_docs idle_services) d sample_caller 0 0 0 4 (None, [])))
   in map hq_url (snd w') = [''https://www.googleapis.com/drive/v3/files'', ''https://oauth2.googleapis.com/token'']
    \<and> (docs_step sample_docs_ops sample_docs (test_mode (env_module sample_caller)) (env_module sample_caller))\<^sup>*\<^sup>* (None, []) w'"
proof -
  let ?d = "sub_fn ''gcp'' ''google_docs'' ''create_folder'' True DISALLOW_IN_TEST_MODE"
  have "?d \<in> set docs_functions" by (simp add: docs_functions_def gcp_functions_def sub_fn_def)
  note docs_requests_permitted [OF this refl, where W = flat_ops and H = sample_docs_ops and D = sample_docs and A = idle_services
      and env = sample_caller and p = 0 and n = 0 and rp = 0 and rn = 4 and w = "(None, [])"]
  moreover have "map hq_url (snd (snd (snd (host_call flat_ops (with_docs sample_docs_ops sample_docs idle_services) ?d sample_caller 0 0 0 4 (None, [])))))
      = [''https://www.googleapis.com/drive/v3/files'', ''https://oauth2.googleapis.com/token'']"
    by (simp add: host_call_def api_function_buffer_def api_prologue_def with_docs_def with_service_def sub_fn_def docs_string_functions_def
        create_folder_def drive_call_def output_id_def serde_error_def docs_check_module_permissions_def listed_def refresh_access_token_def
        cached_token_def store_token_def docs_post_def docs_now_def answer_json_def response_json_def string_field_def json_get_def json_as_str_def
        token_request_def bearer_def TOKEN_URL_def DRIVE_API_URL_def call_defs send_call_def op_call_def hm_get_def
        sample_docs_ops_def sample_docs_def idle_services_def
        sample_caller_def sample_env_def sample_module_def get_memory_def safely_get_string_def flat_read_string_def flat_read_def
        safely_write_data_back_def flat_write_def Let_def as_bytes_def DISALLOW_IN_TEST_MODE_def)
  ultimately show ?thesis by (simp add: Let_def)
qed

end
