(* ===== verification/Plaid_Npm.thy ===== *)
theory Plaid_Npm
  imports Plaid_Api
begin

text \<open>
  The npm service, \<^verbatim>\<open>runtime/plaid/src/apis/npm\<close>, with the types of \<^verbatim>\<open>runtime/plaid-stl/src/npm/shared_structs\<close>. It acts on
  the npm website as a logged-in user and publishes to the registry. The time of the last login, behind its mutex, is part of
  the world a call acts on. The HTTP clients with their cookies, one-time passwords, archives, hashes, the regex engine, the
  clock, which is after 1970, and JSON codecs are parameters.
\<close>

subsection \<open>Parameters\<close>

datatype npm_package_permission = READ | WRITE

fun npm_package_permission_fmt :: "npm_package_permission \<Rightarrow> string" where
  "npm_package_permission_fmt READ = ''read''"
| "npm_package_permission_fmt WRITE = ''write''"

definition npm_package_permission_try_from :: "string \<Rightarrow> npm_package_permission option" where
  "npm_package_permission_try_from v = (if v = ''read'' then Some READ else if v = ''write'' then Some WRITE else None)"

datatype npm_user_role = Member | Admin | Owner

definition npm_user_role_try_from :: "string \<Rightarrow> npm_user_role option" where
  "npm_user_role_try_from v =
     (if v = ''developer'' then Some Member else if v = ''admin'' then Some Admin else if v = ''super-admin'' then Some Owner else None)"

record npm_user =
  nu_username :: string
  nu_role :: npm_user_role

record npm_package_with_permission =
  np_package_name :: string
  np_permission :: npm_package_permission

datatype granular_token_orgs_permission = OrgsNoAccess | OrgsReadOnly | OrgsReandAndWrite

fun granular_token_orgs_permission_fmt :: "granular_token_orgs_permission \<Rightarrow> string" where
  "granular_token_orgs_permission_fmt OrgsNoAccess = ''No access''"
| "granular_token_orgs_permission_fmt OrgsReadOnly = ''Read only''"
| "granular_token_orgs_permission_fmt OrgsReandAndWrite = ''Read and write''"

datatype granular_token_packages_and_scopes_permission = PkgsNoAccess | PkgsReadOnly | PkgsReadAndWrite

fun granular_token_packages_and_scopes_permission_fmt :: "granular_token_packages_and_scopes_permission \<Rightarrow> string" where
  "granular_token_packages_and_scopes_permission_fmt PkgsNoAccess = ''No access''"
| "granular_token_packages_and_scopes_permission_fmt PkgsReadOnly = ''Read only''"
| "granular_token_packages_and_scopes_permission_fmt PkgsReadAndWrite = ''Read and write''"

datatype granular_token_selected_packages_and_scopes = PackagesAll | PackagesAndScopesSome

fun granular_token_selected_packages_and_scopes_fmt :: "granular_token_selected_packages_and_scopes \<Rightarrow> string" where
  "granular_token_selected_packages_and_scopes_fmt PackagesAll = ''packagesAll''"
| "granular_token_selected_packages_and_scopes_fmt PackagesAndScopesSome = ''packagesAndScopesSome''"

record granular_token_specs =
  gts_allowed_ip_ranges :: "string list option"
  gts_expiration_days :: "u16 option"
  gts_orgs_permission :: "granular_token_orgs_permission option"
  gts_packages_and_scopes_permission :: "granular_token_packages_and_scopes_permission option"
  gts_selected_orgs :: "string list option"
  gts_selected_packages :: "string list option"
  gts_selected_packages_and_scopes :: "granular_token_selected_packages_and_scopes option"
  gts_selected_scopes :: "string list option"
  gts_token_name :: string
  gts_token_description :: string

definition with_name_and_description :: "string \<Rightarrow> string \<Rightarrow> granular_token_specs" where
  "with_name_and_description name description =
     \<lparr>gts_allowed_ip_ranges = None, gts_expiration_days = None, gts_orgs_permission = None, gts_packages_and_scopes_permission = None,
      gts_selected_orgs = None, gts_selected_packages = None, gts_selected_packages_and_scopes = None, gts_selected_scopes = None,
      gts_token_name = name, gts_token_description = description\<rparr>"

record npm_token =
  nt_id :: "string option"
  nt_token :: string
  nt_token_name :: "string option"
  nt_token_type :: "string option"
  nt_expires :: "string option"

record set_team_permission_on_package_params =
  stp_team :: string
  stp_package :: string
  stp_permission :: npm_package_permission

record create_granular_token_for_packages_params =
  cgt_packages :: "string list"
  cgt_specs :: granular_token_specs

record add_remove_user_to_from_team_params =
  aru_user :: string
  aru_team :: string

record invite_user_to_organization_params =
  iuo_user :: string
  iuo_team :: "string option"

datatype pkg_access_level = Restricted | Public

fun pkg_access_level_fmt :: "pkg_access_level \<Rightarrow> string" where
  "pkg_access_level_fmt Restricted = ''restricted''"
| "pkg_access_level_fmt Public = ''public''"

record publish_empty_stub_params =
  pes_package_name :: string
  pes_access_level :: pkg_access_level
  pes_repo_name :: string

record list_packages_with_team_permission_params =
  lpt_team :: string
  lpt_permission :: npm_package_permission

record pkg_manifest =
  pm_name :: string
  pm_version :: string
  pm_main :: string
  pm_author :: string
  pm_license :: string
  pm_repository :: string
  pm_description :: string

datatype runtime_return_value = RrvOk "string option" | RrvError npm_error

subsection \<open>The service\<close>

record npm_config =
  npc_username :: string
  npc_password :: string
  npc_otp_secret :: string
  npc_automation_token :: string
  npc_npm_scope :: string
  npc_user_agent :: string

definition OTP_SECRET_PATTERN :: string where
  "OTP_SECRET_PATTERN = ''^[a-zA-Z0-9]{32}$''"

definition AUTOMATION_TOKEN_PATTERN :: string where
  "AUTOMATION_TOKEN_PATTERN = ''^npm_[a-zA-Z0-9]{36}$''"

definition npm_config_new ::
  "(string \<Rightarrow> string \<Rightarrow> bool) \<Rightarrow> string \<Rightarrow> string \<Rightarrow> string \<Rightarrow> string \<Rightarrow> string \<Rightarrow> string \<Rightarrow> npm_error + npm_config" where
  "npm_config_new is_match username password otp_secret automation_token npm_scope user_agent =
     (if \<not> is_match OTP_SECRET_PATTERN otp_secret then Inl (WrongConfig ''Wrong format for OTP secret'')
      else if \<not> is_match AUTOMATION_TOKEN_PATTERN automation_token then Inl (WrongConfig ''Wrong format for automation token'')
      else Inr \<lparr>npc_username = username, npc_password = password, npc_otp_secret = otp_secret,
        npc_automation_token = automation_token, npc_npm_scope = npm_scope, npc_user_agent = user_agent\<rparr>)"

text \<open>What sending a request returns: the status, the header that asks to retry later, the cookies that were set, and the text.\<close>

record npm_response =
  nr_status :: u16
  nr_retry_after :: "string option"
  nr_cookies :: "(string \<times> string) list"
  nr_text :: "string option"

text \<open>
  \<open>npm_send\<close> is the client with the cookie jar, \<open>registry_send\<close> the one made for publishing, whose answer is not looked at.
  \<open>jar_cookies\<close> are the cookies for the site, if there are any and they are text; \<open>clear_jar\<close> says whether the jar could be locked.
\<close>

record 'w npm_ops =
  npm_is_match :: "string \<Rightarrow> string \<Rightarrow> bool"
  npm_capture :: "string \<Rightarrow> string \<Rightarrow> string option option"
  npm_send :: "http_request \<Rightarrow> 'w \<Rightarrow> npm_response option \<times> 'w"
  registry_send :: "http_request \<Rightarrow> 'w \<Rightarrow> bool \<times> 'w"
  jar_cookies :: "'w \<Rightarrow> string option"
  clear_jar :: "'w \<Rightarrow> bool \<times> 'w"
  npm_now :: "'w \<Rightarrow> nat \<times> 'w"
  totp_current :: "string \<Rightarrow> 'w \<Rightarrow> string option \<times> 'w"
  tar_gz :: "string \<Rightarrow> bytes \<Rightarrow> bytes option"
  sha1 :: "bytes \<Rightarrow> bytes"
  sha512 :: "bytes \<Rightarrow> bytes"
  npm_base64 :: "bytes \<Rightarrow> string"
  npm_json :: "string \<Rightarrow> json option"
  npm_show :: "json \<Rightarrow> string"
  npm_to_string :: "json \<Rightarrow> string option"
  ser_return :: "runtime_return_value \<Rightarrow> string"
  de_set_team :: "string \<Rightarrow> set_team_permission_on_package_params option"
  de_create_token :: "string \<Rightarrow> create_granular_token_for_packages_params option"
  de_token_id :: "string \<Rightarrow> string option"
  de_team_user :: "string \<Rightarrow> add_remove_user_to_from_team_params option"
  de_invite :: "string \<Rightarrow> invite_user_to_organization_params option"
  de_publish :: "string \<Rightarrow> publish_empty_stub_params option"
  de_list_packages :: "string \<Rightarrow> list_packages_with_team_permission_params option"
  de_manifest :: "string \<Rightarrow> pkg_manifest option"
  de_tokens :: "json \<Rightarrow> npm_token list option"
  ser_tokens :: "npm_token list \<Rightarrow> string option"
  ser_users :: "npm_user list \<Rightarrow> string option"
  ser_packages :: "npm_package_with_permission list \<Rightarrow> string option"
  reencode_details :: "json \<Rightarrow> json option"

type_synonym 'w npm_world = "u32 option rwlock \<times> 'w"

definition NPMJS_COM_URL :: string where
  "NPMJS_COM_URL = ''https://www.npmjs.com''"

definition REGISTRY_URL :: string where
  "REGISTRY_URL = ''https://registry.npmjs.org''"

definition NODE_VERSION :: string where
  "NODE_VERSION = ''20.16.0''"

definition NPM_VERSION :: string where
  "NPM_VERSION = ''10.8.3''"

definition serialize_from_str :: "'w npm_ops \<Rightarrow> string \<Rightarrow> string" where
  "serialize_from_str H v = ser_return H (RrvOk (Some v))"

definition serialize_empty_ok :: "'w npm_ops \<Rightarrow> string" where
  "serialize_empty_ok H = ser_return H (RrvOk None)"

definition serialize_from_err :: "'w npm_ops \<Rightarrow> npm_error \<Rightarrow> string" where
  "serialize_from_err H e = ser_return H (RrvError e)"

subsection \<open>Validators\<close>

definition NPM_PACKAGE_NAME :: string where
  "NPM_PACKAGE_NAME = ''^[a-z0-9-_]+(?:'' @ [CHR 0x5C] @ ''.[a-z0-9-_]+)*$''"

definition IPV4 :: string where
  "IPV4 = ''^((25[0-5]|2[0-4][0-9]|1[0-9]{2}|[1-9]?[0-9]).){3}(25[0-5]|2[0-4][0-9]|1[0-9]{2}|[1-9]?[0-9])$''"

definition NPM_SCOPED_PACKAGE :: string where
  "NPM_SCOPED_PACKAGE = ''^@[a-z0-9]+(-[a-z0-9]+)*'' @ [CHR 0x5C] @ ''/[a-z0-9-_]+(?:'' @ [CHR 0x5C] @ ''.[a-z0-9-_]+)*$''"

definition DSR_MANIFEST_HASH :: string where
  "DSR_MANIFEST_HASH = ''dsrManifestHash'' @ [CHR 0x5C, CHR 0x22, CHR 0x5C] @ ''s+?value='' @ [CHR 0x5C, CHR 0x22]
     @ ''([a-z0-9]{64})'' @ [CHR 0x5C, CHR 0x22]"

definition NPM_REPOSITORY_NAME :: string where
  "NPM_REPOSITORY_NAME = ''^['' @ [CHR 0x5C] @ ''w'' @ [CHR 0x5C] @ ''-'' @ [CHR 0x5C] @ ''./]+$''"

definition npm_validators :: "(string, string) hashmap" where
  "npm_validators =
     [(''npm_package_name'', NPM_PACKAGE_NAME), (''npm_team_name'', ''^[a-zA-Z0-9-_]+$''), (''npm_username'', ''^[a-zA-Z0-9._-]+$''),
      (''ipv4'', IPV4), (''npm_org_name'', ''^[a-z0-9]+(-[a-z0-9]+)*$''), (''npm_at_org_name'', ''^@[a-z0-9]+(-[a-z0-9]+)*$''),
      (''npm_scoped_package'', NPM_SCOPED_PACKAGE), (''npm_token_name'', ''^[a-z0-9._-]+$''), (''dsr_manifest_hash'', DSR_MANIFEST_HASH),
      (''repository_name'', NPM_REPOSITORY_NAME), (''token_id'', ''^[a-f0-9-]{36}$'')]"

definition npm_validate :: "'w npm_ops \<Rightarrow> string \<Rightarrow> string \<Rightarrow> api_error + string" where
  "npm_validate H validator value_to_validate =
     (case hm_get npm_validators validator of
        None \<Rightarrow> Inl ImpossibleError
      | Some re \<Rightarrow>
          if npm_is_match H re value_to_validate then Inr value_to_validate
          else Inl (NpmError (NpmInvalidInput value_to_validate)))"

definition validate_and_extract_dsr_manifest_hash :: "'w npm_ops \<Rightarrow> string \<Rightarrow> api_error + string" where
  "validate_and_extract_dsr_manifest_hash H value_to_validate =
     (case hm_get npm_validators ''dsr_manifest_hash'' of
        None \<Rightarrow> Inl (NpmError (WrongConfig ''Validator not found. This should be impossible''))
      | Some re \<Rightarrow>
          (case npm_capture H re value_to_validate of
             Some (Some hash) \<Rightarrow> Inr hash
           | _ \<Rightarrow> Inl (NpmError (NpmInvalidInput value_to_validate))))"

definition validate_members :: "'w npm_ops \<Rightarrow> string \<Rightarrow> string list option \<Rightarrow> ('v, unit) api_call" where
  "validate_members H validator xs =
     (case xs of None \<Rightarrow> ok () | Some xs \<Rightarrow> check_all (\<lambda>x. lift (npm_validate H validator x)) xs)"

definition validate_granular_token_specs :: "'w npm_ops \<Rightarrow> granular_token_specs \<Rightarrow> ('v, granular_token_specs) api_call" where
  "validate_granular_token_specs H v =
     and_then (validate_members H ''ipv4'' (gts_allowed_ip_ranges v)) (\<lambda>_.
     and_then (validate_members H ''npm_org_name'' (gts_selected_orgs v)) (\<lambda>_.
     and_then (validate_members H ''npm_scoped_package'' (gts_selected_packages v)) (\<lambda>_.
     and_then (validate_members H ''npm_at_org_name'' (gts_selected_scopes v)) (\<lambda>_.
     and_then (lift (npm_validate H ''npm_token_name'' (gts_token_name v))) (\<lambda>_.
     if length (gts_token_description v) < 8 then err (NpmError (NpmInvalidInput (gts_token_description v))) else ok v)))))"

subsection \<open>Answers and the session\<close>

text \<open>\<^verbatim>\<open>parse::<u32>()\<close>: digits after an optional plus sign, in range.\<close>

definition parse_u32 :: "string \<Rightarrow> u32 option" where
  "parse_u32 s =
     (case parse_nat (case s of c # r \<Rightarrow> if c = CHR ''+'' then r else s | [] \<Rightarrow> s) of
        Some n \<Rightarrow> if n < 2 ^ 32 then Some (word_of_nat n) else None
      | None \<Rightarrow> None)"

definition bad_response_to_error :: "npm_response \<Rightarrow> npm_error" where
  "bad_response_to_error answer =
     (if nr_status answer = 429 then ThrottlingError (Option.bind (nr_retry_after answer) parse_u32)
      else NpmUnexpectedStatusCode (nr_status answer))"

definition handle_bad_response :: "'w npm_ops \<Rightarrow> npm_response \<Rightarrow> string" where
  "handle_bad_response H answer = serialize_from_err H (bad_response_to_error answer)"

text \<open>\<^verbatim>\<open>split("; ")\<close>.\<close>

fun split_cookies :: "string \<Rightarrow> string list" where
  "split_cookies [] = [[]]"
| "split_cookies [c] = [[c]]"
| "split_cookies (c # d # s) =
     (if c = CHR '';'' \<and> d = CHR '' '' then [] # split_cookies s
      else case split_cookies (d # s) of p # ps \<Rightarrow> (c # p) # ps | [] \<Rightarrow> [[c]])"

definition get_csrftoken_from_cookies :: "string option \<Rightarrow> npm_error + string" where
  "get_csrftoken_from_cookies cookies =
     (case cookies of
        None \<Rightarrow> Inl FailedToGetCsrfTokenFromCookies
      | Some text_of \<Rightarrow>
          (case find (prefix ''cs='') (split_cookies text_of) of
             None \<Rightarrow> Inl FailedToGetCsrfTokenFromCookies
           | Some c \<Rightarrow> (case split_on (CHR ''='') c of _ # v # _ \<Rightarrow> Inr v | _ \<Rightarrow> Inl FailedToGetCsrfTokenFromCookies)))"

definition csrf_token :: "'w npm_ops \<Rightarrow> ('w npm_world, string) api_call" where
  "csrf_token H = (\<lambda>(t, w).
     (case get_csrftoken_from_cookies (jar_cookies H w) of Inl _ \<Rightarrow> Inl (NpmError WrongClientStatus) | Inr c \<Rightarrow> Inr c, t, w))"

definition on_site :: "('r \<Rightarrow> 'w \<Rightarrow> 'a \<times> 'w) \<Rightarrow> 'r \<Rightarrow> 'w npm_world \<Rightarrow> 'a \<times> 'w npm_world" where
  "on_site send r = (\<lambda>(t, w). case send r w of (a, w') \<Rightarrow> (a, t, w'))"

definition npm_call :: "'w npm_ops \<Rightarrow> npm_error \<Rightarrow> http_request \<Rightarrow> ('w npm_world, npm_response) api_call" where
  "npm_call H e r = send_call (on_site (npm_send H)) (\<lambda>a. case a of None \<Rightarrow> Inl (NpmError e) | Some x \<Rightarrow> Inr x) r"

definition expect_200 :: "'w npm_ops \<Rightarrow> npm_error \<Rightarrow> http_request \<Rightarrow> ('w npm_world, npm_response) api_call" where
  "expect_200 H e r =
     and_then (npm_call H e r) (\<lambda>response.
     if nr_status response \<noteq> 200 then err (NpmError (bad_response_to_error response)) else ok response)"

definition on_200 where
  "on_200 H e r k =
     and_then (npm_call H e r) (\<lambda>response.
     if nr_status response \<noteq> 200 then ok (handle_bad_response H response) else k response)"

text \<open>
  The start of a login: the cookies are dropped when the last login is two minutes old or more. The difference of the times
  wraps around as the \<^verbatim>\<open>u32\<close> of a release build does. A mutex that is poisoned, or a jar that cannot be locked, ends the login.
\<close>

definition fresh_session :: "'w npm_ops \<Rightarrow> ('w npm_world, unit) api_call" where
  "fresh_session H = (\<lambda>(t, w).
     if poisoned t then (Inl (NpmError LoginFlowError), t, w)
     else case npm_now H w of (secs, w') \<Rightarrow>
       let now = (word_of_nat secs :: u32) in
       case lock_val t of
         None \<Rightarrow> (Inr (), t\<lparr>lock_val := Some now\<rparr>, w')
       | Some last_req \<Rightarrow>
           if now - last_req \<ge> 120 then
             (case clear_jar H w' of (locked, w'') \<Rightarrow>
                if locked then (Inr (), t\<lparr>lock_val := Some now\<rparr>, w'') else (Inl (NpmError LoginFlowError), t, w''))
           else (Inr (), t, w'))"

definition password_request :: "npm_config \<Rightarrow> string \<Rightarrow> http_request" where
  "password_request N cs = (http POST (NPMJS_COM_URL @ ''/login''))\<lparr>hq_body :=
     FormBody [(''username'', npc_username N), (''password'', npc_password N), (''csrftoken'', cs)]\<rparr>"

definition otp_form :: "string \<Rightarrow> string \<Rightarrow> http_request" where
  "otp_form otp_token cs = (http POST (NPMJS_COM_URL @ ''/login/otp?next=%2F''))\<lparr>hq_body :=
     FormBody [(''otp'', otp_token), (''formName'', ''totp''), (''originalUrl'', []), (''csrftoken'', cs)]\<rparr>"

definition login :: "'w npm_ops \<Rightarrow> npm_config \<Rightarrow> ('w npm_world, unit) api_call" where
  "login H N =
     and_then (fresh_session H) (\<lambda>_.
     and_then (expect_200 H LoginFlowError (http GET (NPMJS_COM_URL @ ''/login''))) (\<lambda>response.
     case map_of (nr_cookies response) ''cs'' of
       None \<Rightarrow> ok ()
     | Some cs_cookie \<Rightarrow>
         and_then (expect_200 H LoginFlowError (password_request N cs_cookie)) (\<lambda>_.
         and_then (op_call (on_site (totp_current H) (npc_otp_secret N)) (\<lambda>x. case x of None \<Rightarrow> Inl (NpmError LoginFlowError) | Some c \<Rightarrow> Inr c)) (\<lambda>otp_token.
         and_then (expect_200 H LoginFlowError (otp_form otp_token cs_cookie)) (\<lambda>_.
         ok ())))))"

text \<open>An error of the service that the source hands to the rule as a value, not as an error.\<close>

definition attempt :: "('v, 'a) api_call \<Rightarrow> ('v, npm_error + 'a) api_call" where
  "attempt m w =
     (case m w of
        (Inl (NpmError e), w') \<Rightarrow> (Inr (Inl e), w')
      | (Inl e, w') \<Rightarrow> (Inl e, w')
      | (Inr x, w') \<Rightarrow> (Inr (Inr x), w'))"

definition logged_in where
  "logged_in H N k =
     and_then (attempt (login H N)) (\<lambda>r. case r of Inl e \<Rightarrow> ok (serialize_from_err H e) | Inr _ \<Rightarrow> k)"

subsection \<open>Functions that change\<close>

definition spiferack :: "http_request \<Rightarrow> http_request" where
  "spiferack r = r\<lparr>hq_headers := hq_headers r @ [(''X-Spiferack'', ''1'')]\<rparr>"

definition site :: "http_method \<Rightarrow> string \<Rightarrow> http_body \<Rightarrow> http_request" where
  "site m path body = (http m (NPMJS_COM_URL @ path))\<lparr>hq_body := body\<rparr>"

definition plain_text :: "http_request \<Rightarrow> http_request" where
  "plain_text r = r\<lparr>hq_headers := (''Content-Type'', ''text/plain;charset=UTF-8'') # hq_headers r\<rparr>"

definition settings :: "string \<Rightarrow> string" where
  "settings name = ''/settings/'' @ name"

definition scoped :: "npm_config \<Rightarrow> string \<Rightarrow> string" where
  "scoped N package = ''@'' @ npc_npm_scope N @ ''/'' @ package"

definition permission_change_payload :: "string \<Rightarrow> string \<Rightarrow> string \<Rightarrow> json" where
  "permission_change_payload csrftoken package permissions =
     JObject [(''csrftoken'', JString csrftoken), (''package'', JString package), (''permissions'', JString permissions)]"

definition set_team_permission_on_package where
  "set_team_permission_on_package H N params (pm :: plaid_module) =
     logged_in H N (
     and_then (ok_or BadRequest (de_set_team H params)) (\<lambda>params.
     and_then (lift (npm_validate H ''npm_team_name'' (stp_team params))) (\<lambda>team.
     and_then (lift (npm_validate H ''npm_package_name'' (stp_package params))) (\<lambda>package.
     and_then (csrf_token H) (\<lambda>csrf.
     on_200 H PermissionChangeError (site POST (settings (npc_npm_scope N) @ ''/teams/team/'' @ team @ ''/access'')
       (JsonBody (permission_change_payload csrf (scoped N package) (npm_package_permission_fmt (stp_permission params))))) (\<lambda>_.
     ok (serialize_empty_ok H)))))))"

definition or_default :: "'a \<Rightarrow> 'a option \<Rightarrow> 'a" where
  "or_default d x = (case x of None \<Rightarrow> d | Some y \<Rightarrow> y)"

definition generate_granular_token_payload :: "npm_config \<Rightarrow> string \<Rightarrow> string list \<Rightarrow> granular_token_specs \<Rightarrow> json" where
  "generate_granular_token_payload N csrftoken packages specs =
     JObject
       [(''allowedIPRanges'', j_strings (or_default [[]] (gts_allowed_ip_ranges specs))),
        (''csrftoken'', JString csrftoken),
        (''expirationDays'', JString (decimal (unat (or_default 30 (gts_expiration_days specs))))),
        (''orgsPermission'', JString (or_default ''No access'' (map_option granular_token_orgs_permission_fmt (gts_orgs_permission specs)))),
        (''packagesAndScopesPermission'', JString (or_default ''Read and write''
           (map_option granular_token_packages_and_scopes_permission_fmt (gts_packages_and_scopes_permission specs)))),
        (''selectedOrgs'', j_strings (or_default [] (gts_selected_orgs specs))),
        (''selectedPackages'', j_strings (map (scoped N) packages)),
        (''selectedPackagesAndScopes'', JString (or_default ''packagesAndScopesSome''
           (map_option granular_token_selected_packages_and_scopes_fmt (gts_selected_packages_and_scopes specs)))),
        (''selectedScopes'', j_strings (or_default [] (gts_selected_scopes specs))),
        (''tokenDescription'', JString (gts_token_description specs)),
        (''tokenName'', JString (gts_token_name specs))]"

definition create_granular_token_for_packages where
  "create_granular_token_for_packages H N params (pm :: plaid_module) =
     logged_in H N (
     and_then (ok_or BadRequest (de_create_token H params)) (\<lambda>params.
     and_then (check_all (\<lambda>v. lift (npm_validate H ''npm_package_name'' v)) (cgt_packages params)) (\<lambda>_.
     and_then (validate_granular_token_specs H (cgt_specs params)) (\<lambda>specs.
     and_then (csrf_token H) (\<lambda>csrf.
     on_200 H (TokenGenerationError ''error while calling npm'')
       (spiferack (site POST (settings (npc_username N) @ ''/tokens/new-gat'')
         (JsonBody (generate_granular_token_payload N csrf (cgt_packages params) specs)))) (\<lambda>response.
     and_then (ok_or (NpmError (TokenGenerationError ''error while retrieving JSON from npm response''))
       (Option.bind (nr_text response) (npm_json H))) (\<lambda>v.
     and_then (ok_or (NpmError (TokenGenerationError ''error while reading token from npm JSON response''))
       (Option.bind (json_get ''newToken'' v) json_as_str)) (\<lambda>token.
     ok (serialize_from_str H token)))))))))"

definition delete_token_payload :: "string \<Rightarrow> string \<Rightarrow> json" where
  "delete_token_payload csrftoken tokens = JObject [(''csrftoken'', JString csrftoken), (''tokens'', JString tokens)]"

definition delete_granular_token where
  "delete_granular_token H N params (pm :: plaid_module) =
     logged_in H N (
     and_then (ok_or BadRequest (de_token_id H params)) (\<lambda>token_id.
     and_then (lift (npm_validate H ''token_id'' token_id)) (\<lambda>token_id.
     and_then (csrf_token H) (\<lambda>csrf.
     on_200 H TokenDeletionError (spiferack (site POST (settings (npc_username N) @ ''/tokens/delete'')
       (JsonBody (delete_token_payload csrf token_id)))) (\<lambda>_.
     ok (serialize_empty_ok H))))))"

definition delete_path :: "npm_config \<Rightarrow> string \<Rightarrow> string" where
  "delete_path N package = ''/package/%40'' @ npc_npm_scope N @ ''%2F'' @ package @ ''/delete''"

definition delete_package where
  "delete_package H N package (pm :: plaid_module) =
     and_then (lift (npm_validate H ''npm_package_name'' package)) (\<lambda>package.
     logged_in H N (
     on_200 H FailedToDeletePackage (site GET (delete_path N package) NoBody) (\<lambda>response.
     and_then (ok_or (NpmError FailedToDeletePackage) (nr_text response)) (\<lambda>response_text.
     and_then (lift (validate_and_extract_dsr_manifest_hash H response_text)) (\<lambda>dsr_manifest_hash.
     and_then (csrf_token H) (\<lambda>csrf.
     and_then (npm_call H FailedToDeletePackage (site POST (delete_path N package)
       (FormBody [(''package'', scoped N package), (''dsrManifestHash'', dsr_manifest_hash), (''csrftoken'', csrf)]))) (\<lambda>response.
     if nr_status response \<noteq> 302 then err (NpmError (NpmUnexpectedStatusCode (nr_status response)))
     else ok (serialize_empty_ok H))))))))"

definition add_user_to_team_payload :: "string \<Rightarrow> string \<Rightarrow> json" where
  "add_user_to_team_payload csrftoken user = JObject [(''csrftoken'', JString csrftoken), (''user'', JString user)]"

definition remove_user_payload :: "string \<Rightarrow> json" where
  "remove_user_payload csrftoken = JObject [(''csrftoken'', JString csrftoken)]"

definition npm_add_user_to_team where
  "npm_add_user_to_team H N params (pm :: plaid_module) =
     logged_in H N (
     and_then (ok_or BadRequest (de_team_user H params)) (\<lambda>params.
     and_then (lift (npm_validate H ''npm_username'' (aru_user params))) (\<lambda>user.
     and_then (lift (npm_validate H ''npm_team_name'' (aru_team params))) (\<lambda>team.
     and_then (csrf_token H) (\<lambda>csrf.
     and_then (ok_or (NpmError FailedToAddUserToTeam) (npm_to_string H (add_user_to_team_payload csrf user))) (\<lambda>body.
     on_200 H FailedToAddUserToTeam (plain_text (site POST (settings (npc_npm_scope N) @ ''/teams/team/'' @ team @ ''/users'') (TextBody body))) (\<lambda>_.
     ok (serialize_empty_ok H))))))))"

definition npm_remove_user_from_team where
  "npm_remove_user_from_team H N params (pm :: plaid_module) =
     logged_in H N (
     and_then (ok_or BadRequest (de_team_user H params)) (\<lambda>params.
     and_then (lift (npm_validate H ''npm_username'' (aru_user params))) (\<lambda>user.
     and_then (lift (npm_validate H ''npm_team_name'' (aru_team params))) (\<lambda>team.
     and_then (csrf_token H) (\<lambda>csrf.
     and_then (ok_or (NpmError FailedToRemoveUserFromTeam) (npm_to_string H (remove_user_payload csrf))) (\<lambda>body.
     on_200 H FailedToRemoveUserFromTeam (spiferack (plain_text (site POST
       (settings (npc_npm_scope N) @ ''/teams/team/'' @ team @ ''/users/'' @ user @ ''/delete'') (TextBody body)))) (\<lambda>_.
     ok (serialize_empty_ok H))))))))"

definition remove_user_from_organization where
  "remove_user_from_organization H N user (pm :: plaid_module) =
     and_then (lift (npm_validate H ''npm_username'' user)) (\<lambda>user.
     logged_in H N (
     and_then (csrf_token H) (\<lambda>csrf.
     on_200 H FailedToRemoveUserFromOrg (spiferack (site POST (settings (npc_npm_scope N) @ ''/members/'' @ user @ ''/delete'')
       (JsonBody (remove_user_payload csrf)))) (\<lambda>_.
     ok (serialize_empty_ok H)))))"

definition invite_user_to_organization_payload :: "string \<Rightarrow> string \<Rightarrow> string \<Rightarrow> json" where
  "invite_user_to_organization_payload csrftoken team user =
     JObject [(''csrftoken'', JString csrftoken), (''team'', JString team), (''user'', JObject [(''name'', JString user)])]"

definition invite_user_to_organization where
  "invite_user_to_organization H N params (pm :: plaid_module) =
     logged_in H N (
     and_then (ok_or BadRequest (de_invite H params)) (\<lambda>params.
     and_then (lift (npm_validate H ''npm_username'' (iuo_user params))) (\<lambda>user.
     and_then (lift (npm_validate H ''npm_team_name'' (or_default ''developers'' (iuo_team params)))) (\<lambda>team.
     and_then (csrf_token H) (\<lambda>csrf.
     and_then (ok_or (NpmError FailedToRetrieveUserList) (npm_to_string H (invite_user_to_organization_payload csrf team user))) (\<lambda>body.
     on_200 H FailedToInviteUserToOrg (spiferack (plain_text (site POST (settings (npc_npm_scope N) @ ''/invite/create'') (TextBody body)))) (\<lambda>_.
     ok (serialize_empty_ok H))))))))"

subsection \<open>Publishing\<close>

definition quote :: "string \<Rightarrow> string" where
  "quote s = [CHR 0x22] @ s @ [CHR 0x22]"

definition manifest_line :: "string \<Rightarrow> string \<Rightarrow> string" where
  "manifest_line k v = replicate 12 (CHR '' '') @ quote k @ '': '' @ quote v"

definition package_json_text :: "string \<Rightarrow> string \<Rightarrow> string \<Rightarrow> string" where
  "package_json_text pkg_scope pkg_name github_repo =
     ''{'' @ [CHR 0x0A] @ join ('','' @ [CHR 0x0A])
       [manifest_line ''name'' (''@'' @ pkg_scope @ ''/'' @ pkg_name), manifest_line ''version'' ''0.0.0'', manifest_line ''main'' [],
        manifest_line ''author'' [], manifest_line ''license'' ''ISC'',
        manifest_line ''repository'' (''git://github.com/'' @ github_repo @ ''.git''), manifest_line ''description'' []]
     @ [CHR 0x0A] @ replicate 12 (CHR '' '') @ ''}''"

definition create_package_tarball :: "'w npm_ops \<Rightarrow> string \<Rightarrow> string \<Rightarrow> string \<Rightarrow> api_error + (string \<times> bytes)" where
  "create_package_tarball H pkg_scope pkg_name github_repo =
     (let package_json = package_json_text pkg_scope pkg_name github_repo in
      case tar_gz H ''package/package.json'' (as_bytes package_json) of
        None \<Rightarrow> Inl (NpmError FailedToGenerateArchive)
      | Some data \<Rightarrow> Inr (package_json, data))"

definition sha1_hex :: "'w npm_ops \<Rightarrow> bytes \<Rightarrow> string" where
  "sha1_hex H data = concat (map byte_hex (sha1 H data))"

definition sha512_base64 :: "'w npm_ops \<Rightarrow> bytes \<Rightarrow> string" where
  "sha512_base64 H data = npm_base64 H (sha512 H data)"

definition pkg_version_json :: "'w npm_ops \<Rightarrow> string \<Rightarrow> pkg_manifest \<Rightarrow> bytes \<Rightarrow> json" where
  "pkg_version_json H scoped_pkg_name m tarball_data =
     JObject
       [(''name'', JString scoped_pkg_name), (''version'', JString (pm_version m)), (''main'', JString (pm_main m)),
        (''author'', JString (pm_author m)), (''license'', JString (pm_license m)),
        (''_id'', JString (scoped_pkg_name @ ''@'' @ pm_version m)), (''readme'', JString ''Empty''),
        (''_nodeVersion'', JString NODE_VERSION), (''_npmVersion'', JString NPM_VERSION),
        (''dist'', JObject
          [(''integrity'', JString (''sha512-'' @ sha512_base64 H tarball_data)), (''shasum'', JString (sha1_hex H tarball_data)),
           (''tarball'', JString (REGISTRY_URL @ ''/'' @ scoped_pkg_name @ ''/-/'' @ scoped_pkg_name @ ''-'' @ pm_version m @ ''.tgz''))])]"

definition pkg_metadata :: "'w npm_ops \<Rightarrow> string \<Rightarrow> pkg_manifest \<Rightarrow> string \<Rightarrow> bytes \<Rightarrow> json" where
  "pkg_metadata H scoped_pkg_name m access_level tarball_data =
     JObject
       [(''_id'', JString scoped_pkg_name), (''name'', JString scoped_pkg_name),
        (''dist-tags'', JObject [(''latest'', JString (pm_version m))]),
        (''versions'', JObject [(pm_version m, pkg_version_json H scoped_pkg_name m tarball_data)]),
        (''access'', JString access_level),
        (''_attachments'', JObject [(scoped_pkg_name @ ''-'' @ pm_version m @ ''.tgz'',
           JObject [(''content_type'', JString ''application/octet-stream''), (''data'', JString (npm_base64 H tarball_data)),
             (''length'', JInt (int (length tarball_data)))])])]"

definition slash_encoded :: "string \<Rightarrow> string" where
  "slash_encoded s = concat (map (\<lambda>c. if c = CHR ''/'' then ''%2f'' else [c]) s)"

definition publish_request :: "npm_config \<Rightarrow> string \<Rightarrow> json \<Rightarrow> http_request" where
  "publish_request N scoped_pkg_name metadata =
     \<lparr>hq_method = PUT, hq_url = REGISTRY_URL @ ''/'' @ slash_encoded scoped_pkg_name, hq_query = [],
      hq_headers = [(''Content-Type'', ''application/json''), (''Authorization'', ''Bearer '' @ npc_automation_token N),
        (''npm-auth-type'', ''web''), (''npm-command'', ''publish''), (''user-agent'', npc_user_agent N)],
      hq_body = JsonBody metadata\<rparr>"

definition publish_empty_stub where
  "publish_empty_stub H N params (pm :: plaid_module) =
     and_then (ok_or BadRequest (de_publish H params)) (\<lambda>params.
     and_then (lift (npm_validate H ''npm_package_name'' (pes_package_name params))) (\<lambda>package_name.
     and_then (lift (npm_validate H ''repository_name'' (pes_repo_name params))) (\<lambda>gh_repo.
     and_then (lift (create_package_tarball H (npc_npm_scope N) package_name gh_repo)) (\<lambda>(package_json, tarball_data).
     and_then (ok_or (NpmError FailedToGenerateArchive) (de_manifest H package_json)) (\<lambda>manifest.
     and_then (send_call (on_site (registry_send H)) (\<lambda>sent. if sent then Inr () else Inl (NpmError RegistryUploadError))
       (publish_request N (scoped N package_name)
          (pkg_metadata H (scoped N package_name) manifest (pkg_access_level_fmt (pes_access_level params)) tarball_data))) (\<lambda>_.
     ok (serialize_empty_ok H)))))))"

subsection \<open>Functions that read\<close>

text \<open>The items of a page; \<^verbatim>\<open>replace\<close> removes the quotes from the text of a JSON value.\<close>

definition json_array :: "json \<Rightarrow> json list option" where
  "json_array v = (case v of JArray vs \<Rightarrow> Some vs | _ \<Rightarrow> None)"

definition page_objects :: "json \<Rightarrow> json option" where
  "page_objects v = Option.bind (json_get ''list'' v) (json_get ''objects'')"

definition unquoted :: "'w npm_ops \<Rightarrow> json \<Rightarrow> string" where
  "unquoted H v = filter (\<lambda>c. c \<noteq> CHR 0x22) (npm_show H v)"

definition nested_name :: "string \<Rightarrow> json \<Rightarrow> string option" where
  "nested_name k v = Option.bind (Option.bind (json_get k v) (json_get ''name'')) json_as_str"

fun collect_options :: "'a option list \<Rightarrow> 'a list option" where
  "collect_options [] = Some []"
| "collect_options (x # xs) = Option.bind x (\<lambda>y. map_option ((#) y) (collect_options xs))"

definition users_from_paginated_response :: "'w npm_ops \<Rightarrow> json \<Rightarrow> npm_user list option" where
  "users_from_paginated_response H v =
     Option.bind (Option.bind (page_objects v) json_array) (\<lambda>users. collect_options (map (\<lambda>u.
       Option.bind (nested_name ''user'' u) (\<lambda>name.
       Option.bind (json_get ''role'' u) (\<lambda>r.
       Option.bind (npm_user_role_try_from (unquoted H r)) (\<lambda>role.
       Some \<lparr>nu_username = name, nu_role = role\<rparr>)))) users))"

definition packages_from_paginated_response :: "'w npm_ops \<Rightarrow> json \<Rightarrow> npm_package_with_permission list option" where
  "packages_from_paginated_response H v =
     Option.bind (Option.bind (page_objects v) json_array) (\<lambda>packages. collect_options (map (\<lambda>p.
       Option.bind (nested_name ''package'' p) (\<lambda>name.
       Option.bind (json_get ''permissions'' p) (\<lambda>r.
       Option.bind (npm_package_permission_try_from (unquoted H r)) (\<lambda>permission.
       Some \<lparr>np_package_name = name, np_permission = permission\<rparr>)))) packages))"

definition tokens_from_paginated_response :: "'w npm_ops \<Rightarrow> json \<Rightarrow> npm_token list option" where
  "tokens_from_paginated_response H v = Option.bind (page_objects v) (de_tokens H)"

definition fetch_items where
  "fetch_items H from_page r =
     and_then (expect_200 H FailedToRetrievePaginatedData r) (\<lambda>response.
     and_then (ok_or (NpmError FailedToRetrievePaginatedData) (Option.bind (nr_text response) (npm_json H))) (\<lambda>v.
     ok_or (NpmError FailedToRetrievePaginatedData) (from_page v)))"

definition first_page :: "string \<Rightarrow> http_request" where
  "first_page url = spiferack (http GET url)"

definition further_page :: "string \<Rightarrow> u32 \<Rightarrow> http_request" where
  "further_page url page_num = (first_page url)\<lparr>hq_query := [(''page'', show_int (sint page_num)), (''perPage'', ''10'')]\<rparr>"

text \<open>The number of a page is an \<^verbatim>\<open>i32\<close>, a word of 32 bits read with its sign. The loop ends only when the number of items is exactly the target: it takes fuel, and \<open>None\<close> is a loop that is still running.\<close>

fun page_loop ::
  "nat \<Rightarrow> 'w npm_ops \<Rightarrow> (json \<Rightarrow> 'a list option) \<Rightarrow> string \<Rightarrow> u64 \<Rightarrow> u32 \<Rightarrow> 'a list \<Rightarrow> ('w npm_world, 'a list option) api_call" where
  "page_loop 0 H from_page url target_num_items page_num all_items = ok None"
| "page_loop (Suc n) H from_page url target_num_items page_num all_items =
     and_then (fetch_items H from_page (further_page url page_num)) (\<lambda>items.
     let all_items = all_items @ items in
     if length all_items = unat target_num_items then ok (Some all_items)
     else page_loop n H from_page url target_num_items (page_num + 1) all_items)"

definition get_paginated_data_from_npm_website where
  "get_paginated_data_from_npm_website fuel H from_page url target_num_items =
     and_then (fetch_items H from_page (first_page url)) (\<lambda>all_items.
     if target_num_items \<le> 10 then
       if length all_items = unat target_num_items then ok (Some all_items) else err (NpmError FailedToRetrievePaginatedData)
     else page_loop fuel H from_page url target_num_items 1 all_items)"

definition response_total :: "'w npm_ops \<Rightarrow> npm_error \<Rightarrow> string \<Rightarrow> string \<Rightarrow> npm_response \<Rightarrow> ('v, u64) api_call" where
  "response_total H e k k' answer =
     and_then (ok_or (NpmError e) (Option.bind (nr_text answer) (npm_json H))) (\<lambda>v.
     ok_or (NpmError e) (Option.bind (Option.bind (json_get k v) (json_get k')) json_as_u64))"

text \<open>Fetching all items and serializing them; an error of the site is handed to the rule as a value.\<close>

definition serialize_items where
  "serialize_items H e serialize items =
     and_then (ok_or (NpmError e) (serialize items)) (\<lambda>s. ok (Some (serialize_from_str H s)))"

definition all_pages where
  "all_pages fuel H from_page url target_num_items k =
     and_then (attempt (get_paginated_data_from_npm_website fuel H from_page url target_num_items)) (\<lambda>r.
     case r of
       Inl e \<Rightarrow> ok (Some (serialize_from_err H e))
     | Inr None \<Rightarrow> ok None
     | Inr (Some items) \<Rightarrow> k items)"

definition logged_in_paged where
  "logged_in_paged H N k =
     and_then (attempt (login H N)) (\<lambda>r. case r of Inl e \<Rightarrow> ok (Some (serialize_from_err H e)) | Inr _ \<Rightarrow> k)"

definition paged_200 where
  "paged_200 H e r k =
     and_then (npm_call H e r) (\<lambda>response.
     if nr_status response \<noteq> 200 then ok (Some (handle_bad_response H response)) else k response)"

definition list_granular_tokens where
  "list_granular_tokens fuel H N (params :: string) (pm :: plaid_module) =
     logged_in_paged H N (
     paged_200 H FailedToListGranularTokens (spiferack (site GET (settings (npc_username N) @ ''/tokens'') NoBody)) (\<lambda>response.
     and_then (response_total H FailedToListGranularTokens ''list'' ''total'' response) (\<lambda>total_tokens.
     all_pages fuel H (tokens_from_paginated_response H) (NPMJS_COM_URL @ settings (npc_username N) @ ''/tokens'') total_tokens (\<lambda>tokens.
     serialize_items H FailedToListGranularTokens (ser_tokens H) (filter (\<lambda>v. nt_token_type v = Some ''granular'') tokens)))))"

definition get_org_user_list where
  "get_org_user_list fuel H N (params :: string) (pm :: plaid_module) =
     logged_in_paged H N (
     paged_200 H FailedToRetrieveUserList (spiferack (site GET (settings (npc_npm_scope N) @ ''/members'') NoBody)) (\<lambda>response.
     and_then (response_total H FailedToRetrieveUserList ''list'' ''total'' response) (\<lambda>total_users.
     all_pages fuel H (users_from_paginated_response H) (NPMJS_COM_URL @ settings (npc_npm_scope N) @ ''/members'') total_users
       (serialize_items H FailedToRetrieveUserList (ser_users H)))))"

definition get_org_users_without_2fa where
  "get_org_users_without_2fa fuel H N (params :: string) (pm :: plaid_module) =
     logged_in_paged H N (
     paged_200 H FailedToRetrieveUserList
       (spiferack ((site GET (settings (npc_npm_scope N) @ ''/members'') NoBody)\<lparr>hq_query := [(''selectedTab'', ''tfa_disabled'')]\<rparr>)) (\<lambda>response.
     and_then (response_total H FailedToRetrieveUserList ''memberCounts'' ''tfa_disabled'' response) (\<lambda>total_users.
     all_pages fuel H (users_from_paginated_response H)
       (NPMJS_COM_URL @ settings (npc_npm_scope N) @ ''/members?selectedTab=tfa_disabled'') total_users
       (serialize_items H FailedToRetrieveUserList (ser_users H)))))"

definition list_packages_with_team_permission where
  "list_packages_with_team_permission fuel H N params (pm :: plaid_module) =
     and_then (ok_or BadRequest (de_list_packages H params)) (\<lambda>params.
     and_then (lift (npm_validate H ''npm_team_name'' (lpt_team params))) (\<lambda>team.
     logged_in_paged H N (
     paged_200 H FailedToRetrievePackages
       (spiferack (site GET (settings (npc_npm_scope N) @ ''/teams/team/'' @ team @ ''/access'') NoBody)) (\<lambda>response.
     and_then (response_total H FailedToRetrievePackages ''list'' ''total'' response) (\<lambda>total_packages.
     all_pages fuel H (packages_from_paginated_response H)
       (NPMJS_COM_URL @ settings (npc_npm_scope N) @ ''/teams/team/'' @ team @ ''/access'') total_packages (\<lambda>packages.
     serialize_items H FailedToRetrievePackages (ser_packages H) (filter (\<lambda>v. np_permission v = lpt_permission params) packages)))))))"

definition get_token_details where
  "get_token_details H N params (pm :: plaid_module) =
     and_then (ok_or BadRequest (de_token_id H params)) (\<lambda>token_id.
     and_then (lift (npm_validate H ''token_id'' token_id)) (\<lambda>token_id.
     logged_in H N (
     on_200 H FailedToGetTokenDetails
       (spiferack (site GET (settings (npc_username N) @ ''/tokens/granular-access-tokens/'' @ token_id) NoBody)) (\<lambda>response.
     and_then (ok_or (NpmError FailedToGetTokenDetails) (Option.bind (nr_text response) (npm_json H))) (\<lambda>v.
     and_then (ok_or (NpmError FailedToGetTokenDetails) (Option.bind (json_get ''tokenDetails'' v) (reencode_details H))) (\<lambda>details.
     and_then (ok_or (NpmError FailedToGetTokenDetails) (npm_to_string H details)) (\<lambda>details.
     ok (serialize_from_str H details))))))))"

definition npm_string_functions where
  "npm_string_functions fuel H N params pm =
     (let finished = (\<lambda>m. and_then m (ok_or ImpossibleError)) in
     [(''publish_empty_stub'', publish_empty_stub H N params pm),
      (''set_team_permission_on_package'', set_team_permission_on_package H N params pm),
      (''create_granular_token_for_packages'', create_granular_token_for_packages H N params pm),
      (''delete_granular_token'', delete_granular_token H N params pm),
      (''list_granular_tokens'', finished (list_granular_tokens fuel H N params pm)),
      (''delete_package'', delete_package H N params pm),
      (''add_user_to_team'', npm_add_user_to_team H N params pm),
      (''remove_user_from_team'', npm_remove_user_from_team H N params pm),
      (''remove_user_from_organization'', remove_user_from_organization H N params pm),
      (''invite_user_to_organization'', invite_user_to_organization H N params pm),
      (''get_org_user_list'', finished (get_org_user_list fuel H N params pm)),
      (''get_org_users_without_2fa'', finished (get_org_users_without_2fa fuel H N params pm)),
      (''list_packages_with_team_permission'', finished (list_packages_with_team_permission fuel H N params pm)),
      (''get_token_details'', get_token_details H N params pm)])"

definition with_npm where
  "with_npm fuel H N = with_service ''npm'' None (\<lambda>_ _. []) (npm_string_functions fuel H N)"

subsection \<open>What the service may send\<close>

text \<open>
  The specification: the site gets the credentials only in the two forms of the login; every other request is for the
  configured user or scope, with what a rule passed only in the place of a team, a package, a user or a token, and of the
  characters of such names. Only the registry gets the token for publishing, for a package of the scope.
\<close>

definition npm_lower :: "char \<Rightarrow> bool" where
  "npm_lower c \<longleftrightarrow> between CHR ''a'' CHR ''z'' c \<or> between CHR ''0'' CHR ''9'' c \<or> c = CHR ''-'' \<or> c = CHR ''_''"

definition package_char :: "char \<Rightarrow> bool" where
  "package_char c \<longleftrightarrow> npm_lower c \<or> c = CHR ''.''"

definition team_char :: "char \<Rightarrow> bool" where
  "team_char c \<longleftrightarrow> is_alnum c \<or> c = CHR ''-'' \<or> c = CHR ''_''"

definition username_char :: "char \<Rightarrow> bool" where
  "username_char c \<longleftrightarrow> team_char c \<or> c = CHR ''.''"

definition token_id_char :: "char \<Rightarrow> bool" where
  "token_id_char c \<longleftrightarrow> between CHR ''a'' CHR ''f'' c \<or> between CHR ''0'' CHR ''9'' c \<or> c = CHR ''-''"

inductive npm_readable :: "npm_config \<Rightarrow> string \<Rightarrow> bool" for N where
  read_tokens: "npm_readable N (settings (npc_username N) @ ''/tokens'')"
| read_members: "npm_readable N (settings (npc_npm_scope N) @ ''/members'')"
| read_members_tab: "npm_readable N (settings (npc_npm_scope N) @ ''/members?selectedTab=tfa_disabled'')"
| read_team: "nonempty_of team_char team \<Longrightarrow> npm_readable N (settings (npc_npm_scope N) @ ''/teams/team/'' @ team @ ''/access'')"
| read_token: "nonempty_of token_id_char i \<Longrightarrow> npm_readable N (settings (npc_username N) @ ''/tokens/granular-access-tokens/'' @ i)"

inductive npm_permitted :: "npm_config \<Rightarrow> bool \<Rightarrow> http_request \<Rightarrow> bool" for N read_only where
  login_page: "npm_permitted N read_only (http GET (NPMJS_COM_URL @ ''/login''))"
| login_password: "npm_permitted N read_only (password_request N cs)"
| login_otp: "npm_permitted N read_only (otp_form otp cs)"
| site_read: "npm_readable N path \<Longrightarrow> hq_method r = GET \<Longrightarrow> hq_url r = NPMJS_COM_URL @ path \<Longrightarrow> hq_body r = NoBody \<Longrightarrow>
    hq_headers r = [(''X-Spiferack'', ''1'')] \<Longrightarrow> npm_permitted N read_only r"
| team_access: "\<not> read_only \<Longrightarrow> nonempty_of team_char team \<Longrightarrow> nonempty_of package_char package \<Longrightarrow>
    npm_permitted N read_only (site POST (settings (npc_npm_scope N) @ ''/teams/team/'' @ team @ ''/access'')
      (JsonBody (permission_change_payload csrf (scoped N package) permission)))"
| token_new: "\<not> read_only \<Longrightarrow> \<forall>package \<in> set packages. nonempty_of package_char package \<Longrightarrow>
    npm_permitted N read_only (spiferack (site POST (settings (npc_username N) @ ''/tokens/new-gat'')
      (JsonBody (generate_granular_token_payload N csrf packages specs))))"
| token_delete: "\<not> read_only \<Longrightarrow> nonempty_of token_id_char i \<Longrightarrow>
    npm_permitted N read_only (spiferack (site POST (settings (npc_username N) @ ''/tokens/delete'') (JsonBody (delete_token_payload csrf i))))"
| package_page: "\<not> read_only \<Longrightarrow> nonempty_of package_char package \<Longrightarrow> npm_permitted N read_only (site GET (delete_path N package) NoBody)"
| package_delete: "\<not> read_only \<Longrightarrow> nonempty_of package_char package \<Longrightarrow>
    npm_permitted N read_only (site POST (delete_path N package)
      (FormBody [(''package'', scoped N package), (''dsrManifestHash'', hash), (''csrftoken'', csrf)]))"
| team_add: "\<not> read_only \<Longrightarrow> nonempty_of team_char team \<Longrightarrow>
    npm_permitted N read_only (plain_text (site POST (settings (npc_npm_scope N) @ ''/teams/team/'' @ team @ ''/users'') (TextBody body)))"
| team_remove: "\<not> read_only \<Longrightarrow> nonempty_of team_char team \<Longrightarrow> nonempty_of username_char user \<Longrightarrow>
    npm_permitted N read_only (spiferack (plain_text (site POST
      (settings (npc_npm_scope N) @ ''/teams/team/'' @ team @ ''/users/'' @ user @ ''/delete'') (TextBody body))))"
| member_remove: "\<not> read_only \<Longrightarrow> nonempty_of username_char user \<Longrightarrow>
    npm_permitted N read_only (spiferack (site POST (settings (npc_npm_scope N) @ ''/members/'' @ user @ ''/delete'')
      (JsonBody (remove_user_payload csrf))))"
| invite: "\<not> read_only \<Longrightarrow>
    npm_permitted N read_only (spiferack (plain_text (site POST (settings (npc_npm_scope N) @ ''/invite/create'') (TextBody body))))"

inductive npm_step :: "'w npm_ops \<Rightarrow> npm_config \<Rightarrow> bool \<Rightarrow> plaid_module \<Rightarrow> 'w npm_world \<Rightarrow> 'w npm_world \<Rightarrow> bool" for H N read_only pm where
  npm_sends: "npm_permitted N read_only r \<Longrightarrow> npm_step H N read_only pm (t, w) (t, snd (npm_send H r w))"
| npm_publishes: "\<not> read_only \<Longrightarrow> nonempty_of package_char package \<Longrightarrow>
    npm_step H N read_only pm (t, w) (t, snd (registry_send H (publish_request N (scoped N package) metadata) w))"
| npm_clock: "npm_step H N read_only pm (t, w) (t, snd (npm_now H w))"
| npm_otp: "npm_step H N read_only pm (t, w) (t, snd (totp_current H (npc_otp_secret N) w))"
| npm_clears: "npm_step H N read_only pm (t, w) (t, snd (clear_jar H w))"
| npm_stamps: "npm_step H N read_only pm (t, w) (t', w)"

lemma npm_permitted_read_only: "npm_permitted N True r \<Longrightarrow> npm_permitted N False r"
  by (induction rule: npm_permitted.induct) (auto intro: npm_permitted.intros)

lemma npm_step_read_only: "npm_step H N True pm v v' \<Longrightarrow> npm_step H N False pm v v'"
  by (induction rule: npm_step.induct) (auto intro: npm_step.intros npm_permitted_read_only)

locale npm_patterns =
  fixes H :: "'w npm_ops"
  assumes package_pattern: "npm_is_match H NPM_PACKAGE_NAME s \<Longrightarrow> nonempty_of package_char s"
    and team_pattern: "npm_is_match H ''^[a-zA-Z0-9-_]+$'' s \<Longrightarrow> nonempty_of team_char s"
    and username_pattern: "npm_is_match H ''^[a-zA-Z0-9._-]+$'' s \<Longrightarrow> nonempty_of username_char s"
    and token_id_pattern: "npm_is_match H ''^[a-f0-9-]{36}$'' s \<Longrightarrow> nonempty_of token_id_char s"

lemma npm_validate_Inr:
  "npm_validate H validator v = Inr x \<longleftrightarrow> (\<exists>re. hm_get npm_validators validator = Some re \<and> npm_is_match H re v) \<and> x = v"
  by (auto simp: npm_validate_def split: option.splits)

context npm_patterns
begin

lemma validated:
  "npm_validate H ''npm_package_name'' v = Inr x \<Longrightarrow> nonempty_of package_char x"
  "npm_validate H ''npm_team_name'' v = Inr x \<Longrightarrow> nonempty_of team_char x"
  "npm_validate H ''npm_username'' v = Inr x \<Longrightarrow> nonempty_of username_char x"
  "npm_validate H ''token_id'' v = Inr x \<Longrightarrow> nonempty_of token_id_char x"
  by (auto simp: npm_validate_Inr npm_validators_def hm_get_def package_pattern team_pattern username_pattern token_id_pattern)

lemma packages_validated:
  "does R (check_all (\<lambda>v. lift (npm_validate H ''npm_package_name'' v)) xs) (\<lambda>_. \<forall>x \<in> set xs. nonempty_of package_char x)"
  by (rule does_check_all, rule does_lift) (metis npm_validate_Inr validated(1))

end

text \<open>The steps of the building blocks.\<close>

lemma does_on_site:
  "(\<And>t w. R (t, w) (t, snd (send r w))) \<Longrightarrow> does R (send_call (on_site send) answer r) (\<lambda>_. True)"
  unfolding does_def send_call_def on_site_def by (auto split: prod.split) (metis r_into_rtranclp snd_conv)

lemma does_npm_call: "npm_permitted N read_only r \<Longrightarrow> does (npm_step H N read_only pm) (npm_call H e r) (\<lambda>_. True)"
  unfolding npm_call_def by (rule does_on_site) (rule npm_sends)

lemma does_expect_200: "npm_permitted N read_only r \<Longrightarrow> does (npm_step H N read_only pm) (expect_200 H e r) (\<lambda>_. True)"
  unfolding expect_200_def by (intro does_intros does_then_any [OF does_npm_call] TrueI)

lemma does_on_200:
  "npm_permitted N read_only r \<Longrightarrow> (\<And>a. does (npm_step H N read_only pm) (k a) (\<lambda>_. True)) \<Longrightarrow>
    does (npm_step H N read_only pm) (on_200 H e r k) (\<lambda>_. True)"
  unfolding on_200_def by (intro does_intros does_then_any [OF does_npm_call] TrueI)

lemma does_paged_200:
  "npm_permitted N read_only r \<Longrightarrow> (\<And>a. does (npm_step H N read_only pm) (k a) (\<lambda>_. True)) \<Longrightarrow>
    does (npm_step H N read_only pm) (paged_200 H e r k) (\<lambda>_. True)"
  unfolding paged_200_def by (intro does_intros does_then_any [OF does_npm_call] TrueI)

lemma does_csrf_token: "does R (csrf_token H) (\<lambda>_. True)"
  by (auto simp: does_def csrf_token_def)

lemma does_attempt: "does R m (\<lambda>_. True) \<Longrightarrow> does R (attempt m) (\<lambda>_. True)"
  unfolding does_def attempt_def by (auto split: prod.split sum.split api_error.split) (metis snd_conv)+

lemma does_fresh_session: "does (npm_step H N read_only pm) (fresh_session H) (\<lambda>_. True)"
proof -
  have "(npm_step H N read_only pm)\<^sup>*\<^sup>* (t, w) (snd (fresh_session H (t, w)))" for t w
  proof (cases "poisoned t")
    case True
    then show ?thesis by (simp add: fresh_session_def)
  next
    case False
    obtain secs w1 where now: "npm_now H w = (secs, w1)" by force
    obtain locked w2 where clear: "clear_jar H w1 = (locked, w2)" by force
    have first: "npm_step H N read_only pm (t, w) (t, w1)" using npm_clock [of H N read_only pm t w] by (simp add: now)
    have second: "npm_step H N read_only pm (t, w1) (t, w2)" using npm_clears [of H N read_only pm t w1] by (simp add: clear)
    have "(npm_step H N read_only pm)\<^sup>*\<^sup>* (t, w) (t', w1)" "(npm_step H N read_only pm)\<^sup>*\<^sup>* (t, w) (t', w2)" for t'
      by (meson first second npm_stamps r_into_rtranclp rtranclp.rtrancl_into_rtrancl)+
    then show ?thesis using False by (simp add: fresh_session_def now clear Let_def split: option.split)
  qed
  then show ?thesis by (simp add: does_def split_paired_all)
qed

lemma does_totp: "does (npm_step H N read_only pm) (op_call (on_site (totp_current H) (npc_otp_secret N)) answer) (\<lambda>_. True)"
  using does_on_site [where R = "npm_step H N read_only pm" and send = "totp_current H", OF npm_otp, where answer = answer]
  by (simp add: does_def send_call_def op_call_def)

lemma does_login: "does (npm_step H N read_only pm) (login H N) (\<lambda>_. True)"
  unfolding login_def
  by (intro does_intros does_then_any [OF does_fresh_session] does_then_any [OF does_expect_200] does_then_any [OF does_totp]
      login_page login_password login_otp TrueI)

lemma does_logged_in:
  "does (npm_step H N read_only pm) k (\<lambda>_. True) \<Longrightarrow> does (npm_step H N read_only pm) (logged_in H N k) (\<lambda>_. True)"
  unfolding logged_in_def by (intro does_intros does_then_any [OF does_attempt [OF does_login]] TrueI)

lemma does_logged_in_paged:
  "does (npm_step H N read_only pm) k (\<lambda>_. True) \<Longrightarrow> does (npm_step H N read_only pm) (logged_in_paged H N k) (\<lambda>_. True)"
  unfolding logged_in_paged_def by (intro does_intros does_then_any [OF does_attempt [OF does_login]] TrueI)

lemmas npm_rules = does_intros does_then_any [OF does_csrf_token] does_logged_in does_logged_in_paged does_on_200 does_paged_200 TrueI

lemma fetch_items_does:
  "npm_readable N path \<Longrightarrow> does (npm_step H N read_only pm) (fetch_items H from_page (first_page (NPMJS_COM_URL @ path))) (\<lambda>_. True)"
  "npm_readable N path \<Longrightarrow> does (npm_step H N read_only pm) (fetch_items H from_page (further_page (NPMJS_COM_URL @ path) k)) (\<lambda>_. True)"
  unfolding fetch_items_def
  by (intro does_intros does_then_any [OF does_expect_200] TrueI, rule site_read, auto simp: first_page_def further_page_def spiferack_def)+

lemma page_loop_does:
  "npm_readable N path \<Longrightarrow> does (npm_step H N read_only pm) (page_loop fuel H from_page (NPMJS_COM_URL @ path) target k items) (\<lambda>_. True)"
proof (induction fuel arbitrary: k items)
  case (Suc n)
  then show ?case unfolding page_loop.simps by (intro does_intros does_then_any [OF fetch_items_does(2)] TrueI)
qed (simp add: does_ok)

lemma all_pages_does:
  assumes "npm_readable N path" and "\<And>items. does (npm_step H N read_only pm) (k items) (\<lambda>_. True)"
  shows "does (npm_step H N read_only pm) (all_pages fuel H from_page (NPMJS_COM_URL @ path) target k) (\<lambda>_. True)"
  unfolding all_pages_def get_paginated_data_from_npm_website_def
  by (rule does_then_any [OF does_attempt])
    (intro does_intros does_then_any [OF fetch_items_does(1)] page_loop_does assms TrueI)+

lemma serialize_items_does: "does R (serialize_items H e ser items) (\<lambda>_. True)"
  unfolding serialize_items_def by (intro does_intros TrueI)

lemma response_total_does: "does R (response_total H e k k' a) (\<lambda>_. True)"
  unfolding response_total_def by (intro does_intros TrueI)

lemma site_read_permitted:
  "npm_readable N path \<Longrightarrow> npm_permitted N read_only (spiferack (site GET path NoBody))"
  "npm_readable N path \<Longrightarrow> npm_permitted N read_only (spiferack ((site GET path NoBody)\<lparr>hq_query := q\<rparr>))"
  by (rule site_read, auto simp: spiferack_def site_def)+

lemmas npm_read_rules = npm_rules does_then_any [OF response_total_does] all_pages_does serialize_items_does site_read_permitted npm_readable.intros

lemma lists_do:
  "does (npm_step H N read_only pm) (list_granular_tokens fuel H N params pm) (\<lambda>_. True)"
  "does (npm_step H N read_only pm) (get_org_user_list fuel H N params pm) (\<lambda>_. True)"
  "does (npm_step H N read_only pm) (get_org_users_without_2fa fuel H N params pm) (\<lambda>_. True)"
  unfolding list_granular_tokens_def get_org_user_list_def get_org_users_without_2fa_def
  by (intro npm_read_rules)+

context npm_patterns
begin

lemma reading_functions_do:
  "does (npm_step H N read_only pm) (list_packages_with_team_permission fuel H N params pm) (\<lambda>_. True)"
  "does (npm_step H N read_only pm) (get_token_details H N params pm) (\<lambda>_. True)"
  unfolding list_packages_with_team_permission_def get_token_details_def
  by (intro npm_read_rules; erule validated)+

lemma changing_functions_do:
  "does (npm_step H N False pm) (set_team_permission_on_package H N params pm) (\<lambda>_. True)"
  "does (npm_step H N False pm) (delete_granular_token H N params pm) (\<lambda>_. True)"
  "does (npm_step H N False pm) (npm_add_user_to_team H N params pm) (\<lambda>_. True)"
  "does (npm_step H N False pm) (npm_remove_user_from_team H N params pm) (\<lambda>_. True)"
  "does (npm_step H N False pm) (remove_user_from_organization H N params pm) (\<lambda>_. True)"
  "does (npm_step H N False pm) (invite_user_to_organization H N params pm) (\<lambda>_. True)"
  unfolding set_team_permission_on_package_def delete_granular_token_def npm_add_user_to_team_def npm_remove_user_from_team_def
    remove_user_from_organization_def invite_user_to_organization_def
  by (intro npm_rules team_access token_delete team_add team_remove member_remove invite; (erule validated | simp))+

lemma delete_package_does: "does (npm_step H N False pm) (delete_package H N params pm) (\<lambda>_. True)"
  unfolding delete_package_def
  by (intro npm_rules does_then_any [OF does_npm_call] package_page package_delete; (erule validated | simp))

lemma create_granular_token_does: "does (npm_step H N False pm) (create_granular_token_for_packages H N params pm) (\<lambda>_. True)"
proof -
  have specs: "does R (validate_granular_token_specs H v) (\<lambda>_. True)" for R :: "'v \<Rightarrow> 'v \<Rightarrow> bool" and v
    unfolding validate_granular_token_specs_def validate_members_def
    by (intro does_intros does_then_any [OF does_check_all [where P = "\<lambda>_. True", simplified]] does_check_all [where P = "\<lambda>_. True", simplified] TrueI)
  show ?thesis
    unfolding create_granular_token_for_packages_def
    by (intro npm_rules does_and_then [OF packages_validated] does_then_any [OF specs] token_new) simp_all
qed

lemma publish_empty_stub_does: "does (npm_step H N False pm) (publish_empty_stub H N params pm) (\<lambda>_. True)"
  unfolding publish_empty_stub_def
  by (intro npm_rules does_then_any [OF does_on_site] npm_publishes; (erule validated | simp))

end

lemmas npm_decls = npm_functions_def api_fn_def ALLOW_IN_TEST_MODE_def DISALLOW_IN_TEST_MODE_def

context npm_patterns
begin

lemma is_service: "read_only_service ''npm'' None (\<lambda>_ _. []) (npm_string_functions fuel H N) npm_functions (npm_step H N)"
proof unfold_locales
  show "npm_step H N True pm v v' \<Longrightarrow> npm_step H N False pm v v'" for pm v v' by (rule npm_step_read_only)
qed (auto simp: npm_decls npm_string_functions_def Let_def reading_functions_do changing_functions_do delete_package_does
    create_granular_token_does publish_empty_stub_does intro!: does_then_any lists_do reading_functions_do does_ok_or)

end

text \<open>An engine for the patterns over ASCII satisfies the laws.\<close>

definition ascii_npm_match :: "string \<Rightarrow> string \<Rightarrow> bool" where
  "ascii_npm_match re s =
     (if re = NPM_PACKAGE_NAME then nonempty_of package_char s \<and> list_all (\<lambda>p. p \<noteq> []) (split_on (CHR ''.'') s)
      else if re = ''^[a-zA-Z0-9-_]+$'' then nonempty_of team_char s
      else if re = ''^[a-zA-Z0-9._-]+$'' then nonempty_of username_char s
      else if re = ''^[a-f0-9-]{36}$'' then nonempty_of token_id_char s \<and> length s = 36
      else False)"

definition sample_npm_ops :: "(http_request list) npm_ops" where
  "sample_npm_ops =
     \<lparr>npm_is_match = ascii_npm_match, npm_capture = (\<lambda>_ _. None),
      npm_send = (\<lambda>r w. (Some \<lparr>nr_status = 200, nr_retry_after = None, nr_cookies = [(''cs'', ''x'')],
        nr_text = Some (case hq_query r of [] \<Rightarrow> ''0'' | (_, p) # _ \<Rightarrow> p)\<rparr>, r # w)),
      registry_send = (\<lambda>r w. (True, r # w)), jar_cookies = (\<lambda>_. Some ''a=1; cs=x''), clear_jar = (\<lambda>w. (True, w)), npm_now = (\<lambda>w. (5, w)),
      totp_current = (\<lambda>_ w. (Some ''123456'', w)), tar_gz = (\<lambda>_. Some), sha1 = id, sha512 = id, npm_base64 = (\<lambda>_. []),
      npm_json = (\<lambda>t. Some (JString t)), npm_show = (\<lambda>_. []), npm_to_string = (\<lambda>_. Some []), ser_return = (\<lambda>_. ''{}''),
      de_set_team = (\<lambda>_. Some \<lparr>stp_team = ''t'', stp_package = ''p'', stp_permission = READ\<rparr>), de_create_token = (\<lambda>_. None), de_token_id = (\<lambda>_. None),
      de_team_user = (\<lambda>_. None), de_invite = (\<lambda>_. None), de_publish = (\<lambda>_. None), de_list_packages = (\<lambda>_. None), de_manifest = (\<lambda>_. None),
      de_tokens = (\<lambda>_. None), ser_tokens = (\<lambda>_. None), ser_users = (\<lambda>_. None), ser_packages = (\<lambda>_. None), reencode_details = (\<lambda>_. None)\<rparr>"

definition sample_npm_config :: npm_config where
  "sample_npm_config = \<lparr>npc_username = ''u'', npc_password = ''pw'', npc_otp_secret = ''o'', npc_automation_token = ''a'',
     npc_npm_scope = ''s'', npc_user_agent = ''ua''\<rparr>"

interpretation sample_npm: npm_patterns sample_npm_ops
  by unfold_locales (auto simp: sample_npm_ops_def ascii_npm_match_def NPM_PACKAGE_NAME_def split: if_splits)

subsection \<open>Properties\<close>

text \<open>
  What npm functions send. Whatever a rule passes to an npm function, the call sends the password and the one-time
  password only to the login of the npm website, the token for publishing only to the registry and for a package of the
  configured scope, and otherwise only the requests of the specification, for the configured user and scope. A rule in test
  mode only logs in and reads.
\<close>

theorem npm_requests_confined:
  assumes "npm_patterns H" and "d \<in> set npm_functions" and "v' = snd (snd (host_call W (with_npm fuel H N A) d env p n rp rn v))"
  shows "(npm_step H N (test_mode (env_module env)) (env_module env))\<^sup>*\<^sup>* v v'"
  unfolding assms(3) with_npm_def
  by (rule read_only_service.host_call_steps [OF npm_patterns.is_service [OF assms(1)] assms(2)])

theorem npm_requests_confined_witness:
  "let d = api_fn ''npm'' ''set_team_permission_on_package'' True DISALLOW_IN_TEST_MODE;
       v' = snd (snd (host_call flat_ops (with_npm 0 sample_npm_ops sample_npm_config idle_services) d sample_caller 0 0 0 4 (rwlock_new None, [])))
   in map hq_url (snd v') = [''https://www.npmjs.com/settings/s/teams/team/t/access'', ''https://www.npmjs.com/login/otp?next=%2F'',
        ''https://www.npmjs.com/login'', ''https://www.npmjs.com/login'']
    \<and> (npm_step sample_npm_ops sample_npm_config (test_mode (env_module sample_caller)) (env_module sample_caller))\<^sup>*\<^sup>* (rwlock_new None, []) v'"
proof -
  let ?d = "api_fn ''npm'' ''set_team_permission_on_package'' True DISALLOW_IN_TEST_MODE"
  have "?d \<in> set npm_functions" by (simp add: npm_functions_def)
  note npm_requests_confined [OF sample_npm.npm_patterns_axioms this refl, where W = flat_ops and fuel = 0 and N = sample_npm_config
      and A = idle_services and env = sample_caller and p = 0 and n = 0 and rp = 0 and rn = 4 and v = "(rwlock_new None, [])"]
  moreover have "npm_validate sample_npm_ops ''npm_team_name'' ''t'' = Inr ''t''" "npm_validate sample_npm_ops ''npm_package_name'' ''p'' = Inr ''p''"
    by (simp_all add: npm_validate_def npm_validators_def hm_get_def sample_npm_ops_def ascii_npm_match_def NPM_PACKAGE_NAME_def
        nonempty_of_def team_char_def package_char_def npm_lower_def char_class_defs)
  then have "map hq_url (snd (snd (snd (host_call flat_ops (with_npm 0 sample_npm_ops sample_npm_config idle_services) ?d sample_caller 0 0 0 4 (rwlock_new None, [])))))
      = [''https://www.npmjs.com/settings/s/teams/team/t/access'', ''https://www.npmjs.com/login/otp?next=%2F'',
        ''https://www.npmjs.com/login'', ''https://www.npmjs.com/login'']"
    by (simp add: host_call_def api_function_buffer_def api_prologue_def with_npm_def with_service_def api_fn_def npm_string_functions_def
        set_team_permission_on_package_def logged_in_def attempt_def login_def fresh_session_def expect_200_def on_200_def npm_call_def on_site_def
        csrf_token_def get_csrftoken_from_cookies_def password_request_def otp_form_def site_def settings_def NPMJS_COM_URL_def
        call_defs send_call_def op_call_def sample_npm_ops_def sample_npm_config_def idle_services_def
        sample_caller_def sample_env_def sample_module_def get_memory_def safely_get_string_def flat_read_string_def flat_read_def
        safely_write_data_back_def flat_write_def Let_def as_bytes_def DISALLOW_IN_TEST_MODE_def)
  ultimately show ?thesis by (simp add: Let_def)
qed

text \<open>The pages of a list of items: ten on each.\<close>

definition serves_pages :: "'w npm_ops \<Rightarrow> (json \<Rightarrow> 'a list option) \<Rightarrow> string \<Rightarrow> 'a list \<Rightarrow> bool" where
  "serves_pages H from_page url items \<longleftrightarrow> (\<forall>k \<le> length items div 10. \<forall>w. \<exists>a v.
     fst (npm_send H (if k = 0 then first_page url else further_page url (word_of_nat k)) w) = Some a \<and> nr_status a = 200
     \<and> Option.bind (nr_text a) (npm_json H) = Some v \<and> from_page v = Some (take 10 (drop (10 * k) items)))"

lemma fetch_items_answer:
  assumes "fst (npm_send H r w) = Some a" and "nr_status a = 200" and "Option.bind (nr_text a) (npm_json H) = Some j" and "from_page j = Some xs"
  shows "\<exists>v'. fetch_items H from_page r (t, w) = (Inr xs, v')"
proof -
  obtain w' where "npm_send H r w = (Some a, w')" using assms(1) by (metis prod.collapse)
  then show ?thesis
    by (simp add: fetch_items_def expect_200_def npm_call_def on_site_def send_call_def call_defs assms(2-))
qed

lemma fetch_items_page:
  assumes "serves_pages H from_page url items" and "k \<le> length items div 10"
  shows "\<exists>v'. fetch_items H from_page (if k = 0 then first_page url else further_page url (word_of_nat k)) v = (Inr (take 10 (drop (10 * k) items)), v')"
proof -
  obtain t w where v: "v = (t, w)" by force
  obtain a j where "fst (npm_send H (if k = 0 then first_page url else further_page url (word_of_nat k)) w) = Some a" "nr_status a = 200"
      "Option.bind (nr_text a) (npm_json H) = Some j" "from_page j = Some (take 10 (drop (10 * k) items))"
    using assms unfolding serves_pages_def by blast
  then show ?thesis unfolding v by (rule fetch_items_answer)
qed

lemma page_loop_complete:
  assumes "serves_pages H from_page url items" and "length items < 2 ^ 64"
  shows "0 < k \<Longrightarrow> 10 * k < length items \<Longrightarrow> length items div 10 < k + fuel \<Longrightarrow>
    fst (page_loop fuel H from_page url (word_of_nat (length items)) (word_of_nat k) (take (10 * k) items) v) = Inr (Some items)"
proof (induction fuel arbitrary: k v)
  case (Suc n)
  have target: "unat (word_of_nat (length items) :: u64) = length items" using assms(2) by (simp add: unat_word_of_nat_u64)
  have "k \<le> length items div 10" using Suc.prems(2) by linarith
  then obtain v' where page: "fetch_items H from_page (further_page url (word_of_nat k)) v = (Inr (take 10 (drop (10 * k) items)), v')"
    using fetch_items_page [OF assms(1), of k v] Suc.prems(1) by auto
  have items: "take (10 * k) items @ take 10 (drop (10 * k) items) = take (10 * Suc k) items"
    by (simp add: take_add [symmetric] add.commute)
  show ?case
  proof (cases "length items \<le> 10 * Suc k")
    case True
    then show ?thesis unfolding page_loop.simps and_then_def page by (simp add: items target call_defs)
  next
    case False
    then have "length (take (10 * Suc k) items) \<noteq> length items" by simp
    moreover have "fst (page_loop n H from_page url (word_of_nat (length items)) (word_of_nat (Suc k)) (take (10 * Suc k) items) v') = Inr (Some items)"
      using Suc.IH [of "Suc k" v'] Suc.prems False by simp
    moreover have "word_of_nat (Suc k) = (word_of_nat k :: u32) + 1" by simp
    ultimately show ?thesis unfolding page_loop.simps and_then_def page by (simp only: prod.case sum.case items target Let_def if_False)
  qed
qed simp

text \<open>
  Paginated lists are complete. If the npm website serves the pages of a list, ten items each, and says how many items
  there are, the requests return exactly the items of the list, in order, after as many further requests as it has pages.
\<close>

theorem paginated_data_complete:
  assumes "serves_pages H from_page url items" and "length items < 2 ^ 64" and "length items div 10 \<le> fuel"
  shows "fst (get_paginated_data_from_npm_website fuel H from_page url (word_of_nat (length items)) v) = Inr (Some items)"
proof -
  have target: "unat (word_of_nat (length items) :: u64) = length items" using assms(2) by (simp add: unat_word_of_nat_u64)
  then have le: "(word_of_nat (length items) :: u64) \<le> 10 \<longleftrightarrow> length items \<le> 10" by (simp add: word_le_nat_alt)
  obtain v' where page: "fetch_items H from_page (first_page url) v = (Inr (take 10 items), v')"
    using fetch_items_page [OF assms(1), of 0 v] by auto
  show ?thesis
  proof (cases "length items \<le> 10")
    case True
    then show ?thesis
      unfolding get_paginated_data_from_npm_website_def and_then_def page by (simp add: le target call_defs)
  next
    case False
    then have "fst (page_loop fuel H from_page url (word_of_nat (length items)) 1 (take 10 items) v') = Inr (Some items)"
      using page_loop_complete [OF assms(1,2), of 1 fuel v'] assms(3) by simp
    with False show ?thesis unfolding get_paginated_data_from_npm_website_def and_then_def page by (simp add: le)
  qed
qed

definition sample_page :: "json \<Rightarrow> nat list option" where
  "sample_page v = (case v of
     JString t \<Rightarrow> Some (take 10 (drop (10 * (if t = ''0'' then 0 else if t = ''1'' then 1 else 2)) [0..<25])) | _ \<Rightarrow> None)"

theorem paginated_data_complete_witness:
  "fst (get_paginated_data_from_npm_website 2 sample_npm_ops sample_page ''x'' 25 (rwlock_new None, [])) = Inr (Some [0..<25])"
proof -
  have chars: "char_of (49 :: nat) = CHR ''1''" "char_of (50 :: nat) = CHR ''2''" by code_simp+
  have "serves_pages sample_npm_ops sample_page ''x'' [0..<25]"
    unfolding serves_pages_def
  proof (intro allI impI)
    fix k w
    assume "k \<le> length [0..<25] div 10"
    then consider "k = 0" | "k = 1" | "k = 2" by fastforce
    then show "\<exists>a v. fst (npm_send sample_npm_ops (if k = 0 then first_page ''x'' else further_page ''x'' (word_of_nat k)) w) = Some a \<and> nr_status a = 200
        \<and> Option.bind (nr_text a) (npm_json sample_npm_ops) = Some v \<and> sample_page v = Some (take 10 (drop (10 * k) [0..<25]))"
      by cases (simp_all add: sample_npm_ops_def first_page_def further_page_def spiferack_def sample_page_def show_int_def decimal.simps digit_char_def chars)
  qed
  from paginated_data_complete [OF this, of 2 "(rwlock_new None, [])"] show ?thesis by simp
qed

text \<open>A loop that has more items than the target goes on until the site fails: it never returns items.\<close>

theorem overshooting_pages_never_end:
  "unat target < length items \<Longrightarrow> fst (page_loop fuel H from_page url target k items v) \<noteq> Inr (Some r)"
proof (induction fuel arbitrary: k items v)
  case (Suc n)
  then show ?case
    by (auto simp: and_then_Inr Let_def split: if_splits)
qed (simp add: call_defs)

end
