(* ===== verification/Spec2Isabelle.thy ===== *)
theory Spec2Isabelle
  imports Plaid_Storage_Runs Plaid_Storage_Conc Plaid_Logback Plaid_Loader Plaid_Messages Plaid_Executor
    Plaid_Cache Plaid_Generators Plaid_Webhooks Plaid_Interval Plaid_Websocket Plaid_Sqs
    Plaid_Guest Plaid_Network Plaid_Github_Safety Plaid_Aws Plaid_Web Plaid_Jira Plaid_Slack Plaid_Alerts
    Plaid_Chain Plaid_Crypto Plaid_Bigquery Plaid_Docs Plaid_Npm
begin

text \<open>
  Plaid runs rules, WebAssembly modules written with the library \<^verbatim>\<open>runtime/plaid-stl\<close>, on logs from webhooks and data
  generators. This development models the runtime \<^verbatim>\<open>runtime/plaid\<close>, the core of the rule library, and most of the
  services rules can call, and proves what makes them correct and safe against any rule.

  \<^bold>\<open>How the parts interact.\<close> A generator (\<^verbatim>\<open>src/data\<close>) or the web server (\<^verbatim>\<open>src/bin/plaid.rs\<close>) makes a message and sends
  it to a queue. A worker of the executor (\<^verbatim>\<open>src/executor\<close>) takes it and runs every module of its type that the loader
  (\<^verbatim>\<open>src/loader\<close>) has loaded. The module calls host functions (\<^verbatim>\<open>src/functions\<close>), which read and write its memory and
  act on the storage, the cache, the message queue (logbacks) and, through the services (\<^verbatim>\<open>src/apis\<close>), on the outside
  world. All of these share one environment, the record \<open>env\<close>.

  \<^bold>\<open>Conventions.\<close> Machine integers are words and wrap around as release builds do; strings are the bytes of their UTF-8
  encoding; hash maps are association lists in the unspecified order of their iterators; results are sums with the
  error on the left; a panic is a value of its own (\<open>None\<close> or a datatype). Crates and remote services are parameters:
  records of the operations the source calls, with the laws their documentation promises in a locale, interpreted on a
  concrete instance, at which the witnesses are evaluated. Clock readings, random numbers and answers of remote
  services are arguments or come from an unspecified world.

  \<^bold>\<open>Foundations.\<close>
  \<^item> \<open>Plaid_Prelude\<close>, \<open>Plaid_Text\<close>: words, hash maps, locks; UTF-8, decimals, splitting and trimming.
  \<^item> \<open>Plaid_Env\<close>: messages, budgets, modules, the environment (\<^verbatim>\<open>executor/mod.rs\<close>, \<^verbatim>\<open>loader/mod.rs\<close>, \<^verbatim>\<open>messages.rs\<close>).
  \<^item> \<open>Plaid_Memory\<close>: access to guest memory (\<^verbatim>\<open>functions/memory.rs\<close>) and error codes, over the locale of a WebAssembly memory.
  \<^item> \<open>Plaid_Lru\<close>: the interface of the crate \<^verbatim>\<open>lru\<close> as a locale, with an instance.

  \<^bold>\<open>Storage.\<close>
  \<^item> \<open>Plaid_Storage\<close>: \<^verbatim>\<open>storage/mod.rs\<close> and the in-memory backend, an interpretation of the locale \<open>storage_contract\<close>; it
    refines a family of maps; migrations.
  \<^item> \<open>Plaid_Storage_Fns\<close>, \<open>Plaid_Storage_Runs\<close>: the eight host functions of \<^verbatim>\<open>functions/storage.rs\<close> and any sequence of their
    calls by any modules: exact accounting, quotas, isolation, every outcome of a call.
  \<^item> \<open>Plaid_Storage_Conc\<close>: the same calls by interleaved threads as step relations, with the lock on the counter.

  \<^bold>\<open>Host functions and modules.\<close>
  \<^item> \<open>Plaid_Logback\<close>: logbacks and delayed logbacks (\<^verbatim>\<open>functions/internal.rs\<close>, \<^verbatim>\<open>data/internal/mod.rs\<close>): budgets are conserved,
    cascades are bounded, delivery is in time and intact.
  \<^item> \<open>Plaid_Messages\<close>: message data, secrets, headers, responses (\<^verbatim>\<open>functions/message.rs\<close>, \<^verbatim>\<open>runtime_data.rs\<close>, \<^verbatim>\<open>response.rs\<close>).
  \<^item> \<open>Plaid_Limits\<close>, \<open>Plaid_Loader\<close>: limits, signatures and loading (\<^verbatim>\<open>src/loader\<close>).
  \<^item> \<open>Plaid_Executor\<close>: workers, runs, persistent responses, GET responses (\<^verbatim>\<open>src/executor\<close>).
  \<^item> \<open>Plaid_Cache\<close>: both backends and the host functions of the cache (\<^verbatim>\<open>src/cache\<close>, \<^verbatim>\<open>functions/cache.rs\<close>).
  \<^item> \<open>Plaid_Api\<close>: the macros, the table of host functions and linking (\<^verbatim>\<open>functions/api.rs\<close>), test mode, what a result means, and the locale
    \<open>service\<close>: what a service keeps to, it keeps to behind the host functions.
  \<^item> \<open>Plaid_Guest\<close>: the rule library's entry points, storage, cache and logback functions composed with the host functions.

  \<^bold>\<open>Sources of messages.\<close>
  \<^item> \<open>Plaid_Generators\<close> (Okta and GitHub logs), \<open>Plaid_Sqs\<close>, \<open>Plaid_Interval\<close>, \<open>Plaid_Websocket\<close> (\<^verbatim>\<open>src/data\<close>): each log
    once, schedules, backoff.
  \<^item> \<open>Plaid_Webhooks\<close>: the handlers of the web server.

  \<^bold>\<open>Services.\<close> All are built on \<open>Plaid_Api_Base\<close>: JSON values, the errors of \<^verbatim>\<open>apis/mod.rs\<close>, calls as functions on the world, and a
  Hoare logic \<open>does R m Q\<close>: the call \<open>m\<close> changes the world only by steps of \<open>R\<close> and returns only values in \<open>Q\<close>. The safety
  of a service is a relation \<open>R\<close> written from its configuration, kept by every function whatever a rule passes.
  \<^item> \<open>Plaid_Network\<close> (\<^verbatim>\<open>apis/general\<close>): named requests are confined to their configuration.
  \<^item> \<open>Plaid_Github_Types\<close>, \<open>Plaid_Github\<close>, \<open>Plaid_Github_Safety\<close> (\<^verbatim>\<open>apis/github\<close>): all handlers; the requests of each are
    confined to a table of endpoints.
  \<^item> \<open>Plaid_Aws\<close> (\<^verbatim>\<open>apis/aws\<close>): KMS, DynamoDB and S3 under their access lists; JSON to attributes and back.
  \<^item> \<open>Plaid_Web\<close> (\<^verbatim>\<open>apis/web\<close>): tokens respect the configuration of their key.
  \<^item> \<open>Plaid_Jira\<close> (\<^verbatim>\<open>apis/jira\<close>): requests are confined to the projects of a rule, but for the two gaps that are stated; searches that are bounded return.
  \<^item> \<open>Plaid_Slack\<close> (\<^verbatim>\<open>apis/slack\<close>), \<open>Plaid_Alerts\<close> (\<^verbatim>\<open>apis/okta\<close>, \<^verbatim>\<open>apis/pagerduty\<close>, \<^verbatim>\<open>apis/splunk\<close>): credentials go only to the
    service they belong to.
  \<^item> \<open>Plaid_Chain\<close> (\<^verbatim>\<open>apis/blockchain\<close>): requests go only to configured nodes; one healthy node is enough for a call
    that has the selector to itself.
  \<^item> \<open>Plaid_Crypto\<close> (\<^verbatim>\<open>apis/cryptography\<close>, \<^verbatim>\<open>apis/yubikey\<close>, \<^verbatim>\<open>apis/rustica\<close>): AES round trips under the permissions of
    keys; the status of a one-time password is authentic.
  \<^item> \<open>Plaid_Bigquery\<close>, \<open>Plaid_Docs\<close> (\<^verbatim>\<open>apis/gcp\<close>): queries and folders are used only as granted; the text of a query is
    free of values; a query returns.
  \<^item> \<open>Plaid_Npm\<close> (\<^verbatim>\<open>apis/npm\<close>): the requests of each function are confined to a table of endpoints; paging is complete.

  \<^bold>\<open>Composition.\<close> This theory joins the storage and the loader: from any boot, over any backend that keeps the storage
  contract and whatever it holds, whatever the modules call, counters are exact and quotas kept.

  \<^bold>\<open>Termination and fuel.\<close> Loops of the source are recursive functions with a measure; loops over answers of a remote
  service recurse over the list of its answers or take fuel, and the theorems say how much is enough. No theorem assumes
  that a loop returns.

  \<^bold>\<open>Not modelled.\<close> The storage backends on \<^verbatim>\<open>sled\<close> and DynamoDB (\<^verbatim>\<open>storage/sled\<close>, \<^verbatim>\<open>storage/dynamodb\<close>) are calls into those
  products; the theorems on booting and loading hold for every backend that satisfies \<open>storage_contract\<close>,
  the others that involve storage are stated for the in-memory one. Logging, metrics and the
  command-line tools only produce output. Bloom filters (\<^verbatim>\<open>apis/bloom_filter\<close>)
  are calls into a crate that may panic on what a rule passes; in \<open>Plaid_Executor\<close> a call that panics is an outcome, which ends
  the process. Of the rule library, the wrappers of the services are not modelled.
\<close>

section \<open>From boot to running modules\<close>

text \<open>
  What \<^verbatim>\<open>Storage::new\<close> and \<^verbatim>\<open>load\<close> establish together: the invariant under which the modules run.
  The names of modules end in \<^verbatim>\<open>.wasm\<close> and those of shared databases must not, so no module can own the
  namespace of a shared database; and every counter starts as the byte size of its namespace.
\<close>

definition boot_sys :: "'d storage \<Rightarrow> plaid_modules \<Rightarrow> 'd sys" where
  "boot_sys st ms = \<lparr>sys_storage = st, sys_modules = pms_modules ms\<rparr>"

context storage_contract
begin

lemma storage_new_dbs:
  assumes "storage_new sled_new dynamodb_new im_new config = Inr st" and "vtable st = P" and "inv (database st)"
    and "shared_dbs st = Some dbs" and "hm_get dbs ns = Some db"
  shows "\<not> suffix ''.wasm'' ns \<and> accounted (contents (database st) ns) (size_limit (sdb_config db)) (used_storage db)"
proof -
  obtain cs where cs: "collect_results (map (\<lambda>(n, c). init_shared_db n c P (database st)) cs) = Inr dbs"
    using assms(1,2,4) by (auto simp: storage_new_def split: sum.splits option.splits prod.splits)
  then have all: "map (\<lambda>(n, c). init_shared_db n c P (database st)) cs = map Inr dbs"
    by (simp add: collect_results_Inr)
  have "(Inr (ns, db) :: storage_error + _) \<in> set (map Inr dbs)" using assms(5) by (auto dest: hm_get_Some_in_set)
  then obtain n c where "init_shared_db n c P (database st) = Inr (ns, db)"
    unfolding all [symmetric] by auto
  from init_shared_db_correct [OF assms(3) this] show ?thesis
    by (auto simp: accounted_def split: limit_value.splits)
qed

lemma boot_sys_inv:
  assumes "storage_new sled_new dynamodb_new im_new config = Inr st" and "vtable st = P" and "inv (database st)"
    and "load K read_dir module_new completed paths lconfig (Some st) = Inr ms"
    and "distinct (path_names paths)" and "\<And>pms. mset (completed pms) = mset pms"
  shows "sys_inv P contents inv (boot_sys st ms)"
proof -
  obtain pms where pms: "ms = fold add_module pms \<lparr>pms_channels = [], pms_modules = []\<rparr>"
    "distinct (map mod_name pms)" "\<forall>pm \<in> set pms. module_ok K read_dir lconfig paths pm"
    "\<forall>pm \<in> set pms. storage_get_namespace_byte_size st (mod_name pm) = Inr (lock_val (storage_current pm))"
    using assms(4-6) by (rule load_modules_list)
  note get = load_modules_get [OF pms(2), folded pms(1)]
  have dbs: "sys_dbs (boot_sys st ms) = (case shared_dbs st of None \<Rightarrow> [] | Some dbs \<Rightarrow> dbs)"
    by (simp add: sys_dbs_def boot_sys_def)
  have db: "\<not> suffix ''.wasm'' ns \<and> accounted (contents (database st) ns) (size_limit (sdb_config db)) (used_storage db)"
    if "hm_get (sys_dbs (boot_sys st ms)) ns = Some db" for ns db
    using that storage_new_dbs [OF assms(1-3)] by (simp add: dbs split: option.splits)
  have "hm_get (sys_dbs (boot_sys st ms)) (mod_name pm) = None" if "pm \<in> set pms" for pm
    using pms(3) that db [of "mod_name pm"] by (cases "hm_get (sys_dbs (boot_sys st ms)) (mod_name pm)") (auto simp: module_ok_def)
  moreover have "accounted (contents (database st) (mod_name pm)) (storage_limit pm) (storage_current pm)" if "pm \<in> set pms" for pm
    using pms(4) that byte_size_correct [OF assms(3)] assms(2)
    by (auto simp: accounted_def storage_get_namespace_byte_size_def split: limit_value.splits)
  ultimately show ?thesis
    using assms(2,3) db unfolding sys_inv_def by (auto simp: get boot_sys_def)
qed

end

subsection \<open>Properties\<close>

text \<open>
  C7. Accounting from boot. On a runtime that has booted with a storage backend that satisfies \<open>storage_contract\<close>, whatever
  shared databases are configured and whatever the backend already holds, and after any sequence of storage calls by the
  loaded modules: the counter of every limited namespace is the number of bytes it holds, and a namespace within its limit at
  boot is still within it.
\<close>

theorem boot_storage_safe:
  assumes "storage_contract P contents valid"
    and "storage_new sled_new dynamodb_new im_new config = Inr st" and "vtable st = P" and "valid (database st)"
    and "load K read_dir module_new completed paths lconfig (Some st) = Inr ms"
    and "distinct (path_names paths)" and "\<forall>pms. mset (completed pms) = mset pms"
    and "wasm_mem_ok W" and "s' = sys_run W J env0 turns (boot_sys st ms)" and "sys_limit s' ns = Limited lim"
  shows "lock_val (sys_counter s' ns) = word_of_nat (map_bytes (sys_contents contents s' ns))
   \<and> (unat lim + 2 ^ 33 \<le> 2 ^ 64 \<longrightarrow> map_bytes (contents (database st) ns) \<le> unat lim \<longrightarrow>
        map_bytes (sys_contents contents s' ns) \<le> unat lim)"
proof -
  note backend = storage_contract.sys_run_limit [OF assms(1)] storage_contract.sys_run_accounted [OF assms(1)]
    storage_contract.sys_run_quota [OF assms(1)]
  have inv: "sys_inv P contents valid (boot_sys st ms)"
    using assms(7) by (intro storage_contract.boot_sys_inv [OF assms(1-6)]) blast
  have lim: "sys_limit (boot_sys st ms) ns = Limited lim"
    using backend(1) [OF assms(8) inv, of J env0 turns] assms(9,10) by simp
  show ?thesis
    using backend(2) [OF assms(8) inv, of J env0 turns ns] backend(3) [OF assms(8) inv, of ns J env0 turns] assms(9,10) lim
    by (simp add: accounted_def limit_sane_def within_quota_def boot_sys_def)
qed

theorem boot_storage_safe_witness:
  "\<exists>ms. load sample_crypto sample_sig_dir (\<lambda>b. Inr [''storage_get'', ''__wbindgen_throw'']) (\<lambda>ms. ms) sample_paths
     sample_config (Some sample_stored) = Inr ms
   \<and> (let s' = sys_run flat_ops (\<lambda>_. None) sample_env [(''okta_a.wasm'', sample_memory, CInsert 0 1 1 2 0 0)] (boot_sys sample_stored ms)
      in lock_val (sys_counter s' ''okta_a.wasm'') = word_of_nat (map_bytes (sys_contents im_contents s' ''okta_a.wasm''))
       \<and> map_bytes (sys_contents im_contents s' ''okta_a.wasm'') \<le> 100)"
proof -
  let ?turns = "[(''okta_a.wasm'', sample_memory, CInsert 0 1 1 2 0 0)]"
  obtain ms pm where ms: "load sample_crypto sample_sig_dir (\<lambda>b. Inr [''storage_get'', ''__wbindgen_throw'']) (\<lambda>ms. ms) sample_paths
     sample_config (Some sample_stored) = Inr ms" "get_module ms ''okta_a.wasm'' = Some pm" "storage_limit pm = Limited 100"
    using sample_load [OF sample_stored(4)] by blast
  have new: "storage_new (\<lambda>d. Inr (in_memory_provider, d)) (\<lambda>_. Inl ''none'') (in_memory_provider, in_memory_new)
      (\<lparr>cfg_db = Some (Sled (database sample_stored)), cfg_shared_dbs = None\<rparr> :: (in_memory_db, unit) storage_config) = Inr sample_stored"
    by (simp add: storage_new_def sample_stored_def)
  have paths: "distinct (path_names sample_paths)"
    by (simp add: path_names_def sample_paths_def List.map_filter_simps)
  have inv: "sys_inv in_memory_provider im_contents im_inv (boot_sys sample_stored ms)"
    by (rule im.boot_sys_inv [OF new sample_stored(1,2) ms(1) paths]) simp
  have "sys_limit (boot_sys sample_stored ms) ''okta_a.wasm'' = Limited 100"
    using ms(2,3) by (simp add: sys_limit_def boot_sys_def get_module_def)
  then have "sys_limit (sys_run flat_ops (\<lambda>_. None) sample_env ?turns (boot_sys sample_stored ms)) ''okta_a.wasm'' = Limited 100"
    by (simp only: im.sys_run_limit [OF wasm_mem_ok_flat inv])
  from boot_storage_safe [OF im.storage_contract_axioms new sample_stored(1,2) ms(1) paths _ wasm_mem_ok_flat refl this] show ?thesis
    using ms(1) sample_stored(3) by (intro exI [of _ ms]) (simp add: Let_def)
qed

end
